(* ===== verification/Prelude.thy ===== *)
theory Prelude
  imports Main
begin

text \<open>
  Shared vocabulary of the development: the strings and numbers of the source language,
  the exceptions a service may throw, the meaning of the table queries the services issue,
  and the \<^emph>\<open>claim\<close> interface that several services rely on for idempotence.

  \<^item> Strings are \<^typ>\<open>string\<close>; a character stands for one code unit of the source.
  \<^item> Instants are integers, milliseconds since the epoch, as \<^verbatim>\<open>Date.getTime()\<close> gives them.
  \<^item> A handler maps the application state to a new state and a result; a thrown exception
    is \<^term>\<open>Inl\<close>, and the state that comes with it is what was committed before the throw.
  \<^item> A table is the list of its rows in insertion order. \<^term>\<open>None\<close> is SQL's NULL.
\<close>

named_theorems svc_defs \<open>definitions of handlers, unfolded by the functional lemmas\<close>
named_theorems table_simps \<open>rewrite rules for table queries\<close>
named_theorems frame_simps \<open>fields an operation leaves unchanged\<close>

type_synonym uuid = string
type_synonym instant = int

section \<open>Exceptions\<close>

text \<open>
  The HTTP exceptions the services throw with their message, the two database errors the
  services distinguish (\<^verbatim>\<open>P2002\<close> unique violation, with the columns of the violated
  constraint, and \<^verbatim>\<open>P2025\<close> row not found), and any other error.
\<close>

datatype exn =
    BadRequest string
  | Unauthorized string
  | Forbidden string
  | NotFound string
  | Conflict string
  | TooManyRequests string
  | ServiceUnavailable string
  | P2002 "string list"
  | P2025
  | OtherError string

type_synonym 'a res = "exn + 'a"

definition is_P2002 :: "exn \<Rightarrow> bool" where
  "is_P2002 e = (case e of P2002 _ \<Rightarrow> True | _ \<Rightarrow> False)"

lemma is_P2002_simps [simp]:
  "is_P2002 (P2002 ks)" "\<not> is_P2002 (Conflict m)" "\<not> is_P2002 (NotFound m)"
  "\<not> is_P2002 (BadRequest m)" "\<not> is_P2002 P2025" "\<not> is_P2002 (Unauthorized m)"
  by (simp_all add: is_P2002_def)

section \<open>Optional properties of a request\<close>

text \<open>
  A property the client left out is \<^verbatim>\<open>undefined\<close>; a JSON null passes \<^verbatim>\<open>@IsOptional\<close> and reaches the
  service as \<^verbatim>\<open>null\<close>, which \<^verbatim>\<open>=== undefined\<close> does not catch. A column is NULL for both.
\<close>

datatype 'a supplied = Undefined | Null | Given 'a

definition column_of :: "'a supplied \<Rightarrow> 'a option" where
  "column_of x = (case x of Given v \<Rightarrow> Some v | _ \<Rightarrow> None)"

lemma column_of_simps [simp]:
  "column_of Undefined = None" "column_of Null = None" "column_of (Given v) = Some v"
  by (simp_all add: column_of_def)

section \<open>Handlers\<close>

text \<open>
  Sequencing of the steps of a handler: a throw skips the rest. \<open>retry\<close> is the bounded loop
  that re-runs a step after a unique violation (\<^verbatim>\<open>for (attempt < n) try ... catch P2002\<close>),
  rethrowing on the last attempt; the step is told the number of its attempt.
\<close>

type_synonym ('s, 'a) handler = "'s \<Rightarrow> 's \<times> 'a res"

definition bindE :: "('s, 'a) handler \<Rightarrow> ('a \<Rightarrow> ('s, 'b) handler) \<Rightarrow> ('s, 'b) handler" where
  "bindE m f s = (case m s of (s', Inl e) \<Rightarrow> (s', Inl e) | (s', Inr v) \<Rightarrow> f v s')"

definition returnE :: "'a \<Rightarrow> ('s, 'a) handler" where
  "returnE v s = (s, Inr v)"

definition throwE :: "exn \<Rightarrow> ('s, 'a) handler" where
  "throwE e s = (s, Inl e)"

definition liftE :: "'a res \<Rightarrow> ('s, 'a) handler" where
  "liftE r s = (s, r)"

fun retry_from :: "nat \<Rightarrow> nat \<Rightarrow> (nat \<Rightarrow> ('s, 'a) handler) \<Rightarrow> ('s, 'a) handler" where
  "retry_from 0 attempt body s = (s, Inl (OtherError ''unreachable''))"
| "retry_from (Suc k) attempt body s = (case body attempt s of
       (s', Inr v) \<Rightarrow> (s', Inr v)
     | (s', Inl e) \<Rightarrow> if is_P2002 e \<and> k \<noteq> 0 then retry_from k (Suc attempt) body s' else (s', Inl e))"

definition retry :: "nat \<Rightarrow> (nat \<Rightarrow> ('s, 'a) handler) \<Rightarrow> ('s, 'a) handler" where
  "retry n body = retry_from n 0 body"

lemma bindE_Inr:
  assumes "bindE m f s = (s', Inr v)"
  obtains s1 a where "m s = (s1, Inr a)" "f a s1 = (s', Inr v)"
  using assms by (auto simp: bindE_def split: prod.splits sum.splits)

lemma bindE_Inl:
  assumes "bindE m f s = (s', Inl e)"
  obtains (first) "m s = (s', Inl e)" | (rest) s1 a where "m s = (s1, Inr a)" "f a s1 = (s', Inl e)"
  using assms by (auto simp: bindE_def split: prod.splits sum.splits)

lemma bindE_simps [simp]:
  "m s = (s1, Inr a) \<Longrightarrow> bindE m f s = f a s1"
  "m s = (s1, Inl e) \<Longrightarrow> bindE m f s = (s1, Inl e)"
  by (simp_all add: bindE_def)

lemma retry_from_cases:
  assumes "retry_from k a body s = (s', r)" and "k \<noteq> 0"
    and "\<And>j t t' e. body j t = (t', Inl e) \<Longrightarrow> R s t \<Longrightarrow> R s t'" and "R s s"
  shows "\<exists>j t. a \<le> j \<and> j < a + k \<and> R s t \<and> body j t = (s', r)"
proof -
  have "R s t \<Longrightarrow> retry_from k a body t = (s', r) \<Longrightarrow> k \<noteq> 0 \<Longrightarrow>
      \<exists>j t. a \<le> j \<and> j < a + k \<and> R s t \<and> body j t = (s', r)" for t
  proof (induction k arbitrary: a t)
    case (Suc k)
    show ?case
    proof (cases "body a t")
      case (Pair t1 r1)
      show ?thesis
      proof (cases "\<exists>e. r1 = Inl e \<and> is_P2002 e \<and> k \<noteq> 0")
        case True
        then obtain e where e: "r1 = Inl e" "is_P2002 e" "k \<noteq> 0" by blast
        have "R s t1" using assms(3) Pair e(1) Suc.prems(1) by blast
        moreover have "retry_from k (Suc a) body t1 = (s', r)" using Suc.prems(2) Pair e by simp
        ultimately obtain j u where "Suc a \<le> j" "j < Suc a + k" "R s u" "body j u = (s', r)"
          using Suc.IH e(3) by blast
        then show ?thesis by (intro exI [of _ j] exI [of _ u]) simp
      next
        case False
        then have "body a t = (s', r)" using Suc.prems(2) Pair by (auto split: sum.splits if_splits)
        then show ?thesis using Suc.prems(1) by (intro exI [of _ a] exI [of _ t]) simp
      qed
    qed
  qed simp
  with assms(1,2,4) show ?thesis by blast
qed

section \<open>Characters, digits and decimal numbers\<close>

definition char_code :: "char \<Rightarrow> nat" where
  "char_code c = of_char c"

definition is_digit :: "char \<Rightarrow> bool" where
  "is_digit c \<longleftrightarrow> 48 \<le> char_code c \<and> char_code c \<le> 57"

definition is_upper :: "char \<Rightarrow> bool" where
  "is_upper c \<longleftrightarrow> 65 \<le> char_code c \<and> char_code c \<le> 90"

definition is_lower :: "char \<Rightarrow> bool" where
  "is_lower c \<longleftrightarrow> 97 \<le> char_code c \<and> char_code c \<le> 122"

definition is_space :: "char \<Rightarrow> bool" where
  "is_space c \<longleftrightarrow> char_code c = 32 \<or> (9 \<le> char_code c \<and> char_code c \<le> 13)"

definition to_upper :: "char \<Rightarrow> char" where
  "to_upper c = (if is_lower c then char_of (char_code c - 32) else c)"

definition to_lower :: "char \<Rightarrow> char" where
  "to_lower c = (if is_upper c then char_of (char_code c + 32) else c)"

definition toUpperCase :: "string \<Rightarrow> string" where
  "toUpperCase s = map to_upper s"

definition toLowerCase :: "string \<Rightarrow> string" where
  "toLowerCase s = map to_lower s"

definition trim :: "string \<Rightarrow> string" where
  "trim s = rev (dropWhile is_space (rev (dropWhile is_space s)))"

definition startsWith :: "string \<Rightarrow> string \<Rightarrow> bool" where
  "startsWith s p \<longleftrightarrow> take (length p) s = p"

definition contains_str :: "string \<Rightarrow> string \<Rightarrow> bool" where
  "contains_str s t \<longleftrightarrow> (\<exists>i \<in> set [0..<Suc (length s)]. take (length t) (drop i s) = t)"

text \<open>Outside ASCII a character is written as its UTF-8 bytes.\<close>

definition em_dash :: string where
  "em_dash = [CHR 0xE2, CHR 0x80, CHR 0x94]"

definition slice :: "nat \<Rightarrow> nat \<Rightarrow> 'a list \<Rightarrow> 'a list" where
  "slice i j xs = take (j - i) (drop i xs)"

definition padStart :: "nat \<Rightarrow> char \<Rightarrow> string \<Rightarrow> string" where
  "padStart w c s = replicate (w - length s) c @ s"

definition digit_char :: "nat \<Rightarrow> char" where
  "digit_char d = char_of (48 + d)"

definition digit_val :: "char \<Rightarrow> nat" where
  "digit_val c = char_code c - 48"

fun show_nat :: "nat \<Rightarrow> string" where
  "show_nat n = (if n < 10 then [digit_char n] else show_nat (n div 10) @ [digit_char (n mod 10)])"

declare show_nat.simps [simp del]

definition show_int :: "int \<Rightarrow> string" where
  "show_int i = (if i < 0 then CHR ''-'' # show_nat (nat (- i)) else show_nat (nat i))"

definition digits_val :: "string \<Rightarrow> nat" where
  "digits_val ds = foldl (\<lambda>a c. 10 * a + digit_val c) 0 ds"

text \<open>
  \<^verbatim>\<open>Number.parseInt(s, 10)\<close>: leading white space and one sign are skipped, the longest
  run of digits is read, and \<^term>\<open>None\<close> stands for NaN. Values stay exact: the strings the
  services parse are short enough for the source's doubles to be exact too.
\<close>

definition parse_sign :: "string \<Rightarrow> bool \<times> string" where
  "parse_sign t = (case t of
       [] \<Rightarrow> (False, [])
     | c # r \<Rightarrow> if c = CHR ''-'' then (True, r) else if c = CHR ''+'' then (False, r) else (False, t))"

definition parseInt10 :: "string \<Rightarrow> int option" where
  "parseInt10 s =
     (let (neg, u) = parse_sign (dropWhile is_space s); ds = takeWhile is_digit u
      in if ds = [] then None
         else Some (if neg then - int (digits_val ds) else int (digits_val ds)))"

lemma startsWith_append [simp]: "startsWith (p @ s) p"
  by (simp add: startsWith_def)

lemma startsWith_iff: "startsWith s p \<longleftrightarrow> (\<exists>t. s = p @ t)"
  by (metis append_take_drop_id startsWith_append startsWith_def)

lemma slice_length: "length (slice i j xs) \<le> j - i"
  by (simp add: slice_def)

lemma char_code_digit_char [simp]: "d < 10 \<Longrightarrow> char_code (digit_char d) = 48 + d"
  by (simp add: char_code_def digit_char_def of_char_of)

lemma is_digit_digit_char [simp]: "d < 10 \<Longrightarrow> is_digit (digit_char d)"
  by (simp add: is_digit_def)

lemma digit_val_digit_char [simp]: "d < 10 \<Longrightarrow> digit_val (digit_char d) = d"
  by (simp add: digit_val_def)

lemma show_nat_digits: "\<forall>c \<in> set (show_nat n). is_digit c"
proof (induction n rule: show_nat.induct)
  case (1 n)
  then show ?case
    by (cases "n < 10") (auto simp: show_nat.simps [of n])
qed

lemma show_nat_nonempty [simp]: "show_nat n \<noteq> []"
  by (subst show_nat.simps) simp

lemma digits_val_snoc [simp]: "digits_val (ds @ [c]) = 10 * digits_val ds + digit_val c"
  by (simp add: digits_val_def)

lemma digits_val_Nil [simp]: "digits_val [] = 0"
  by (simp add: digits_val_def)

text \<open>Evaluation of the first few numbers, for concrete inputs.\<close>

lemma show_nat_small [simp]:
  "show_nat 0 = ''0''" "show_nat (Suc 0) = ''1''" "show_nat 1 = ''1''" "show_nat 2 = ''2''" "show_nat 3 = ''3''"
  "show_nat 4 = ''4''" "show_nat 5 = ''5''" "show_nat 6 = ''6''" "show_nat 7 = ''7''"
  "show_nat 8 = ''8''" "show_nat 9 = ''9''" "show_nat 10 = ''10''" "show_nat 11 = ''11''" "show_nat 12 = ''12''"
  by code_simp+

text \<open>Reading back a printed number gives the number, padded with zeros or not.\<close>

lemma digits_val_show_nat [simp]: "digits_val (show_nat n) = n"
proof (induction n rule: show_nat.induct)
  case (1 n)
  show ?case
  proof (cases "n < 10")
    case True
    then show ?thesis using digits_val_snoc [of "[]" "digit_char n"]
      by (simp add: show_nat.simps [of n])
  next
    case False
    with 1 have "digits_val (show_nat (n div 10)) = n div 10" by simp
    moreover have "digit_val (digit_char (n mod 10)) = n mod 10" by simp
    moreover have "10 * (n div 10) + n mod 10 = n" by simp
    ultimately show ?thesis using False
      by (simp only: show_nat.simps [of n] if_False digits_val_snoc)
  qed
qed

lemma show_nat_inj [simp]: "show_nat m = show_nat n \<longleftrightarrow> m = n"
  by (metis digits_val_show_nat)

lemma digit_zero [simp]: "is_digit CHR ''0''" "digit_val CHR ''0'' = 0"
  by (simp_all add: is_digit_def digit_val_def char_code_def)

lemma digits_val_zero_pad: "digits_val (replicate k CHR ''0'' @ s) = digits_val s"
proof (induction k)
  case (Suc k)
  have "foldl (\<lambda>a c. 10 * a + digit_val c) 0 (CHR ''0'' # replicate k CHR ''0'' @ s)
      = digits_val (replicate k CHR ''0'' @ s)"
    by (simp add: digits_val_def)
  with Suc show ?case by (simp add: digits_val_def)
qed simp

lemma padStart_digits: "\<forall>c \<in> set s. is_digit c \<Longrightarrow> \<forall>c \<in> set (padStart w CHR ''0'' s). is_digit c"
  by (auto simp: padStart_def)

lemma digit_not_space: "is_digit c \<Longrightarrow> \<not> is_space c"
  by (auto simp: is_digit_def is_space_def)

lemma digit_not_sign: "is_digit c \<Longrightarrow> c \<noteq> CHR ''-'' \<and> c \<noteq> CHR ''+''"
  by (auto simp: is_digit_def char_code_def)

lemma parseInt10_digits:
  assumes "ds \<noteq> []" and "\<forall>c \<in> set ds. is_digit c"
  shows "parseInt10 ds = Some (int (digits_val ds))"
proof -
  obtain c r where ds: "ds = c # r" using assms(1) by (cases ds) auto
  with assms(2) have c: "\<not> is_space c" "c \<noteq> CHR ''-''" "c \<noteq> CHR ''+''"
    using digit_not_space digit_not_sign by auto
  have t: "takeWhile is_digit ds = ds" using assms(2) by (metis takeWhile_eq_all_conv)
  have "dropWhile is_space ds = ds" using c ds by simp
  moreover have "parse_sign ds = (False, ds)" using c ds by (simp add: parse_sign_def)
  ultimately show ?thesis using assms(1) by (simp add: parseInt10_def Let_def t del: takeWhile_eq_all_conv)
qed

lemma parseInt10_padded: "parseInt10 (padStart w CHR ''0'' (show_nat n)) = Some (int n)"
proof -
  have "padStart w CHR ''0'' (show_nat n) \<noteq> []" by (simp add: padStart_def)
  moreover have "\<forall>c \<in> set (padStart w CHR ''0'' (show_nat n)). is_digit c"
    by (rule padStart_digits [OF show_nat_digits])
  moreover have "digits_val (padStart w CHR ''0'' (show_nat n)) = n"
    by (simp add: padStart_def digits_val_zero_pad)
  ultimately show ?thesis by (simp add: parseInt10_digits)
qed

lemma char_code_char_of [simp]: "n < 256 \<Longrightarrow> char_code (char_of n) = n"
  by (simp add: char_code_def of_char_of)

lemma char_code_less [simp]: "char_code c < 256"
  by (simp add: char_code_def)

lemma to_upper_idem [simp]: "to_upper (to_upper c) = to_upper c"
  by (auto simp: to_upper_def is_lower_def)

lemma toUpperCase_idem [simp]: "toUpperCase (toUpperCase s) = toUpperCase s"
  by (simp add: toUpperCase_def)

section \<open>Tables\<close>

text \<open>
  The queries of the source over a table: \<^term>\<open>List.find\<close> is \<^verbatim>\<open>findFirst\<close> and
  \<^verbatim>\<open>findUnique\<close>, \<^term>\<open>filter\<close> is \<^verbatim>\<open>findMany\<close>, \<open>update_many\<close> is \<^verbatim>\<open>updateMany\<close> with its
  count, \<open>count_rows\<close> and \<open>sum_rows\<close> are \<^verbatim>\<open>count\<close> and \<^verbatim>\<open>aggregate _sum\<close>. A unique
  constraint compares the non-NULL keys of the rows; \<open>insert_row\<close> rejects a row that
  breaks one with P2002, as \<open>check_unique\<close> rejects an updated table.
\<close>

definition update_many :: "('r \<Rightarrow> bool) \<Rightarrow> ('r \<Rightarrow> 'r) \<Rightarrow> 'r list \<Rightarrow> 'r list \<times> nat" where
  "update_many w d t = (map (\<lambda>r. if w r then d r else r) t, length (filter w t))"

definition update_rows :: "('r \<Rightarrow> bool) \<Rightarrow> ('r \<Rightarrow> 'r) \<Rightarrow> 'r list \<Rightarrow> 'r list" where
  "update_rows w d t = fst (update_many w d t)"

definition count_rows :: "('r \<Rightarrow> bool) \<Rightarrow> 'r list \<Rightarrow> nat" where
  "count_rows w t = length (filter w t)"

definition sum_rows :: "('r \<Rightarrow> bool) \<Rightarrow> ('r \<Rightarrow> int) \<Rightarrow> 'r list \<Rightarrow> int" where
  "sum_rows w f t = sum_list (map f (filter w t))"

definition delete_rows :: "('r \<Rightarrow> bool) \<Rightarrow> 'r list \<Rightarrow> 'r list" where
  "delete_rows w t = filter (\<lambda>r. \<not> w r) t"

type_synonym ('r, 'k) uq = "string list \<times> ('r \<Rightarrow> 'k option)"

definition unique_on :: "('r \<Rightarrow> 'k option) \<Rightarrow> 'r list \<Rightarrow> bool" where
  "unique_on key t = distinct (List.map_filter key t)"

fun check_unique :: "('r, 'k) uq list \<Rightarrow> 'r list \<Rightarrow> 'r list res" where
  "check_unique [] t = Inr t"
| "check_unique ((cols, key) # uqs) t = (if unique_on key t then check_unique uqs t else Inl (P2002 cols))"

definition insert_row :: "('r, 'k) uq list \<Rightarrow> 'r \<Rightarrow> 'r list \<Rightarrow> 'r list res" where
  "insert_row uqs r t = check_unique uqs (t @ [r])"

definition page_of :: "nat \<Rightarrow> nat \<Rightarrow> 'r list \<Rightarrow> 'r list" where
  "page_of page limit t = take limit (drop ((page - 1) * limit) t)"

lemma update_rows_eq [table_simps]: "update_rows w d t = map (\<lambda>r. if w r then d r else r) t"
  by (simp add: update_rows_def update_many_def)

lemma update_many_pair [table_simps]: "update_many w d t = (update_rows w d t, count_rows w t)"
  by (simp add: update_rows_def update_many_def count_rows_def)

lemma length_update_rows [simp]: "length (update_rows w d t) = length t"
  by (simp add: table_simps)

lemma set_update_rows: "set (update_rows w d t) = (\<lambda>r. if w r then d r else r) ` set t"
  by (simp add: table_simps)

lemma map_update_rows_same:
  "(\<And>r. w r \<Longrightarrow> f (d r) = f r) \<Longrightarrow> map f (update_rows w d t) = map f t"
  by (simp add: table_simps)

lemma update_rows_none: "\<forall>r \<in> set t. \<not> w r \<Longrightarrow> update_rows w d t = t"
  by (simp add: table_simps map_idI)

lemma update_rows_append [simp]: "update_rows w d (s @ t) = update_rows w d s @ update_rows w d t"
  by (simp add: table_simps)

lemma update_rows_Cons [simp]:
  "update_rows w d (r # t) = (if w r then d r else r) # update_rows w d t"
  by (simp add: table_simps)

lemma update_rows_Nil [simp]: "update_rows w d [] = []"
  by (simp add: table_simps)

lemma count_rows_0 [simp]: "count_rows w t = 0 \<longleftrightarrow> (\<forall>r \<in> set t. \<not> w r)"
  by (simp add: count_rows_def filter_empty_conv)

lemma count_rows_append [simp]: "count_rows w (s @ t) = count_rows w s + count_rows w t"
  by (simp add: count_rows_def)

lemma sum_rows_Nil [simp]: "sum_rows w f [] = 0"
  by (simp add: sum_rows_def)

lemma sum_rows_Cons [simp]: "sum_rows w f (r # t) = (if w r then f r else 0) + sum_rows w f t"
  by (simp add: sum_rows_def)

lemma sum_rows_append [simp]: "sum_rows w f (s @ t) = sum_rows w f s + sum_rows w f t"
  by (simp add: sum_rows_def)

lemma find_Some_iff: "List.find P xs = Some x \<Longrightarrow> x \<in> set xs \<and> P x"
  by (auto simp: find_Some_iff)

lemma find_None_ball: "List.find P xs = None \<longleftrightarrow> (\<forall>x \<in> set xs. \<not> P x)"
  by (auto simp: find_None_iff)

lemma find_is_Some: "List.find P xs \<noteq> None \<longleftrightarrow> (\<exists>x \<in> set xs. P x)"
  by (auto simp: find_None_iff)

lemma find_key:
  assumes "distinct (map f t)" and "x \<in> set t"
  shows "List.find (\<lambda>y. f y = f x) t = Some x"
  using assms
proof (induction t)
  case (Cons z t)
  then show ?case by (cases "z = x") (auto simp: image_iff)
qed simp

lemma check_unique_Inr: "check_unique uqs t = Inr t' \<Longrightarrow> t' = t \<and> (\<forall>u \<in> set uqs. unique_on (snd u) t)"
  by (induction uqs t rule: check_unique.induct) (auto split: if_splits)

lemma check_unique_Inl: "check_unique uqs t = Inl e \<Longrightarrow> is_P2002 e"
  by (induction uqs t rule: check_unique.induct) (auto split: if_splits)

lemma check_unique_ok: "\<forall>u \<in> set uqs. unique_on (snd u) t \<Longrightarrow> check_unique uqs t = Inr t"
  by (induction uqs t rule: check_unique.induct) auto

lemma insert_row_Inr: "insert_row uqs r t = Inr t' \<Longrightarrow> t' = t @ [r]"
  by (auto simp: insert_row_def dest: check_unique_Inr)

lemma map_filter_app: "List.map_filter f (xs @ ys) = List.map_filter f xs @ List.map_filter f ys"
  by (simp add: List.map_filter_def)

lemma unique_on_keys:
  assumes "map key t' = map key t"
  shows "unique_on key t' = unique_on key t"
proof -
  have "List.map_filter key xs = List.map_filter id (map key xs)" for xs
    by (induction xs) (simp_all add: List.map_filter_def)
  with assms show ?thesis by (simp add: unique_on_def)
qed

lemma unique_on_snoc:
  "unique_on key (t @ [r]) \<longleftrightarrow>
     unique_on key t \<and> (\<forall>k. key r = Some k \<longrightarrow> (\<forall>q \<in> set t. key q \<noteq> Some k))"
proof (cases "key r")
  case None
  then show ?thesis by (simp add: unique_on_def List.map_filter_def)
next
  case (Some k)
  have "k \<in> set (List.map_filter key t) \<longleftrightarrow> (\<exists>q \<in> set t. key q = Some k)"
    by (force simp: List.map_filter_def)
  with Some show ?thesis by (auto simp: unique_on_def List.map_filter_def)
qed

lemma unique_on_total: "(\<And>r. key r = Some (f r)) \<Longrightarrow> unique_on key t \<longleftrightarrow> distinct (map f t)"
proof -
  assume "\<And>r. key r = Some (f r)"
  then have "key = (\<lambda>r. Some (f r))" by blast
  then show ?thesis by (simp add: unique_on_def List.map_filter_def comp_def)
qed

lemma unique_on_inj:
  assumes "unique_on key t" and "p \<in> set t" and "q \<in> set t" and "key p = Some k" and "key q = Some k"
  shows "p = q"
  using assms(1-5)
proof (induction t)
  case (Cons r t)
  have u: "unique_on key t" "\<forall>j. key r = Some j \<longrightarrow> (\<forall>q \<in> set t. key q \<noteq> Some j)"
    using Cons.prems(1) by (cases "key r"; force simp: unique_on_def List.map_filter_def)+
  then show ?case using Cons.IH [OF u(1)] Cons.prems by auto
qed simp

section \<open>Claims\<close>

text \<open>
  Several services make an action happen once by a conditional update: \<^verbatim>\<open>updateMany\<close> with
  the row's key and an \<^emph>\<open>open\<close> condition, followed by a test of the count. The interface
  asks that claiming keeps the key and closes the row; the lemmas say what a service gets.
\<close>

locale claim_guard =
  fixes ident :: "'r \<Rightarrow> 'k" and open_row :: "'r \<Rightarrow> bool" and claim :: "'r \<Rightarrow> 'r"
  assumes claim_ident: "ident (claim r) = ident r"
    and claim_closes: "\<not> open_row (claim r)"
begin

definition run_claim :: "'k \<Rightarrow> 'r list \<Rightarrow> 'r list \<times> nat" where
  "run_claim k t = update_many (\<lambda>r. ident r = k \<and> open_row r) claim t"

lemma claim_idents: "map ident (fst (run_claim k t)) = map ident t"
  by (simp add: run_claim_def update_many_def claim_ident)

lemma claim_at_most_one: "distinct (map ident t) \<Longrightarrow> snd (run_claim k t) \<le> 1"
proof (induction t)
  case (Cons r t)
  show ?case
  proof (cases "ident r = k")
    case True
    with Cons.prems have "ident q \<noteq> k" if "q \<in> set t" for q
      using imageI [OF that, of ident] by auto
    then have "filter (\<lambda>r. ident r = k \<and> open_row r) t = []" by (simp add: filter_empty_conv)
    then show ?thesis by (simp add: run_claim_def update_many_def)
  next
    case False
    then show ?thesis using Cons by (simp add: run_claim_def update_many_def)
  qed
qed (simp add: run_claim_def update_many_def)

lemma claim_closes_all:
  assumes "q \<in> set (fst (run_claim k t))" and "ident q = k"
  shows "\<not> open_row q"
proof -
  have "q \<in> (\<lambda>r. if ident r = k \<and> open_row r then claim r else r) ` set t"
    using assms(1) by (simp add: run_claim_def update_many_def)
  then obtain r where r: "q = (if ident r = k \<and> open_row r then claim r else r)"
    by blast
  show ?thesis
  proof (cases "ident r = k \<and> open_row r")
    case True
    with r claim_closes show ?thesis by simp
  next
    case False
    with r assms(2) show ?thesis by auto
  qed
qed

lemma second_claim_fails: "snd (run_claim k (fst (run_claim k t))) = 0"
proof -
  let ?u = "fst (run_claim k t)"
  have "filter (\<lambda>r. ident r = k \<and> open_row r) ?u = []"
    using claim_closes_all [of _ k t] by (auto simp: filter_empty_conv)
  then show ?thesis by (simp add: run_claim_def [of k ?u] update_many_def)
qed

lemma second_claim_idle: "fst (run_claim k (fst (run_claim k t))) = fst (run_claim k t)"
proof -
  let ?u = "fst (run_claim k t)"
  have "\<forall>r \<in> set ?u. \<not> (ident r = k \<and> open_row r)"
    using claim_closes_all [of _ k t] by blast
  then have "map (\<lambda>r. if ident r = k \<and> open_row r then claim r else r) ?u = ?u"
    by (intro map_idI) auto
  then show ?thesis by (simp add: run_claim_def [of k ?u] update_many_def)
qed

end

end
