(* ===== verification/Database.thy ===== *)
theory Database
  imports Prelude
begin

text \<open>
  The data model of \<^verbatim>\<open>prisma/schema.prisma\<close>: one datatype per enum, one record per model
  the services read or write (columns no service reads, such as \<^verbatim>\<open>updatedAt\<close>, are left out),
  and the unique constraints. Row identifiers are the strings of the source.
  The last part is the state of the running application: the tables, and beside them what a
  database rollback does not touch (the audit queue, the shared store, the mails handed to
  the mail port and the random source).
\<close>

section \<open>Enums\<close>

datatype user_role = ADMIN | INSTRUCTOR | STUDENT | PARENT
datatype student_status = SPending | SActive | SPaused | SLeft
datatype class_status = CActive | CPaused | CArchived
datatype exam_status = EDraft | EOpen | EClosed | ECompleted | ECancelled
datatype registration_status = PENDING_PAYMENT | REG_PAID | RESULT_PASS | RESULT_FAIL | REG_CANCELLED
datatype invoice_type = TUITION | EXAM_FEE | UNIFORM | OTHER
datatype invoice_status = UNPAID | PAID | OVERDUE | CANCELLED | INV_REFUNDED
datatype payment_gateway = PAYOS | SEPAY | CASH | BANK_TRANSFER
datatype payment_status = PENDING | SUCCESS | FAILED | REFUNDED | DISPUTED
datatype notification_channel = EMAIL | ZNS | SMS | INAPP
datatype notification_status = QUEUED | SENDING | SENT | NFAILED | SKIPPED
datatype gender = MALE | FEMALE | GOther
datatype link_relationship = LPARENT | GUARDIAN
datatype belt_rank_group = LAM | VANG | DO | HUYEN
datatype attendance_status = PRESENT | LATE | ABSENT | EXCUSED
datatype consent_purpose = DATA_PROCESSING | MEDIA_USAGE | MARKETING_NOTICE
datatype announcement_audience = AudAll | AudClass
datatype leave_status = LvPending | LvApproved | LvRejected | LvCancelled
datatype proposal_status = PrPending | PrApproved | PrRejected
datatype used_token_purpose = VERIFY_EMAIL | RESET_PASSWORD | CHANGE_EMAIL

text \<open>
  JSON values, for the columns of type Json and for request bodies. A number is an integer,
  or a non-integer given by its floor and its printed form.
\<close>

datatype json =
    JNull
  | JBool bool
  | JNum int
  | JFrac int string
  | JStr string
  | JArr "json list"
  | JObj "(string \<times> json) list"

text \<open>Property access: the last binding of a repeated key wins; \<^term>\<open>None\<close> is \<^verbatim>\<open>undefined\<close>.\<close>

fun json_get :: "json \<Rightarrow> string \<Rightarrow> json option" where
  "json_get (JObj kvs) k = map_of (rev kvs) k"
| "json_get _ _ = None"

section \<open>Rows\<close>

record user =
  usr_id :: uuid
  usr_email :: string
  usr_passwordHash :: string
  usr_role :: user_role
  usr_emailVerifiedAt :: "instant option"
  usr_failedLoginAttempts :: int
  usr_lockedUntil :: "instant option"
  usr_pwdVersion :: int
  usr_isActive :: bool
  usr_deletedAt :: "instant option"
  usr_createdAt :: instant

record session =
  ses_id :: uuid
  ses_userId :: uuid
  ses_ip :: "string option"
  ses_userAgent :: "string option"
  ses_revoked :: bool
  ses_lastActiveAt :: instant
  ses_expiresAt :: instant
  ses_createdAt :: instant

record refresh_token =
  rt_id :: uuid
  rt_userId :: uuid
  rt_sessionId :: uuid
  rt_tokenHash :: string
  rt_revoked :: bool
  rt_expiresAt :: instant

record totp_credential =
  tc_userId :: uuid
  tc_secretEncrypted :: string
  tc_enabledAt :: instant

record recovery_code =
  rc_id :: uuid
  rc_userId :: uuid
  rc_codeHash :: string
  rc_usedAt :: "instant option"

record used_token =
  ut_jti :: string
  ut_userId :: uuid
  ut_purpose :: used_token_purpose
  ut_expiresAt :: instant

record app_setting =
  set_key :: string
  set_value :: json
  set_updatedBy :: "uuid option"

record belt_rank =
  rank_id :: int
  rank_code :: string
  rank_name :: string
  rank_rankGroup :: belt_rank_group
  rank_orderIndex :: int
  rank_isActive :: bool

record student_profile =
  stu_id :: uuid
  stu_userId :: "uuid option"
  stu_fullName :: string
  stu_dob :: instant
  stu_gender :: gender
  stu_phone :: "string option"
  stu_address :: "string option"
  stu_emergencyContactName :: "string option"
  stu_emergencyContactPhone :: "string option"
  stu_medicalNotes :: "string option"
  stu_currentBeltRankId :: "int option"
  stu_inviteCode :: string
  stu_joinedAt :: instant
  stu_status :: student_status
  stu_deletedAt :: "instant option"

record parent_link =
  lnk_id :: uuid
  lnk_parentUserId :: uuid
  lnk_studentId :: uuid
  lnk_relationship :: link_relationship
  lnk_verified :: bool
  lnk_verifiedByUserId :: "uuid option"
  lnk_createdAt :: instant

record class_row =
  cls_id :: uuid
  cls_name :: string
  cls_instructorId :: uuid
  cls_location :: "string option"
  cls_capacity :: int
  cls_status :: class_status

record class_schedule =
  sch_id :: uuid
  sch_classId :: uuid
  sch_weekday :: int
  sch_startTime :: int
  sch_endTime :: int
  sch_effectiveFrom :: instant
  sch_effectiveTo :: "instant option"

record attendance_session =
  ats_id :: uuid
  ats_classId :: uuid
  ats_sessionDate :: instant
  ats_instructorId :: uuid
  ats_topic :: "string option"

record attendance_record =
  atr_id :: uuid
  atr_sessionId :: uuid
  atr_studentId :: uuid
  atr_status :: attendance_status
  atr_note :: "string option"
  atr_recordedBy :: uuid

record announcement =
  ann_id :: uuid
  ann_title :: string
  ann_body :: string
  ann_audience :: announcement_audience
  ann_classId :: "uuid option"
  ann_publishedAt :: instant
  ann_createdBy :: uuid

record consent_log =
  con_id :: uuid
  con_userId :: uuid
  con_purpose :: consent_purpose
  con_consentedByUserId :: "uuid option"
  con_consentedAt :: instant
  con_revokedAt :: "instant option"

record leave_request =
  lv_id :: uuid
  lv_studentId :: uuid
  lv_classId :: uuid
  lv_requestedByUserId :: "uuid option"
  lv_sessionDate :: instant
  lv_reason :: string
  lv_status :: leave_status
  lv_reviewedByUserId :: "uuid option"
  lv_reviewedAt :: "instant option"
  lv_reviewNote :: "string option"
  lv_createdAt :: instant

record promotion_proposal =
  pp_id :: uuid
  pp_studentId :: uuid
  pp_proposedRankId :: int
  pp_proposedByUserId :: uuid
  pp_note :: "string option"
  pp_status :: proposal_status
  pp_reviewedByUserId :: "uuid option"
  pp_reviewedAt :: "instant option"
  pp_reviewNote :: "string option"
  pp_createdAt :: instant

record student_evaluation =
  ev_id :: uuid
  ev_studentId :: uuid
  ev_authorUserId :: uuid
  ev_classId :: "uuid option"
  ev_periodMonth :: "int option"
  ev_periodYear :: "int option"
  ev_rating :: int
  ev_comment :: "string option"
  ev_createdAt :: instant

record enrollment =
  enr_id :: uuid
  enr_studentId :: uuid
  enr_classId :: uuid
  enr_enrolledAt :: instant
  enr_leftAt :: "instant option"

record belt_exam =
  exm_id :: uuid
  exm_code :: string
  exm_title :: string
  exm_examDate :: instant
  exm_location :: "string option"
  exm_targetRankId :: int
  exm_feeAmount :: int
  exm_capacity :: "int option"
  exm_registrationDeadline :: instant
  exm_status :: exam_status

record exam_registration =
  reg_id :: uuid
  reg_examId :: uuid
  reg_studentId :: uuid
  reg_currentRankId :: "int option"
  reg_targetRankId :: int
  reg_status :: registration_status
  reg_resultNote :: "string option"
  reg_examinerId :: "uuid option"
  reg_updatedAt :: instant

record invoice =
  inv_id :: uuid
  inv_invoiceNo :: string
  inv_studentId :: uuid
  inv_type :: invoice_type
  inv_refExamRegistrationId :: "uuid option"
  inv_periodMonth :: "int option"
  inv_periodYear :: "int option"
  inv_subtotal :: int
  inv_discount :: int
  inv_total :: int
  inv_status :: invoice_status
  inv_dueDate :: instant
  inv_issuedAt :: instant
  inv_note :: "string option"
  inv_createdBy :: uuid

record invoice_item =
  item_id :: uuid
  item_invoiceId :: uuid
  item_description :: string
  item_quantity :: int
  item_unitAmount :: int
  item_amount :: int

record payment =
  pay_id :: uuid
  pay_invoiceId :: uuid
  pay_orderRef :: string
  pay_gateway :: payment_gateway
  pay_gatewayTxnId :: "string option"
  pay_amount :: int
  pay_status :: payment_status
  pay_paidAt :: "instant option"
  pay_expiresAt :: "instant option"
  pay_recordedBy :: "uuid option"
  pay_note :: "string option"
  pay_createdAt :: instant

record notification =
  ntf_id :: uuid
  ntf_userId :: "uuid option"
  ntf_channel :: notification_channel
  ntf_templateCode :: string
  ntf_payload :: json
  ntf_status :: notification_status
  ntf_retries :: nat
  ntf_nextAttemptAt :: "instant option"
  ntf_claimedAt :: "instant option"
  ntf_error :: "string option"
  ntf_readAt :: "instant option"
  ntf_sentAt :: "instant option"
  ntf_createdAt :: instant

record discount_code =
  dc_id :: uuid
  dc_code :: string
  dc_description :: "string option"
  dc_percentOff :: "int option"
  dc_amountOff :: "int option"
  dc_validFrom :: instant
  dc_validUntil :: instant
  dc_isActive :: bool
  dc_createdAt :: instant

section \<open>Column types\<close>

text \<open>
  A DATE column drops the time of day. An INTEGER column holds 32-bit signed values; the
  client rejects anything else with an error no service handles.
\<close>

definition day_ms :: int where
  "day_ms = 86400000"

definition as_date :: "instant \<Rightarrow> instant" where
  "as_date t = t div day_ms * day_ms"

definition int4 :: "int \<Rightarrow> bool" where
  "int4 n \<longleftrightarrow> -2147483648 \<le> n \<and> n \<le> 2147483647"

lemma as_date_le: "as_date t \<le> t" "t < as_date t + day_ms"
proof -
  have "t div day_ms * day_ms + t mod day_ms = t" by simp
  moreover have "0 \<le> t mod day_ms" "t mod day_ms < day_ms" by (simp_all add: day_ms_def)
  ultimately show "as_date t \<le> t" "t < as_date t + day_ms" unfolding as_date_def by linarith+
qed

lemma as_date_idem [simp]: "as_date (as_date t) = as_date t"
  by (simp add: as_date_def day_ms_def)

section \<open>Unique constraints\<close>

text \<open>The keys are given as lists of strings so that constraints of one table can be listed together.\<close>

definition show_type :: "invoice_type \<Rightarrow> string" where
  "show_type t = (case t of TUITION \<Rightarrow> ''TUITION'' | EXAM_FEE \<Rightarrow> ''EXAM_FEE''
     | UNIFORM \<Rightarrow> ''UNIFORM'' | OTHER \<Rightarrow> ''OTHER'')"

definition period_key :: "invoice \<Rightarrow> string list option" where
  "period_key i = (case (inv_periodMonth i, inv_periodYear i) of
       (Some m, Some y) \<Rightarrow> Some [inv_studentId i, show_type (inv_type i), show_int m, show_int y]
     | _ \<Rightarrow> None)"

definition invoice_uqs :: "(invoice, string list) uq list" where
  "invoice_uqs =
     [([''id''], \<lambda>i. Some [inv_id i]),
      ([''invoice_no''], \<lambda>i. Some [inv_invoiceNo i]),
      ([''student_id'', ''type'', ''period_month'', ''period_year''], period_key)]"

definition payment_uqs :: "(payment, string) uq list" where
  "payment_uqs =
     [([''id''], \<lambda>p. Some (pay_id p)),
      ([''order_ref''], \<lambda>p. Some (pay_orderRef p)),
      ([''gateway_txn_id''], pay_gatewayTxnId)]"

section \<open>Application state\<close>

record db =
  users :: "user list"
  sessions :: "session list"
  refreshTokens :: "refresh_token list"
  totpCredentials :: "totp_credential list"
  recoveryCodes :: "recovery_code list"
  usedTokens :: "used_token list"
  appSettings :: "app_setting list"
  beltRanks :: "belt_rank list"
  students :: "student_profile list"
  parentLinks :: "parent_link list"
  classes :: "class_row list"
  enrollments :: "enrollment list"
  beltExams :: "belt_exam list"
  examRegistrations :: "exam_registration list"
  invoices :: "invoice list"
  invoiceItems :: "invoice_item list"
  payments :: "payment list"
  notifications :: "notification list"
  discountCodes :: "discount_code list"
  schedules :: "class_schedule list"
  attendanceSessions :: "attendance_session list"
  attendanceRecords :: "attendance_record list"
  announcements :: "announcement list"
  consents :: "consent_log list"
  leaveRequests :: "leave_request list"
  proposals :: "promotion_proposal list"
  evaluations :: "student_evaluation list"

text \<open>An audit entry as \<^verbatim>\<open>AuditService.record\<close> queues it.\<close>

record audit_entry =
  aud_eventId :: uuid
  aud_userId :: "uuid option"
  aud_event :: string
  aud_ip :: "string option"
  aud_success :: bool
  aud_detail :: "string option"

text \<open>
  The audit writer: the queue, the batch a running flush holds (its \<^verbatim>\<open>flushPromise\<close> is
  non-null exactly then), and the rows stored in \<^verbatim>\<open>audit_logs\<close> in the order of their ids, each
  with its creation time.
\<close>

record audit_state =
  aq_queue :: "audit_entry list"
  aq_inflight :: "audit_entry list option"
  aq_rows :: "(instant \<times> audit_entry) list"

datatype store_value = SNum int | SStr string | SBool bool

record store_entry =
  se_value :: store_value
  se_expiresAt :: "instant option"

record mail =
  ml_to :: string
  ml_templateCode :: string
  ml_subject :: string
  ml_body :: string

record app = db +
  audit :: audit_state
  store :: "string \<rightharpoonup> store_entry"
  mails :: "mail list"
  uuid_src :: "nat \<Rightarrow> uuid"
  uuid_ctr :: nat

definition empty_app :: app where
  "empty_app = \<lparr> users = [], sessions = [], refreshTokens = [], totpCredentials = [],
     recoveryCodes = [], usedTokens = [], appSettings = [], beltRanks = [], students = [],
     parentLinks = [], classes = [], enrollments = [], beltExams = [], examRegistrations = [],
     invoices = [], invoiceItems = [], payments = [], notifications = [], discountCodes = [],
     schedules = [], attendanceSessions = [], attendanceRecords = [], announcements = [], consents = [],
     leaveRequests = [], proposals = [], evaluations = [],
     audit = \<lparr> aq_queue = [], aq_inflight = None, aq_rows = [] \<rparr>,
     store = Map.empty, mails = [], uuid_src = show_nat, uuid_ctr = 0 \<rparr>"

text \<open>The next value of the random source; nothing is assumed of the values it gives.\<close>

definition fresh_uuid :: "app \<Rightarrow> uuid \<times> app" where
  "fresh_uuid s = (uuid_src s (uuid_ctr s), s\<lparr>uuid_ctr := Suc (uuid_ctr s)\<rparr>)"

text \<open>
  What the services rely on from the random source: no value repeats, and the values still to
  come are none of the given identifiers.
\<close>

definition fresh_for :: "uuid list \<Rightarrow> app \<Rightarrow> bool" where
  "fresh_for ids s \<longleftrightarrow> inj (uuid_src s) \<and> (\<forall>n \<ge> uuid_ctr s. uuid_src s n \<notin> set ids)"

lemma fresh_uuid_for:
  assumes "fresh_for ids s" and "fresh_uuid s = (u, s')"
  shows "u \<notin> set ids" "fresh_for (u # ids) s'"
proof -
  have u: "u = uuid_src s (uuid_ctr s)" "s' = s\<lparr>uuid_ctr := Suc (uuid_ctr s)\<rparr>"
    using assms(2) by (simp_all add: fresh_uuid_def)
  show "u \<notin> set ids" using assms(1) u(1) by (simp add: fresh_for_def)
  have "uuid_src s n \<noteq> u" if "Suc (uuid_ctr s) \<le> n" for n
    using assms(1) that u(1) by (simp add: fresh_for_def inj_eq)
  then show "fresh_for (u # ids) s'" using assms(1) u(2) by (simp add: fresh_for_def)
qed

lemma fresh_for_mono:
  "fresh_for ids s \<Longrightarrow> set ids' \<subseteq> set ids \<Longrightarrow> uuid_src s' = uuid_src s \<Longrightarrow> uuid_ctr s \<le> uuid_ctr s' \<Longrightarrow> fresh_for ids' s'"
  by (auto simp: fresh_for_def)

text \<open>A rolled-back transaction restores the tables and nothing else.\<close>

definition rollback :: "app \<Rightarrow> app \<Rightarrow> app" where
  "rollback s s' = s'\<lparr> users := users s, sessions := sessions s, refreshTokens := refreshTokens s,
     totpCredentials := totpCredentials s, recoveryCodes := recoveryCodes s,
     usedTokens := usedTokens s, appSettings := appSettings s, beltRanks := beltRanks s,
     students := students s, parentLinks := parentLinks s, classes := classes s,
     enrollments := enrollments s, beltExams := beltExams s,
     examRegistrations := examRegistrations s, invoices := invoices s,
     invoiceItems := invoiceItems s, payments := payments s, notifications := notifications s,
     discountCodes := discountCodes s, schedules := schedules s, attendanceSessions := attendanceSessions s, attendanceRecords := attendanceRecords s,
     announcements := announcements s, consents := consents s, leaveRequests := leaveRequests s,
     proposals := proposals s, evaluations := evaluations s \<rparr>"

definition transaction :: "(app \<Rightarrow> app \<times> 'a res) \<Rightarrow> app \<Rightarrow> app \<times> 'a res" where
  "transaction f s = (case f s of
       (s', Inl e) \<Rightarrow> (rollback s s', Inl e)
     | (s', Inr v) \<Rightarrow> (s', Inr v))"

text \<open>PostgreSQL refuses every statement of a transaction after one of them has failed.\<close>

definition tx_aborted :: exn where
  "tx_aborted = OtherError ''current transaction is aborted''"

lemma rollback_tables [simp]:
  "users (rollback s s') = users s" "sessions (rollback s s') = sessions s"
  "refreshTokens (rollback s s') = refreshTokens s"
  "totpCredentials (rollback s s') = totpCredentials s"
  "recoveryCodes (rollback s s') = recoveryCodes s"
  "usedTokens (rollback s s') = usedTokens s" "appSettings (rollback s s') = appSettings s"
  "beltRanks (rollback s s') = beltRanks s" "students (rollback s s') = students s"
  "parentLinks (rollback s s') = parentLinks s" "classes (rollback s s') = classes s"
  "enrollments (rollback s s') = enrollments s" "beltExams (rollback s s') = beltExams s"
  "examRegistrations (rollback s s') = examRegistrations s"
  "invoices (rollback s s') = invoices s" "invoiceItems (rollback s s') = invoiceItems s"
  "payments (rollback s s') = payments s" "notifications (rollback s s') = notifications s"
  "discountCodes (rollback s s') = discountCodes s"
  "schedules (rollback s s') = schedules s"
  "attendanceSessions (rollback s s') = attendanceSessions s"
  "attendanceRecords (rollback s s') = attendanceRecords s"
  "announcements (rollback s s') = announcements s"
  "consents (rollback s s') = consents s"
  "leaveRequests (rollback s s') = leaveRequests s"
  "proposals (rollback s s') = proposals s"
  "evaluations (rollback s s') = evaluations s"
  by (simp_all add: rollback_def)

lemma rollback_rest [simp]:
  "audit (rollback s s') = audit s'" "store (rollback s s') = store s'"
  "mails (rollback s s') = mails s'" "uuid_src (rollback s s') = uuid_src s'"
  "uuid_ctr (rollback s s') = uuid_ctr s'"
  by (simp_all add: rollback_def)

text \<open>Two states with the same tables.\<close>

definition same_db :: "app \<Rightarrow> app \<Rightarrow> bool" where
  "same_db s s' \<longleftrightarrow> db.truncate s = db.truncate s'"

lemma rollback_same_db [simp]: "same_db (rollback s s') s"
  by (simp add: same_db_def rollback_def db.truncate_def)

lemma transaction_cases:
  assumes "transaction f s = (s', r)"
  obtains (abort) e s1 where "f s = (s1, Inl e)" "r = Inl e" "s' = rollback s s1"
    | (commit) v where "f s = (s', Inr v)" "r = Inr v"
  using assms by (auto simp: transaction_def split: prod.splits sum.splits)

lemma same_db_refl [simp]: "same_db s s"
  by (simp add: same_db_def)

lemma same_db_trans [trans]: "same_db s t \<Longrightarrow> same_db t u \<Longrightarrow> same_db s u"
  by (simp add: same_db_def)

lemma same_db_sym: "same_db s t \<Longrightarrow> same_db t s"
  by (simp add: same_db_def)

lemma same_db_ctr [simp]: "same_db (s\<lparr>uuid_ctr := n\<rparr>) s"
  by (simp add: same_db_def db.truncate_def)

lemma same_db_tables:
  assumes "same_db s s'"
  shows "users s = users s'" "sessions s = sessions s'" "refreshTokens s = refreshTokens s'"
    "totpCredentials s = totpCredentials s'" "recoveryCodes s = recoveryCodes s'" "usedTokens s = usedTokens s'"
    "appSettings s = appSettings s'" "beltRanks s = beltRanks s'" "students s = students s'"
    "parentLinks s = parentLinks s'" "classes s = classes s'" "enrollments s = enrollments s'"
    "beltExams s = beltExams s'" "examRegistrations s = examRegistrations s'" "invoices s = invoices s'"
    "invoiceItems s = invoiceItems s'" "payments s = payments s'" "notifications s = notifications s'"
    "discountCodes s = discountCodes s'" "schedules s = schedules s'" "attendanceSessions s = attendanceSessions s'"
    "attendanceRecords s = attendanceRecords s'" "announcements s = announcements s'" "consents s = consents s'"
    "leaveRequests s = leaveRequests s'" "proposals s = proposals s'" "evaluations s = evaluations s'"
  using assms by (simp_all add: same_db_def db.truncate_def)

lemma transaction_Inl: "transaction f s = (s', Inl e) \<Longrightarrow> same_db s' s"
  by (auto simp: transaction_def split: prod.splits sum.splits)

lemma transaction_Inr: "transaction f s = (s', Inr v) \<longleftrightarrow> f s = (s', Inr v)"
  by (auto simp: transaction_def split: prod.splits sum.splits)

text \<open>A retried transaction either leaves the tables alone or commits one run of its body on them.\<close>

lemma retry_transaction:
  assumes "retry n (\<lambda>a. transaction (body a)) s = (s', r)" and "n \<noteq> 0"
  shows "case r of Inl e \<Rightarrow> same_db s' s
    | Inr v \<Rightarrow> \<exists>a t. a < n \<and> same_db t s \<and> body a t = (s', Inr v)"
proof -
  have step: "same_db t' s" if "transaction (body j) t = (t', Inl e)" "same_db t s" for j t t' e
    using transaction_Inl [OF that(1)] that(2) same_db_trans by blast
  have ex: "\<exists>j t. 0 \<le> j \<and> j < 0 + n \<and> same_db t s \<and> transaction (body j) t = (s', r)"
    by (rule retry_from_cases [where R = "\<lambda>s t. same_db t s"])
      (use assms step in \<open>auto simp: retry_def\<close>)
  then obtain j t where j: "j < n" "same_db t s" "transaction (body j) t = (s', r)" by auto
  show ?thesis
  proof (cases r)
    case (Inl e)
    then show ?thesis using step j by simp
  next
    case (Inr v)
    then show ?thesis using j transaction_Inr [of "body j" t s' v] by auto
  qed
qed

section \<open>The authenticated caller\<close>

record caller =
  cal_id :: uuid
  cal_role :: user_role
  cal_sessionId :: uuid
  cal_jti :: string

end
