(* ===== verification/Audit_Log.thy ===== *)
theory Audit_Log
  imports Database
begin

text \<open>
  The audit writer of \<^verbatim>\<open>src/auth/audit/audit.service.ts\<close>. \<^verbatim>\<open>record\<close> queues an entry and never
  waits; a flush takes batches of 50 from the front of the queue and hands them to
  \<^verbatim>\<open>createMany\<close> with \<^verbatim>\<open>skipDuplicates\<close>. The database answers later, so the answer is an event
  of its own: \<open>drain_ok\<close>, or \<open>drain_fail\<close>, whose argument says whether the rows of the failed
  call were stored all the same (an ambiguous commit).
\<close>

section \<open>Operations\<close>

definition BATCH_SIZE :: nat where "BATCH_SIZE = 50"
definition MAX_QUEUE_SIZE :: nat where "MAX_QUEUE_SIZE = 10000"

text \<open>\<^verbatim>\<open>drain\<close> up to its next \<^verbatim>\<open>await\<close>: take a batch, or finish when the queue is empty.\<close>

definition take_batch :: "audit_state \<Rightarrow> audit_state" where
  "take_batch a = (if aq_queue a = [] then a\<lparr>aq_inflight := None\<rparr>
     else a\<lparr>aq_inflight := Some (take BATCH_SIZE (aq_queue a)), aq_queue := drop BATCH_SIZE (aq_queue a)\<rparr>)"

definition audit_flush :: "audit_state \<Rightarrow> audit_state" where
  "audit_flush a = (if aq_inflight a = None then take_batch a else a)"

text \<open>\<^verbatim>\<open>record\<close>: a full queue drops the entry; a queue of at least a batch starts a flush.\<close>

definition audit_push :: "audit_entry \<Rightarrow> audit_state \<Rightarrow> audit_state" where
  "audit_push e a = (if length (aq_queue a) \<ge> MAX_QUEUE_SIZE then a
     else let a' = a\<lparr>aq_queue := aq_queue a @ [e]\<rparr>
          in if length (aq_queue a') \<ge> BATCH_SIZE \<and> aq_inflight a' = None then take_batch a' else a')"

text \<open>The rows a \<^verbatim>\<open>createMany ... skipDuplicates\<close> adds: those whose event id is not stored yet.\<close>

definition store_batch :: "audit_entry list \<Rightarrow> audit_entry list \<Rightarrow> audit_entry list" where
  "store_batch batch stored = stored @ filter (\<lambda>e. aud_eventId e \<notin> aud_eventId ` set stored) batch"

definition aq_stored :: "audit_state \<Rightarrow> audit_entry list" where
  "aq_stored a = map snd (aq_rows a)"

definition store_rows :: "instant \<Rightarrow> audit_entry list \<Rightarrow> (instant \<times> audit_entry) list \<Rightarrow> (instant \<times> audit_entry) list" where
  "store_rows now batch rows =
     rows @ map (Pair now) (filter (\<lambda>e. aud_eventId e \<notin> aud_eventId ` set (map snd rows)) batch)"

definition drain_ok :: "instant \<Rightarrow> audit_state \<Rightarrow> audit_state" where
  "drain_ok now a = (case aq_inflight a of
       None \<Rightarrow> a
     | Some b \<Rightarrow> take_batch (a\<lparr>aq_rows := store_rows now b (aq_rows a)\<rparr>))"

definition drain_fail :: "bool \<Rightarrow> instant \<Rightarrow> audit_state \<Rightarrow> audit_state" where
  "drain_fail committed now a = (case aq_inflight a of
       None \<Rightarrow> a
     | Some b \<Rightarrow> a\<lparr>aq_queue := b @ aq_queue a, aq_inflight := None,
                   aq_rows := (if committed then store_rows now b (aq_rows a) else aq_rows a)\<rparr>)"

lemma store_rows_entries [simp]: "map snd (store_rows now b rows) = store_batch b (map snd rows)"
  by (simp add: store_rows_def store_batch_def comp_def)

text \<open>
  The call as the services make it: the entry gets a random event id (drawn only when it is
  queued) and its detail is cut to 500 characters.
\<close>

definition record_audit ::
  "uuid option \<Rightarrow> string \<Rightarrow> string option \<Rightarrow> bool \<Rightarrow> string option \<Rightarrow> app \<Rightarrow> app" where
  "record_audit userId event ip success detail s =
     (if length (aq_queue (audit s)) \<ge> MAX_QUEUE_SIZE then s
      else let (eid, s') = fresh_uuid s;
               e = \<lparr> aud_eventId = eid, aud_userId = userId, aud_event = event, aud_ip = ip,
                     aud_success = success, aud_detail = map_option (take 500) detail \<rparr>
           in s'\<lparr>audit := audit_push e (audit s')\<rparr>)"

lemma record_audit_frame [simp, frame_simps]:
  "users (record_audit u ev ip ok d s) = users s"
  "sessions (record_audit u ev ip ok d s) = sessions s"
  "refreshTokens (record_audit u ev ip ok d s) = refreshTokens s"
  "totpCredentials (record_audit u ev ip ok d s) = totpCredentials s"
  "recoveryCodes (record_audit u ev ip ok d s) = recoveryCodes s"
  "usedTokens (record_audit u ev ip ok d s) = usedTokens s"
  "appSettings (record_audit u ev ip ok d s) = appSettings s"
  "beltRanks (record_audit u ev ip ok d s) = beltRanks s"
  "students (record_audit u ev ip ok d s) = students s"
  "parentLinks (record_audit u ev ip ok d s) = parentLinks s"
  "classes (record_audit u ev ip ok d s) = classes s"
  "enrollments (record_audit u ev ip ok d s) = enrollments s"
  "beltExams (record_audit u ev ip ok d s) = beltExams s"
  "examRegistrations (record_audit u ev ip ok d s) = examRegistrations s"
  "invoices (record_audit u ev ip ok d s) = invoices s"
  "invoiceItems (record_audit u ev ip ok d s) = invoiceItems s"
  "payments (record_audit u ev ip ok d s) = payments s"
  "notifications (record_audit u ev ip ok d s) = notifications s"
  "discountCodes (record_audit u ev ip ok d s) = discountCodes s"
  "schedules (record_audit u ev ip ok d s) = schedules s"
  "attendanceSessions (record_audit u ev ip ok d s) = attendanceSessions s"
  "attendanceRecords (record_audit u ev ip ok d s) = attendanceRecords s"
  "announcements (record_audit u ev ip ok d s) = announcements s"
  "consents (record_audit u ev ip ok d s) = consents s"
  "leaveRequests (record_audit u ev ip ok d s) = leaveRequests s"
  "proposals (record_audit u ev ip ok d s) = proposals s"
  "evaluations (record_audit u ev ip ok d s) = evaluations s"
  "store (record_audit u ev ip ok d s) = store s"
  "mails (record_audit u ev ip ok d s) = mails s"
  "uuid_src (record_audit u ev ip ok d s) = uuid_src s"
  by (simp_all add: record_audit_def fresh_uuid_def Let_def)

lemma record_audit_uuid_ctr: "uuid_ctr s \<le> uuid_ctr (record_audit u ev ip ok d s)"
  by (simp add: record_audit_def fresh_uuid_def Let_def)

lemma record_audit_same_db [simp]: "same_db (record_audit u ev ip ok d s) s"
  by (simp add: same_db_def db.truncate_def)

section \<open>Runs\<close>

text \<open>
  A run of the writer, with the list of the entries it accepted: requests record at any
  time, the timer flushes, and the database answers a flush in one of three ways.
\<close>

inductive audit_run :: "audit_state \<Rightarrow> audit_entry list \<Rightarrow> bool" where
  start: "audit_run \<lparr>aq_queue = [], aq_inflight = None, aq_rows = []\<rparr> []"
| push: "audit_run a acc \<Longrightarrow> length (aq_queue a) < MAX_QUEUE_SIZE \<Longrightarrow> audit_run (audit_push e a) (acc @ [e])"
| overflow: "audit_run a acc \<Longrightarrow> length (aq_queue a) \<ge> MAX_QUEUE_SIZE \<Longrightarrow> audit_run (audit_push e a) acc"
| flush: "audit_run a acc \<Longrightarrow> audit_run (audit_flush a) acc"
| finish: "audit_run a acc \<Longrightarrow> audit_run (drain_ok now a) acc"
| fail: "audit_run a acc \<Longrightarrow> audit_run (drain_fail c now a) acc"

definition pending :: "audit_state \<Rightarrow> audit_entry list" where
  "pending a = (case aq_inflight a of None \<Rightarrow> [] | Some b \<Rightarrow> b) @ aq_queue a"

lemma pending_take_batch: "aq_inflight a = None \<Longrightarrow> pending (take_batch a) = pending a"
  by (simp add: take_batch_def pending_def)

lemma take_batch_queue: "pending (take_batch (a\<lparr>aq_rows := st\<rparr>)) = aq_queue a"
  by (simp add: take_batch_def pending_def)

lemma stored_take_batch [simp]: "aq_stored (take_batch a) = aq_stored a"
  by (simp add: take_batch_def aq_stored_def)

lemma rows_take_batch [simp]: "aq_rows (take_batch a) = aq_rows a"
  by (simp add: take_batch_def)

lemma stored_rows [simp]: "aq_stored (a\<lparr>aq_rows := rows\<rparr>) = map snd rows"
  by (simp add: aq_stored_def)

lemma pending_flush: "pending (audit_flush a) = pending a"
  by (simp add: audit_flush_def pending_take_batch)

lemma stored_flush [simp]: "aq_stored (audit_flush a) = aq_stored a"
  by (simp add: audit_flush_def)

lemma pending_push:
  "length (aq_queue a) < MAX_QUEUE_SIZE \<Longrightarrow> pending (audit_push e a) = pending a @ [e]"
  by (cases "aq_inflight a")
     (auto simp: audit_push_def pending_def take_batch_def Let_def
           simp del: take_append drop_append append_assoc)

lemma stored_push [simp]: "aq_stored (audit_push e a) = aq_stored a"
  by (simp add: audit_push_def Let_def) (simp add: aq_stored_def)

lemma push_full: "length (aq_queue a) \<ge> MAX_QUEUE_SIZE \<Longrightarrow> audit_push e a = a"
  by (simp add: audit_push_def)

text \<open>Storing again a batch that overlaps the stored prefix extends the prefix.\<close>

lemma store_batch_prefix:
  assumes "distinct (map aud_eventId acc)" and "m \<le> n" and "n \<le> length acc"
  shows "store_batch (take k (drop m acc)) (take n acc) = take (max n (m + k)) acc"
proof -
  let ?b = "take k (drop m acc)"
  let ?P = "\<lambda>e. aud_eventId e \<notin> aud_eventId ` set (take n acc)"
  have split: "?b = take (n - m) ?b @ drop (n - m) ?b" by (rule append_take_drop_id [symmetric])
  have old: "take (n - m) ?b = take (min k (n - m)) (drop m acc)" by (simp add: min.commute)
  have "take (n - m) (drop m acc) = drop m (take n acc)" using assms(2) by (simp add: drop_take)
  then have "set (take (n - m) ?b) \<subseteq> set (take n acc)"
    by (metis old min.cobounded2 set_drop_subset set_take_subset_set_take subset_trans)
  then have f1: "filter ?P (take (n - m) ?b) = []" by (auto simp: filter_empty_conv)
  have new: "drop (n - m) ?b = take (k - (n - m)) (drop n acc)"
    using assms(2) by (simp add: drop_take)
  have "set (map aud_eventId (take n acc)) \<inter> set (map aud_eventId (drop n acc)) = {}"
    using assms(1) by (metis append_take_drop_id distinct_append map_append)
  then have "\<forall>e \<in> set (drop n acc). ?P e" by auto
  then have f2: "filter ?P (drop (n - m) ?b) = drop (n - m) ?b"
    unfolding new by (metis filter_True in_set_takeD)
  have "filter ?P ?b = take (k - (n - m)) (drop n acc)"
    using f1 f2 new by (metis append_Nil filter_append split)
  then have "store_batch ?b (take n acc) = take n acc @ take (k - (n - m)) (drop n acc)"
    by (simp add: store_batch_def)
  also have "\<dots> = take (n + (k - (n - m))) acc" by (simp add: take_add)
  also have "n + (k - (n - m)) = max n (m + k)" using assms(2) by linarith
  finally show ?thesis .
qed

definition audit_inv :: "audit_state \<Rightarrow> audit_entry list \<Rightarrow> bool" where
  "audit_inv a acc \<longleftrightarrow> (\<exists>m n. m \<le> n \<and> n \<le> length acc \<and> aq_stored a = take n acc \<and> pending a = drop m acc)"

lemma audit_invI:
  "m \<le> n \<Longrightarrow> n \<le> length acc \<Longrightarrow> aq_stored a = take n acc \<Longrightarrow> pending a = drop m acc \<Longrightarrow> audit_inv a acc"
  by (auto simp: audit_inv_def)

lemma inflight_is_take:
  assumes "pending a = drop m acc" and "aq_inflight a = Some b"
  shows "b = take (length b) (drop m acc)" and "aq_queue a = drop (m + length b) acc"
    and "m + length b \<le> length acc \<or> b = []"
proof -
  have p: "b @ aq_queue a = drop m acc" using assms by (simp add: pending_def)
  then show "b = take (length b) (drop m acc)" by (metis append_eq_conv_conj)
  have "drop (length b) (drop m acc) = aq_queue a" using p by (metis append_eq_conv_conj)
  then show "aq_queue a = drop (m + length b) acc" by (simp add: add.commute)
  have "length b \<le> length acc - m" using p by (metis length_append length_drop le_add1)
  then show "m + length b \<le> length acc \<or> b = []" by (cases b) auto
qed

lemma audit_inv_stored:
  assumes "distinct (map aud_eventId acc)" and "m \<le> n" and "n \<le> length acc"
    and "aq_stored a = take n acc" and "pending a = drop m acc" and "aq_inflight a = Some b"
  shows "store_batch b (aq_stored a) = take (max n (m + length b)) acc"
    and "max n (m + length b) \<le> length acc"
proof -
  note b = inflight_is_take [OF assms(5,6)]
  show "store_batch b (aq_stored a) = take (max n (m + length b)) acc"
    using store_batch_prefix [OF assms(1-3), of "length b"] b(1) assms(4) by simp
  show "max n (m + length b) \<le> length acc" using b(3) assms(2,3) by auto
qed

lemma audit_run_inv:
  "audit_run a acc \<Longrightarrow> distinct (map aud_eventId acc) \<Longrightarrow> audit_inv a acc"
proof (induction rule: audit_run.induct)
  case start
  show ?case by (rule audit_invI [of 0 0]) (simp_all add: pending_def aq_stored_def)
next
  case (push a acc e)
  then obtain m n where "m \<le> n" "n \<le> length acc" "aq_stored a = take n acc" "pending a = drop m acc"
    by (auto simp: audit_inv_def)
  then show ?case using push.hyps(2)
    by (intro audit_invI [of m n]) (auto simp: pending_push)
next
  case (overflow a acc e)
  then show ?case by (simp add: push_full)
next
  case (flush a acc)
  then show ?case by (simp add: audit_inv_def pending_flush)
next
  case (finish a acc now)
  then obtain m n where i: "m \<le> n" "n \<le> length acc" "aq_stored a = take n acc" "pending a = drop m acc"
    by (auto simp: audit_inv_def)
  show ?case
  proof (cases "aq_inflight a")
    case None
    then show ?thesis using i by (intro audit_invI [of m n]) (simp_all add: drain_ok_def)
  next
    case (Some b)
    note st = audit_inv_stored [OF finish.prems i Some]
    show ?thesis
    proof (rule audit_invI [of "m + length b" "max n (m + length b)"])
      show "pending (drain_ok now a) = drop (m + length b) acc"
        using inflight_is_take(2) [OF i(4) Some] Some by (simp add: drain_ok_def take_batch_queue)
    qed (use st Some in \<open>simp_all add: drain_ok_def aq_stored_def\<close>)
  qed
next
  case (fail a acc c now)
  then obtain m n where i: "m \<le> n" "n \<le> length acc" "aq_stored a = take n acc" "pending a = drop m acc"
    by (auto simp: audit_inv_def)
  show ?case
  proof (cases "aq_inflight a")
    case None
    then show ?thesis using i by (intro audit_invI [of m n]) (simp_all add: drain_fail_def aq_stored_def)
  next
    case (Some b)
    note st = audit_inv_stored [OF fail.prems i Some]
    have p: "pending (drain_fail c now a) = drop m acc"
      using i(4) Some by (simp add: drain_fail_def pending_def)
    show ?thesis
    proof (cases c)
      case True
      then show ?thesis using st i(1) p Some
        by (intro audit_invI [of m "max n (m + length b)"]) (simp_all add: drain_fail_def aq_stored_def)
    next
      case False
      then show ?thesis using i p Some
        by (intro audit_invI [of m n]) (simp_all add: drain_fail_def aq_stored_def)
    qed
  qed
qed

section \<open>Bounds\<close>

definition audit_bounded :: "audit_state \<Rightarrow> bool" where
  "audit_bounded a \<longleftrightarrow> (case aq_inflight a of
       None \<Rightarrow> length (aq_queue a) \<le> MAX_QUEUE_SIZE + BATCH_SIZE
     | Some b \<Rightarrow> b \<noteq> [] \<and> length b \<le> BATCH_SIZE \<and> length (aq_queue a) \<le> MAX_QUEUE_SIZE)"

lemma take_batch_bounded:
  "length (aq_queue a) \<le> MAX_QUEUE_SIZE + BATCH_SIZE \<Longrightarrow> audit_bounded (take_batch a)"
  by (auto simp: audit_bounded_def take_batch_def BATCH_SIZE_def MAX_QUEUE_SIZE_def)

lemma audit_run_bounded: "audit_run a acc \<Longrightarrow> audit_bounded a"
proof (induction rule: audit_run.induct)
  case start
  show ?case by (simp add: audit_bounded_def)
next
  case (push a acc e)
  let ?a = "a\<lparr>aq_queue := aq_queue a @ [e]\<rparr>"
  have "audit_bounded (take_batch ?a)"
    using push.hyps(2) by (intro take_batch_bounded) (simp add: BATCH_SIZE_def)
  moreover have "audit_bounded ?a" using push.hyps(2) push.IH
    by (cases "aq_inflight a") (simp_all add: audit_bounded_def BATCH_SIZE_def)
  ultimately show ?case using push.hyps(2) by (simp add: audit_push_def Let_def)
next
  case (overflow a acc e)
  then show ?case by (simp add: push_full)
next
  case (flush a acc)
  then show ?case
    by (cases "aq_inflight a") (auto simp: audit_flush_def audit_bounded_def [of a] intro: take_batch_bounded)
next
  case (finish a acc now)
  then show ?case
    by (cases "aq_inflight a") (auto simp: drain_ok_def audit_bounded_def [of a] intro: take_batch_bounded)
next
  case (fail a acc c now)
  then show ?case
    by (cases "aq_inflight a") (auto simp: drain_fail_def audit_bounded_def)
qed

lemma audit_pending_bounded: "audit_run a acc \<Longrightarrow> length (pending a) \<le> MAX_QUEUE_SIZE + BATCH_SIZE"
  using audit_run_bounded [of a acc]
  by (auto simp: audit_bounded_def pending_def split: option.splits)

text \<open>
  C17: whatever the interleaving of requests, flushes and database answers, the stored
  rows are a prefix of the accepted entries in order and without repetition, every
  accepted entry is stored or still buffered, and the buffer stays bounded.
\<close>

theorem audit_no_loss_no_duplicate:
  assumes "audit_run a acc" and "distinct (map aud_eventId acc)"
  shows "(\<exists>n \<le> length acc. aq_stored a = take n acc \<and> set acc = set (aq_stored a) \<union> set (pending a)) \<and>
         length (pending a) \<le> MAX_QUEUE_SIZE + BATCH_SIZE"
proof -
  from audit_run_inv [OF assms] obtain m n where i: "m \<le> n" "n \<le> length acc"
      "aq_stored a = take n acc" "pending a = drop m acc"
    by (auto simp: audit_inv_def)
  have "set acc = set (take m acc) \<union> set (drop m acc)"
    by (metis append_take_drop_id set_append)
  then have "set acc = set (take n acc) \<union> set (drop m acc)"
    using set_take_subset_set_take [OF i(1), of acc] set_take_subset [of n acc] by auto
  then have "\<exists>n \<le> length acc. aq_stored a = take n acc \<and> set acc = set (aq_stored a) \<union> set (pending a)"
    using i by auto
  then show ?thesis using audit_pending_bounded [OF assms(1)] by simp
qed

text \<open>A batch is in flight, the database commits it but the answer is lost; nothing is lost or doubled.\<close>

definition entry0 :: audit_entry where
  "entry0 = \<lparr>aud_eventId = ''e1'', aud_userId = Some ''u1'', aud_event = ''login'', aud_ip = None,
             aud_success = True, aud_detail = None\<rparr>"

definition queue0 :: audit_state where
  "queue0 = drain_fail True 0 (audit_flush (audit_push entry0 \<lparr>aq_queue = [], aq_inflight = None, aq_rows = []\<rparr>))"

lemma queue0_run: "audit_run queue0 [entry0]"
  unfolding queue0_def
  using audit_run.push [OF audit_run.start, of entry0]
  by (intro audit_run.fail audit_run.flush) (simp add: MAX_QUEUE_SIZE_def)

theorem audit_no_loss_no_duplicate_witness:
  "(\<exists>n \<le> length [entry0]. aq_stored queue0 = take n [entry0] \<and>
      set [entry0] = set (aq_stored queue0) \<union> set (pending queue0)) \<and>
   length (pending queue0) \<le> MAX_QUEUE_SIZE + BATCH_SIZE"
  using audit_no_loss_no_duplicate [OF queue0_run] by simp

end
