(* ===== verification/Sequential_Code.thy ===== *)
theory Sequential_Code
  imports Prelude
begin

text \<open>
  The two helpers of the billing module: \<^verbatim>\<open>src/billing/money.ts\<close> (amounts that fit the INTEGER
  columns) and \<^verbatim>\<open>src/billing/sequential-code.ts\<close> (the next human-readable code, such as
  INV-2026-0007). Codes are generated by reading the codes in use, so what matters is that
  the code returned is not one of them.
\<close>

section \<open>Amounts\<close>

definition MAX_MONEY_AMOUNT :: int where
  "MAX_MONEY_AMOUNT = 2147483647"

text \<open>
  The argument is an integer in every call; \<^verbatim>\<open>Number.isSafeInteger\<close> then fails only beyond
  the largest exact double integer, which the upper bound excludes too.
\<close>

definition is_safe_integer :: "int \<Rightarrow> bool" where
  "is_safe_integer n \<longleftrightarrow> - (2 ^ 53 - 1) \<le> n \<and> n \<le> 2 ^ 53 - 1"

definition money_message :: string where
  "money_message = ''Monetary amounts must be integers between 0 and 2147483647 VND''"

definition assertMoneyAmount :: "int \<Rightarrow> int res" where
  "assertMoneyAmount amount =
     (if \<not> is_safe_integer amount \<or> amount < 0 \<or> amount > MAX_MONEY_AMOUNT
      then Inl (BadRequest money_message) else Inr amount)"

lemma assertMoneyAmount_Inr: "assertMoneyAmount n = Inr m \<longleftrightarrow> m = n \<and> 0 \<le> n \<and> n \<le> MAX_MONEY_AMOUNT"
  by (auto simp: assertMoneyAmount_def is_safe_integer_def MAX_MONEY_AMOUNT_def)

lemma assertMoneyAmount_Inl: "assertMoneyAmount n = Inl e \<Longrightarrow> e = BadRequest money_message"
  by (auto simp: assertMoneyAmount_def split: if_splits)

section \<open>Sequential codes\<close>

text \<open>The loop over the codes, keeping the largest number read so far.\<close>

fun max_code :: "string \<Rightarrow> string list \<Rightarrow> int \<Rightarrow> int" where
  "max_code prefix [] m = m"
| "max_code prefix (code # codes) m =
     (if \<not> startsWith code prefix then max_code prefix codes m
      else case parseInt10 (drop (length prefix) code) of
             Some n \<Rightarrow> if n > m then max_code prefix codes n else max_code prefix codes m
           | None \<Rightarrow> max_code prefix codes m)"

definition nextSequentialCode :: "string \<Rightarrow> string list \<Rightarrow> nat \<Rightarrow> string" where
  "nextSequentialCode prefix codes padWidth =
     prefix @ padStart padWidth CHR ''0'' (show_int (max_code prefix codes 0 + 1))"

lemma max_code_ge_start: "m \<le> max_code prefix codes m"
proof (induction prefix codes m rule: max_code.induct)
  case (2 prefix c codes m)
  show ?case
  proof (cases "startsWith c prefix")
    case True
    then show ?thesis using 2
      by (cases "parseInt10 (drop (length prefix) c)") (auto intro: order_trans)
  next
    case False
    then show ?thesis using 2 by simp
  qed
qed simp

lemma max_code_ge:
  assumes "prefix @ t \<in> set codes" and "parseInt10 t = Some n"
  shows "n \<le> max_code prefix codes m"
  using assms
proof (induction prefix codes m rule: max_code.induct)
  case (2 prefix c codes m)
  show ?case
  proof (cases "c = prefix @ t")
    case True
    then show ?thesis
      using "2.prems"(2) max_code_ge_start [of n prefix codes] max_code_ge_start [of m prefix codes]
      by auto
  next
    case False
    then have "prefix @ t \<in> set codes" using "2.prems"(1) by auto
    then show ?thesis using "2.IH" "2.prems"(2) by (auto split: option.splits)
  qed
qed simp

lemma show_int_nat: "0 \<le> i \<Longrightarrow> show_int i = show_nat (nat i)"
  by (simp add: show_int_def)

lemma parseInt10_next: "parseInt10 (padStart w CHR ''0'' (show_int (max_code prefix codes 0 + 1)))
    = Some (max_code prefix codes 0 + 1)"
proof -
  have "0 \<le> max_code prefix codes 0 + 1" using max_code_ge_start [of 0 prefix codes] by linarith
  then show ?thesis by (simp add: show_int_nat parseInt10_padded)
qed

lemma nextSequentialCode_notin: "nextSequentialCode prefix codes w \<notin> set codes"
proof
  assume "nextSequentialCode prefix codes w \<in> set codes"
  then have "max_code prefix codes 0 + 1 \<le> max_code prefix codes 0"
    unfolding nextSequentialCode_def by (rule max_code_ge [OF _ parseInt10_next])
  then show False by simp
qed

lemma nextSequentialCode_prefix: "startsWith (nextSequentialCode prefix codes w) prefix"
  by (simp add: nextSequentialCode_def)

text \<open>
  A generated code carries the prefix, is none of the codes in use, and its number
  is larger than the number of every code in use with that prefix, whatever else (a manual
  code such as INV-2026-D002, a code of another year) is in the list; so successive codes
  increase.
\<close>

theorem nextSequentialCode_fresh:
  "startsWith (nextSequentialCode prefix codes w) prefix
   \<and> nextSequentialCode prefix codes w \<notin> set codes
   \<and> (\<forall>t n. prefix @ t \<in> set codes \<longrightarrow> parseInt10 t = Some n \<longrightarrow>
        (\<exists>k. parseInt10 (drop (length prefix) (nextSequentialCode prefix codes w)) = Some k \<and> n < k))"
proof (intro conjI allI impI)
  fix t n
  assume "prefix @ t \<in> set codes" "parseInt10 t = Some n"
  then have "n < max_code prefix codes 0 + 1" using max_code_ge [of prefix t codes n 0] by simp
  then show "\<exists>k. parseInt10 (drop (length prefix) (nextSequentialCode prefix codes w)) = Some k \<and> n < k"
    using parseInt10_next by (simp add: nextSequentialCode_def)
qed (rule nextSequentialCode_prefix nextSequentialCode_notin)+

theorem nextSequentialCode_fresh_witness:
  "\<exists>k. parseInt10 (drop (length ''INV-2026-'') (nextSequentialCode ''INV-2026-''
      [''INV-2026-D002'', ''INV-2026-0007'', ''INV-2025-0100''] 4)) = Some k \<and> 7 < k"
proof -
  have "''INV-2026-'' @ ''0007'' \<in> set [''INV-2026-D002'', ''INV-2026-0007'', ''INV-2025-0100'']" by simp
  moreover have "parseInt10 ''0007'' = Some 7" by code_simp
  ultimately show ?thesis
    using nextSequentialCode_fresh [THEN conjunct2, THEN conjunct2] by blast
qed

end
