(* ===== verification/Discounts.thy ===== *)
theory Discounts
  imports Audit_Log Sequential_Code
begin

text \<open>
  Discount codes, from \<^verbatim>\<open>src/billing/billing.service.ts\<close>: creation, listing, update, deletion, and
  the lookup that an invoice makes. The validity bounds are DATE columns, so storing them
  drops the time of day.
\<close>

section \<open>Operations\<close>

record create_discount_dto =
  cdc_code :: string
  cdc_description :: "string option"
  cdc_percentOff :: "int supplied"
  cdc_amountOff :: "int supplied"
  cdc_validFrom :: instant
  cdc_validUntil :: instant

record update_discount_dto =
  udc_description :: "string option"
  udc_validUntil :: "instant option"
  udc_isActive :: "bool option"

text \<open>The validation decorators of the DTO that bear on amounts.\<close>

definition valid_create_discount_dto :: "create_discount_dto \<Rightarrow> bool" where
  "valid_create_discount_dto dto \<longleftrightarrow> length (cdc_code dto) \<le> 40
     \<and> (case column_of (cdc_percentOff dto) of None \<Rightarrow> True | Some p \<Rightarrow> 1 \<le> p \<and> p \<le> 100)
     \<and> (case column_of (cdc_amountOff dto) of None \<Rightarrow> True | Some a \<Rightarrow> 1000 \<le> a \<and> a \<le> 1000000000)"

definition discount_uqs :: "(discount_code, string) uq list" where
  "discount_uqs = [([''id''], \<lambda>r. Some (dc_id r)), ([''code''], \<lambda>r. Some (dc_code r))]"

record discount_view =
  dv_id :: uuid
  dv_code :: string
  dv_description :: "string option"
  dv_percentOff :: "int option"
  dv_amountOff :: "int option"
  dv_validFrom :: instant
  dv_validUntil :: instant
  dv_isActive :: bool

definition serializeDiscountCode :: "discount_code \<Rightarrow> discount_view" where
  "serializeDiscountCode row = \<lparr> dv_id = dc_id row, dv_code = dc_code row, dv_description = dc_description row,
     dv_percentOff = dc_percentOff row, dv_amountOff = dc_amountOff row, dv_validFrom = dc_validFrom row,
     dv_validUntil = dc_validUntil row, dv_isActive = dc_isActive row \<rparr>"

definition new_discount :: "uuid \<Rightarrow> create_discount_dto \<Rightarrow> instant \<Rightarrow> discount_code" where
  "new_discount did dto now = \<lparr> dc_id = did, dc_code = toUpperCase (cdc_code dto),
     dc_description = cdc_description dto, dc_percentOff = column_of (cdc_percentOff dto),
     dc_amountOff = column_of (cdc_amountOff dto), dc_validFrom = as_date (cdc_validFrom dto),
     dc_validUntil = as_date (cdc_validUntil dto), dc_isActive = True, dc_createdAt = now \<rparr>"

definition createDiscountCode ::
  "caller \<Rightarrow> create_discount_dto \<Rightarrow> instant \<Rightarrow> app \<Rightarrow> app \<times> discount_view res" where
  "createDiscountCode caller dto now s =
     (if (cdc_percentOff dto = Undefined) = (cdc_amountOff dto = Undefined)
      then (s, Inl (BadRequest ''Set exactly one of percentOff or amountOff''))
      else if cdc_validUntil dto \<le> cdc_validFrom dto
      then (s, Inl (BadRequest ''validUntil must be after validFrom''))
      else let (did, s') = fresh_uuid s; row = new_discount did dto now in
        case insert_row discount_uqs row (discountCodes s') of
          Inl e \<Rightarrow> (s', Inl (if is_P2002 e then Conflict ''Discount code already exists'' else e))
        | Inr t \<Rightarrow>
            (record_audit (Some (cal_id caller)) ''discount_code_created'' None True
               (Some (''code:'' @ dc_code row)) (s'\<lparr>discountCodes := t\<rparr>),
             Inr (serializeDiscountCode row)))"

definition listDiscountCodes :: "nat \<Rightarrow> nat \<Rightarrow> app \<Rightarrow> discount_view list \<times> nat \<times> nat \<times> nat" where
  "listDiscountCodes page limit s = (let safeLimit = min limit 100 in
     (map serializeDiscountCode (page_of page safeLimit (sort_key (\<lambda>r. - dc_createdAt r) (discountCodes s))),
      length (discountCodes s), page, safeLimit))"

definition patch_discount :: "update_discount_dto \<Rightarrow> discount_code \<Rightarrow> discount_code" where
  "patch_discount dto row = row\<lparr>
     dc_description := (case udc_description dto of None \<Rightarrow> dc_description row | Some d \<Rightarrow> Some d),
     dc_validUntil := (case udc_validUntil dto of None \<Rightarrow> dc_validUntil row | Some t \<Rightarrow> as_date t),
     dc_isActive := (case udc_isActive dto of None \<Rightarrow> dc_isActive row | Some b \<Rightarrow> b)\<rparr>"

definition show_bool :: "bool \<Rightarrow> string" where
  "show_bool b = (if b then ''true'' else ''false'')"

definition updateDiscountCode ::
  "caller \<Rightarrow> uuid \<Rightarrow> update_discount_dto \<Rightarrow> app \<Rightarrow> app \<times> discount_view res" where
  "updateDiscountCode caller did dto s = (case List.find (\<lambda>r. dc_id r = did) (discountCodes s) of
       None \<Rightarrow> (s, Inl (NotFound ''Not found''))
     | Some existing \<Rightarrow>
         let row = patch_discount dto existing;
             s' = s\<lparr>discountCodes := update_rows (\<lambda>r. dc_id r = did) (patch_discount dto) (discountCodes s)\<rparr>
         in (record_audit (Some (cal_id caller)) ''discount_code_updated'' None True
               (Some (''code:'' @ dc_code row @ '' active:'' @ show_bool (dc_isActive row))) s',
             Inr (serializeDiscountCode row)))"

definition deleteDiscountCode :: "caller \<Rightarrow> uuid \<Rightarrow> app \<Rightarrow> app \<times> uuid res" where
  "deleteDiscountCode caller did s = (case List.find (\<lambda>r. dc_id r = did) (discountCodes s) of
       None \<Rightarrow> (s, Inl (NotFound ''Not found''))
     | Some existing \<Rightarrow>
         (record_audit (Some (cal_id caller)) ''discount_code_deleted'' None True
            (Some (''code:'' @ dc_code existing))
            (s\<lparr>discountCodes := delete_rows (\<lambda>r. dc_id r = did) (discountCodes s)\<rparr>),
          Inr did))"

text \<open>The discount a code grants at an instant. The division is exact on the amounts in range.\<close>

definition code_usable :: "discount_code \<Rightarrow> instant \<Rightarrow> bool" where
  "code_usable row now \<longleftrightarrow> dc_isActive row \<and> \<not> dc_validFrom row > now \<and> \<not> dc_validUntil row < now"

definition code_amount :: "discount_code \<Rightarrow> int \<Rightarrow> int" where
  "code_amount row subtotal = (case dc_percentOff row of
       Some p \<Rightarrow> subtotal * p div 100
     | None \<Rightarrow> (case dc_amountOff row of Some a \<Rightarrow> a | None \<Rightarrow> 0))"

definition resolveDiscountCode :: "string \<Rightarrow> int \<Rightarrow> instant \<Rightarrow> app \<Rightarrow> int res" where
  "resolveDiscountCode code subtotal now s =
     (case List.find (\<lambda>r. dc_code r = toUpperCase code) (discountCodes s) of
        None \<Rightarrow> Inl (BadRequest ''Discount code is not valid'')
      | Some row \<Rightarrow> if \<not> code_usable row now then Inl (BadRequest ''Discount code is not valid'')
                    else Inr (code_amount row subtotal))"

section \<open>Invariant\<close>

text \<open>Codes are stored uppercase and once, with at most one kind of discount, in range.\<close>

definition discount_row_ok :: "discount_code \<Rightarrow> bool" where
  "discount_row_ok r \<longleftrightarrow> dc_code r = toUpperCase (dc_code r)
     \<and> (dc_percentOff r = None \<or> dc_amountOff r = None)
     \<and> (case dc_percentOff r of None \<Rightarrow> True | Some p \<Rightarrow> 1 \<le> p \<and> p \<le> 100)
     \<and> (case dc_amountOff r of None \<Rightarrow> True | Some a \<Rightarrow> 0 \<le> a)"

definition discounts_inv :: "app \<Rightarrow> bool" where
  "discounts_inv s \<longleftrightarrow> distinct (map dc_id (discountCodes s)) \<and> distinct (map dc_code (discountCodes s))
     \<and> list_all discount_row_ok (discountCodes s)"

lemma discount_insert_Inr:
  assumes "insert_row discount_uqs row t = Inr t'"
  shows "t' = t @ [row]" "distinct (map dc_id t')" "distinct (map dc_code t')"
proof -
  have t: "t' = t @ [row]" and u: "\<forall>u \<in> set discount_uqs. unique_on (snd u) (t @ [row])"
    using check_unique_Inr [OF assms [unfolded insert_row_def]] by simp_all
  show "t' = t @ [row]" by (rule t)
  have "unique_on (\<lambda>r. Some (dc_id r)) t'" "unique_on (\<lambda>r. Some (dc_code r)) t'"
    using u t by (simp_all add: discount_uqs_def del: map_append)
  then show "distinct (map dc_id t')" "distinct (map dc_code t')"
    by (simp_all only: unique_on_total [OF refl])
qed

lemma createDiscountCode_ok:
  assumes "createDiscountCode caller dto now s = (s', Inr v)"
  obtains did where "insert_row discount_uqs (new_discount did dto now) (discountCodes s) = Inr (discountCodes s')"
    "(cdc_percentOff dto = Undefined) \<noteq> (cdc_amountOff dto = Undefined)" "cdc_validFrom dto < cdc_validUntil dto"
    "v = serializeDiscountCode (new_discount did dto now)"
proof -
  let ?row = "new_discount (uuid_src s (uuid_ctr s)) dto now"
  obtain t where t: "insert_row discount_uqs ?row (discountCodes s) = Inr t"
    "(cdc_percentOff dto = Undefined) \<noteq> (cdc_amountOff dto = Undefined)" "cdc_validFrom dto < cdc_validUntil dto"
    and s': "discountCodes s' = t" "v = serializeDiscountCode ?row"
    using assms by (auto simp: createDiscountCode_def fresh_uuid_def Let_def split: if_splits sum.splits)
  with that show ?thesis by simp
qed

lemma createDiscountCode_fail:
  assumes "createDiscountCode caller dto now s = (s', Inl e)"
  shows "discountCodes s' = discountCodes s"
  using assms by (auto simp: createDiscountCode_def fresh_uuid_def Let_def split: if_splits sum.splits)

lemma new_discount_ok:
  "valid_create_discount_dto dto \<Longrightarrow> (cdc_percentOff dto = Undefined) \<noteq> (cdc_amountOff dto = Undefined) \<Longrightarrow>
     discount_row_ok (new_discount did dto now)"
  by (auto simp: discount_row_ok_def new_discount_def valid_create_discount_dto_def column_of_def
      split: option.splits supplied.splits)

lemma createDiscountCode_inv:
  assumes "discounts_inv s" and "valid_create_discount_dto dto"
  shows "discounts_inv (fst (createDiscountCode caller dto now s))"
proof (cases "createDiscountCode caller dto now s")
  case (Pair s' r)
  show ?thesis
  proof (cases r)
    case (Inl e)
    then show ?thesis using assms(1) Pair createDiscountCode_fail [of caller dto now s s' e]
      by (simp add: discounts_inv_def)
  next
    case (Inr v)
    obtain did where d: "insert_row discount_uqs (new_discount did dto now) (discountCodes s) = Inr (discountCodes s')"
        "(cdc_percentOff dto = Undefined) \<noteq> (cdc_amountOff dto = Undefined)"
      using createDiscountCode_ok Pair Inr by blast
    note i = discount_insert_Inr [OF d(1)]
    show ?thesis using Pair i assms(1) new_discount_ok [OF assms(2) d(2)]
      by (simp add: discounts_inv_def)
  qed
qed

lemma patch_discount_same [simp]:
  "dc_id (patch_discount dto r) = dc_id r" "dc_code (patch_discount dto r) = dc_code r"
  "dc_percentOff (patch_discount dto r) = dc_percentOff r" "dc_amountOff (patch_discount dto r) = dc_amountOff r"
  by (simp_all add: patch_discount_def)

lemma patch_discount_ok: "discount_row_ok (patch_discount dto r) = discount_row_ok r"
  by (simp add: discount_row_ok_def)

lemma updateDiscountCode_inv:
  assumes "discounts_inv s"
  shows "discounts_inv (fst (updateDiscountCode caller did dto s))"
  using assms
  by (auto simp: updateDiscountCode_def discounts_inv_def Let_def map_update_rows_same
      list_all_iff set_update_rows patch_discount_ok split: option.splits)

lemma deleteDiscountCode_inv:
  assumes "discounts_inv s"
  shows "discounts_inv (fst (deleteDiscountCode caller did s))"
  using assms
  by (auto simp: deleteDiscountCode_def discounts_inv_def delete_rows_def list_all_iff distinct_map
      inj_on_def split: option.splits)

section \<open>Properties\<close>

lemma percent_bound:
  fixes p subtotal :: int
  assumes "0 \<le> subtotal" and "1 \<le> p" and "p \<le> 100"
  shows "0 \<le> subtotal * p div 100" and "subtotal * p div 100 \<le> subtotal"
proof -
  have "subtotal * p \<le> subtotal * 100" using assms by (intro mult_left_mono) auto
  then have "subtotal * p div 100 \<le> subtotal * 100 div 100" by (rule zdiv_mono1) simp
  then show "subtotal * p div 100 \<le> subtotal" by simp
  show "0 \<le> subtotal * p div 100" using assms by (simp add: pos_imp_zdiv_nonneg_iff)
qed

lemma resolveDiscountCode_Inr:
  assumes "resolveDiscountCode code subtotal now s = Inr d"
  obtains row where "row \<in> set (discountCodes s)" "dc_code row = toUpperCase code" "code_usable row now"
    "d = code_amount row subtotal"
proof -
  from assms obtain row where r: "List.find (\<lambda>r. dc_code r = toUpperCase code) (discountCodes s) = Some row"
      "code_usable row now" "d = code_amount row subtotal"
    by (auto simp: resolveDiscountCode_def split: option.splits if_splits)
  from find_Some_iff [OF r(1)] r(2,3) show ?thesis using that by blast
qed

text \<open>
  After every operation on discount codes the codes are uppercase, unique,
  and carry at most one kind of discount in its range; so a resolved discount is never
  negative, and one given in percent never exceeds the subtotal.
\<close>

theorem discount_codes_invariant:
  assumes "discounts_inv s" and "valid_create_discount_dto cdto"
  shows "discounts_inv (fst (createDiscountCode caller cdto now s))
    \<and> discounts_inv (fst (updateDiscountCode caller did udto s))
    \<and> discounts_inv (fst (deleteDiscountCode caller did s))
    \<and> (\<forall>code subtotal t d. 0 \<le> subtotal \<longrightarrow> resolveDiscountCode code subtotal t s = Inr d \<longrightarrow> 0 \<le> d)
    \<and> (\<forall>code subtotal t d row. 0 \<le> subtotal \<longrightarrow> resolveDiscountCode code subtotal t s = Inr d \<longrightarrow>
          row \<in> set (discountCodes s) \<longrightarrow> dc_code row = toUpperCase code \<longrightarrow> dc_percentOff row \<noteq> None \<longrightarrow>
          d \<le> subtotal)"
proof (intro conjI allI impI)
  fix code subtotal t d
  assume d: "0 \<le> subtotal" "resolveDiscountCode code subtotal t s = Inr d"
  obtain row where r: "row \<in> set (discountCodes s)" "d = code_amount row subtotal"
    using resolveDiscountCode_Inr [OF d(2)] by blast
  have "discount_row_ok row" using assms(1) r(1) by (simp add: discounts_inv_def list_all_iff)
  then show "0 \<le> d" using d(1) r(2) percent_bound(1)
    by (auto simp: discount_row_ok_def code_amount_def split: option.splits)
next
  fix code subtotal t d row
  assume d: "0 \<le> subtotal" "resolveDiscountCode code subtotal t s = Inr d"
    and row: "row \<in> set (discountCodes s)" "dc_code row = toUpperCase code" "dc_percentOff row \<noteq> None"
  obtain q where q: "q \<in> set (discountCodes s)" "dc_code q = toUpperCase code" "d = code_amount q subtotal"
    using resolveDiscountCode_Inr [OF d(2)] by blast
  then have "q = row" using row assms(1) unfolding discounts_inv_def by (metis distinct_map inj_on_def)
  moreover have "discount_row_ok row" using assms(1) row(1) by (simp add: discounts_inv_def list_all_iff)
  ultimately show "d \<le> subtotal" using d(1) q(3) row(3) percent_bound(2)
    by (auto simp: discount_row_ok_def code_amount_def split: option.splits)
qed (use assms createDiscountCode_inv updateDiscountCode_inv deleteDiscountCode_inv in blast)+

definition cdto0 :: create_discount_dto where
  "cdto0 = \<lparr> cdc_code = ''Tet2026'', cdc_description = None, cdc_percentOff = Given 10, cdc_amountOff = Undefined,
     cdc_validFrom = 0, cdc_validUntil = 10 * day_ms + 86399000 \<rparr>"

definition admin0 :: caller where
  "admin0 = \<lparr> cal_id = ''a1'', cal_role = ADMIN, cal_sessionId = ''x'', cal_jti = ''j'' \<rparr>"

theorem discount_codes_invariant_witness:
  "discounts_inv (fst (createDiscountCode admin0 cdto0 5 empty_app))"
  using discount_codes_invariant [of empty_app cdto0 admin0 5]
  by (simp add: discounts_inv_def empty_app_def valid_create_discount_dto_def cdto0_def)

lemma discount_code_resolves:
  assumes "createDiscountCode caller dto now s = (s', Inr v)"
    and "toUpperCase code = toUpperCase (cdc_code dto)"
    and "as_date (cdc_validFrom dto) \<le> t" and "t \<le> as_date (cdc_validUntil dto)"
  shows "resolveDiscountCode code subtotal t s' = Inr (case column_of (cdc_percentOff dto) of
      Some p \<Rightarrow> subtotal * p div 100 | None \<Rightarrow> case_option 0 id (column_of (cdc_amountOff dto)))"
proof -
  obtain did where d: "insert_row discount_uqs (new_discount did dto now) (discountCodes s) = Inr (discountCodes s')"
      "(cdc_percentOff dto = Undefined) \<noteq> (cdc_amountOff dto = Undefined)"
    using createDiscountCode_ok [OF assms(1)] by blast
  note i = discount_insert_Inr [OF d(1)]
  have c: "dc_code (new_discount did dto now) = toUpperCase code" using assms(2) by (simp add: new_discount_def)
  have "List.find (\<lambda>x. dc_code x = toUpperCase code) (discountCodes s') = Some (new_discount did dto now)"
    using find_key [OF i(3), of "new_discount did dto now"] i(1) c by simp
  then show ?thesis using d(2) assms(3,4)
    by (auto simp: resolveDiscountCode_def code_usable_def code_amount_def new_discount_def split: option.splits)
qed

text \<open>
  A code that was just created is found whatever the case it is quoted in, and
  grants its percentage (rounded down) or its amount (nothing, if the one given was null) from the day it starts to the midnight
  that begins its last day.
\<close>

theorem discount_create_resolve:
  assumes "createDiscountCode caller dto now s = (s', Inr v)"
    and "toUpperCase code = toUpperCase (cdc_code dto)"
    and "as_date (cdc_validFrom dto) \<le> t" and "t \<le> as_date (cdc_validUntil dto)"
  shows "resolveDiscountCode code subtotal t s' = Inr (case column_of (cdc_percentOff dto) of
      Some p \<Rightarrow> subtotal * p div 100 | None \<Rightarrow> case_option 0 id (column_of (cdc_amountOff dto)))"
  using assms by (rule discount_code_resolves)

theorem discount_create_resolve_witness:
  "resolveDiscountCode ''tet2026'' 400000 day_ms (fst (createDiscountCode admin0 cdto0 5 empty_app)) = Inr 40000"
proof -
  have "createDiscountCode admin0 cdto0 5 empty_app =
      (fst (createDiscountCode admin0 cdto0 5 empty_app), Inr (serializeDiscountCode (new_discount ''0'' cdto0 5)))"
    by (simp add: createDiscountCode_def cdto0_def fresh_uuid_def empty_app_def insert_row_def discount_uqs_def
        unique_on_def List.map_filter_def day_ms_def Let_def)
  moreover have "toUpperCase ''tet2026'' = toUpperCase (cdc_code cdto0)" by code_simp
  ultimately show ?thesis
    using discount_create_resolve [of admin0 cdto0 5 empty_app _ _ "''tet2026''" day_ms 400000]
    by (simp add: cdto0_def as_date_def day_ms_def)
qed

text \<open>
  The expiry is documented as the last valid moment, with a date-time such as
  23:59:59, but the column keeps the date only: on the last day, at any instant after its
  midnight, even before the moment that was asked for, the new code is refused.
\<close>

theorem discount_last_day_refused:
  assumes "createDiscountCode caller dto now s = (s', Inr v)"
    and "as_date (cdc_validUntil dto) < t" and "t \<le> cdc_validUntil dto"
  shows "resolveDiscountCode (cdc_code dto) subtotal t s' = Inl (BadRequest ''Discount code is not valid'')"
proof -
  obtain did where d: "insert_row discount_uqs (new_discount did dto now) (discountCodes s) = Inr (discountCodes s')"
    using createDiscountCode_ok [OF assms(1)] by blast
  note i = discount_insert_Inr [OF d(1)]
  have "List.find (\<lambda>x. dc_code x = toUpperCase (cdc_code dto)) (discountCodes s') = Some (new_discount did dto now)"
    using find_key [OF i(3), of "new_discount did dto now"] i(1) by (simp add: new_discount_def)
  then show ?thesis using assms(2) by (simp add: resolveDiscountCode_def code_usable_def new_discount_def)
qed

theorem discount_last_day_refused_witness:
  "resolveDiscountCode ''Tet2026'' 400000 (10 * day_ms + 1) (fst (createDiscountCode admin0 cdto0 5 empty_app))
   = Inl (BadRequest ''Discount code is not valid'')"
proof -
  have "createDiscountCode admin0 cdto0 5 empty_app =
      (fst (createDiscountCode admin0 cdto0 5 empty_app), Inr (serializeDiscountCode (new_discount ''0'' cdto0 5)))"
    by (simp add: createDiscountCode_def cdto0_def fresh_uuid_def empty_app_def insert_row_def discount_uqs_def
        unique_on_def List.map_filter_def day_ms_def Let_def)
  then show ?thesis
    using discount_last_day_refused [of admin0 cdto0 5 empty_app _ _ "10 * day_ms + 1" 400000]
    by (simp add: cdto0_def as_date_def day_ms_def)
qed

text \<open>
  A body whose only kind of discount is null is stored as a code that grants nothing: the check
  that exactly one is set tests for \<^verbatim>\<open>undefined\<close> only.
\<close>

theorem null_percent_accepted:
  "\<exists>s' v. createDiscountCode admin0 (cdto0\<lparr>cdc_percentOff := Null\<rparr>) 5 empty_app = (s', Inr v)
     \<and> resolveDiscountCode ''Tet2026'' 400000 day_ms s' = Inr 0"
proof -
  let ?dto = "cdto0\<lparr>cdc_percentOff := Null\<rparr>"
  obtain s' v where r: "createDiscountCode admin0 ?dto 5 empty_app = (s', Inr v)"
    by (simp add: createDiscountCode_def cdto0_def fresh_uuid_def empty_app_def insert_row_def discount_uqs_def
        unique_on_def List.map_filter_def day_ms_def Let_def)
  have "resolveDiscountCode ''Tet2026'' 400000 day_ms s' = Inr 0"
    using discount_code_resolves [OF r, of "''Tet2026''" day_ms 400000] by (simp add: cdto0_def as_date_def day_ms_def)
  with r show ?thesis by blast
qed

end
