(* ===== verification/Outbox.thy ===== *)
theory Outbox
  imports Database "HOL-Library.Char_ord" "HOL-Library.List_Lexorder"
begin

text \<open>
  The notification outbox of \<^verbatim>\<open>src/notifications/notification-outbox.service.ts\<close>: rows are
  queued inside business transactions and delivered by a worker pass that recovers stale
  claims, then claims and delivers up to 50 due rows, oldest first, with a fallback chain of
  channels, bounded retries and exponential backoff. The providers behind the channels are
  the fields of \<open>senders\<close>. A pass reads the clock once here.
\<close>

section \<open>Queueing\<close>

definition notification_uqs :: "(notification, uuid) uq list" where
  "notification_uqs = [([''id''], \<lambda>n. Some (ntf_id n))]"

definition new_notification ::
  "uuid \<Rightarrow> uuid \<Rightarrow> notification_channel \<Rightarrow> string \<Rightarrow> json \<Rightarrow> instant \<Rightarrow> notification" where
  "new_notification nid userId channel templateCode payload now =
     \<lparr> ntf_id = nid, ntf_userId = Some userId, ntf_channel = channel, ntf_templateCode = templateCode,
       ntf_payload = payload, ntf_status = QUEUED, ntf_retries = 0, ntf_nextAttemptAt = None,
       ntf_claimedAt = None, ntf_error = None, ntf_readAt = None, ntf_sentAt = None, ntf_createdAt = now \<rparr>"

definition enqueue ::
  "uuid \<Rightarrow> notification_channel \<Rightarrow> string \<Rightarrow> json \<Rightarrow> instant \<Rightarrow> app \<Rightarrow> app \<times> uuid res" where
  "enqueue userId channel templateCode payload now s =
     (let (nid, s') = fresh_uuid s in
      case insert_row notification_uqs (new_notification nid userId channel templateCode payload now) (notifications s') of
        Inl e \<Rightarrow> (s', Inl e)
      | Inr t \<Rightarrow> (s'\<lparr>notifications := t\<rparr>, Inr nid))"

definition enqueueInApp :: "uuid \<Rightarrow> string \<Rightarrow> json \<Rightarrow> instant \<Rightarrow> app \<Rightarrow> app \<times> uuid res" where
  "enqueueInApp userId templateCode payload now s =
     (let (nid, s') = fresh_uuid s;
          row = (new_notification nid userId INAPP templateCode payload now)\<lparr>ntf_status := SENT, ntf_sentAt := Some now\<rparr> in
      case insert_row notification_uqs row (notifications s') of
        Inl e \<Rightarrow> (s', Inl e)
      | Inr t \<Rightarrow> (s'\<lparr>notifications := t\<rparr>, Inr nid))"

section \<open>Delivery\<close>

definition MAX_RETRIES :: nat where "MAX_RETRIES = 5"

definition backoffMs :: "nat \<Rightarrow> int" where
  "backoffMs retries = 30000 * 2 ^ retries"

record message =
  msg_channel :: notification_channel
  msg_templateCode :: string
  msg_payload :: json

datatype send_result = SendOk | Unconfigured | SendError

record senders =
  zns_send :: "message \<Rightarrow> send_result"
  sms_send :: "message \<Rightarrow> send_result"
  mail_send :: "mail \<Rightarrow> send_result"
  json_stringify :: "json \<Rightarrow> string"

text \<open>The mail adapter: no recipient address is an error; otherwise the mail port decides.\<close>

definition adapter_mail :: "senders \<Rightarrow> message \<Rightarrow> mail option" where
  "adapter_mail sd m = (case json_get (msg_payload m) ''email'' of
       Some (JStr to) \<Rightarrow> if to = '''' then None else
          Some \<lparr> ml_to = to, ml_templateCode = msg_templateCode m,
                 ml_subject = ''[Vovinam club] '' @ msg_templateCode m,
                 ml_body = (case json_get (msg_payload m) ''message'' of
                     Some (JStr t) \<Rightarrow> t | _ \<Rightarrow> json_stringify sd (msg_payload m)) \<rparr>
     | _ \<Rightarrow> None)"

definition channelChain :: "notification_channel \<Rightarrow> notification_channel list" where
  "channelChain channel = (case channel of
       ZNS \<Rightarrow> [ZNS, SMS, EMAIL] | SMS \<Rightarrow> [SMS, EMAIL] | _ \<Rightarrow> [EMAIL])"

definition send_via :: "senders \<Rightarrow> notification_channel \<Rightarrow> message \<Rightarrow> app \<Rightarrow> send_result \<times> app" where
  "send_via sd channel m s = (case channel of
       ZNS \<Rightarrow> (zns_send sd m, s)
     | SMS \<Rightarrow> (sms_send sd m, s)
     | _ \<Rightarrow> (case adapter_mail sd m of
               None \<Rightarrow> (SendError, s)
             | Some ml \<Rightarrow> (case mail_send sd ml of
                   SendOk \<Rightarrow> (SendOk, s\<lparr>mails := mails s @ [ml]\<rparr>) | r \<Rightarrow> (r, s))))"

definition show_channel :: "notification_channel \<Rightarrow> string" where
  "show_channel c = (case c of EMAIL \<Rightarrow> ''EMAIL'' | ZNS \<Rightarrow> ''ZNS'' | SMS \<Rightarrow> ''SMS'' | INAPP \<Rightarrow> ''INAPP'')"

definition spread :: "json \<Rightarrow> (string \<times> json) list" where
  "spread j = (case j of JObj kvs \<Rightarrow> kvs | _ \<Rightarrow> [])"

definition mark_sent :: "instant \<Rightarrow> notification_channel \<Rightarrow> json \<Rightarrow> notification \<Rightarrow> notification" where
  "mark_sent now channel payload n = n\<lparr>ntf_status := SENT, ntf_sentAt := Some now, ntf_error := None,
     ntf_nextAttemptAt := None, ntf_claimedAt := None,
     ntf_payload := JObj (spread payload @ [(''deliveredVia'', JStr (show_channel channel))])\<rparr>"

definition mark_failed :: "instant \<Rightarrow> nat \<Rightarrow> string \<Rightarrow> notification \<Rightarrow> notification" where
  "mark_failed now retries0 message n =
     (let retries = retries0 + 1; exhausted = retries \<ge> MAX_RETRIES in
      n\<lparr>ntf_status := (if exhausted then NFAILED else QUEUED), ntf_retries := retries,
        ntf_error := Some message, ntf_claimedAt := None,
        ntf_nextAttemptAt := (if exhausted then None else Some (now + backoffMs (retries - 1)))\<rparr>)"

definition recordFailure :: "instant \<Rightarrow> notification \<Rightarrow> string \<Rightarrow> app \<Rightarrow> app" where
  "recordFailure now row message s = s\<lparr>notifications :=
     update_rows (\<lambda>n. ntf_id n = ntf_id row) (mark_failed now (ntf_retries row) message) (notifications s)\<rparr>"

text \<open>
  The loop over the chain: an unconfigured channel falls through, an error stops it. The flags say
  whether the database refuses the SENT update (which counts as a failed delivery) and the update
  that records a failure (whose error leaves the loop: the second component is True).
\<close>

definition try_record :: "bool \<Rightarrow> instant \<Rightarrow> notification \<Rightarrow> string \<Rightarrow> app \<Rightarrow> app \<times> bool" where
  "try_record recordFails now row message s = (if recordFails then (s, True) else (recordFailure now row message s, False))"

fun deliver_loop ::
  "senders \<Rightarrow> bool \<Rightarrow> bool \<Rightarrow> instant \<Rightarrow> notification \<Rightarrow> message \<Rightarrow> notification_channel list \<Rightarrow> app \<Rightarrow> app \<times> bool" where
  "deliver_loop sd sentFails recordFails now row m [] s = try_record recordFails now row ''No delivery channel configured'' s"
| "deliver_loop sd sentFails recordFails now row m (c # cs) s = (case send_via sd c m s of
       (SendOk, s') \<Rightarrow> if sentFails then try_record recordFails now row ''Notification delivery failed'' s'
          else (s'\<lparr>notifications :=
            update_rows (\<lambda>n. ntf_id n = ntf_id row) (mark_sent now c (msg_payload m)) (notifications s')\<rparr>, False)
     | (Unconfigured, s') \<Rightarrow> deliver_loop sd sentFails recordFails now row m cs s'
     | (SendError, s') \<Rightarrow> try_record recordFails now row ''Notification delivery failed'' s')"

definition row_message :: "notification \<Rightarrow> message" where
  "row_message row = \<lparr> msg_channel = ntf_channel row, msg_templateCode = ntf_templateCode row,
     msg_payload = (case ntf_payload row of JNull \<Rightarrow> JObj [] | j \<Rightarrow> j) \<rparr>"

definition deliver :: "senders \<Rightarrow> bool \<Rightarrow> bool \<Rightarrow> instant \<Rightarrow> notification \<Rightarrow> app \<Rightarrow> app \<times> bool" where
  "deliver sd sentFails recordFails now row s =
     deliver_loop sd sentFails recordFails now row (row_message row) (channelChain (ntf_channel row)) s"

section \<open>The worker pass\<close>

definition is_due :: "instant \<Rightarrow> notification \<Rightarrow> bool" where
  "is_due now n \<longleftrightarrow> ntf_status n = QUEUED \<and> (case ntf_nextAttemptAt n of None \<Rightarrow> True | Some t \<Rightarrow> t \<le> now)"

text \<open>ORDER BY created_at, id LIMIT 1.\<close>

definition before :: "notification \<Rightarrow> notification \<Rightarrow> bool" where
  "before a b \<longleftrightarrow> ntf_createdAt a < ntf_createdAt b \<or> (ntf_createdAt a = ntf_createdAt b \<and> ntf_id a < ntf_id b)"

fun first_row :: "notification list \<Rightarrow> notification option" where
  "first_row [] = None"
| "first_row (n # ns) = (case first_row ns of
       None \<Rightarrow> Some n | Some m \<Rightarrow> if before m n then Some m else Some n)"

definition recover_stale :: "instant \<Rightarrow> notification list \<Rightarrow> notification list" where
  "recover_stale now t =
     (let staleBefore = now - 10 * 60000 in
      update_rows (\<lambda>n. ntf_status n = SENDING \<and>
          (case ntf_claimedAt n of Some c \<Rightarrow> c < staleBefore | None \<Rightarrow> ntf_createdAt n < staleBefore))
        (\<lambda>n. n\<lparr>ntf_status := QUEUED, ntf_claimedAt := None\<rparr>) t)"

definition claim_sending :: "instant \<Rightarrow> notification \<Rightarrow> notification" where
  "claim_sending now n = n\<lparr>ntf_status := SENDING, ntf_claimedAt := Some now\<rparr>"

text \<open>One claim transaction: the oldest due row goes to SENDING and is read back.\<close>

definition claim_next :: "instant \<Rightarrow> app \<Rightarrow> notification option \<times> app" where
  "claim_next now s = (case first_row (filter (is_due now) (notifications s)) of
       None \<Rightarrow> (None, s)
     | Some c \<Rightarrow>
         let t = update_rows (\<lambda>n. ntf_id n = ntf_id c \<and> ntf_status n = QUEUED) (claim_sending now) (notifications s)
         in (List.find (\<lambda>n. ntf_id n = ntf_id c) t, s\<lparr>notifications := t\<rparr>))"

text \<open>
  What a pass meets: whether the service is stopping when an attempt begins, and which database
  calls throw (the recovery of stale claims; in the round of an attempt the claim, which is then
  rolled back, the SENT update and the update of a failure).
\<close>

record pass_env =
  pe_recoverFails :: bool
  pe_stopping :: "nat \<Rightarrow> bool"
  pe_claimFails :: "nat \<Rightarrow> bool"
  pe_sentFails :: "nat \<Rightarrow> bool"
  pe_recordFails :: "nat \<Rightarrow> bool"

text \<open>The rounds from an attempt on, with the number of rounds left. True: an error ended the pass.\<close>

fun worker_loop :: "nat \<Rightarrow> nat \<Rightarrow> pass_env \<Rightarrow> senders \<Rightarrow> instant \<Rightarrow> app \<Rightarrow> app \<times> bool" where
  "worker_loop 0 attempt e sd now s = (s, False)"
| "worker_loop (Suc k) attempt e sd now s =
     (if pe_stopping e attempt then (s, False)
      else if pe_claimFails e attempt then (s, True)
      else case claim_next now s of
        (None, s') \<Rightarrow> (s', False)
      | (Some row, s') \<Rightarrow>
          (case deliver sd (pe_sentFails e attempt) (pe_recordFails e attempt) now row s' of
             (s'', True) \<Rightarrow> (s'', True)
           | (s'', False) \<Rightarrow> worker_loop k (Suc attempt) e sd now s''))"

text \<open>The pass and what it logs: an error is caught and logged, never thrown.\<close>

definition processBatch :: "pass_env \<Rightarrow> senders \<Rightarrow> instant \<Rightarrow> app \<Rightarrow> app \<times> string list" where
  "processBatch e sd now s =
     (let (s', failed) = (if pe_recoverFails e then (s, True)
            else worker_loop 50 0 e sd now (s\<lparr>notifications := recover_stale now (notifications s)\<rparr>))
      in (s', if failed then [''notification_worker_pass_failed''] else []))"

text \<open>
  The service: stopping, and whether a pass is active. A stopping service starts no pass, and a
  call during a pass gets the active one.
\<close>

record outbox_worker =
  wk_stopping :: bool
  wk_activePass :: bool

definition runOnce :: "outbox_worker \<Rightarrow> pass_env \<Rightarrow> senders \<Rightarrow> instant \<Rightarrow> app \<Rightarrow> app \<times> string list" where
  "runOnce w e sd now s = (if wk_stopping w \<or> wk_activePass w then (s, []) else processBatch e sd now s)"

definition outbox_onModuleDestroy :: "outbox_worker \<Rightarrow> outbox_worker" where
  "outbox_onModuleDestroy w = w\<lparr>wk_stopping := True\<rparr>"

section \<open>Claims are exclusive\<close>

interpretation outbox_claim: claim_guard ntf_id "\<lambda>n. ntf_status n = QUEUED" "claim_sending now" for now
  by unfold_locales (simp_all add: claim_sending_def)

section \<open>One row through a pass\<close>

definition ids_unique :: "app \<Rightarrow> bool" where
  "ids_unique s \<longleftrightarrow> distinct (map ntf_id (notifications s))"

lemma mark_id [simp]:
  "ntf_id (mark_failed now r m n) = ntf_id n" "ntf_id (mark_sent now c p n) = ntf_id n"
  "ntf_id (claim_sending now n) = ntf_id n"
  by (simp_all add: mark_failed_def mark_sent_def claim_sending_def Let_def)

lemma send_via_notifications [simp]: "notifications (snd (send_via sd c m s)) = notifications s"
  by (simp add: send_via_def split: notification_channel.splits option.splits send_result.splits)

text \<open>What a channel answers for a message.\<close>

definition channel_result :: "senders \<Rightarrow> message \<Rightarrow> notification_channel \<Rightarrow> send_result" where
  "channel_result sd m c = (case c of ZNS \<Rightarrow> zns_send sd m | SMS \<Rightarrow> sms_send sd m
     | _ \<Rightarrow> (case adapter_mail sd m of None \<Rightarrow> SendError | Some ml \<Rightarrow> mail_send sd ml))"

lemma send_via_result: "fst (send_via sd c m s) = channel_result sd m c"
  by (simp add: send_via_def channel_result_def split: notification_channel.splits option.splits send_result.splits)

text \<open>
  The fallback chain: channels without credentials are skipped, the first configured one decides;
  success is recorded with the channel, its failure or the absence of any adds one failed attempt.
\<close>

definition verdict :: "senders \<Rightarrow> bool \<Rightarrow> instant \<Rightarrow> notification \<Rightarrow> message \<Rightarrow> notification_channel list \<Rightarrow> notification \<Rightarrow> notification" where
  "verdict sd sentFails now row m cs = (case List.find (\<lambda>c. channel_result sd m c \<noteq> Unconfigured) cs of
       None \<Rightarrow> mark_failed now (ntf_retries row) ''No delivery channel configured''
     | Some c \<Rightarrow> if channel_result sd m c = SendOk \<and> \<not> sentFails then mark_sent now c (msg_payload m)
                  else mark_failed now (ntf_retries row) ''Notification delivery failed'')"

lemma deliver_loop_spec:
  assumes "deliver_loop sd sf rf now row m cs s = (s', threw)"
  shows "(\<not> threw \<longrightarrow> notifications s' = update_rows (\<lambda>n. ntf_id n = ntf_id row) (verdict sd sf now row m cs) (notifications s))
    \<and> (threw \<longrightarrow> rf \<and> notifications s' = notifications s)"
  using assms
proof (induction cs arbitrary: s)
  case Nil
  then show ?case by (auto simp: try_record_def recordFailure_def verdict_def split: if_splits)
next
  case (Cons c cs)
  obtain r s1 where r: "send_via sd c m s = (r, s1)" by fastforce
  then have n: "notifications s1 = notifications s" "channel_result sd m c = r"
    using send_via_notifications [of sd c m s] send_via_result [of sd c m s] by simp_all
  show ?case
  proof (cases r)
    case Unconfigured
    then have "verdict sd sf now row m (c # cs) = verdict sd sf now row m cs" by (simp add: verdict_def n(2))
    then show ?thesis using Cons.IH [of s1] Cons.prems r n(1) Unconfigured by simp
  qed (use Cons.prems r n in \<open>auto simp: try_record_def recordFailure_def verdict_def split: if_splits\<close>)
qed

lemma deliver_cases:
  assumes "deliver sd sf rf now row s = (s', threw)"
  obtains (marked) "\<not> threw"
      "notifications s' = update_rows (\<lambda>n. ntf_id n = ntf_id row)
         (verdict sd sf now row (row_message row) (channelChain (ntf_channel row))) (notifications s)"
    | (kept) threw rf "notifications s' = notifications s"
  using deliver_loop_spec [OF assms [unfolded deliver_def]] by blast

lemma verdict_cases:
  obtains (sent) c where "verdict sd sf now row m cs = mark_sent now c (msg_payload m)"
    | (failed) msg where "verdict sd sf now row m cs = mark_failed now (ntf_retries row) msg"
proof (cases "List.find (\<lambda>c. channel_result sd m c \<noteq> Unconfigured) cs")
  case None
  then show ?thesis using failed by (simp add: verdict_def)
next
  case (Some c)
  show ?thesis
  proof (cases "channel_result sd m c = SendOk \<and> \<not> sf")
    case True
    then show ?thesis using sent [of c] Some by (simp add: verdict_def)
  next
    case False
    show ?thesis by (rule failed [of "''Notification delivery failed''"]) (simp only: verdict_def Some option.case if_not_P [OF False])
  qed
qed

lemma verdict_id [simp]: "ntf_id (verdict sd sf now row m cs n) = ntf_id n"
  by (cases rule: verdict_cases [of sd sf now row m cs]) auto

lemma first_row_in: "first_row ns = Some n \<Longrightarrow> n \<in> set ns"
  by (induction ns arbitrary: n) (auto split: option.splits if_splits)

lemma first_row_None: "first_row ns = None \<longleftrightarrow> ns = []"
  by (cases ns) (auto split: option.splits)

text \<open>A claim takes a due row, turns exactly it to SENDING, and reads it back.\<close>

lemma claim_next_Some:
  assumes "claim_next now s = (Some row, s')" and "ids_unique s"
  obtains c where "c \<in> set (notifications s)" "is_due now c" "row = claim_sending now c"
    "notifications s' = update_rows (\<lambda>n. ntf_id n = ntf_id c) (claim_sending now) (notifications s)"
proof -
  from assms(1) obtain c where c: "first_row (filter (is_due now) (notifications s)) = Some c"
    by (auto simp: claim_next_def split: option.splits)
  let ?t = "update_rows (\<lambda>n. ntf_id n = ntf_id c \<and> ntf_status n = QUEUED) (claim_sending now) (notifications s)"
  have cin: "c \<in> set (notifications s)" "is_due now c" using first_row_in [OF c] by auto
  have only: "n = c" if "n \<in> set (notifications s)" "ntf_id n = ntf_id c" for n
    using that cin(1) assms(2) unfolding ids_unique_def by (metis distinct_map inj_on_def)
  have q: "ntf_status c = QUEUED" using cin(2) by (simp add: is_due_def)
  have t: "?t = update_rows (\<lambda>n. ntf_id n = ntf_id c) (claim_sending now) (notifications s)"
    using only q by (auto simp: table_simps)
  have f: "List.find (\<lambda>n. ntf_id n = ntf_id c) ?t = Some row" and s': "s' = s\<lparr>notifications := ?t\<rparr>"
    using assms(1) c by (simp_all add: claim_next_def Let_def)
  from find_Some_iff [OF f] t obtain n where n: "n \<in> set (notifications s)" "ntf_id n = ntf_id c"
      "row = claim_sending now n"
    by (auto simp: set_update_rows split: if_splits)
  then have "row = claim_sending now c" using only [OF n(1,2)] by simp
  with cin s' t that show ?thesis by simp
qed

lemma claim_next_None:
  assumes "claim_next now s = (None, s')"
  shows "s' = s \<and> filter (is_due now) (notifications s) = []"
proof (cases "first_row (filter (is_due now) (notifications s))")
  case None
  then show ?thesis using assms by (simp add: claim_next_def first_row_None)
next
  case (Some c)
  let ?u = "\<lambda>n. if ntf_id n = ntf_id c \<and> ntf_status n = QUEUED then claim_sending now n else n"
  from Some have "c \<in> set (notifications s)" using first_row_in by fastforce
  then have "?u c \<in> ?u ` set (notifications s)" and "ntf_id (?u c) = ntf_id c" by auto
  then have "List.find (\<lambda>n. ntf_id n = ntf_id c)
      (update_rows (\<lambda>n. ntf_id n = ntf_id c \<and> ntf_status n = QUEUED) (claim_sending now) (notifications s)) \<noteq> None"
    unfolding find_is_Some set_update_rows by blast
  then show ?thesis using assms Some by (simp add: claim_next_def Let_def)
qed

lemma ids_unique_update:
  "(\<And>n. ntf_id (f n) = ntf_id n) \<Longrightarrow> map ntf_id (update_rows w f t) = map ntf_id t"
  by (rule map_update_rows_same)

text \<open>
  One round: a due row is claimed and, unless the database refuses to record a failure, marked
  with the verdict of its channels; every other row keeps its state.
\<close>

definition marked :: "senders \<Rightarrow> bool \<Rightarrow> instant \<Rightarrow> notification \<Rightarrow> notification \<Rightarrow> notification" where
  "marked sd sf now c n = verdict sd sf now c (row_message c) (channelChain (ntf_channel c)) (claim_sending now n)"

lemma marked_id [simp]: "ntf_id (marked sd sf now c n) = ntf_id n"
  by (simp add: marked_def)

lemma round_cases:
  assumes "claim_next now s = (Some row, s1)" and "ids_unique s" and "deliver sd sf rf now row s1 = (s2, threw)"
  obtains c where "c \<in> set (notifications s)" "is_due now c" "threw \<longrightarrow> rf"
    "notifications s2 = update_rows (\<lambda>n. ntf_id n = ntf_id c) (if threw then claim_sending now else marked sd sf now c) (notifications s)"
proof -
  from claim_next_Some [OF assms(1,2)] obtain c where c: "c \<in> set (notifications s)" "is_due now c"
      "row = claim_sending now c"
      "notifications s1 = update_rows (\<lambda>n. ntf_id n = ntf_id c) (claim_sending now) (notifications s)" .
  have v: "verdict sd sf now row (row_message row) (channelChain (ntf_channel row)) =
      verdict sd sf now c (row_message c) (channelChain (ntf_channel c))"
  proof -
    have "row_message row = row_message c" by (simp add: c(3) row_message_def claim_sending_def)
    moreover have "ntf_channel row = ntf_channel c" "ntf_retries row = ntf_retries c" by (simp_all add: c(3) claim_sending_def)
    ultimately show ?thesis unfolding verdict_def by metis
  qed
  from assms(3) show ?thesis
  proof (cases rule: deliver_cases)
    case marked
    then have "notifications s2 = update_rows (\<lambda>n. ntf_id n = ntf_id c) (marked sd sf now c) (notifications s)"
      unfolding marked(2) c(4) v by (simp add: c(3) table_simps marked_def)
    then show ?thesis using that [OF c(1,2)] marked(1) by simp
  next
    case kept
    then show ?thesis using that [OF c(1,2)] c(4) by simp
  qed
qed

text \<open>What holds of the table after the whole loop: the rule that the proofs below instantiate.\<close>

lemma worker_loop_rule:
  assumes "worker_loop k i e sd now s = (s', threw)" and "ids_unique s" and "P (notifications s)"
    and step: "\<And>t c f. distinct (map ntf_id t) \<Longrightarrow> P t \<Longrightarrow> c \<in> set t \<Longrightarrow> is_due now c \<Longrightarrow>
      f = claim_sending now \<or> (\<exists>sf. f = marked sd sf now c) \<Longrightarrow> P (update_rows (\<lambda>n. ntf_id n = ntf_id c) f t)"
  shows "ids_unique s' \<and> P (notifications s')"
  using assms(1-3)
proof (induction k arbitrary: i s)
  case (Suc k)
  obtain r s1 where c: "claim_next now s = (r, s1)" by fastforce
  show ?case
  proof (cases "pe_stopping e i \<or> pe_claimFails e i \<or> r = None")
    case True
    then have "s' = s" using Suc.prems(1) c claim_next_None [of now s s1] by (auto split: if_splits)
    then show ?thesis using Suc.prems by simp
  next
    case False
    then obtain row where row: "r = Some row" by auto
    obtain s2 b where d: "deliver sd (pe_sentFails e i) (pe_recordFails e i) now row s1 = (s2, b)" by fastforce
    have cn: "claim_next now s = (Some row, s1)" using c row by simp
    obtain x where x: "x \<in> set (notifications s)" "is_due now x"
        "notifications s2 = update_rows (\<lambda>n. ntf_id n = ntf_id x)
           (if b then claim_sending now else marked sd (pe_sentFails e i) now x) (notifications s)"
      using round_cases [OF cn Suc.prems(2) d] by blast
    have p2: "P (notifications s2)" unfolding x(3) using Suc.prems(2,3) x(1,2) by (intro step) (auto simp: ids_unique_def)
    have u2: "ids_unique s2" using Suc.prems(2) unfolding ids_unique_def x(3) by (simp add: ids_unique_update)
    show ?thesis
    proof (cases b)
      case True
      then show ?thesis using Suc.prems(1) False cn d p2 u2 by simp
    next
      case b: False
      then show ?thesis using Suc.IH [of "Suc i" s2] Suc.prems(1) False cn d p2 u2 by simp
    qed
  qed
qed simp

section \<open>Invariant of the outbox\<close>

text \<open>
  A row is claimed exactly while it is SENDING. A row that may still be tried has fewer than five
  failures, and a row that failed for good has exactly five.
\<close>

definition outbox_row_ok :: "notification \<Rightarrow> bool" where
  "outbox_row_ok n \<longleftrightarrow> (ntf_status n = SENDING \<longleftrightarrow> ntf_claimedAt n \<noteq> None)
     \<and> (ntf_status n \<in> {QUEUED, SENDING} \<longrightarrow> ntf_retries n < MAX_RETRIES)
     \<and> (ntf_status n = NFAILED \<longrightarrow> ntf_retries n = MAX_RETRIES)"

definition outbox_inv :: "app \<Rightarrow> bool" where
  "outbox_inv s \<longleftrightarrow> ids_unique s \<and> list_all outbox_row_ok (notifications s)"

lemma mark_failed_ok: "r < MAX_RETRIES \<Longrightarrow> outbox_row_ok (mark_failed now r m n)"
  by (auto simp: outbox_row_ok_def mark_failed_def Let_def MAX_RETRIES_def)

lemma mark_sent_ok: "outbox_row_ok (mark_sent now c p n)"
  by (simp add: outbox_row_ok_def mark_sent_def)

lemma due_retries: "outbox_row_ok c \<Longrightarrow> is_due now c \<Longrightarrow> ntf_retries c < MAX_RETRIES"
  by (simp add: outbox_row_ok_def is_due_def)

lemma marked_ok:
  assumes "outbox_row_ok c" and "is_due now c"
  shows "outbox_row_ok (marked sd sf now c n)"
  unfolding marked_def
  by (cases rule: verdict_cases [of sd sf now c "row_message c" "channelChain (ntf_channel c)"])
    (simp_all add: mark_sent_ok mark_failed_ok [OF due_retries [OF assms]])

lemma claimed_ok: "outbox_row_ok c \<Longrightarrow> is_due now c \<Longrightarrow> outbox_row_ok (claim_sending now c)"
  by (simp add: outbox_row_ok_def is_due_def claim_sending_def)

lemma list_all_update_row:
  assumes "list_all Q t" and "distinct (map ntf_id t)" and "c \<in> set t" and "Q (f c)"
  shows "list_all Q (update_rows (\<lambda>n. ntf_id n = ntf_id c) f t)"
proof -
  have "n = c" if "n \<in> set t" "ntf_id n = ntf_id c" for n
    using that assms(2,3) by (metis distinct_map inj_on_def)
  then show ?thesis using assms(1,4) by (auto simp: list_all_iff set_update_rows)
qed

lemma worker_loop_inv:
  assumes "outbox_inv s"
  shows "outbox_inv (fst (worker_loop k i e sd now s))"
proof -
  obtain s' b where r: "worker_loop k i e sd now s = (s', b)" by fastforce
  have u: "ids_unique s" and p: "list_all outbox_row_ok (notifications s)" using assms by (simp_all add: outbox_inv_def)
  have "ids_unique s' \<and> list_all outbox_row_ok (notifications s')"
    using r u p
  proof (rule worker_loop_rule)
    fix t c f
    assume t: "distinct (map ntf_id t)" "list_all outbox_row_ok t" "c \<in> set t" "is_due now c"
      and f: "f = claim_sending now \<or> (\<exists>sf. f = marked sd sf now c)"
    have "outbox_row_ok c" using t(2,3) by (simp add: list_all_iff)
    then have "outbox_row_ok (f c)" using f t(4) claimed_ok marked_ok by auto
    then show "list_all outbox_row_ok (update_rows (\<lambda>n. ntf_id n = ntf_id c) f t)"
      by (rule list_all_update_row [OF t(2,1,3)])
  qed
  then show ?thesis by (simp add: r outbox_inv_def)
qed

lemma recover_stale_inv:
  "outbox_inv s \<Longrightarrow> outbox_inv (s\<lparr>notifications := recover_stale now (notifications s)\<rparr>)"
  unfolding outbox_inv_def ids_unique_def recover_stale_def Let_def
  by (auto simp: ids_unique_update list_all_iff set_update_rows outbox_row_ok_def)

text \<open>
  C15: A worker pass keeps the invariant of every row: it carries a claim exactly while it is
  SENDING, a row that is still queued or being sent has failed fewer than five times, a row that
  is FAILED has failed exactly five times, and no row is duplicated; for any behaviour of the
  providers, whichever database calls of the pass throw, whenever the service is stopped, and when
  another pass is active.
\<close>

theorem outbox_pass_invariant:
  assumes "outbox_inv s"
  shows "outbox_inv (fst (runOnce w e sd now s))"
  using worker_loop_inv [OF recover_stale_inv [OF assms], of 50 0 e sd now now] assms
  by (simp add: runOnce_def processBatch_def Let_def split_beta)

definition row_q :: "uuid \<Rightarrow> notification" where
  "row_q nid = new_notification nid ''u1'' ZNS ''invoice_issued'' (JObj [(''email'', JStr ''a@b'')]) 0"

definition senders_stub :: senders where
  "senders_stub = \<lparr> zns_send = (\<lambda>_. Unconfigured), sms_send = (\<lambda>_. Unconfigured),
     mail_send = (\<lambda>_. SendOk), json_stringify = (\<lambda>_. ''{}'') \<rparr>"

definition calm :: pass_env where
  "calm = \<lparr> pe_recoverFails = False, pe_stopping = (\<lambda>_. False), pe_claimFails = (\<lambda>_. False),
     pe_sentFails = (\<lambda>_. False), pe_recordFails = (\<lambda>_. False) \<rparr>"

theorem outbox_pass_invariant_witness:
  "outbox_inv (fst (runOnce \<lparr> wk_stopping = False, wk_activePass = False \<rparr> (calm\<lparr>pe_sentFails := (\<lambda>i. i = 0)\<rparr>) senders_stub 100
     (empty_app\<lparr>notifications := [row_q ''n1'', row_q ''n2'']\<rparr>)))"
  by (rule outbox_pass_invariant)
     (simp add: outbox_inv_def ids_unique_def row_q_def new_notification_def outbox_row_ok_def MAX_RETRIES_def)

section \<open>Progress of a pass\<close>

lemma not_due_mark:
  "\<not> is_due now (mark_sent now c p n)" "\<not> is_due now (mark_failed now r m n)"
  by (simp_all add: is_due_def mark_sent_def mark_failed_def backoffMs_def Let_def)

lemma not_due_marked: "\<not> is_due now (marked sd sf now c n)"
  unfolding marked_def
  by (cases rule: verdict_cases [of sd sf now c "row_message c" "channelChain (ntf_channel c)"])
    (simp_all add: not_due_mark)

lemma length_filter_update_less:
  assumes "c \<in> set t" and "P c" and "w c" and "\<And>n. \<not> P (g n)"
  shows "length (filter P (update_rows w g t)) < length (filter P t)"
  using assms
proof (induction t)
  case (Cons n t)
  have le: "length (filter P (update_rows w g t)) \<le> length (filter P t)" for t :: "'a list"
    using assms(4) by (induction t) auto
  show ?case
  proof (cases "c = n")
    case True
    then show ?thesis using Cons.prems le [of t] by (simp add: le_imp_less_Suc)
  next
    case False
    then have "length (filter P (update_rows w g t)) < length (filter P t)"
      using Cons by simp
    then show ?thesis using Cons.prems(4) by simp
  qed
qed simp

text \<open>A row that is not due is left alone by the rounds.\<close>

lemma worker_loop_keeps:
  assumes "ids_unique s" and "n \<in> set (notifications s)" and "\<not> is_due now n"
  shows "n \<in> set (notifications (fst (worker_loop k i e sd now s)))"
proof -
  obtain s' b where r: "worker_loop k i e sd now s = (s', b)" by fastforce
  have "ids_unique s' \<and> n \<in> set (notifications s')"
    using r assms(1,2)
  proof (rule worker_loop_rule)
    fix t c f
    assume t: "distinct (map ntf_id t)" "n \<in> set t" "c \<in> set t" "is_due now c"
    then have "ntf_id n \<noteq> ntf_id c" using assms(3) by (metis distinct_map inj_on_def)
    then show "n \<in> set (update_rows (\<lambda>n. ntf_id n = ntf_id c) f t)" using t(2) unfolding set_update_rows by force
  qed
  then show ?thesis by (simp add: r)
qed

text \<open>
  In a pass that is not stopped and meets no database error, every due row is tried: it ends
  with the verdict of its channels.
\<close>

lemma worker_loop_tries:
  assumes "\<forall>j. \<not> pe_stopping e j \<and> \<not> pe_claimFails e j \<and> \<not> pe_sentFails e j \<and> \<not> pe_recordFails e j"
    and "ids_unique s" and "length (filter (is_due now) (notifications s)) \<le> k"
  shows "snd (worker_loop k i e sd now s) = False
    \<and> filter (is_due now) (notifications (fst (worker_loop k i e sd now s))) = []
    \<and> (\<forall>c \<in> set (notifications s). is_due now c \<longrightarrow> marked sd False now c c \<in> set (notifications (fst (worker_loop k i e sd now s))))"
  using assms(2,3)
proof (induction k arbitrary: i s)
  case 0
  then show ?case by (simp add: filter_empty_conv)
next
  case (Suc k)
  obtain r s1 where c: "claim_next now s = (r, s1)" by fastforce
  show ?case
  proof (cases r)
    case None
    with c have "s1 = s" "filter (is_due now) (notifications s) = []" using claim_next_None by blast+
    then show ?thesis using None c assms(1) by (simp add: filter_empty_conv)
  next
    case (Some row)
    have cn: "claim_next now s = (Some row, s1)" using c Some by simp
    obtain s2 b where d: "deliver sd (pe_sentFails e i) (pe_recordFails e i) now row s1 = (s2, b)" by fastforce
    obtain x where x: "x \<in> set (notifications s)" "is_due now x" "\<not> b"
        "notifications s2 = update_rows (\<lambda>n. ntf_id n = ntf_id x) (marked sd False now x) (notifications s)"
      using round_cases [OF cn Suc.prems(1) d] assms(1) by (metis (full_types))
    have run: "worker_loop (Suc k) i e sd now s = worker_loop k (Suc i) e sd now s2"
      using cn d x(3) assms(1) by simp
    have u2: "ids_unique s2" using Suc.prems(1) unfolding ids_unique_def x(4) by (simp add: ids_unique_update)
    have "length (filter (is_due now) (notifications s2)) < length (filter (is_due now) (notifications s))"
      unfolding x(4) using x(1,2) not_due_marked by (intro length_filter_update_less) auto
    then have IH: "snd (worker_loop k (Suc i) e sd now s2) = False"
        "filter (is_due now) (notifications (fst (worker_loop k (Suc i) e sd now s2))) = []"
        "\<forall>c \<in> set (notifications s2). is_due now c \<longrightarrow> marked sd False now c c \<in> set (notifications (fst (worker_loop k (Suc i) e sd now s2)))"
      using Suc.IH [OF u2, of "Suc i"] Suc.prems(2) by simp_all
    have "marked sd False now n n \<in> set (notifications (fst (worker_loop k (Suc i) e sd now s2)))"
      if n: "n \<in> set (notifications s)" "is_due now n" for n
    proof (cases "ntf_id n = ntf_id x")
      case True
      then have "n = x" using n(1) x(1) Suc.prems(1) unfolding ids_unique_def by (metis distinct_map inj_on_def)
      then have "marked sd False now n n \<in> set (notifications s2)" using x(1) unfolding x(4) set_update_rows by force
      then show ?thesis by (rule worker_loop_keeps [OF u2 _ not_due_marked])
    next
      case False
      then have "n \<in> set (notifications s2)" using n(1) unfolding x(4) set_update_rows by force
      then show ?thesis using IH(3) n(2) by blast
    qed
    then show ?thesis using IH(1,2) run by simp
  qed
qed

lemma recover_stale_ids: "map ntf_id (recover_stale now t) = map ntf_id t"
  unfolding recover_stale_def Let_def by (rule ids_unique_update) simp

text \<open>What one attempt leaves of a due row: sent, or one failure more and rescheduled or given up.\<close>

definition attempted :: "senders \<Rightarrow> instant \<Rightarrow> notification \<Rightarrow> notification \<Rightarrow> bool" where
  "attempted sd now c n \<longleftrightarrow> ntf_id n = ntf_id c \<and> ntf_claimedAt n = None \<and>
     (if \<exists>ch. List.find (\<lambda>ch. channel_result sd (row_message c) ch \<noteq> Unconfigured) (channelChain (ntf_channel c)) = Some ch
           \<and> channel_result sd (row_message c) ch = SendOk
      then ntf_status n = SENT \<and> ntf_sentAt n = Some now
      else ntf_retries n = ntf_retries c + 1 \<and> ntf_error n \<noteq> None \<and>
        (if ntf_retries n \<ge> MAX_RETRIES then ntf_status n = NFAILED
         else ntf_status n = QUEUED \<and> ntf_nextAttemptAt n = Some (now + backoffMs (ntf_retries c))))"

lemma marked_attempted: "attempted sd now c (marked sd False now c c)"
  by (auto simp: attempted_def marked_def verdict_def mark_sent_def mark_failed_def claim_sending_def Let_def
      split: option.splits)



section \<open>What queueing leaves\<close>

lemma enqueue_Inr:
  assumes "enqueue userId channel template payload now s = (s', Inr nid)"
  shows "s' = s\<lparr>notifications := notifications s @ [new_notification nid userId channel template payload now],
    uuid_ctr := Suc (uuid_ctr s)\<rparr>"
  using assms
  by (auto simp: enqueue_def fresh_uuid_def Let_def split: sum.splits dest: insert_row_Inr)

lemma enqueueInApp_Inr:
  assumes "enqueueInApp userId template payload now s = (s', Inr nid)"
  shows "s' = s\<lparr>notifications := notifications s @
      [(new_notification nid userId INAPP template payload now)\<lparr>ntf_status := SENT, ntf_sentAt := Some now\<rparr>],
    uuid_ctr := Suc (uuid_ctr s)\<rparr>"
  using assms
  by (auto simp: enqueueInApp_def fresh_uuid_def Let_def split: sum.splits dest: insert_row_Inr)

end
