(* ===== verification/Calendar.thy ===== *)
theory Calendar
  imports Database
begin

text \<open>
  The UTC calendar of the language's \<^verbatim>\<open>Date\<close>, as far as the services use it: \<^verbatim>\<open>Date.UTC\<close>,
  \<^verbatim>\<open>getUTCFullYear\<close>, \<^verbatim>\<open>getUTCMonth\<close>, \<^verbatim>\<open>getUTCDate\<close>, \<^verbatim>\<open>setUTCHours\<close> on whole days, and the date part of
  \<^verbatim>\<open>toISOString\<close>. Days are counted from 1970-01-01 in the proleptic Gregorian calendar.
\<close>

section \<open>Years\<close>

definition leaps :: "int \<Rightarrow> int" where
  "leaps y = y div 4 - y div 100 + y div 400"

definition is_leap :: "int \<Rightarrow> bool" where
  "is_leap y \<longleftrightarrow> y mod 4 = 0 \<and> (y mod 100 \<noteq> 0 \<or> y mod 400 = 0)"

definition year_start :: "int \<Rightarrow> int" where
  "year_start y = 365 * (y - 1970) + leaps (y - 1) - leaps 1969"

lemma div_step: "0 < k \<Longrightarrow> (y::int) div k - (y - 1) div k = (if y mod k = 0 then 1 else 0)"
proof -
  assume k: "0 < k"
  have y: "y = k * (y div k) + y mod k" by simp
  show ?thesis
  proof (cases "y mod k = 0")
    case True
    then have e: "y - 1 = k * (y div k - 1) + (k - 1)" using y by (simp add: algebra_simps)
    have "(y - 1) div k = (y div k - 1) + (k - 1) div k"
      unfolding e using k by (simp add: div_mult_self2)
    moreover have "(k - 1) div k = 0" using k by simp
    ultimately show ?thesis using True by simp
  next
    case False
    then have m: "0 \<le> y mod k - 1" "y mod k - 1 < k" using k pos_mod_bound [OF k, of y] pos_mod_sign [OF k, of y] by linarith+
    have "y - 1 = k * (y div k) + (y mod k - 1)" using y by linarith
    then have "(y - 1) div k = y div k + (y mod k - 1) div k" using k
      by (metis div_mult_self4 add.commute less_numeral_extra(3))
    moreover have "(y mod k - 1) div k = 0" using m by simp
    ultimately show ?thesis using False by simp
  qed
qed

lemma leap_rule:
  "(B \<longrightarrow> A) \<Longrightarrow> (C \<longrightarrow> B) \<Longrightarrow>
     (if A then 1 else 0) - (if B then 1 else 0) + (if C then 1 else 0) = (if A \<and> (\<not> B \<or> C) then 1 else (0::int))"
  by (cases A; cases B; cases C) simp_all

lemma leaps_step: "leaps y = leaps (y - 1) + (if is_leap y then 1 else 0)"
proof -
  have "(4::int) dvd 100" "(100::int) dvd 400" by simp_all
  then have d: "y mod 100 = 0 \<longrightarrow> y mod 4 = 0" "y mod 400 = 0 \<longrightarrow> y mod 100 = 0"
    by (metis dvd_trans mod_0_imp_dvd mod_eq_0_iff_dvd)+
  have "leaps y - leaps (y - 1) =
      (y div 4 - (y - 1) div 4) - (y div 100 - (y - 1) div 100) + (y div 400 - (y - 1) div 400)"
    by (simp add: leaps_def)
  also have "\<dots> = (if y mod 4 = 0 then 1 else 0) - (if y mod 100 = 0 then 1 else 0) + (if y mod 400 = 0 then 1 else 0)"
    unfolding div_step [of 4 y, OF zero_less_numeral] div_step [of 100 y, OF zero_less_numeral]
      div_step [of 400 y, OF zero_less_numeral] by (rule refl)
  also have "\<dots> = (if is_leap y then 1 else 0)"
    unfolding is_leap_def by (rule leap_rule [OF d])
  finally show ?thesis by simp
qed

lemma year_start_step: "year_start (y + 1) = year_start y + (if is_leap y then 366 else 365)"
  using leaps_step [of y] by (simp add: year_start_def)

lemma year_start_less: "year_start y < year_start (y + 1)"
  by (simp add: year_start_step)

lemma year_start_1970 [simp]: "year_start 1970 = 0"
  by (simp add: year_start_def)

lemma year_start_after: "year_start (1970 + int k) \<le> 366 * int k"
proof (induction k)
  case (Suc k)
  then show ?case using year_start_step [of "1970 + int k"] by (auto simp: algebra_simps split: if_splits)
qed simp

lemma year_start_before: "year_start (1970 - int k) \<le> 365 * - int k"
proof (induction k)
  case (Suc k)
  then show ?case using year_start_step [of "1970 - int k - 1"] by (auto simp: algebra_simps split: if_splits)
qed simp

lemma year_start_mono: "y \<le> z \<Longrightarrow> year_start y \<le> year_start z"
proof -
  have "year_start y \<le> year_start (y + int k)" for k
  proof (induction k)
    case (Suc k)
    then show ?case using year_start_less [of "y + int k"] by (simp add: algebra_simps)
  qed simp
  from this [of "nat (z - y)"] show "y \<le> z \<Longrightarrow> ?thesis" by simp
qed

text \<open>The year of a day: from an estimate that is never too late, step forward.\<close>

function year_from :: "int \<Rightarrow> int \<Rightarrow> int" where
  "year_from y d = (if year_start (y + 1) \<le> d then year_from (y + 1) d else y)"
  by pat_completeness auto
termination
proof (relation "measure (\<lambda>(y, d). nat (d - year_start y))")
  fix y d :: int
  assume "year_start (y + 1) \<le> d"
  then show "((y + 1, d), (y, d)) \<in> measure (\<lambda>(y, d). nat (d - year_start y))"
    using year_start_less [of y] by simp
qed simp

declare year_from.simps [simp del]

definition year_of_day :: "int \<Rightarrow> int" where
  "year_of_day d = year_from (1970 + (if 0 \<le> d then d div 366 else d div 365)) d"

lemma year_from_bounds:
  "year_start y \<le> d \<Longrightarrow> year_start (year_from y d) \<le> d \<and> d < year_start (year_from y d + 1)"
proof (induction y d rule: year_from.induct)
  case (1 y d)
  then show ?case by (cases "year_start (y + 1) \<le> d") (auto simp: year_from.simps [of y d])
qed

lemma estimate: "year_start (1970 + (if 0 \<le> d then d div 366 else d div 365)) \<le> d"
proof (cases "0 \<le> d")
  case True
  then have "0 \<le> d div 366" by simp
  then have "year_start (1970 + d div 366) \<le> 366 * (d div 366)"
    using year_start_after [of "nat (d div 366)"] by simp
  moreover have "366 * (d div 366) \<le> d" by presburger
  ultimately show ?thesis using True by simp
next
  case False
  then have "d div 365 \<le> 0" by presburger
  then have "year_start (1970 + d div 365) \<le> 365 * (d div 365)"
    using year_start_before [of "nat (- (d div 365))"] by simp
  moreover have "365 * (d div 365) \<le> d" by presburger
  ultimately show ?thesis using False by simp
qed

lemma year_of_day_bounds: "year_start (year_of_day d) \<le> d" "d < year_start (year_of_day d + 1)"
  using year_from_bounds [OF estimate] by (simp_all add: year_of_day_def)

lemma year_of_day_eq: "year_start y \<le> d \<Longrightarrow> d < year_start (y + 1) \<Longrightarrow> year_of_day d = y"
proof (rule ccontr)
  assume a: "year_start y \<le> d" "d < year_start (y + 1)" "year_of_day d \<noteq> y"
  note b = year_of_day_bounds [of d]
  from a(3) consider "year_of_day d + 1 \<le> y" | "y + 1 \<le> year_of_day d" by linarith
  then show False
  proof cases
    case 1
    then show ?thesis using year_start_mono [OF 1] a b by linarith
  next
    case 2
    then show ?thesis using year_start_mono [OF 2] a b by linarith
  qed
qed

section \<open>Months\<close>

text \<open>Days before the month with index 0 to 12 (0 is January; 12 the year's length).\<close>

definition month_starts :: "bool \<Rightarrow> int list" where
  "month_starts leap = (if leap then [0, 31, 60, 91, 121, 152, 182, 213, 244, 274, 305, 335, 366]
     else [0, 31, 59, 90, 120, 151, 181, 212, 243, 273, 304, 334, 365])"

definition month_start :: "bool \<Rightarrow> nat \<Rightarrow> int" where
  "month_start leap m = month_starts leap ! m"

definition month_of_yday :: "bool \<Rightarrow> int \<Rightarrow> nat" where
  "month_of_yday leap n = length (filter (\<lambda>m. month_start leap m \<le> n) [1..<12])"

lemma upt_12: "[1..<12] = [1, 2, 3, 4, 5, 6, 7, 8, 9, 10, 11 :: nat]"
  by (simp add: upt_rec)

lemma month_index: "m < 12 \<Longrightarrow> m \<in> {0, 1, 2, 3, 4, 5, 6, 7, 8, 9, 10, 11 :: nat}"
  by (simp add: numeral_eq_Suc less_Suc_eq)

lemma month_of_yday_eq:
  assumes "m < 12" and "month_start leap m \<le> n" and "n < month_start leap (Suc m)"
  shows "month_of_yday leap n = m"
proof -
  have "m \<in> {0, 1, 2, 3, 4, 5, 6, 7, 8, 9, 10, 11}" using assms(1) by (rule month_index)
  then show ?thesis using assms(2,3)
    by (cases leap; elim insertE)
       (simp_all add: month_of_yday_def upt_12 month_start_def month_starts_def numeral_eq_Suc)
qed

section \<open>Instants\<close>

definition utc_day :: "instant \<Rightarrow> int" where
  "utc_day t = t div day_ms"

definition getUTCFullYear :: "instant \<Rightarrow> int" where
  "getUTCFullYear t = year_of_day (utc_day t)"

definition getUTCMonth :: "instant \<Rightarrow> nat" where
  "getUTCMonth t = (let y = getUTCFullYear t in month_of_yday (is_leap y) (utc_day t - year_start y))"

definition getUTCDate :: "instant \<Rightarrow> int" where
  "getUTCDate t = (let y = getUTCFullYear t in
     utc_day t - year_start y - month_start (is_leap y) (getUTCMonth t) + 1)"

text \<open>\<^verbatim>\<open>Date.UTC(y, m, d)\<close>: a month index outside 0 to 11 carries into the year.\<close>

definition date_UTC :: "int \<Rightarrow> int \<Rightarrow> int \<Rightarrow> instant" where
  "date_UTC y mi d = (let y' = y + mi div 12; m = nat (mi mod 12) in
     (year_start y' + month_start (is_leap y') m + (d - 1)) * day_ms)"

text \<open>\<^verbatim>\<open>setUTCHours(23, 59, 59, 999)\<close>: the last millisecond of the day.\<close>

definition end_of_day :: "instant \<Rightarrow> instant" where
  "end_of_day t = as_date t + (day_ms - 1)"

definition iso_date :: "instant \<Rightarrow> string" where
  "iso_date t = padStart 4 CHR ''0'' (show_int (getUTCFullYear t)) @ ''-'' @
     padStart 2 CHR ''0'' (show_nat (getUTCMonth t + 1)) @ ''-'' @ padStart 2 CHR ''0'' (show_int (getUTCDate t))"

lemma utc_day_scale [simp]: "utc_day (d * day_ms) = d"
  by (simp add: utc_day_def day_ms_def)

lemma month_start_bounds:
  assumes "m < 12"
  shows "0 \<le> month_start l m" "month_start l (Suc m) \<le> (if l then 366 else 365)"
proof -
  have "m \<in> {0, 1, 2, 3, 4, 5, 6, 7, 8, 9, 10, 11}" using assms by (rule month_index)
  then show "0 \<le> month_start l m" "month_start l (Suc m) \<le> (if l then 366 else 365)"
    by (cases l; elim insertE; simp add: month_start_def month_starts_def numeral_eq_Suc)+
qed

text \<open>
  The calendar functions invert each other: the date built from a year, a
  month and a day of that month reads back as the same year, month and day.
\<close>

theorem date_UTC_roundtrip:
  assumes "m < 12" and "1 \<le> d" and "d \<le> month_start (is_leap y) (Suc m) - month_start (is_leap y) m"
  shows "getUTCFullYear (date_UTC y (int m) d) = y \<and> getUTCMonth (date_UTC y (int m) d) = m
    \<and> getUTCDate (date_UTC y (int m) d) = d"
proof -
  let ?n = "month_start (is_leap y) m + (d - 1)"
  have n: "month_start (is_leap y) m \<le> ?n" "?n < month_start (is_leap y) (Suc m)" using assms(2,3) by linarith+
  note b = month_start_bounds [OF assms(1), of "is_leap y"]
  have day: "utc_day (date_UTC y (int m) d) = year_start y + ?n"
    using assms(1) by (simp add: date_UTC_def Let_def)
  have "year_start y \<le> year_start y + ?n" using b(1) n(1) by linarith
  moreover have "year_start y + ?n < year_start (y + 1)"
    using b(2) n(2) by (simp add: year_start_step split: if_splits)
  ultimately have y: "getUTCFullYear (date_UTC y (int m) d) = y"
    unfolding getUTCFullYear_def day by (rule year_of_day_eq)
  have m: "getUTCMonth (date_UTC y (int m) d) = m"
    unfolding getUTCMonth_def y Let_def day using month_of_yday_eq [OF assms(1) n] by simp
  show ?thesis using y m by (simp add: getUTCDate_def Let_def day)
qed

theorem date_UTC_roundtrip_witness: "getUTCDate (date_UTC 2024 1 29) = 29"
  using date_UTC_roundtrip [of 1 29 2024] by (simp add: is_leap_def month_start_def month_starts_def)

end
