(* ===== verification/Ownership.thy ===== *)
theory Ownership
  imports Database
begin

text \<open>
  The ownership guard of \<^verbatim>\<open>src/students/student-ownership.service.ts\<close>: \<^verbatim>\<open>canAccess\<close> decides one
  student id, \<^verbatim>\<open>visibleStudentIds\<close> gives the ids a list query may show. Services call the
  first through \<^verbatim>\<open>assertCanAccess\<close>, which answers 404. The locale \<open>student_guard\<close> is what the
  services rely on: the decision depends on the tables only, and refuses unknown students.
\<close>

section \<open>Operations\<close>

text \<open>\<^verbatim>\<open>findFirst\<close> on the students with \<^verbatim>\<open>deletedAt: null\<close>.\<close>

definition live_student :: "'a db_scheme \<Rightarrow> uuid \<Rightarrow> student_profile option" where
  "live_student s studentId = List.find (\<lambda>p. stu_id p = studentId \<and> stu_deletedAt p = None) (students s)"

text \<open>An open enrollment of the student in a class the instructor teaches.\<close>

definition teaches :: "'a db_scheme \<Rightarrow> uuid \<Rightarrow> enrollment \<Rightarrow> bool" where
  "teaches s instructorId e \<longleftrightarrow> enr_leftAt e = None \<and>
     (\<exists>c \<in> set (classes s). cls_id c = enr_classId e \<and> cls_instructorId c = instructorId)"

definition canAccess :: "'a db_scheme \<Rightarrow> caller \<Rightarrow> uuid \<Rightarrow> bool" where
  "canAccess s caller studentId = (case live_student s studentId of
       None \<Rightarrow> False
     | Some profile \<Rightarrow>
         (case cal_role caller of
            ADMIN \<Rightarrow> True
          | STUDENT \<Rightarrow> stu_userId profile = Some (cal_id caller)
          | PARENT \<Rightarrow> List.find (\<lambda>l. lnk_parentUserId l = cal_id caller \<and> lnk_studentId l = studentId
                                 \<and> lnk_verified l) (parentLinks s) \<noteq> None
          | INSTRUCTOR \<Rightarrow> List.find (\<lambda>e. enr_studentId e = studentId \<and> teaches s (cal_id caller) e)
                                 (enrollments s) \<noteq> None))"

definition assertCanAccess :: "'a db_scheme \<Rightarrow> caller \<Rightarrow> uuid \<Rightarrow> unit res" where
  "assertCanAccess s caller studentId =
     (if canAccess s caller studentId then Inr () else Inl (NotFound ''Not found''))"

text \<open>\<^term>\<open>None\<close> is the source's null: no restriction.\<close>

definition visibleStudentIds :: "'a db_scheme \<Rightarrow> caller \<Rightarrow> uuid list option" where
  "visibleStudentIds s caller = (case cal_role caller of
       ADMIN \<Rightarrow> None
     | STUDENT \<Rightarrow> Some (map stu_id (filter (\<lambda>p. stu_userId p = Some (cal_id caller) \<and> stu_deletedAt p = None) (students s)))
     | PARENT \<Rightarrow> Some (map lnk_studentId (filter (\<lambda>l. lnk_parentUserId l = cal_id caller \<and> lnk_verified l
           \<and> (\<exists>p \<in> set (students s). stu_id p = lnk_studentId l \<and> stu_deletedAt p = None)) (parentLinks s)))
     | INSTRUCTOR \<Rightarrow> Some (remdups (map enr_studentId (filter (teaches s (cal_id caller)) (enrollments s)))))"

section \<open>What the clients rely on\<close>

locale student_guard =
  fixes guard :: "app \<Rightarrow> caller \<Rightarrow> uuid \<Rightarrow> unit res"
  assumes guard_db: "same_db s s' \<Longrightarrow> guard s c sid = guard s' c sid"
    and guard_unknown: "live_student s sid = None \<Longrightarrow> guard s c sid = Inl (NotFound ''Not found'')"
    and guard_error: "guard s c sid = Inl e \<Longrightarrow> e = NotFound ''Not found''"
begin

text \<open>
  A handler that asks the guard first and otherwise runs a body: refusals are uniform, so a
  caller learns nothing about which student ids exist.
\<close>

lemma guarded_uniform:
  assumes "guard s c sid = Inl e" and "guard s c sid' = Inl e'"
  shows "e = e'"
  using guard_error [OF assms(1)] guard_error [OF assms(2)] by simp

lemma guarded_live: "guard s c sid = Inr u \<Longrightarrow> live_student s sid \<noteq> None"
  using guard_unknown [of s sid c] by auto

end

lemma canAccess_db:
  assumes "same_db s s'"
  shows "canAccess s c sid = canAccess s' c sid"
proof -
  note t = same_db_tables [OF assms]
  have te: "teaches s = teaches s'" by (simp add: fun_eq_iff teaches_def t)
  show ?thesis unfolding canAccess_def live_student_def t te by (rule refl)
qed

interpretation ownership: student_guard assertCanAccess
proof
  fix s s' :: app and c sid e
  show "same_db s s' \<Longrightarrow> assertCanAccess s c sid = assertCanAccess s' c sid"
    by (simp add: assertCanAccess_def canAccess_db [of s s'])
  show "live_student s sid = None \<Longrightarrow> assertCanAccess s c sid = Inl (NotFound ''Not found'')"
    by (simp add: assertCanAccess_def canAccess_def)
  show "assertCanAccess s c sid = Inl e \<Longrightarrow> e = NotFound ''Not found''"
    by (simp add: assertCanAccess_def split: if_splits)
qed

section \<open>The two halves agree\<close>

definition student_ids_unique :: "'a db_scheme \<Rightarrow> bool" where
  "student_ids_unique s \<longleftrightarrow> distinct (map stu_id (students s))"

lemma live_student_Some:
  "live_student s sid = Some p \<Longrightarrow> p \<in> set (students s) \<and> stu_id p = sid \<and> stu_deletedAt p = None"
  unfolding live_student_def by (drule find_Some_iff) simp

lemma live_student_None:
  "live_student s sid = None \<longleftrightarrow> (\<forall>p \<in> set (students s). stu_id p = sid \<longrightarrow> stu_deletedAt p \<noteq> None)"
  by (auto simp: live_student_def find_None_ball)

lemma live_student_unique:
  assumes "student_ids_unique s" and "p \<in> set (students s)" and "stu_id p = sid" and "stu_deletedAt p = None"
  shows "live_student s sid = Some p"
proof -
  from assms have "live_student s sid \<noteq> None" unfolding live_student_None by auto
  then obtain q where q: "live_student s sid = Some q" by auto
  then have "q \<in> set (students s)" "stu_id q = sid" using live_student_Some by blast+
  then have "q = p"
    using assms(1-3) unfolding student_ids_unique_def by (metis distinct_map inj_on_def)
  with q show ?thesis by simp
qed

lemma canAccess_live: "canAccess s c sid \<Longrightarrow> live_student s sid \<noteq> None"
  by (auto simp: canAccess_def split: option.splits)

text \<open>
  C16: For a student, a parent or an instructor, the list scope and the single
  check agree on every student that is not soft-deleted: a caller may open exactly the
  students the lists show; no caller but the admin is unrestricted.
\<close>

theorem visible_iff_canAccess:
  assumes "student_ids_unique s" and "live_student s sid = Some p"
  shows "case visibleStudentIds s c of
      None \<Rightarrow> cal_role c = ADMIN \<and> canAccess s c sid
    | Some ids \<Rightarrow> cal_role c \<noteq> ADMIN \<and> (sid \<in> set ids \<longleftrightarrow> canAccess s c sid)"
proof -
  note p = live_student_Some [OF assms(2)]
  have uniq: "q = p" if "q \<in> set (students s)" "stu_id q = sid" for q
    using that p assms(1) unfolding student_ids_unique_def by (metis distinct_map inj_on_def)
  have fd: "List.find P xs \<noteq> None \<longleftrightarrow> (\<exists>x \<in> set xs. P x)" for P and xs :: "'x list"
    by (rule find_is_Some)
  show ?thesis
  proof (cases "cal_role c")
    case STUDENT
    have "(\<exists>q \<in> set (students s). stu_id q = sid \<and> stu_userId q = Some (cal_id c) \<and> stu_deletedAt q = None)
        \<longleftrightarrow> stu_userId p = Some (cal_id c)"
      using uniq p by blast
    with STUDENT assms(2) show ?thesis
      by (auto simp: visibleStudentIds_def canAccess_def)
  next
    case PARENT
    have "(\<exists>l \<in> set (parentLinks s). lnk_studentId l = sid \<and> lnk_parentUserId l = cal_id c \<and> lnk_verified l
          \<and> (\<exists>q \<in> set (students s). stu_id q = lnk_studentId l \<and> stu_deletedAt q = None))
        \<longleftrightarrow> (\<exists>l \<in> set (parentLinks s). lnk_parentUserId l = cal_id c \<and> lnk_studentId l = sid \<and> lnk_verified l)"
      using p by blast
    with PARENT assms(2) show ?thesis
      unfolding visibleStudentIds_def canAccess_def fd by auto
  next
    case INSTRUCTOR
    with assms(2) show ?thesis
      unfolding visibleStudentIds_def canAccess_def fd by auto
  next
    case ADMIN
    with assms(2) show ?thesis by (simp add: visibleStudentIds_def canAccess_def)
  qed
qed

definition stu0 :: student_profile where
  "stu0 = \<lparr> stu_id = ''s1'', stu_userId = Some ''u1'', stu_fullName = ''A'', stu_dob = 0,
     stu_gender = MALE, stu_phone = None, stu_address = None, stu_emergencyContactName = None,
     stu_emergencyContactPhone = None, stu_medicalNotes = None, stu_currentBeltRankId = None,
     stu_inviteCode = ''AAAAAAAA'', stu_joinedAt = 0, stu_status = SActive, stu_deletedAt = None \<rparr>"

definition caller0 :: "user_role \<Rightarrow> uuid \<Rightarrow> caller" where
  "caller0 r u = \<lparr> cal_id = u, cal_role = r, cal_sessionId = ''x'', cal_jti = ''j'' \<rparr>"

theorem visible_iff_canAccess_witness:
  "visibleStudentIds (empty_app\<lparr>students := [stu0]\<rparr>) (caller0 STUDENT ''u1'') = Some [''s1'']
   \<and> canAccess (empty_app\<lparr>students := [stu0]\<rparr>) (caller0 STUDENT ''u1'') ''s1''"
proof -
  let ?s = "empty_app\<lparr>students := [stu0]\<rparr>"
  have v: "visibleStudentIds ?s (caller0 STUDENT ''u1'') = Some [''s1'']"
    by (simp add: visibleStudentIds_def caller0_def stu0_def)
  have "student_ids_unique ?s" "live_student ?s ''s1'' = Some stu0"
    by (simp_all add: student_ids_unique_def live_student_def stu0_def)
  from visible_iff_canAccess [OF this, of "caller0 STUDENT ''u1''"] v show ?thesis by simp
qed

text \<open>
  An instructor's list scope also contains soft-deleted students whose enrollment
  was left open (a soft delete does not close it), which the single check refuses.
\<close>

theorem visible_deleted_student:
  assumes "e \<in> set (enrollments s)" and "teaches s (cal_id c) e" and "cal_role c = INSTRUCTOR"
    and "live_student s (enr_studentId e) = None"
  shows "(\<exists>ids. visibleStudentIds s c = Some ids \<and> enr_studentId e \<in> set ids)
    \<and> \<not> canAccess s c (enr_studentId e)"
  using assms by (auto simp: visibleStudentIds_def canAccess_def)

definition cls0 :: class_row where
  "cls0 = \<lparr> cls_id = ''c1'', cls_name = ''Basic'', cls_instructorId = ''i1'', cls_location = None,
     cls_capacity = 30, cls_status = CActive \<rparr>"

definition enr0 :: enrollment where
  "enr0 = \<lparr> enr_id = ''e1'', enr_studentId = ''s1'', enr_classId = ''c1'', enr_enrolledAt = 0, enr_leftAt = None \<rparr>"

theorem visible_deleted_student_witness:
  "\<exists>ids. visibleStudentIds (empty_app\<lparr>students := [stu0\<lparr>stu_deletedAt := Some 5\<rparr>], classes := [cls0],
       enrollments := [enr0]\<rparr>) (caller0 INSTRUCTOR ''i1'') = Some ids \<and> ''s1'' \<in> set ids"
  using visible_deleted_student [of enr0 "empty_app\<lparr>students := [stu0\<lparr>stu_deletedAt := Some 5\<rparr>],
      classes := [cls0], enrollments := [enr0]\<rparr>" "caller0 INSTRUCTOR ''i1''"]
  by (simp add: teaches_def caller0_def enr0_def cls0_def stu0_def live_student_def)

end
