(* ===== verification/Invoices.thy ===== *)
theory Invoices
  imports Discounts Outbox Calendar Ownership
begin

text \<open>
  Invoices, from \<^verbatim>\<open>src/billing/billing.service.ts\<close>: the exam fee invoice an exam registration
  issues, manual creation, the monthly tuition run, lists and detail with their access rules,
  and the ageing job of \<^verbatim>\<open>overdue-invoice.job.ts\<close>.

  Invoice numbers are derived from the numbers in use, so two concurrent issuers may compute
  the same one. The argument \<open>seen\<close> says which rows of the table the derivation reads: with
  \<open>\<lambda>_. True\<close> nothing runs concurrently; rows that are not seen were committed between the
  read and the insert.
\<close>

section \<open>Shared parts\<close>

definition year_prefix :: "int \<Rightarrow> string" where
  "year_prefix year = ''INV-'' @ show_int year @ ''-''"

definition nextInvoiceNo :: "invoice list \<Rightarrow> int \<Rightarrow> string" where
  "nextInvoiceNo rows year = (let prefix = year_prefix year in
     nextSequentialCode prefix (map inv_invoiceNo (filter (\<lambda>r. startsWith (inv_invoiceNo r) prefix) rows)) 4)"

record line =
  ln_description :: string
  ln_quantity :: int
  ln_unitAmount :: int
  ln_amount :: int

definition new_item :: "uuid \<Rightarrow> uuid \<Rightarrow> line \<Rightarrow> invoice_item" where
  "new_item itemId invoiceId l = \<lparr> item_id = itemId, item_invoiceId = invoiceId,
     item_description = ln_description l, item_quantity = ln_quantity l,
     item_unitAmount = ln_unitAmount l, item_amount = ln_amount l \<rparr>"

definition item_uqs :: "(invoice_item, uuid) uq list" where
  "item_uqs = [([''id''], \<lambda>i. Some (item_id i))]"

text \<open>\<^verbatim>\<open>invoiceItem.create\<close> and \<^verbatim>\<open>createMany\<close>.\<close>

fun create_items :: "uuid \<Rightarrow> line list \<Rightarrow> app \<Rightarrow> app \<times> unit res" where
  "create_items invoiceId [] s = (s, Inr ())"
| "create_items invoiceId (l # ls) s = (let (itemId, s') = fresh_uuid s in
     case insert_row item_uqs (new_item itemId invoiceId l) (invoiceItems s') of
       Inl e \<Rightarrow> (s', Inl e)
     | Inr t \<Rightarrow> create_items invoiceId ls (s'\<lparr>invoiceItems := t\<rparr>))"

text \<open>\<^verbatim>\<open>invoice.create\<close>: the caller gives the row but its id; amounts must fit INTEGER columns.\<close>

definition create_invoice_row :: "(uuid \<Rightarrow> invoice) \<Rightarrow> app \<Rightarrow> app \<times> invoice res" where
  "create_invoice_row mk s = (let (iid, s') = fresh_uuid s; row = mk iid in
     if \<not> (int4 (inv_subtotal row) \<and> int4 (inv_discount row) \<and> int4 (inv_total row))
     then (s', Inl (OtherError ''value does not fit an INTEGER column''))
     else case insert_row invoice_uqs row (invoices s') of
       Inl e \<Rightarrow> (s', Inl e)
     | Inr t \<Rightarrow> (s'\<lparr>invoices := t\<rparr>, Inr row))"

section \<open>Exam fee invoices\<close>

record exam_fee_args =
  efa_studentId :: uuid
  efa_exam :: belt_exam
  efa_registrationId :: uuid
  efa_createdBy :: uuid

definition exam_fee_row :: "exam_fee_args \<Rightarrow> string \<Rightarrow> instant \<Rightarrow> uuid \<Rightarrow> invoice" where
  "exam_fee_row args no now iid = (let ex = efa_exam args in
     \<lparr> inv_id = iid, inv_invoiceNo = no, inv_studentId = efa_studentId args, inv_type = EXAM_FEE,
       inv_refExamRegistrationId = Some (efa_registrationId args), inv_periodMonth = None,
       inv_periodYear = None, inv_subtotal = exm_feeAmount ex, inv_discount = 0,
       inv_total = exm_feeAmount ex, inv_status = UNPAID, inv_dueDate = as_date (exm_examDate ex),
       inv_issuedAt = now, inv_note = Some (''Belt exam '' @ exm_code ex @ '' ('' @ exm_title ex @ '')''),
       inv_createdBy = efa_createdBy args \<rparr>)"

definition exam_fee_line :: "belt_exam \<Rightarrow> line" where
  "exam_fee_line ex = \<lparr> ln_description = ''Belt exam fee '' @ exm_code ex @ '' '' @ em_dash @ '' '' @ exm_title ex,
     ln_quantity = 1, ln_unitAmount = exm_feeAmount ex, ln_amount = exm_feeAmount ex \<rparr>"

record fee_result =
  fr_id :: uuid
  fr_invoiceNo :: string
  fr_total :: int
  fr_status :: invoice_status

text \<open>
  The loop runs inside the caller's transaction. PostgreSQL refuses every statement of a
  transaction after a failed one, so once an insert has hit a unique constraint
  (\<open>aborted\<close>) the read of the next attempt, which stands outside the \<^verbatim>\<open>try\<close>, throws.
\<close>

definition exam_fee_body ::
  "(invoice \<Rightarrow> bool) \<Rightarrow> exam_fee_args \<Rightarrow> instant \<Rightarrow> app \<Rightarrow> app \<times> fee_result res" where
  "exam_fee_body seen args now s =
     (let no = nextInvoiceNo (filter seen (invoices s)) (getUTCFullYear now) in
      bindE (create_invoice_row (exam_fee_row args no now)) (\<lambda>row.
      bindE (create_items (inv_id row) [exam_fee_line (efa_exam args)]) (\<lambda>_ s.
        (record_audit None ''invoice_issued'' None True
           (Some (''invoice:'' @ inv_id row @ '' exam_registration:'' @ efa_registrationId args)) s,
         Inr \<lparr> fr_id = inv_id row, fr_invoiceNo = inv_invoiceNo row, fr_total = inv_total row,
               fr_status = inv_status row \<rparr>))) s)"

fun exam_fee_loop ::
  "nat \<Rightarrow> nat \<Rightarrow> bool \<Rightarrow> (nat \<Rightarrow> invoice \<Rightarrow> bool) \<Rightarrow> exam_fee_args \<Rightarrow> instant \<Rightarrow> app \<Rightarrow> app \<times> fee_result res" where
  "exam_fee_loop 0 attempt aborted seen args now s = (s, Inl (OtherError ''unreachable''))"
| "exam_fee_loop (Suc k) attempt aborted seen args now s =
     (if aborted then (s, Inl tx_aborted)
      else case exam_fee_body (seen attempt) args now s of
        (s', Inr v) \<Rightarrow> (s', Inr v)
      | (s', Inl e) \<Rightarrow> if is_P2002 e \<and> k \<noteq> 0 then exam_fee_loop k (Suc attempt) True seen args now s'
                        else (s', Inl e))"

definition createExamFeeInvoice ::
  "(nat \<Rightarrow> invoice \<Rightarrow> bool) \<Rightarrow> exam_fee_args \<Rightarrow> instant \<Rightarrow> app \<Rightarrow> app \<times> fee_result res" where
  "createExamFeeInvoice seen args now s = exam_fee_loop 5 0 False seen args now s"

section \<open>Manual invoices\<close>

record item_dto =
  itd_description :: string
  itd_quantity :: int
  itd_unitAmount :: int

record create_invoice_dto =
  civ_studentId :: uuid
  civ_type :: invoice_type
  civ_items :: "item_dto list"
  civ_discount :: "int option"
  civ_dueDate :: "instant supplied"
  civ_note :: "string option"
  civ_periodMonth :: "int supplied"
  civ_periodYear :: "int supplied"
  civ_discountCode :: "string supplied"

text \<open>
  The validation decorators of the DTO that bear on amounts and periods. They let null through; the
  discount and the note make no difference between null and \<^verbatim>\<open>undefined\<close>.
\<close>

definition valid_create_invoice_dto :: "create_invoice_dto \<Rightarrow> bool" where
  "valid_create_invoice_dto dto \<longleftrightarrow>
     civ_items dto \<noteq> [] \<and> length (civ_items dto) \<le> 50
     \<and> list_all (\<lambda>i. 1 \<le> itd_quantity i \<and> itd_quantity i \<le> 1000
                   \<and> 0 \<le> itd_unitAmount i \<and> itd_unitAmount i \<le> 1000000000) (civ_items dto)
     \<and> (case civ_discount dto of None \<Rightarrow> True | Some d \<Rightarrow> 0 \<le> d \<and> d \<le> 1000000000)
     \<and> (case column_of (civ_periodMonth dto) of None \<Rightarrow> True | Some m \<Rightarrow> 1 \<le> m \<and> m \<le> 12)
     \<and> (case column_of (civ_periodYear dto) of None \<Rightarrow> True | Some y \<Rightarrow> 2000 \<le> y \<and> y \<le> 2100)"

definition item_line :: "item_dto \<Rightarrow> line" where
  "item_line i = \<lparr> ln_description = itd_description i, ln_quantity = itd_quantity i,
     ln_unitAmount = itd_unitAmount i, ln_amount = itd_quantity i * itd_unitAmount i \<rparr>"

fun subtotal_of :: "int \<Rightarrow> item_dto list \<Rightarrow> int res" where
  "subtotal_of acc [] = Inr acc"
| "subtotal_of acc (i # rest) = (case assertMoneyAmount (itd_quantity i * itd_unitAmount i) of
       Inl e \<Rightarrow> Inl e
     | Inr a \<Rightarrow> (case assertMoneyAmount (acc + a) of Inl e \<Rightarrow> Inl e | Inr acc' \<Rightarrow> subtotal_of acc' rest))"

definition check_period :: "create_invoice_dto \<Rightarrow> unit res" where
  "check_period dto = (if civ_type dto = TUITION
     then if civ_periodMonth dto = Undefined \<or> civ_periodYear dto = Undefined
          then Inl (BadRequest ''Tuition invoices need a billing period'') else Inr ()
     else if civ_periodMonth dto \<noteq> Undefined \<or> civ_periodYear dto \<noteq> Undefined
          then Inl (BadRequest ''Only tuition invoices carry a billing period'') else Inr ())"

text \<open>
  The discount of the request and the code it applies, if any. The method \<^verbatim>\<open>toUpperCase\<close> of null is
  a \<^verbatim>\<open>TypeError\<close>.
\<close>

definition discount_of :: "create_invoice_dto \<Rightarrow> int \<Rightarrow> instant \<Rightarrow> app \<Rightarrow> (int \<times> string option) res" where
  "discount_of dto subtotal now s = (let d = case_option 0 id (civ_discount dto) in
     case civ_discountCode dto of
       Undefined \<Rightarrow> Inr (d, None)
     | Null \<Rightarrow> Inl (OtherError ''TypeError'')
     | Given code \<Rightarrow> if code = '''' then Inr (d, None)
         else (case resolveDiscountCode code subtotal now s of
                 Inl e \<Rightarrow> Inl e
               | Inr c \<Rightarrow> (case assertMoneyAmount (d + c) of
                     Inl e \<Rightarrow> Inl e
                   | Inr d' \<Rightarrow> Inr (d', Some (toUpperCase code)))))"

definition defaultDueDate :: "instant \<Rightarrow> instant" where
  "defaultDueDate now = now + 14 * day_ms"

text \<open>\<^verbatim>\<open>new Date(null)\<close> is the epoch.\<close>

definition due_date :: "create_invoice_dto \<Rightarrow> instant \<Rightarrow> instant" where
  "due_date dto now = (case civ_dueDate dto of Undefined \<Rightarrow> defaultDueDate now | Null \<Rightarrow> 0 | Given t \<Rightarrow> t)"

definition manual_row ::
  "caller \<Rightarrow> create_invoice_dto \<Rightarrow> int \<Rightarrow> int \<Rightarrow> instant \<Rightarrow> string \<Rightarrow> instant \<Rightarrow> uuid \<Rightarrow> invoice" where
  "manual_row caller dto subtotal discount dueDate no now iid =
     \<lparr> inv_id = iid, inv_invoiceNo = no, inv_studentId = civ_studentId dto, inv_type = civ_type dto,
       inv_refExamRegistrationId = None, inv_periodMonth = column_of (civ_periodMonth dto),
       inv_periodYear = column_of (civ_periodYear dto), inv_subtotal = subtotal, inv_discount = discount,
       inv_total = subtotal - discount, inv_status = UNPAID, inv_dueDate = as_date dueDate,
       inv_issuedAt = now, inv_note = civ_note dto, inv_createdBy = cal_id caller \<rparr>"

definition invoice_summary :: "create_invoice_dto \<Rightarrow> invoice \<Rightarrow> instant \<Rightarrow> string" where
  "invoice_summary dto row dueDate = ''Invoice '' @ inv_invoiceNo row @ '' ('' @ show_type (civ_type dto) @ '') issued '' @ em_dash @
     '' total '' @ show_int (inv_total row) @ '' VND, due '' @ iso_date dueDate"

text \<open>The two outbox rows of the student's account, if there is one.\<close>

definition notify_invoice :: "user option \<Rightarrow> string \<Rightarrow> instant \<Rightarrow> app \<Rightarrow> app \<times> unit res" where
  "notify_invoice u summary now = (case u of
       None \<Rightarrow> returnE ()
     | Some u \<Rightarrow>
         bindE (enqueueInApp (usr_id u) ''invoice_issued'' (JObj [(''message'', JStr summary)]) now) (\<lambda>_.
         bindE (enqueue (usr_id u) EMAIL ''invoice_issued''
                  (JObj [(''message'', JStr summary), (''email'', JStr (usr_email u))]) now) (\<lambda>_.
         returnE ())))"

definition create_tx ::
  "(invoice \<Rightarrow> bool) \<Rightarrow> caller \<Rightarrow> create_invoice_dto \<Rightarrow> int \<Rightarrow> int \<Rightarrow> instant \<Rightarrow> user option \<Rightarrow> instant \<Rightarrow> app \<Rightarrow> app \<times> invoice res" where
  "create_tx seen caller dto subtotal discount dueDate u now s =
     (let no = nextInvoiceNo (filter seen (invoices s)) (getUTCFullYear now) in
      bindE (create_invoice_row (manual_row caller dto subtotal discount dueDate no now)) (\<lambda>row.
      bindE (create_items (inv_id row) (map item_line (civ_items dto))) (\<lambda>_.
      bindE (notify_invoice u (invoice_summary dto row dueDate) now) (\<lambda>_.
      returnE row))) s)"

record invoice_view =
  ivw_id :: uuid
  ivw_invoiceNo :: string
  ivw_studentId :: uuid
  ivw_type :: invoice_type
  ivw_periodMonth :: "int option"
  ivw_periodYear :: "int option"
  ivw_subtotal :: int
  ivw_discount :: int
  ivw_total :: int
  ivw_status :: invoice_status
  ivw_dueDate :: instant
  ivw_issuedAt :: instant
  ivw_note :: "string option"
  ivw_items :: "(uuid \<times> line) list option"

definition item_view :: "invoice_item \<Rightarrow> uuid \<times> line" where
  "item_view i = (item_id i, \<lparr> ln_description = item_description i, ln_quantity = item_quantity i,
     ln_unitAmount = item_unitAmount i, ln_amount = item_amount i \<rparr>)"

text \<open>The items are those the row was loaded with (\<^verbatim>\<open>invoice.items ?? []\<close>).\<close>

definition serializeInvoice :: "invoice \<Rightarrow> invoice_item list option \<Rightarrow> bool \<Rightarrow> invoice_view" where
  "serializeInvoice bill items withItems =
     \<lparr> ivw_id = inv_id bill, ivw_invoiceNo = inv_invoiceNo bill, ivw_studentId = inv_studentId bill,
       ivw_type = inv_type bill, ivw_periodMonth = inv_periodMonth bill, ivw_periodYear = inv_periodYear bill,
       ivw_subtotal = inv_subtotal bill, ivw_discount = inv_discount bill, ivw_total = inv_total bill,
       ivw_status = inv_status bill, ivw_dueDate = inv_dueDate bill, ivw_issuedAt = inv_issuedAt bill,
       ivw_note = inv_note bill,
       ivw_items = (if withItems then Some (map item_view (case_option [] id items)) else None) \<rparr>"

definition student_user :: "'a db_scheme \<Rightarrow> student_profile \<Rightarrow> user option" where
  "student_user s p = (case stu_userId p of None \<Rightarrow> None | Some uid \<Rightarrow> List.find (\<lambda>u. usr_id u = uid) (users s))"

definition create_detail :: "invoice \<Rightarrow> create_invoice_dto \<Rightarrow> string option \<Rightarrow> string" where
  "create_detail row dto code = ''invoice:'' @ inv_id row @ '' student:'' @ civ_studentId dto @
     (case code of None \<Rightarrow> '''' | Some c \<Rightarrow> '' discount_code:'' @ c)"

definition createInvoice ::
  "(nat \<Rightarrow> invoice \<Rightarrow> bool) \<Rightarrow> caller \<Rightarrow> create_invoice_dto \<Rightarrow> instant \<Rightarrow> app \<Rightarrow> app \<times> invoice_view res" where
  "createInvoice seen caller dto now s = (case live_student s (civ_studentId dto) of
       None \<Rightarrow> (s, Inl (NotFound ''Not found''))
     | Some profile \<Rightarrow>
         (case check_period dto of Inl e \<Rightarrow> (s, Inl e) | Inr _ \<Rightarrow>
         (case subtotal_of 0 (civ_items dto) of Inl e \<Rightarrow> (s, Inl e) | Inr subtotal \<Rightarrow>
         (case discount_of dto subtotal now s of Inl e \<Rightarrow> (s, Inl e) | Inr (discount, appliedCode) \<Rightarrow>
           if discount > subtotal then (s, Inl (BadRequest ''Discount cannot exceed the subtotal''))
           else let dueDate = due_date dto now in
             bindE (retry 5 (\<lambda>attempt. transaction
                      (create_tx (seen attempt) caller dto subtotal discount dueDate (student_user s profile) now)))
               (\<lambda>created s.
                 (record_audit None ''invoice_created'' None True (Some (create_detail created dto appliedCode)) s,
                  Inr (serializeInvoice created None True))) s))))"

section \<open>Monthly tuition\<close>

record generate_dto =
  gen_month :: int
  gen_year :: int
  gen_classIds :: "uuid list"

text \<open>\<^verbatim>\<open>ratesSetting?.value ?? {}\<close>, and a rate of it: a positive number.\<close>

definition rates_setting :: "'a db_scheme \<Rightarrow> json" where
  "rates_setting s = (case List.find (\<lambda>r. set_key r = ''tuition_rates'') (appSettings s) of
       None \<Rightarrow> JObj []
     | Some row \<Rightarrow> if set_value row = JNull then JObj [] else set_value row)"

definition valid_rate :: "json option \<Rightarrow> bool" where
  "valid_rate r = (case r of Some (JNum n) \<Rightarrow> 0 < n | Some (JFrac n _) \<Rightarrow> 0 \<le> n | _ \<Rightarrow> False)"

text \<open>The class ids with a rate, and those reported as skipped, in the order of the request.\<close>

definition rated_classes :: "'a db_scheme \<Rightarrow> generate_dto \<Rightarrow> uuid list" where
  "rated_classes s dto = filter (\<lambda>c. valid_rate (json_get (rates_setting s) c)) (gen_classIds dto)"

definition skipped_classes :: "'a db_scheme \<Rightarrow> generate_dto \<Rightarrow> uuid list" where
  "skipped_classes s dto = filter (\<lambda>c. \<not> valid_rate (json_get (rates_setting s) c)) (gen_classIds dto)"

definition tuition_enrollments :: "'a db_scheme \<Rightarrow> generate_dto \<Rightarrow> enrollment list" where
  "tuition_enrollments s dto = (let monthEnd = date_UTC (gen_year dto) (gen_month dto) 1 in
     if rated_classes s dto = [] then []
     else filter (\<lambda>e. enr_classId e \<in> set (rated_classes s dto) \<and> enr_leftAt e = None
         \<and> enr_enrolledAt e < monthEnd
         \<and> (\<exists>p \<in> set (students s). stu_id p = enr_studentId e \<and> stu_deletedAt p = None \<and> stu_status p = SActive))
       (enrollments s))"

text \<open>The map \<^verbatim>\<open>byStudent\<close>, with its keys in insertion order.\<close>

fun add_entry :: "'k \<Rightarrow> 'v \<Rightarrow> ('k \<times> 'v list) list \<Rightarrow> ('k \<times> 'v list) list" where
  "add_entry k v [] = [(k, [v])]"
| "add_entry k v ((k', vs) # m) = (if k' = k then (k', vs @ [v]) # m else (k', vs) # add_entry k v m)"

definition by_student :: "enrollment list \<Rightarrow> (uuid \<times> enrollment list) list" where
  "by_student es = foldl (\<lambda>m e. add_entry (enr_studentId e) e m) [] es"

definition class_name :: "'a db_scheme \<Rightarrow> uuid \<Rightarrow> string" where
  "class_name s c = (case List.find (\<lambda>r. cls_id r = c) (classes s) of None \<Rightarrow> [] | Some r \<Rightarrow> cls_name r)"

definition period_text :: "generate_dto \<Rightarrow> string" where
  "period_text dto = show_int (gen_month dto) @ ''/'' @ show_int (gen_year dto)"

text \<open>A line per class. The client refuses a rate that is not an integer (\<^term>\<open>None\<close>).\<close>

definition tuition_line :: "'a db_scheme \<Rightarrow> generate_dto \<Rightarrow> enrollment \<Rightarrow> line option" where
  "tuition_line s dto e = (case json_get (rates_setting s) (enr_classId e) of
       Some (JNum rate) \<Rightarrow> Some \<lparr> ln_description = ''Tuition '' @ period_text dto @ '' '' @ em_dash @ '' '' @ class_name s (enr_classId e),
         ln_quantity = 1, ln_unitAmount = rate, ln_amount = rate \<rparr>
     | _ \<Rightarrow> None)"

definition tuition_row :: "caller \<Rightarrow> generate_dto \<Rightarrow> uuid \<Rightarrow> int \<Rightarrow> string \<Rightarrow> instant \<Rightarrow> uuid \<Rightarrow> invoice" where
  "tuition_row caller dto studentId amount no now iid =
     \<lparr> inv_id = iid, inv_invoiceNo = no, inv_studentId = studentId, inv_type = TUITION,
       inv_refExamRegistrationId = None, inv_periodMonth = Some (gen_month dto),
       inv_periodYear = Some (gen_year dto), inv_subtotal = amount, inv_discount = 0, inv_total = amount,
       inv_status = UNPAID, inv_dueDate = as_date (date_UTC (gen_year dto) (gen_month dto - 1) 10),
       inv_issuedAt = now, inv_note = Some (''Tuition '' @ period_text dto), inv_createdBy = cal_id caller \<rparr>"

definition tuition_tx ::
  "(invoice \<Rightarrow> bool) \<Rightarrow> caller \<Rightarrow> generate_dto \<Rightarrow> uuid \<Rightarrow> line option list \<Rightarrow> instant \<Rightarrow> app \<Rightarrow> app \<times> unit res" where
  "tuition_tx seen caller dto studentId lines now s =
     (if None \<in> set lines then (s, Inl (OtherError ''value does not fit an INTEGER column''))
      else let ls = map the lines;
               amount = sum_list (map ln_amount ls);
               no = nextInvoiceNo (filter seen (invoices s)) (gen_year dto) in
        bindE (create_invoice_row (tuition_row caller dto studentId amount no now)) (\<lambda>row.
        create_items (inv_id row) ls) s)"

text \<open>
  The loop over the students: each has its own transaction, a unique violation counts as
  \<^verbatim>\<open>skippedExisting\<close>, any other error ends the run.
\<close>

fun tuition_loop ::
  "(uuid \<Rightarrow> invoice \<Rightarrow> bool) \<Rightarrow> caller \<Rightarrow> generate_dto \<Rightarrow> instant \<Rightarrow> (uuid \<times> line option list) list \<Rightarrow> nat \<Rightarrow> nat \<Rightarrow>
     app \<Rightarrow> app \<times> (nat \<times> nat) res" where
  "tuition_loop seen caller dto now [] created skipped s = (s, Inr (created, skipped))"
| "tuition_loop seen caller dto now ((studentId, lines) # rest) created skipped s =
     (case transaction (tuition_tx (seen studentId) caller dto studentId lines now) s of
        (s', Inr _) \<Rightarrow> tuition_loop seen caller dto now rest (Suc created) skipped s'
      | (s', Inl e) \<Rightarrow> if is_P2002 e then tuition_loop seen caller dto now rest created (Suc skipped) s'
                        else (s', Inl e))"

record generate_result =
  grs_month :: int
  grs_year :: int
  grs_created :: nat
  grs_skippedExisting :: nat
  grs_classesSkipped :: "(uuid \<times> string) list"
  grs_dueDate :: instant

definition student_lines :: "'a db_scheme \<Rightarrow> generate_dto \<Rightarrow> (uuid \<times> line option list) list" where
  "student_lines s dto = map (\<lambda>(sid, es). (sid, map (tuition_line s dto) es)) (by_student (tuition_enrollments s dto))"

definition generateMonthly ::
  "(uuid \<Rightarrow> invoice \<Rightarrow> bool) \<Rightarrow> caller \<Rightarrow> generate_dto \<Rightarrow> instant \<Rightarrow> app \<Rightarrow> app \<times> generate_result res" where
  "generateMonthly seen caller dto now s =
     bindE (tuition_loop seen caller dto now (student_lines s dto) 0 0) (\<lambda>(created, skipped) s'.
       (record_audit None ''tuition_generated'' None True
          (Some (''period:'' @ period_text dto @ '' created:'' @ show_nat created @ '' skipped:'' @ show_nat skipped)) s',
        Inr \<lparr> grs_month = gen_month dto, grs_year = gen_year dto, grs_created = created,
              grs_skippedExisting = skipped,
              grs_classesSkipped = map (\<lambda>c. (c, ''no tuition rate configured'')) (skipped_classes s dto),
              grs_dueDate = date_UTC (gen_year dto) (gen_month dto - 1) 10 \<rparr>)) s"

section \<open>Reading\<close>

definition assertInvoiceAccess :: "'a db_scheme \<Rightarrow> caller \<Rightarrow> uuid \<Rightarrow> unit res" where
  "assertInvoiceAccess s caller studentId = (case cal_role caller of
       ADMIN \<Rightarrow> Inr ()
     | STUDENT \<Rightarrow> (case List.find (\<lambda>p. stu_userId p = Some (cal_id caller) \<and> stu_deletedAt p = None \<and> stu_id p = studentId) (students s) of
           None \<Rightarrow> Inl (NotFound ''Not found'') | Some _ \<Rightarrow> Inr ())
     | PARENT \<Rightarrow> (case List.find (\<lambda>l. lnk_parentUserId l = cal_id caller \<and> lnk_studentId l = studentId \<and> lnk_verified l) (parentLinks s) of
           None \<Rightarrow> Inl (NotFound ''Not found'') | Some _ \<Rightarrow> Inr ())
     | INSTRUCTOR \<Rightarrow> Inl (NotFound ''Not found''))"

definition getInvoiceById :: "'a db_scheme \<Rightarrow> caller \<Rightarrow> uuid \<Rightarrow> invoice_view res" where
  "getInvoiceById s caller invoiceId = (case List.find (\<lambda>i. inv_id i = invoiceId) (invoices s) of
       None \<Rightarrow> Inl (NotFound ''Not found'')
     | Some bill \<Rightarrow> (case assertInvoiceAccess s caller (inv_studentId bill) of
           Inl e \<Rightarrow> Inl e
         | Inr _ \<Rightarrow> Inr (serializeInvoice bill (Some (filter (\<lambda>i. item_invoiceId i = invoiceId) (invoiceItems s))) True)))"

record list_invoices_query =
  liq_page :: nat
  liq_limit :: nat
  liq_status :: "invoice_status option"
  liq_type :: "invoice_type option"
  liq_studentId :: "uuid option"

definition invoice_where :: "'a db_scheme \<Rightarrow> caller \<Rightarrow> list_invoices_query \<Rightarrow> invoice \<Rightarrow> bool" where
  "invoice_where s caller q bill \<longleftrightarrow>
     (case liq_status q of None \<Rightarrow> True | Some st \<Rightarrow> inv_status bill = st)
     \<and> (case liq_type q of None \<Rightarrow> True | Some t \<Rightarrow> inv_type bill = t)
     \<and> (if cal_role caller = STUDENT
        then inv_studentId bill = (case List.find (\<lambda>p. stu_userId p = Some (cal_id caller) \<and> stu_deletedAt p = None) (students s) of
               None \<Rightarrow> ''no-profile'' | Some p \<Rightarrow> stu_id p)
        else if cal_role caller = PARENT
        then inv_studentId bill \<in> set (map lnk_studentId
               (filter (\<lambda>l. lnk_parentUserId l = cal_id caller \<and> lnk_verified l) (parentLinks s)))
        else case liq_studentId q of None \<Rightarrow> True | Some sid \<Rightarrow> inv_studentId bill = sid)"

definition listInvoices :: "'a db_scheme \<Rightarrow> caller \<Rightarrow> list_invoices_query \<Rightarrow> invoice_view list \<times> nat \<times> nat \<times> nat" where
  "listInvoices s caller q =
     (map (\<lambda>i. serializeInvoice i None False)
        (page_of (liq_page q) (liq_limit q)
           (sort_key (\<lambda>i. - inv_issuedAt i) (filter (invoice_where s caller q) (invoices s)))),
      count_rows (invoice_where s caller q) (invoices s), liq_page q, liq_limit q)"

section \<open>Ageing\<close>

definition markOverdue :: "instant \<Rightarrow> app \<Rightarrow> app" where
  "markOverdue now s = s\<lparr>invoices := update_rows (\<lambda>i. inv_status i = UNPAID \<and> inv_dueDate i < now)
     (\<lambda>i. i\<lparr>inv_status := OVERDUE\<rparr>) (invoices s)\<rparr>"

section \<open>What the parts do\<close>

text \<open>Rows of the items of one invoice, and the state after an invoice was issued.\<close>

definition items_of :: "app \<Rightarrow> uuid \<Rightarrow> invoice_item list" where
  "items_of s iid = filter (\<lambda>i. item_invoiceId i = iid) (invoiceItems s)"

definition item_rows :: "uuid \<Rightarrow> uuid list \<Rightarrow> line list \<Rightarrow> invoice_item list" where
  "item_rows iid ids ls = map2 (\<lambda>d l. new_item d iid l) ids ls"

lemma item_rows_amounts:
  "length ids = length ls \<Longrightarrow> map item_amount (item_rows iid ids ls) = map ln_amount ls"
  unfolding item_rows_def by (induction ids ls rule: list_induct2) (simp_all add: new_item_def)

lemma item_rows_invoice: "i \<in> set (item_rows iid ids ls) \<Longrightarrow> item_invoiceId i = iid"
  by (auto simp: item_rows_def new_item_def)

lemma create_items_result:
  assumes "create_items iid ls s = (s', r)"
  shows "\<exists>n \<ge> uuid_ctr s. \<exists>ids. case r of
      Inl e \<Rightarrow> is_P2002 e \<and> (\<exists>t. s' = s\<lparr>invoiceItems := t, uuid_ctr := n\<rparr>)
    | Inr _ \<Rightarrow> length ids = length ls \<and> s' = s\<lparr>invoiceItems := invoiceItems s @ item_rows iid ids ls, uuid_ctr := n\<rparr>"
  using assms
proof (induction ls arbitrary: s)
  case Nil
  then show ?case by (intro exI [of _ "uuid_ctr s"] conjI exI [of _ "[]"]) (auto simp: item_rows_def)
next
  case (Cons l ls s)
  let ?d = "uuid_src s (uuid_ctr s)" and ?s1 = "s\<lparr>uuid_ctr := Suc (uuid_ctr s)\<rparr>"
  show ?case
  proof (cases "insert_row item_uqs (new_item ?d iid l) (invoiceItems s)")
    case (Inl e)
    then have "is_P2002 e" unfolding insert_row_def by (rule check_unique_Inl)
    moreover have "s' = s\<lparr>invoiceItems := invoiceItems s, uuid_ctr := Suc (uuid_ctr s)\<rparr>" "r = Inl e"
      using Inl Cons.prems by (simp_all add: fresh_uuid_def)
    ultimately have "is_P2002 e \<and> (\<exists>t. s' = s\<lparr>invoiceItems := t, uuid_ctr := Suc (uuid_ctr s)\<rparr>)" "r = Inl e" by blast+
    then show ?thesis by (intro exI [of _ "Suc (uuid_ctr s)"]) simp
  next
    case (Inr t)
    then have t: "t = invoiceItems s @ [new_item ?d iid l]" by (rule insert_row_Inr)
    have "create_items iid ls (?s1\<lparr>invoiceItems := t\<rparr>) = (s', r)"
      using Cons.prems Inr by (simp add: fresh_uuid_def)
    from Cons.IH [OF this] obtain n ids where n: "Suc (uuid_ctr s) \<le> n" and
      IH: "case r of Inl e \<Rightarrow> is_P2002 e \<and> (\<exists>t'. s' = s\<lparr>invoiceItems := t', uuid_ctr := n\<rparr>)
       | Inr _ \<Rightarrow> length ids = length ls \<and> s' = s\<lparr>invoiceItems := t @ item_rows iid ids ls, uuid_ctr := n\<rparr>"
      by (cases r) auto
    show ?thesis
    proof (rule exI [of _ n], intro conjI)
      show "uuid_ctr s \<le> n" using n by simp
      show "\<exists>ids. case r of Inl e \<Rightarrow> is_P2002 e \<and> (\<exists>t. s' = s\<lparr>invoiceItems := t, uuid_ctr := n\<rparr>)
          | Inr _ \<Rightarrow> length ids = length (l # ls) \<and> s' = s\<lparr>invoiceItems := invoiceItems s @ item_rows iid ids (l # ls), uuid_ctr := n\<rparr>"
        by (rule exI [of _ "?d # ids"]) (use IH t in \<open>auto simp: item_rows_def split: sum.splits\<close>)
    qed
  qed
qed

lemma create_items_Inr:
  assumes "create_items iid ls s = (s', Inr u)"
  obtains n ids where "uuid_ctr s \<le> n" "length ids = length ls"
    "s' = s\<lparr>invoiceItems := invoiceItems s @ item_rows iid ids ls, uuid_ctr := n\<rparr>"
  using create_items_result [OF assms] by auto

lemma create_invoice_row_Inr:
  assumes "create_invoice_row mk s = (s', Inr row)"
  shows "\<exists>iid. row = mk iid \<and> insert_row invoice_uqs row (invoices s) = Inr (invoices s @ [row])
    \<and> s' = s\<lparr>invoices := invoices s @ [row], uuid_ctr := Suc (uuid_ctr s)\<rparr>
    \<and> int4 (inv_subtotal row) \<and> int4 (inv_discount row) \<and> int4 (inv_total row)"
proof -
  let ?i = "uuid_src s (uuid_ctr s)"
  from assms obtain t where t: "insert_row invoice_uqs (mk ?i) (invoices s) = Inr t"
    and r: "row = mk ?i" "s' = s\<lparr>invoices := t, uuid_ctr := Suc (uuid_ctr s)\<rparr>"
    and i: "int4 (inv_subtotal row) \<and> int4 (inv_discount row) \<and> int4 (inv_total row)"
    by (auto simp: create_invoice_row_def fresh_uuid_def Let_def split: if_splits sum.splits)
  from insert_row_Inr [OF t] t r i show ?thesis by blast
qed

lemma create_invoice_row_Inl:
  assumes "create_invoice_row mk s = (s', Inl e)"
  shows "s' = s\<lparr>uuid_ctr := Suc (uuid_ctr s)\<rparr>"
  using assms by (auto simp: create_invoice_row_def fresh_uuid_def Let_def split: if_splits sum.splits)

section \<open>Invariant\<close>

text \<open>
  Amounts of an invoice agree with each other and fit their columns; only a tuition invoice
  carries a period. Over the table: identifiers, numbers and tuition periods are unique, the
  line items of an invoice sum to its subtotal, and every line belongs to an invoice.
\<close>

definition invoice_row_ok :: "invoice \<Rightarrow> bool" where
  "invoice_row_ok i \<longleftrightarrow> inv_total i = inv_subtotal i - inv_discount i
     \<and> 0 \<le> inv_discount i \<and> inv_discount i \<le> inv_subtotal i \<and> inv_subtotal i \<le> MAX_MONEY_AMOUNT
     \<and> (inv_type i \<noteq> TUITION \<longrightarrow> inv_periodMonth i = None \<and> inv_periodYear i = None)"

definition invoices_inv :: "app \<Rightarrow> bool" where
  "invoices_inv s \<longleftrightarrow> list_all (\<lambda>u. unique_on (snd u) (invoices s)) invoice_uqs
     \<and> list_all invoice_row_ok (invoices s)
     \<and> list_all (\<lambda>i. sum_list (map item_amount (items_of s (inv_id i))) = inv_subtotal i) (invoices s)
     \<and> list_all (\<lambda>it. item_invoiceId it \<in> inv_id ` set (invoices s)) (invoiceItems s)"

lemma invoices_inv_cong:
  "invoices s' = invoices s \<Longrightarrow> invoiceItems s' = invoiceItems s \<Longrightarrow> invoices_inv s' = invoices_inv s"
  by (simp add: invoices_inv_def items_of_def)

lemma invoice_insert_new_id:
  assumes "insert_row invoice_uqs row t = Inr t'" and "i \<in> set t"
  shows "inv_id i \<noteq> inv_id row"
proof -
  have "unique_on (\<lambda>i. Some [inv_id i]) (t @ [row])"
    using check_unique_Inr [OF assms(1) [unfolded insert_row_def]] by (simp add: invoice_uqs_def)
  with assms(2) show ?thesis by (simp add: unique_on_snoc)
qed

text \<open>The lines of the invoice that was just issued, and of the others.\<close>

lemma issued_items:
  assumes inv: "invoices_inv s" and row: "insert_row invoice_uqs row (invoices s) = Inr (invoices s @ [row])"
    and items: "invoiceItems s' = invoiceItems s @ item_rows (inv_id row) ids ls"
  shows "items_of s' (inv_id row) = item_rows (inv_id row) ids ls"
    and "i \<in> set (invoices s) \<Longrightarrow> items_of s' (inv_id i) = items_of s (inv_id i)"
proof -
  have old: "items_of s (inv_id row) = []"
    using inv invoice_insert_new_id [OF row]
    by (fastforce simp: invoices_inv_def list_all_iff items_of_def filter_empty_conv)
  have "filter (\<lambda>i. item_invoiceId i = inv_id row) (item_rows (inv_id row) ids ls) = item_rows (inv_id row) ids ls"
    using item_rows_invoice by (simp add: filter_id_conv)
  then show "items_of s' (inv_id row) = item_rows (inv_id row) ids ls" using old by (simp add: items_of_def items)
  assume i: "i \<in> set (invoices s)"
  have "filter (\<lambda>x. item_invoiceId x = inv_id i) (item_rows (inv_id row) ids ls) = []"
    using item_rows_invoice invoice_insert_new_id [OF row i] by (fastforce simp: filter_empty_conv)
  then show "items_of s' (inv_id i) = items_of s (inv_id i)" by (simp add: items_of_def items)
qed

lemma item_rows_views: "length ids = length ls \<Longrightarrow> map (snd \<circ> item_view) (item_rows iid ids ls) = ls"
  unfolding item_rows_def by (induction ids ls rule: list_induct2) (simp_all add: new_item_def item_view_def)

text \<open>Issuing one invoice with its lines keeps the invariant, whoever issues it.\<close>

lemma issue_inv:
  assumes inv: "invoices_inv s"
    and row: "insert_row invoice_uqs row (invoices s) = Inr (invoices s @ [row])" "invoice_row_ok row"
    and lines: "length ids = length ls" "sum_list (map ln_amount ls) = inv_subtotal row"
    and s': "invoices s' = invoices s @ [row]" "invoiceItems s' = invoiceItems s @ item_rows (inv_id row) ids ls"
  shows "invoices_inv s'"
proof -
  have u: "list_all (\<lambda>u. unique_on (snd u) (invoices s')) invoice_uqs"
    using check_unique_Inr [OF row(1) [unfolded insert_row_def]] s'(1) by (simp add: list_all_iff)
  note it = issued_items [OF inv row(1) s'(2)]
  have sum_new: "sum_list (map item_amount (items_of s' (inv_id row))) = inv_subtotal row"
    using lines by (simp add: it(1) item_rows_amounts)
  note sum_old = it(2)
  have "list_all (\<lambda>i. sum_list (map item_amount (items_of s' (inv_id i))) = inv_subtotal i) (invoices s')"
    using inv sum_new sum_old by (simp add: invoices_inv_def list_all_iff s'(1))
  moreover have "list_all (\<lambda>it. item_invoiceId it \<in> inv_id ` set (invoices s')) (invoiceItems s')"
    using inv item_rows_invoice by (auto simp: invoices_inv_def list_all_iff s')
  ultimately show ?thesis using u inv row(2) by (simp add: invoices_inv_def s'(1))
qed

section \<open>Manual creation\<close>

lemma subtotal_of_Inr:
  assumes "subtotal_of acc items = Inr st" and "0 \<le> acc" and "acc \<le> MAX_MONEY_AMOUNT"
  shows "st = acc + sum_list (map (\<lambda>i. itd_quantity i * itd_unitAmount i) items)
    \<and> 0 \<le> st \<and> st \<le> MAX_MONEY_AMOUNT"
  using assms
proof (induction acc items rule: subtotal_of.induct)
  case (2 acc i rest)
  then show ?case by (auto simp: assertMoneyAmount_Inr split: sum.splits)
qed simp

lemma discount_of_nonneg:
  assumes "valid_create_invoice_dto dto" and "discount_of dto subtotal now s = Inr (d, c)"
  shows "0 \<le> d"
  using assms
  by (auto simp: discount_of_def valid_create_invoice_dto_def Let_def assertMoneyAmount_Inr
      split: option.splits supplied.splits if_splits sum.splits)

definition invoice_notifications :: "uuid \<times> uuid \<Rightarrow> user option \<Rightarrow> string \<Rightarrow> instant \<Rightarrow> notification list" where
  "invoice_notifications ids u summary now = (case u of None \<Rightarrow> [] | Some u \<Rightarrow>
     [(new_notification (fst ids) (usr_id u) INAPP ''invoice_issued'' (JObj [(''message'', JStr summary)]) now)
        \<lparr>ntf_status := SENT, ntf_sentAt := Some now\<rparr>,
      new_notification (snd ids) (usr_id u) EMAIL ''invoice_issued''
        (JObj [(''message'', JStr summary), (''email'', JStr (usr_email u))]) now])"

lemma notify_invoice_Inr:
  assumes "notify_invoice u summary now s = (s', Inr x)"
  obtains n ids where "s' = s\<lparr>notifications := notifications s @ invoice_notifications ids u summary now, uuid_ctr := n\<rparr>"
    "uuid_ctr s \<le> n"
proof (cases u)
  case None
  then have "s' = s" using assms by (simp add: notify_invoice_def returnE_def)
  then show ?thesis using that [of "uuid_ctr s" "([], [])"] None by (simp add: invoice_notifications_def)
next
  case (Some v)
  from assms obtain s1 n1 n2 where
    1: "enqueueInApp (usr_id v) ''invoice_issued'' (JObj [(''message'', JStr summary)]) now s = (s1, Inr n1)" and
    2: "enqueue (usr_id v) EMAIL ''invoice_issued'' (JObj [(''message'', JStr summary), (''email'', JStr (usr_email v))]) now s1 = (s', Inr n2)"
    by (auto simp: notify_invoice_def Some returnE_def elim!: bindE_Inr)
  show ?thesis using that [of "Suc (Suc (uuid_ctr s))" "(n1, n2)"]
    by (simp add: enqueue_Inr [OF 2] enqueueInApp_Inr [OF 1] invoice_notifications_def Some)
qed

text \<open>Everything a successful run of the transaction writes.\<close>

lemma create_tx_Inr:
  assumes "create_tx seen caller dto st d due u now s = (s', Inr row)"
  shows "\<exists>iid ids nids n. row = manual_row caller dto st d due (nextInvoiceNo (filter seen (invoices s)) (getUTCFullYear now)) now iid
    \<and> insert_row invoice_uqs row (invoices s) = Inr (invoices s @ [row]) \<and> length ids = length (civ_items dto)
    \<and> s' = s\<lparr>invoices := invoices s @ [row],
        invoiceItems := invoiceItems s @ item_rows (inv_id row) ids (map item_line (civ_items dto)),
        notifications := notifications s @ invoice_notifications nids u (invoice_summary dto row due) now, uuid_ctr := n\<rparr>"
proof -
  let ?mk = "manual_row caller dto st d due (nextInvoiceNo (filter seen (invoices s)) (getUTCFullYear now)) now"
  from assms obtain s1 s2 x y where
    1: "create_invoice_row ?mk s = (s1, Inr row)" and
    2: "create_items (inv_id row) (map item_line (civ_items dto)) s1 = (s2, Inr x)" and
    3: "notify_invoice u (invoice_summary dto row due) now s2 = (s', Inr y)"
    by (auto simp: create_tx_def Let_def returnE_def elim!: bindE_Inr)
  obtain iid where i: "row = ?mk iid" "insert_row invoice_uqs row (invoices s) = Inr (invoices s @ [row])"
      "s1 = s\<lparr>invoices := invoices s @ [row], uuid_ctr := Suc (uuid_ctr s)\<rparr>"
    using create_invoice_row_Inr [OF 1] by blast
  obtain n ids where ids: "length ids = length (map item_line (civ_items dto))"
      "s2 = s1\<lparr>invoiceItems := invoiceItems s1 @ item_rows (inv_id row) ids (map item_line (civ_items dto)), uuid_ctr := n\<rparr>"
    using create_items_Inr [OF 2] by blast
  obtain n' nids where n: "s' = s2\<lparr>notifications := notifications s2 @ invoice_notifications nids u (invoice_summary dto row due) now, uuid_ctr := n'\<rparr>"
    using notify_invoice_Inr [OF 3] by blast
  show ?thesis
    by (rule exI [of _ iid], rule exI [of _ ids], rule exI [of _ nids], rule exI [of _ n'], intro conjI)
      (use i(1,2) ids(1) in \<open>simp_all add: n ids(2) i(3)\<close>)
qed

lemma createInvoice_cases:
  assumes "createInvoice seen caller dto now s = (s', r)"
  shows "case r of Inl e \<Rightarrow> same_db s' s
    | Inr v \<Rightarrow> \<exists>profile st d code a t row s1 detail.
        live_student s (civ_studentId dto) = Some profile \<and> check_period dto = Inr ()
        \<and> subtotal_of 0 (civ_items dto) = Inr st \<and> discount_of dto st now s = Inr (d, code) \<and> d \<le> st
        \<and> same_db t s
        \<and> create_tx (seen a) caller dto st d (due_date dto now) (student_user s profile) now t = (s1, Inr row)
        \<and> s' = record_audit None ''invoice_created'' None True detail s1 \<and> v = serializeInvoice row None True"
proof (cases "\<exists>profile st d code. live_student s (civ_studentId dto) = Some profile \<and> check_period dto = Inr ()
        \<and> subtotal_of 0 (civ_items dto) = Inr st \<and> discount_of dto st now s = Inr (d, code) \<and> d \<le> st")
  case False
  then have "s' = s" "\<exists>e. r = Inl e"
    using assms unfolding createInvoice_def by (auto split: option.splits sum.splits prod.splits if_splits)
  then show ?thesis by auto
next
  case True
  then obtain profile st d code where p: "live_student s (civ_studentId dto) = Some profile" "check_period dto = Inr ()"
      "subtotal_of 0 (civ_items dto) = Inr st" "discount_of dto st now s = Inr (d, code)" "d \<le> st" by blast
  let ?due = "due_date dto now"
  let ?body = "\<lambda>a. create_tx (seen a) caller dto st d ?due (student_user s profile) now"
  let ?fin = "\<lambda>created s. (record_audit None ''invoice_created'' None True (Some (create_detail created dto code)) s,
      Inr (serializeInvoice created None True))"
  have run: "bindE (retry 5 (\<lambda>a. transaction (?body a))) ?fin s = (s', r)"
    using assms p unfolding createInvoice_def by (simp add: Let_def)
  show ?thesis
  proof (cases "retry 5 (\<lambda>a. transaction (?body a)) s")
    case (Pair s1 r1)
    note rt = retry_transaction [OF Pair]
    show ?thesis
    proof (cases r1)
      case (Inl e)
      then show ?thesis using rt run Pair by auto
    next
      case (Inr row)
      then obtain a t where "same_db t s" "?body a t = (s1, Inr row)" using rt by auto
      moreover have "s' = record_audit None ''invoice_created'' None True (Some (create_detail row dto code)) s1"
        and r: "r = Inr (serializeInvoice row None True)" using run Pair Inr by simp_all
      ultimately show ?thesis using p unfolding r sum.case by blast
    qed
  qed
qed

lemma discount_of_Inr:
  assumes "discount_of dto st now s = Inr (d, c)"
  shows "case civ_discountCode dto of
      Undefined \<Rightarrow> d = case_option 0 id (civ_discount dto)
    | Null \<Rightarrow> False
    | Given code \<Rightarrow> if code = '''' then d = case_option 0 id (civ_discount dto)
        else \<exists>r \<in> set (discountCodes s). dc_code r = toUpperCase code \<and> code_usable r now
          \<and> d = case_option 0 id (civ_discount dto) + code_amount r st"
proof (cases "civ_discountCode dto")
  case (Given code)
  show ?thesis
  proof (cases "code = ''''")
    case False
    then obtain k where k: "resolveDiscountCode code st now s = Inr k" "d = case_option 0 id (civ_discount dto) + k"
      using assms Given by (auto simp: discount_of_def Let_def assertMoneyAmount_Inr split: sum.splits)
    from resolveDiscountCode_Inr [OF k(1)] show ?thesis using k(2) Given False by auto
  qed (use assms Given in \<open>simp add: discount_of_def\<close>)
qed (use assms in \<open>simp_all add: discount_of_def\<close>)

lemma manual_row_ok:
  assumes "valid_create_invoice_dto dto" "check_period dto = Inr ()" "subtotal_of 0 (civ_items dto) = Inr st"
    "discount_of dto st now s = Inr (d, code)" "d \<le> st"
  shows "invoice_row_ok (manual_row caller dto st d due no now' iid)"
proof -
  have "0 \<le> d" using discount_of_nonneg assms(1,4) by blast
  moreover have "st \<le> MAX_MONEY_AMOUNT"
    using subtotal_of_Inr [OF assms(3)] by (simp add: MAX_MONEY_AMOUNT_def)
  moreover have "civ_type dto \<noteq> TUITION \<Longrightarrow> civ_periodMonth dto = Undefined \<and> civ_periodYear dto = Undefined"
    using assms(2) by (auto simp: check_period_def split: if_splits)
  ultimately show ?thesis using assms(5) by (simp add: invoice_row_ok_def manual_row_def)
qed

lemma manual_lines_sum:
  assumes "subtotal_of 0 items = Inr st"
  shows "sum_list (map ln_amount (map item_line items)) = st"
  using subtotal_of_Inr [OF assms] by (simp add: item_line_def MAX_MONEY_AMOUNT_def comp_def)


definition idto0 :: create_invoice_dto where
  "idto0 = \<lparr> civ_studentId = ''s1'', civ_type = UNIFORM,
     civ_items = [\<lparr> itd_description = ''Uniform'', itd_quantity = 2, itd_unitAmount = 250000 \<rparr>],
     civ_discount = Some 50000, civ_dueDate = Given 0, civ_note = None, civ_periodMonth = Undefined,
     civ_periodYear = Undefined, civ_discountCode = Undefined \<rparr>"

lemma idto0_run:
  "\<exists>s' v. createInvoice (\<lambda>_ _. True) admin0 idto0 0 (empty_app\<lparr>students := [stu0]\<rparr>) = (s', Inr v)"
  by (simp add: createInvoice_def live_student_def idto0_def stu0_def check_period_def assertMoneyAmount_def
      is_safe_integer_def MAX_MONEY_AMOUNT_def discount_of_def due_date_def retry_def numeral_eq_Suc transaction_def create_tx_def
      bindE_def create_invoice_row_def fresh_uuid_def manual_row_def int4_def insert_row_def invoice_uqs_def
      unique_on_def List.map_filter_def period_key_def student_user_def notify_invoice_def returnE_def
      item_uqs_def new_item_def Let_def empty_app_def)

lemma idto0_valid: "valid_create_invoice_dto idto0"
  by (simp add: valid_create_invoice_dto_def idto0_def)


text \<open>
  Whatever goes wrong while a manual invoice is created (unknown student, wrong
  period, amounts out of range, a code that cannot be used, five lost races), no table changes:
  neither an invoice without its items nor a notification without its invoice is left.
\<close>

theorem createInvoice_atomic:
  assumes "createInvoice seen caller dto now s = (s', Inl e)"
  shows "same_db s' s"
  using createInvoice_cases [OF assms] by simp

theorem createInvoice_atomic_witness:
  "same_db (fst (createInvoice (\<lambda>_ _. True) admin0 idto0 0 empty_app)) empty_app"
proof -
  have "createInvoice (\<lambda>_ _. True) admin0 idto0 0 empty_app = (empty_app, Inl (NotFound ''Not found''))"
    by (simp add: createInvoice_def live_student_def idto0_def empty_app_def)
  from createInvoice_atomic [OF this] this show ?thesis by simp
qed

lemma createInvoice_inv:
  assumes "invoices_inv s" and "valid_create_invoice_dto dto"
  shows "invoices_inv (fst (createInvoice seen caller dto now s))"
proof (cases "createInvoice seen caller dto now s")
  case (Pair s' r)
  show ?thesis
  proof (cases r)
    case (Inl e)
    then have "same_db s' s" using createInvoice_cases [OF Pair] by simp
    from same_db_tables [OF this] have "invoices_inv s' = invoices_inv s" by (intro invoices_inv_cong)
    then show ?thesis using assms(1) Pair by simp
  next
    case (Inr v)
    obtain profile st d code a t row s1 detail where p: "check_period dto = Inr ()"
      "subtotal_of 0 (civ_items dto) = Inr st" "discount_of dto st now s = Inr (d, code)" "d \<le> st" and t: "same_db t s" and
      tx: "create_tx (seen a) caller dto st d (due_date dto now) (student_user s profile) now t = (s1, Inr row)"
      and s': "s' = record_audit None ''invoice_created'' None True detail s1"
      using createInvoice_cases [OF Pair] Inr by auto
    note tab = same_db_tables [OF t]
    let ?due = "due_date dto now"
    obtain iid ids no where r: "row = manual_row caller dto st d ?due no now iid"
      "insert_row invoice_uqs row (invoices t) = Inr (invoices t @ [row])" "length ids = length (civ_items dto)"
      "invoices s1 = invoices t @ [row]"
      "invoiceItems s1 = invoiceItems t @ item_rows (inv_id row) ids (map item_line (civ_items dto))"
      using create_tx_Inr [OF tx] by auto
    have "invoices_inv s1"
    proof (rule issue_inv [of s row ids "map item_line (civ_items dto)"])
      show "invoice_row_ok row" unfolding r(1) by (rule manual_row_ok) (use p assms(2) in auto)
      show "sum_list (map ln_amount (map item_line (civ_items dto))) = inv_subtotal row"
        using manual_lines_sum [OF p(2)] by (simp add: r(1) manual_row_def)
    qed (use r assms(1) tab in simp_all)
    then show ?thesis using Pair by (simp add: s' invoices_inv_cong [of "record_audit _ _ _ _ _ s1" s1])
  qed
qed

section \<open>Exam fees\<close>

lemma exam_fee_body_Inr:
  assumes "exam_fee_body seen args now s = (s', Inr v)"
  shows "\<exists>iid ids n detail row. row = exam_fee_row args (nextInvoiceNo (filter seen (invoices s)) (getUTCFullYear now)) now iid
    \<and> insert_row invoice_uqs row (invoices s) = Inr (invoices s @ [row]) \<and> length ids = 1
    \<and> int4 (inv_subtotal row)
    \<and> s' = record_audit None ''invoice_issued'' None True detail
        (s\<lparr>invoices := invoices s @ [row],
           invoiceItems := invoiceItems s @ item_rows (inv_id row) ids [exam_fee_line (efa_exam args)], uuid_ctr := n\<rparr>)
    \<and> v = \<lparr> fr_id = inv_id row, fr_invoiceNo = inv_invoiceNo row, fr_total = inv_total row, fr_status = inv_status row \<rparr>"
proof -
  let ?mk = "exam_fee_row args (nextInvoiceNo (filter seen (invoices s)) (getUTCFullYear now)) now"
  from assms obtain s1 s2 row x detail where
    1: "create_invoice_row ?mk s = (s1, Inr row)" and
    2: "create_items (inv_id row) [exam_fee_line (efa_exam args)] s1 = (s2, Inr x)" and
    3: "s' = record_audit None ''invoice_issued'' None True detail s2"
       "v = \<lparr> fr_id = inv_id row, fr_invoiceNo = inv_invoiceNo row, fr_total = inv_total row, fr_status = inv_status row \<rparr>"
    unfolding exam_fee_body_def Let_def by (elim bindE_Inr) auto
  obtain iid where i: "row = ?mk iid" "insert_row invoice_uqs row (invoices s) = Inr (invoices s @ [row])"
      "s1 = s\<lparr>invoices := invoices s @ [row], uuid_ctr := Suc (uuid_ctr s)\<rparr>" "int4 (inv_subtotal row)"
    using create_invoice_row_Inr [OF 1] by blast
  obtain n ids where ids: "length ids = length [exam_fee_line (efa_exam args)]"
      "s2 = s1\<lparr>invoiceItems := invoiceItems s1 @ item_rows (inv_id row) ids [exam_fee_line (efa_exam args)], uuid_ctr := n\<rparr>"
    using create_items_Inr [OF 2] by blast
  show ?thesis
    by (rule exI [of _ iid], rule exI [of _ ids], rule exI [of _ n], rule exI [of _ detail], rule exI [of _ row], intro conjI)
      (use i(1,2,4) ids(1) 3(2) in \<open>simp_all add: 3(1) ids(2) i(3)\<close>)
qed

lemma exam_fee_loop_aborted: "exam_fee_loop (Suc k) a True seen args now s = (s, Inl tx_aborted)"
  by simp

lemma createExamFeeInvoice_Inr:
  assumes "createExamFeeInvoice seen args now s = (s', Inr v)"
  shows "exam_fee_body (seen 0) args now s = (s', Inr v)"
  using assms by (auto simp: createExamFeeInvoice_def numeral_eq_Suc split: prod.splits sum.splits if_splits)

lemma createExamFeeInvoice_inv:
  assumes "invoices_inv s" and "0 \<le> exm_feeAmount (efa_exam args)"
    and "createExamFeeInvoice seen args now s = (s', Inr v)"
  shows "invoices_inv s'"
proof -
  obtain iid ids n detail row no where r: "row = exam_fee_row args no now iid"
    "insert_row invoice_uqs row (invoices s) = Inr (invoices s @ [row])" "length ids = 1" "int4 (inv_subtotal row)"
    "s' = record_audit None ''invoice_issued'' None True detail
        (s\<lparr>invoices := invoices s @ [row],
           invoiceItems := invoiceItems s @ item_rows (inv_id row) ids [exam_fee_line (efa_exam args)], uuid_ctr := n\<rparr>)"
    using exam_fee_body_Inr [OF createExamFeeInvoice_Inr [OF assms(3)]] by blast
  show ?thesis
  proof (rule issue_inv [of s row ids "[exam_fee_line (efa_exam args)]"])
    show "invoice_row_ok row" using assms(2) r(4)
      by (simp add: r(1) exam_fee_row_def Let_def invoice_row_ok_def int4_def MAX_MONEY_AMOUNT_def)
  qed (use assms(1) r in \<open>simp_all add: exam_fee_line_def exam_fee_row_def Let_def\<close>)
qed

text \<open>
  The retry of the exam fee invoice never helps: it runs inside the
  caller's transaction, so when the first attempt loses the race for an invoice number the
  second one finds the transaction aborted and the whole registration fails.
\<close>

theorem exam_fee_retry_is_dead:
  assumes "exam_fee_body (seen 0) args now s = (s1, Inl e)" and "is_P2002 e"
  shows "createExamFeeInvoice seen args now s = (s1, Inl tx_aborted)"
  using assms by (simp add: createExamFeeInvoice_def numeral_eq_Suc)

definition exam0 :: belt_exam where
  "exam0 = \<lparr> exm_id = ''x1'', exm_code = ''EXAM-1970-01'', exm_title = ''Spring'', exm_examDate = 0, exm_location = None,
     exm_targetRankId = 2, exm_feeAmount = 150000, exm_capacity = None, exm_registrationDeadline = 0, exm_status = EOpen \<rparr>"

definition fee_args0 :: exam_fee_args where
  "fee_args0 = \<lparr> efa_studentId = ''s1'', efa_exam = exam0, efa_registrationId = ''r1'', efa_createdBy = ''a1'' \<rparr>"

theorem exam_fee_retry_is_dead_witness:
  "\<exists>s1. createExamFeeInvoice (\<lambda>_ _. False) fee_args0 0
     (empty_app\<lparr>invoices := [manual_row admin0 idto0 1 0 0 ''INV-1970-0001'' 0 ''i1'']\<rparr>) = (s1, Inl tx_aborted)"
proof -
  have no: "nextInvoiceNo [] (getUTCFullYear 0) = ''INV-1970-0001''" by code_simp
  have "exam_fee_body (\<lambda>_. False) fee_args0 0 (empty_app\<lparr>invoices := [manual_row admin0 idto0 1 0 0 ''INV-1970-0001'' 0 ''i1'']\<rparr>)
    = (empty_app\<lparr>invoices := [manual_row admin0 idto0 1 0 0 ''INV-1970-0001'' 0 ''i1''], uuid_ctr := 1\<rparr>, Inl (P2002 [''invoice_no'']))"
    by (simp add: exam_fee_body_def no Let_def bindE_def create_invoice_row_def fresh_uuid_def exam_fee_row_def
        manual_row_def idto0_def fee_args0_def exam0_def int4_def insert_row_def invoice_uqs_def unique_on_def
        List.map_filter_def empty_app_def)
  from exam_fee_retry_is_dead [where seen = "\<lambda>_ _. False", OF this] show ?thesis by simp
qed

section \<open>The monthly run\<close>

lemma nextInvoiceNo_notin: "nextInvoiceNo rows y \<notin> inv_invoiceNo ` set rows"
proof
  let ?p = "year_prefix y"
  let ?codes = "map inv_invoiceNo (filter (\<lambda>r. startsWith (inv_invoiceNo r) ?p) rows)"
  assume "nextInvoiceNo rows y \<in> inv_invoiceNo ` set rows"
  then obtain r where r: "r \<in> set rows" "inv_invoiceNo r = nextSequentialCode ?p ?codes 4"
    by (auto simp: nextInvoiceNo_def Let_def)
  then have "startsWith (inv_invoiceNo r) ?p" using nextSequentialCode_prefix [of ?p ?codes 4] by metis
  then have "inv_invoiceNo r \<in> set ?codes" using r(1) by auto
  then show False using nextSequentialCode_notin [of ?p ?codes 4] r(2) by simp
qed

lemma nextInvoiceNo_new: "q \<in> set rows \<Longrightarrow> inv_invoiceNo q \<noteq> nextInvoiceNo rows y"
  using nextInvoiceNo_notin by (metis imageI)

lemma show_int_inj [simp]: "show_int i = show_int j \<longleftrightarrow> i = j"
proof
  assume eq: "show_int i = show_int j"
  have "CHR ''-'' # xs \<noteq> show_nat n" "show_nat n \<noteq> CHR ''-'' # xs" for xs n
    using show_nat_digits [of n] digit_not_sign [of "CHR ''-''"] by (metis list.set_intros(1))+
  then show "i = j" using eq by (auto simp: show_int_def split: if_splits)
qed simp

lemma show_type_inj [simp]: "show_type a = show_type b \<longleftrightarrow> a = b"
  by (cases a; cases b) (simp_all add: show_type_def)

definition is_tuition_for :: "generate_dto \<Rightarrow> uuid \<Rightarrow> invoice \<Rightarrow> bool" where
  "is_tuition_for dto sid i \<longleftrightarrow> inv_studentId i = sid \<and> inv_type i = TUITION
     \<and> inv_periodMonth i = Some (gen_month dto) \<and> inv_periodYear i = Some (gen_year dto)"

definition tuition_key :: "generate_dto \<Rightarrow> uuid \<Rightarrow> string list" where
  "tuition_key dto sid = [sid, show_type TUITION, show_int (gen_month dto), show_int (gen_year dto)]"

lemma period_key_tuition: "period_key i = Some (tuition_key dto sid) \<longleftrightarrow> is_tuition_for dto sid i"
  by (auto simp: period_key_def tuition_key_def is_tuition_for_def split: option.splits)

lemma period_key_tuition_row [simp]:
  "period_key (tuition_row caller dto sid amount no now iid) = Some (tuition_key dto sid)"
  by (simp add: period_key_tuition is_tuition_for_def tuition_row_def)

definition fresh_ids :: "app \<Rightarrow> bool" where
  "fresh_ids s \<longleftrightarrow> fresh_for (map inv_id (invoices s) @ map item_id (invoiceItems s)) s
     \<and> distinct (map item_id (invoiceItems s))"

text \<open>With a source that does not repeat, inserting lines never fails.\<close>

lemma create_items_fresh:
  assumes "fresh_for (map inv_id (invoices s) @ map item_id (invoiceItems s)) s" "distinct (map item_id (invoiceItems s))"
  shows "\<exists>s'. create_items iid ls s = (s', Inr ()) \<and> fresh_ids s'"
  using assms
proof (induction ls arbitrary: s)
  case Nil
  then show ?case by (simp add: fresh_ids_def)
next
  case (Cons l ls s)
  let ?d = "uuid_src s (uuid_ctr s)"
  let ?t = "invoiceItems s @ [new_item ?d iid l]"
  let ?s = "s\<lparr>uuid_ctr := Suc (uuid_ctr s), invoiceItems := ?t\<rparr>"
  note f = fresh_uuid_for [OF Cons.prems(1) fresh_uuid_def]
  have new: "?d \<notin> set (map item_id (invoiceItems s))" using f(1) by simp
  have d: "distinct (map item_id ?t)" using Cons.prems(2) new by (simp add: new_item_def)
  then have "insert_row item_uqs (new_item ?d iid l) (invoiceItems s) = Inr ?t"
    unfolding insert_row_def
    by (intro check_unique_ok) (simp add: item_uqs_def unique_on_total [OF refl] del: map_append)
  then have step: "create_items iid (l # ls) s = create_items iid ls ?s"
    by (simp add: fresh_uuid_def)
  have "fresh_for (map inv_id (invoices ?s) @ map item_id (invoiceItems ?s)) ?s"
    using f(2) by (rule fresh_for_mono) (auto simp: new_item_def)
  from Cons.IH [OF this] d show ?case unfolding step by simp
qed

lemma tuition_tx_Inr:
  assumes "tuition_tx seen caller dto sid ls now s = (s', Inr u)"
  shows "\<exists>iid ids n no row. None \<notin> set ls
    \<and> row = tuition_row caller dto sid (sum_list (map ln_amount (map the ls))) no now iid
    \<and> insert_row invoice_uqs row (invoices s) = Inr (invoices s @ [row]) \<and> length ids = length (map the ls)
    \<and> int4 (inv_subtotal row)
    \<and> s' = s\<lparr>invoices := invoices s @ [row], invoiceItems := invoiceItems s @ item_rows (inv_id row) ids (map the ls), uuid_ctr := n\<rparr>"
proof -
  let ?no = "nextInvoiceNo (filter seen (invoices s)) (gen_year dto)"
  let ?mk = "tuition_row caller dto sid (sum_list (map ln_amount (map the ls))) ?no now"
  from assms have n: "None \<notin> set ls" by (auto simp: tuition_tx_def)
  with assms obtain s1 row where 1: "create_invoice_row ?mk s = (s1, Inr row)"
    and 2: "create_items (inv_id row) (map the ls) s1 = (s', Inr u)"
    by (auto simp: tuition_tx_def Let_def elim!: bindE_Inr)
  obtain iid where i: "row = ?mk iid" "insert_row invoice_uqs row (invoices s) = Inr (invoices s @ [row])"
      "s1 = s\<lparr>invoices := invoices s @ [row], uuid_ctr := Suc (uuid_ctr s)\<rparr>" "int4 (inv_subtotal row)"
    using create_invoice_row_Inr [OF 1] by blast
  obtain n ids where ids: "length ids = length (map the ls)"
      "s' = s1\<lparr>invoiceItems := invoiceItems s1 @ item_rows (inv_id row) ids (map the ls), uuid_ctr := n\<rparr>"
    using create_items_Inr [OF 2] by blast
  show ?thesis
    by (rule exI [of _ iid], rule exI [of _ ids], rule exI [of _ n], rule exI [of _ ?no], rule exI [of _ row], intro conjI)
      (use n i(1,2,4) ids(1) in \<open>simp_all add: ids(2) i(3)\<close>)
qed

definition lines_ok :: "line option list \<Rightarrow> bool" where
  "lines_ok ls \<longleftrightarrow> None \<notin> set ls \<and> int4 (sum_list (map ln_amount (map the ls)))"

definition has_tuition :: "app \<Rightarrow> generate_dto \<Rightarrow> uuid \<Rightarrow> bool" where
  "has_tuition s dto sid \<longleftrightarrow> (\<exists>i \<in> set (invoices s). is_tuition_for dto sid i)"

text \<open>What one student's transaction does when every row is seen and no identifier repeats.\<close>

lemma tuition_tx_fresh:
  assumes "fresh_ids s" and "\<not> has_tuition s dto sid" and "lines_ok ls"
    and uniq: "list_all (\<lambda>u. unique_on (snd u) (invoices s)) invoice_uqs"
  shows "\<exists>s'. tuition_tx (\<lambda>_. True) caller dto sid ls now s = (s', Inr ()) \<and> fresh_ids s'"
proof -
  let ?no = "nextInvoiceNo (invoices s) (gen_year dto)" and ?i = "uuid_src s (uuid_ctr s)"
  let ?amount = "sum_list (map ln_amount (map the ls))"
  let ?row = "tuition_row caller dto sid ?amount ?no now ?i"
  let ?s1 = "s\<lparr>uuid_ctr := Suc (uuid_ctr s), invoices := invoices s @ [?row]\<rparr>"
  have ff: "fresh_for (map inv_id (invoices s) @ map item_id (invoiceItems s)) s"
    and d: "distinct (map item_id (invoiceItems s))" using assms(1) by (simp_all add: fresh_ids_def)
  note f = fresh_uuid_for [OF ff fresh_uuid_def]
  have nid: "\<forall>q \<in> set (invoices s). inv_id q \<noteq> ?i" using f(1) by (auto simp: image_iff)
  have nkey: "period_key q \<noteq> Some (tuition_key dto sid)" if "q \<in> set (invoices s)" for q
    using assms(2) that by (auto simp: has_tuition_def period_key_tuition)
  have "unique_on (\<lambda>i. Some [inv_id i]) (invoices s @ [?row])"
    using uniq nid by (auto simp: invoice_uqs_def unique_on_snoc tuition_row_def)
  moreover have "unique_on (\<lambda>i. Some [inv_invoiceNo i]) (invoices s @ [?row])"
    using uniq nextInvoiceNo_new
    by (auto simp: invoice_uqs_def unique_on_snoc tuition_row_def)
  moreover have "unique_on period_key (invoices s @ [?row])"
    using uniq nkey by (simp add: invoice_uqs_def unique_on_snoc)
  ultimately have ins: "insert_row invoice_uqs ?row (invoices s) = Inr (invoices s @ [?row])"
    unfolding insert_row_def by (intro check_unique_ok) (simp add: invoice_uqs_def)
  have "int4 (inv_subtotal ?row)" "int4 (inv_discount ?row)" "int4 (inv_total ?row)"
    using assms(3) by (simp_all add: lines_ok_def tuition_row_def int4_def)
  with ins have "create_invoice_row (tuition_row caller dto sid ?amount ?no now) s = (?s1, Inr ?row)"
    by (simp add: create_invoice_row_def fresh_uuid_def Let_def)
  moreover have "fresh_for (map inv_id (invoices ?s1) @ map item_id (invoiceItems ?s1)) ?s1"
    using f(2) by (rule fresh_for_mono) (auto simp: tuition_row_def)
  then have "\<exists>s'. create_items (inv_id ?row) (map the ls) ?s1 = (s', Inr ()) \<and> fresh_ids s'"
    by (rule create_items_fresh) (use d in simp)
  ultimately show ?thesis using assms(3) unfolding tuition_tx_def lines_ok_def Let_def by simp
qed

text \<open>And when the student already has the invoice: it stops at the unique constraint.\<close>

lemma tuition_tx_existing:
  assumes "has_tuition s dto sid" and "lines_ok ls"
  shows "\<exists>e. tuition_tx seen caller dto sid ls now s = (s\<lparr>uuid_ctr := Suc (uuid_ctr s)\<rparr>, Inl e) \<and> is_P2002 e"
proof -
  let ?no = "nextInvoiceNo (filter seen (invoices s)) (gen_year dto)" and ?i = "uuid_src s (uuid_ctr s)"
  let ?amount = "sum_list (map ln_amount (map the ls))"
  let ?row = "tuition_row caller dto sid ?amount ?no now ?i"
  obtain q where "q \<in> set (invoices s)" "period_key q = Some (tuition_key dto sid)"
    using assms(1) by (auto simp: has_tuition_def period_key_tuition)
  then have "\<not> unique_on period_key (invoices s @ [?row])" by (auto simp: unique_on_snoc)
  then have "check_unique invoice_uqs (invoices s @ [?row]) \<noteq> Inr t" for t
    using check_unique_Inr [of invoice_uqs "invoices s @ [?row]" t] by (auto simp: invoice_uqs_def)
  then obtain e where e: "insert_row invoice_uqs ?row (invoices s) = Inl e"
    unfolding insert_row_def by (metis sum.exhaust)
  then have "is_P2002 e" unfolding insert_row_def by (rule check_unique_Inl)
  moreover have "int4 (inv_subtotal ?row)" "int4 (inv_discount ?row)" "int4 (inv_total ?row)"
    using assms(2) by (simp_all add: lines_ok_def tuition_row_def int4_def)
  with e have "create_invoice_row (tuition_row caller dto sid ?amount ?no now) s = (s\<lparr>uuid_ctr := Suc (uuid_ctr s)\<rparr>, Inl e)"
    by (simp add: create_invoice_row_def fresh_uuid_def)
  ultimately show ?thesis using assms(2) unfolding tuition_tx_def lines_ok_def Let_def by simp
qed

text \<open>The loop keeps the invariant, provided the amounts of the lines are not negative.\<close>

lemma tuition_loop_inv:
  assumes "tuition_loop seen caller dto now xs c k s = (s', r)" and "invoices_inv s"
    and "\<forall>(sid, ls) \<in> set xs. \<forall>l. Some l \<in> set ls \<longrightarrow> 0 \<le> ln_amount l"
  shows "invoices_inv s'"
  using assms
proof (induction seen caller dto now xs c k s rule: tuition_loop.induct)
  case (2 seen caller dto now sid ls rest c k s)
  let ?tx = "transaction (tuition_tx (seen sid) caller dto sid ls now) s"
  have rest: "\<forall>(sid, ls) \<in> set rest. \<forall>l. Some l \<in> set ls \<longrightarrow> 0 \<le> ln_amount l" using "2.prems"(3) by simp
  show ?case
  proof (cases ?tx)
    case (Pair s1 r1)
    show ?thesis
    proof (cases r1)
      case (Inl e)
      have "same_db s1 s" using transaction_Inl Pair Inl by blast
      from same_db_tables [OF this] have i1: "invoices_inv s1"
        using "2.prems"(2) invoices_inv_cong [of s1 s] by simp
      show ?thesis
      proof (cases "is_P2002 e")
        case True
        have "tuition_loop seen caller dto now rest c (Suc k) s1 = (s', r)"
          using "2.prems"(1) Pair Inl True by simp
        then show ?thesis using "2.IH"(1) [OF Pair [symmetric]] Inl True i1 rest by blast
      next
        case False
        then show ?thesis using "2.prems"(1) Pair Inl i1 by simp
      qed
    next
      case (Inr u)
      then have "tuition_tx (seen sid) caller dto sid ls now s = (s1, Inr u)" using Pair transaction_Inr by metis
      from tuition_tx_Inr [OF this] obtain iid ids n no row where t: "None \<notin> set ls"
        "row = tuition_row caller dto sid (sum_list (map ln_amount (map the ls))) no now iid"
        "insert_row invoice_uqs row (invoices s) = Inr (invoices s @ [row])" "length ids = length (map the ls)"
        "int4 (inv_subtotal row)"
        "s1 = s\<lparr>invoices := invoices s @ [row], invoiceItems := invoiceItems s @ item_rows (inv_id row) ids (map the ls), uuid_ctr := n\<rparr>"
        by blast
      have "\<forall>l \<in> set ls. 0 \<le> ln_amount (the l)"
        using "2.prems"(3) t(1) by (metis (no_types, lifting) case_prodD list.set_intros(1) option.collapse)
      then have "0 \<le> sum_list (map ln_amount (map the ls))" by (intro sum_list_nonneg) auto
      then have "invoice_row_ok row" using t(5)
        by (simp add: t(2) tuition_row_def invoice_row_ok_def int4_def MAX_MONEY_AMOUNT_def)
      then have i1: "invoices_inv s1"
        by (rule issue_inv [of s row ids "map the ls", OF "2.prems"(2) t(3)])
          (use t(4) in \<open>simp_all add: t(6), simp add: t(2) tuition_row_def\<close>)
      have "tuition_loop seen caller dto now rest (Suc c) k s1 = (s', r)" using "2.prems"(1) Pair Inr by simp
      then show ?thesis using "2.IH"(2) [OF Pair [symmetric]] Inr i1 rest by blast
    qed
  qed
qed simp

lemma add_entry_facts:
  "fst ` set (add_entry k v m) = insert k (fst ` set m)"
  "(k', vs) \<in> set (add_entry k v m) \<Longrightarrow> x \<in> set vs \<Longrightarrow> x = v \<or> (\<exists>ws. (k', ws) \<in> set m \<and> x \<in> set ws)"
  by (induction k v m rule: add_entry.induct) (auto split: if_splits)

lemma by_student_facts:
  "fst ` set (by_student es) = enr_studentId ` set es"
  "(k, vs) \<in> set (by_student es) \<Longrightarrow> x \<in> set vs \<Longrightarrow> x \<in> set es"
proof -
  show "fst ` set (by_student es) = enr_studentId ` set es"
    by (induction es rule: rev_induct) (simp_all add: by_student_def add_entry_facts(1))
  show "(k, vs) \<in> set (by_student es) \<Longrightarrow> x \<in> set vs \<Longrightarrow> x \<in> set es"
  proof (induction es arbitrary: k vs rule: rev_induct)
    case (snoc e es)
    have "(k, vs) \<in> set (add_entry (enr_studentId e) e (by_student es))"
      using snoc.prems(1) by (simp add: by_student_def)
    from add_entry_facts(2) [OF this snoc.prems(2)] show ?case using snoc.IH by auto
  qed (simp add: by_student_def)
qed

lemma map_of_add_entry:
  "map_of (add_entry k v m) = (map_of m)(k \<mapsto> (case map_of m k of None \<Rightarrow> [v] | Some vs \<Rightarrow> vs @ [v]))"
  by (induction k v m rule: add_entry.induct) (auto simp: fun_eq_iff)

lemma distinct_add_entry: "distinct (map fst m) \<Longrightarrow> distinct (map fst (add_entry k v m))"
  by (induction k v m rule: add_entry.induct) (auto simp: add_entry_facts(1))

lemma by_student_groups:
  "distinct (map fst (by_student es))"
  "map_of (by_student es) k = (let g = filter (\<lambda>e. enr_studentId e = k) es in if g = [] then None else Some g)"
proof (induction es rule: rev_induct)
  case (snoc e es)
  have step: "by_student (es @ [e]) = add_entry (enr_studentId e) e (by_student es)" by (simp add: by_student_def)
  { case 1 show ?case unfolding step by (rule distinct_add_entry) (rule snoc.IH) }
  { case 2 show ?case unfolding step map_of_add_entry using snoc.IH(2) by (auto simp: Let_def) }
qed (simp_all add: by_student_def)

lemma tuition_enrollment_rate:
  assumes "e \<in> set (tuition_enrollments s dto)" and "tuition_line s dto e = Some l"
  shows "0 \<le> ln_amount l"
proof -
  have "enr_classId e \<in> set (rated_classes s dto)"
    using assms(1) by (auto simp: tuition_enrollments_def Let_def split: if_splits)
  then have "valid_rate (json_get (rates_setting s) (enr_classId e))" by (simp add: rated_classes_def)
  then show ?thesis using assms(2)
    by (auto simp: tuition_line_def valid_rate_def split: option.splits json.splits)
qed

lemma student_lines_nonneg:
  "\<forall>(sid, ls) \<in> set (student_lines s dto). \<forall>l. Some l \<in> set ls \<longrightarrow> 0 \<le> ln_amount l"
proof (clarify)
  fix sid ls l
  assume "(sid, ls) \<in> set (student_lines s dto)" "Some l \<in> set ls"
  then obtain es e where "(sid, es) \<in> set (by_student (tuition_enrollments s dto))" "e \<in> set es" "tuition_line s dto e = Some l"
    by (auto simp: student_lines_def)
  then show "0 \<le> ln_amount l" using by_student_facts(2) tuition_enrollment_rate by blast
qed

lemma generateMonthly_inv:
  assumes "invoices_inv s"
  shows "invoices_inv (fst (generateMonthly seen caller dto now s))"
proof (cases "tuition_loop seen caller dto now (student_lines s dto) 0 0 s")
  case (Pair s1 r)
  from tuition_loop_inv [OF Pair assms student_lines_nonneg] have "invoices_inv s1" .
  then show ?thesis using Pair
    by (cases r) (auto simp: generateMonthly_def bindE_def invoices_inv_cong [of "record_audit _ _ _ _ _ s1" s1])
qed

text \<open>What a run leaves alone, and that no invoice disappears.\<close>

definition run_frame :: "app \<Rightarrow> app \<Rightarrow> bool" where
  "run_frame s s' \<longleftrightarrow> students s' = students s \<and> classes s' = classes s \<and> enrollments s' = enrollments s
     \<and> appSettings s' = appSettings s \<and> set (invoices s) \<subseteq> set (invoices s')
     \<and> (\<forall>i \<in> set (invoices s). items_of s' (inv_id i) = items_of s (inv_id i))"

lemma run_frame_same_db: "same_db s' s \<Longrightarrow> run_frame s s'"
  using same_db_tables [of s' s] by (simp add: run_frame_def items_of_def)

lemma run_frame_trans: "run_frame s t \<Longrightarrow> run_frame t u \<Longrightarrow> run_frame s u"
  by (simp add: run_frame_def subset_iff)

text \<open>The student has an unpaid tuition invoice for the period with exactly these lines.\<close>

definition billed :: "app \<Rightarrow> generate_dto \<Rightarrow> uuid \<Rightarrow> line list \<Rightarrow> bool" where
  "billed s dto sid ls \<longleftrightarrow> (\<exists>i \<in> set (invoices s). is_tuition_for dto sid i \<and> inv_status i = UNPAID
     \<and> inv_total i = sum_list (map ln_amount ls) \<and> map (snd \<circ> item_view) (items_of s (inv_id i)) = ls)"

lemma run_frame_billed: "run_frame s s' \<Longrightarrow> billed s dto sid ls \<Longrightarrow> billed s' dto sid ls"
  by (fastforce simp: run_frame_def billed_def)

lemma run_frame_has: "run_frame s s' \<Longrightarrow> has_tuition s dto sid \<Longrightarrow> has_tuition s' dto sid"
  by (auto simp: run_frame_def has_tuition_def)

lemma tuition_tx_lines_ok:
  assumes "tuition_tx seen caller dto sid ls now s = (s', r)" and "\<forall>e. r = Inl e \<longrightarrow> is_P2002 e"
  shows "lines_ok ls"
proof (rule ccontr)
  assume "\<not> lines_ok ls"
  then have "\<exists>m. r = Inl (OtherError m)"
    using assms(1) by (auto simp: tuition_tx_def lines_ok_def create_invoice_row_def fresh_uuid_def
        tuition_row_def bindE_def Let_def split: if_splits)
  then show False using assms(2) by (auto simp: is_P2002_def)
qed

lemma tuition_step:
  assumes "transaction (tuition_tx (\<lambda>_. True) caller dto sid ls now) s = (s1, r1)"
    and "\<forall>e. r1 = Inl e \<longrightarrow> is_P2002 e" and "fresh_ids s" and "invoices_inv s"
  shows "lines_ok ls \<and> has_tuition s1 dto sid \<and> fresh_ids s1 \<and> run_frame s s1
    \<and> (\<not> has_tuition s dto sid \<longrightarrow> billed s1 dto sid (map the ls))
    \<and> (\<forall>k. has_tuition s1 dto k \<longrightarrow> k = sid \<or> has_tuition s dto k)"
proof (cases "has_tuition s dto sid")
  case True
  obtain s2 r2 where tx: "tuition_tx (\<lambda>_. True) caller dto sid ls now s = (s2, r2)" by (meson prod.exhaust)
  have "r2 = r1" using assms(1) tx by (auto simp: transaction_def split: sum.splits)
  then have ok: "lines_ok ls" using tuition_tx_lines_ok [OF tx] assms(2) by simp
  obtain e where "tuition_tx (\<lambda>_. True) caller dto sid ls now s = (s\<lparr>uuid_ctr := Suc (uuid_ctr s)\<rparr>, Inl e)"
    using tuition_tx_existing [OF True ok] by blast
  then have s1: "s1 = rollback s (s\<lparr>uuid_ctr := Suc (uuid_ctr s)\<rparr>)" using assms(1) by (simp add: transaction_def)
  have "fresh_ids s1" using assms(3) by (auto simp: fresh_ids_def fresh_for_def s1)
  moreover have "run_frame s s1" by (rule run_frame_same_db) (simp add: s1)
  moreover have "has_tuition s1 dto k = has_tuition s dto k" for k by (simp add: has_tuition_def s1)
  ultimately show ?thesis using ok True by blast
next
  case False
  obtain s2 r2 where tx: "tuition_tx (\<lambda>_. True) caller dto sid ls now s = (s2, r2)" by (meson prod.exhaust)
  have "r2 = r1" using assms(1) tx by (auto simp: transaction_def split: sum.splits)
  then have ok: "lines_ok ls" using tuition_tx_lines_ok [OF tx] assms(2) by simp
  obtain s' where s': "tuition_tx (\<lambda>_. True) caller dto sid ls now s = (s', Inr ())" "fresh_ids s'"
    using tuition_tx_fresh [OF assms(3) False ok] assms(4) by (auto simp: invoices_inv_def)
  then have "s1 = s'" using assms(1) by (simp add: transaction_def)
  moreover obtain iid ids n no row where row: "row = tuition_row caller dto sid (sum_list (map ln_amount (map the ls))) no now iid"
      "insert_row invoice_uqs row (invoices s) = Inr (invoices s @ [row])" "length ids = length (map the ls)"
      "s' = s\<lparr>invoices := invoices s @ [row], invoiceItems := invoiceItems s @ item_rows (inv_id row) ids (map the ls), uuid_ctr := n\<rparr>"
    using tuition_tx_Inr [OF s'(1)] by blast
  have mine: "is_tuition_for dto k row \<longleftrightarrow> k = sid" "inv_status row = UNPAID" "inv_total row = sum_list (map ln_amount (map the ls))" for k
    by (auto simp: row(1) is_tuition_for_def tuition_row_def)
  have it: "items_of s' (inv_id row) = item_rows (inv_id row) ids (map the ls)"
    "i \<in> set (invoices s) \<Longrightarrow> items_of s' (inv_id i) = items_of s (inv_id i)" for i
    using issued_items [OF assms(4) row(2), of s' ids "map the ls"] row(4) by simp_all
  have inv': "invoices s' = invoices s @ [row]" by (simp add: row(4))
  have frame: "run_frame s s'" using it(2) by (auto simp: run_frame_def inv') (simp_all add: row(4))
  have "has_tuition s' dto k \<longleftrightarrow> k = sid \<or> has_tuition s dto k" for k by (auto simp: has_tuition_def inv' mine(1))
  moreover have "billed s' dto sid (map the ls)"
    using mine item_rows_views [OF row(3), of "inv_id row"] by (auto simp: billed_def inv' it(1))
  ultimately show ?thesis using ok s'(2) frame by blast
qed

lemma tuition_loop_Cons:
  assumes run: "tuition_loop (\<lambda>_ _. True) caller dto now ((sid, ls) # rest) c k s = (s', Inr (c', k'))"
    and fresh: "fresh_ids s" and inv: "invoices_inv s"
    and nonneg: "\<forall>(sid, ls) \<in> set ((sid, ls) # rest). \<forall>l. Some l \<in> set ls \<longrightarrow> 0 \<le> ln_amount l"
  obtains s1 c1 k1 where "tuition_loop (\<lambda>_ _. True) caller dto now rest c1 k1 s1 = (s', Inr (c', k'))"
    "c1 + k1 = Suc (c + k)" "fresh_ids s1" "invoices_inv s1" "run_frame s s1" "lines_ok ls" "has_tuition s1 dto sid"
    "\<not> has_tuition s dto sid \<longrightarrow> billed s1 dto sid (map the ls)" "\<forall>x. has_tuition s1 dto x \<longrightarrow> x = sid \<or> has_tuition s dto x"
proof -
  let ?tx = "transaction (tuition_tx (\<lambda>_. True) caller dto sid ls now) s"
  obtain s1 r1 where p: "?tx = (s1, r1)" by (meson prod.exhaust)
  have r1: "\<forall>e. r1 = Inl e \<longrightarrow> is_P2002 e" using run p by (auto split: if_splits)
  have "tuition_loop (\<lambda>_ _. True) caller dto now [(sid, ls)] c k s =
      (s1, case r1 of Inl e \<Rightarrow> Inr (c, Suc k) | Inr _ \<Rightarrow> Inr (Suc c, k))"
    using p r1 by (auto split: sum.splits)
  then have i1: "invoices_inv s1" by (rule tuition_loop_inv) (use inv nonneg in auto)
  note st = tuition_step [OF p r1 fresh inv]
  show ?thesis
  proof (cases r1)
    case (Inl e)
    then have "tuition_loop (\<lambda>_ _. True) caller dto now rest c (Suc k) s1 = (s', Inr (c', k'))" using run p r1 by simp
    then show ?thesis using that [of c "Suc k" s1] st i1 by simp
  next
    case (Inr u)
    then have "tuition_loop (\<lambda>_ _. True) caller dto now rest (Suc c) k s1 = (s', Inr (c', k'))" using run p by simp
    then show ?thesis using that [of "Suc c" k s1] st i1 by simp
  qed
qed

lemma tuition_loop_covers:
  assumes "tuition_loop (\<lambda>_ _. True) caller dto now xs c k s = (s', Inr (c', k'))"
    and "fresh_ids s" and "invoices_inv s"
    and "\<forall>(sid, ls) \<in> set xs. \<forall>l. Some l \<in> set ls \<longrightarrow> 0 \<le> ln_amount l"
  shows "(\<forall>(sid, ls) \<in> set xs. lines_ok ls \<and> has_tuition s' dto sid) \<and> run_frame s s' \<and> c' + k' = c + k + length xs"
  using assms
proof (induction xs arbitrary: c k s)
  case Nil
  then show ?case by (simp add: run_frame_same_db)
next
  case (Cons x rest c k s)
  obtain sid ls where x: "x = (sid, ls)" by (cases x)
  from Cons.prems obtain s1 c1 k1 where l: "tuition_loop (\<lambda>_ _. True) caller dto now rest c1 k1 s1 = (s', Inr (c', k'))"
      "c1 + k1 = Suc (c + k)" "fresh_ids s1" "invoices_inv s1" "run_frame s s1" "lines_ok ls" "has_tuition s1 dto sid"
    unfolding x by (rule tuition_loop_Cons)
  have IH: "(\<forall>(sid, ls) \<in> set rest. lines_ok ls \<and> has_tuition s' dto sid)" "run_frame s1 s'" "c' + k' = c1 + k1 + length rest"
    using Cons.IH [OF l(1,3,4)] Cons.prems(4) by simp_all
  then show ?case using l x run_frame_has [OF IH(2)] run_frame_trans [of s s1 s'] by auto
qed

text \<open>Who had no invoice for the period gets one with the lines of the run.\<close>

lemma tuition_loop_billed:
  assumes "tuition_loop (\<lambda>_ _. True) caller dto now xs c k s = (s', Inr (c', k'))"
    and "fresh_ids s" and "invoices_inv s"
    and "\<forall>(sid, ls) \<in> set xs. \<forall>l. Some l \<in> set ls \<longrightarrow> 0 \<le> ln_amount l"
    and "distinct (map fst xs)" and "(sid, ls) \<in> set xs" and "\<not> has_tuition s dto sid"
  shows "billed s' dto sid (map the ls)"
  using assms
proof (induction xs arbitrary: c k s)
  case (Cons x rest c k s)
  obtain sid1 ls1 where x: "x = (sid1, ls1)" by (cases x)
  from Cons.prems(1-4) obtain s1 c1 k1 where l: "tuition_loop (\<lambda>_ _. True) caller dto now rest c1 k1 s1 = (s', Inr (c', k'))"
      "fresh_ids s1" "invoices_inv s1" "\<not> has_tuition s dto sid1 \<longrightarrow> billed s1 dto sid1 (map the ls1)"
      "\<forall>x. has_tuition s1 dto x \<longrightarrow> x = sid1 \<or> has_tuition s dto x"
    unfolding x by (rule tuition_loop_Cons)
  have nonneg: "\<forall>(sid, ls) \<in> set rest. \<forall>l. Some l \<in> set ls \<longrightarrow> 0 \<le> ln_amount l" using Cons.prems(4) by simp
  show ?case
  proof (cases "(sid, ls) = x")
    case True
    then have "billed s1 dto sid (map the ls)" using l(4) x Cons.prems(7) by simp
    moreover have "run_frame s1 s'" using tuition_loop_covers [OF l(1-3) nonneg] by blast
    ultimately show ?thesis using run_frame_billed by blast
  next
    case False
    then have m: "(sid, ls) \<in> set rest" using Cons.prems(6) by simp
    then have "sid \<noteq> sid1" using Cons.prems(5) x by (force simp: image_iff)
    then have "\<not> has_tuition s1 dto sid" using l(5) Cons.prems(7) by blast
    then show ?thesis using Cons.IH [OF l(1-3) nonneg _ m] Cons.prems(5) by simp
  qed
qed simp

lemma tuition_loop_idle:
  assumes "\<forall>(sid, ls) \<in> set xs. lines_ok ls \<and> has_tuition s dto sid"
  shows "\<exists>s'. tuition_loop seen caller dto now xs c k s = (s', Inr (c, k + length xs)) \<and> same_db s' s"
  using assms
proof (induction xs arbitrary: k s)
  case (Cons x rest k s)
  obtain sid ls where x: "x = (sid, ls)" by (cases x)
  let ?s1 = "rollback s (s\<lparr>uuid_ctr := Suc (uuid_ctr s)\<rparr>)"
  have "lines_ok ls" "has_tuition s dto sid" using Cons.prems x by auto
  then obtain e where "tuition_tx (seen sid) caller dto sid ls now s = (s\<lparr>uuid_ctr := Suc (uuid_ctr s)\<rparr>, Inl e)" "is_P2002 e"
    using tuition_tx_existing by blast
  then have step: "tuition_loop seen caller dto now (x # rest) c k s = tuition_loop seen caller dto now rest c (Suc k) ?s1"
    by (simp add: x transaction_def)
  have "\<forall>(sid, ls) \<in> set rest. lines_ok ls \<and> has_tuition ?s1 dto sid"
    using Cons.prems by (auto simp: has_tuition_def)
  from Cons.IH [OF this, of "Suc k"] obtain s' where
    "tuition_loop seen caller dto now rest c (Suc k) ?s1 = (s', Inr (c, Suc k + length rest))" "same_db s' ?s1" by blast
  then show ?case unfolding step using same_db_trans rollback_same_db by auto
qed simp

lemma unique_on_count:
  assumes "unique_on key t"
  shows "length (filter (\<lambda>i. key i = Some k) t) \<le> 1"
  using assms
proof (induction t rule: rev_induct)
  case (snoc r t)
  then have u: "unique_on key t" "\<forall>k. key r = Some k \<longrightarrow> (\<forall>q \<in> set t. key q \<noteq> Some k)"
    by (simp_all add: unique_on_snoc)
  show ?case
  proof (cases "key r = Some k")
    case True
    then have "filter (\<lambda>i. key i = Some k) t = []" using u(2) by (simp add: filter_empty_conv)
    then show ?thesis by simp
  next
    case False
    then show ?thesis using snoc.IH u(1) by simp
  qed
qed simp

lemma one_tuition:
  assumes "invoices_inv s" and "has_tuition s dto sid"
  shows "length (filter (is_tuition_for dto sid) (invoices s)) = 1"
proof -
  have "unique_on period_key (invoices s)" using assms(1) by (simp add: invoices_inv_def invoice_uqs_def)
  then have "length (filter (is_tuition_for dto sid) (invoices s)) \<le> 1"
    using unique_on_count [of period_key "invoices s" "tuition_key dto sid"] by (simp add: period_key_tuition)
  moreover have "filter (is_tuition_for dto sid) (invoices s) \<noteq> []"
    using assms(2) by (auto simp: has_tuition_def filter_empty_conv)
  then have "length (filter (is_tuition_for dto sid) (invoices s)) \<noteq> 0" by simp
  ultimately show ?thesis by linarith
qed

lemma generateMonthly_Inr:
  assumes "generateMonthly seen caller dto now s = (s', Inr res)"
  obtains s1 detail where
    "tuition_loop seen caller dto now (student_lines s dto) 0 0 s = (s1, Inr (grs_created res, grs_skippedExisting res))"
    "s' = record_audit None ''tuition_generated'' None True detail s1"
proof -
  from assms obtain s1 p where run: "tuition_loop seen caller dto now (student_lines s dto) 0 0 s = (s1, Inr p)"
    unfolding generateMonthly_def by (elim bindE_Inr)
  obtain c k where p: "p = (c, k)" by (cases p)
  have "s' = record_audit None ''tuition_generated'' None True
      (Some (''period:'' @ period_text dto @ '' created:'' @ show_nat c @ '' skipped:'' @ show_nat k)) s1"
    "grs_created res = c" "grs_skippedExisting res = k"
    using assms by (auto simp: generateMonthly_def bindE_def run p)
  then show ?thesis using that run p by blast
qed

lemma student_lines_keys: "fst ` set (student_lines s dto) = enr_studentId ` set (tuition_enrollments s dto)"
proof -
  have "map fst (student_lines s dto) = map fst (by_student (tuition_enrollments s dto))"
    by (simp add: student_lines_def case_prod_beta comp_def)
  then show ?thesis using by_student_facts(1) by (metis list.set_map)
qed

lemma student_lines_frame:
  assumes "run_frame s s'"
  shows "student_lines s' dto = student_lines s dto"
proof -
  have r: "rates_setting s' = rates_setting s" and c: "class_name s' = class_name s"
    using assms by (simp_all add: rates_setting_def class_name_def fun_eq_iff run_frame_def)
  have l: "tuition_line s' = tuition_line s" by (intro ext) (unfold tuition_line_def r c, rule refl)
  have "tuition_enrollments s' dto = tuition_enrollments s dto"
    using assms by (simp add: tuition_enrollments_def rated_classes_def r run_frame_def)
  then show ?thesis by (simp add: student_lines_def l)
qed

lemma generateMonthly_facts:
  assumes "generateMonthly (\<lambda>_ _. True) caller dto now s = (s', Inr res)" and "invoices_inv s" and "fresh_ids s"
  shows "(\<forall>(sid, ls) \<in> set (student_lines s dto). lines_ok ls \<and> has_tuition s' dto sid) \<and> run_frame s s'
    \<and> grs_created res + grs_skippedExisting res = length (student_lines s dto) \<and> invoices_inv s'"
proof -
  obtain s1 detail where run: "tuition_loop (\<lambda>_ _. True) caller dto now (student_lines s dto) 0 0 s = (s1, Inr (grs_created res, grs_skippedExisting res))"
      and s': "s' = record_audit None ''tuition_generated'' None True detail s1"
    using generateMonthly_Inr [OF assms(1)] by blast
  have "invoices_inv s'" using generateMonthly_inv [OF assms(2), of "\<lambda>_ _. True" caller dto now] assms(1) by simp
  moreover have "run_frame s1 s'" by (rule run_frame_same_db) (simp add: s')
  moreover note c = tuition_loop_covers [OF run assms(3,2) student_lines_nonneg]
  ultimately show ?thesis
    using run_frame_has [of s1 s' dto] run_frame_trans [of s s1 s'] by auto
qed

lemma map_Some_the: "None \<notin> set xs \<Longrightarrow> map Some (map the xs) = xs"
  by (induction xs) auto

lemma student_lines_of:
  assumes "e \<in> set (tuition_enrollments s dto)"
  shows "(enr_studentId e, map (tuition_line s dto) (filter (\<lambda>x. enr_studentId x = enr_studentId e) (tuition_enrollments s dto)))
      \<in> set (student_lines s dto)" and "distinct (map fst (student_lines s dto))"
proof -
  let ?g = "filter (\<lambda>x. enr_studentId x = enr_studentId e) (tuition_enrollments s dto)"
  have "?g \<noteq> []" using assms by (auto simp: filter_empty_conv)
  then have "map_of (by_student (tuition_enrollments s dto)) (enr_studentId e) = Some ?g"
    by (simp add: by_student_groups(2) Let_def)
  then have "(enr_studentId e, ?g) \<in> set (by_student (tuition_enrollments s dto))" by (rule map_of_SomeD)
  then show "(enr_studentId e, map (tuition_line s dto) ?g) \<in> set (student_lines s dto)"
    unfolding student_lines_def by force
  show "distinct (map fst (student_lines s dto))"
    using by_student_groups(1) [of "tuition_enrollments s dto"] by (simp add: student_lines_def comp_def case_prod_beta)
qed


text \<open>
  The monthly run is idempotent: repeated for the same period and classes, by
  anyone and at any time, it creates nothing and leaves invoices and line items as they were,
  even if it reads a stale invoice table.
\<close>

theorem generateMonthly_idempotent:
  assumes "generateMonthly (\<lambda>_ _. True) caller dto now s = (s', Inr res)" and "invoices_inv s" and "fresh_ids s"
  shows "\<exists>s'' res'. generateMonthly seen caller' dto now' s' = (s'', Inr res') \<and> grs_created res' = 0
    \<and> grs_skippedExisting res' = grs_created res + grs_skippedExisting res
    \<and> invoices s'' = invoices s' \<and> invoiceItems s'' = invoiceItems s'"
proof -
  note f = generateMonthly_facts [OF assms]
  have lines: "student_lines s' dto = student_lines s dto" using f student_lines_frame by blast
  obtain s1 where s1: "tuition_loop seen caller' dto now' (student_lines s dto) 0 0 s' = (s1, Inr (0, 0 + length (student_lines s dto)))"
      "same_db s1 s'"
    using tuition_loop_idle [of "student_lines s dto" s' dto seen caller' now' 0 0] f by blast
  then show ?thesis using f same_db_tables [OF s1(2)]
    by (simp add: generateMonthly_def lines bindE_def)
qed

definition gdto0 :: generate_dto where
  "gdto0 = \<lparr> gen_month = 9, gen_year = 2026, gen_classIds = [''c1''] \<rparr>"

definition rates0 :: app_setting where
  "rates0 = \<lparr> set_key = ''tuition_rates'', set_value = JObj [(''c1'', JNum 400000)], set_updatedBy = None \<rparr>"

definition school0 :: app where
  "school0 = empty_app\<lparr>students := [stu0], classes := [cls0], enrollments := [enr0], appSettings := [rates0]\<rparr>"

lemma school0_fresh: "fresh_ids school0" "invoices_inv school0"
  by (simp_all add: fresh_ids_def fresh_for_def invoices_inv_def items_of_def school0_def empty_app_def inj_def
      invoice_uqs_def unique_on_def List.map_filter_def)

lemma school0_enrollments: "tuition_enrollments school0 gdto0 = [enr0]"
proof -
  have "0 < date_UTC 2026 9 1" by code_simp
  then show ?thesis
    by (simp add: tuition_enrollments_def rated_classes_def rates_setting_def valid_rate_def school0_def gdto0_def
        rates0_def enr0_def stu0_def Let_def)
qed

lemma school0_run: "\<exists>s' res. generateMonthly (\<lambda>_ _. True) admin0 gdto0 0 school0 = (s', Inr res)"
proof -
  have l: "student_lines school0 gdto0 = [(''s1'', [tuition_line school0 gdto0 enr0])]"
    by (simp add: student_lines_def school0_enrollments by_student_def) (simp add: enr0_def)
  have t: "tuition_line school0 gdto0 enr0 = Some \<lparr> ln_description = ''Tuition '' @ period_text gdto0 @ '' '' @ em_dash @ '' '' @ ''Basic'',
      ln_quantity = 1, ln_unitAmount = 400000, ln_amount = 400000 \<rparr>"
    by (simp add: tuition_line_def rates_setting_def school0_def rates0_def enr0_def class_name_def cls0_def)
  have "lines_ok [tuition_line school0 gdto0 enr0]" by (simp add: t lines_ok_def int4_def)
  moreover have "\<not> has_tuition school0 gdto0 ''s1''" by (simp add: has_tuition_def school0_def empty_app_def)
  ultimately obtain s' where "tuition_tx (\<lambda>_. True) admin0 gdto0 ''s1'' [tuition_line school0 gdto0 enr0] 0 school0 = (s', Inr ())"
    using tuition_tx_fresh [OF school0_fresh(1)] school0_fresh(2) unfolding invoices_inv_def by blast
  then show ?thesis by (simp add: generateMonthly_def l transaction_def bindE_def)
qed


theorem generateMonthly_idempotent_witness:
  "\<exists>s' res s'' res'. generateMonthly (\<lambda>_ _. True) admin0 gdto0 0 school0 = (s', Inr res)
     \<and> generateMonthly (\<lambda>_ _. False) admin0 gdto0 7 s' = (s'', Inr res') \<and> invoices s'' = invoices s'"
proof -
  obtain s' res where run: "generateMonthly (\<lambda>_ _. True) admin0 gdto0 0 school0 = (s', Inr res)" using school0_run by blast
  from generateMonthly_idempotent [OF run school0_fresh(2,1), of "\<lambda>_ _. False" admin0 7] run show ?thesis by blast
qed

section \<open>The invariant over all operations\<close>

lemma markOverdue_inv:
  assumes "invoices_inv s"
  shows "invoices_inv (markOverdue now s)"
proof -
  let ?d = "\<lambda>i. if inv_status i = UNPAID \<and> inv_dueDate i < now then i\<lparr>inv_status := OVERDUE\<rparr> else i"
  have t: "invoices (markOverdue now s) = map ?d (invoices s)" by (simp add: markOverdue_def table_simps)
  have same: "inv_id (?d i) = inv_id i" "inv_invoiceNo (?d i) = inv_invoiceNo i" "period_key (?d i) = period_key i"
    "invoice_row_ok (?d i) = invoice_row_ok i" "inv_subtotal (?d i) = inv_subtotal i" for i
    by (simp_all add: period_key_def invoice_row_ok_def split: option.splits)
  have items: "invoiceItems (markOverdue now s) = invoiceItems s" by (simp add: markOverdue_def)
  have "unique_on key (map ?d (invoices s)) = unique_on key (invoices s)" if "\<And>i. key (?d i) = key i" for key :: "invoice \<Rightarrow> string list option"
    using that by (simp add: unique_on_def List.map_filter_def filter_map comp_def)
  then show ?thesis using assms same
    by (simp add: invoices_inv_def t items items_of_def list_all_iff invoice_uqs_def image_image del: if_image_distrib)
qed

text \<open>
  Every operation that writes invoices keeps their invariant: unique
  identifiers, numbers and tuition periods, totals that are subtotal less discount and
  within range, line items that sum to the subtotal, and no line without its invoice. The
  exam fee is the amount of the exam, which is not negative.
\<close>

theorem invoices_invariant:
  assumes "invoices_inv s" and "valid_create_invoice_dto dto" and "0 \<le> exm_feeAmount (efa_exam args)"
  shows "invoices_inv (fst (createInvoice seen caller dto now s))
    \<and> invoices_inv (fst (generateMonthly seen' caller gdto now s))
    \<and> invoices_inv (fst (transaction (createExamFeeInvoice seen args now) s))
    \<and> invoices_inv (markOverdue now s)"
proof (intro conjI)
  show "invoices_inv (fst (createInvoice seen caller dto now s))" by (rule createInvoice_inv [OF assms(1,2)])
  show "invoices_inv (fst (generateMonthly seen' caller gdto now s))" by (rule generateMonthly_inv [OF assms(1)])
  show "invoices_inv (markOverdue now s)" by (rule markOverdue_inv [OF assms(1)])
  obtain s' r where run: "transaction (createExamFeeInvoice seen args now) s = (s', r)" by (meson prod.exhaust)
  show "invoices_inv (fst (transaction (createExamFeeInvoice seen args now) s))"
  proof (cases r)
    case (Inl e)
    then have "same_db s' s" using run transaction_Inl by blast
    from same_db_tables [OF this] show ?thesis using assms(1) run invoices_inv_cong [of s' s] by simp
  next
    case (Inr v)
    then show ?thesis using run createExamFeeInvoice_inv [OF assms(1,3)] transaction_Inr by fastforce
  qed
qed

theorem invoices_invariant_witness:
  "invoices_inv (fst (createInvoice (\<lambda>_ _. True) admin0 idto0 0 school0))"
  using invoices_invariant [OF school0_fresh(2) idto0_valid, of fee_args0] by (simp add: fee_args0_def exam0_def)

text \<open>
  The ageing job turns exactly the unpaid invoices whose due date has passed into
  overdue ones and changes no other invoice and no other column.
\<close>

theorem markOverdue_exact:
  "invoices (markOverdue now s) = map (\<lambda>i. if inv_status i = UNPAID \<and> inv_dueDate i < now
      then i\<lparr>inv_status := OVERDUE\<rparr> else i) (invoices s)
   \<and> same_db ((markOverdue now s)\<lparr>invoices := invoices s\<rparr>) s
   \<and> markOverdue now (markOverdue now s) = markOverdue now s"
proof (intro conjI)
  show "invoices (markOverdue now s) = map (\<lambda>i. if inv_status i = UNPAID \<and> inv_dueDate i < now
      then i\<lparr>inv_status := OVERDUE\<rparr> else i) (invoices s)" by (simp add: markOverdue_def table_simps)
  show "same_db ((markOverdue now s)\<lparr>invoices := invoices s\<rparr>) s" by (simp add: markOverdue_def)
  show "markOverdue now (markOverdue now s) = markOverdue now s"
    by (simp add: markOverdue_def table_simps comp_def)
qed

section \<open>Who sees which invoice\<close>

text \<open>A user has at most one live student profile (the column is unique).\<close>

definition one_profile_per_user :: "'a db_scheme \<Rightarrow> bool" where
  "one_profile_per_user s \<longleftrightarrow> unique_on stu_userId (students s)"

text \<open>
  The list and the detail agree: a student, a parent or an administrator gets an invoice
  of the unfiltered list exactly when the detail opens it; instructors never open one.
\<close>

theorem invoice_access_agrees:
  assumes "one_profile_per_user s" and "i \<in> set (invoices s)" and "distinct (map inv_id (invoices s))"
    and "cal_role caller \<noteq> INSTRUCTOR" and "inv_studentId i \<noteq> ''no-profile''"
  shows "(\<exists>v. getInvoiceById s caller (inv_id i) = Inr v) \<longleftrightarrow>
    invoice_where s caller \<lparr> liq_page = 1, liq_limit = 20, liq_status = None, liq_type = None, liq_studentId = None \<rparr> i"
proof -
  have f: "List.find (\<lambda>x. inv_id x = inv_id i) (invoices s) = Some i"
    by (rule find_key [OF assms(3,2)])
  have "(\<exists>v. getInvoiceById s caller (inv_id i) = Inr v) \<longleftrightarrow> assertInvoiceAccess s caller (inv_studentId i) = Inr ()"
    by (auto simp: getInvoiceById_def f split: sum.splits)
  moreover have "assertInvoiceAccess s caller (inv_studentId i) = Inr () \<longleftrightarrow>
      invoice_where s caller \<lparr> liq_page = 1, liq_limit = 20, liq_status = None, liq_type = None, liq_studentId = None \<rparr> i"
  proof (cases "cal_role caller")
    case STUDENT
    let ?mine = "\<lambda>p. stu_userId p = Some (cal_id caller) \<and> stu_deletedAt p = None"
    show ?thesis
    proof (cases "List.find ?mine (students s)")
      case None
      then have "List.find (\<lambda>q. stu_userId q = Some (cal_id caller) \<and> stu_deletedAt q = None \<and> stu_id q = inv_studentId i) (students s) = None"
        by (auto simp: find_None_ball)
      with None show ?thesis using STUDENT assms(5) by (simp add: assertInvoiceAccess_def invoice_where_def)
    next
      case (Some p)
      note p = find_Some_iff [OF Some]
      have uniq: "q = p" if "q \<in> set (students s)" "?mine q" for q
        using unique_on_inj [OF assms(1) [unfolded one_profile_per_user_def] that(1), of p] p that(2) by auto
      have "List.find (\<lambda>q. stu_userId q = Some (cal_id caller) \<and> stu_deletedAt q = None \<and> stu_id q = inv_studentId i) (students s) \<noteq> None
          \<longleftrightarrow> inv_studentId i = stu_id p"
        unfolding find_is_Some using uniq p by metis
      then show ?thesis using STUDENT Some
        by (auto simp: assertInvoiceAccess_def invoice_where_def split: option.splits)
    qed
  next
    case PARENT
    have "List.find (\<lambda>l. lnk_parentUserId l = cal_id caller \<and> lnk_studentId l = inv_studentId i \<and> lnk_verified l) (parentLinks s) \<noteq> None
        \<longleftrightarrow> inv_studentId i \<in> lnk_studentId ` {l \<in> set (parentLinks s). lnk_parentUserId l = cal_id caller \<and> lnk_verified l}"
      unfolding find_is_Some by (auto simp: image_iff)
    then show ?thesis using PARENT by (auto simp: assertInvoiceAccess_def invoice_where_def split: option.splits)
  next
    case ADMIN
    then show ?thesis by (simp add: assertInvoiceAccess_def invoice_where_def)
  qed (use assms(4) in simp)
  ultimately show ?thesis by simp
qed

theorem invoice_access_agrees_witness:
  "\<exists>(s :: app) i v. getInvoiceById s (caller0 STUDENT ''u1'') (inv_id i) = Inr v \<and> invoices s = [i]"
proof -
  let ?i = "manual_row admin0 idto0 500000 50000 0 ''INV-1970-0001'' 0 ''i1''"
  let ?s = "empty_app\<lparr>students := [stu0], invoices := [?i]\<rparr>"
  have "invoice_where ?s (caller0 STUDENT ''u1'')
      \<lparr> liq_page = 1, liq_limit = 20, liq_status = None, liq_type = None, liq_studentId = None \<rparr> ?i"
    by (simp add: invoice_where_def caller0_def stu0_def manual_row_def idto0_def)
  moreover have "one_profile_per_user ?s" "inv_studentId ?i \<noteq> ''no-profile''"
    by (simp_all add: one_profile_per_user_def unique_on_def List.map_filter_def stu0_def manual_row_def idto0_def)
  ultimately obtain v where "getInvoiceById ?s (caller0 STUDENT ''u1'') (inv_id ?i) = Inr v"
    using invoice_access_agrees [of ?s ?i "caller0 STUDENT ''u1''"] by (auto simp: caller0_def)
  then show ?thesis by (intro exI [of _ ?s] exI [of _ ?i] exI [of _ v]) simp
qed

end
