(* ===== verification/Payment_Port.thy ===== *)
theory Payment_Port
  imports Database
begin

text \<open>
  The port between the billing flow and a payment provider, from
  \<^verbatim>\<open>src/billing/payment-gateway.port.ts\<close>: its data, the port as a record of operations, and the
  locale \<open>signed_port\<close> with the law the flow relies on. The adapters are in \<open>Gateways\<close>.
\<close>

record gateway_request =
  gwr_orderRef :: string
  gwr_amount :: int
  gwr_description :: string
  gwr_expiresAt :: instant

record gateway_checkout =
  gwc_checkoutUrl :: string
  gwc_qrCodeDataUrl :: "string option"

text \<open>The reported amount is a number of the request body, not always an integer.\<close>

record gateway_event =
  gev_orderRef :: string
  gev_gatewayTxnId :: string
  gev_amount :: json
  gev_success :: bool

text \<open>A header is absent, one value, or several (\<^verbatim>\<open>IncomingHttpHeaders\<close>).\<close>

type_synonym headers = "string \<Rightarrow> string list"

record gateway_port =
  gwp_provider :: string
  gwp_createPayment :: "gateway_request \<Rightarrow> gateway_checkout res"
  gwp_verifySignature :: "headers \<Rightarrow> string \<Rightarrow> bool"
  gwp_parseEvent :: "string \<Rightarrow> gateway_event option"

text \<open>
  The law of an adapter: it accepts a delivery exactly when the signature it carries is the
  MAC of the part of the body that is signed. \<open>mac\<close> stands for the keyed hash.
\<close>

locale signed_port =
  fixes port :: gateway_port
    and mac :: "string \<Rightarrow> string"
    and signed_part :: "string \<Rightarrow> string option"
    and signature_of :: "headers \<Rightarrow> string \<Rightarrow> string option"
  assumes verify_iff: "gwp_verifySignature port h body \<longleftrightarrow>
      (\<exists>m. signed_part body = Some m \<and> signature_of h body = Some (mac m))"
begin

lemma unsigned_rejected: "signature_of h body = None \<Longrightarrow> \<not> gwp_verifySignature port h body"
  by (simp add: verify_iff)

lemma wrong_mac_rejected:
  "signed_part body = Some m \<Longrightarrow> signature_of h body = Some t \<Longrightarrow> t \<noteq> mac m \<Longrightarrow> \<not> gwp_verifySignature port h body"
  by (simp add: verify_iff)

text \<open>A signature taken from one body is accepted on another only if it is its MAC too.\<close>

lemma replayed_signature:
  assumes "gwp_verifySignature port h body" and "gwp_verifySignature port h' body'"
    and "signature_of h body = signature_of h' body'"
  shows "\<exists>m m'. signed_part body = Some m \<and> signed_part body' = Some m' \<and> mac m = mac m'"
  using assms by (auto simp: verify_iff)

end

end
