(* ===== verification/Payments.thy ===== *)
theory Payments
  imports Invoices Payment_Port
begin

text \<open>
  Payments, from \<^verbatim>\<open>src/billing/payments.service.ts\<close>. Money moves in four ways: a QR request
  opens a PENDING payment, the gateway's webhook settles, fails or flags it, an administrator
  confirms cash, and an administrator refunds or disputes a receipt. Each runs one transaction
  that locks the invoice row, so the transactions on an invoice are sequential; what a handler
  read before its transaction may be old by then, so those reads take the table as an argument
  (\<open>view\<close>).
\<close>

section \<open>Order references and the configured account\<close>

definition QR_TTL_MINUTES :: int where "QR_TTL_MINUTES = 30"

definition ORDER_ALPHABET :: string where
  "ORDER_ALPHABET = ''ABCDEFGHJKLMNPQRSTUVWXYZ23456789''"

text \<open>The argument is the eight random bytes.\<close>

definition generateOrderRef :: "nat list \<Rightarrow> string" where
  "generateOrderRef bytes = ''VV'' @ map (\<lambda>b. ORDER_ALPHABET ! (b mod length ORDER_ALPHABET)) bytes"

definition gatewayForProvider :: "string \<Rightarrow> payment_gateway" where
  "gatewayForProvider provider = (if provider = ''payos'' then PAYOS else if provider = ''sepay'' then SEPAY else BANK_TRANSFER)"

text \<open>Truthiness of a property of the stored setting.\<close>

definition truthy :: "json option \<Rightarrow> bool" where
  "truthy v = (case v of None \<Rightarrow> False | Some JNull \<Rightarrow> False | Some (JBool b) \<Rightarrow> b | Some (JNum n) \<Rightarrow> n \<noteq> 0
     | Some (JStr t) \<Rightarrow> t \<noteq> [] | Some _ \<Rightarrow> True)"

definition assertBankAccountConfigured :: "'a db_scheme \<Rightarrow> unit res" where
  "assertBankAccountConfigured s =
     (let account = (case List.find (\<lambda>r. set_key r = ''bank_account'') (appSettings s) of
            None \<Rightarrow> JNull | Some row \<Rightarrow> set_value row) in
      if json_get account ''owner_type'' \<noteq> Some (JStr ''BUSINESS'') \<or> \<not> truthy (json_get account ''bin'')
         \<or> \<not> truthy (json_get account ''number'') \<or> \<not> truthy (json_get account ''name'')
      then Inl (Conflict ''Receiving bank account is not configured'') else Inr ())"

section \<open>QR payments\<close>

definition payable :: "invoice \<Rightarrow> bool" where
  "payable i \<longleftrightarrow> inv_status i = UNPAID \<or> inv_status i = OVERDUE"

definition find_invoice :: "uuid \<Rightarrow> invoice list \<Rightarrow> invoice option" where
  "find_invoice invoiceId t = List.find (\<lambda>i. inv_id i = invoiceId) t"

text \<open>\<^verbatim>\<open>paymentTransaction.create\<close>: the row but its id is given.\<close>

definition create_payment :: "(uuid \<Rightarrow> payment) \<Rightarrow> app \<Rightarrow> app \<times> payment res" where
  "create_payment mk s = (let (pid, s') = fresh_uuid s in
     case insert_row payment_uqs (mk pid) (payments s') of
       Inl e \<Rightarrow> (s', Inl e)
     | Inr t \<Rightarrow> (s'\<lparr>payments := t\<rparr>, Inr (mk pid)))"

definition supersede :: "instant \<Rightarrow> payment \<Rightarrow> payment" where
  "supersede now p = p\<lparr>pay_status := FAILED, pay_note := Some ''Superseded by newer payment request'', pay_expiresAt := Some now\<rparr>"

definition qr_row :: "uuid \<Rightarrow> string \<Rightarrow> payment_gateway \<Rightarrow> int \<Rightarrow> instant \<Rightarrow> instant \<Rightarrow> uuid \<Rightarrow> payment" where
  "qr_row invoiceId orderRef gw amount expiresAt now pid =
     \<lparr> pay_id = pid, pay_invoiceId = invoiceId, pay_orderRef = orderRef, pay_gateway = gw,
       pay_gatewayTxnId = None, pay_amount = amount, pay_status = PENDING, pay_paidAt = None,
       pay_expiresAt = Some expiresAt, pay_recordedBy = None, pay_note = None, pay_createdAt = now \<rparr>"

definition qr_tx :: "gateway_port \<Rightarrow> uuid \<Rightarrow> string \<Rightarrow> int \<Rightarrow> instant \<Rightarrow> instant \<Rightarrow> app \<Rightarrow> app \<times> payment res" where
  "qr_tx gw invoiceId orderRef amount expiresAt now s = (case find_invoice invoiceId (invoices s) of
       None \<Rightarrow> (s, Inl (NotFound ''Not found''))
     | Some current \<Rightarrow>
         if \<not> payable current then (s, Inl (Conflict ''Invoice is not payable''))
         else create_payment (qr_row invoiceId orderRef (gatewayForProvider (gwp_provider gw)) amount expiresAt now)
           (s\<lparr>payments := update_rows (\<lambda>p. pay_invoiceId p = invoiceId \<and> pay_status p = PENDING) (supersede now) (payments s)\<rparr>))"

record qr_view =
  qrv_paymentId :: uuid
  qrv_orderRef :: string
  qrv_amount :: int
  qrv_status :: payment_status
  qrv_expiresAt :: "instant option"
  qrv_checkoutUrl :: string
  qrv_qrCodeDataUrl :: "string option"

definition createQrPayment ::
  "gateway_port \<Rightarrow> invoice list \<Rightarrow> caller \<Rightarrow> uuid \<Rightarrow> nat list \<Rightarrow> instant \<Rightarrow> app \<Rightarrow> app \<times> qr_view res" where
  "createQrPayment gw view caller invoiceId bytes now s = (case find_invoice invoiceId view of
       None \<Rightarrow> (s, Inl (NotFound ''Not found''))
     | Some bill \<Rightarrow>
         (case assertCanAccess s caller (inv_studentId bill) of Inl e \<Rightarrow> (s, Inl e) | Inr _ \<Rightarrow>
          if \<not> payable bill then (s, Inl (Conflict ''Invoice is not payable''))
          else (case assertBankAccountConfigured s of Inl e \<Rightarrow> (s, Inl e) | Inr _ \<Rightarrow>
            let orderRef = generateOrderRef bytes; expiresAt = now + QR_TTL_MINUTES * 60000 in
            (case gwp_createPayment gw \<lparr> gwr_orderRef = orderRef, gwr_amount = inv_total bill,
                    gwr_description = ''Vovinam fee '' @ orderRef, gwr_expiresAt = expiresAt \<rparr> of
               Inl e \<Rightarrow> (s, Inl e)
             | Inr checkout \<Rightarrow>
                 bindE (transaction (qr_tx gw invoiceId orderRef (inv_total bill) expiresAt now)) (\<lambda>txn s'.
                   (record_audit (Some (cal_id caller)) ''payment_created'' None True
                      (Some (''payment:'' @ pay_id txn @ '' invoice:'' @ invoiceId @ '' order_ref:'' @ orderRef)) s',
                    Inr \<lparr> qrv_paymentId = pay_id txn, qrv_orderRef = orderRef, qrv_amount = pay_amount txn,
                          qrv_status = pay_status txn, qrv_expiresAt = pay_expiresAt txn,
                          qrv_checkoutUrl = gwc_checkoutUrl checkout, qrv_qrCodeDataUrl = gwc_qrCodeDataUrl checkout \<rparr>)) s))))"

section \<open>The webhook\<close>

text \<open>
  The answers of the webhook: not processed; processed as FAILED; flagged for reconciliation,
  with the settled total when it is an overpayment; processed as SUCCESS.
\<close>

datatype webhook_result = WhIgnored | WhFailed | WhFlagged | WhOverpaid int | WhSuccess

definition open_receipt :: "payment \<Rightarrow> bool" where
  "open_receipt p \<longleftrightarrow> pay_status p = PENDING \<or> pay_status p = FAILED"

text \<open>
  The conditional update that claims a receipt for a gateway transaction: the row is open and
  carries no transaction id or this one. The id must fit its column and be unique.
\<close>

definition claimable :: "uuid \<Rightarrow> string \<Rightarrow> payment \<Rightarrow> bool" where
  "claimable pid txnId p \<longleftrightarrow> pay_id p = pid \<and> open_receipt p
     \<and> (pay_gatewayTxnId p = None \<or> pay_gatewayTxnId p = Some txnId)"

definition claim_receipt ::
  "uuid \<Rightarrow> string \<Rightarrow> (payment \<Rightarrow> payment) \<Rightarrow> payment list \<Rightarrow> (payment list \<times> nat) res" where
  "claim_receipt pid txnId d t = (let (t', n) = update_many (claimable pid txnId) (\<lambda>p. (d p)\<lparr>pay_gatewayTxnId := Some txnId\<rparr>) t in
     if n > 0 \<and> length txnId > 64 then Inl (OtherError ''value too long for the column'')
     else case check_unique payment_uqs t' of Inl e \<Rightarrow> Inl e | Inr t'' \<Rightarrow> Inr (t'', n))"

definition transition_tx ::
  "payment \<Rightarrow> string \<Rightarrow> payment_status \<Rightarrow> string \<Rightarrow> app \<Rightarrow> app \<times> bool res" where
  "transition_tx txn txnId status note s = (case claim_receipt (pay_id txn) txnId id (payments s) of
       Inl e \<Rightarrow> (s, Inl e)
     | Inr (t, n) \<Rightarrow>
         if n = 0 then (s\<lparr>payments := t\<rparr>, Inr False)
         else (s\<lparr>payments := update_rows (\<lambda>p. pay_id p = pay_id txn)
                 (\<lambda>p. p\<lparr>pay_status := status, pay_gatewayTxnId := Some txnId, pay_note := Some note\<rparr>) t\<rparr>, Inr True))"

definition transitionReceipt ::
  "payment \<Rightarrow> string \<Rightarrow> payment_status \<Rightarrow> string \<Rightarrow> app \<Rightarrow> app \<times> bool res" where
  "transitionReceipt txn txnId status note s = (case transaction (transition_tx txn txnId status note) s of
       (s', Inl e) \<Rightarrow> (s', if is_P2002 e then Inr False else Inl e)
     | (s', Inr b) \<Rightarrow> (s', Inr b))"

definition settled :: "payment list \<Rightarrow> uuid \<Rightarrow> int" where
  "settled t invoiceId = sum_rows (\<lambda>p. pay_invoiceId p = invoiceId \<and> pay_status p = SUCCESS) pay_amount t"

definition set_payment :: "uuid \<Rightarrow> (payment \<Rightarrow> payment) \<Rightarrow> app \<Rightarrow> app" where
  "set_payment pid d s = s\<lparr>payments := update_rows (\<lambda>p. pay_id p = pid) d (payments s)\<rparr>"

definition set_invoice :: "uuid \<Rightarrow> (invoice \<Rightarrow> invoice) \<Rightarrow> app \<Rightarrow> app" where
  "set_invoice iid d s = s\<lparr>invoices := update_rows (\<lambda>i. inv_id i = iid) d (invoices s)\<rparr>"

definition late_note :: string where
  "late_note = ''Transfer received after QR expiration; requires manual reconciliation''"

definition nonpayable_note :: string where
  "nonpayable_note = ''Transfer received for a non-payable invoice; requires manual reconciliation''"

definition overpaid_note :: "int \<Rightarrow> invoice \<Rightarrow> string" where
  "overpaid_note amt bill = ''Overpayment detected: total settled '' @ show_int amt @ '' exceeds invoice total '' @
     show_int (inv_total bill) @ ''; requires manual resolution''"

definition overpaid_invoice_note :: "int \<Rightarrow> invoice \<Rightarrow> string" where
  "overpaid_invoice_note amt bill =
     (let text = ''Overpayment detected: total received '' @ show_int amt @ '' exceeds invoice total '' @ show_int (inv_total bill) in
      take 500 (case inv_note bill of None \<Rightarrow> text | Some n \<Rightarrow> if n = [] then text else n @ ''; '' @ text))"

text \<open>The part of the settlement after the claim succeeded.\<close>

definition settle_claimed :: "payment \<Rightarrow> app \<Rightarrow> app \<times> webhook_result res" where
  "settle_claimed txn s = (case find_invoice (pay_invoiceId txn) (invoices s) of
       None \<Rightarrow> (s, Inl (NotFound ''Not found''))
     | Some bill \<Rightarrow>
         if inv_status bill = CANCELLED \<or> inv_status bill = INV_REFUNDED
         then (set_payment (pay_id txn) (\<lambda>p. p\<lparr>pay_status := DISPUTED, pay_note := Some nonpayable_note\<rparr>) s, Inr WhFlagged)
         else let totalSettled = settled (payments s) (pay_invoiceId txn) in
           if totalSettled > inv_total bill
           then (set_invoice (pay_invoiceId txn) (\<lambda>i. i\<lparr>inv_note := Some (overpaid_invoice_note totalSettled bill)\<rparr>)
                   (set_payment (pay_id txn) (\<lambda>p. p\<lparr>pay_status := DISPUTED, pay_note := Some (overpaid_note totalSettled bill)\<rparr>) s),
                 Inr (WhOverpaid totalSettled))
           else (if totalSettled \<ge> inv_total bill \<and> payable bill
                 then set_invoice (pay_invoiceId txn) (\<lambda>i. i\<lparr>inv_status := PAID\<rparr>) s else s,
                 Inr WhSuccess))"

definition expired_receipt :: "uuid \<Rightarrow> instant \<Rightarrow> payment \<Rightarrow> bool" where
  "expired_receipt pid now p \<longleftrightarrow> pay_id p = pid \<and> open_receipt p
     \<and> (case pay_expiresAt p of None \<Rightarrow> False | Some t \<Rightarrow> t \<le> now)"

definition settle_tx :: "payment \<Rightarrow> string \<Rightarrow> instant \<Rightarrow> app \<Rightarrow> app \<times> webhook_result res" where
  "settle_tx txn txnId now s =
     (if List.find (expired_receipt (pay_id txn) now) (payments s) \<noteq> None
      then (case claim_receipt (pay_id txn) txnId
                  (\<lambda>p. p\<lparr>pay_status := DISPUTED, pay_paidAt := Some now, pay_note := Some late_note\<rparr>) (payments s) of
              Inl e \<Rightarrow> (s, Inl e)
            | Inr (t, n) \<Rightarrow> (s\<lparr>payments := t\<rparr>, Inr (if n > 0 then WhFlagged else WhIgnored)))
      else (case claim_receipt (pay_id txn) txnId
                  (\<lambda>p. p\<lparr>pay_status := SUCCESS, pay_paidAt := Some now\<rparr>) (payments s) of
              Inl e \<Rightarrow> (s, Inl e)
            | Inr (t, n) \<Rightarrow> if n = 0 then (s\<lparr>payments := t\<rparr>, Inr WhIgnored)
                            else settle_claimed txn (s\<lparr>payments := t\<rparr>)))"

definition receipt_detail :: "payment \<Rightarrow> string" where
  "receipt_detail txn = ''payment:'' @ pay_id txn @ '' order_ref:'' @ pay_orderRef txn"

definition show_number :: "json \<Rightarrow> string" where
  "show_number v = (case v of JNum n \<Rightarrow> show_int n | JFrac _ t \<Rightarrow> t | _ \<Rightarrow> [])"

definition settle_audit :: "payment \<Rightarrow> webhook_result \<Rightarrow> app \<Rightarrow> app" where
  "settle_audit txn r s = (case r of
       WhSuccess \<Rightarrow> record_audit None ''payment_succeeded'' None True
         (Some (''payment:'' @ pay_id txn @ '' invoice:'' @ pay_invoiceId txn @ '' amount:'' @ show_int (pay_amount txn))) s
     | WhFlagged \<Rightarrow> record_audit None ''payment_flagged'' None False
         (Some (''payment:'' @ pay_id txn @ '' invoice:'' @ pay_invoiceId txn @ '' reconciliation_required total_settled:0'')) s
     | WhOverpaid n \<Rightarrow> record_audit None ''payment_flagged'' None False
         (Some (''payment:'' @ pay_id txn @ '' invoice:'' @ pay_invoiceId txn @ '' reconciliation_required total_settled:'' @ show_int n)) s
     | _ \<Rightarrow> s)"

text \<open>What the handler does with an event for the receipt it found.\<close>

definition apply_event :: "payment \<Rightarrow> gateway_event \<Rightarrow> instant \<Rightarrow> app \<Rightarrow> app \<times> webhook_result res" where
  "apply_event txn ev now s = (let txnId = gev_gatewayTxnId ev in
     if \<not> gev_success ev
     then bindE (transitionReceipt txn txnId FAILED ''Gateway reported a failed transfer'') (\<lambda>changed s'.
       if \<not> changed then (s', Inr WhIgnored)
       else (record_audit None ''payment_failed'' None True (Some (receipt_detail txn)) s', Inr WhFailed)) s
     else if gev_amount ev \<noteq> JNum (pay_amount txn)
     then bindE (transitionReceipt txn txnId DISPUTED
            (''Amount mismatch: expected '' @ show_int (pay_amount txn) @ '', received '' @ show_number (gev_amount ev))) (\<lambda>changed s'.
       if \<not> changed then (s', Inr WhIgnored)
       else (record_audit None ''payment_flagged'' None False
               (Some (receipt_detail txn @ '' expected:'' @ show_int (pay_amount txn) @ '' received:'' @ show_number (gev_amount ev))) s',
             Inr WhFlagged)) s
     else (case transaction (settle_tx txn txnId now) s of
             (s', Inl e) \<Rightarrow> (s', if is_P2002 e then Inr WhIgnored else Inl e)
           | (s', Inr r) \<Rightarrow> (settle_audit txn r s', Inr r)))"

definition handleWebhook ::
  "gateway_port \<Rightarrow> payment list \<Rightarrow> string \<Rightarrow> headers \<Rightarrow> string \<Rightarrow> instant \<Rightarrow> app \<Rightarrow> app \<times> webhook_result res" where
  "handleWebhook gw view provider hs rawBody now s =
     (if provider \<noteq> gwp_provider gw then (s, Inl (NotFound ''Not found''))
      else if \<not> gwp_verifySignature gw hs rawBody then (s, Inl (Unauthorized ''Invalid signature''))
      else case gwp_parseEvent gw rawBody of
        None \<Rightarrow> (s, Inr WhIgnored)
      | Some ev \<Rightarrow> (case List.find (\<lambda>p. pay_orderRef p = gev_orderRef ev) view of
            None \<Rightarrow> (s, Inr WhIgnored)
          | Some txn \<Rightarrow>
              if pay_status txn = SUCCESS \<or> pay_status txn = DISPUTED \<or> pay_status txn = REFUNDED then (s, Inr WhIgnored)
              else if pay_status txn = FAILED \<and> pay_gatewayTxnId txn = Some (gev_gatewayTxnId ev) then (s, Inr WhIgnored)
              else apply_event txn ev now s))"

section \<open>Administrator operations\<close>

record payment_view =
  pvw_id :: uuid
  pvw_invoiceId :: uuid
  pvw_orderRef :: string
  pvw_gateway :: payment_gateway
  pvw_amount :: int
  pvw_status :: payment_status
  pvw_paidAt :: "instant option"
  pvw_expiresAt :: "instant option"
  pvw_note :: "string option"

definition serializePayment :: "payment \<Rightarrow> payment_view" where
  "serializePayment p = \<lparr> pvw_id = pay_id p, pvw_invoiceId = pay_invoiceId p, pvw_orderRef = pay_orderRef p,
     pvw_gateway = pay_gateway p, pvw_amount = pay_amount p, pvw_status = pay_status p,
     pvw_paidAt = pay_paidAt p, pvw_expiresAt = pay_expiresAt p, pvw_note = pay_note p \<rparr>"

definition cash_row :: "caller \<Rightarrow> uuid \<Rightarrow> string \<Rightarrow> int \<Rightarrow> string option \<Rightarrow> instant \<Rightarrow> uuid \<Rightarrow> payment" where
  "cash_row caller invoiceId orderRef amount note now pid =
     \<lparr> pay_id = pid, pay_invoiceId = invoiceId, pay_orderRef = orderRef, pay_gateway = CASH,
       pay_gatewayTxnId = None, pay_amount = amount, pay_status = SUCCESS, pay_paidAt = Some now,
       pay_expiresAt = None, pay_recordedBy = Some (cal_id caller), pay_note = note, pay_createdAt = now \<rparr>"

definition cash_tx ::
  "caller \<Rightarrow> uuid \<Rightarrow> int \<Rightarrow> string option \<Rightarrow> nat list \<Rightarrow> instant \<Rightarrow> app \<Rightarrow> app \<times> payment res" where
  "cash_tx caller invoiceId amount note bytes now s = (case find_invoice invoiceId (invoices s) of
       None \<Rightarrow> (s, Inl (NotFound ''Not found''))
     | Some current \<Rightarrow>
         let (t, n) = update_many (\<lambda>i. inv_id i = invoiceId \<and> payable i) (\<lambda>i. i\<lparr>inv_status := PAID\<rparr>) (invoices s) in
         if n = 0 then (s\<lparr>invoices := t\<rparr>, Inl (Conflict ''Invoice is already paid or not payable''))
         else create_payment (cash_row caller invoiceId (generateOrderRef bytes) amount note now) (s\<lparr>invoices := t\<rparr>))"

definition confirmCash ::
  "invoice list \<Rightarrow> caller \<Rightarrow> uuid \<Rightarrow> string option \<Rightarrow> nat list \<Rightarrow> instant \<Rightarrow> app \<Rightarrow> app \<times> payment_view res" where
  "confirmCash view caller invoiceId note bytes now s = (case find_invoice invoiceId view of
       None \<Rightarrow> (s, Inl (NotFound ''Not found''))
     | Some bill \<Rightarrow>
         bindE (transaction (cash_tx caller invoiceId (inv_total bill) note bytes now)) (\<lambda>txn s'.
           (record_audit (Some (cal_id caller)) ''payment_confirmed_cash'' None True
              (Some (''payment:'' @ pay_id txn @ '' invoice:'' @ invoiceId @ '' amount:'' @ show_int (pay_amount txn) @
                 '' admin:'' @ cal_id caller)) s',
            Inr (serializePayment txn))) s)"

text \<open>\<^verbatim>\<open>recomputeInvoiceStatus\<close>.\<close>

definition recomputeInvoiceStatus :: "uuid \<Rightarrow> app \<Rightarrow> app" where
  "recomputeInvoiceStatus invoiceId s = (case find_invoice invoiceId (invoices s) of
       None \<Rightarrow> s
     | Some bill \<Rightarrow>
         if inv_status bill \<noteq> UNPAID \<and> inv_status bill \<noteq> PAID \<and> inv_status bill \<noteq> OVERDUE then s
         else let paid = settled (payments s) invoiceId \<ge> inv_total bill in
           if paid \<and> inv_status bill \<noteq> PAID then set_invoice invoiceId (\<lambda>i. i\<lparr>inv_status := PAID\<rparr>) s
           else if \<not> paid \<and> inv_status bill = PAID then set_invoice invoiceId (\<lambda>i. i\<lparr>inv_status := UNPAID\<rparr>) s
           else s)"

text \<open>The two outcomes an administrator may set.\<close>

datatype outcome = OutRefunded | OutDisputed

definition outcome_status :: "outcome \<Rightarrow> payment_status" where
  "outcome_status oc = (case oc of OutRefunded \<Rightarrow> REFUNDED | OutDisputed \<Rightarrow> DISPUTED)"

definition outcome_tx :: "uuid \<Rightarrow> outcome \<Rightarrow> string option \<Rightarrow> app \<Rightarrow> app \<times> payment res" where
  "outcome_tx paymentId oc note s = (case List.find (\<lambda>p. pay_id p = paymentId) (payments s) of
       None \<Rightarrow> (s, Inl (NotFound ''Not found''))
     | Some txn \<Rightarrow>
         if pay_status txn \<noteq> SUCCESS \<and> \<not> (pay_status txn = DISPUTED \<and> oc = OutRefunded)
         then (s, Inl (Conflict ''Only successful payments can be disputed; successful or disputed receipts can be refunded''))
         else let d = (\<lambda>p. p\<lparr>pay_status := outcome_status oc, pay_note := (if note = None then pay_note txn else note)\<rparr>) in
           (recomputeInvoiceStatus (pay_invoiceId txn) (set_payment paymentId d s), Inr (d txn)))"

definition setOutcome ::
  "caller \<Rightarrow> uuid \<Rightarrow> outcome \<Rightarrow> string option \<Rightarrow> app \<Rightarrow> app \<times> payment_view res" where
  "setOutcome caller paymentId oc note s =
     bindE (transaction (outcome_tx paymentId oc note)) (\<lambda>updated s'.
       (record_audit (Some (cal_id caller)) (if oc = OutRefunded then ''payment_refunded'' else ''payment_flagged'') None True
          (Some (take 500 (''payment:'' @ paymentId @ '' admin:'' @ cal_id caller @ '' note:'' @ case_option [] id note))) s',
        Inr (serializePayment updated))) s"

definition listForInvoice :: "caller \<Rightarrow> uuid \<Rightarrow> 'a db_scheme \<Rightarrow> (payment_view list \<times> nat) res" where
  "listForInvoice caller invoiceId s = (case find_invoice invoiceId (invoices s) of
       None \<Rightarrow> Inl (NotFound ''Not found'')
     | Some bill \<Rightarrow> (case assertCanAccess s caller (inv_studentId bill) of
           Inl e \<Rightarrow> Inl e
         | Inr _ \<Rightarrow> let ps = sort_key (\<lambda>p. - pay_createdAt p) (filter (\<lambda>p. pay_invoiceId p = invoiceId) (payments s)) in
             Inr (map serializePayment ps, length ps)))"

end
