(* ===== verification/Settlement.thy ===== *)
theory Settlement
  imports Payments
begin

text \<open>
  What the payment flow guarantees about money. The invariant \<open>money_inv\<close> ties the status of
  an invoice to its successful payments; \<open>money_step\<close> is one step of the billing subsystem: any
  payment operation, whose reads before its transaction may be old, the issuing of invoices and
  the ageing job. The invariant holds in every state that steps reach from an empty database.
\<close>

section \<open>Replacing one row\<close>

lemma split_row:
  assumes "distinct (map f t)" and "p \<in> set t"
  obtains xs ys where "t = xs @ p # ys" "\<forall>q \<in> set xs \<union> set ys. f q \<noteq> f p"
proof -
  obtain xs ys where t: "t = xs @ p # ys" using split_list [OF assms(2)] by blast
  have "\<forall>q \<in> set xs \<union> set ys. f q \<noteq> f p" using assms(1) t by (auto simp: image_iff)
  with t that show ?thesis by blast
qed

lemma update_rows_at:
  assumes "\<forall>q \<in> set xs \<union> set ys. \<not> w q"
  shows "update_rows w d (xs @ p # ys) = xs @ (if w p then d p else p) # ys"
  using assms by (simp add: update_rows_none)

lemma count_rows_at:
  assumes "\<forall>q \<in> set xs \<union> set ys. \<not> w q"
  shows "count_rows w (xs @ p # ys) = (if w p then 1 else 0)"
  using assms by (simp add: count_rows_def)

lemma find_at: "\<forall>q \<in> set xs. \<not> P q \<Longrightarrow> P p \<Longrightarrow> List.find P (xs @ p # ys) = Some p"
  by (induction xs) auto

lemma sum_rows_cong: "(\<And>r. r \<in> set t \<Longrightarrow> w r = w' r) \<Longrightarrow> sum_rows w f t = sum_rows w' f t"
  by (induction t) auto

lemma sum_rows_nonneg: "(\<And>r. r \<in> set t \<Longrightarrow> w r \<Longrightarrow> 0 \<le> f r) \<Longrightarrow> 0 \<le> sum_rows w f t"
  by (induction t) auto

section \<open>The invariant\<close>

text \<open>
  Every payment is for the whole of an existing invoice. The settled amount of an invoice is
  nothing while it is unpaid or overdue, its total when it is paid, and never exceeds it.
\<close>

definition payment_ok :: "invoice list \<Rightarrow> payment \<Rightarrow> bool" where
  "payment_ok bills p \<longleftrightarrow> (\<exists>i \<in> set bills. inv_id i = pay_invoiceId p \<and> inv_total i = pay_amount p)"

definition invoice_ok :: "payment list \<Rightarrow> invoice \<Rightarrow> bool" where
  "invoice_ok ps i \<longleftrightarrow> 0 \<le> inv_total i \<and> 0 \<le> settled ps (inv_id i) \<and> settled ps (inv_id i) \<le> inv_total i
     \<and> (inv_status i = PAID \<longrightarrow> settled ps (inv_id i) = inv_total i)
     \<and> (payable i \<longrightarrow> settled ps (inv_id i) = 0)"

definition money_inv :: "app \<Rightarrow> bool" where
  "money_inv s \<longleftrightarrow> distinct (map inv_id (invoices s))
     \<and> list_all (\<lambda>u. unique_on (snd u) (payments s)) payment_uqs
     \<and> list_all (payment_ok (invoices s)) (payments s) \<and> list_all (invoice_ok (payments s)) (invoices s)"

lemma payment_ids_distinct:
  "list_all (\<lambda>u. unique_on (snd u) t) payment_uqs \<Longrightarrow> distinct (map pay_id t)"
  "list_all (\<lambda>u. unique_on (snd u) t) payment_uqs \<Longrightarrow> unique_on pay_gatewayTxnId t"
  by (simp_all add: payment_uqs_def unique_on_total [OF refl])

lemma money_inv_cong:
  "payments s' = payments s \<Longrightarrow> invoices s' = invoices s \<Longrightarrow> money_inv s' = money_inv s"
  by (simp add: money_inv_def)

lemma money_inv_same_db: "same_db s' s \<Longrightarrow> money_inv s' = money_inv s"
  using same_db_tables [of s' s] by (intro money_inv_cong) auto

text \<open>A payment counts with its amount when it is successful.\<close>

definition worth :: "payment \<Rightarrow> int" where
  "worth p = (if pay_status p = SUCCESS then pay_amount p else 0)"

lemma settled_split:
  "settled (xs @ p # ys) iid = settled xs iid + settled ys iid + (if pay_invoiceId p = iid then worth p else 0)"
  by (simp add: settled_def worth_def)

lemma settled_replace:
  assumes "pay_invoiceId p' = pay_invoiceId p"
  shows "settled (xs @ p' # ys) iid = settled (xs @ p # ys) iid + (if pay_invoiceId p = iid then worth p' - worth p else 0)"
  using assms by (simp add: settled_split)

lemma money_invoice_of:
  assumes "money_inv s" and "p \<in> set (payments s)"
  obtains i where "i \<in> set (invoices s)" "inv_id i = pay_invoiceId p" "inv_total i = pay_amount p"
    "find_invoice (pay_invoiceId p) (invoices s) = Some i" "invoice_ok (payments s) i"
proof -
  obtain i where i: "i \<in> set (invoices s)" "inv_id i = pay_invoiceId p" "inv_total i = pay_amount p"
    using assms by (auto simp: money_inv_def list_all_iff payment_ok_def)
  moreover have "find_invoice (pay_invoiceId p) (invoices s) = Some i"
    unfolding find_invoice_def i(2) [symmetric] by (rule find_key) (use assms(1) i(1) in \<open>simp_all add: money_inv_def\<close>)
  moreover have "invoice_ok (payments s) i" using assms(1) i(1) by (simp add: money_inv_def list_all_iff)
  ultimately show ?thesis using that by blast
qed

text \<open>
  The one lemma behind every transition: one payment row is replaced, the status (or note) of
  its invoice is replaced, and the two are consistent with each other afterwards.
\<close>

lemma money_replace:
  assumes inv: "money_inv s" and ps: "payments s = xs @ p # ys" and bs: "invoices s = as @ i # bs"
    and p': "pay_id p' = pay_id p" "pay_invoiceId p' = pay_invoiceId p" "pay_amount p' = pay_amount p"
    and i: "inv_id i = pay_invoiceId p" and i': "inv_id i' = inv_id i" "inv_total i' = inv_total i"
    and uq: "list_all (\<lambda>u. unique_on (snd u) (xs @ p' # ys)) payment_uqs"
    and ok: "invoice_ok (xs @ p' # ys) i'"
    and s': "payments s' = xs @ p' # ys" "invoices s' = as @ i' # bs"
  shows "money_inv s'"
proof -
  have ids: "map inv_id (as @ i' # bs) = map inv_id (invoices s)" using bs i'(1) by simp
  then have d: "distinct (map inv_id (as @ i' # bs))" using inv by (simp add: money_inv_def)
  have pok: "list_all (payment_ok (as @ i' # bs)) (xs @ p' # ys)"
    using inv p'(2,3) i' unfolding money_inv_def ps bs list_all_iff payment_ok_def by auto
  have "invoice_ok (xs @ p' # ys) j" if "j \<in> set as \<union> set bs" for j
  proof -
    have "inv_id j \<noteq> pay_invoiceId p" using d that i i'(1) by (auto simp: image_iff)
    then have "settled (xs @ p' # ys) (inv_id j) = settled (payments s) (inv_id j)"
      using p'(2) by (simp add: ps settled_split)
    moreover have "invoice_ok (payments s) j" using inv that by (auto simp: money_inv_def bs list_all_iff)
    ultimately show ?thesis by (simp add: invoice_ok_def)
  qed
  then have "list_all (invoice_ok (xs @ p' # ys)) (as @ i' # bs)" using ok by (auto simp: list_all_iff)
  with d pok uq show ?thesis by (simp add: money_inv_def s')
qed

text \<open>Amounts of all payments are not negative, so a settled amount is not either.\<close>

lemma money_amount_nonneg: "money_inv s \<Longrightarrow> p \<in> set (payments s) \<Longrightarrow> 0 \<le> pay_amount p"
  by (erule (1) money_invoice_of) (simp add: invoice_ok_def)

section \<open>Transitions of one receipt\<close>

lemma payment_uqs_cong:
  assumes "list_all (\<lambda>u. unique_on (snd u) (xs @ p # ys)) payment_uqs"
    and "pay_id p' = pay_id p" "pay_orderRef p' = pay_orderRef p" "pay_gatewayTxnId p' = pay_gatewayTxnId p"
  shows "list_all (\<lambda>u. unique_on (snd u) (xs @ p' # ys)) payment_uqs"
proof -
  have "map (snd u) (xs @ p' # ys) = map (snd u) (xs @ p # ys)" if "u \<in> set payment_uqs" for u
    using that assms(2-4) by (auto simp: payment_uqs_def)
  then have "unique_on (snd u) (xs @ p' # ys)" if "u \<in> set payment_uqs" for u
    using that assms(1) unique_on_keys [of "snd u" "xs @ p' # ys" "xs @ p # ys"] by (simp add: list_all_iff)
  then show ?thesis by (simp add: list_all_iff)
qed

lemma claim_receipt_cases:
  assumes "claim_receipt pid txnId d t = Inr (t', n)" and "distinct (map pay_id t)"
  obtains (none) "n = 0" "t' = t"
  | (one) xs p ys where "n = 1" "t = xs @ p # ys" "\<forall>q \<in> set xs \<union> set ys. pay_id q \<noteq> pay_id p"
      "claimable pid txnId p" "t' = xs @ (d p)\<lparr>pay_gatewayTxnId := Some txnId\<rparr> # ys"
      "list_all (\<lambda>u. unique_on (snd u) t') payment_uqs"
proof -
  let ?w = "claimable pid txnId" and ?d = "\<lambda>p. (d p)\<lparr>pay_gatewayTxnId := Some txnId\<rparr>"
  have t': "check_unique payment_uqs (update_rows ?w ?d t) = Inr t'" and n: "n = count_rows ?w t"
    using assms(1) by (auto simp: claim_receipt_def update_many_pair split: if_splits sum.splits)
  note u = check_unique_Inr [OF t']
  show ?thesis
  proof (cases "\<exists>p \<in> set t. ?w p")
    case False
    then show ?thesis using none n u by (auto simp: update_rows_none)
  next
    case True
    then obtain p where p: "p \<in> set t" "?w p" by blast
    obtain xs ys where xs: "t = xs @ p # ys" "\<forall>q \<in> set xs \<union> set ys. pay_id q \<noteq> pay_id p"
      using split_row [OF assms(2) p(1)] by blast
    then have w: "\<forall>q \<in> set xs \<union> set ys. \<not> ?w q" using p(2) by (auto simp: claimable_def)
    have "t' = xs @ ?d p # ys" using u update_rows_at [OF w, of ?d p] p(2) xs(1) by simp
    moreover have "n = 1" using n count_rows_at [OF w, of p] p(2) xs(1) by simp
    ultimately show ?thesis using one [of xs p ys] xs p(2) u by (simp add: list_all_iff)
  qed
qed

lemma claimable_open: "claimable pid txnId p \<Longrightarrow> worth p = 0"
  by (auto simp: claimable_def open_receipt_def worth_def)

lemma money_ids: "money_inv s \<Longrightarrow> distinct (map pay_id (payments s))"
  by (simp add: money_inv_def payment_ids_distinct)

text \<open>Failing or flagging an open receipt never moves money.\<close>

lemma transition_tx_Inr:
  assumes "transition_tx txn txnId status note s = (s', Inr b)" and "money_inv s" and "status \<noteq> SUCCESS"
  shows "money_inv s' \<and> invoices s' = invoices s \<and> (\<forall>iid. settled (payments s') iid = settled (payments s) iid)"
proof -
  obtain t n where c: "claim_receipt (pay_id txn) txnId id (payments s) = Inr (t, n)"
    using assms(1) by (auto simp: transition_tx_def split: sum.splits prod.splits)
  from c money_ids [OF assms(2)] show ?thesis
  proof (cases rule: claim_receipt_cases)
    case none
    then have "s' = s" using assms(1) c by (simp add: transition_tx_def)
    then show ?thesis using assms(2) by simp
  next
    case (one xs p ys)
    let ?p = "p\<lparr>pay_gatewayTxnId := Some txnId\<rparr>"
    let ?q = "p\<lparr>pay_gatewayTxnId := Some txnId, pay_status := status, pay_note := Some note\<rparr>"
    have id: "pay_id p = pay_id txn" using one(4) by (simp add: claimable_def)
    have w: "\<forall>q \<in> set xs \<union> set ys. pay_id q \<noteq> pay_id txn" using one(3) id by simp
    have s': "s' = s\<lparr>payments := xs @ ?q # ys\<rparr>"
      using assms(1) c one(1,5) update_rows_at [OF w, of _ ?p] id by (auto simp: transition_tx_def)
    have wq: "worth ?q = 0" "worth p = 0" using assms(3) claimable_open [OF one(4)] by (simp_all add: worth_def)
    have same: "settled (xs @ ?q # ys) iid = settled (payments s) iid" for iid
      using settled_replace [of ?q p xs ys iid] one(2) wq by simp
    have "p \<in> set (payments s)" using one(2) by simp
    with assms(2) obtain i where i: "i \<in> set (invoices s)" "inv_id i = pay_invoiceId p" "invoice_ok (payments s) i"
      by (rule money_invoice_of)
    obtain as bs where bills: "invoices s = as @ i # bs" using split_list [OF i(1)] by blast
    have "list_all (\<lambda>u. unique_on (snd u) (xs @ ?q # ys)) payment_uqs"
      using one(6) unfolding one(5) by (rule payment_uqs_cong) simp_all
    moreover have "invoice_ok (xs @ ?q # ys) i" using i(3) by (simp add: invoice_ok_def same)
    ultimately have "money_inv s'"
      by (intro money_replace [OF assms(2) one(2) bills, of ?q i]) (use i(2) bills s' in simp_all)
    then show ?thesis using s' same by simp
  qed
qed

lemma transitionReceipt_money:
  assumes "transitionReceipt txn txnId status note s = (s', r)" and "money_inv s" and "status \<noteq> SUCCESS"
  shows "money_inv s' \<and> invoices s' = invoices s \<and> (\<forall>iid. settled (payments s') iid = settled (payments s) iid)"
proof -
  obtain s1 r1 where t: "transaction (transition_tx txn txnId status note) s = (s1, r1)" by (meson prod.exhaust)
  have "s' = s1" using assms(1) t by (auto simp: transitionReceipt_def split: sum.splits)
  show ?thesis
  proof (cases r1)
    case (Inl e)
    then have "same_db s1 s" using t transaction_Inl by blast
    from same_db_tables [OF this] money_inv_same_db [OF this] show ?thesis using assms(2) \<open>s' = s1\<close> by simp
  next
    case (Inr b)
    then show ?thesis using t transition_tx_Inr [OF _ assms(2,3)] \<open>s' = s1\<close> by (simp add: transaction_Inr)
  qed
qed

section \<open>Settlement\<close>

lemma set_payment_at:
  assumes "payments s = xs @ p # ys" and "\<forall>q \<in> set xs \<union> set ys. pay_id q \<noteq> pay_id p"
  shows "payments (set_payment (pay_id p) d s) = xs @ d p # ys" "invoices (set_payment pid d s) = invoices s"
  using assms update_rows_at [of xs ys "\<lambda>q. pay_id q = pay_id p" d p] by (simp_all add: set_payment_def)

lemma set_invoice_at:
  assumes "invoices s = as @ i # bs" and "\<forall>q \<in> set as \<union> set bs. inv_id q \<noteq> inv_id i"
  shows "invoices (set_invoice (inv_id i) d s) = as @ d i # bs" "payments (set_invoice iid d s) = payments s"
  using assms update_rows_at [of as bs "\<lambda>q. inv_id q = inv_id i" d i] by (simp_all add: set_invoice_def)

text \<open>The claim made one open receipt of the transaction successful; what follows restores the invariant.\<close>

lemma settle_claimed_money:
  assumes inv: "money_inv s" and ps: "payments s = xs @ p # ys" "\<forall>q \<in> set xs \<union> set ys. pay_id q \<noteq> pay_id p"
    and txn: "pay_id p = pay_id txn" "pay_invoiceId p = pay_invoiceId txn"
    and claim: "claimable (pay_id txn) txnId p"
    and p1: "p1 = p\<lparr>pay_status := SUCCESS, pay_paidAt := Some now, pay_gatewayTxnId := Some txnId\<rparr>"
    and uq: "list_all (\<lambda>u. unique_on (snd u) (xs @ p1 # ys)) payment_uqs"
    and run: "settle_claimed txn (s\<lparr>payments := xs @ p1 # ys\<rparr>) = (s', Inr r)"
  shows "money_inv s'"
proof -
  let ?s1 = "s\<lparr>payments := xs @ p1 # ys\<rparr>"
  obtain i where i: "i \<in> set (invoices s)" "inv_id i = pay_invoiceId p" "inv_total i = pay_amount p"
      "find_invoice (pay_invoiceId p) (invoices s) = Some i" "invoice_ok (payments s) i"
    using inv ps(1) by (elim money_invoice_of) auto
  have di: "distinct (map inv_id (invoices s))" using inv by (simp add: money_inv_def)
  obtain as bs where bills: "invoices s = as @ i # bs" "\<forall>q \<in> set as \<union> set bs. inv_id q \<noteq> inv_id i"
    using split_row [OF di i(1)] by blast
  have p1id: "pay_id p1 = pay_id txn" "pay_invoiceId p1 = pay_invoiceId p" "pay_amount p1 = pay_amount p"
    "pay_id p1 = pay_id p" "pay_orderRef p1 = pay_orderRef p"
    using txn by (simp_all add: p1)
  have w1: "worth p1 = pay_amount p" "worth p = 0" using claimable_open [OF claim] by (simp_all add: worth_def p1)
  have set1: "settled (xs @ p1 # ys) (inv_id i) = settled (payments s) (inv_id i) + inv_total i"
    using settled_replace [of p1 p xs ys "inv_id i"] i(2,3) w1 p1id ps(1) by simp
  have fin: "find_invoice (pay_invoiceId txn) (invoices s) = Some i" using i(4) txn by simp
  have restore: "money_inv s'" if "payments s' = xs @ q # ys" "invoices s' = as @ j # bs"
    "pay_id q = pay_id p" "pay_invoiceId q = pay_invoiceId p" "pay_amount q = pay_amount p" "pay_orderRef q = pay_orderRef p"
    "pay_gatewayTxnId q = Some txnId" "inv_id j = inv_id i" "inv_total j = inv_total i" "invoice_ok (xs @ q # ys) j" for q j
  proof (rule money_replace [OF inv ps(1) bills(1), of q j])
    show "list_all (\<lambda>u. unique_on (snd u) (xs @ q # ys)) payment_uqs"
      using uq by (rule payment_uqs_cong) (use that(3,6,7) p1id in \<open>simp_all add: p1\<close>)
  qed (use that i(2) in simp_all)
  have undo: "settled (xs @ q # ys) (inv_id i) = settled (payments s) (inv_id i)"
    if "pay_invoiceId q = pay_invoiceId p" "pay_status q \<noteq> SUCCESS" for q
    using settled_replace [of q p xs ys "inv_id i"] that w1(2) ps(1) by (simp add: worth_def)
  have sp: "payments (set_payment (pay_id txn) d ?s1) = xs @ d p1 # ys" "invoices (set_payment (pay_id txn) d ?s1) = as @ i # bs" for d
    using set_payment_at [of ?s1 xs p1 ys, where d = d] ps(2) p1id bills(1) by simp_all
  have si: "invoices (set_invoice (pay_invoiceId txn) d t) = as @ d i # bs" "payments (set_invoice (pay_invoiceId txn) d t) = payments t"
    if "invoices t = as @ i # bs" for d t
    using set_invoice_at [OF that bills(2), where d = d] i(2) txn(2) by simp_all
  show ?thesis
  proof (cases "inv_status i = CANCELLED \<or> inv_status i = INV_REFUNDED")
    case True
    let ?q = "p1\<lparr>pay_status := DISPUTED, pay_note := Some nonpayable_note\<rparr>"
    have "s' = set_payment (pay_id txn) (\<lambda>p. p\<lparr>pay_status := DISPUTED, pay_note := Some nonpayable_note\<rparr>) ?s1"
      using run True by (simp add: settle_claimed_def fin)
    then show ?thesis
      by (intro restore [of ?q i]) (use sp i(5) undo [of ?q] in \<open>simp_all add: invoice_ok_def p1\<close>)
  next
    case False
    show ?thesis
    proof (cases "settled (xs @ p1 # ys) (pay_invoiceId txn) > inv_total i")
      case True
      let ?n = "settled (xs @ p1 # ys) (pay_invoiceId txn)"
      let ?q = "p1\<lparr>pay_status := DISPUTED, pay_note := Some (overpaid_note ?n i)\<rparr>"
      let ?j = "i\<lparr>inv_note := Some (overpaid_invoice_note ?n i)\<rparr>"
      have "s' = set_invoice (pay_invoiceId txn) (\<lambda>i'. i'\<lparr>inv_note := Some (overpaid_invoice_note ?n i)\<rparr>)
          (set_payment (pay_id txn) (\<lambda>p. p\<lparr>pay_status := DISPUTED, pay_note := Some (overpaid_note ?n i)\<rparr>) ?s1)"
        using run False True by (simp add: settle_claimed_def fin Let_def)
      then show ?thesis
        by (intro restore [of ?q ?j]) (use sp si i(5) undo [of ?q] in \<open>simp_all add: invoice_ok_def payable_def p1\<close>)
    next
      case le: False
      have n: "settled (xs @ p1 # ys) (pay_invoiceId txn) = settled (payments s) (inv_id i) + inv_total i"
        using set1 i(2) txn(2) by simp
      have s': "s' = (if payable i then set_invoice (pay_invoiceId txn) (\<lambda>i. i\<lparr>inv_status := PAID\<rparr>) ?s1 else ?s1)"
        using run False le n i(5) by (auto simp: settle_claimed_def fin invoice_ok_def Let_def)
      show ?thesis
      proof (cases "payable i")
        case True
        then show ?thesis using s' i(5) set1
          by (intro restore [of p1 "i\<lparr>inv_status := PAID\<rparr>"]) (use si bills p1id in \<open>simp_all add: invoice_ok_def payable_def p1\<close>)
      next
        case np: False
        then show ?thesis using s' i(5) set1 le n
          by (intro restore [of p1 i]) (use bills p1id in \<open>simp_all add: invoice_ok_def p1\<close>)
      qed
    qed
  qed
qed

text \<open>
  A row that was read earlier: identifiers, order reference, invoice and amount of a payment
  and the total of an invoice never change afterwards, and no row is deleted.
\<close>

definition payment_version :: "payment list \<Rightarrow> payment \<Rightarrow> bool" where
  "payment_version t p \<longleftrightarrow> (\<exists>q \<in> set t. pay_id q = pay_id p \<and> pay_invoiceId q = pay_invoiceId p
     \<and> pay_amount q = pay_amount p \<and> pay_orderRef q = pay_orderRef p)"

definition invoice_version :: "invoice list \<Rightarrow> invoice \<Rightarrow> bool" where
  "invoice_version t i \<longleftrightarrow> (\<exists>j \<in> set t. inv_id j = inv_id i \<and> inv_total j = inv_total i)"

lemma settle_tx_money:
  assumes "settle_tx txn txnId now s = (s', Inr r)" and inv: "money_inv s" and ver: "payment_version (payments s) txn"
  shows "money_inv s'"
proof (cases "List.find (expired_receipt (pay_id txn) now) (payments s) = None")
  case False
  let ?d = "\<lambda>p. p\<lparr>pay_status := DISPUTED, pay_paidAt := Some now, pay_note := Some late_note\<rparr>"
  obtain t n where c: "claim_receipt (pay_id txn) txnId ?d (payments s) = Inr (t, n)" "s' = s\<lparr>payments := t\<rparr>"
    using assms(1) False by (auto simp: settle_tx_def split: sum.splits prod.splits)
  from c(1) money_ids [OF inv] show ?thesis
  proof (cases rule: claim_receipt_cases)
    case none
    then show ?thesis using inv c(2) by simp
  next
    case (one xs p ys)
    let ?q = "(?d p)\<lparr>pay_gatewayTxnId := Some txnId\<rparr>"
    obtain i where i: "i \<in> set (invoices s)" "inv_id i = pay_invoiceId p" "invoice_ok (payments s) i"
      using inv one(2) by (elim money_invoice_of) auto
    obtain as bs where bills: "invoices s = as @ i # bs" using split_list [OF i(1)] by blast
    have "settled (xs @ ?q # ys) (inv_id i) = settled (payments s) (inv_id i)"
      using settled_replace [of ?q p xs ys "inv_id i"] claimable_open [OF one(4)] one(2) by (simp add: worth_def)
    then have "invoice_ok (xs @ ?q # ys) i" using i(3) by (simp add: invoice_ok_def)
    then show ?thesis
      by (intro money_replace [OF inv one(2) bills, of ?q i]) (use i(2) one(5,6) bills c(2) in simp_all)
  qed
next
  case True
  let ?d = "\<lambda>p. p\<lparr>pay_status := SUCCESS, pay_paidAt := Some now\<rparr>"
  obtain t n where c: "claim_receipt (pay_id txn) txnId ?d (payments s) = Inr (t, n)"
    and go: "(if n = 0 then (s\<lparr>payments := t\<rparr>, Inr WhIgnored) else settle_claimed txn (s\<lparr>payments := t\<rparr>)) = (s', Inr r)"
    using assms(1) True by (auto simp: settle_tx_def split: sum.splits prod.splits)
  from c money_ids [OF inv] show ?thesis
  proof (cases rule: claim_receipt_cases)
    case none
    then show ?thesis using inv go by simp
  next
    case (one xs p ys)
    obtain q where q: "q \<in> set (payments s)" "pay_id q = pay_id txn" "pay_invoiceId q = pay_invoiceId txn"
      using ver by (auto simp: payment_version_def)
    have "pay_id p = pay_id txn" using one(4) by (simp add: claimable_def)
    then have "p = q" using q one(2,3) by auto
    then show ?thesis
      using q one(1,4,5,6) go
      by (intro settle_claimed_money [OF inv one(2,3) _ _ one(4) refl, of now s' r]) simp_all
  qed
qed

lemma record_audit_money [simp]: "money_inv (record_audit u e ip ok d s) = money_inv s"
  by (rule money_inv_cong) simp_all

lemma settle_audit_money [simp]: "money_inv (settle_audit txn r s) = money_inv s"
  by (cases r) (simp_all add: settle_audit_def)

lemma apply_event_money:
  assumes "money_inv s" and "payment_version (payments s) txn"
  shows "money_inv (fst (apply_event txn ev now s))"
proof (cases "gev_success ev \<and> gev_amount ev = JNum (pay_amount txn)")
  case False
  have tr: "money_inv s'" if "transitionReceipt txn t st n s = (s', r)" "st \<noteq> SUCCESS" for t st n s' r
    using transitionReceipt_money [OF that(1) assms(1) that(2)] by simp
  show ?thesis
    using False by (auto simp: apply_event_def bindE_def Let_def split: prod.splits sum.splits dest: tr)
next
  case True
  obtain s1 r1 where t: "transaction (settle_tx txn (gev_gatewayTxnId ev) now) s = (s1, r1)" by (meson prod.exhaust)
  have "money_inv s1"
  proof (cases r1)
    case (Inl e)
    then show ?thesis using t transaction_Inl money_inv_same_db assms(1) by blast
  next
    case (Inr r)
    then show ?thesis using t settle_tx_money [OF _ assms] by (simp add: transaction_Inr)
  qed
  then show ?thesis using t True by (auto simp: apply_event_def Let_def split: sum.splits)
qed

lemma handleWebhook_cases:
  assumes "handleWebhook gw view provider hs body now s = (s', r)"
  shows "s' = s \<and> r \<in> {Inl (NotFound ''Not found''), Inl (Unauthorized ''Invalid signature''), Inr WhIgnored}
    \<or> (\<exists>ev txn. gwp_verifySignature gw hs body \<and> gwp_parseEvent gw body = Some ev
        \<and> txn \<in> set view \<and> pay_orderRef txn = gev_orderRef ev \<and> apply_event txn ev now s = (s', r))"
  using assms
  by (auto simp: handleWebhook_def split: if_splits option.splits dest!: find_Some_iff)

lemma handleWebhook_money:
  assumes "money_inv s" and "\<forall>p \<in> set view. payment_version (payments s) p"
  shows "money_inv (fst (handleWebhook gw view provider hs body now s))"
proof (cases "handleWebhook gw view provider hs body now s")
  case (Pair s' r)
  from handleWebhook_cases [OF this] show ?thesis
  proof
    assume "s' = s \<and> r \<in> {Inl (NotFound ''Not found''), Inl (Unauthorized ''Invalid signature''), Inr WhIgnored}"
    then show ?thesis using assms(1) Pair by simp
  next
    assume "\<exists>ev txn. gwp_verifySignature gw hs body \<and> gwp_parseEvent gw body = Some ev
        \<and> txn \<in> set view \<and> pay_orderRef txn = gev_orderRef ev \<and> apply_event txn ev now s = (s', r)"
    then obtain ev txn where e: "txn \<in> set view" "apply_event txn ev now s = (s', r)" by blast
    then show ?thesis using apply_event_money [OF assms(1), of txn ev now] assms(2) Pair by simp
  qed
qed

section \<open>New payments and administrator operations\<close>

lemma settled_worth: "settled t iid = sum_list (map (\<lambda>p. if pay_invoiceId p = iid then worth p else 0) t)"
  by (induction t) (simp_all add: settled_def worth_def)

lemma settled_snoc: "settled (t @ [p]) iid = settled t iid + (if pay_invoiceId p = iid then worth p else 0)"
  by (simp add: settled_worth)

lemma money_map:
  assumes inv: "money_inv s" and s': "payments s' = map f (payments s)" "invoices s' = invoices s"
    and f: "\<And>p. pay_id (f p) = pay_id p \<and> pay_orderRef (f p) = pay_orderRef p \<and> pay_gatewayTxnId (f p) = pay_gatewayTxnId p
      \<and> pay_invoiceId (f p) = pay_invoiceId p \<and> pay_amount (f p) = pay_amount p \<and> worth (f p) = worth p"
  shows "money_inv s'"
proof -
  have u: "unique_on (snd u) (payments s')" if "u \<in> set payment_uqs" for u
  proof -
    have "map (snd u) (payments s') = map (snd u) (payments s)" using that f by (auto simp: payment_uqs_def s'(1))
    then show ?thesis using inv that unique_on_keys by (fastforce simp: money_inv_def list_all_iff)
  qed
  have "settled (payments s') iid = settled (payments s) iid" for iid
    by (simp add: settled_worth s'(1) comp_def f cong: if_cong)
  then have "invoice_ok (payments s') = invoice_ok (payments s)" by (simp add: invoice_ok_def fun_eq_iff)
  then show ?thesis using inv u f by (auto simp: money_inv_def list_all_iff s' payment_ok_def)
qed

lemma money_append:
  assumes inv: "money_inv s" and bills: "invoices s = as @ i # bs"
    and p: "pay_invoiceId p = inv_id i" "pay_amount p = inv_total i"
    and i': "inv_id i' = inv_id i" "inv_total i' = inv_total i"
    and uq: "list_all (\<lambda>u. unique_on (snd u) (payments s @ [p])) payment_uqs"
    and ok: "invoice_ok (payments s @ [p]) i'"
    and s': "payments s' = payments s @ [p]" "invoices s' = as @ i' # bs"
  shows "money_inv s'"
proof -
  have ids: "map inv_id (as @ i' # bs) = map inv_id (invoices s)" using bills i'(1) by simp
  then have d: "distinct (map inv_id (as @ i' # bs))" using inv by (simp add: money_inv_def)
  have "list_all (payment_ok (as @ i' # bs)) (payments s @ [p])"
    using inv p i' unfolding money_inv_def bills list_all_iff payment_ok_def by auto
  moreover have "invoice_ok (payments s @ [p]) j" if "j \<in> set as \<union> set bs" for j
  proof -
    have "inv_id j \<noteq> pay_invoiceId p" using d that p(1) i'(1) by (auto simp: image_iff)
    then have "settled (payments s @ [p]) (inv_id j) = settled (payments s) (inv_id j)" by (simp add: settled_worth)
    moreover have "invoice_ok (payments s) j" using inv that by (auto simp: money_inv_def bills list_all_iff)
    ultimately show ?thesis by (simp add: invoice_ok_def)
  qed
  ultimately show ?thesis using d uq ok by (auto simp: money_inv_def s' list_all_iff)
qed

lemma create_payment_Inr:
  assumes "create_payment mk s = (s', Inr p)"
  shows "\<exists>pid. p = mk pid \<and> payments s' = payments s @ [p] \<and> invoices s' = invoices s
    \<and> list_all (\<lambda>u. unique_on (snd u) (payments s @ [p])) payment_uqs"
proof -
  let ?pid = "uuid_src s (uuid_ctr s)"
  obtain t where t: "insert_row payment_uqs (mk ?pid) (payments s) = Inr t" "p = mk ?pid"
      "s' = s\<lparr>uuid_ctr := Suc (uuid_ctr s), payments := t\<rparr>"
    using assms by (auto simp: create_payment_def fresh_uuid_def split: sum.splits)
  with check_unique_Inr [OF t(1) [unfolded insert_row_def]] show ?thesis by (auto simp: list_all_iff)
qed

lemma find_invoice_split:
  assumes "distinct (map inv_id t)" and "find_invoice iid t = Some i"
  obtains as bs where "t = as @ i # bs" "\<forall>q \<in> set as \<union> set bs. inv_id q \<noteq> inv_id i" "inv_id i = iid" "i \<in> set t"
proof -
  have "i \<in> set t" "inv_id i = iid" using find_Some_iff [OF assms(2) [unfolded find_invoice_def]] by simp_all
  with split_row [OF assms(1), of i] that show ?thesis by blast
qed

lemma qr_tx_money:
  assumes "qr_tx gw iid ref (inv_total bill) expiresAt now s = (s', Inr p)" and inv: "money_inv s"
    and ver: "invoice_version (invoices s) bill" and id: "inv_id bill = iid"
  shows "money_inv s'"
proof -
  let ?s1 = "s\<lparr>payments := update_rows (\<lambda>p. pay_invoiceId p = iid \<and> pay_status p = PENDING) (supersede now) (payments s)\<rparr>"
  obtain i where i: "find_invoice iid (invoices s) = Some i"
    and run: "create_payment (qr_row iid ref (gatewayForProvider (gwp_provider gw)) (inv_total bill) expiresAt now) ?s1 = (s', Inr p)"
    using assms(1) by (auto simp: qr_tx_def split: option.splits if_splits)
  have d: "distinct (map inv_id (invoices s))" using inv by (simp add: money_inv_def)
  obtain as bs where a: "invoices s = as @ i # bs" "inv_id i = iid" "i \<in> set (invoices s)"
    using find_invoice_split [OF d i] by blast
  have "inv_total i = inv_total bill"
    using ver id a(2,3) d unfolding invoice_version_def by (metis distinct_map inj_on_def)
  have inv1: "money_inv ?s1"
    by (rule money_map [OF inv, where f = "\<lambda>p. if pay_invoiceId p = iid \<and> pay_status p = PENDING then supersede now p else p"])
      (simp_all add: update_rows_eq supersede_def worth_def)
  obtain pid where p: "p = qr_row iid ref (gatewayForProvider (gwp_provider gw)) (inv_total bill) expiresAt now pid"
      "payments s' = payments ?s1 @ [p]" "invoices s' = invoices ?s1"
      "list_all (\<lambda>u. unique_on (snd u) (payments ?s1 @ [p])) payment_uqs"
    using create_payment_Inr [OF run] by blast
  have "invoice_ok (payments ?s1) i" using inv1 a(1) by (simp add: money_inv_def)
  moreover have "worth p = 0" by (simp add: p(1) qr_row_def worth_def)
  ultimately have "invoice_ok (payments ?s1 @ [p]) i" by (simp add: invoice_ok_def settled_worth)
  then show ?thesis
    by (intro money_append [OF inv1, of as i bs p i])
      (use a p(2-4) \<open>inv_total i = inv_total bill\<close> in \<open>simp_all add: p(1) qr_row_def\<close>)
qed

lemma cash_tx_money:
  assumes "cash_tx caller iid (inv_total bill) note bytes now s = (s', Inr p)" and inv: "money_inv s"
    and ver: "invoice_version (invoices s) bill" and id: "inv_id bill = iid"
  shows "money_inv s' \<and> settled (payments s) iid = 0 \<and> settled (payments s') iid = inv_total bill"
proof -
  obtain i where i: "find_invoice iid (invoices s) = Some i"
    using assms(1) by (auto simp: cash_tx_def split: option.splits)
  have d: "distinct (map inv_id (invoices s))" using inv by (simp add: money_inv_def)
  obtain as bs where a: "invoices s = as @ i # bs" "\<forall>q \<in> set as \<union> set bs. inv_id q \<noteq> inv_id i" "inv_id i = iid" "i \<in> set (invoices s)"
    using find_invoice_split [OF d i] by blast
  let ?w = "\<lambda>i. inv_id i = iid \<and> payable i" and ?d = "\<lambda>i. i\<lparr>inv_status := PAID\<rparr>"
  have w: "\<forall>q \<in> set as \<union> set bs. \<not> ?w q" using a(2,3) by auto
  have pay: "payable i"
    using assms(1) i count_rows_at [OF w, of i] a(1) by (auto simp: cash_tx_def update_many_pair split: if_splits)
  let ?s1 = "s\<lparr>invoices := as @ ?d i # bs\<rparr>"
  have run: "create_payment (cash_row caller iid (generateOrderRef bytes) (inv_total bill) note now) ?s1 = (s', Inr p)"
    using assms(1) i count_rows_at [OF w, of i] update_rows_at [OF w, of ?d i] a(1,3) pay
    by (simp add: cash_tx_def update_many_pair)
  obtain pid where p: "p = cash_row caller iid (generateOrderRef bytes) (inv_total bill) note now pid"
      "payments s' = payments s @ [p]" "invoices s' = as @ ?d i # bs"
      "list_all (\<lambda>u. unique_on (snd u) (payments s @ [p])) payment_uqs"
    using create_payment_Inr [OF run] by auto
  have tot: "inv_total i = inv_total bill"
    using ver id a(3,4) d unfolding invoice_version_def by (metis distinct_map inj_on_def)
  have "worth p = inv_total i" "pay_invoiceId p = iid" by (simp_all add: p(1) cash_row_def worth_def tot)
  moreover have iok: "invoice_ok (payments s) i" using inv a(4) by (simp add: money_inv_def list_all_iff)
  moreover have z: "settled (payments s) iid = 0" using iok pay a(3) by (simp add: invoice_ok_def)
  ultimately have ok: "invoice_ok (payments s @ [p]) (?d i)" and st: "settled (payments s @ [p]) iid = inv_total i"
    using a(3) by (simp_all add: invoice_ok_def settled_snoc payable_def)
  have "money_inv s'"
    by (intro money_append [OF inv a(1), of p "?d i"]) (use a ok p(2-4) tot in \<open>simp_all add: p(1) cash_row_def\<close>)
  then show ?thesis using st z tot p(2) by simp
qed

lemma settled_nonneg:
  assumes "\<forall>p \<in> set t. 0 \<le> pay_amount p"
  shows "0 \<le> settled t iid"
  unfolding settled_def by (rule sum_rows_nonneg) (use assms in auto)

text \<open>Re-deriving the status of an invoice whose settled amount is nothing or everything.\<close>

lemma recompute_ok:
  assumes bills: "invoices s = as @ i # bs" "\<forall>q \<in> set as \<union> set bs. inv_id q \<noteq> inv_id i"
    and st: "0 \<le> inv_total i" "0 \<le> settled (payments s) (inv_id i)" "settled (payments s) (inv_id i) \<le> inv_total i"
      "payable i \<or> inv_status i = PAID \<Longrightarrow> settled (payments s) (inv_id i) = 0 \<or> settled (payments s) (inv_id i) = inv_total i"
  shows "\<exists>i'. invoices (recomputeInvoiceStatus (inv_id i) s) = as @ i' # bs \<and> inv_id i' = inv_id i \<and> inv_total i' = inv_total i
    \<and> invoice_ok (payments s) i' \<and> payments (recomputeInvoiceStatus (inv_id i) s) = payments s"
proof -
  have f: "find_invoice (inv_id i) (invoices s) = Some i"
    unfolding find_invoice_def bills(1) by (rule find_at) (use bills(2) in auto)
  note at = set_invoice_at [OF bills]
  let ?n = "settled (payments s) (inv_id i)"
  consider (other) "inv_status i = CANCELLED \<or> inv_status i = INV_REFUNDED"
    | (same) "inv_status i = PAID" "?n \<ge> inv_total i" | (reopen) "inv_status i = PAID" "\<not> ?n \<ge> inv_total i"
    | (pay) "payable i" "?n \<ge> inv_total i" | (unpaid) "payable i" "\<not> ?n \<ge> inv_total i"
    by (cases "inv_status i") (auto simp: payable_def)
  then show ?thesis
  proof cases
    case other
    then have "recomputeInvoiceStatus (inv_id i) s = s" by (auto simp: recomputeInvoiceStatus_def f)
    then show ?thesis using bills(1) st other by (intro exI [of _ i]) (auto simp: invoice_ok_def payable_def)
  next
    case same
    then have "recomputeInvoiceStatus (inv_id i) s = s" by (simp add: recomputeInvoiceStatus_def f)
    then show ?thesis using bills(1) st same by (intro exI [of _ i]) (auto simp: invoice_ok_def payable_def)
  next
    case reopen
    then have "recomputeInvoiceStatus (inv_id i) s = set_invoice (inv_id i) (\<lambda>i. i\<lparr>inv_status := UNPAID\<rparr>) s"
      by (simp add: recomputeInvoiceStatus_def f Let_def)
    then show ?thesis using at st reopen by (intro exI [of _ "i\<lparr>inv_status := UNPAID\<rparr>"]) (auto simp: invoice_ok_def payable_def)
  next
    case pay
    then have "recomputeInvoiceStatus (inv_id i) s = set_invoice (inv_id i) (\<lambda>i. i\<lparr>inv_status := PAID\<rparr>) s"
      by (auto simp: recomputeInvoiceStatus_def f Let_def payable_def)
    then show ?thesis using at st pay by (intro exI [of _ "i\<lparr>inv_status := PAID\<rparr>"]) (auto simp: invoice_ok_def payable_def)
  next
    case unpaid
    then have "recomputeInvoiceStatus (inv_id i) s = s" by (auto simp: recomputeInvoiceStatus_def f Let_def payable_def)
    then show ?thesis using bills(1) st unpaid by (intro exI [of _ i]) (auto simp: invoice_ok_def payable_def)
  qed
qed

lemma outcome_tx_money:
  assumes "outcome_tx pid oc note s = (s', Inr v)" and inv: "money_inv s"
  shows "money_inv s'"
proof -
  obtain p where p: "List.find (\<lambda>p. pay_id p = pid) (payments s) = Some p" "pay_status p = SUCCESS \<or> pay_status p = DISPUTED"
    using assms(1) by (auto simp: outcome_tx_def split: option.splits if_splits)
  let ?d = "\<lambda>q. q\<lparr>pay_status := outcome_status oc, pay_note := (if note = None then pay_note p else note)\<rparr>"
  have s': "s' = recomputeInvoiceStatus (pay_invoiceId p) (set_payment pid ?d s)"
    using assms(1) p by (auto simp: outcome_tx_def Let_def split: if_splits)
  have pm: "p \<in> set (payments s)" "pay_id p = pid" using find_Some_iff [OF p(1)] by simp_all
  obtain xs ys where ps: "payments s = xs @ p # ys" "\<forall>q \<in> set xs \<union> set ys. pay_id q \<noteq> pay_id p"
    using split_row [OF money_ids [OF inv] pm(1)] by blast
  obtain i where i: "i \<in> set (invoices s)" "inv_id i = pay_invoiceId p" "inv_total i = pay_amount p" "invoice_ok (payments s) i"
    using inv pm(1) by (elim money_invoice_of) auto
  have di: "distinct (map inv_id (invoices s))" using inv by (simp add: money_inv_def)
  obtain as bs where bills: "invoices s = as @ i # bs" "\<forall>q \<in> set as \<union> set bs. inv_id q \<noteq> inv_id i"
    using split_row [OF di i(1)] by blast
  let ?s1 = "set_payment pid ?d s"
  have s1: "payments ?s1 = xs @ ?d p # ys" "invoices ?s1 = as @ i # bs"
    using set_payment_at [OF ps, where d = ?d] pm(2) bills(1) by simp_all
  have wd: "worth (?d p) = 0" by (cases oc) (simp_all add: worth_def outcome_status_def)
  have nn: "0 \<le> settled xs iid" "0 \<le> settled ys iid" for iid
    using money_amount_nonneg [OF inv] ps(1) by (auto intro!: settled_nonneg)
  have before: "settled (payments s) (inv_id i) = settled xs (inv_id i) + settled ys (inv_id i) + worth p"
    and after: "settled (payments ?s1) (inv_id i) = settled xs (inv_id i) + settled ys (inv_id i)"
    using i(2) wd by (simp_all add: ps(1) s1(1) settled_split)
  have st: "0 \<le> settled (payments ?s1) (inv_id i)" "settled (payments ?s1) (inv_id i) \<le> inv_total i"
    "payable i \<or> inv_status i = PAID \<Longrightarrow> settled (payments ?s1) (inv_id i) = 0 \<or> settled (payments ?s1) (inv_id i) = inv_total i"
    using i(3,4) before after nn [of "inv_id i"] p(2) unfolding invoice_ok_def worth_def by (auto split: if_splits)
  obtain i' where i': "invoices s' = as @ i' # bs" "inv_id i' = inv_id i" "inv_total i' = inv_total i"
      "invoice_ok (payments ?s1) i'" "payments s' = payments ?s1"
    using recompute_ok [OF s1(2) bills(2) _ st] i(2,4) unfolding s' invoice_ok_def by auto
  have "list_all (\<lambda>u. unique_on (snd u) (xs @ ?d p # ys)) payment_uqs"
    using inv unfolding money_inv_def ps(1) by (elim conjE) (erule payment_uqs_cong, simp_all)
  then show ?thesis
    by (intro money_replace [OF inv ps(1) bills(1), of "?d p" i']) (use i i' s1(1) in simp_all)
qed

section \<open>What never changes\<close>

definition pay_core :: "payment \<Rightarrow> uuid \<times> uuid \<times> string \<times> int" where
  "pay_core p = (pay_id p, pay_invoiceId p, pay_orderRef p, pay_amount p)"

definition inv_core :: "invoice \<Rightarrow> invoice" where
  "inv_core i = i\<lparr>inv_status := UNPAID, inv_note := None\<rparr>"

text \<open>Rows keep their place and their fixed columns; new rows come at the end.\<close>

definition grows :: "app \<Rightarrow> app \<Rightarrow> bool" where
  "grows s s' \<longleftrightarrow> (\<exists>zs. map pay_core (payments s') = map pay_core (payments s) @ zs)
     \<and> (\<exists>ws. map inv_core (invoices s') = map inv_core (invoices s) @ ws)"

text \<open>A payment operation: no invoice is added and no line is touched.\<close>

definition pays :: "app \<Rightarrow> app \<Rightarrow> bool" where
  "pays s s' \<longleftrightarrow> (\<exists>zs. map pay_core (payments s') = map pay_core (payments s) @ zs)
     \<and> map inv_core (invoices s') = map inv_core (invoices s) \<and> invoiceItems s' = invoiceItems s"

lemma pays_grows: "pays s s' \<Longrightarrow> grows s s'"
  by (auto simp: pays_def grows_def)

lemma pays_refl [simp]: "pays s s"
  by (simp add: pays_def)

lemma pays_trans: "pays s t \<Longrightarrow> pays t u \<Longrightarrow> pays s u"
  by (auto simp: pays_def)

lemma grows_refl [simp]: "grows s s"
  by (simp add: grows_def)

lemma grows_trans: "grows s t \<Longrightarrow> grows t u \<Longrightarrow> grows s u"
  by (auto simp: grows_def)

lemma pays_same_db: "same_db s' s \<Longrightarrow> pays s s'"
  using same_db_tables [of s' s] by (simp add: pays_def)

lemma pays_audit [simp]: "pays s (record_audit u e ip ok d t) = pays s t"
  by (simp add: pays_def)

lemma grows_payment_version:
  assumes "grows s s'" and "payment_version (payments s) p"
  shows "payment_version (payments s') p"
proof -
  have v: "payment_version t p \<longleftrightarrow> pay_core p \<in> set (map pay_core t)" for t
    by (auto simp: payment_version_def pay_core_def image_iff) metis
  show ?thesis using assms unfolding v grows_def by (metis Un_iff set_append)
qed

lemma grows_invoice_version:
  assumes "grows s s'" and "invoice_version (invoices s) i"
  shows "invoice_version (invoices s') i"
proof -
  have v: "invoice_version t i \<longleftrightarrow> (inv_id i, inv_total i) \<in> (\<lambda>j. (inv_id j, inv_total j)) ` set (map inv_core t)" for t
    by (auto simp: invoice_version_def inv_core_def image_iff) metis
  obtain ws where ws: "map inv_core (invoices s') = map inv_core (invoices s) @ ws" using assms(1) by (auto simp: grows_def)
  show ?thesis using assms(2) unfolding v ws set_append image_Un Un_iff by (rule disjI1)
qed

lemma inv_core_facts:
  "inv_id (inv_core i) = inv_id i" "inv_invoiceNo (inv_core i) = inv_invoiceNo i" "period_key (inv_core i) = period_key i"
  "invoice_row_ok (inv_core i) = invoice_row_ok i" "inv_subtotal (inv_core i) = inv_subtotal i"
  by (simp_all add: inv_core_def period_key_def invoice_row_ok_def split: option.splits)

lemma list_all_core:
  assumes "map inv_core t' = map inv_core t" and "\<And>i. P (inv_core i) = P i"
  shows "list_all P t' = list_all P t"
proof -
  have "list_all P xs = list_all P (map inv_core xs)" for xs using assms(2) by (simp add: list_all_iff)
  then show ?thesis using assms(1) by metis
qed

lemma pays_invoices_inv:
  assumes "pays s s'" and "invoices_inv s"
  shows "invoices_inv s'"
proof -
  have m: "map inv_core (invoices s') = map inv_core (invoices s)" and it: "invoiceItems s' = invoiceItems s"
    using assms(1) by (simp_all add: pays_def)
  have k: "map key (invoices s') = map key (invoices s)" if "\<And>i. key (inv_core i) = key i" for key :: "invoice \<Rightarrow> 'k"
    using arg_cong [OF m, of "map key"] that by (simp add: comp_def)
  have "list_all (\<lambda>u. unique_on (snd u) (invoices s')) invoice_uqs = list_all (\<lambda>u. unique_on (snd u) (invoices s)) invoice_uqs"
    unfolding invoice_uqs_def by (simp, intro conj_cong unique_on_keys k) (simp_all add: inv_core_facts)
  moreover have "list_all invoice_row_ok (invoices s') = list_all invoice_row_ok (invoices s)"
    by (rule list_all_core [OF m]) (simp add: inv_core_facts)
  moreover have "list_all (\<lambda>i. sum_list (map item_amount (items_of s' (inv_id i))) = inv_subtotal i) (invoices s')
      = list_all (\<lambda>i. sum_list (map item_amount (items_of s (inv_id i))) = inv_subtotal i) (invoices s)"
    unfolding items_of_def it by (rule list_all_core [OF m]) (simp add: inv_core_facts)
  moreover have "inv_id ` set (invoices s') = inv_id ` set (invoices s)"
    using arg_cong [OF k [of inv_id], of set] by (simp add: inv_core_facts)
  ultimately show ?thesis using assms(2) by (simp add: invoices_inv_def it)
qed

section \<open>The operations only move money\<close>

lemma pays_update:
  assumes "\<And>p. w p \<Longrightarrow> pay_core (d p) = pay_core p"
  shows "pays s (s\<lparr>payments := update_rows w d (payments s)\<rparr>)"
  using assms by (simp add: pays_def map_update_rows_same)

lemma pays_set_payment: "(\<And>p. pay_core (d p) = pay_core p) \<Longrightarrow> pays s (set_payment pid d s)"
  unfolding set_payment_def by (rule pays_update)

lemma pays_set_invoice: "(\<And>i. inv_core (d i) = inv_core i) \<Longrightarrow> pays s (set_invoice iid d s)"
  by (simp add: pays_def set_invoice_def map_update_rows_same)

lemma pays_claim:
  assumes "claim_receipt pid txnId d (payments s) = Inr (t, n)" and "\<And>p. pay_core (d p) = pay_core p"
  shows "pays s (s\<lparr>payments := t\<rparr>)"
proof -
  have "check_unique payment_uqs (update_rows (claimable pid txnId) (\<lambda>p. (d p)\<lparr>pay_gatewayTxnId := Some txnId\<rparr>) (payments s)) = Inr t"
    using assms(1) by (auto simp: claim_receipt_def update_many_pair split: if_splits sum.splits)
  from check_unique_Inr [OF this]
  have "t = update_rows (claimable pid txnId) (\<lambda>p. (d p)\<lparr>pay_gatewayTxnId := Some txnId\<rparr>) (payments s)" by simp
  moreover have "pay_core ((d p)\<lparr>pay_gatewayTxnId := Some txnId\<rparr>) = pay_core p" for p
    using assms(2) [of p] by (simp add: pay_core_def)
  ultimately show ?thesis
    using pays_update [of "claimable pid txnId" "\<lambda>p. (d p)\<lparr>pay_gatewayTxnId := Some txnId\<rparr>" s] by simp
qed

lemma pays_create:
  assumes "create_payment mk s = (s', r)"
  shows "pays s s'"
  using assms by (auto simp: create_payment_def fresh_uuid_def pays_def split: sum.splits dest!: insert_row_Inr)

lemma pays_transaction:
  assumes "\<And>t r. f s = (t, r) \<Longrightarrow> pays s t" and "transaction f s = (s', r)"
  shows "pays s s'"
  using assms(2) by (cases rule: transaction_cases) (auto intro: pays_same_db assms(1))

lemma transition_tx_pays: "transition_tx txn txnId status note s = (s', r) \<Longrightarrow> pays s s'"
proof (cases "claim_receipt (pay_id txn) txnId id (payments s)")
  case (Inl e)
  then show "transition_tx txn txnId status note s = (s', r) \<Longrightarrow> pays s s'" by (simp add: transition_tx_def)
next
  case (Inr p)
  obtain t n where p: "p = (t, n)" by (cases p)
  have c: "pays s (s\<lparr>payments := t\<rparr>)" by (rule pays_claim [OF Inr [unfolded p]]) simp
  let ?d = "\<lambda>q. q\<lparr>pay_status := status, pay_gatewayTxnId := Some txnId, pay_note := Some note\<rparr>"
  have "pays (s\<lparr>payments := t\<rparr>) (s\<lparr>payments := update_rows (\<lambda>q. pay_id q = pay_id txn) ?d t\<rparr>)"
    using pays_update [of "\<lambda>q. pay_id q = pay_id txn" ?d "s\<lparr>payments := t\<rparr>"] by (simp add: pay_core_def)
  then have "pays s (s\<lparr>payments := update_rows (\<lambda>q. pay_id q = pay_id txn) ?d t\<rparr>)" using c pays_trans by blast
  with c show "transition_tx txn txnId status note s = (s', r) \<Longrightarrow> pays s s'"
    by (auto simp: transition_tx_def Inr p split: if_splits)
qed

lemma transitionReceipt_pays:
  assumes "transitionReceipt txn txnId status note s = (s', r)"
  shows "pays s s'"
proof -
  obtain s1 r1 where t: "transaction (transition_tx txn txnId status note) s = (s1, r1)" by (meson prod.exhaust)
  have "pays s s1" by (rule pays_transaction [OF _ t]) (rule transition_tx_pays)
  then show ?thesis using assms t by (auto simp: transitionReceipt_def split: sum.splits)
qed

lemma settle_claimed_pays:
  assumes "settle_claimed txn s = (s', r)"
  shows "pays s s'"
proof -
  have "pays s (set_payment pid (\<lambda>p. p\<lparr>pay_status := st, pay_note := n\<rparr>) s)" for pid st n
    by (rule pays_set_payment) (simp add: pay_core_def)
  moreover have "pays s t \<Longrightarrow> pays s (set_invoice iid (\<lambda>i. i\<lparr>inv_note := n\<rparr>) t)"
    "pays s t \<Longrightarrow> pays s (set_invoice iid (\<lambda>i. i\<lparr>inv_status := st\<rparr>) t)" for iid n st t
    by (rule pays_trans, assumption, rule pays_set_invoice, simp add: inv_core_def)+
  ultimately show ?thesis using assms
    by (auto simp: settle_claimed_def Let_def split: option.splits if_splits)
qed

lemma settle_tx_pays:
  assumes "settle_tx txn txnId now s = (s', r)"
  shows "pays s s'"
proof (cases "List.find (expired_receipt (pay_id txn) now) (payments s) = None")
  case False
  let ?d = "\<lambda>p. p\<lparr>pay_status := DISPUTED, pay_paidAt := Some now, pay_note := Some late_note\<rparr>"
  have "pays s (s\<lparr>payments := t\<rparr>)" if "claim_receipt (pay_id txn) txnId ?d (payments s) = Inr (t, n)" for t n
    by (rule pays_claim [OF that]) (simp add: pay_core_def)
  then show ?thesis using assms False by (auto simp: settle_tx_def split: sum.splits)
next
  case True
  let ?d = "\<lambda>p. p\<lparr>pay_status := SUCCESS, pay_paidAt := Some now\<rparr>"
  have c: "pays s (s\<lparr>payments := t\<rparr>)" if "claim_receipt (pay_id txn) txnId ?d (payments s) = Inr (t, n)" for t n
    by (rule pays_claim [OF that]) (simp add: pay_core_def)
  have "pays (s\<lparr>payments := t\<rparr>) u" if "settle_claimed txn (s\<lparr>payments := t\<rparr>) = (u, q)" for t u q
    by (rule settle_claimed_pays [OF that])
  then show ?thesis using assms True c
    by (auto simp: settle_tx_def split: sum.splits if_splits intro: pays_trans)
qed

lemma apply_event_pays: "pays s (fst (apply_event txn ev now s))"
proof (cases "gev_success ev \<and> gev_amount ev = JNum (pay_amount txn)")
  case False
  then show ?thesis
    by (auto simp: apply_event_def bindE_def Let_def split: prod.splits sum.splits dest: transitionReceipt_pays)
next
  case True
  obtain s1 r1 where t: "transaction (settle_tx txn (gev_gatewayTxnId ev) now) s = (s1, r1)" by (meson prod.exhaust)
  have "pays s s1" by (rule pays_transaction [OF _ t]) (rule settle_tx_pays)
  moreover have "pays s (settle_audit txn r u) = pays s u" for r u by (cases r) (simp_all add: settle_audit_def)
  ultimately show ?thesis using t True by (auto simp: apply_event_def Let_def split: sum.splits)
qed

lemma handleWebhook_pays: "pays s (fst (handleWebhook gw view provider hs body now s))"
  using apply_event_pays by (auto simp: handleWebhook_def split: option.splits)

lemma createQrPayment_pays: "pays s (fst (createQrPayment gw view caller iid bytes now s))"
proof -
  have "pays s t" if "qr_tx gw iid ref amount ex now s = (t, r)" for ref amount ex t r
  proof -
    have "pays s (s\<lparr>payments := update_rows (\<lambda>p. pay_invoiceId p = iid \<and> pay_status p = PENDING) (supersede now) (payments s)\<rparr>)"
      by (rule pays_update) (simp add: supersede_def pay_core_def)
    then show ?thesis using that
      by (auto simp: qr_tx_def split: option.splits if_splits dest: pays_create intro: pays_trans)
  qed
  then have "pays s t" if "transaction (qr_tx gw iid ref amount ex now) s = (t, r)" for ref amount ex t r
    using pays_transaction [OF _ that] by blast
  then show ?thesis
    by (auto simp: createQrPayment_def Let_def bindE_def split: option.splits sum.splits prod.splits)
qed

lemma confirmCash_pays: "pays s (fst (confirmCash view caller iid note bytes now s))"
proof -
  have "pays s t" if "cash_tx caller iid amount note bytes now s = (t, r)" for amount t r
  proof -
    have "pays s (s\<lparr>invoices := update_rows (\<lambda>i. inv_id i = iid \<and> payable i) (\<lambda>i. i\<lparr>inv_status := PAID\<rparr>) (invoices s)\<rparr>)"
      by (simp add: pays_def map_update_rows_same inv_core_def)
    then show ?thesis using that
      by (auto simp: cash_tx_def update_many_pair split: option.splits if_splits dest: pays_create intro: pays_trans)
  qed
  then have "pays s t" if "transaction (cash_tx caller iid amount note bytes now) s = (t, r)" for amount t r
    using pays_transaction [OF _ that] by blast
  then show ?thesis by (auto simp: confirmCash_def bindE_def split: option.splits sum.splits prod.splits)
qed

lemma recompute_pays: "pays s (recomputeInvoiceStatus iid s)"
  by (auto simp: recomputeInvoiceStatus_def Let_def inv_core_def split: option.splits intro!: pays_set_invoice)

lemma setOutcome_pays: "pays s (fst (setOutcome caller pid oc note s))"
proof -
  have "pays s t" if "outcome_tx pid oc note s = (t, r)" for t r
  proof -
    have "pays s (set_payment pid (\<lambda>p. p\<lparr>pay_status := st, pay_note := n\<rparr>) s)" for st n
      by (rule pays_set_payment) (simp add: pay_core_def)
    then have "pays s (recomputeInvoiceStatus iid (set_payment pid (\<lambda>p. p\<lparr>pay_status := st, pay_note := n\<rparr>) s))" for iid st n
      using recompute_pays pays_trans by blast
    then show ?thesis using that by (auto simp: outcome_tx_def Let_def split: option.splits if_splits)
  qed
  then have "pays s t" if "transaction (outcome_tx pid oc note) s = (t, r)" for t r
    using pays_transaction [OF _ that] by blast
  then show ?thesis by (auto simp: setOutcome_def bindE_def split: sum.splits prod.splits)
qed

section \<open>Whole operations\<close>

lemma money_transaction:
  assumes "money_inv s" and "\<And>t v. f s = (t, Inr v) \<Longrightarrow> money_inv t" and "transaction f s = (s', r)"
  shows "money_inv s'"
  using assms(3)
  by (cases rule: transaction_cases) (use assms(1,2) money_inv_same_db [OF rollback_same_db] in auto)

lemma createQrPayment_money:
  assumes "money_inv s" and "\<forall>i \<in> set view. invoice_version (invoices s) i"
  shows "money_inv (fst (createQrPayment gw view caller iid bytes now s))"
proof -
  have "money_inv t" if "transaction (qr_tx gw iid ref (inv_total bill) ex now) s = (t, r)" "find_invoice iid view = Some bill" for ref bill ex t r
  proof (rule money_transaction [OF assms(1) _ that(1)])
    have "bill \<in> set view" "inv_id bill = iid" using find_Some_iff [OF that(2) [unfolded find_invoice_def]] by simp_all
    then show "qr_tx gw iid ref (inv_total bill) ex now s = (u, Inr v) \<Longrightarrow> money_inv u" for u v
      using qr_tx_money [OF _ assms(1)] assms(2) by blast
  qed
  then show ?thesis using assms(1)
    by (auto simp: createQrPayment_def Let_def bindE_def split: option.splits sum.splits prod.splits)
qed

lemma confirmCash_money:
  assumes "money_inv s" and "\<forall>i \<in> set view. invoice_version (invoices s) i"
  shows "money_inv (fst (confirmCash view caller iid note bytes now s))"
proof -
  have "money_inv t" if "transaction (cash_tx caller iid (inv_total bill) note bytes now) s = (t, r)" "find_invoice iid view = Some bill" for bill t r
  proof (rule money_transaction [OF assms(1) _ that(1)])
    have "bill \<in> set view" "inv_id bill = iid" using find_Some_iff [OF that(2) [unfolded find_invoice_def]] by simp_all
    then show "cash_tx caller iid (inv_total bill) note bytes now s = (u, Inr v) \<Longrightarrow> money_inv u" for u v
      using cash_tx_money [OF _ assms(1)] assms(2) by blast
  qed
  then show ?thesis using assms(1)
    by (auto simp: confirmCash_def bindE_def split: option.splits sum.splits prod.splits)
qed

lemma setOutcome_money:
  assumes "money_inv s"
  shows "money_inv (fst (setOutcome caller pid oc note s))"
proof -
  have "money_inv t" if "transaction (outcome_tx pid oc note) s = (t, r)" for t r
    by (rule money_transaction [OF assms _ that]) (rule outcome_tx_money [OF _ assms])
  then show ?thesis by (auto simp: setOutcome_def bindE_def split: sum.splits prod.splits)
qed

section \<open>Receipts only move forward\<close>

text \<open>
  A receipt opens PENDING, may fail, may succeed, may then be disputed and at last refunded. No
  operation goes back along this order, takes the recorded gateway transaction off a receipt or
  touches its fixed columns.
\<close>

definition receipt_rank :: "payment_status \<Rightarrow> nat" where
  "receipt_rank st = (case st of PENDING \<Rightarrow> 0 | FAILED \<Rightarrow> 1 | SUCCESS \<Rightarrow> 2 | DISPUTED \<Rightarrow> 3 | REFUNDED \<Rightarrow> 4)"

definition receipt_le :: "payment \<Rightarrow> payment \<Rightarrow> bool" where
  "receipt_le p q \<longleftrightarrow> pay_core q = pay_core p \<and> receipt_rank (pay_status p) \<le> receipt_rank (pay_status q)
     \<and> (pay_gatewayTxnId p \<noteq> None \<longrightarrow> pay_gatewayTxnId q = pay_gatewayTxnId p)"

definition receipts_le :: "payment list \<Rightarrow> payment list \<Rightarrow> bool" where
  "receipts_le t t' \<longleftrightarrow> length t \<le> length t' \<and> list_all2 receipt_le t (take (length t) t')"

lemma receipt_le_refl [simp]: "receipt_le p p"
  by (simp add: receipt_le_def)

lemma receipt_le_trans: "receipt_le p q \<Longrightarrow> receipt_le q r \<Longrightarrow> receipt_le p r"
  by (auto simp: receipt_le_def)

lemma receipts_leI: "list_all2 receipt_le t u \<Longrightarrow> receipts_le t (u @ zs)"
  using list_all2_lengthD [of receipt_le t u] by (simp add: receipts_le_def)

lemma receipts_leE:
  assumes "receipts_le t t'"
  obtains u zs where "t' = u @ zs" "list_all2 receipt_le t u"
  using assms that [of "take (length t) t'" "drop (length t) t'"] by (simp add: receipts_le_def)

lemma receipts_le_refl [simp]: "receipts_le t t"
  using receipts_leI [of t t "[]"] by (simp add: list.rel_refl)

lemma receipts_le_append: "receipts_le t (t @ zs)"
  by (rule receipts_leI) (simp add: list.rel_refl)

lemma receipts_le_trans:
  assumes "receipts_le t u" and "receipts_le u v"
  shows "receipts_le t v"
proof -
  obtain t1 t2 where t: "u = t1 @ t2" "list_all2 receipt_le t t1" using assms(1) by (rule receipts_leE)
  obtain u1 u2 where u: "v = u1 @ u2" "list_all2 receipt_le u u1" using assms(2) by (rule receipts_leE)
  obtain w1 w2 where w: "u1 = w1 @ w2" "list_all2 receipt_le t1 w1" using u(2) unfolding t(1) list_all2_append1 by blast
  have "list_all2 receipt_le t w1" by (rule list_all2_trans [OF _ t(2) w(2)]) (rule receipt_le_trans)
  from receipts_leI [OF this, of "w2 @ u2"] show ?thesis by (simp add: u(1) w(1))
qed

lemma receipts_le_replace: "receipt_le p q \<Longrightarrow> receipts_le (xs @ p # ys) (xs @ q # ys)"
  using receipts_leI [of "xs @ p # ys" "xs @ q # ys" "[]"] by (simp add: list.rel_refl list_all2_appendI)

lemma receipts_le_update:
  assumes "\<And>p. w p \<Longrightarrow> receipt_le p (d p)"
  shows "receipts_le t (update_rows w d t)"
  using receipts_leI [of t "update_rows w d t" "[]"] assms by (simp add: update_rows_eq list_all2_conv_all_nth)

lemma receipts_le_row:
  assumes "receipts_le t t'" and "p \<in> set t"
  obtains q where "q \<in> set t'" "receipt_le p q"
proof -
  obtain u zs where u: "t' = u @ zs" "list_all2 receipt_le t u" using assms(1) by (rule receipts_leE)
  obtain k where k: "k < length t" "t ! k = p" using assms(2) by (auto simp: in_set_conv_nth)
  then have "receipt_le p (u ! k)" "u ! k \<in> set t'"
    using u list_all2_nthD [OF u(2) k(1)] list_all2_lengthD [OF u(2)] by auto
  then show ?thesis using that by blast
qed

lemma claimable_rank: "claimable pid txnId p \<Longrightarrow> receipt_rank (pay_status p) \<le> 1"
  by (auto simp: claimable_def open_receipt_def receipt_rank_def)

lemma claimable_advances:
  assumes "claimable pid txnId p" and "1 \<le> receipt_rank (pay_status q)" and "pay_core q = pay_core p"
    and "pay_gatewayTxnId q = Some txnId"
  shows "receipt_le p q"
  using assms claimable_rank [OF assms(1)] by (auto simp: receipt_le_def claimable_def)

lemma receipts_le_transaction:
  assumes "\<And>t v. f s = (t, Inr v) \<Longrightarrow> receipts_le (payments s) (payments t)" and "transaction f s = (s', r)"
  shows "receipts_le (payments s) (payments s')"
  using assms(2)
  by (cases rule: transaction_cases) (use assms(1) same_db_tables [OF rollback_same_db] in auto)

lemma transition_tx_advances:
  assumes "transition_tx txn txnId status note s = (s', Inr b)" and inv: "money_inv s" and st: "1 \<le> receipt_rank status"
  shows "receipts_le (payments s) (payments s')"
proof -
  obtain t n where c: "claim_receipt (pay_id txn) txnId id (payments s) = Inr (t, n)"
    using assms(1) by (auto simp: transition_tx_def split: sum.splits prod.splits)
  from c money_ids [OF inv] show ?thesis
  proof (cases rule: claim_receipt_cases)
    case none
    then show ?thesis using assms(1) c by (auto simp: transition_tx_def)
  next
    case (one xs p ys)
    let ?q = "p\<lparr>pay_gatewayTxnId := Some txnId, pay_status := status, pay_note := Some note\<rparr>"
    have w: "\<forall>q \<in> set xs \<union> set ys. pay_id q \<noteq> pay_id txn" using one(3,4) by (simp add: claimable_def)
    have "payments s' = xs @ ?q # ys"
      using assms(1) c one(1,4,5) update_rows_at [OF w, of _ "p\<lparr>pay_gatewayTxnId := Some txnId\<rparr>"]
      by (auto simp: transition_tx_def claimable_def)
    moreover have "receipt_le p ?q" by (rule claimable_advances [OF one(4)]) (use st in \<open>simp_all add: pay_core_def\<close>)
    ultimately show ?thesis unfolding one(2) by (simp add: receipts_le_replace)
  qed
qed

lemma settle_claimed_advances:
  assumes "settle_claimed txn s = (s', r)" and ps: "payments s = xs @ p # ys"
    and ids: "\<forall>q \<in> set xs \<union> set ys. pay_id q \<noteq> pay_id p" and p: "pay_id p = pay_id txn" "pay_status p = SUCCESS"
  shows "receipts_le (payments s) (payments s')"
proof -
  have "receipts_le (payments s) (payments (set_payment (pay_id txn) (\<lambda>p. p\<lparr>pay_status := DISPUTED, pay_note := n\<rparr>) s))" for n
    using set_payment_at(1) [OF ps ids, of "\<lambda>p. p\<lparr>pay_status := DISPUTED, pay_note := n\<rparr>"] p
    by (simp add: ps receipts_le_replace receipt_le_def receipt_rank_def pay_core_def)
  moreover have "payments (set_invoice iid d t) = payments t" for iid d t by (simp add: set_invoice_def)
  ultimately show ?thesis using assms(1) by (auto simp: settle_claimed_def Let_def split: option.splits if_splits)
qed

lemma settle_tx_advances:
  assumes "settle_tx txn txnId now s = (s', Inr r)" and inv: "money_inv s"
  shows "receipts_le (payments s) (payments s')"
proof (cases "List.find (expired_receipt (pay_id txn) now) (payments s) = None")
  case False
  let ?d = "\<lambda>p. p\<lparr>pay_status := DISPUTED, pay_paidAt := Some now, pay_note := Some late_note\<rparr>"
  obtain t n where c: "claim_receipt (pay_id txn) txnId ?d (payments s) = Inr (t, n)" "payments s' = t"
    using assms(1) False by (auto simp: settle_tx_def split: sum.splits prod.splits)
  from c(1) money_ids [OF inv] show ?thesis
  proof (cases rule: claim_receipt_cases)
    case (one xs p ys)
    have "receipt_le p ((?d p)\<lparr>pay_gatewayTxnId := Some txnId\<rparr>)"
      by (rule claimable_advances [OF one(4)]) (simp_all add: pay_core_def receipt_rank_def)
    then show ?thesis unfolding c(2) one(2,5) by (rule receipts_le_replace)
  qed (simp add: c(2))
next
  case True
  let ?d = "\<lambda>p. p\<lparr>pay_status := SUCCESS, pay_paidAt := Some now\<rparr>"
  obtain t n where c: "claim_receipt (pay_id txn) txnId ?d (payments s) = Inr (t, n)"
    and go: "(if n = 0 then (s\<lparr>payments := t\<rparr>, Inr WhIgnored) else settle_claimed txn (s\<lparr>payments := t\<rparr>)) = (s', Inr r)"
    using assms(1) True by (auto simp: settle_tx_def split: sum.splits prod.splits)
  from c money_ids [OF inv] show ?thesis
  proof (cases rule: claim_receipt_cases)
    case none
    then show ?thesis using go by auto
  next
    case (one xs p ys)
    let ?q = "(?d p)\<lparr>pay_gatewayTxnId := Some txnId\<rparr>"
    have "receipt_le p ?q" by (rule claimable_advances [OF one(4)]) (simp_all add: pay_core_def receipt_rank_def)
    then have "receipts_le (payments s) t" unfolding one(2,5) by (rule receipts_le_replace)
    moreover have "receipts_le t (payments s')"
      using settle_claimed_advances [of txn "s\<lparr>payments := t\<rparr>" s' "Inr r" xs ?q ys] go one(1,3,4,5) by (simp add: claimable_def)
    ultimately show ?thesis by (rule receipts_le_trans)
  qed
qed

lemma transitionReceipt_advances:
  assumes "transitionReceipt txn txnId status note s = (s', r)" and "money_inv s" and "1 \<le> receipt_rank status"
  shows "receipts_le (payments s) (payments s')"
proof -
  obtain s1 r1 where t: "transaction (transition_tx txn txnId status note) s = (s1, r1)" by (meson prod.exhaust)
  have "receipts_le (payments s) (payments s1)"
    by (rule receipts_le_transaction [OF _ t]) (rule transition_tx_advances [OF _ assms(2,3)])
  then show ?thesis using assms(1) t by (auto simp: transitionReceipt_def split: sum.splits)
qed

lemma apply_event_advances:
  assumes "money_inv s"
  shows "receipts_le (payments s) (payments (fst (apply_event txn ev now s)))"
proof (cases "gev_success ev \<and> gev_amount ev = JNum (pay_amount txn)")
  case False
  have r: "1 \<le> receipt_rank FAILED" "1 \<le> receipt_rank DISPUTED" by (simp_all add: receipt_rank_def)
  show ?thesis using False
    by (auto simp: apply_event_def bindE_def Let_def split: prod.splits sum.splits
        dest: transitionReceipt_advances [OF _ assms r(1)] transitionReceipt_advances [OF _ assms r(2)])
next
  case True
  obtain s1 r1 where t: "transaction (settle_tx txn (gev_gatewayTxnId ev) now) s = (s1, r1)" by (meson prod.exhaust)
  have "receipts_le (payments s) (payments s1)"
    by (rule receipts_le_transaction [OF _ t]) (rule settle_tx_advances [OF _ assms])
  moreover have "payments (settle_audit txn r u) = payments u" for r u by (cases r) (simp_all add: settle_audit_def)
  ultimately show ?thesis using t True by (auto simp: apply_event_def Let_def split: sum.splits)
qed

lemma handleWebhook_advances:
  "money_inv s \<Longrightarrow> receipts_le (payments s) (payments (fst (handleWebhook gw view provider hs body now s)))"
  using apply_event_advances [of s] by (auto simp: handleWebhook_def split: option.splits)

lemma create_payment_advances: "create_payment mk s = (s', r) \<Longrightarrow> receipts_le (payments s) (payments s')"
  by (auto simp: create_payment_def fresh_uuid_def receipts_le_append split: sum.splits dest!: insert_row_Inr)

lemma createQrPayment_advances: "receipts_le (payments s) (payments (fst (createQrPayment gw view caller iid bytes now s)))"
proof -
  have "receipts_le (payments s) (payments t)" if "qr_tx gw iid ref amount ex now s = (t, Inr v)" for ref amount ex t v
  proof -
    let ?u = "update_rows (\<lambda>p. pay_invoiceId p = iid \<and> pay_status p = PENDING) (supersede now) (payments s)"
    have "receipts_le (payments s) ?u"
      by (rule receipts_le_update) (simp add: supersede_def receipt_le_def pay_core_def receipt_rank_def)
    moreover have "receipts_le ?u (payments t)"
      using that by (auto simp: qr_tx_def split: option.splits if_splits dest: create_payment_advances)
    ultimately show ?thesis by (rule receipts_le_trans)
  qed
  then have "receipts_le (payments s) (payments t)" if "transaction (qr_tx gw iid ref amount ex now) s = (t, r)" for ref amount ex t r
    using receipts_le_transaction [OF _ that] by blast
  then show ?thesis
    by (auto simp: createQrPayment_def Let_def bindE_def split: option.splits sum.splits prod.splits)
qed

lemma confirmCash_advances: "receipts_le (payments s) (payments (fst (confirmCash view caller iid note bytes now s)))"
proof -
  have "receipts_le (payments s) (payments t)" if "cash_tx caller iid amount note bytes now s = (t, Inr v)" for amount t v
    using that by (auto simp: cash_tx_def update_many_pair split: option.splits if_splits dest: create_payment_advances)
  then have "receipts_le (payments s) (payments t)" if "transaction (cash_tx caller iid amount note bytes now) s = (t, r)" for amount t r
    using receipts_le_transaction [OF _ that] by blast
  then show ?thesis by (auto simp: confirmCash_def bindE_def split: option.splits sum.splits prod.splits)
qed

lemma recompute_payments [simp]: "payments (recomputeInvoiceStatus iid s) = payments s"
  by (auto simp: recomputeInvoiceStatus_def Let_def set_invoice_def split: option.splits)

lemma outcome_tx_advances:
  assumes "outcome_tx pid oc note s = (s', Inr v)" and inv: "money_inv s"
  shows "receipts_le (payments s) (payments s')"
proof -
  obtain p where p: "List.find (\<lambda>p. pay_id p = pid) (payments s) = Some p"
      "pay_status p = SUCCESS \<or> pay_status p = DISPUTED \<and> oc = OutRefunded"
    using assms(1) by (auto simp: outcome_tx_def split: option.splits if_splits)
  have pm: "p \<in> set (payments s)" "pay_id p = pid" using find_Some_iff [OF p(1)] by simp_all
  obtain xs ys where ps: "payments s = xs @ p # ys" "\<forall>q \<in> set xs \<union> set ys. pay_id q \<noteq> pay_id p"
    using split_row [OF money_ids [OF inv] pm(1)] by blast
  let ?d = "\<lambda>q. q\<lparr>pay_status := outcome_status oc, pay_note := (if note = None then pay_note p else note)\<rparr>"
  have "payments s' = xs @ ?d p # ys"
    using assms(1) p set_payment_at(1) [OF ps, of ?d] pm(2) by (auto simp: outcome_tx_def Let_def split: if_splits)
  moreover have "receipt_le p (?d p)"
    using p(2) by (cases oc) (auto simp: receipt_le_def pay_core_def receipt_rank_def outcome_status_def)
  ultimately show ?thesis by (simp add: ps(1) receipts_le_replace)
qed

lemma setOutcome_advances:
  assumes "money_inv s"
  shows "receipts_le (payments s) (payments (fst (setOutcome caller pid oc note s)))"
proof -
  have "receipts_le (payments s) (payments t)" if "transaction (outcome_tx pid oc note) s = (t, r)" for t r
    by (rule receipts_le_transaction [OF _ that]) (rule outcome_tx_advances [OF _ assms])
  then show ?thesis by (auto simp: setOutcome_def bindE_def split: sum.splits prod.splits)
qed

text \<open>Issuing invoices: new rows are unpaid and no payment refers to them yet.\<close>

definition issues :: "app \<Rightarrow> app \<Rightarrow> bool" where
  "issues s s' \<longleftrightarrow> payments s' = payments s
     \<and> (\<exists>rows. invoices s' = invoices s @ rows \<and> (\<forall>r \<in> set rows. inv_status r = UNPAID))"

lemma issues_refl: "payments s' = payments s \<Longrightarrow> invoices s' = invoices s \<Longrightarrow> issues s s'"
  by (simp add: issues_def)

lemma issues_trans: "issues s t \<Longrightarrow> issues t u \<Longrightarrow> issues s u"
  by (auto simp: issues_def)

lemma issues_grows: "issues s s' \<Longrightarrow> grows s s'"
  by (auto simp: issues_def grows_def)

lemma issues_same_db: "same_db s' s \<Longrightarrow> issues s s'"
  using same_db_tables [of s' s] by (intro issues_refl) auto

lemma issues_money:
  assumes "issues s s'" and inv: "money_inv s" and inv': "invoices_inv s'"
  shows "money_inv s'"
proof -
  obtain rows where r: "invoices s' = invoices s @ rows" "\<forall>r \<in> set rows. inv_status r = UNPAID" and p: "payments s' = payments s"
    using assms(1) by (auto simp: issues_def)
  have "unique_on (\<lambda>i. Some [inv_id i]) (invoices s')" using inv' by (simp add: invoices_inv_def invoice_uqs_def)
  then have d: "distinct (map inv_id (invoices s'))" by (simp add: unique_on_total [OF refl] distinct_map inj_on_def)
  have new: "invoice_ok (payments s) i" if "i \<in> set rows" for i
  proof -
    have "pay_invoiceId p \<noteq> inv_id i" if "p \<in> set (payments s)" for p
    proof -
      obtain j where "j \<in> set (invoices s)" "inv_id j = pay_invoiceId p" using inv \<open>p \<in> set (payments s)\<close> by (rule money_invoice_of)
      then show ?thesis using d \<open>i \<in> set rows\<close> r(1) by (auto simp: disjoint_iff)
    qed
    then have "settled (payments s) (inv_id i) = 0" by (auto simp: settled_def sum_rows_def intro!: sum_list_0 filter_False)
    moreover have "invoice_row_ok i" using inv' that r(1) by (auto simp: invoices_inv_def list_all_iff)
    ultimately show ?thesis using r(2) that by (simp add: invoice_ok_def invoice_row_ok_def)
  qed
  then show ?thesis using inv d by (auto simp: money_inv_def r(1) p list_all_iff payment_ok_def)
qed

lemma createInvoice_issues: "issues s (fst (createInvoice seen caller dto now s))"
proof (cases "createInvoice seen caller dto now s")
  case (Pair s' r)
  show ?thesis
  proof (cases r)
    case (Inl e)
    then show ?thesis using createInvoice_cases [OF Pair] Pair issues_same_db by simp
  next
    case (Inr v)
    then obtain st d due u a t row s1 detail where t: "same_db t s" "create_tx (seen a) caller dto st d due u now t = (s1, Inr row)"
        "s' = record_audit None ''invoice_created'' None True detail s1"
      using createInvoice_cases [OF Pair] by auto
    then obtain iid no ids nids n where "row = manual_row caller dto st d due no now iid"
        "s1 = t\<lparr>invoices := invoices t @ [row],
        invoiceItems := invoiceItems t @ item_rows (inv_id row) ids (map item_line (civ_items dto)),
        notifications := notifications t @ invoice_notifications nids u (invoice_summary dto row due) now, uuid_ctr := n\<rparr>"
      using create_tx_Inr [OF t(2)] by blast
    then show ?thesis using Pair same_db_tables [OF t(1)] by (simp add: issues_def t(3) manual_row_def)
  qed
qed

lemma tuition_loop_issues: "tuition_loop seen caller dto now xs c k s = (s', r) \<Longrightarrow> issues s s'"
proof (induction xs arbitrary: c k s)
  case Nil
  then show ?case by (simp add: issues_refl)
next
  case (Cons x rest c k s)
  obtain sid ls where x: "x = (sid, ls)" by (cases x)
  obtain s1 r1 where p: "transaction (tuition_tx (seen sid) caller dto sid ls now) s = (s1, r1)" by (meson prod.exhaust)
  have i1: "issues s s1"
  proof (cases r1)
    case (Inl e)
    then show ?thesis using p transaction_Inl issues_same_db by blast
  next
    case (Inr u)
    then have "tuition_tx (seen sid) caller dto sid ls now s = (s1, Inr u)" using p by (simp add: transaction_Inr)
    from tuition_tx_Inr [OF this] obtain iid ids n no row where
      "row = tuition_row caller dto sid (sum_list (map ln_amount (map the ls))) no now iid"
      "s1 = s\<lparr>invoices := invoices s @ [row], invoiceItems := invoiceItems s @ item_rows (inv_id row) ids (map the ls), uuid_ctr := n\<rparr>"
      by blast
    then show ?thesis by (simp add: issues_def tuition_row_def)
  qed
  show ?case
  proof (cases "\<exists>e. r1 = Inl e \<and> \<not> is_P2002 e")
    case True
    then show ?thesis using Cons.prems p x i1 by auto
  next
    case False
    then obtain c1 k1 where "tuition_loop seen caller dto now rest c1 k1 s1 = (s', r)"
      using Cons.prems p x by (cases r1) auto
    then show ?thesis using Cons.IH i1 issues_trans by blast
  qed
qed

lemma generateMonthly_issues: "issues s (fst (generateMonthly seen caller dto now s))"
proof (cases "tuition_loop seen caller dto now (student_lines s dto) 0 0 s")
  case (Pair s1 r)
  from tuition_loop_issues [OF this] have "issues s s1" .
  then show ?thesis using Pair by (cases r) (auto simp: generateMonthly_def bindE_def issues_def)
qed

lemma createExamFeeInvoice_issues:
  assumes "createExamFeeInvoice seen args now s = (s', Inr v)"
  shows "issues s s'"
proof -
  obtain iid ids n detail row no where "row = exam_fee_row args no now iid"
    "s' = record_audit None ''invoice_issued'' None True detail
        (s\<lparr>invoices := invoices s @ [row],
           invoiceItems := invoiceItems s @ item_rows (inv_id row) ids [exam_fee_line (efa_exam args)], uuid_ctr := n\<rparr>)"
    using exam_fee_body_Inr [OF createExamFeeInvoice_Inr [OF assms]] by blast
  then show ?thesis by (simp add: issues_def exam_fee_row_def Let_def)
qed

lemma markOverdue_money:
  assumes "money_inv s"
  shows "money_inv (markOverdue now s)" "pays s (markOverdue now s)"
proof -
  let ?f = "\<lambda>i. if inv_status i = UNPAID \<and> inv_dueDate i < now then i\<lparr>inv_status := OVERDUE\<rparr> else i"
  have t: "invoices (markOverdue now s) = map ?f (invoices s)" "payments (markOverdue now s) = payments s"
    by (simp_all add: markOverdue_def update_rows_eq)
  have ids: "map inv_id (map ?f (invoices s)) = map inv_id (invoices s)" by simp
  have ok: "invoice_ok (payments s) (?f i)" if "invoice_ok (payments s) i" for i
    using that by (simp add: invoice_ok_def payable_def)
  have "list_all (invoice_ok (payments s)) (map ?f xs)" if "list_all (invoice_ok (payments s)) xs" for xs
    using that by (induction xs) (simp_all only: list.map list.pred_inject ok simp_thms)
  moreover have "payment_ok (map ?f (invoices s)) = payment_ok (invoices s)"
  proof
    fix p
    let ?k = "\<lambda>i. (inv_id i, inv_total i)"
    have k: "payment_ok t p \<longleftrightarrow> (pay_invoiceId p, pay_amount p) \<in> set (map ?k t)" for t
      by (auto simp: payment_ok_def image_iff) metis
    have m: "map ?k (map ?f (invoices s)) = map ?k (invoices s)" by simp
    show "payment_ok (map ?f (invoices s)) p = payment_ok (invoices s) p" unfolding k m by (rule refl)
  qed
  ultimately show "money_inv (markOverdue now s)"
    using assms unfolding money_inv_def t ids by (simp only: simp_thms)
  show "pays s (markOverdue now s)" by (simp add: pays_def markOverdue_def map_update_rows_same inv_core_def)
qed

section \<open>Runs of the billing subsystem\<close>

text \<open>
  A step sees the states of the run so far: what an operation reads before its transaction may
  come from any of them. \<open>env\<close> is any step of the other components.
\<close>

inductive billing_step :: "app list \<Rightarrow> app \<Rightarrow> app \<Rightarrow> bool" where
  qr: "v \<in> set past \<Longrightarrow> billing_step past s (fst (createQrPayment gw (invoices v) caller iid bytes now s))"
| webhook: "v \<in> set past \<Longrightarrow> billing_step past s (fst (handleWebhook gw (payments v) provider hs body now s))"
| cash: "v \<in> set past \<Longrightarrow> billing_step past s (fst (confirmCash (invoices v) caller iid note bytes now s))"
| outcome: "billing_step past s (fst (setOutcome caller pid oc note s))"
| invoice: "valid_create_invoice_dto dto \<Longrightarrow> billing_step past s (fst (createInvoice seen caller dto now s))"
| tuition: "billing_step past s (fst (generateMonthly seen' caller gdto now s))"
| exam_fee: "0 \<le> exm_feeAmount (efa_exam args) \<Longrightarrow> billing_step past s (fst (transaction (createExamFeeInvoice seen args now) s))"
| ageing: "billing_step past s (markOverdue now s)"
| env: "payments s' = payments s \<Longrightarrow> invoices s' = invoices s \<Longrightarrow> invoiceItems s' = invoiceItems s \<Longrightarrow> billing_step past s s'"

inductive billing_run :: "app list \<Rightarrow> app \<Rightarrow> bool" where
  init: "payments s = [] \<Longrightarrow> invoices s = [] \<Longrightarrow> invoiceItems s = [] \<Longrightarrow> billing_run [s] s"
| step: "billing_run past s \<Longrightarrow> billing_step past s s' \<Longrightarrow> billing_run (s' # past) s'"

definition billing_inv :: "app \<Rightarrow> bool" where
  "billing_inv s \<longleftrightarrow> invoices_inv s \<and> money_inv s"

definition old_view :: "app \<Rightarrow> app \<Rightarrow> bool" where
  "old_view s v \<longleftrightarrow> (\<forall>p \<in> set (payments v). payment_version (payments s) p)
     \<and> (\<forall>i \<in> set (invoices v). invoice_version (invoices s) i)"

lemma billing_issue:
  assumes "issues s s'" and "billing_inv s" and "invoices_inv s'"
  shows "billing_inv s' \<and> grows s s'"
  using assms issues_money issues_grows by (auto simp: billing_inv_def)

lemma billing_pay:
  assumes "pays s s'" and "billing_inv s" and "money_inv s'"
  shows "billing_inv s' \<and> grows s s'"
  using assms pays_invoices_inv pays_grows by (auto simp: billing_inv_def)

lemma billing_step_inv:
  assumes "billing_step past s s'" and inv: "billing_inv s" and old: "\<forall>v \<in> set past. old_view s v"
  shows "billing_inv s' \<and> grows s s'"
proof -
  have m: "money_inv s" and i: "invoices_inv s" using inv by (simp_all add: billing_inv_def)
  show ?thesis using assms(1) old
  proof cases
    case (qr v gw caller iid bytes now)
    show ?thesis unfolding qr(1)
      by (rule billing_pay [OF createQrPayment_pays inv], rule createQrPayment_money [OF m])
        (use old qr(2) in \<open>auto simp: old_view_def\<close>)
  next
    case (webhook v gw provider hs body now)
    show ?thesis unfolding webhook(1)
      by (rule billing_pay [OF handleWebhook_pays inv], rule handleWebhook_money [OF m])
        (use old webhook(2) in \<open>auto simp: old_view_def\<close>)
  next
    case (cash v caller iid memo bytes now)
    show ?thesis unfolding cash(1)
      by (rule billing_pay [OF confirmCash_pays inv], rule confirmCash_money [OF m])
        (use old cash(2) in \<open>auto simp: old_view_def\<close>)
  next
    case (outcome caller pid oc memo)
    show ?thesis unfolding outcome(1)
      by (rule billing_pay [OF setOutcome_pays inv setOutcome_money [OF m]])
  next
    case (invoice dto seen caller now)
    show ?thesis unfolding invoice(1)
      by (rule billing_issue [OF createInvoice_issues inv createInvoice_inv [OF i invoice(2)]])
  next
    case (tuition seen' caller gdto now)
    show ?thesis unfolding tuition(1)
      by (rule billing_issue [OF generateMonthly_issues inv generateMonthly_inv [OF i]])
  next
    case (exam_fee args seen now)
    obtain s1 r where t: "transaction (createExamFeeInvoice seen args now) s = (s1, r)" by (meson prod.exhaust)
    have "issues s s1 \<and> invoices_inv s1"
    proof (cases r)
      case (Inl e)
      then have "same_db s1 s" using t transaction_Inl by blast
      then show ?thesis using issues_same_db i invoices_inv_cong [of s1 s] same_db_tables [of s1 s] by auto
    next
      case (Inr v)
      then show ?thesis using t createExamFeeInvoice_issues createExamFeeInvoice_inv [OF i exam_fee(2)]
        by (auto simp: transaction_Inr)
    qed
    then show ?thesis unfolding exam_fee(1) using billing_issue inv t by auto
  next
    case (ageing now)
    show ?thesis unfolding ageing(1) by (rule billing_pay [OF markOverdue_money(2) inv markOverdue_money(1)]) (rule m)+
  next
    case env
    then show ?thesis using inv invoices_inv_cong [of s' s] money_inv_cong [of s' s] by (simp add: billing_inv_def grows_def)
  qed
qed

lemma old_view_grows: "old_view s v \<Longrightarrow> grows s s' \<Longrightarrow> old_view s' v"
  using grows_payment_version grows_invoice_version by (auto simp: old_view_def)

lemma old_view_refl: "old_view s s"
  by (auto simp: old_view_def payment_version_def invoice_version_def)

lemma billing_run_inv: "billing_run past s \<Longrightarrow> billing_inv s \<and> (\<forall>v \<in> set past. old_view s v)"
proof (induction rule: billing_run.induct)
  case (init s)
  then show ?case
    by (simp add: billing_inv_def invoices_inv_def money_inv_def old_view_def list_all_iff unique_on_def List.map_filter_def)
next
  case (step past s s')
  then show ?case using billing_step_inv [OF step.hyps(2)] old_view_grows old_view_refl by auto
qed

text \<open>No step takes a receipt back.\<close>

lemma billing_step_advances:
  assumes "billing_step past s s'" and inv: "money_inv s"
  shows "receipts_le (payments s) (payments s')"
  using assms(1)
proof cases
  case (exam_fee args seen now)
  obtain s1 r where t: "transaction (createExamFeeInvoice seen args now) s = (s1, r)" by (meson prod.exhaust)
  have "receipts_le (payments s) (payments s1)"
    using t by (rule receipts_le_transaction [rotated]) (drule createExamFeeInvoice_issues, simp add: issues_def)
  then show ?thesis by (simp add: exam_fee(1) t)
next
  case (invoice dto seen caller now)
  then show ?thesis using createInvoice_issues [of s seen caller dto now] by (simp add: issues_def)
next
  case (tuition seen' caller gdto now)
  then show ?thesis using generateMonthly_issues [of s seen' caller gdto now] by (simp add: issues_def)
qed (use inv in \<open>simp_all add: createQrPayment_advances handleWebhook_advances confirmCash_advances setOutcome_advances markOverdue_def\<close>)

lemma billing_run_advances: "billing_run past s \<Longrightarrow> v \<in> set past \<Longrightarrow> receipts_le (payments v) (payments s)"
proof (induction rule: billing_run.induct)
  case (init s)
  then show ?case by simp
next
  case (step past s s')
  have "money_inv s" using billing_run_inv [OF step.hyps(1)] by (simp add: billing_inv_def)
  with billing_step_advances [OF step.hyps(2)] have "receipts_le (payments s) (payments s')" .
  then show ?case using step receipts_le_trans by auto
qed

text \<open>
  A step settles a gateway transaction when it makes a receipt that carries it successful. The
  states of a run are listed newest first; \<open>settlements\<close> counts its settling steps.
\<close>

definition settles_txn :: "string \<Rightarrow> app \<Rightarrow> app \<Rightarrow> bool" where
  "settles_txn txnId s s' \<longleftrightarrow> list_ex (\<lambda>q. pay_gatewayTxnId q = Some txnId \<and> pay_status q = SUCCESS
     \<and> list_all (\<lambda>p. pay_id p = pay_id q \<longrightarrow> pay_status p \<noteq> SUCCESS) (payments s)) (payments s')"

fun settlements :: "string \<Rightarrow> app list \<Rightarrow> nat" where
  "settlements txnId (s' # s # past) = (if settles_txn txnId s s' then 1 else 0) + settlements txnId (s # past)"
| "settlements txnId _ = 0"

lemma billing_run_head: "billing_run past s \<Longrightarrow> \<exists>rest. past = s # rest"
  by (cases rule: billing_run.cases) auto

lemma txn_unique:
  assumes "money_inv s" and "p \<in> set (payments s)" and "q \<in> set (payments s)"
    and "pay_gatewayTxnId p = Some txnId" and "pay_gatewayTxnId q = Some txnId"
  shows "p = q"
proof -
  have "unique_on pay_gatewayTxnId (payments s)" using assms(1) payment_ids_distinct(2) by (simp add: money_inv_def)
  then show ?thesis using assms(2-5) unique_on_inj by metis
qed

text \<open>Once a transaction has settled, its receipt stays beyond the open statuses.\<close>

lemma settled_receipt_kept:
  assumes run: "billing_run past s" and "billing_step past s s'" and p: "p \<in> set (payments s)" "pay_gatewayTxnId p = Some txnId"
    and rank: "2 \<le> receipt_rank (pay_status p)"
  shows "\<not> settles_txn txnId s s'" and "\<exists>q \<in> set (payments s'). pay_gatewayTxnId q = Some txnId \<and> 2 \<le> receipt_rank (pay_status q)"
proof -
  have run': "billing_run (s' # past) s'" by (rule billing_run.step [OF assms(1,2)])
  have m: "money_inv s'" using billing_run_inv [OF run'] by (simp add: billing_inv_def)
  have "s \<in> set (s' # past)" using billing_run_head [OF run] by auto
  from billing_run_advances [OF run' this] p(1) obtain q where q: "q \<in> set (payments s')" "receipt_le p q"
    by (rule receipts_le_row)
  then have q': "pay_gatewayTxnId q = Some txnId" "pay_id q = pay_id p" "receipt_rank (pay_status p) \<le> receipt_rank (pay_status q)"
    using p(2) by (simp_all add: receipt_le_def pay_core_def)
  then show "\<exists>q \<in> set (payments s'). pay_gatewayTxnId q = Some txnId \<and> 2 \<le> receipt_rank (pay_status q)"
    using rank q(1) by (intro bexI [of _ q]) simp_all
  have "pay_status p = SUCCESS" if "pay_status q = SUCCESS"
    using that rank q'(3) by (cases "pay_status p") (simp_all add: receipt_rank_def)
  then show "\<not> settles_txn txnId s s'"
    using txn_unique [OF m _ q(1) _ q'(1)] p(1) q'(2) by (auto simp: settles_txn_def list_ex_iff list_all_iff)
qed

lemma settlements_run:
  assumes "billing_run past s"
  shows "settlements txnId past \<le> 1
    \<and> (0 < settlements txnId past \<longrightarrow> (\<exists>p \<in> set (payments s). pay_gatewayTxnId p = Some txnId \<and> 2 \<le> receipt_rank (pay_status p)))"
  using assms
proof (induction rule: billing_run.induct)
  case (step past s s')
  obtain rest where past: "past = s # rest" using billing_run_head [OF step.hyps(1)] by blast
  show ?case
  proof (cases "0 < settlements txnId past")
    case True
    then obtain p where p: "p \<in> set (payments s)" "pay_gatewayTxnId p = Some txnId" "2 \<le> receipt_rank (pay_status p)"
      using step.IH by blast
    from settled_receipt_kept [OF step.hyps p] show ?thesis using step.IH by (simp add: past)
  next
    case False
    have "\<exists>p \<in> set (payments s'). pay_gatewayTxnId p = Some txnId \<and> 2 \<le> receipt_rank (pay_status p)" if "settles_txn txnId s s'"
      using that by (auto simp: settles_txn_def list_ex_iff receipt_rank_def)
    then show ?thesis using False by (simp add: past)
  qed
qed simp

section \<open>Properties\<close>

text \<open>
  C1: In every state the billing subsystem can reach, by any interleaving of QR requests,
  webhook deliveries, cash confirmations, refunds, disputes, issued invoices and ageing, with
  reads as old as can be: a paid invoice is settled by exactly its total, an unpaid or overdue
  one has nothing settled, no invoice is settled beyond its total, its line items sum to the
  subtotal and its total is the subtotal less the discount.
\<close>

theorem billing_runs_safe:
  assumes "billing_run past s" and "i \<in> set (invoices s)"
  shows "(inv_status i = PAID \<longrightarrow> settled (payments s) (inv_id i) = inv_total i)
    \<and> (inv_status i = UNPAID \<or> inv_status i = OVERDUE \<longrightarrow> settled (payments s) (inv_id i) = 0)
    \<and> 0 \<le> settled (payments s) (inv_id i) \<and> settled (payments s) (inv_id i) \<le> inv_total i
    \<and> inv_total i = inv_subtotal i - inv_discount i \<and> inv_subtotal i \<le> MAX_MONEY_AMOUNT
    \<and> sum_list (map item_amount (items_of s (inv_id i))) = inv_subtotal i"
proof -
  have "billing_inv s" using billing_run_inv [OF assms(1)] by simp
  then have "invoice_ok (payments s) i" "invoice_row_ok i" "sum_list (map item_amount (items_of s (inv_id i))) = inv_subtotal i"
    using assms(2) by (auto simp: billing_inv_def money_inv_def invoices_inv_def list_all_iff)
  then show ?thesis by (auto simp: invoice_ok_def invoice_row_ok_def payable_def)
qed

definition bank0 :: app_setting where
  "bank0 = \<lparr> set_key = ''bank_account'', set_value = JObj [(''bin'', JStr ''970422''), (''number'', JStr ''9012345678901''),
     (''name'', JStr ''CLUB''), (''owner_type'', JStr ''BUSINESS'')], set_updatedBy = None \<rparr>"

definition start0 :: app where
  "start0 = empty_app\<lparr>students := [stu0], appSettings := [bank0]\<rparr>"

definition issued0 :: app where
  "issued0 = fst (createInvoice (\<lambda>_ _. True) admin0 idto0 0 start0)"

lemma run0: "billing_run [start0] start0" "billing_run [issued0, start0] issued0"
proof -
  show s: "billing_run [start0] start0" by (rule billing_run.init) (simp_all add: start0_def empty_app_def)
  show "billing_run [issued0, start0] issued0"
    by (rule billing_run.step [OF s]) (simp add: issued0_def billing_step.invoice idto0_valid)
qed

lemma issued0_row: "\<exists>row. invoices issued0 = [row] \<and> inv_id row = ''0'' \<and> inv_total row = 450000 \<and> inv_status row = UNPAID
    \<and> inv_studentId row = ''s1'' \<and> payments issued0 = [] \<and> students issued0 = [stu0] \<and> appSettings issued0 = [bank0]"
  by (simp add: issued0_def start0_def createInvoice_def live_student_def idto0_def stu0_def check_period_def assertMoneyAmount_def
      is_safe_integer_def MAX_MONEY_AMOUNT_def discount_of_def retry_def numeral_eq_Suc transaction_def create_tx_def
      bindE_def create_invoice_row_def fresh_uuid_def manual_row_def int4_def insert_row_def invoice_uqs_def
      unique_on_def List.map_filter_def period_key_def student_user_def notify_invoice_def returnE_def
      item_uqs_def new_item_def Let_def empty_app_def)

theorem billing_runs_safe_witness:
  "\<exists>past s i. billing_run past s \<and> i \<in> set (invoices s) \<and> settled (payments s) (inv_id i) \<le> inv_total i"
proof -
  obtain i where "i \<in> set (invoices issued0)" using issued0_row by auto
  with billing_runs_safe [OF run0(2) this] run0(2) show ?thesis by blast
qed

lemma settled_count:
  assumes "\<forall>p \<in> set t. pay_invoiceId p = iid \<longrightarrow> pay_amount p = a"
  shows "settled t iid = int (count_rows (\<lambda>p. pay_invoiceId p = iid \<and> pay_status p = SUCCESS) t) * a"
  using assms by (induction t) (auto simp: settled_def count_rows_def algebra_simps)

lemma one_success:
  assumes m: "money_inv s" and i: "i \<in> set (invoices s)" and pos: "0 < inv_total i"
  shows "count_rows (\<lambda>p. pay_invoiceId p = inv_id i \<and> pay_status p = SUCCESS) (payments s) \<le> 1"
proof -
  let ?n = "count_rows (\<lambda>p. pay_invoiceId p = inv_id i \<and> pay_status p = SUCCESS) (payments s)"
  have "\<forall>p \<in> set (payments s). pay_invoiceId p = inv_id i \<longrightarrow> pay_amount p = inv_total i"
    using m i unfolding money_inv_def list_all_iff payment_ok_def by (metis distinct_map inj_on_def)
  then have "settled (payments s) (inv_id i) = int ?n * inv_total i" by (rule settled_count)
  moreover have "invoice_ok (payments s) i" using m i by (simp add: money_inv_def list_all_iff)
  ultimately have "int ?n * inv_total i \<le> 1 * inv_total i" by (simp add: invoice_ok_def)
  then show ?thesis using pos by (simp add: mult_le_cancel_right)
qed

text \<open>
  C2: Along every run, with reads as old as can be, a gateway transaction settles at most once: at
  most one step of the whole run makes a receipt carrying it successful, and no two receipts carry
  it. A receipt seen at any moment of the run is still there, with its recorded transaction, and
  never goes back in the order PENDING, FAILED, SUCCESS, DISPUTED, REFUNDED, so a disputed or
  refunded receipt is never settled again. An invoice with a positive total has at most one
  successful payment.
\<close>

theorem no_double_settlement:
  assumes "billing_run past s"
  shows "settlements txnId past \<le> 1
    \<and> (\<forall>p \<in> set (payments s). \<forall>q \<in> set (payments s). pay_gatewayTxnId p = Some txnId \<longrightarrow> pay_gatewayTxnId q = Some txnId \<longrightarrow> p = q)
    \<and> (\<forall>v \<in> set past. \<forall>p \<in> set (payments v). \<exists>q \<in> set (payments s). pay_id q = pay_id p
        \<and> (pay_gatewayTxnId p = Some txnId \<longrightarrow> pay_gatewayTxnId q = Some txnId)
        \<and> receipt_rank (pay_status p) \<le> receipt_rank (pay_status q))
    \<and> (\<forall>i \<in> set (invoices s). 0 < inv_total i \<longrightarrow>
        count_rows (\<lambda>p. pay_invoiceId p = inv_id i \<and> pay_status p = SUCCESS) (payments s) \<le> 1)"
proof (intro conjI ballI impI)
  have m: "money_inv s" using billing_run_inv [OF assms] by (simp add: billing_inv_def)
  show "settlements txnId past \<le> 1" using settlements_run [OF assms] by simp
  show "p = q" if "p \<in> set (payments s)" "q \<in> set (payments s)" "pay_gatewayTxnId p = Some txnId" "pay_gatewayTxnId q = Some txnId" for p q
    using that by (rule txn_unique [OF m])
  show "\<exists>q \<in> set (payments s). pay_id q = pay_id p \<and> (pay_gatewayTxnId p = Some txnId \<longrightarrow> pay_gatewayTxnId q = Some txnId)
      \<and> receipt_rank (pay_status p) \<le> receipt_rank (pay_status q)" if "v \<in> set past" "p \<in> set (payments v)" for v p
  proof -
    from billing_run_advances [OF assms that(1)] that(2)
    obtain q where "q \<in> set (payments s)" "receipt_le p q" by (rule receipts_le_row)
    then show ?thesis by (intro bexI [of _ q]) (auto simp: receipt_le_def pay_core_def)
  qed
  show "count_rows (\<lambda>p. pay_invoiceId p = inv_id i \<and> pay_status p = SUCCESS) (payments s) \<le> 1"
    if "i \<in> set (invoices s)" "0 < inv_total i" for i
    using m that by (rule one_success)
qed

theorem no_double_settlement_witness:
  "billing_run [issued0, start0] issued0 \<and> settlements ''FT1'' [issued0, start0] \<le> 1
     \<and> (\<exists>i \<in> set (invoices issued0). count_rows (\<lambda>p. pay_invoiceId p = inv_id i \<and> pay_status p = SUCCESS) (payments issued0) \<le> 1)"
proof -
  obtain i where "i \<in> set (invoices issued0)" "0 < inv_total i" using issued0_row by auto
  with no_double_settlement [OF run0(2), of "''FT1''"] run0(2) show ?thesis by blast
qed

end
