(* ===== verification/Webhook.thy ===== *)
theory Webhook
  imports Settlement
begin

text \<open>
  The behaviour of the payment operations branch by branch: deliveries that change nothing,
  deliveries that settle, late and mismatching transfers, forged deliveries, cash, and refunds.
\<close>

section \<open>Claims\<close>

text \<open>The two conditional updates of the payment flow, as instances of the claim interface.\<close>

interpretation cash_claim: claim_guard inv_id payable "\<lambda>i. i\<lparr>inv_status := PAID\<rparr>"
  by unfold_locales (simp_all add: payable_def)

interpretation receipt_claim: claim_guard pay_id open_receipt
    "\<lambda>p. p\<lparr>pay_status := SUCCESS, pay_paidAt := Some now, pay_gatewayTxnId := Some txnId\<rparr>" for now txnId
  by unfold_locales (simp_all add: open_receipt_def)

lemma claim_closed:
  assumes "\<forall>p \<in> set t. pay_id p = pid \<longrightarrow> \<not> open_receipt p" and "list_all (\<lambda>u. unique_on (snd u) t) payment_uqs"
  shows "claim_receipt pid txnId d t = Inr (t, 0)"
proof -
  have w: "\<forall>p \<in> set t. \<not> claimable pid txnId p" using assms(1) by (auto simp: claimable_def)
  have "count_rows (claimable pid txnId) t = 0" using w by simp
  moreover have "check_unique payment_uqs t = Inr t" using assms(2) by (intro check_unique_ok) (simp add: list_all_iff)
  ultimately show ?thesis by (simp add: claim_receipt_def update_many_pair update_rows_none [OF w])
qed

lemma transaction_noop: "f s = (s, Inr v) \<Longrightarrow> transaction f s = (s, Inr v)"
  by (simp add: transaction_def)

lemma app_payments_id: "s\<lparr>payments := payments s\<rparr> = s"
  by simp

text \<open>A receipt that is not open ignores every event.\<close>

lemma apply_event_closed:
  assumes "\<forall>p \<in> set (payments s). pay_id p = pay_id txn \<longrightarrow> \<not> open_receipt p" and "money_inv s"
  shows "apply_event txn ev now s = (s, Inr WhIgnored)"
proof -
  have uq: "list_all (\<lambda>u. unique_on (snd u) (payments s)) payment_uqs" using assms(2) by (simp add: money_inv_def)
  note c = claim_closed [OF assms(1) uq]
  have tr: "transitionReceipt txn t st n s = (s, Inr False)" for t st n
    by (simp add: transitionReceipt_def transition_tx_def transaction_def c)
  have "List.find (expired_receipt (pay_id txn) now) (payments s) = None"
    using assms(1) by (auto simp: find_None_ball expired_receipt_def)
  then have "transaction (settle_tx txn t now) s = (s, Inr WhIgnored)" for t
    by (simp add: transaction_def settle_tx_def c)
  then show ?thesis by (simp add: apply_event_def tr bindE_def settle_audit_def Let_def)
qed

lemma same_receipt:
  assumes "money_inv s" and "payment_version (payments s) txn" and "p \<in> set (payments s)"
  shows "pay_id p = pay_id txn \<longleftrightarrow> pay_orderRef p = pay_orderRef txn"
proof -
  obtain q where q: "q \<in> set (payments s)" "pay_id q = pay_id txn" "pay_orderRef q = pay_orderRef txn"
    using assms(2) by (auto simp: payment_version_def)
  have "distinct (map pay_id (payments s))" "distinct (map pay_orderRef (payments s))"
    using assms(1) by (simp_all add: money_inv_def payment_uqs_def unique_on_total [OF refl])
  then show ?thesis using q assms(3) by (metis distinct_map inj_on_def)
qed

text \<open>
  C5: Once the receipt of an order reference is successful, disputed or refunded, every
  delivery for it, however often and in whatever order it arrives and however old the receipt
  the handler read, is answered as ignored and changes nothing at all.
\<close>

theorem webhook_closed_receipt_noop:
  assumes "billing_run past s" and "v \<in> set past"
    and "gwp_parseEvent gw body = Some ev"
    and "\<forall>p \<in> set (payments s). pay_orderRef p = gev_orderRef ev \<longrightarrow> pay_status p \<in> {SUCCESS, DISPUTED, REFUNDED}"
  shows "fst (handleWebhook gw (payments v) provider hs body now s) = s
    \<and> (provider = gwp_provider gw \<longrightarrow> gwp_verifySignature gw hs body \<longrightarrow>
         snd (handleWebhook gw (payments v) provider hs body now s) = Inr WhIgnored)"
proof -
  have m: "money_inv s" and old: "old_view s v" using billing_run_inv [OF assms(1)] assms(2) by (simp_all add: billing_inv_def)
  have "apply_event txn ev now s = (s, Inr WhIgnored)"
    if "List.find (\<lambda>p. pay_orderRef p = gev_orderRef ev) (payments v) = Some txn" for txn
  proof (rule apply_event_closed [OF _ m])
    have t: "txn \<in> set (payments v)" "pay_orderRef txn = gev_orderRef ev" using find_Some_iff [OF that] by simp_all
    then have "payment_version (payments s) txn" using old by (simp add: old_view_def)
    then show "\<forall>p \<in> set (payments s). pay_id p = pay_id txn \<longrightarrow> \<not> open_receipt p"
      using same_receipt [OF m] assms(4) t(2) by (fastforce simp: open_receipt_def)
  qed
  then show ?thesis using assms(3) by (auto simp: handleWebhook_def split: option.splits)
qed

text \<open>Neither a reported failure nor a wrong amount moves money.\<close>

lemma mismatch_no_money:
  assumes m: "money_inv s" and ev: "gwp_parseEvent gw body = Some ev"
    and mis: "\<not> gev_success ev \<or> (\<forall>p \<in> set view. pay_orderRef p = gev_orderRef ev \<longrightarrow> gev_amount ev \<noteq> JNum (pay_amount p))"
    and run: "handleWebhook gw view provider hs body now s = (s', r)"
  shows "invoices s' = invoices s \<and> (\<forall>iid. settled (payments s') iid = settled (payments s) iid) \<and> r \<noteq> Inr WhSuccess"
proof -
  from handleWebhook_cases [OF run] show ?thesis
  proof
    assume "s' = s \<and> r \<in> {Inl (NotFound ''Not found''), Inl (Unauthorized ''Invalid signature''), Inr WhIgnored}"
    then show ?thesis by auto
  next
    assume "\<exists>ev txn. gwp_verifySignature gw hs body \<and> gwp_parseEvent gw body = Some ev
        \<and> txn \<in> set view \<and> pay_orderRef txn = gev_orderRef ev \<and> apply_event txn ev now s = (s', r)"
    then obtain txn where t: "txn \<in> set view" "pay_orderRef txn = gev_orderRef ev" "apply_event txn ev now s = (s', r)"
      using ev by auto
    have c: "\<not> (gev_success ev \<and> gev_amount ev = JNum (pay_amount txn))" using mis t by auto
    have tr: "invoices u = invoices s \<and> (\<forall>iid. settled (payments u) iid = settled (payments s) iid)"
      if "transitionReceipt txn x st n s = (u, q)" "st \<noteq> SUCCESS" for x st n u q
      using transitionReceipt_money [OF that(1) m that(2)] by simp
    show ?thesis using t(3) c
      by (auto simp: apply_event_def bindE_def Let_def split: prod.splits sum.splits if_splits dest: tr)
  qed
qed

section \<open>Settling a transfer\<close>

lemma claim_receipt_one:
  assumes t: "t = xs @ p # ys" "\<forall>q \<in> set xs \<union> set ys. pay_id q \<noteq> pay_id p"
    and p: "claimable (pay_id p) txnId p" and len: "length txnId \<le> 64"
    and uq: "list_all (\<lambda>u. unique_on (snd u) t) payment_uqs"
    and fresh: "\<forall>q \<in> set t. pay_gatewayTxnId q \<noteq> Some txnId \<or> q = p"
    and d: "pay_id (d p) = pay_id p" "pay_orderRef (d p) = pay_orderRef p"
  shows "claim_receipt (pay_id p) txnId d t = Inr (xs @ (d p)\<lparr>pay_gatewayTxnId := Some txnId\<rparr> # ys, 1)"
proof -
  let ?q = "(d p)\<lparr>pay_gatewayTxnId := Some txnId\<rparr>"
  let ?w = "claimable (pay_id p) txnId"
  have w: "\<forall>q \<in> set xs \<union> set ys. \<not> ?w q" using t(2) by (auto simp: claimable_def)
  have nid: "\<forall>q \<in> set xs \<union> set ys. pay_gatewayTxnId q \<noteq> Some txnId" using fresh t by auto
  have "unique_on pay_gatewayTxnId (xs @ ys)" using uq t(1)
    by (auto simp: payment_uqs_def unique_on_def List.map_filter_def split: if_splits)
  then have u3: "unique_on pay_gatewayTxnId (xs @ ?q # ys)" using nid
    by (auto simp: unique_on_def List.map_filter_def)
  have "unique_on (\<lambda>p. Some (pay_id p)) (xs @ ?q # ys)" "unique_on (\<lambda>p. Some (pay_orderRef p)) (xs @ ?q # ys)"
    using uq d unfolding t(1) payment_uqs_def by (simp_all add: unique_on_total [OF refl])
  with u3 have "check_unique payment_uqs (xs @ ?q # ys) = Inr (xs @ ?q # ys)"
    by (intro check_unique_ok) (simp add: payment_uqs_def)
  then show ?thesis
    using count_rows_at [OF w, of p] update_rows_at [OF w, of "\<lambda>p. (d p)\<lparr>pay_gatewayTxnId := Some txnId\<rparr>" p] p len t(1)
    by (simp add: claim_receipt_def update_many_pair)
qed

lemma transitionReceipt_one:
  assumes inv: "money_inv s" and p: "p \<in> set (payments s)" "pay_id p = pay_id txn" "open_receipt p" "pay_gatewayTxnId p = None"
    and T: "length txnId \<le> 64" "\<forall>q \<in> set (payments s). pay_gatewayTxnId q \<noteq> Some txnId"
  shows "transitionReceipt txn txnId status note s =
    (s\<lparr>payments := update_rows (\<lambda>q. pay_id q = pay_id p)
        (\<lambda>q. q\<lparr>pay_status := status, pay_gatewayTxnId := Some txnId, pay_note := Some note\<rparr>) (payments s)\<rparr>, Inr True)"
proof -
  let ?d = "\<lambda>q. q\<lparr>pay_status := status, pay_gatewayTxnId := Some txnId, pay_note := Some note\<rparr>"
  have uq: "list_all (\<lambda>u. unique_on (snd u) (payments s)) payment_uqs" using inv by (simp add: money_inv_def)
  obtain xs ys where ps: "payments s = xs @ p # ys" "\<forall>q \<in> set xs \<union> set ys. pay_id q \<noteq> pay_id p"
    using split_row [OF money_ids [OF inv] p(1)] by blast
  have cl: "claim_receipt (pay_id p) txnId id (payments s) = Inr (xs @ p\<lparr>pay_gatewayTxnId := Some txnId\<rparr> # ys, 1)"
    using claim_receipt_one [OF ps _ T(1) uq, of id] p T(2) by (simp add: claimable_def)
  have "update_rows (\<lambda>q. pay_id q = pay_id p) ?d (xs @ p\<lparr>pay_gatewayTxnId := Some txnId\<rparr> # ys)
      = update_rows (\<lambda>q. pay_id q = pay_id p) ?d (payments s)"
    using update_rows_at [OF ps(2), of ?d] unfolding ps(1) by simp
  then show ?thesis using cl by (simp add: transitionReceipt_def transition_tx_def transaction_def p(2))
qed

text \<open>The receipt a handler read for an order that is still open: it was open, and of the same amount.\<close>

lemma open_receipt_read:
  assumes "billing_run past s" and "v \<in> set past" and "p \<in> set (payments s)" "open_receipt p" "pay_gatewayTxnId p = None"
    and "\<exists>q \<in> set (payments v). pay_orderRef q = pay_orderRef p"
  shows "\<exists>txn. List.find (\<lambda>q. pay_orderRef q = pay_orderRef p) (payments v) = Some txn \<and> pay_id txn = pay_id p
    \<and> open_receipt txn \<and> pay_gatewayTxnId txn = None \<and> pay_amount txn = pay_amount p"
proof -
  obtain txn where f: "List.find (\<lambda>q. pay_orderRef q = pay_orderRef p) (payments v) = Some txn"
    using assms(6) find_is_Some [of "\<lambda>q. pay_orderRef q = pay_orderRef p" "payments v"] by auto
  then have t: "txn \<in> set (payments v)" "pay_orderRef txn = pay_orderRef p" using find_Some_iff by fastforce+
  from billing_run_advances [OF assms(1,2)] t(1) obtain q where q: "q \<in> set (payments s)" "receipt_le txn q"
    by (rule receipts_le_row)
  have "distinct (map pay_orderRef (payments s))"
    using billing_run_inv [OF assms(1)] by (simp add: billing_inv_def money_inv_def payment_uqs_def unique_on_total [OF refl])
  moreover have "pay_orderRef q = pay_orderRef p" using q(2) t(2) by (simp add: receipt_le_def pay_core_def)
  ultimately have "q = p" using q(1) assms(3) by (metis distinct_map inj_on_def)
  have "receipt_rank (pay_status p) \<le> 1" using assms(4) by (auto simp: open_receipt_def receipt_rank_def)
  then have "receipt_rank (pay_status txn) \<le> 1" using q(2) \<open>q = p\<close> by (simp add: receipt_le_def)
  then have "open_receipt txn" by (cases "pay_status txn") (simp_all add: open_receipt_def receipt_rank_def)
  moreover have "pay_gatewayTxnId txn = None" using q(2) assms(5) \<open>q = p\<close> by (auto simp: receipt_le_def)
  ultimately show ?thesis using f q(2) \<open>q = p\<close> by (auto simp: receipt_le_def pay_core_def)
qed


text \<open>
  C3: A correctly signed report of a successful transfer of the right amount, for a
  pending payment before its expiry, with a transaction id not used before, settles a payable
  invoice: the answer is SUCCESS, the invoice is PAID and its settled amount is its total.
\<close>

theorem webhook_settles:
  assumes "money_inv s" and "p \<in> set (payments s)" and "pay_status p = PENDING" and "pay_gatewayTxnId p = None"
    and "i \<in> set (invoices s)" and "inv_id i = pay_invoiceId p" and "payable i"
    and "gwp_verifySignature gw hs body" and "gwp_parseEvent gw body = Some ev"
    and "gev_orderRef ev = pay_orderRef p" and "gev_success ev" and "gev_amount ev = JNum (pay_amount p)"
    and "length (gev_gatewayTxnId ev) \<le> 64"
    and "\<forall>q \<in> set (payments s). pay_gatewayTxnId q \<noteq> Some (gev_gatewayTxnId ev)"
    and "case pay_expiresAt p of None \<Rightarrow> True | Some t \<Rightarrow> now < t"
  shows "\<exists>s'. handleWebhook gw (payments s) (gwp_provider gw) hs body now s = (s', Inr WhSuccess)
    \<and> money_inv s' \<and> settled (payments s') (inv_id i) = inv_total i
    \<and> find_invoice (inv_id i) (invoices s') = Some (i\<lparr>inv_status := PAID\<rparr>)"
proof -
  let ?T = "gev_gatewayTxnId ev"
  let ?p1 = "p\<lparr>pay_status := SUCCESS, pay_paidAt := Some now, pay_gatewayTxnId := Some ?T\<rparr>"
  have uq: "list_all (\<lambda>u. unique_on (snd u) (payments s)) payment_uqs" using assms(1) by (simp add: money_inv_def)
  have "distinct (map pay_orderRef (payments s))" using uq by (simp add: payment_uqs_def unique_on_total [OF refl])
  then have f: "List.find (\<lambda>q. pay_orderRef q = gev_orderRef ev) (payments s) = Some p"
    using find_key assms(2,10) by metis
  obtain xs ys where ps: "payments s = xs @ p # ys" "\<forall>q \<in> set xs \<union> set ys. pay_id q \<noteq> pay_id p"
    using split_row [OF money_ids [OF assms(1)] assms(2)] by blast
  have di: "distinct (map inv_id (invoices s))" using assms(1) by (simp add: money_inv_def)
  obtain as bs where bills: "invoices s = as @ i # bs" "\<forall>q \<in> set as \<union> set bs. inv_id q \<noteq> inv_id i"
    using split_row [OF di assms(5)] by blast
  have fi: "find_invoice (pay_invoiceId p) (invoices s) = Some i"
    using find_key [OF di assms(5)] assms(6) by (simp add: find_invoice_def)
  have noexp: "List.find (expired_receipt (pay_id p) now) (payments s) = None"
    using ps assms(15) by (auto simp: find_None_ball expired_receipt_def split: option.splits)
  have cl: "claim_receipt (pay_id p) ?T (\<lambda>p. p\<lparr>pay_status := SUCCESS, pay_paidAt := Some now\<rparr>) (payments s) = Inr (xs @ ?p1 # ys, 1)"
    using claim_receipt_one [OF ps _ assms(13) uq, of "\<lambda>p. p\<lparr>pay_status := SUCCESS, pay_paidAt := Some now\<rparr>"] assms(3,4,14)
    by (simp add: claimable_def open_receipt_def)
  let ?s1 = "s\<lparr>payments := xs @ ?p1 # ys\<rparr>"
  let ?s2 = "set_invoice (inv_id i) (\<lambda>i. i\<lparr>inv_status := PAID\<rparr>) ?s1"
  have iok: "invoice_ok (payments s) i" and am: "pay_amount p = inv_total i"
    using assms(1,2,5,6) unfolding money_inv_def list_all_iff payment_ok_def by (simp, metis distinct_map inj_on_def)
  have set1: "settled (xs @ ?p1 # ys) (inv_id i) = inv_total i"
    using settled_replace [of ?p1 p xs ys "inv_id i"] iok assms(3,6,7) am ps(1) by (simp add: worth_def invoice_ok_def)
  have sc: "settle_claimed p ?s1 = (?s2, Inr WhSuccess)"
    using fi set1 assms(6,7) by (auto simp: settle_claimed_def payable_def)
  have st: "settle_tx p ?T now s = (?s2, Inr WhSuccess)" using noexp cl sc by (simp add: settle_tx_def)
  then have run: "handleWebhook gw (payments s) (gwp_provider gw) hs body now s = (settle_audit p WhSuccess ?s2, Inr WhSuccess)"
    using assms(3,8,9,11,12) f by (simp add: handleWebhook_def apply_event_def transaction_def Let_def)
  have "money_inv ?s2"
    using settle_tx_money [OF st assms(1)] assms(2) by (auto simp: payment_version_def)
  moreover have i2: "invoices ?s2 = as @ i\<lparr>inv_status := PAID\<rparr> # bs" "payments ?s2 = xs @ ?p1 # ys"
    using set_invoice_at [of ?s1 as i bs, where d = "\<lambda>i. i\<lparr>inv_status := PAID\<rparr>"] bills by simp_all
  moreover have "find_invoice (inv_id i) (as @ i\<lparr>inv_status := PAID\<rparr> # bs) = Some (i\<lparr>inv_status := PAID\<rparr>)"
    unfolding find_invoice_def by (rule find_at) (use bills(2) in auto)
  ultimately show ?thesis using run set1 by (simp add: settle_audit_def)
qed

text \<open>
  A transfer that arrives after the QR code expired is never settled automatically: the
  receipt is flagged as disputed, no invoice changes and no settled amount changes.
\<close>

theorem webhook_late_transfer_flagged:
  assumes "money_inv s" and "p \<in> set (payments s)" and "pay_status p = PENDING" and "pay_gatewayTxnId p = None"
    and "gwp_verifySignature gw hs body" and "gwp_parseEvent gw body = Some ev"
    and "gev_orderRef ev = pay_orderRef p" and "gev_success ev" and "gev_amount ev = JNum (pay_amount p)"
    and "length (gev_gatewayTxnId ev) \<le> 64"
    and "\<forall>q \<in> set (payments s). pay_gatewayTxnId q \<noteq> Some (gev_gatewayTxnId ev)"
    and "pay_expiresAt p = Some t" and "t \<le> now"
  shows "\<exists>s'. handleWebhook gw (payments s) (gwp_provider gw) hs body now s = (s', Inr WhFlagged)
    \<and> invoices s' = invoices s \<and> (\<forall>iid. settled (payments s') iid = settled (payments s) iid)
    \<and> (\<exists>q \<in> set (payments s'). pay_id q = pay_id p \<and> pay_status q = DISPUTED)"
proof -
  let ?T = "gev_gatewayTxnId ev"
  let ?d = "\<lambda>p. p\<lparr>pay_status := DISPUTED, pay_paidAt := Some now, pay_note := Some late_note\<rparr>"
  have uq: "list_all (\<lambda>u. unique_on (snd u) (payments s)) payment_uqs" using assms(1) by (simp add: money_inv_def)
  have "distinct (map pay_orderRef (payments s))" using uq by (simp add: payment_uqs_def unique_on_total [OF refl])
  then have f: "List.find (\<lambda>q. pay_orderRef q = gev_orderRef ev) (payments s) = Some p"
    using find_key assms(2,7) by metis
  obtain xs ys where ps: "payments s = xs @ p # ys" "\<forall>q \<in> set xs \<union> set ys. pay_id q \<noteq> pay_id p"
    using split_row [OF money_ids [OF assms(1)] assms(2)] by blast
  have exp: "List.find (expired_receipt (pay_id p) now) (payments s) \<noteq> None"
    unfolding find_is_Some using assms(2,3,12,13) by (auto simp: expired_receipt_def open_receipt_def)
  let ?q = "(?d p)\<lparr>pay_gatewayTxnId := Some ?T\<rparr>"
  have cl: "claim_receipt (pay_id p) ?T ?d (payments s) = Inr (xs @ ?q # ys, 1)"
    using claim_receipt_one [OF ps _ assms(10) uq, of ?d] assms(3,4,11) by (simp add: claimable_def open_receipt_def)
  let ?s1 = "s\<lparr>payments := xs @ ?q # ys\<rparr>"
  have "settle_tx p ?T now s = (?s1, Inr WhFlagged)" using exp cl by (simp add: settle_tx_def)
  then have "handleWebhook gw (payments s) (gwp_provider gw) hs body now s = (settle_audit p WhFlagged ?s1, Inr WhFlagged)"
    using assms(3,5,6,8,9) f by (simp add: handleWebhook_def apply_event_def transaction_def Let_def)
  moreover have "settled (xs @ ?q # ys) iid = settled (payments s) iid" for iid
    using settled_replace [of ?q p xs ys iid] assms(3) ps(1) by (simp add: worth_def)
  ultimately show ?thesis by (intro exI [of _ "settle_audit p WhFlagged ?s1"]) (simp add: settle_audit_def)
qed

section \<open>Forged deliveries\<close>

context signed_port
begin

text \<open>The webhook of a flow that uses the port: without the right MAC nothing happens.\<close>

lemma forged_delivery:
  assumes "\<forall>m. signed_part body = Some m \<longrightarrow> signature_of h body \<noteq> Some (mac m)"
  shows "handleWebhook port view (gwp_provider port) h body now s = (s, Inl (Unauthorized ''Invalid signature''))"
  using assms by (auto simp: handleWebhook_def verify_iff)

lemma foreign_provider:
  assumes "provider \<noteq> gwp_provider port"
  shows "handleWebhook port view provider h body now s = (s, Inl (NotFound ''Not found''))"
  using assms by (simp add: handleWebhook_def)

end

section \<open>Cash\<close>

lemma cash_tx_paid:
  assumes "distinct (map inv_id (invoices s))" and "find_invoice iid (invoices s) = Some i" and "\<not> payable i"
  shows "cash_tx caller iid amount note bytes now s = (s, Inl (Conflict ''Invoice is already paid or not payable''))"
proof -
  obtain as bs where a: "invoices s = as @ i # bs" "\<forall>q \<in> set as \<union> set bs. inv_id q \<noteq> inv_id i" "inv_id i = iid" "i \<in> set (invoices s)"
    by (rule find_invoice_split [OF assms(1,2)])
  let ?w = "\<lambda>i. inv_id i = iid \<and> payable i"
  have w: "\<forall>q \<in> set (invoices s). \<not> ?w q" using a assms(3) by auto
  have "update_many ?w d (invoices s) = (invoices s, 0)" for d
    unfolding update_many_pair update_rows_none [OF w] using w by simp
  then show ?thesis using assms(2) by (simp add: cash_tx_def)
qed

lemma confirmCash_Inr:
  assumes "confirmCash view caller iid note bytes now s = (s', Inr v)" and "find_invoice iid view = Some bill"
  shows "\<exists>s1 p detail. cash_tx caller iid (inv_total bill) note bytes now s = (s1, Inr p)
    \<and> s' = record_audit (Some (cal_id caller)) ''payment_confirmed_cash'' None True detail s1 \<and> v = serializePayment p"
proof -
  obtain s1 r where t: "transaction (cash_tx caller iid (inv_total bill) note bytes now) s = (s1, r)" by (meson prod.exhaust)
  with assms obtain p where "r = Inr p" by (cases r) (auto simp: confirmCash_def bindE_def)
  with t have tx: "cash_tx caller iid (inv_total bill) note bytes now s = (s1, Inr p)" by (simp add: transaction_Inr)
  have "\<exists>detail. s' = record_audit (Some (cal_id caller)) ''payment_confirmed_cash'' None True detail s1" "v = serializePayment p"
    using assms t \<open>r = Inr p\<close> by (auto simp: confirmCash_def bindE_def)
  with tx show ?thesis by blast
qed

text \<open>
  C19: Confirming cash settles a payable invoice in full: it becomes PAID, one
  successful CASH payment of its total is recorded, and a second confirmation of the same
  invoice, even one that read the invoice before the first, is refused and changes no table.
\<close>

theorem confirmCash_once:
  assumes "money_inv s" and "i \<in> set (invoices s)"
    and "confirmCash (invoices s) caller (inv_id i) note bytes now s = (s', Inr v)"
    and "find_invoice (inv_id i) view = Some i'"
  shows "payable i \<and> money_inv s' \<and> settled (payments s') (inv_id i) = inv_total i
    \<and> pvw_status v = SUCCESS \<and> pvw_gateway v = CASH \<and> pvw_amount v = inv_total i
    \<and> snd (confirmCash view caller' (inv_id i) note' bytes' now' s') = Inl (Conflict ''Invoice is already paid or not payable'')
    \<and> same_db (fst (confirmCash view caller' (inv_id i) note' bytes' now' s')) s'"
proof -
  have di: "distinct (map inv_id (invoices s))" using assms(1) by (simp add: money_inv_def)
  have fi: "find_invoice (inv_id i) (invoices s) = Some i" using find_key [OF di assms(2)] by (simp add: find_invoice_def)
  obtain s1 p detail where tx: "cash_tx caller (inv_id i) (inv_total i) note bytes now s = (s1, Inr p)"
    and s': "s' = record_audit (Some (cal_id caller)) ''payment_confirmed_cash'' None True detail s1" "v = serializePayment p"
    using confirmCash_Inr [OF assms(3) fi] by blast
  have m1: "money_inv s1 \<and> settled (payments s1) (inv_id i) = inv_total i"
    using cash_tx_money [OF tx assms(1)] assms(2) by (auto simp: invoice_version_def)
  have pay: "payable i" using cash_tx_paid [OF di fi] tx by fastforce
  obtain as bs where a: "invoices s = as @ i # bs" "\<forall>q \<in> set as \<union> set bs. inv_id q \<noteq> inv_id i"
    using split_row [OF di assms(2)] by blast
  let ?w = "\<lambda>j. inv_id j = inv_id i \<and> payable j"
  have w: "\<forall>q \<in> set as \<union> set bs. \<not> ?w q" using a(2) by auto
  have run: "create_payment (cash_row caller (inv_id i) (generateOrderRef bytes) (inv_total i) note now)
      (s\<lparr>invoices := as @ i\<lparr>inv_status := PAID\<rparr> # bs\<rparr>) = (s1, Inr p)"
    using tx fi count_rows_at [OF w, of i] update_rows_at [OF w, of "\<lambda>i. i\<lparr>inv_status := PAID\<rparr>" i] a(1) pay
    by (simp add: cash_tx_def update_many_pair)
  obtain pid where p: "p = cash_row caller (inv_id i) (generateOrderRef bytes) (inv_total i) note now pid"
      "invoices s1 = as @ i\<lparr>inv_status := PAID\<rparr> # bs"
    using create_payment_Inr [OF run] by auto
  have inv': "invoices s' = as @ i\<lparr>inv_status := PAID\<rparr> # bs" using s'(1) p(2) by simp
  have "find_invoice (inv_id i) (invoices s') = Some (i\<lparr>inv_status := PAID\<rparr>)"
    unfolding find_invoice_def inv' by (rule find_at) (use a(2) in auto)
  moreover have "distinct (map inv_id (invoices s'))" using di by (simp add: inv' a(1))
  moreover have "\<not> payable (i\<lparr>inv_status := PAID\<rparr>)" by (simp add: payable_def)
  ultimately have "cash_tx caller' (inv_id i) (inv_total i') note' bytes' now' s' = (s', Inl (Conflict ''Invoice is already paid or not payable''))"
    by (intro cash_tx_paid)
  then have "confirmCash view caller' (inv_id i) note' bytes' now' s' = (rollback s' s', Inl (Conflict ''Invoice is already paid or not payable''))"
    using assms(4) by (simp add: confirmCash_def transaction_def bindE_def)
  then show ?thesis using pay m1 by (simp add: s' p(1) serializePayment_def cash_row_def)
qed

section \<open>Refunds\<close>

text \<open>
  Refunding or disputing the successful payment of a paid invoice with a positive
  total reopens it: the invoice is UNPAID again and nothing is settled; the payment itself
  is no longer successful. A payment that is pending or failed cannot be refunded.
\<close>

theorem setOutcome_reopens:
  assumes "money_inv s" and "p \<in> set (payments s)" and "pay_status p = SUCCESS"
    and "i \<in> set (invoices s)" and "inv_id i = pay_invoiceId p" and "inv_status i = PAID" and "0 < inv_total i"
  shows "\<exists>s' v. setOutcome caller (pay_id p) oc note s = (s', Inr v) \<and> pvw_status v = outcome_status oc
    \<and> money_inv s' \<and> settled (payments s') (inv_id i) = 0
    \<and> find_invoice (inv_id i) (invoices s') = Some (i\<lparr>inv_status := UNPAID\<rparr>)"
proof -
  let ?d = "\<lambda>q. q\<lparr>pay_status := outcome_status oc, pay_note := (if note = None then pay_note p else note)\<rparr>"
  have fp: "List.find (\<lambda>q. pay_id q = pay_id p) (payments s) = Some p" by (rule find_key [OF money_ids [OF assms(1)] assms(2)])
  obtain xs ys where ps: "payments s = xs @ p # ys" "\<forall>q \<in> set xs \<union> set ys. pay_id q \<noteq> pay_id p"
    by (rule split_row [OF money_ids [OF assms(1)] assms(2)])
  have di: "distinct (map inv_id (invoices s))" using assms(1) by (simp add: money_inv_def)
  obtain as bs where bills: "invoices s = as @ i # bs" "\<forall>q \<in> set as \<union> set bs. inv_id q \<noteq> inv_id i"
    by (rule split_row [OF di assms(4)])
  let ?s1 = "set_payment (pay_id p) ?d s" and ?r = "\<lambda>i. i\<lparr>inv_status := UNPAID\<rparr>"
  have s1: "payments ?s1 = xs @ ?d p # ys" "invoices ?s1 = as @ i # bs"
    using set_payment_at [OF ps, where d = ?d] bills(1) by simp_all
  have iok: "invoice_ok (payments s) i" and am: "pay_amount p = inv_total i"
    using assms(1,2,4,5) unfolding money_inv_def list_all_iff payment_ok_def by (simp, metis distinct_map inj_on_def)
  have wd: "worth (?d p) = 0" by (cases oc) (simp_all add: worth_def outcome_status_def)
  have z: "settled (payments ?s1) (inv_id i) = 0"
    using settled_replace [of "?d p" p xs ys "inv_id i"] iok assms(3,5,6) am wd by (simp add: s1(1) ps(1) worth_def invoice_ok_def)
  have fi: "find_invoice (pay_invoiceId p) (invoices ?s1) = Some i"
    unfolding find_invoice_def s1(2) by (rule find_at) (use bills(2) assms(5) in auto)
  have rc: "recomputeInvoiceStatus (pay_invoiceId p) ?s1 = set_invoice (inv_id i) ?r ?s1"
    using fi z assms(5,6,7) by (simp add: recomputeInvoiceStatus_def)
  have tx: "outcome_tx (pay_id p) oc note s = (set_invoice (inv_id i) ?r ?s1, Inr (?d p))"
    using fp assms(3) rc by (simp add: outcome_tx_def Let_def)
  have "money_inv (set_invoice (inv_id i) ?r ?s1)" by (rule outcome_tx_money [OF tx assms(1)])
  moreover have "payments (set_invoice (inv_id i) ?r ?s1) = payments ?s1"
    and iv: "invoices (set_invoice (inv_id i) ?r ?s1) = as @ ?r i # bs"
    using set_invoice_at [OF s1(2) bills(2), where d = ?r] by simp_all
  moreover have "find_invoice (inv_id i) (invoices (set_invoice (inv_id i) ?r ?s1)) = Some (?r i)"
    unfolding find_invoice_def iv by (rule find_at) (use bills(2) in auto)
  ultimately show ?thesis using z tx
    by (simp add: setOutcome_def bindE_def transaction_def serializePayment_def)
qed

section \<open>Witnesses\<close>

definition bytes0 :: "nat list" where
  "bytes0 = replicate 8 0"

definition bill0 :: invoice where
  "bill0 = manual_row admin0 idto0 500000 50000 0 ''INV-1970-0001'' 0 ''i1''"

definition pend0 :: payment where
  "pend0 = qr_row ''i1'' ''VVAAAAAAAA'' BANK_TRANSFER 450000 1800000 0 ''p1''"

definition event0 :: gateway_event where
  "event0 = \<lparr> gev_orderRef = ''VVAAAAAAAA'', gev_gatewayTxnId = ''T1'', gev_amount = JNum 450000, gev_success = True \<rparr>"

text \<open>A provider that reports one transfer, whatever it is asked.\<close>

definition port0 :: gateway_port where
  "port0 = \<lparr> gwp_provider = ''simulated'', gwp_createPayment = (\<lambda>r. Inr \<lparr> gwc_checkoutUrl = gwr_orderRef r, gwc_qrCodeDataUrl = None \<rparr>),
     gwp_verifySignature = (\<lambda>_ _. True), gwp_parseEvent = (\<lambda>_. Some event0) \<rparr>"

definition due0 :: app where
  "due0 = empty_app\<lparr>students := [stu0], invoices := [bill0], payments := [pend0]\<rparr>"

definition paid0 :: app where
  "paid0 = due0\<lparr>invoices := [bill0\<lparr>inv_status := PAID\<rparr>], payments := [pend0\<lparr>pay_status := SUCCESS\<rparr>]\<rparr>"

lemmas sample_defs = due0_def paid0_def bill0_def pend0_def event0_def port0_def manual_row_def idto0_def qr_row_def

lemma due0_inv: "money_inv due0" "money_inv paid0"
  by (simp_all add: sample_defs money_inv_def payment_uqs_def unique_on_def List.map_filter_def payment_ok_def
      invoice_ok_def settled_def payable_def)

theorem webhook_settles_witness:
  "\<exists>s'. handleWebhook port0 (payments due0) (gwp_provider port0) (\<lambda>_. []) ''{}'' 60000 due0 = (s', Inr WhSuccess)
     \<and> settled (payments s') (inv_id bill0) = inv_total bill0"
proof -
  have p: "pend0 \<in> set (payments due0)" "pay_status pend0 = PENDING" "pay_gatewayTxnId pend0 = None"
    and i: "bill0 \<in> set (invoices due0)" "inv_id bill0 = pay_invoiceId pend0" "payable bill0"
    and g: "gwp_verifySignature port0 (\<lambda>_. []) ''{}''" "gwp_parseEvent port0 ''{}'' = Some event0"
      "gev_orderRef event0 = pay_orderRef pend0" "gev_success event0" "gev_amount event0 = JNum (pay_amount pend0)"
      "length (gev_gatewayTxnId event0) \<le> 64" "\<forall>q \<in> set (payments due0). pay_gatewayTxnId q \<noteq> Some (gev_gatewayTxnId event0)"
      "case pay_expiresAt pend0 of None \<Rightarrow> True | Some t \<Rightarrow> 60000 < t"
    by (simp_all add: sample_defs payable_def)
  from webhook_settles [OF due0_inv(1) p i g] show ?thesis by blast
qed

theorem webhook_late_transfer_flagged_witness:
  "\<exists>s'. handleWebhook port0 (payments due0) (gwp_provider port0) (\<lambda>_. []) ''{}'' 1800000 due0 = (s', Inr WhFlagged)
     \<and> invoices s' = invoices due0"
proof -
  have p: "pend0 \<in> set (payments due0)" "pay_status pend0 = PENDING" "pay_gatewayTxnId pend0 = None"
    and g: "gwp_verifySignature port0 (\<lambda>_. []) ''{}''" "gwp_parseEvent port0 ''{}'' = Some event0"
      "gev_orderRef event0 = pay_orderRef pend0" "gev_success event0" "gev_amount event0 = JNum (pay_amount pend0)"
      "length (gev_gatewayTxnId event0) \<le> 64" "\<forall>q \<in> set (payments due0). pay_gatewayTxnId q \<noteq> Some (gev_gatewayTxnId event0)"
      "pay_expiresAt pend0 = Some 1800000" "(1800000 :: int) \<le> 1800000"
    by (simp_all add: sample_defs)
  from webhook_late_transfer_flagged [OF due0_inv(1) p g] show ?thesis by blast
qed

theorem setOutcome_reopens_witness:
  "\<exists>s' v. setOutcome admin0 ''p1'' OutRefunded None paid0 = (s', Inr v) \<and> settled (payments s') ''i1'' = 0"
proof -
  let ?p = "pend0\<lparr>pay_status := SUCCESS\<rparr>" and ?i = "bill0\<lparr>inv_status := PAID\<rparr>"
  have "?p \<in> set (payments paid0)" "pay_status ?p = SUCCESS" "?i \<in> set (invoices paid0)" "inv_id ?i = pay_invoiceId ?p"
      "inv_status ?i = PAID" "0 < inv_total ?i"
    by (simp_all add: sample_defs)
  from setOutcome_reopens [OF due0_inv(2) this, of admin0 OutRefunded None] show ?thesis
    by (auto simp: bill0_def manual_row_def pend0_def qr_row_def)
qed

lemma paid0_run:
  "billing_run [fst (confirmCash (invoices issued0) admin0 ''0'' None bytes0 5 issued0), issued0, start0]
     (fst (confirmCash (invoices issued0) admin0 ''0'' None bytes0 5 issued0))"
  by (rule billing_run.step [OF run0(2)], rule billing_step.cash) simp

lemma cash_single:
  assumes "invoices s = [row]" and "payable row" and "payments s = []"
  shows "\<exists>s' v. confirmCash (invoices s) caller (inv_id row) note bytes now s = (s', Inr v) \<and> map pay_status (payments s') = [SUCCESS]"
  using assms
  by (simp add: confirmCash_def find_invoice_def cash_tx_def update_many_def create_payment_def fresh_uuid_def
      insert_row_def payment_uqs_def unique_on_def List.map_filter_def transaction_def bindE_def cash_row_def)

lemma cash0_run: "\<exists>s v. confirmCash (invoices issued0) admin0 ''0'' None bytes0 5 issued0 = (s, Inr v)
    \<and> billing_run [s, issued0, start0] s \<and> map pay_status (payments s) = [SUCCESS]"
proof -
  obtain row where "invoices issued0 = [row]" "inv_id row = ''0''" "payable row" "payments issued0 = []"
    using issued0_row by (auto simp: payable_def)
  then obtain s v where r: "confirmCash (invoices issued0) admin0 ''0'' None bytes0 5 issued0 = (s, Inr v)" "map pay_status (payments s) = [SUCCESS]"
    using cash_single [of issued0 row admin0 None bytes0 5] by auto
  moreover have "billing_run [fst (confirmCash (invoices issued0) admin0 ''0'' None bytes0 5 issued0), issued0, start0]
     (fst (confirmCash (invoices issued0) admin0 ''0'' None bytes0 5 issued0))"
    by (rule billing_run.step [OF run0(2)], rule billing_step.cash) simp
  ultimately show ?thesis by auto
qed

theorem webhook_closed_receipt_noop_witness:
  "\<exists>s. payments s \<noteq> [] \<and> fst (handleWebhook port0 (payments issued0) ''simulated'' (\<lambda>_. []) ''{}'' 60000 s) = s"
proof -
  obtain s where s: "billing_run [s, issued0, start0] s" "map pay_status (payments s) = [SUCCESS]" using cash0_run by (elim exE conjE)
  have "gwp_parseEvent port0 ''{}'' = Some event0" by (simp add: port0_def)
  moreover have "\<forall>p \<in> set (payments s). pay_orderRef p = gev_orderRef event0 \<longrightarrow> pay_status p \<in> {SUCCESS, DISPUTED, REFUNDED}"
    using s(2) by auto
  ultimately have "fst (handleWebhook port0 (payments issued0) ''simulated'' (\<lambda>_. []) ''{}'' 60000 s) = s"
    using webhook_closed_receipt_noop [OF s(1), of issued0 port0 "''{}''" event0] by simp
  moreover have "payments s \<noteq> []" using s(2) by auto
  ultimately show ?thesis by blast
qed

lemma qr_single:
  assumes "invoices s = [row]" and "payable row" and "payments s = []" and "inv_studentId row = ''s1''"
    and "students s = [stu0]" and "appSettings s = [bank0]"
  shows "\<exists>s' v p. createQrPayment port0 (invoices s) admin0 (inv_id row) bytes now s = (s', Inr v)
    \<and> payments s' = [p] \<and> pay_amount p = inv_total row \<and> pay_orderRef p = generateOrderRef bytes
    \<and> pay_status p = PENDING \<and> pay_gatewayTxnId p = None"
  using assms
  by (simp add: createQrPayment_def find_invoice_def assertCanAccess_def canAccess_def live_student_def stu0_def admin0_def
      assertBankAccountConfigured_def bank0_def truthy_def port0_def qr_tx_def create_payment_def fresh_uuid_def
      insert_row_def payment_uqs_def unique_on_def List.map_filter_def transaction_def bindE_def qr_row_def Let_def)

definition port1 :: gateway_port where
  "port1 = port0\<lparr>gwp_parseEvent := (\<lambda>_. Some (event0\<lparr>gev_amount := JNum 1000\<rparr>))\<rparr>"


theorem confirmCash_once_witness:
  "\<exists>s v. confirmCash (invoices issued0) admin0 ''0'' None bytes0 5 issued0 = (s, Inr v)
     \<and> snd (confirmCash (invoices issued0) admin0 ''0'' None bytes0 6 s) = Inl (Conflict ''Invoice is already paid or not payable'')"
proof -
  obtain s v where r: "confirmCash (invoices issued0) admin0 ''0'' None bytes0 5 issued0 = (s, Inr v)" using cash0_run by (elim exE conjE)
  obtain row where row: "invoices issued0 = [row]" "inv_id row = ''0''" using issued0_row by auto
  have "money_inv issued0" using billing_run_inv [OF run0(2)] by (simp add: billing_inv_def)
  from confirmCash_once [OF this, of row admin0 None bytes0 5 s v "invoices issued0" row] r row show ?thesis
    by (simp add: find_invoice_def)
qed

end
