(* ===== verification/Gateways.thy ===== *)
theory Gateways
  imports Webhook "HOL-Library.Char_ord" "HOL-Library.List_Lexorder"
begin

text \<open>
  The two adapters of the payment port, \<^verbatim>\<open>src/billing/simulated.gateway.ts\<close> and
  \<^verbatim>\<open>src/billing/payos.gateway.ts\<close>. The keyed hash, \<^verbatim>\<open>JSON.parse\<close>, \<^verbatim>\<open>JSON.stringify\<close> and the HTTP
  call are arguments. Both adapters satisfy the law of \<open>signed_port\<close>, so the lemmas of the
  webhook about forged deliveries hold for both.
\<close>

section \<open>The simulated gateway\<close>

definition simulated_signature :: "headers \<Rightarrow> string \<Rightarrow> string option" where
  "simulated_signature h rawBody = (case h ''x-signature'' of [] \<Rightarrow> None | v # _ \<Rightarrow> Some v)"

definition simulated_verify ::
  "(string \<Rightarrow> string \<Rightarrow> string) \<Rightarrow> string option \<Rightarrow> headers \<Rightarrow> string \<Rightarrow> bool" where
  "simulated_verify hmac secret h rawBody =
     (case (secret, simulated_signature h rawBody) of
        (Some key, Some provided) \<Rightarrow>
          let expected = hmac key rawBody in length expected = length provided \<and> expected = provided
      | _ \<Rightarrow> False)"

definition simulated_parse :: "(string \<Rightarrow> json option) \<Rightarrow> string \<Rightarrow> gateway_event option" where
  "simulated_parse json_parse rawBody = (case json_parse rawBody of
       None \<Rightarrow> None
     | Some JNull \<Rightarrow> None
     | Some parsed \<Rightarrow>
         (case (json_get parsed ''orderRef'', json_get parsed ''gatewayTxnId'', json_get parsed ''amount'') of
            (Some (JStr ref), Some (JStr txn), Some (JNum n)) \<Rightarrow>
              Some \<lparr> gev_orderRef = ref, gev_gatewayTxnId = txn, gev_amount = JNum n,
                     gev_success = (json_get parsed ''success'' = Some (JBool True)) \<rparr>
          | (Some (JStr ref), Some (JStr txn), Some (JFrac n t)) \<Rightarrow>
              Some \<lparr> gev_orderRef = ref, gev_gatewayTxnId = txn, gev_amount = JFrac n t,
                     gev_success = (json_get parsed ''success'' = Some (JBool True)) \<rparr>
          | _ \<Rightarrow> None))"

definition SimulatedGateway ::
  "(string \<Rightarrow> string \<Rightarrow> string) \<Rightarrow> (string \<Rightarrow> json option) \<Rightarrow> string option \<Rightarrow> gateway_port" where
  "SimulatedGateway hmac json_parse secret =
     \<lparr> gwp_provider = ''simulated'',
       gwp_createPayment = (\<lambda>r. Inr \<lparr> gwc_checkoutUrl = ''/api/v1/payments/simulated/'' @ gwr_orderRef r, gwc_qrCodeDataUrl = None \<rparr>),
       gwp_verifySignature = simulated_verify hmac secret,
       gwp_parseEvent = simulated_parse json_parse \<rparr>"

interpretation simulated_port: signed_port "SimulatedGateway hmac json_parse (Some key)" "hmac key" Some simulated_signature
  for hmac json_parse key
proof
  fix h body
  show "gwp_verifySignature (SimulatedGateway hmac json_parse (Some key)) h body \<longleftrightarrow>
      (\<exists>m. Some body = Some m \<and> simulated_signature h body = Some (hmac key m))"
    by (auto simp: SimulatedGateway_def simulated_verify_def Let_def split: option.splits)
qed

text \<open>Without a configured secret every delivery is refused.\<close>

lemma simulated_unconfigured: "\<not> gwp_verifySignature (SimulatedGateway hmac json_parse None) h body"
  by (simp add: SimulatedGateway_def simulated_verify_def)

section \<open>payOS: order codes and references\<close>

definition alphabet_index :: "char \<Rightarrow> nat option" where
  "alphabet_index c = (let i = length (takeWhile (\<lambda>d. d \<noteq> c) ORDER_ALPHABET) in
     if i < length ORDER_ALPHABET then Some i else None)"

fun order_code_loop :: "nat \<Rightarrow> string \<Rightarrow> nat option" where
  "order_code_loop code [] = Some code"
| "order_code_loop code (c # cs) = (case alphabet_index c of
       None \<Rightarrow> None | Some i \<Rightarrow> order_code_loop (code * 32 + i) cs)"

text \<open>\<^term>\<open>None\<close> is the thrown error.\<close>

definition orderRefToOrderCode :: "string \<Rightarrow> nat option" where
  "orderRefToOrderCode orderRef = map_option Suc (order_code_loop 0 (drop 2 orderRef))"

text \<open>The first match of \<^verbatim>\<open>/VV[A-HJ-NP-Z2-9]{8}/\<close>.\<close>

definition match_here :: "string \<Rightarrow> string option" where
  "match_here t = (if take 2 t = ''VV'' \<and> length (take 10 t) = 10 \<and> list_all (\<lambda>c. c \<in> set ORDER_ALPHABET) (drop 2 (take 10 t))
     then Some (take 10 t) else None)"

fun order_ref_exec :: "string \<Rightarrow> string option" where
  "order_ref_exec [] = match_here []"
| "order_ref_exec (c # t) = (case match_here (c # t) of Some m \<Rightarrow> Some m | None \<Rightarrow> order_ref_exec t)"

lemma alphabet_nth:
  "i < 32 \<Longrightarrow> alphabet_index (ORDER_ALPHABET ! i) = Some i" "i < 32 \<Longrightarrow> ORDER_ALPHABET ! i \<in> set ORDER_ALPHABET"
proof -
  have a: "\<forall>i \<in> {0..<32}. alphabet_index (ORDER_ALPHABET ! i) = Some i" by code_simp
  then show "i < 32 \<Longrightarrow> alphabet_index (ORDER_ALPHABET ! i) = Some i" by simp
  have "length ORDER_ALPHABET = 32" by (simp add: ORDER_ALPHABET_def)
  then show "i < 32 \<Longrightarrow> ORDER_ALPHABET ! i \<in> set ORDER_ALPHABET" by simp
qed

lemma alphabet_length [simp]: "length ORDER_ALPHABET = 32"
  by (simp add: ORDER_ALPHABET_def)

lemma alphabet_index_Some:
  assumes "alphabet_index c = Some i"
  shows "i < 32 \<and> ORDER_ALPHABET ! i = c"
proof -
  let ?i = "length (takeWhile (\<lambda>d. d \<noteq> c) ORDER_ALPHABET)"
  have i: "i = ?i" "?i < length ORDER_ALPHABET" using assms by (auto simp: alphabet_index_def Let_def split: if_splits)
  then show ?thesis using nth_length_takeWhile [of "\<lambda>d. d \<noteq> c" ORDER_ALPHABET] by simp
qed

text \<open>The code is the base-32 value of the characters.\<close>

lemma order_code_inj:
  assumes "order_code_loop a s = Some n" and "order_code_loop b t = Some n" and "length s = length t" 
  shows "s = t \<and> a = b"
  using assms
proof (induction s arbitrary: a b t)
  case Nil
  then show ?case by simp
next
  case (Cons c cs a b t)
  obtain d ds where t: "t = d # ds" using Cons.prems(3) by (cases t) auto
  obtain i j where ij: "alphabet_index c = Some i" "alphabet_index d = Some j"
    using Cons.prems(1,2) t by (auto split: option.splits)
  have "order_code_loop (a * 32 + i) cs = Some n" "order_code_loop (b * 32 + j) ds = Some n" "length cs = length ds"
    using Cons.prems t ij by auto
  from Cons.IH [OF this] have IH: "cs = ds" "a * 32 + i = b * 32 + j" by auto
  note b = alphabet_index_Some [OF ij(1)] alphabet_index_Some [OF ij(2)]
  have "i = (a * 32 + i) mod 32" "j = (b * 32 + j) mod 32" using b by simp_all
  then have "i = j" using IH(2) by simp
  then show ?case using IH b t by auto
qed

lemma order_code_bound:
  assumes "order_code_loop a s = Some n"
  shows "n < (a + 1) * 32 ^ length s"
  using assms
proof (induction s arbitrary: a)
  case (Cons c cs a)
  obtain i where i: "alphabet_index c = Some i" using Cons.prems by (auto split: option.splits)
  have "i < 32" using alphabet_index_Some [OF i] by simp
  have "n < (a * 32 + i + 1) * 32 ^ length cs" using Cons i by simp
  also have "\<dots> \<le> ((a + 1) * 32) * 32 ^ length cs" using \<open>i < 32\<close> by (intro mult_right_mono) simp_all
  finally show ?case by (simp add: algebra_simps)
qed simp

lemma order_code_total:
  assumes "\<forall>c \<in> set s. c \<in> set ORDER_ALPHABET"
  shows "\<exists>n. order_code_loop a s = Some n"
  using assms
proof (induction s arbitrary: a)
  case (Cons c cs a)
  then obtain i where "i < 32" "c = ORDER_ALPHABET ! i" by (metis alphabet_length in_set_conv_nth list.set_intros(1))
  then show ?case using Cons alphabet_nth(1) by simp
qed simp

lemma generateOrderRef_shape:
  "generateOrderRef bytes = ''VV'' @ drop 2 (generateOrderRef bytes)"
  "length (generateOrderRef bytes) = 2 + length bytes"
  "\<forall>c \<in> set (drop 2 (generateOrderRef bytes)). c \<in> set ORDER_ALPHABET"
  using alphabet_nth(2) by (auto simp: generateOrderRef_def)
text \<open>
  The numeric order code payOS needs is defined for every generated order
  reference, lies between 1 and 2^40, and different references have different codes, so a
  reference and its code correspond one to one.
\<close>

theorem orderRefToOrderCode_injective:
  assumes "length bytes = 8" and "length bytes' = 8"
  shows "\<exists>n n'. orderRefToOrderCode (generateOrderRef bytes) = Some n \<and> orderRefToOrderCode (generateOrderRef bytes') = Some n'
    \<and> 1 \<le> n \<and> n \<le> 2 ^ 40 \<and> (n = n' \<longleftrightarrow> generateOrderRef bytes = generateOrderRef bytes')"
proof -
  note sh = generateOrderRef_shape
  obtain m m' where m: "order_code_loop 0 (drop 2 (generateOrderRef bytes)) = Some m"
    "order_code_loop 0 (drop 2 (generateOrderRef bytes')) = Some m'"
    using order_code_total [OF sh(3)] by blast
  have "m < (0 + 1) * 32 ^ length (drop 2 (generateOrderRef bytes))" by (rule order_code_bound [OF m(1)])
  then have b: "m < 2 ^ 40" using assms(1) by (simp add: sh(2))
  have "m = m' \<longleftrightarrow> generateOrderRef bytes = generateOrderRef bytes'"
  proof
    assume "m = m'"
    then have "drop 2 (generateOrderRef bytes) = drop 2 (generateOrderRef bytes')"
      using order_code_inj [OF m(1)] m(2) assms by (simp add: sh(2))
    then show "generateOrderRef bytes = generateOrderRef bytes'" using sh(1) by metis
  qed (use m in simp)
  then show ?thesis using m b by (simp add: orderRefToOrderCode_def)
qed

theorem orderRefToOrderCode_injective_witness:
  "\<exists>n n'. orderRefToOrderCode (generateOrderRef [0, 0, 0, 0, 0, 0, 0, 1]) = Some n
     \<and> orderRefToOrderCode (generateOrderRef [0, 0, 0, 0, 0, 0, 0, 2]) = Some n' \<and> n \<noteq> n'"
proof -
  have "generateOrderRef [0, 0, 0, 0, 0, 0, 0, 1] \<noteq> generateOrderRef [0, 0, 0, 0, 0, 0, 0, 2]" by code_simp
  with orderRefToOrderCode_injective [of "[0, 0, 0, 0, 0, 0, 0, 1]" "[0, 0, 0, 0, 0, 0, 0, 2]"] show ?thesis by auto
qed

lemma match_here_ref:
  assumes "length bytes = 8"
  shows "match_here (generateOrderRef bytes @ post) = Some (generateOrderRef bytes)"
proof -
  let ?r = "generateOrderRef bytes"
  have l: "length ?r = 10" using assms by (simp add: generateOrderRef_shape(2))
  then have t: "take 10 (?r @ post) = ?r" "take 2 ?r = ''VV''" "take 2 (?r @ post) = ''VV''"
    by (simp_all add: generateOrderRef_def)
  show ?thesis using l generateOrderRef_shape(3) [of bytes] by (simp add: match_here_def t list_all_iff)
qed

lemma order_ref_exec_desc:
  assumes "length bytes = 8"
  shows "order_ref_exec (''Vovinam fee '' @ generateOrderRef bytes @ post) = Some (generateOrderRef bytes)"
proof -
  have skip: "order_ref_exec (c # t) = order_ref_exec t" if "c \<noteq> CHR ''V'' \<or> take 1 t \<noteq> ''V''" for c t
    using that by (cases t) (auto simp: match_here_def)
  have at: "order_ref_exec (generateOrderRef bytes @ post) = Some (generateOrderRef bytes)"
  proof (cases "generateOrderRef bytes @ post")
    case Nil
    then show ?thesis by (simp add: generateOrderRef_def)
  next
    case (Cons c t)
    then show ?thesis using match_here_ref [OF assms, of post] by simp
  qed
  show ?thesis by (simp add: skip at del: order_ref_exec.simps)
qed

text \<open>
  The order reference survives the transfer: the pattern applied to the description the
  service sends, with anything a bank appends to it, finds exactly the reference of the payment.
\<close>

theorem order_ref_roundtrip:
  assumes "length bytes = 8"
  shows "order_ref_exec (''Vovinam fee '' @ generateOrderRef bytes @ post) = Some (generateOrderRef bytes)"
  by (rule order_ref_exec_desc [OF assms])

theorem order_ref_roundtrip_witness:
  "order_ref_exec ''Vovinam fee VVABCDEFGH FT123'' = Some ''VVABCDEFGH''"
proof -
  have e: "generateOrderRef [0, 1, 2, 3, 4, 5, 6, 7] = ''VVABCDEFGH''" by code_simp
  have "length [0, 1, 2, 3, 4, 5, 6, 7 :: nat] = 8" by simp
  from order_ref_roundtrip [OF this, of "'' FT123''"] show ?thesis unfolding e by (simp del: order_ref_exec.simps)
qed

section \<open>payOS: signatures and requests\<close>

definition object_keys :: "json \<Rightarrow> string list" where
  "object_keys v = (case v of JObj kvs \<Rightarrow> remdups (map fst kvs) | JArr xs \<Rightarrow> map show_nat [0..<length xs] | _ \<Rightarrow> [])"

definition property :: "json \<Rightarrow> string \<Rightarrow> json" where
  "property v k = (case v of
       JArr xs \<Rightarrow> (case map_of (zip (map show_nat [0..<length xs]) xs) k of None \<Rightarrow> JNull | Some x \<Rightarrow> x)
     | _ \<Rightarrow> (case json_get v k of None \<Rightarrow> JNull | Some x \<Rightarrow> x))"

text \<open>Elements of an array that are objects get their keys sorted.\<close>

definition sort_entry :: "json \<Rightarrow> json" where
  "sort_entry e = (case e of
       JObj _ \<Rightarrow> JObj (map (\<lambda>k. (k, property e k)) (sort (object_keys e)))
     | JArr _ \<Rightarrow> JObj (map (\<lambda>k. (k, property e k)) (sort (object_keys e)))
     | _ \<Rightarrow> e)"

text \<open>\<^verbatim>\<open>String(value)\<close>; an array never reaches it (it was stringified before).\<close>

definition js_String :: "json \<Rightarrow> string" where
  "js_String v = (case v of JNull \<Rightarrow> ''null'' | JBool b \<Rightarrow> show_bool b | JNum n \<Rightarrow> show_int n | JFrac _ t \<Rightarrow> t
     | JStr t \<Rightarrow> t | JArr _ \<Rightarrow> [] | JObj _ \<Rightarrow> ''[object Object]'')"

definition canonical_value :: "(json \<Rightarrow> string) \<Rightarrow> json \<Rightarrow> string" where
  "canonical_value stringify v =
     (let v' = (case v of JArr xs \<Rightarrow> JStr (stringify (JArr (map sort_entry xs))) | _ \<Rightarrow> v) in
      if v' = JNull \<or> v' = JStr ''undefined'' \<or> v' = JStr ''null'' then [] else js_String v')"

fun join :: "string \<Rightarrow> string list \<Rightarrow> string" where
  "join sep [] = []"
| "join sep [x] = x"
| "join sep (x # y # zs) = x @ sep @ join sep (y # zs)"

definition payosCanonicalString :: "(json \<Rightarrow> string) \<Rightarrow> json \<Rightarrow> string" where
  "payosCanonicalString stringify data =
     join ''&'' (map (\<lambda>k. k @ ''='' @ canonical_value stringify (property data k)) (sort (object_keys data)))"

text \<open>\<^verbatim>\<open>parseWebhookBody\<close>: the data object and the signature, if the body is an object with data.\<close>

definition parseWebhookBody :: "(string \<Rightarrow> json option) \<Rightarrow> string \<Rightarrow> (json \<times> json option) option" where
  "parseWebhookBody json_parse rawBody = (case json_parse rawBody of
       None \<Rightarrow> None
     | Some parsed \<Rightarrow> (case json_get parsed ''data'' of
           Some (JObj kvs) \<Rightarrow> Some (JObj kvs, json_get parsed ''signature'')
         | _ \<Rightarrow> None))"

definition payos_signature :: "(string \<Rightarrow> json option) \<Rightarrow> headers \<Rightarrow> string \<Rightarrow> string option" where
  "payos_signature json_parse h rawBody = (case parseWebhookBody json_parse rawBody of
       Some (_, Some (JStr t)) \<Rightarrow> Some t | _ \<Rightarrow> None)"

definition payos_verify ::
  "(string \<Rightarrow> string \<Rightarrow> string) \<Rightarrow> (string \<Rightarrow> json option) \<Rightarrow> (json \<Rightarrow> string) \<Rightarrow> string \<Rightarrow> headers \<Rightarrow> string \<Rightarrow> bool" where
  "payos_verify hmac json_parse stringify key h rawBody = (case parseWebhookBody json_parse rawBody of
       Some (data, Some (JStr signature)) \<Rightarrow>
         let expected = hmac key (payosCanonicalString stringify data) in length expected = length signature \<and> expected = signature
     | _ \<Rightarrow> False)"

definition nonempty_str :: "json option \<Rightarrow> string option" where
  "nonempty_str v = (case v of Some (JStr t) \<Rightarrow> if t = [] then None else Some t | _ \<Rightarrow> None)"

definition payos_parse :: "(string \<Rightarrow> json option) \<Rightarrow> string \<Rightarrow> gateway_event option" where
  "payos_parse json_parse rawBody = (case parseWebhookBody json_parse rawBody of
       None \<Rightarrow> None
     | Some (data, _) \<Rightarrow>
         let description = (case json_get data ''description'' of Some (JStr t) \<Rightarrow> t | _ \<Rightarrow> []);
             gatewayTxnId = (case nonempty_str (json_get data ''reference'') of
                 Some t \<Rightarrow> Some t | None \<Rightarrow> nonempty_str (json_get data ''paymentLinkId'')) in
         (case (order_ref_exec description, gatewayTxnId, json_get data ''amount'') of
            (Some ref, Some txn, Some (JNum n)) \<Rightarrow>
              Some \<lparr> gev_orderRef = ref, gev_gatewayTxnId = txn, gev_amount = JNum n,
                     gev_success = (json_get data ''code'' = Some (JStr ''00'')) \<rparr>
          | _ \<Rightarrow> None))"

record payos_env =
  pse_checksumKey :: string
  pse_clientId :: string
  pse_apiKey :: string
  pse_returnUrl :: string
  pse_cancelUrl :: string

record http_response =
  hrs_ok :: bool
  hrs_json :: "json option"

definition signPaymentRequest :: "(string \<Rightarrow> string \<Rightarrow> string) \<Rightarrow> payos_env \<Rightarrow> int \<Rightarrow> string \<Rightarrow> nat \<Rightarrow> string" where
  "signPaymentRequest hmac env amount description orderCode = hmac (pse_checksumKey env)
     (''amount='' @ show_int amount @ ''&cancelUrl='' @ pse_cancelUrl env @ ''&description='' @ description @
      ''&orderCode='' @ show_nat orderCode @ ''&returnUrl='' @ pse_returnUrl env)"

definition payos_body :: "(string \<Rightarrow> string \<Rightarrow> string) \<Rightarrow> payos_env \<Rightarrow> gateway_request \<Rightarrow> nat \<Rightarrow> json" where
  "payos_body hmac env req code = JObj
     [(''orderCode'', JNum (int code)), (''amount'', JNum (gwr_amount req)), (''description'', JStr (gwr_description req)),
      (''returnUrl'', JStr (pse_returnUrl env)), (''cancelUrl'', JStr (pse_cancelUrl env)),
      (''expiredAt'', JNum (gwr_expiresAt req div 1000)),
      (''signature'', JStr (signPaymentRequest hmac env (gwr_amount req) (gwr_description req) code))]"

text \<open>The HTTP call answers with a response or fails (\<^term>\<open>None\<close>).\<close>

definition payos_create ::
  "(string \<Rightarrow> string \<Rightarrow> string) \<Rightarrow> (json \<Rightarrow> string) \<Rightarrow> (payos_env \<Rightarrow> string \<Rightarrow> http_response option) \<Rightarrow> payos_env \<Rightarrow>
     gateway_request \<Rightarrow> gateway_checkout res" where
  "payos_create hmac stringify http env req =
     (if order_ref_exec (gwr_description req) = None
      then Inl (OtherError (''description must carry the orderRef for '' @ gwr_orderRef req))
      else case orderRefToOrderCode (gwr_orderRef req) of
        None \<Rightarrow> Inl (OtherError (''orderRef is not payOS-encodable: '' @ gwr_orderRef req))
      | Some code \<Rightarrow> (case http env (stringify (payos_body hmac env req code)) of
            None \<Rightarrow> Inl (ServiceUnavailable ''Payment gateway is unavailable'')
          | Some response \<Rightarrow>
              let payload = (case hrs_json response of None \<Rightarrow> JNull | Some v \<Rightarrow> v);
                  dat = property payload ''data'' in
              (case (hrs_ok response \<and> json_get payload ''code'' = Some (JStr ''00''), json_get dat ''checkoutUrl'') of
                 (True, Some (JStr url)) \<Rightarrow>
                   Inr \<lparr> gwc_checkoutUrl = url, gwc_qrCodeDataUrl = nonempty_str (json_get dat ''qrCode'') \<rparr>
               | _ \<Rightarrow> Inl (ServiceUnavailable ''Payment gateway rejected the payment request''))))"

definition PayosGateway ::
  "(string \<Rightarrow> string \<Rightarrow> string) \<Rightarrow> (string \<Rightarrow> json option) \<Rightarrow> (json \<Rightarrow> string) \<Rightarrow>
     (payos_env \<Rightarrow> string \<Rightarrow> http_response option) \<Rightarrow> payos_env \<Rightarrow> gateway_port" where
  "PayosGateway hmac json_parse stringify http env =
     \<lparr> gwp_provider = ''payos'', gwp_createPayment = payos_create hmac stringify http env,
       gwp_verifySignature = payos_verify hmac json_parse stringify (pse_checksumKey env),
       gwp_parseEvent = payos_parse json_parse \<rparr>"

interpretation payos_port: signed_port "PayosGateway hmac json_parse stringify http env" "hmac (pse_checksumKey env)"
    "\<lambda>body. map_option (\<lambda>p. payosCanonicalString stringify (fst p)) (parseWebhookBody json_parse body)"
    "payos_signature json_parse"
  for hmac json_parse stringify http env
proof
  fix h body
  show "gwp_verifySignature (PayosGateway hmac json_parse stringify http env) h body \<longleftrightarrow>
      (\<exists>m. map_option (\<lambda>p. payosCanonicalString stringify (fst p)) (parseWebhookBody json_parse body) = Some m
        \<and> payos_signature json_parse h body = Some (hmac (pse_checksumKey env) m))"
    by (auto simp: PayosGateway_def payos_verify_def payos_signature_def Let_def split: option.splits prod.splits json.splits)
qed

section \<open>Properties\<close>

text \<open>
  C6: Whoever does not know the key cannot make the webhook do anything: with either
  provider, a delivery whose signature is not the MAC of what is signed (the raw body, or the
  canonical form of the data payOS sends) answers 401 and leaves the application as it was.
\<close>

theorem forged_webhook_rejected:
  "(simulated_signature h body \<noteq> Some (hmac key body) \<longrightarrow>
      handleWebhook (SimulatedGateway hmac json_parse (Some key)) view ''simulated'' h body now s
        = (s, Inl (Unauthorized ''Invalid signature'')))
   \<and> ((\<forall>data sig. parseWebhookBody json_parse body = Some (data, sig) \<longrightarrow>
          sig \<noteq> Some (JStr (hmac (pse_checksumKey env) (payosCanonicalString stringify data)))) \<longrightarrow>
      handleWebhook (PayosGateway hmac json_parse stringify http env) view ''payos'' h body now s
        = (s, Inl (Unauthorized ''Invalid signature'')))"
proof (intro conjI impI)
  assume "simulated_signature h body \<noteq> Some (hmac key body)"
  then show "handleWebhook (SimulatedGateway hmac json_parse (Some key)) view ''simulated'' h body now s
      = (s, Inl (Unauthorized ''Invalid signature''))"
    using simulated_port.forged_delivery [of body h hmac key json_parse view now s] by (simp add: SimulatedGateway_def)
next
  assume f: "\<forall>data sig. parseWebhookBody json_parse body = Some (data, sig) \<longrightarrow>
      sig \<noteq> Some (JStr (hmac (pse_checksumKey env) (payosCanonicalString stringify data)))"
  have "\<forall>m. map_option (\<lambda>p. payosCanonicalString stringify (fst p)) (parseWebhookBody json_parse body) = Some m \<longrightarrow>
      payos_signature json_parse h body \<noteq> Some (hmac (pse_checksumKey env) m)"
    using f by (auto simp: payos_signature_def split: option.splits json.splits)
  from payos_port.forged_delivery [where hmac = hmac and env = env and http = http and view = view and now = now and s = s, OF this]
  show "handleWebhook (PayosGateway hmac json_parse stringify http env) view ''payos'' h body now s
      = (s, Inl (Unauthorized ''Invalid signature''))" by (simp add: PayosGateway_def)
qed

theorem forged_webhook_rejected_witness:
  "handleWebhook (SimulatedGateway (\<lambda>k m. k @ m) (\<lambda>_. None) (Some ''secret'')) (payments due0) ''simulated'' (\<lambda>_. [''forged'']) ''{}'' 0 due0
     = (due0, Inl (Unauthorized ''Invalid signature''))"
  using forged_webhook_rejected [of "\<lambda>_. [''forged'']" "''{}''" "\<lambda>k m. k @ m" "''secret''"]
  by (simp add: simulated_signature_def)

text \<open>
  For the requests the service makes (a generated reference, embedded in the description),
  the payOS adapter keeps the contract of the port: it returns a checkout or throws the
  service-unavailable error, whatever the provider answers, and never an internal error; a
  checkout is returned only for an accepted answer.
\<close>

theorem payos_create_contract:
  assumes "length bytes = 8" and "gwr_orderRef req = generateOrderRef bytes"
    and "gwr_description req = ''Vovinam fee '' @ generateOrderRef bytes"
  shows "(\<forall>e. payos_create hmac stringify http env req = Inl e \<longrightarrow> (\<exists>m. e = ServiceUnavailable m))
    \<and> (\<forall>c. payos_create hmac stringify http env req = Inr c \<longrightarrow>
         (\<exists>code response payload. orderRefToOrderCode (gwr_orderRef req) = Some code
            \<and> http env (stringify (payos_body hmac env req code)) = Some response \<and> hrs_ok response
            \<and> hrs_json response = Some payload \<and> json_get payload ''code'' = Some (JStr ''00'')))"
proof -
  have d: "order_ref_exec (gwr_description req) = Some (generateOrderRef bytes)"
    using order_ref_exec_desc [OF assms(1), of "[]"] assms(3) by simp
  obtain n where "orderRefToOrderCode (gwr_orderRef req) = Some n"
    using order_code_total [OF generateOrderRef_shape(3)] assms(2) by (fastforce simp: orderRefToOrderCode_def)
  with d show ?thesis
    by (auto simp: payos_create_def Let_def split: option.splits if_splits json.splits bool.splits)
qed

definition payos_env0 :: payos_env where
  "payos_env0 = \<lparr> pse_checksumKey = ''k'', pse_clientId = ''c'', pse_apiKey = ''a'', pse_returnUrl = ''r'', pse_cancelUrl = ''x'' \<rparr>"

definition request0 :: gateway_request where
  "request0 = \<lparr> gwr_orderRef = generateOrderRef bytes0, gwr_amount = 450000,
     gwr_description = ''Vovinam fee '' @ generateOrderRef bytes0, gwr_expiresAt = 0 \<rparr>"

theorem payos_create_contract_witness:
  "\<exists>m. payos_create (\<lambda>k m. k @ m) (\<lambda>_. []) (\<lambda>_ _. None) payos_env0 request0 = Inl (ServiceUnavailable m)"
proof -
  let ?r = "payos_create (\<lambda>k m. k @ m) (\<lambda>_. []) (\<lambda>_ _. None) payos_env0 request0"
  have "length bytes0 = 8" "gwr_orderRef request0 = generateOrderRef bytes0"
      "gwr_description request0 = ''Vovinam fee '' @ generateOrderRef bytes0"
    by (simp_all add: bytes0_def request0_def)
  note c = payos_create_contract [OF this, of "\<lambda>k m. k @ m" "\<lambda>_. []" "\<lambda>_ _. None" payos_env0]
  show ?thesis
  proof (cases ?r)
    case (Inl e)
    then show ?thesis using c by blast
  next
    case (Inr v)
    then show ?thesis using c by auto
  qed
qed

end
