(* ===== verification/Shared_Store.thy ===== *)
theory Shared_Store
  imports Database
begin

text \<open>
  The key-value store with expiry of \<^verbatim>\<open>src/common/shared-store.ts\<close> (\<^verbatim>\<open>InMemorySharedStore\<close>), which
  holds the token denylist, the failure buckets and the rate counters. The operations take
  the clock reading as an argument. A read removes an expired entry, so it returns the store
  too. The interface the clients rely on is the locale \<open>ttl_store\<close>: every operation is
  described by its effect on the \<^emph>\<open>view\<close>, the entries that are alive at an instant.
\<close>

type_synonym store = "string \<rightharpoonup> store_entry"

section \<open>The in-memory store\<close>

definition entry_expired :: "instant \<Rightarrow> store_entry \<Rightarrow> bool" where
  "entry_expired now e = (case se_expiresAt e of None \<Rightarrow> False | Some x \<Rightarrow> x \<le> now)"

definition getEntry :: "instant \<Rightarrow> string \<Rightarrow> store \<Rightarrow> store_entry option \<times> store" where
  "getEntry now key m = (case m key of
       None \<Rightarrow> (None, m)
     | Some e \<Rightarrow> if entry_expired now e then (None, m(key := None)) else (Some e, m))"

definition store_get :: "instant \<Rightarrow> string \<Rightarrow> store \<Rightarrow> store_value option \<times> store" where
  "store_get now key m = (let (e, m') = getEntry now key m in (map_option se_value e, m'))"

definition store_set :: "instant \<Rightarrow> string \<Rightarrow> store_value \<Rightarrow> int option \<Rightarrow> store \<Rightarrow> store" where
  "store_set now key v ttlMs m =
     m(key \<mapsto> \<lparr> se_value = v, se_expiresAt = map_option (\<lambda>t. now + t) ttlMs \<rparr>)"

definition store_delete :: "string \<Rightarrow> store \<Rightarrow> store" where
  "store_delete key m = m(key := None)"

definition store_increment :: "instant \<Rightarrow> string \<Rightarrow> int option \<Rightarrow> store \<Rightarrow> int \<times> store" where
  "store_increment now key ttlMs m =
     (let (entry, m') = getEntry now key m;
          current = (case entry of Some e \<Rightarrow> (case se_value e of SNum n \<Rightarrow> n | _ \<Rightarrow> 0) | None \<Rightarrow> 0);
          nxt = current + 1;
          exp = (case entry of
                   Some e \<Rightarrow> (case se_expiresAt e of
                       Some x \<Rightarrow> Some x | None \<Rightarrow> map_option (\<lambda>t. now + t) ttlMs)
                 | None \<Rightarrow> map_option (\<lambda>t. now + t) ttlMs)
      in (nxt, m'(key \<mapsto> \<lparr> se_value = SNum nxt, se_expiresAt = exp \<rparr>)))"

definition store_sweep :: "instant \<Rightarrow> store \<Rightarrow> store" where
  "store_sweep now m = (\<lambda>k. case m k of Some e \<Rightarrow> if entry_expired now e then None else Some e | None \<Rightarrow> None)"

section \<open>The interface\<close>

definition alive :: "instant \<Rightarrow> store_entry \<Rightarrow> store_entry option" where
  "alive t e = (if entry_expired t e then None else Some e)"

locale ttl_store =
  fixes get :: "instant \<Rightarrow> string \<Rightarrow> 'st \<Rightarrow> store_value option \<times> 'st"
    and put :: "instant \<Rightarrow> string \<Rightarrow> store_value \<Rightarrow> int option \<Rightarrow> 'st \<Rightarrow> 'st"
    and del :: "string \<Rightarrow> 'st \<Rightarrow> 'st"
    and incr :: "instant \<Rightarrow> string \<Rightarrow> int option \<Rightarrow> 'st \<Rightarrow> int \<times> 'st"
    and view :: "instant \<Rightarrow> 'st \<Rightarrow> string \<Rightarrow> store_entry option"
  assumes get_result: "fst (get now k st) = map_option se_value (view now st k)"
    and get_view: "now \<le> t \<Longrightarrow> view t (snd (get now k st)) = view t st"
    and put_view: "view t (put now k v ttl st) =
          (view t st)(k := alive t \<lparr> se_value = v, se_expiresAt = map_option (\<lambda>d. now + d) ttl \<rparr>)"
    and del_view: "view t (del k st) = (view t st)(k := None)"
    and incr_fresh: "view now st k = None \<Longrightarrow> fst (incr now k ttl st) = 1"
    and incr_fresh_view: "view now st k = None \<Longrightarrow> now \<le> t \<Longrightarrow>
          view t (snd (incr now k ttl st)) =
            (view t st)(k := alive t \<lparr> se_value = SNum 1, se_expiresAt = map_option (\<lambda>d. now + d) ttl \<rparr>)"
    and incr_live: "view now st k = Some \<lparr> se_value = SNum n, se_expiresAt = Some x \<rparr> \<Longrightarrow>
          fst (incr now k ttl st) = n + 1"
    and incr_live_view: "view now st k = Some \<lparr> se_value = SNum n, se_expiresAt = Some x \<rparr> \<Longrightarrow>
          now \<le> t \<Longrightarrow> view t (snd (incr now k ttl st)) =
            (view t st)(k := alive t \<lparr> se_value = SNum (n + 1), se_expiresAt = Some x \<rparr>)"
    and view_later: "view t st k = Some e \<Longrightarrow> t \<le> t' \<Longrightarrow> view t' st k = alive t' e"
begin

text \<open>A run of increments of one key at the given instants: the values returned.\<close>

fun incr_run :: "string \<Rightarrow> int option \<Rightarrow> instant list \<Rightarrow> 'st \<Rightarrow> int list \<times> 'st" where
  "incr_run k ttl [] st = ([], st)"
| "incr_run k ttl (t # ts) st =
     (let (n, st1) = incr t k ttl st; (ns, st2) = incr_run k ttl ts st1 in (n # ns, st2))"

lemma incr_run_live:
  assumes "view now st k = Some \<lparr> se_value = SNum n, se_expiresAt = Some x \<rparr>"
    and "sorted (now # ts)" and "\<forall>t \<in> set ts. t < x"
  shows "fst (incr_run k ttl ts st) = map (\<lambda>i. n + 1 + int i) [0..<length ts]"
  using assms
proof (induction ts arbitrary: now n st)
  case (Cons t ts)
  have "view t st k = alive t \<lparr> se_value = SNum n, se_expiresAt = Some x \<rparr>"
    using Cons.prems(2) by (intro view_later [OF Cons.prems(1)]) auto
  then have v: "view t st k = Some \<lparr> se_value = SNum n, se_expiresAt = Some x \<rparr>"
    using Cons.prems(3) by (simp add: alive_def entry_expired_def)
  let ?st = "snd (incr t k ttl st)"
  have "view t ?st k = Some \<lparr> se_value = SNum (n + 1), se_expiresAt = Some x \<rparr>"
    using incr_live_view [OF v, of t ttl] Cons.prems(3) by (simp add: alive_def entry_expired_def)
  then have IH: "fst (incr_run k ttl ts ?st) = map (\<lambda>i. n + 1 + 1 + int i) [0..<length ts]"
    using Cons.prems by (intro Cons.IH [of t]) auto
  have "map (\<lambda>i. n + 1 + 1 + int i) [0..<length ts] = map (\<lambda>i. n + 1 + int i) [1..<Suc (length ts)]"
    by (simp add: map_Suc_upt [symmetric] comp_def algebra_simps del: upt_Suc)
  moreover have "[0..<Suc (length ts)] = 0 # [1..<Suc (length ts)]" by (simp add: upt_rec)
  ultimately show ?case using IH incr_live [OF v, of ttl]
    by (simp add: Let_def split_beta del: upt_Suc)
qed simp

text \<open>
  A fixed window: from the first increment of an absent key, the increments before the
  window ends return 1, 2, 3, and so on.
\<close>

lemma incr_run_window:
  assumes "view t0 st k = None" and "sorted (t0 # ts)" and "\<forall>t \<in> set ts. t < t0 + ttl" and "0 < ttl"
  shows "fst (incr_run k (Some ttl) (t0 # ts) st) = map (\<lambda>i. 1 + int i) [0..<Suc (length ts)]"
proof -
  let ?st = "snd (incr t0 k (Some ttl) st)"
  have "view t0 ?st k = Some \<lparr> se_value = SNum 1, se_expiresAt = Some (t0 + ttl) \<rparr>"
    using incr_fresh_view [OF assms(1), of t0 "Some ttl"] assms(4)
    by (simp add: alive_def entry_expired_def)
  then have "fst (incr_run k (Some ttl) ts ?st) = map (\<lambda>i. 1 + 1 + int i) [0..<length ts]"
    using assms by (intro incr_run_live) auto
  moreover have "map (\<lambda>i. 1 + 1 + int i) [0..<length ts] = map (\<lambda>i. 1 + int i) [1..<Suc (length ts)]"
    by (simp add: map_Suc_upt [symmetric] comp_def algebra_simps del: upt_Suc)
  moreover have "[0..<Suc (length ts)] = 0 # [1..<Suc (length ts)]" by (simp add: upt_rec)
  ultimately show ?thesis using incr_fresh [OF assms(1), of "Some ttl"]
    by (simp add: Let_def split_beta del: upt_Suc)
qed

text \<open>A value put with a time to live is read back until it expires, and not afterwards.\<close>

lemma get_put:
  "now \<le> t \<Longrightarrow> fst (get t k (put now k v (Some ttl) st)) = (if t < now + ttl then Some v else None)"
  by (simp add: get_result put_view alive_def entry_expired_def)

lemma get_put_other:
  "k \<noteq> k' \<Longrightarrow> fst (get t k (put now k' v ttl st)) = fst (get t k st)"
  by (simp add: get_result put_view)

lemma get_del: "fst (get t k (del k st)) = None"
  by (simp add: get_result del_view)

end

section \<open>The in-memory store implements the interface\<close>

definition store_view :: "instant \<Rightarrow> store \<Rightarrow> string \<Rightarrow> store_entry option" where
  "store_view t m k = (case m k of None \<Rightarrow> None | Some e \<Rightarrow> alive t e)"

lemma entry_expired_mono: "entry_expired now e \<Longrightarrow> now \<le> t \<Longrightarrow> entry_expired t e"
  by (auto simp: entry_expired_def split: option.splits)

lemma getEntry_eq:
  "getEntry now k m = (store_view now m k, if store_view now m k = None then m(k := None) else m)"
  by (auto simp: getEntry_def store_view_def alive_def fun_eq_iff split: option.splits)

interpretation mem_store: ttl_store store_get store_set store_delete store_increment store_view
proof
  fix now t t' :: instant and k k' :: string and st :: store and v ttl n x e
  show "fst (store_get now k st) = map_option se_value (store_view now st k)"
    by (simp add: store_get_def getEntry_eq)
  show "now \<le> t \<Longrightarrow> store_view t (snd (store_get now k st)) = store_view t st"
    by (auto simp: store_get_def getEntry_def store_view_def alive_def fun_eq_iff
        dest: entry_expired_mono split: option.splits)
  show "store_view t (store_set now k v ttl st) =
      (store_view t st)(k := alive t \<lparr> se_value = v, se_expiresAt = map_option (\<lambda>d. now + d) ttl \<rparr>)"
    by (simp add: store_set_def store_view_def fun_eq_iff)
  show "store_view t (store_delete k st) = (store_view t st)(k := None)"
    by (simp add: store_delete_def store_view_def fun_eq_iff)
  show "store_view now st k = None \<Longrightarrow> fst (store_increment now k ttl st) = 1"
    by (simp add: store_increment_def getEntry_eq)
  show "store_view now st k = None \<Longrightarrow> now \<le> t \<Longrightarrow>
      store_view t (snd (store_increment now k ttl st)) =
        (store_view t st)(k := alive t \<lparr> se_value = SNum 1, se_expiresAt = map_option (\<lambda>d. now + d) ttl \<rparr>)"
    by (simp add: store_increment_def getEntry_eq store_view_def fun_eq_iff Let_def)
  show "store_view now st k = Some \<lparr> se_value = SNum n, se_expiresAt = Some x \<rparr> \<Longrightarrow>
      fst (store_increment now k ttl st) = n + 1"
    by (simp add: store_increment_def getEntry_eq Let_def)
  show "store_view now st k = Some \<lparr> se_value = SNum n, se_expiresAt = Some x \<rparr> \<Longrightarrow> now \<le> t \<Longrightarrow>
      store_view t (snd (store_increment now k ttl st)) =
        (store_view t st)(k := alive t \<lparr> se_value = SNum (n + 1), se_expiresAt = Some x \<rparr>)"
    by (simp add: store_increment_def getEntry_eq store_view_def fun_eq_iff Let_def)
  show "store_view t st k = Some e \<Longrightarrow> t \<le> t' \<Longrightarrow> store_view t' st k = alive t' e"
    by (auto simp: store_view_def alive_def split: option.splits if_splits)
qed

lemma sweep_view: "now \<le> t \<Longrightarrow> store_view t (store_sweep now m) = store_view t m"
  by (auto simp: store_sweep_def store_view_def alive_def fun_eq_iff
      dest: entry_expired_mono split: option.splits)

section \<open>Refinement of a plain map\<close>

text \<open>
  The operations as requests with their answers, and the specification: a plain map from keys to
  entries, without expired entries and without sweeps. What time takes away is removed from the
  map before a request is served (\<^term>\<open>store_view\<close> at the instant of the request).
\<close>

datatype store_op = OpGet string | OpSet string store_value "int option" | OpDelete string
  | OpIncrement string "int option" | OpSweep

datatype store_answer = Found "store_value option" | Count int | Done

definition store_step :: "instant \<Rightarrow> store_op \<Rightarrow> store \<Rightarrow> store_answer \<times> store" where
  "store_step now req m = (case req of
       OpGet k \<Rightarrow> map_prod Found id (store_get now k m)
     | OpSet k v ttl \<Rightarrow> (Done, store_set now k v ttl m)
     | OpDelete k \<Rightarrow> (Done, store_delete k m)
     | OpIncrement k ttl \<Rightarrow> map_prod Count id (store_increment now k ttl m)
     | OpSweep \<Rightarrow> (Done, store_sweep now m))"

definition next_count :: "store_entry option \<Rightarrow> int" where
  "next_count e = (case map_option se_value e of Some (SNum n) \<Rightarrow> n + 1 | _ \<Rightarrow> 1)"

definition window_end :: "instant \<Rightarrow> int option \<Rightarrow> store_entry option \<Rightarrow> instant option" where
  "window_end now ttl e = (case Option.bind e se_expiresAt of Some x \<Rightarrow> Some x | None \<Rightarrow> map_option (\<lambda>d. now + d) ttl)"

definition map_step :: "instant \<Rightarrow> store_op \<Rightarrow> (string \<rightharpoonup> store_entry) \<Rightarrow> store_answer \<times> (string \<rightharpoonup> store_entry)" where
  "map_step now req A = (case req of
       OpGet k \<Rightarrow> (Found (map_option se_value (A k)), A)
     | OpSet k v ttl \<Rightarrow> (Done, A(k \<mapsto> \<lparr> se_value = v, se_expiresAt = map_option (\<lambda>d. now + d) ttl \<rparr>))
     | OpDelete k \<Rightarrow> (Done, A(k := None))
     | OpIncrement k ttl \<Rightarrow> (Count (next_count (A k)),
         A(k \<mapsto> \<lparr> se_value = SNum (next_count (A k)), se_expiresAt = window_end now ttl (A k) \<rparr>))
     | OpSweep \<Rightarrow> (Done, A))"

fun store_run :: "(instant \<times> store_op) list \<Rightarrow> store \<Rightarrow> store_answer list \<times> store" where
  "store_run [] m = ([], m)"
| "store_run ((now, req) # rest) m = (let (a, m1) = store_step now req m; (as, m2) = store_run rest m1 in (a # as, m2))"

fun map_run :: "(instant \<times> store_op) list \<Rightarrow> (string \<rightharpoonup> store_entry) \<Rightarrow> store_answer list \<times> (string \<rightharpoonup> store_entry)" where
  "map_run [] A = ([], A)"
| "map_run ((now, req) # rest) A =
     (let (a, A1) = map_step now req (store_view now A); (as, A2) = map_run rest A1 in (a # as, A2))"

text \<open>The store and the map agree from an instant on.\<close>

definition agree :: "instant \<Rightarrow> store \<Rightarrow> (string \<rightharpoonup> store_entry) \<Rightarrow> bool" where
  "agree t m A \<longleftrightarrow> (\<forall>t'. t \<le> t' \<longrightarrow> store_view t' m = store_view t' A)"

lemma store_view_view: "t \<le> t' \<Longrightarrow> store_view t' (store_view t m) = store_view t' m"
  by (auto simp: store_view_def alive_def fun_eq_iff dest: entry_expired_mono split: option.splits)

lemma store_view_upd: "store_view t (m(k \<mapsto> e)) = (store_view t m)(k := alive t e)"
  by (simp add: store_view_def fun_eq_iff)

lemma store_view_del: "store_view t (m(k := None)) = (store_view t m)(k := None)"
  by (simp add: store_view_def fun_eq_iff)

lemma store_increment_view:
  "store_increment now k ttl m = (next_count (store_view now m k),
     m(k \<mapsto> \<lparr> se_value = SNum (next_count (store_view now m k)), se_expiresAt = window_end now ttl (store_view now m k) \<rparr>))"
proof (cases "store_view now m k")
  case (Some e)
  then show ?thesis
    by (cases e; cases "se_value e"; cases "se_expiresAt e")
      (simp_all add: store_increment_def getEntry_eq next_count_def window_end_def Let_def)
qed (simp add: store_increment_def getEntry_eq next_count_def window_end_def Let_def)

lemma store_step_refines:
  assumes "agree t m A" and "t \<le> now"
  shows "fst (store_step now req m) = fst (map_step now req (store_view now A))
    \<and> agree now (snd (store_step now req m)) (snd (map_step now req (store_view now A)))"
proof -
  have v: "store_view now m = store_view now A" using assms by (simp add: agree_def)
  have later: "store_view t' (store_view now A) = store_view t' m" if "now \<le> t'" for t'
    using that assms by (simp add: store_view_view agree_def)
  show ?thesis
  proof (cases req)
    case (OpGet k)
    then show ?thesis
      using mem_store.get_result [of now k m] mem_store.get_view [of now _ k m]
      by (simp add: store_step_def map_step_def agree_def v later)
  next
    case (OpIncrement k ttl)
    then show ?thesis
      by (simp add: store_step_def map_step_def agree_def store_increment_view store_view_upd v later)
  next
    case OpSweep
    then show ?thesis by (simp add: store_step_def map_step_def agree_def sweep_view later)
  qed (simp_all add: store_step_def map_step_def agree_def store_set_def store_delete_def store_view_upd store_view_del later)
qed

lemma store_run_refines:
  assumes "agree t m A" and "sorted (t # map fst ops)"
  shows "fst (store_run ops m) = fst (map_run ops A) \<and> agree (last (t # map fst ops)) (snd (store_run ops m)) (snd (map_run ops A))"
  using assms
proof (induction ops arbitrary: t m A)
  case (Cons x rest)
  obtain now req where x: "x = (now, req)" by (cases x)
  note st = store_step_refines [OF Cons.prems(1), of now req]
  have "fst (store_run rest (snd (store_step now req m))) = fst (map_run rest (snd (map_step now req (store_view now A))))
    \<and> agree (last (now # map fst rest)) (snd (store_run rest (snd (store_step now req m))))
        (snd (map_run rest (snd (map_step now req (store_view now A)))))"
    using st Cons.prems(2) x by (intro Cons.IH) auto
  then show ?case using st Cons.prems(2) x by (simp add: split_beta Let_def)
qed simp

text \<open>
  C22: The store refines the map of its live entries. Along every sequence of reads, writes,
  deletions, increments and sweeps at instants that do not go back, each request gets the answer
  the plain map gives, in which an entry is there exactly until its expiry and a sweep does
  nothing; and afterwards the live entries are those of the map. A sweep leaves nothing expired.
\<close>

theorem store_refines_live_map:
  assumes "sorted (t # map fst ops)" and "last (t # map fst ops) \<le> t'"
  shows "fst (store_run ops m) = fst (map_run ops (store_view t m))
    \<and> store_view t' (snd (store_run ops m)) = store_view t' (snd (map_run ops (store_view t m)))
    \<and> (\<forall>k e. store_sweep now m k = Some e \<longrightarrow> \<not> entry_expired now e)"
proof -
  have "agree t m (store_view t m)" by (simp add: agree_def store_view_view)
  from store_run_refines [OF this assms(1)] assms(2) show ?thesis
    by (auto simp: agree_def store_sweep_def split: option.splits if_splits)
qed

text \<open>A counter of thirty milliseconds, swept after ten, and a key that is read after its expiry.\<close>

definition store_ops0 :: "(instant \<times> store_op) list" where
  "store_ops0 = [(0, OpIncrement ''k'' (Some 30)), (5, OpSet ''x'' (SNum 7) (Some 3)), (10, OpSweep),
     (20, OpIncrement ''k'' (Some 30)), (21, OpGet ''x''), (30, OpGet ''k'')]"

theorem store_refines_live_map_witness:
  "fst (store_run store_ops0 Map.empty) = [Count 1, Done, Done, Count 2, Found None, Found None]"
proof -
  have "sorted (0 # map fst store_ops0)" "last (0 # map fst store_ops0) \<le> 40" by (simp_all add: store_ops0_def)
  moreover have "fst (map_run store_ops0 (store_view 0 Map.empty)) = [Count 1, Done, Done, Count 2, Found None, Found None]"
    by (simp add: store_ops0_def map_step_def next_count_def window_end_def store_view_def alive_def entry_expired_def)
  ultimately show ?thesis using store_refines_live_map [of 0 store_ops0 40 Map.empty] by simp
qed

section \<open>On the application state\<close>

definition app_get :: "instant \<Rightarrow> string \<Rightarrow> app \<Rightarrow> store_value option \<times> app" where
  "app_get now k s = (let (v, m) = store_get now k (store s) in (v, s\<lparr>store := m\<rparr>))"

definition app_set :: "instant \<Rightarrow> string \<Rightarrow> store_value \<Rightarrow> int option \<Rightarrow> app \<Rightarrow> app" where
  "app_set now k v ttl s = s\<lparr>store := store_set now k v ttl (store s)\<rparr>"

definition app_delete :: "string \<Rightarrow> app \<Rightarrow> app" where
  "app_delete k s = s\<lparr>store := store_delete k (store s)\<rparr>"

definition app_increment :: "instant \<Rightarrow> string \<Rightarrow> int option \<Rightarrow> app \<Rightarrow> int \<times> app" where
  "app_increment now k ttl s = (let (n, m) = store_increment now k ttl (store s) in (n, s\<lparr>store := m\<rparr>))"

lemma app_store_same_db [simp]:
  "same_db (snd (app_get now k s)) s" "same_db (app_set now k v ttl s) s"
  "same_db (app_delete k s) s" "same_db (snd (app_increment now k ttl s)) s"
  by (simp_all add: same_db_def db.truncate_def app_get_def app_set_def app_delete_def
      app_increment_def Let_def split_beta)

end
