(* ===== verification/Tokens.thy ===== *)
theory Tokens
  imports Calendar Shared_Store Audit_Log
begin

text \<open>
  What the authentication service is built on: durations (\<^verbatim>\<open>src/common/duration.ts\<close>), the password
  policy (\<^verbatim>\<open>src/auth/domain/password-policy.ts\<close>), the age rule of \<^verbatim>\<open>auth.service.ts\<close>, the signed
  tokens of \<^verbatim>\<open>src/auth/domain/token.service.ts\<close> and the sealing of TOTP secrets
  (\<^verbatim>\<open>src/auth/mfa/seal.service.ts\<close>). The libraries (jsonwebtoken, bcrypt, SHA-256, otplib, AES-GCM,
  the mail transport) are fields of \<open>auth_env\<close>; what is relied on is stated where it is used.
\<close>

section \<open>Durations\<close>

definition duration_unit :: "string \<Rightarrow> int option" where
  "duration_unit u = (if u = [] \<or> u = ''s'' then Some 1 else if u = ''m'' then Some 60
     else if u = ''h'' then Some 3600 else if u = ''d'' then Some 86400 else None)"

definition parseDurationSeconds :: "string \<Rightarrow> int res" where
  "parseDurationSeconds v =
     (let t = trim v; ds = takeWhile is_digit t; u = dropWhile is_digit t in
      if ds = [] then Inl (OtherError ''Invalid duration value'')
      else case duration_unit u of
        None \<Rightarrow> Inl (OtherError ''Invalid duration value'')
      | Some k \<Rightarrow> Inr (int (digits_val ds) * k))"

section \<open>Password policy and age\<close>

definition is_letter :: "char \<Rightarrow> bool" where
  "is_letter c \<longleftrightarrow> is_upper c \<or> is_lower c"

definition validatePasswordPolicy :: "string \<Rightarrow> string list \<Rightarrow> bool" where
  "validatePasswordPolicy password identityHints =
     (if length password < 8 then False
      else if \<not> list_ex is_letter password \<or> \<not> list_ex is_digit password then False
      else let lowered = toLowerCase password in
        \<not> list_ex (\<lambda>hint. length hint \<ge> 3 \<and> contains_str lowered (toLowerCase hint)) identityHints)"

text \<open>\<^verbatim>\<open>email.split('@')[0]\<close>.\<close>

definition local_part :: "string \<Rightarrow> string" where
  "local_part email = takeWhile (\<lambda>c. c \<noteq> CHR 0x40) email"

definition yearsFrom :: "instant \<Rightarrow> instant \<Rightarrow> int" where
  "yearsFrom now date =
     (let age = getUTCFullYear now - getUTCFullYear date;
          monthDiff = int (getUTCMonth now) - int (getUTCMonth date)
      in if monthDiff < 0 \<or> (monthDiff = 0 \<and> getUTCDate now < getUTCDate date) then age - 1 else age)"

text \<open>
  The reference: somebody has had \<open>n\<close> birthdays exactly when the calendar date has reached
  the birth date moved \<open>n\<close> years on, dates compared by year, month and day.
\<close>

definition date_reached :: "int \<times> int \<times> int \<Rightarrow> int \<times> int \<times> int \<Rightarrow> bool" where
  "date_reached d e = (case (d, e) of ((y, m, x), (y', m', x')) \<Rightarrow>
     y < y' \<or> (y = y' \<and> (m < m' \<or> (m = m' \<and> x \<le> x'))))"

definition ymd :: "instant \<Rightarrow> int \<times> int \<times> int" where
  "ymd t = (getUTCFullYear t, int (getUTCMonth t), getUTCDate t)"

lemma yearsFrom_reference:
  "n \<le> yearsFrom now date \<longleftrightarrow> date_reached (fst (ymd date) + n, snd (ymd date)) (ymd now)"
  by (auto simp: yearsFrom_def date_reached_def ymd_def Let_def)

section \<open>The environment\<close>

text \<open>
  \<^verbatim>\<open>jwt.sign\<close> gets the claims, the secret and the options; \<^verbatim>\<open>jwt.decode\<close> gives the header's key id and
  the payload without checking anything; \<^verbatim>\<open>jwt.verify\<close> gives the payload, or \<^term>\<open>None\<close> when it throws.
\<close>

record jwt_options =
  jo_keyid :: string
  jo_subject :: string
  jo_issuer :: string
  jo_expiresIn :: int

record jwt_lib =
  jwt_sign :: "instant \<Rightarrow> (string \<times> json) list \<Rightarrow> string \<Rightarrow> jwt_options \<Rightarrow> string"
  jwt_decode :: "string \<Rightarrow> (json option \<times> json) option"
  jwt_verify :: "instant \<Rightarrow> string \<Rightarrow> string \<Rightarrow> string \<Rightarrow> json option"

record auth_env =
  env_jwtSecret :: string
  env_jwtSecretPrevious :: "string option"
  env_jwtIssuer :: string
  env_maxLoginAttempts :: int
  env_loginLockoutDuration :: string
  env_authIpLimitMax :: int
  env_authIpLimitTtlSeconds :: int
  accessTtlSeconds :: int
  refreshTtlSeconds :: int
  lib_jwt :: jwt_lib
  lib_bcrypt_hash :: "string \<Rightarrow> string \<Rightarrow> string"
  lib_bcrypt_compare :: "string \<Rightarrow> string \<Rightarrow> bool"
  lib_sha256 :: "string \<Rightarrow> string"
  lib_otp :: "instant \<Rightarrow> string \<Rightarrow> string \<Rightarrow> bool"
  lib_encrypt :: "string \<Rightarrow> string \<Rightarrow> string \<times> string"
  lib_decrypt :: "string \<Rightarrow> string \<Rightarrow> string \<Rightarrow> string option"
  lib_mail :: "mail \<Rightarrow> bool"

definition CURRENT_KID :: string where "CURRENT_KID = ''current''"
definition PREVIOUS_KID :: string where "PREVIOUS_KID = ''previous''"

section \<open>Signing\<close>

definition show_role :: "user_role \<Rightarrow> string" where
  "show_role r = (case r of ADMIN \<Rightarrow> ''ADMIN'' | INSTRUCTOR \<Rightarrow> ''INSTRUCTOR'' | STUDENT \<Rightarrow> ''STUDENT'' | PARENT \<Rightarrow> ''PARENT'')"

definition show_purpose :: "used_token_purpose \<Rightarrow> string" where
  "show_purpose p = (case p of VERIFY_EMAIL \<Rightarrow> ''VERIFY_EMAIL'' | RESET_PASSWORD \<Rightarrow> ''RESET_PASSWORD''
     | CHANGE_EMAIL \<Rightarrow> ''CHANGE_EMAIL'')"

definition accessTtlMs :: "auth_env \<Rightarrow> int" where
  "accessTtlMs env = accessTtlSeconds env * 1000"

definition sign_options :: "auth_env \<Rightarrow> uuid \<Rightarrow> int \<Rightarrow> jwt_options" where
  "sign_options env userId ttl = \<lparr> jo_keyid = CURRENT_KID, jo_subject = userId,
     jo_issuer = env_jwtIssuer env, jo_expiresIn = ttl \<rparr>"

definition access_claims :: "user \<Rightarrow> uuid \<Rightarrow> uuid \<Rightarrow> (string \<times> json) list" where
  "access_claims u jti sessionId = [(''role'', JStr (show_role (usr_role u))), (''type'', JStr ''access''),
     (''jti'', JStr jti), (''sid'', JStr sessionId), (''pwdver'', JNum (usr_pwdVersion u))]"

definition signAccessToken :: "auth_env \<Rightarrow> user \<Rightarrow> uuid \<Rightarrow> instant \<Rightarrow> app \<Rightarrow> string \<times> app" where
  "signAccessToken env u sessionId now s = (let (jti, s') = fresh_uuid s in
     (jwt_sign (lib_jwt env) now (access_claims u jti sessionId) (env_jwtSecret env)
        (sign_options env (usr_id u) (accessTtlSeconds env)), s'))"

definition signMfaPendingToken :: "auth_env \<Rightarrow> uuid \<Rightarrow> instant \<Rightarrow> app \<Rightarrow> string \<times> app" where
  "signMfaPendingToken env userId now s = (let (jti, s') = fresh_uuid s in
     (jwt_sign (lib_jwt env) now [(''type'', JStr ''mfa_pending''), (''jti'', JStr jti)] (env_jwtSecret env)
        (sign_options env userId 300), s'))"

definition action_claims :: "used_token_purpose \<Rightarrow> uuid \<Rightarrow> string option \<Rightarrow> (string \<times> json) list" where
  "action_claims purpose jti target =
     [(''type'', JStr ''action''), (''purpose'', JStr (show_purpose purpose)), (''jti'', JStr jti)] @
     (case target of None \<Rightarrow> [] | Some t \<Rightarrow> [(''target'', JStr t)])"

definition signActionToken ::
  "auth_env \<Rightarrow> uuid \<Rightarrow> used_token_purpose \<Rightarrow> int \<Rightarrow> string option \<Rightarrow> instant \<Rightarrow> app \<Rightarrow> string \<times> app" where
  "signActionToken env userId purpose ttlSeconds target now s = (let (jti, s') = fresh_uuid s in
     (jwt_sign (lib_jwt env) now (action_claims purpose jti target) (env_jwtSecret env)
        (sign_options env userId ttlSeconds), s'))"

section \<open>Verifying\<close>

definition token_kid :: "json option \<Rightarrow> json" where
  "token_kid k = (case k of None \<Rightarrow> JStr CURRENT_KID | Some j \<Rightarrow> if j = JNull then JStr CURRENT_KID else j)"

definition token_secret :: "auth_env \<Rightarrow> json \<Rightarrow> string" where
  "token_secret env kid = (case env_jwtSecretPrevious env of
       Some old \<Rightarrow> if kid = JStr PREVIOUS_KID then old else env_jwtSecret env
     | None \<Rightarrow> env_jwtSecret env)"

definition token_verify :: "auth_env \<Rightarrow> instant \<Rightarrow> string \<Rightarrow> string \<Rightarrow> json res" where
  "token_verify env now token expectedType = (case jwt_decode (lib_jwt env) token of
       None \<Rightarrow> Inl (OtherError ''invalid token'')
     | Some (k, _) \<Rightarrow> let kid = token_kid k in
         if kid \<noteq> JStr CURRENT_KID \<and> kid \<noteq> JStr PREVIOUS_KID then Inl (OtherError ''unknown key id'')
         else case jwt_verify (lib_jwt env) now token (token_secret env kid) (env_jwtIssuer env) of
           None \<Rightarrow> Inl (OtherError ''jwt verification failed'')
         | Some payload \<Rightarrow>
             if json_get payload ''type'' \<noteq> Some (JStr expectedType) then Inl (OtherError ''unexpected token type'')
             else Inr payload)"

definition remainingLifetimeSeconds :: "auth_env \<Rightarrow> instant \<Rightarrow> string \<Rightarrow> int" where
  "remainingLifetimeSeconds env now token = (case jwt_decode (lib_jwt env) token of
       None \<Rightarrow> 0
     | Some (_, payload) \<Rightarrow> (case json_get payload ''exp'' of
           Some (JNum exp) \<Rightarrow> max 0 (exp - now div 1000)
         | Some (JFrac exp _) \<Rightarrow> max 0 (exp - now div 1000)
         | _ \<Rightarrow> 0))"

text \<open>
  What is relied on of jsonwebtoken for one signed token: decoding gives the key id and the
  claims with the issue time, expiry, issuer and subject added; verification succeeds exactly
  with the signing secret, the issuer, and before the expiry (whole seconds).
\<close>

definition signed_claims :: "instant \<Rightarrow> (string \<times> json) list \<Rightarrow> jwt_options \<Rightarrow> json" where
  "signed_claims now kvs opts = JObj (kvs @ [(''iat'', JNum (now div 1000)),
     (''exp'', JNum (now div 1000 + jo_expiresIn opts)), (''iss'', JStr (jo_issuer opts)), (''sub'', JStr (jo_subject opts))])"

definition jwt_contract :: "jwt_lib \<Rightarrow> instant \<Rightarrow> (string \<times> json) list \<Rightarrow> string \<Rightarrow> jwt_options \<Rightarrow> bool" where
  "jwt_contract J now kvs secret opts \<longleftrightarrow>
     (let tok = jwt_sign J now kvs secret opts in
      jwt_decode J tok = Some (Some (JStr (jo_keyid opts)), signed_claims now kvs opts) \<and>
      (\<forall>t k iss. jwt_verify J t tok k iss =
         (if k = secret \<and> iss = jo_issuer opts \<and> t div 1000 < now div 1000 + jo_expiresIn opts
          then Some (signed_claims now kvs opts) else None)))"

lemma json_get_signed:
  "k \<notin> {''iat'', ''exp'', ''iss'', ''sub''} \<Longrightarrow> json_get (signed_claims now kvs opts) k = map_of (rev kvs) k"
  "json_get (signed_claims now kvs opts) ''exp'' = Some (JNum (now div 1000 + jo_expiresIn opts))"
  "json_get (signed_claims now kvs opts) ''sub'' = Some (JStr (jo_subject opts))"
  by (simp_all add: signed_claims_def)

lemma token_verify_signed:
  assumes "jwt_contract (lib_jwt env) now kvs (env_jwtSecret env) (sign_options env userId ttl)"
    and "map_of (rev kvs) ''type'' = Some (JStr ty)"
  shows "token_verify env t (jwt_sign (lib_jwt env) now kvs (env_jwtSecret env) (sign_options env userId ttl)) ty' =
    (if t div 1000 \<ge> now div 1000 + ttl then Inl (OtherError ''jwt verification failed'')
     else if ty \<noteq> ty' then Inl (OtherError ''unexpected token type'')
     else Inr (signed_claims now kvs (sign_options env userId ttl)))"
proof -
  let ?o = "sign_options env userId ttl"
  have o: "jo_keyid ?o = CURRENT_KID" "jo_issuer ?o = env_jwtIssuer env" "jo_expiresIn ?o = ttl"
    by (simp_all add: sign_options_def)
  have k: "token_secret env (JStr CURRENT_KID) = env_jwtSecret env"
    by (simp add: token_secret_def CURRENT_KID_def PREVIOUS_KID_def split: option.splits)
  have "token_kid (Some (JStr CURRENT_KID)) = JStr CURRENT_KID" by (simp add: token_kid_def)
  moreover have "json_get (signed_claims now kvs ?o) ''type'' = Some (JStr ty)"
    using assms(2) by (simp add: json_get_signed)
  ultimately show ?thesis using assms(1) k
    by (simp add: token_verify_def jwt_contract_def Let_def o)
qed

section \<open>Sealing\<close>

text \<open>
  \<^verbatim>\<open>seal\<close> lays out the nonce, the ciphertext and the tag; \<^verbatim>\<open>unseal\<close> cuts them apart again and fails
  when the tag does not authenticate. \<^verbatim>\<open>iv\<close> is the random nonce of the call. A stored value has at
  least the 28 bytes \<^verbatim>\<open>seal\<close> writes.
\<close>

definition seal :: "auth_env \<Rightarrow> string \<Rightarrow> string \<Rightarrow> string" where
  "seal env iv plain = (let (encrypted, tag) = lib_encrypt env iv plain in iv @ encrypted @ tag)"

definition unseal :: "auth_env \<Rightarrow> string \<Rightarrow> string res" where
  "unseal env sealed = (let iv = take 12 sealed; tag = drop (length sealed - 16) sealed;
       ciphertext = take (length sealed - 16 - 12) (drop 12 sealed) in
     case lib_decrypt env iv ciphertext tag of
       None \<Rightarrow> Inl (OtherError ''Unsupported state or unable to authenticate data'')
     | Some plain \<Rightarrow> Inr plain)"

lemma unseal_seal:
  assumes "lib_encrypt env iv plain = (c, tag)" and "lib_decrypt env iv c tag = Some plain"
    and "length iv = 12" and "length tag = 16"
  shows "unseal env (seal env iv plain) = Inr plain"
  using assms by (simp add: seal_def unseal_def)

section \<open>A concrete environment\<close>

text \<open>
  An environment for examples: a token library that knows one token, a password hash that is
  the password itself, and a one-time-password check that accepts the code 123456.
\<close>

definition jwt0 :: "instant \<Rightarrow> (string \<times> json) list \<Rightarrow> string \<Rightarrow> jwt_options \<Rightarrow> jwt_lib" where
  "jwt0 now kvs secret opts =
     \<lparr> jwt_sign = \<lambda>_ _ _ _. ''T'',
       jwt_decode = \<lambda>x. if x = ''T'' then Some (Some (JStr (jo_keyid opts)), signed_claims now kvs opts) else None,
       jwt_verify = \<lambda>t x k iss.
         if x = ''T'' \<and> k = secret \<and> iss = jo_issuer opts \<and> t div 1000 < now div 1000 + jo_expiresIn opts
         then Some (signed_claims now kvs opts) else None \<rparr>"

lemma jwt0_contract: "jwt_contract (jwt0 now kvs secret opts) now kvs secret opts"
  by (simp add: jwt_contract_def jwt0_def)

definition env0 :: "jwt_lib \<Rightarrow> auth_env" where
  "env0 J = \<lparr> env_jwtSecret = ''new'', env_jwtSecretPrevious = Some ''old'', env_jwtIssuer = ''club'',
     env_maxLoginAttempts = 3, env_loginLockoutDuration = ''15m'', env_authIpLimitMax = 20,
     env_authIpLimitTtlSeconds = 60, accessTtlSeconds = 900, refreshTtlSeconds = 604800, lib_jwt = J,
     lib_bcrypt_hash = (\<lambda>salt p. p), lib_bcrypt_compare = (=), lib_sha256 = id,
     lib_otp = (\<lambda>_ c _. c = ''123456''), lib_encrypt = (\<lambda>iv p. (p, replicate 16 CHR ''t'')),
     lib_decrypt = (\<lambda>iv c tag. Some c), lib_mail = (\<lambda>_. True) \<rparr>"

definition jwt_none :: jwt_lib where
  "jwt_none = \<lparr> jwt_sign = \<lambda>_ _ _ _. [], jwt_decode = \<lambda>_. None, jwt_verify = \<lambda>_ _ _ _. None \<rparr>"

end
