(* ===== verification/Totp.thy ===== *)
theory Totp
  imports Tokens
begin

text \<open>
  The second factor, \<^verbatim>\<open>src/auth/mfa/totp.service.ts\<close>. All of its state is in the shared store: a
  failure counter per user with a five-minute window, a replay mark per user and accepted
  code, and the secret of an enrollment in progress. The operations are given on the store;
  \<open>on_store\<close> lifts them to the application.
\<close>

section \<open>Operations\<close>

definition FAILURE_BUCKET_TTL_MS :: int where "FAILURE_BUCKET_TTL_MS = 300000"
definition MAX_MFA_FAILURES :: int where "MAX_MFA_FAILURES = 5"
definition REPLAY_GUARD_MS :: int where "REPLAY_GUARD_MS = 120000"
definition PENDING_SECRET_TTL_MS :: int where "PENDING_SECRET_TTL_MS = 600000"

definition failKey :: "uuid \<Rightarrow> string" where
  "failKey userId = ''mfa:fail:'' @ userId"

definition replayKey :: "uuid \<Rightarrow> string \<Rightarrow> string" where
  "replayKey userId token = ''mfa:replay:'' @ userId @ '':'' @ token"

definition pendingKey :: "uuid \<Rightarrow> string" where
  "pendingKey userId = ''mfa:pending:'' @ userId"

definition too_many :: exn where
  "too_many = Unauthorized ''Too many verification attempts''"

definition TOTP_ISSUER :: string where "TOTP_ISSUER = ''VovinamApiNode''"

record totp_enrollment =
  ten_secret :: string
  ten_otpauthUrl :: string
  ten_qrDataUrl :: string

text \<open>\<^verbatim>\<open>createEnrollment\<close> over \<^verbatim>\<open>keyuri\<close> of otplib and \<^verbatim>\<open>toDataURL\<close> of qrcode, with the generated secret.\<close>

definition totp_createEnrollment :: "(string \<Rightarrow> string \<Rightarrow> string \<Rightarrow> string) \<Rightarrow> (string \<Rightarrow> string) \<Rightarrow> string \<Rightarrow> string \<Rightarrow> totp_enrollment" where
  "totp_createEnrollment keyuri toDataURL secret label =
     (let otpauthUrl = keyuri label TOTP_ISSUER secret in
      \<lparr> ten_secret = secret, ten_otpauthUrl = otpauthUrl, ten_qrDataUrl = toDataURL otpauthUrl \<rparr>)"

definition stashPendingSecret :: "instant \<Rightarrow> uuid \<Rightarrow> string \<Rightarrow> store \<Rightarrow> store" where
  "stashPendingSecret now userId secret m = store_set now (pendingKey userId) (SStr secret) (Some PENDING_SECRET_TTL_MS) m"

definition takePendingSecret :: "instant \<Rightarrow> uuid \<Rightarrow> store \<Rightarrow> store \<times> string option" where
  "takePendingSecret now userId m = (let (stored, m') = store_get now (pendingKey userId) m in
     (store_delete (pendingKey userId) m', case stored of Some (SStr x) \<Rightarrow> Some x | _ \<Rightarrow> None))"

definition assertNotLocked :: "instant \<Rightarrow> uuid \<Rightarrow> store \<Rightarrow> store \<times> unit res" where
  "assertNotLocked now userId m = (let (failures, m') = store_get now (failKey userId) m in
     (m', case failures of
            Some (SNum n) \<Rightarrow> if n \<ge> MAX_MFA_FAILURES then Inl too_many else Inr ()
          | _ \<Rightarrow> Inr ()))"

definition registerFailure :: "instant \<Rightarrow> uuid \<Rightarrow> store \<Rightarrow> store \<times> unit res" where
  "registerFailure now userId m =
     (let (failures, m') = store_increment now (failKey userId) (Some FAILURE_BUCKET_TTL_MS) m in
      (m', if failures \<ge> MAX_MFA_FAILURES then Inl too_many else Inr ()))"

definition verifyCode ::
  "auth_env \<Rightarrow> instant \<Rightarrow> uuid \<Rightarrow> string \<Rightarrow> string \<Rightarrow> store \<Rightarrow> store \<times> bool res" where
  "verifyCode env now userId secret code =
     bindE (assertNotLocked now userId) (\<lambda>_ m.
       let normalized = trim code;
           (mark, m1) = store_get now (replayKey userId normalized) m;
           valid = (mark = None \<and> lib_otp env now normalized secret)
       in if valid
          then (store_set now (replayKey userId normalized) (SBool True) (Some REPLAY_GUARD_MS)
                  (store_delete (failKey userId) m1), Inr True)
          else bindE (registerFailure now userId) (\<lambda>_. returnE False) m1)"

definition validateCode ::
  "auth_env \<Rightarrow> instant \<Rightarrow> uuid \<Rightarrow> string \<Rightarrow> string \<Rightarrow> store \<Rightarrow> store \<times> bool res" where
  "validateCode env now userId secret code = verifyCode env now userId secret code"

text \<open>\<^verbatim>\<open>randomBytes(4).toString('hex')\<close>, once per code; the bytes are an argument.\<close>

definition hex_digit :: "nat \<Rightarrow> char" where
  "hex_digit d = (if d < 10 then char_of (48 + d) else char_of (87 + d))"

definition hex_byte :: "nat \<Rightarrow> string" where
  "hex_byte b = [hex_digit (b div 16 mod 16), hex_digit (b mod 16)]"

definition generateRecoveryCodes :: "nat list list \<Rightarrow> string list" where
  "generateRecoveryCodes draws = map (\<lambda>bytes. concat (map hex_byte bytes)) draws"

definition on_store :: "(store \<Rightarrow> store \<times> 'a) \<Rightarrow> app \<Rightarrow> app \<times> 'a" where
  "on_store f s = (let (m, r) = f (store s) in (s\<lparr>store := m\<rparr>, r))"

lemma on_store_same_db [simp]: "same_db (fst (on_store f s)) s"
  by (simp add: on_store_def same_db_def db.truncate_def split_beta Let_def)

section \<open>What one call does\<close>

lemma keys_differ [simp]:
  "failKey u \<noteq> replayKey v c" "replayKey v c \<noteq> failKey u" "failKey u \<noteq> pendingKey v" "pendingKey v \<noteq> failKey u"
  "pendingKey u \<noteq> replayKey v c" "replayKey v c \<noteq> pendingKey u"
  by (simp_all add: failKey_def replayKey_def pendingKey_def)

text \<open>The number of failures the lock sees.\<close>

definition failures_at :: "instant \<Rightarrow> uuid \<Rightarrow> store \<Rightarrow> int option" where
  "failures_at t userId m = (case store_view t m (failKey userId) of
       Some e \<Rightarrow> (case se_value e of SNum n \<Rightarrow> Some n | _ \<Rightarrow> None) | None \<Rightarrow> None)"

definition mfa_locked :: "instant \<Rightarrow> uuid \<Rightarrow> store \<Rightarrow> bool" where
  "mfa_locked t userId m = (case failures_at t userId m of Some n \<Rightarrow> n \<ge> MAX_MFA_FAILURES | None \<Rightarrow> False)"

lemma assertNotLocked_eq:
  "assertNotLocked now u m = (snd (store_get now (failKey u) m), if mfa_locked now u m then Inl too_many else Inr ())"
  using mem_store.get_result [of now "failKey u" m]
  by (cases "store_get now (failKey u) m")
     (auto simp: assertNotLocked_def mfa_locked_def failures_at_def Let_def split: option.splits store_value.splits)

lemma verifyCode_locked:
  "mfa_locked now u m \<Longrightarrow> verifyCode env now u sec code m = (snd (store_get now (failKey u) m), Inl too_many)"
  by (simp add: verifyCode_def assertNotLocked_eq bindE_def)

text \<open>The test an unlocked call makes, and the store after an accepted and after a rejected code.\<close>

definition code_accepted :: "auth_env \<Rightarrow> instant \<Rightarrow> uuid \<Rightarrow> string \<Rightarrow> string \<Rightarrow> store \<Rightarrow> bool" where
  "code_accepted env now u sec code m \<longleftrightarrow>
     store_view now m (replayKey u (trim code)) = None \<and> lib_otp env now (trim code) sec"

definition after_reads :: "instant \<Rightarrow> uuid \<Rightarrow> string \<Rightarrow> store \<Rightarrow> store" where
  "after_reads now u code m = snd (store_get now (replayKey u (trim code)) (snd (store_get now (failKey u) m)))"

lemma after_reads_view: "now \<le> t \<Longrightarrow> store_view t (after_reads now u code m) = store_view t m"
  by (simp add: after_reads_def mem_store.get_view)

lemma verifyCode_accept:
  assumes "\<not> mfa_locked now u m" and "code_accepted env now u sec code m"
  shows "verifyCode env now u sec code m =
    (store_set now (replayKey u (trim code)) (SBool True) (Some REPLAY_GUARD_MS)
       (store_delete (failKey u) (after_reads now u code m)), Inr True)"
proof -
  let ?m = "snd (store_get now (failKey u) m)"
  have "store_view now ?m = store_view now m" by (simp add: mem_store.get_view)
  then have "fst (store_get now (replayKey u (trim code)) ?m) = None"
    using assms(2) by (simp add: mem_store.get_result code_accepted_def)
  then show ?thesis using assms
    by (simp add: verifyCode_def assertNotLocked_eq bindE_def Let_def split_beta after_reads_def code_accepted_def)
qed

lemma verifyCode_reject:
  assumes "\<not> mfa_locked now u m" and "\<not> code_accepted env now u sec code m"
  shows "verifyCode env now u sec code m =
    (let (n, m') = store_increment now (failKey u) (Some FAILURE_BUCKET_TTL_MS) (after_reads now u code m)
     in (m', if n \<ge> MAX_MFA_FAILURES then Inl too_many else Inr False))"
proof -
  let ?m = "snd (store_get now (failKey u) m)"
  have "store_view now ?m = store_view now m" by (simp add: mem_store.get_view)
  then have "fst (store_get now (replayKey u (trim code)) ?m) \<noteq> None \<or> \<not> lib_otp env now (trim code) sec"
    using assms(2) by (auto simp: mem_store.get_result code_accepted_def)
  then show ?thesis using assms(1)
    by (auto simp: verifyCode_def assertNotLocked_eq bindE_def Let_def split_beta after_reads_def
        registerFailure_def returnE_def)
qed

lemma verifyCode_cases:
  assumes "verifyCode env now u sec code m = (m', r)"
  obtains (locked) "mfa_locked now u m" "r = Inl too_many" "m' = snd (store_get now (failKey u) m)"
    | (ok) "\<not> mfa_locked now u m" "code_accepted env now u sec code m" "r = Inr True"
        "m' = store_set now (replayKey u (trim code)) (SBool True) (Some REPLAY_GUARD_MS)
                (store_delete (failKey u) (after_reads now u code m))"
    | (no) n where "\<not> mfa_locked now u m" "\<not> code_accepted env now u sec code m"
        "store_increment now (failKey u) (Some FAILURE_BUCKET_TTL_MS) (after_reads now u code m) = (n, m')"
        "r = (if n \<ge> MAX_MFA_FAILURES then Inl too_many else Inr False)"
proof (cases "mfa_locked now u m")
  case True
  then show ?thesis using assms locked by (simp add: verifyCode_locked)
next
  case False
  show ?thesis
  proof (cases "code_accepted env now u sec code m")
    case True
    then show ?thesis using assms False ok by (simp add: verifyCode_accept)
  next
    case rej: False
    obtain n m1 where "store_increment now (failKey u) (Some FAILURE_BUCKET_TTL_MS) (after_reads now u code m) = (n, m1)"
      by fastforce
    then show ?thesis using assms False rej no by (simp add: verifyCode_reject)
  qed
qed

section \<open>Runs\<close>

lemma increment_other:
  "k \<noteq> k' \<Longrightarrow> store_view t (snd (store_increment now k ttl m)) k' = store_view t m k'"
  by (simp add: store_increment_def getEntry_eq store_view_def Let_def)

text \<open>
  The store during the life of the process, with the codes accepted so far (newest first) and
  the clock: verifications for any user, enrollments, and whatever other components do to
  their own keys, which do not start with \<^verbatim>\<open>mfa:replay:\<close>.
\<close>

inductive mfa_run :: "auth_env \<Rightarrow> (instant \<times> uuid \<times> string) list \<Rightarrow> instant \<Rightarrow> store \<Rightarrow> bool" for env where
  start: "mfa_run env [] t0 Map.empty"
| accept: "mfa_run env acc t m \<Longrightarrow> t \<le> now \<Longrightarrow> verifyCode env now u sec code m = (m', Inr True) \<Longrightarrow>
    mfa_run env ((now, u, trim code) # acc) now m'"
| refuse: "mfa_run env acc t m \<Longrightarrow> t \<le> now \<Longrightarrow> verifyCode env now u sec code m = (m', r) \<Longrightarrow> r \<noteq> Inr True \<Longrightarrow>
    mfa_run env acc now m'"
| stash: "mfa_run env acc t m \<Longrightarrow> t \<le> now \<Longrightarrow> mfa_run env acc now (stashPendingSecret now u sec m)"
| take_pending: "mfa_run env acc t m \<Longrightarrow> t \<le> now \<Longrightarrow> takePendingSecret now u m = (m', sec) \<Longrightarrow> mfa_run env acc now m'"
| sweep: "mfa_run env acc t m \<Longrightarrow> t \<le> now \<Longrightarrow> mfa_run env acc now (store_sweep now m)"
| other_set: "mfa_run env acc t m \<Longrightarrow> t \<le> now \<Longrightarrow> \<not> startsWith k ''mfa:replay:'' \<Longrightarrow>
    mfa_run env acc now (store_set now k v ttl m)"
| other_get: "mfa_run env acc t m \<Longrightarrow> t \<le> now \<Longrightarrow> store_get now k m = (x, m') \<Longrightarrow> mfa_run env acc now m'"
| other_increment: "mfa_run env acc t m \<Longrightarrow> t \<le> now \<Longrightarrow> \<not> startsWith k ''mfa:replay:'' \<Longrightarrow>
    store_increment now k ttl m = (n, m') \<Longrightarrow> mfa_run env acc now m'"

text \<open>The replay marks of a run: alive at least as long as the guard.\<close>

definition marked :: "instant \<Rightarrow> (instant \<times> uuid \<times> string) list \<Rightarrow> store \<Rightarrow> bool" where
  "marked clock acc m \<longleftrightarrow> (\<forall>(t, u, c) \<in> set acc. t \<le> clock \<and>
     (\<forall>t'. clock \<le> t' \<and> t' < t + REPLAY_GUARD_MS \<longrightarrow> store_view t' m (replayKey u c) \<noteq> None))"

lemma markedD:
  "marked clock acc m \<Longrightarrow> (t, u, c) \<in> set acc \<Longrightarrow> clock \<le> t' \<Longrightarrow> t' < t + REPLAY_GUARD_MS \<Longrightarrow>
     store_view t' m (replayKey u c) \<noteq> None"
  "marked clock acc m \<Longrightarrow> (t, u, c) \<in> set acc \<Longrightarrow> t \<le> clock"
  by (auto simp: marked_def)

lemma markedI:
  assumes "\<And>t u c. (t, u, c) \<in> set acc \<Longrightarrow> t \<le> clock"
    and "\<And>t u c t'. (t, u, c) \<in> set acc \<Longrightarrow> clock \<le> t' \<Longrightarrow> t' < t + REPLAY_GUARD_MS \<Longrightarrow>
           store_view t' m (replayKey u c) \<noteq> None"
  shows "marked clock acc m"
  using assms by (auto simp: marked_def)

text \<open>A step that leaves the marks alone keeps them.\<close>

lemma marked_keep:
  assumes "marked clock acc m" and "clock \<le> clock'"
    and "\<And>t' u c. clock' \<le> t' \<Longrightarrow> store_view t' m' (replayKey u c) = store_view t' m (replayKey u c)"
  shows "marked clock' acc m'"
proof (rule markedI)
  fix t u c t'
  assume a: "(t, u, c) \<in> set acc"
  show "t \<le> clock'" using markedD(2) [OF assms(1) a] assms(2) by simp
  show "store_view t' m' (replayKey u c) \<noteq> None" if "clock' \<le> t'" "t' < t + REPLAY_GUARD_MS"
    using markedD(1) [OF assms(1) a, of t'] assms(2,3) that by simp
qed

lemma other_key: "\<not> startsWith k ''mfa:replay:'' \<Longrightarrow> replayKey u c \<noteq> k"
  by (auto simp: replayKey_def startsWith_def)

lemma marked_accept:
  assumes "marked clock acc m" and "clock \<le> now"
    and "m' = store_set now (replayKey u c) (SBool True) (Some REPLAY_GUARD_MS) (store_delete (failKey u) m1)"
    and "\<And>t. now \<le> t \<Longrightarrow> store_view t m1 = store_view t m"
  shows "marked now ((now, u, c) # acc) m'"
proof (rule markedI)
  have v: "store_view t' m' (replayKey v d) =
      (if replayKey v d = replayKey u c then alive t' \<lparr> se_value = SBool True, se_expiresAt = Some (now + REPLAY_GUARD_MS) \<rparr>
       else store_view t' m (replayKey v d))" if "now \<le> t'" for t' v d
    using assms(4) [OF that] by (simp add: assms(3) mem_store.put_view mem_store.del_view)
  fix t v d t'
  assume a: "(t, v, d) \<in> set ((now, u, c) # acc)"
  show t: "t \<le> now" using a markedD(2) [OF assms(1), of t v d] assms(2) by auto
  show "store_view t' m' (replayKey v d) \<noteq> None" if "now \<le> t'" "t' < t + REPLAY_GUARD_MS"
  proof (cases "replayKey v d = replayKey u c")
    case True
    then show ?thesis using v [OF that(1)] that(2) t by (simp add: alive_def entry_expired_def)
  next
    case False
    then have "(t, v, d) \<in> set acc" using a by auto
    then show ?thesis using False v [OF that(1)] that markedD(1) [OF assms(1), of t v d t'] assms(2) by simp
  qed
qed

lemma mfa_run_marked: "mfa_run env acc t m \<Longrightarrow> marked t acc m"
proof (induction rule: mfa_run.induct)
  case (start t0)
  show ?case by (simp add: marked_def)
next
  case (accept acc t m now u sec code m')
  show ?case
  proof (rule marked_accept [OF accept.IH accept.hyps(2)])
    show "m' = store_set now (replayKey u (trim code)) (SBool True) (Some REPLAY_GUARD_MS)
        (store_delete (failKey u) (after_reads now u code m))"
      using accept.hyps(3) by (rule verifyCode_cases) (simp_all split: if_splits)
  qed (rule after_reads_view)
next
  case (refuse acc t m now u sec code m' r)
  from refuse.hyps(3) show ?case
  proof (cases rule: verifyCode_cases)
    case locked
    then show ?thesis by (intro marked_keep [OF refuse.IH refuse.hyps(2)]) (simp add: mem_store.get_view)
  next
    case ok
    then show ?thesis using refuse.hyps(4) by simp
  next
    case (no n)
    then have "m' = snd (store_increment now (failKey u) (Some FAILURE_BUCKET_TTL_MS) (after_reads now u code m))" by simp
    then show ?thesis
      by (intro marked_keep [OF refuse.IH refuse.hyps(2)]) (simp add: increment_other after_reads_view)
  qed
next
  case (stash acc t m now u sec)
  show ?case by (rule marked_keep [OF stash.IH stash.hyps(2)]) (simp add: stashPendingSecret_def mem_store.put_view)
next
  case (take_pending acc t m now u m' sec)
  then have "m' = store_delete (pendingKey u) (snd (store_get now (pendingKey u) m))"
    by (auto simp: takePendingSecret_def Let_def split: prod.splits)
  then show ?case
    by (intro marked_keep [OF take_pending.IH take_pending.hyps(2)]) (simp add: mem_store.del_view mem_store.get_view)
next
  case (sweep acc t m now)
  show ?case by (rule marked_keep [OF sweep.IH sweep.hyps(2)]) (simp add: sweep_view)
next
  case (other_set acc t m now k v ttl)
  show ?case by (rule marked_keep [OF other_set.IH other_set.hyps(2)])
      (simp add: mem_store.put_view other_key [OF other_set.hyps(3)])
next
  case (other_get acc t m now k x m')
  then have "m' = snd (store_get now k m)" by simp
  then show ?case by (intro marked_keep [OF other_get.IH other_get.hyps(2)]) (simp add: mem_store.get_view)
next
  case (other_increment acc t m now k ttl n m')
  then have "m' = snd (store_increment now k ttl m)" by simp
  then show ?case
    by (intro marked_keep [OF other_increment.IH other_increment.hyps(2)])
       (use other_key [OF other_increment.hyps(3)] in \<open>simp add: increment_other not_sym\<close>)
qed

lemma accepted_fresh:
  assumes "mfa_run env acc t m" and "t \<le> now" and "verifyCode env now u sec code m = (m', Inr True)"
    and "(t1, u, trim code) \<in> set acc"
  shows "t1 + REPLAY_GUARD_MS \<le> now"
proof (rule ccontr)
  assume "\<not> ?thesis"
  then have "store_view now m (replayKey u (trim code)) \<noteq> None"
    using markedD(1) [OF mfa_run_marked [OF assms(1)] assms(4) assms(2)] by simp
  moreover have "code_accepted env now u sec code m"
    using assms(3) by (rule verifyCode_cases) (simp_all split: if_splits)
  ultimately show False by (simp add: code_accepted_def)
qed

lemma mfa_run_spacing:
  "mfa_run env acc t m \<Longrightarrow> acc = xs @ (t2, u, c) # ys \<Longrightarrow> (t1, u, c) \<in> set ys \<Longrightarrow> t1 + REPLAY_GUARD_MS \<le> t2"
proof (induction arbitrary: xs rule: mfa_run.induct)
  case (accept acc t m now v sec code m')
  show ?case
  proof (cases xs)
    case Nil
    then have "t2 = now" "u = v" "c = trim code" "ys = acc" using accept.prems(1) by simp_all
    then show ?thesis using accepted_fresh [OF accept.hyps] accept.prems(2) by simp
  next
    case (Cons x xs')
    then show ?thesis using accept.IH [of xs'] accept.prems by simp
  qed
qed auto

text \<open>
  C20: In every run of the process, with any number of users, sweeps and other use of the store,
  the same code of the same user is accepted twice only 120 seconds apart or more; so no time
  step lies in both acceptance windows (one step of 30 seconds either side), and the code of
  one time step is accepted at most once.
\<close>

theorem totp_code_once:
  assumes "mfa_run env acc t m" and "acc = xs @ (t2, u, c) # ys" and "(t1, u, c) \<in> set ys"
  shows "t1 + REPLAY_GUARD_MS \<le> t2 \<and> (\<nexists>k. \<bar>k - t1 div 30000\<bar> \<le> 1 \<and> \<bar>k - t2 div 30000\<bar> \<le> 1)"
proof -
  have le: "t1 + REPLAY_GUARD_MS \<le> t2" by (rule mfa_run_spacing [OF assms])
  have "t1 div 30000 + 4 \<le> t2 div 30000"
    using zdiv_mono1 [of "t1 + 4 * 30000" t2 30000] le by (simp add: REPLAY_GUARD_MS_def)
  then show ?thesis using le by auto
qed

text \<open>One code accepted, and accepted again two minutes later.\<close>

definition marks0 :: store where
  "marks0 = fst (verifyCode (env0 jwt_none) 0 ''u'' ''s'' ''123456'' Map.empty)"

definition marks1 :: store where
  "marks1 = fst (verifyCode (env0 jwt_none) 120000 ''u'' ''s'' ''123456'' marks0)"

lemma trim_code: "trim ''123456'' = ''123456''"
  by (simp add: trim_def is_space_def char_code_def)

lemma empty_view [simp]: "store_view t Map.empty k = None"
  by (simp add: store_view_def)

lemma accept0: "verifyCode (env0 jwt_none) 0 ''u'' ''s'' ''123456'' Map.empty = (marks0, Inr True)"
proof -
  have "verifyCode (env0 jwt_none) 0 ''u'' ''s'' ''123456'' Map.empty = (fst (verifyCode (env0 jwt_none) 0 ''u'' ''s'' ''123456'' Map.empty), Inr True)"
    by (subst (1 2) verifyCode_accept)
       (simp_all add: mfa_locked_def failures_at_def code_accepted_def trim_code env0_def)
  then show ?thesis by (simp add: marks0_def)
qed

lemma marks0_view:
  "0 \<le> t \<Longrightarrow> store_view t marks0 = (\<lambda>k. if k = replayKey ''u'' ''123456'' then
       alive t \<lparr> se_value = SBool True, se_expiresAt = Some 120000 \<rparr> else None)"
proof -
  assume t: "0 \<le> t"
  have m: "marks0 = store_set 0 (replayKey ''u'' ''123456'') (SBool True) (Some REPLAY_GUARD_MS)
      (store_delete (failKey ''u'') (after_reads 0 ''u'' ''123456'' Map.empty))"
    unfolding marks0_def
    by (subst verifyCode_accept) (simp_all add: mfa_locked_def failures_at_def code_accepted_def trim_code env0_def)
  show ?thesis unfolding m
    using t by (simp add: mem_store.put_view mem_store.del_view after_reads_view REPLAY_GUARD_MS_def fun_eq_iff)
qed

lemma accept1: "verifyCode (env0 jwt_none) 120000 ''u'' ''s'' ''123456'' marks0 = (marks1, Inr True)"
proof -
  have "\<not> mfa_locked 120000 ''u'' marks0" "code_accepted (env0 jwt_none) 120000 ''u'' ''s'' ''123456'' marks0"
    by (simp_all add: mfa_locked_def failures_at_def code_accepted_def trim_code env0_def marks0_view
        alive_def entry_expired_def)
  from verifyCode_accept [OF this] show ?thesis by (simp add: marks1_def)
qed

lemma mfa_run0: "mfa_run (env0 jwt_none) [(120000, ''u'', ''123456''), (0, ''u'', ''123456'')] 120000 marks1"
  using mfa_run.accept [OF mfa_run.accept [OF mfa_run.start [of "env0 jwt_none" 0] _ accept0] _ accept1]
  by (simp add: trim_code)

theorem totp_code_once_witness:
  "0 + REPLAY_GUARD_MS \<le> 120000 \<and> (\<nexists>k. \<bar>k - 0 div 30000\<bar> \<le> 1 \<and> \<bar>k - 120000 div (30000::int)\<bar> \<le> 1)"
  using totp_code_once [OF mfa_run0, of "[]" 120000 "''u''" "''123456''" "[(0, ''u'', ''123456'')]" 0] by simp

section \<open>The lock\<close>

text \<open>The answers to a sequence of codes sent for one user at the given instants.\<close>

fun attempts :: "auth_env \<Rightarrow> uuid \<Rightarrow> string \<Rightarrow> (instant \<times> string) list \<Rightarrow> store \<Rightarrow> bool res list" where
  "attempts env u sec [] m = []"
| "attempts env u sec ((t, code) # as) m =
     (let (m', r) = verifyCode env t u sec code m in r # attempts env u sec as m')"

definition counting :: "instant \<Rightarrow> uuid \<Rightarrow> int \<Rightarrow> instant \<Rightarrow> store \<Rightarrow> bool" where
  "counting t u n x m \<longleftrightarrow> store_view t m (failKey u) = Some \<lparr> se_value = SNum n, se_expiresAt = Some x \<rparr>"

lemma counting_later: "counting t u n x m \<Longrightarrow> t \<le> t' \<Longrightarrow> t' < x \<Longrightarrow> counting t' u n x m"
  using mem_store.view_later by (fastforce simp: counting_def alive_def entry_expired_def)

lemma counting_locked: "counting t u n x m \<Longrightarrow> mfa_locked t u m \<longleftrightarrow> MAX_MFA_FAILURES \<le> n"
  by (simp add: counting_def mfa_locked_def failures_at_def)

lemma locked_attempts:
  "counting t0 u n x m \<Longrightarrow> MAX_MFA_FAILURES \<le> n \<Longrightarrow> sorted (t0 # map fst as) \<Longrightarrow> \<forall>a \<in> set as. fst a < x \<Longrightarrow>
     attempts env u sec as m = replicate (length as) (Inl too_many)"
proof (induction as arbitrary: t0 m)
  case (Cons a as)
  obtain t code where a: "a = (t, code)" by fastforce
  have c: "counting t u n x m" using Cons.prems a by (intro counting_later [OF Cons.prems(1)]) auto
  let ?m = "snd (store_get t (failKey u) m)"
  have "counting t u n x ?m" using c by (simp add: counting_def mem_store.get_view)
  then have "attempts env u sec as ?m = replicate (length as) (Inl too_many)"
    using Cons.prems a by (intro Cons.IH [of t]) auto
  then show ?case
    using verifyCode_locked [of t u m env sec code] counting_locked [OF c] Cons.prems(2) a by simp
qed simp

lemma wrong_attempt:
  assumes "counting t0 u n x m" and "t0 \<le> t" and "t < x" and "n < MAX_MFA_FAILURES"
    and "verifyCode env t u sec code m = (m', r)" and "r \<noteq> Inr True"
  shows "counting t u (n + 1) x m' \<and> r = (if n + 1 \<ge> MAX_MFA_FAILURES then Inl too_many else Inr False)"
proof -
  have c: "counting t u n x m" by (rule counting_later [OF assms(1-3)])
  then have c': "counting t u n x (after_reads t u code m)" by (simp add: counting_def after_reads_view)
  note v = c' [unfolded counting_def]
  from assms(5) show ?thesis
  proof (cases rule: verifyCode_cases)
    case locked
    then show ?thesis using counting_locked [OF c] assms(4) by simp
  next
    case ok
    then show ?thesis using assms(6) by simp
  next
    case (no k)
    have "m' = snd (store_increment t (failKey u) (Some FAILURE_BUCKET_TTL_MS) (after_reads t u code m))"
      "k = n + 1"
      using no(3) mem_store.incr_live [OF v, of "Some FAILURE_BUCKET_TTL_MS"] by simp_all
    then show ?thesis using mem_store.incr_live_view [OF v, of t "Some FAILURE_BUCKET_TTL_MS"] no(4) assms(3)
      by (simp add: counting_def alive_def entry_expired_def)
  qed
qed

lemma first_wrong_attempt:
  assumes "store_view t m (failKey u) = None" and "verifyCode env t u sec code m = (m', r)" and "r \<noteq> Inr True"
  shows "counting t u 1 (t + FAILURE_BUCKET_TTL_MS) m' \<and> r = Inr False"
proof -
  have v: "store_view t (after_reads t u code m) (failKey u) = None" using assms(1) by (simp add: after_reads_view)
  from assms(2) show ?thesis
  proof (cases rule: verifyCode_cases)
    case locked
    then show ?thesis using assms(1) by (simp add: mfa_locked_def failures_at_def)
  next
    case ok
    then show ?thesis using assms(3) by simp
  next
    case (no k)
    have "m' = snd (store_increment t (failKey u) (Some FAILURE_BUCKET_TTL_MS) (after_reads t u code m))" "k = 1"
      using no(3) mem_store.incr_fresh [OF v, of "Some FAILURE_BUCKET_TTL_MS"] by simp_all
    then show ?thesis using mem_store.incr_fresh_view [OF v, of t "Some FAILURE_BUCKET_TTL_MS"] no(4)
      by (simp add: counting_def alive_def entry_expired_def FAILURE_BUCKET_TTL_MS_def MAX_MFA_FAILURES_def)
  qed
qed

lemma counted_attempts:
  "counting t0 u n x m \<Longrightarrow> 0 \<le> n \<Longrightarrow> n \<le> MAX_MFA_FAILURES \<Longrightarrow> sorted (t0 # map fst as) \<Longrightarrow> \<forall>a \<in> set as. fst a < x \<Longrightarrow>
     Inr True \<notin> set (take (nat (MAX_MFA_FAILURES - n)) (attempts env u sec as m)) \<Longrightarrow>
     nat (MAX_MFA_FAILURES - n) \<le> i + 1 \<Longrightarrow> i < length as \<Longrightarrow> attempts env u sec as m ! i = Inl too_many"
proof (induction as arbitrary: t0 m n i)
  case (Cons a as)
  obtain t code where a: "a = (t, code)" by fastforce
  show ?case
  proof (cases "n = MAX_MFA_FAILURES")
    case True
    then show ?thesis using locked_attempts [OF Cons.prems(1) _ Cons.prems(4,5), of env sec] Cons.prems(8)
      by (simp del: replicate_Suc)
  next
    case False
    then have n: "n < MAX_MFA_FAILURES" using Cons.prems(3) by simp
    then obtain k where k: "nat (MAX_MFA_FAILURES - n) = Suc k" "nat (MAX_MFA_FAILURES - (n + 1)) = k"
      by (intro that [of "nat (MAX_MFA_FAILURES - n - 1)"]) (simp_all add: nat_eq_iff algebra_simps)
    obtain m' r where r: "verifyCode env t u sec code m = (m', r)" by fastforce
    have at: "attempts env u sec (a # as) m = r # attempts env u sec as m'" using r a by simp
    then have "r \<noteq> Inr True" using Cons.prems(6) k(1) by auto
    then have w: "counting t u (n + 1) x m'" "r = (if n + 1 \<ge> MAX_MFA_FAILURES then Inl too_many else Inr False)"
      using wrong_attempt [OF Cons.prems(1) _ _ n r] Cons.prems(4,5) a by auto
    show ?thesis
    proof (cases i)
      case 0
      then have "n + 1 = MAX_MFA_FAILURES" using Cons.prems(7) n k by simp
      then show ?thesis using 0 w(2) at by simp
    next
      case (Suc j)
      have "attempts env u sec as m' ! j = Inl too_many"
        using Cons.IH [OF w(1), of j] Cons.prems n k at a Suc by auto
      then show ?thesis using at Suc by simp
    qed
  qed
qed simp

text \<open>
  Guessing is bounded by the failure bucket: when no failure is pending for a user and none
  of the first five codes sent within five minutes is accepted, every code from the fifth on
  is answered \<^emph>\<open>too many attempts\<close>, a correct one too.
\<close>

theorem totp_lockout:
  assumes "store_view t0 m (failKey u) = None" and "sorted (t0 # map fst as)"
    and "\<forall>a \<in> set as. fst a < t0 + FAILURE_BUCKET_TTL_MS"
    and "Inr True \<notin> set (take 5 (attempts env u sec ((t0, code) # as) m))"
    and "4 \<le> i" and "i \<le> length as"
  shows "attempts env u sec ((t0, code) # as) m ! i = Inl too_many"
proof -
  obtain m' r where r: "verifyCode env t0 u sec code m = (m', r)" by fastforce
  have at: "attempts env u sec ((t0, code) # as) m = r # attempts env u sec as m'" using r by simp
  obtain j where j: "i = Suc j" using assms(5) by (cases i) simp_all
  have five: "take 5 (r # attempts env u sec as m') = r # take 4 (attempts env u sec as m')" by simp
  then have "r \<noteq> Inr True" using assms(4) at by auto
  then have "counting t0 u 1 (t0 + FAILURE_BUCKET_TTL_MS) m'" using first_wrong_attempt [OF assms(1) r] by simp
  then have "attempts env u sec as m' ! j = Inl too_many"
    using counted_attempts [of t0 u 1 "t0 + FAILURE_BUCKET_TTL_MS" m' as env sec j] assms(2-6) at five j
    by (simp add: MAX_MFA_FAILURES_def)
  then show ?thesis using at j by simp
qed

text \<open>Five wrong codes, then the right one a moment later.\<close>

definition guesses :: "(instant \<times> string) list" where
  "guesses = [(1, ''1''), (2, ''2''), (3, ''3''), (4, ''4''), (5, ''123456'')]"

lemma wrong0:
  assumes "code \<noteq> ''123456''" and "trim code = code"
  shows "verifyCode (env0 J) t u sec code m \<noteq> (m', Inr True)"
proof
  have no: "\<not> code_accepted (env0 J) t u sec code m" using assms by (simp add: code_accepted_def env0_def)
  assume "verifyCode (env0 J) t u sec code m = (m', Inr True)"
  then show False by (rule verifyCode_cases) (use no in \<open>simp_all split: if_splits\<close>)
qed

lemma attempts_wrong:
  assumes "\<forall>a \<in> set as. snd a \<noteq> ''123456'' \<and> trim (snd a) = snd a"
  shows "Inr True \<notin> set (take (length as) (attempts (env0 J) u sec (as @ bs) m))"
  using assms
proof (induction as arbitrary: m)
  case (Cons a as)
  obtain t code where a: "a = (t, code)" by fastforce
  obtain m' r where r: "verifyCode (env0 J) t u sec code m = (m', r)" by fastforce
  have "r \<noteq> Inr True" using wrong0 [of code J t u sec m m'] Cons.prems a r by auto
  then show ?case using Cons.IH [of m'] Cons.prems a r by simp
qed simp

theorem totp_lockout_witness:
  "attempts (env0 jwt_none) ''u'' ''s'' ((0, ''0'') # guesses) Map.empty ! 5 = Inl too_many"
proof -
  have "Inr True \<notin> set (take 5 (attempts (env0 jwt_none) ''u'' ''s'' ((0, ''0'') # guesses) Map.empty))"
    using attempts_wrong [of "[(0, ''0''), (1, ''1''), (2, ''2''), (3, ''3''), (4, ''4'')]" jwt_none "''u''" "''s''" "[(5, ''123456'')]" Map.empty]
    by (simp add: guesses_def trim_def is_space_def char_code_def numeral_eq_Suc del: attempts.simps)
  then show ?thesis
    using totp_lockout [of 0 Map.empty "''u''" guesses "env0 jwt_none" "''s''" "''0''" 5]
    by (simp add: guesses_def FAILURE_BUCKET_TTL_MS_def del: attempts.simps)
qed

end
