(* ===== verification/Auth.thy ===== *)
theory Auth
  imports Totp
begin

text \<open>
  \<^verbatim>\<open>src/auth/auth.service.ts\<close>: registration and single-use token flows, login with lockout,
  sessions with rotating refresh tokens, the second factor and the account lifecycle.
  Every handler is given with the clock reading, the random values it draws, and, where it reads
  a row first and acts on it later, the table as it was when it read (\<open>view\<close>), so that
  two requests may act on the same row read.
\<close>

section \<open>Tables\<close>

definition user_uqs :: "(user, string) uq list" where
  "user_uqs = [([''id''], \<lambda>u. Some (usr_id u)), ([''email''], \<lambda>u. Some (usr_email u))]"

definition session_uqs :: "(session, string) uq list" where
  "session_uqs = [([''id''], \<lambda>x. Some (ses_id x))]"

definition refresh_uqs :: "(refresh_token, string) uq list" where
  "refresh_uqs = [([''id''], \<lambda>r. Some (rt_id r)), ([''token_hash''], \<lambda>r. Some (rt_tokenHash r))]"

definition used_token_uqs :: "(used_token, string) uq list" where
  "used_token_uqs = [([''jti''], \<lambda>u. Some (ut_jti u))]"

definition totp_uqs :: "(totp_credential, string) uq list" where
  "totp_uqs = [([''user_id''], \<lambda>c. Some (tc_userId c))]"

definition recovery_uqs :: "(recovery_code, string) uq list" where
  "recovery_uqs = [([''id''], \<lambda>c. Some (rc_id c))]"

definition find_user :: "uuid \<Rightarrow> user list \<Rightarrow> user option" where
  "find_user userId t = List.find (\<lambda>u. usr_id u = userId) t"

definition find_email :: "string \<Rightarrow> user list \<Rightarrow> user option" where
  "find_email email t = List.find (\<lambda>u. usr_email u = email) t"

definition has_totp :: "uuid \<Rightarrow> app \<Rightarrow> totp_credential option" where
  "has_totp userId s = List.find (\<lambda>c. tc_userId c = userId) (totpCredentials s)"

text \<open>\<^verbatim>\<open>user.update\<close>: the row must exist and the updated table must keep the unique constraints.\<close>

definition update_user :: "uuid \<Rightarrow> (user \<Rightarrow> user) \<Rightarrow> app \<Rightarrow> app \<times> unit res" where
  "update_user userId d s = (if find_user userId (users s) = None then (s, Inl P2025)
     else case check_unique user_uqs (update_rows (\<lambda>u. usr_id u = userId) d (users s)) of
       Inl e \<Rightarrow> (s, Inl e)
     | Inr t \<Rightarrow> (s\<lparr>users := t\<rparr>, Inr ()))"

definition revoke_sessions :: "(session \<Rightarrow> bool) \<Rightarrow> app \<Rightarrow> app" where
  "revoke_sessions w s =
     s\<lparr>sessions := update_rows (\<lambda>x. w x \<and> \<not> ses_revoked x) (\<lambda>x. x\<lparr>ses_revoked := True\<rparr>) (sessions s)\<rparr>"

definition revoke_refresh :: "(refresh_token \<Rightarrow> bool) \<Rightarrow> app \<Rightarrow> app" where
  "revoke_refresh w s =
     s\<lparr>refreshTokens := update_rows (\<lambda>r. w r \<and> \<not> rt_revoked r) (\<lambda>r. r\<lparr>rt_revoked := True\<rparr>) (refreshTokens s)\<rparr>"

definition revoke_user :: "uuid \<Rightarrow> app \<Rightarrow> app" where
  "revoke_user userId s =
     revoke_refresh (\<lambda>r. rt_userId r = userId) (revoke_sessions (\<lambda>x. ses_userId x = userId) s)"

section \<open>Messages and mail\<close>

definition INVALID_CREDENTIALS_MESSAGE :: string where
  "INVALID_CREDENTIALS_MESSAGE = ''Invalid email or password''"

definition INVALID_TOKEN_MESSAGE :: string where
  "INVALID_TOKEN_MESSAGE = ''Invalid or expired token''"

definition invalid_credentials :: exn where
  "invalid_credentials = Unauthorized INVALID_CREDENTIALS_MESSAGE"

definition invalid_token :: exn where
  "invalid_token = BadRequest INVALID_TOKEN_MESSAGE"

text \<open>\<^verbatim>\<open>notify\<close>: a failing transport is logged and otherwise ignored.\<close>

definition notify :: "auth_env \<Rightarrow> string \<Rightarrow> string \<Rightarrow> string \<Rightarrow> string \<Rightarrow> app \<Rightarrow> app" where
  "notify env to templateCode subject body s =
     (let m = \<lparr> ml_to = to, ml_templateCode = templateCode, ml_subject = subject, ml_body = body \<rparr>
      in if lib_mail env m then s\<lparr>mails := mails s @ [m]\<rparr> else s)"

section \<open>Registration\<close>

record register_dto =
  rg_email :: string
  rg_password :: string
  rg_role :: user_role
  rg_fullName :: string
  rg_dateOfBirth :: instant
  rg_phone :: "string option"

definition new_user :: "string \<Rightarrow> string \<Rightarrow> user_role \<Rightarrow> instant option \<Rightarrow> instant \<Rightarrow> uuid \<Rightarrow> user" where
  "new_user email hash role verified now uid =
     \<lparr> usr_id = uid, usr_email = email, usr_passwordHash = hash, usr_role = role, usr_emailVerifiedAt = verified,
       usr_failedLoginAttempts = 0, usr_lockedUntil = None, usr_pwdVersion = 1, usr_isActive = True,
       usr_deletedAt = None, usr_createdAt = now \<rparr>"

definition create_user :: "(uuid \<Rightarrow> user) \<Rightarrow> app \<Rightarrow> app \<times> user res" where
  "create_user mk s = (let (uid, s') = fresh_uuid s in
     case insert_row user_uqs (mk uid) (users s') of
       Inl e \<Rightarrow> (s', Inl e)
     | Inr t \<Rightarrow> (s'\<lparr>users := t\<rparr>, Inr (mk uid)))"

definition VERIFY_EMAIL_TTL_SECONDS :: int where "VERIFY_EMAIL_TTL_SECONDS = 86400"
definition RESET_PASSWORD_TTL_SECONDS :: int where "RESET_PASSWORD_TTL_SECONDS = 900"
definition USED_TOKEN_RETENTION_MS :: int where "USED_TOKEN_RETENTION_MS = 7 * 86400000"

definition mail_verification :: "auth_env \<Rightarrow> user \<Rightarrow> string \<Rightarrow> app \<Rightarrow> app" where
  "mail_verification env u token s = notify env (usr_email u) ''VERIFY_EMAIL'' ''Verify your email''
     (''Use this token to verify your email (valid 24 hours): '' @ token) s"

definition register ::
  "auth_env \<Rightarrow> user list \<Rightarrow> register_dto \<Rightarrow> string option \<Rightarrow> string \<Rightarrow> instant \<Rightarrow> app \<Rightarrow> app \<times> (string \<times> bool) res" where
  "register env view dto ip salt now s =
     (if \<not> validatePasswordPolicy (rg_password dto) [rg_email dto, local_part (rg_email dto)]
      then (s, Inl (BadRequest ''Password must be at least 8 characters, contain letters and digits, and not include your email''))
      else if rg_role dto = STUDENT \<and> yearsFrom now (rg_dateOfBirth dto) < 18
      then (s, Inl (BadRequest ''Students under 18 must be registered by a parent or guardian''))
      else if find_email (rg_email dto) view \<noteq> None
      then (notify env (rg_email dto) ''REGISTER_DUPLICATE'' ''Registration attempt for an existing account''
              ''Someone tried to register with this email. If this was you, use password recovery instead.''
              (record_audit None ''register_duplicate'' ip True None s),
            Inr (rg_email dto, True))
      else bindE (create_user (new_user (rg_email dto) (lib_bcrypt_hash env salt (rg_password dto)) (rg_role dto) None now))
        (\<lambda>u s1. let (token, s2) = signActionToken env (usr_id u) VERIFY_EMAIL VERIFY_EMAIL_TTL_SECONDS None now s1 in
           (record_audit (Some (usr_id u)) ''register'' ip True None (mail_verification env u token s2),
            Inr (usr_email u, True))) s)"

section \<open>Single-use tokens\<close>

text \<open>Claims of a verified token are those the service signed, so subject and id are strings.\<close>

definition json_str :: "json \<Rightarrow> string" where
  "json_str j = (case j of JStr x \<Rightarrow> x | _ \<Rightarrow> [])"

definition parseActionToken ::
  "auth_env \<Rightarrow> instant \<Rightarrow> string \<Rightarrow> used_token_purpose \<Rightarrow> (uuid \<times> string \<times> string option) res" where
  "parseActionToken env now token purpose = (case token_verify env now token ''action'' of
       Inl _ \<Rightarrow> Inl invalid_token
     | Inr claims \<Rightarrow> (case (json_get claims ''sub'', json_get claims ''jti'') of
           (Some sub, Some jti) \<Rightarrow>
             if json_get claims ''purpose'' \<noteq> Some (JStr (show_purpose purpose)) then Inl invalid_token
             else Inr (json_str sub, json_str jti, map_option json_str (json_get claims ''target''))
         | _ \<Rightarrow> Inl invalid_token))"

definition use_token :: "string \<Rightarrow> uuid \<Rightarrow> used_token_purpose \<Rightarrow> instant \<Rightarrow> app \<Rightarrow> app \<times> unit res" where
  "use_token jti userId purpose now s =
     (case insert_row used_token_uqs \<lparr> ut_jti = jti, ut_userId = userId, ut_purpose = purpose,
             ut_expiresAt = now + USED_TOKEN_RETENTION_MS \<rparr> (usedTokens s) of
        Inl e \<Rightarrow> (s, Inl e)
      | Inr t \<Rightarrow> (s\<lparr>usedTokens := t\<rparr>, Inr ()))"

text \<open>\<^verbatim>\<open>try { await prisma.$transaction([...]) } catch { throw 400 }\<close>.\<close>

definition token_transaction :: "(app \<Rightarrow> app \<times> unit res) \<Rightarrow> app \<Rightarrow> app \<times> unit res" where
  "token_transaction body s = (case transaction body s of
       (s', Inl _) \<Rightarrow> (s', Inl invalid_token)
     | (s', Inr v) \<Rightarrow> (s', Inr v))"

definition verify_email_tx :: "uuid \<Rightarrow> string \<Rightarrow> instant \<Rightarrow> app \<Rightarrow> app \<times> unit res" where
  "verify_email_tx userId jti now =
     bindE (use_token jti userId VERIFY_EMAIL now) (\<lambda>_.
       update_user userId (\<lambda>u. u\<lparr>usr_emailVerifiedAt := Some now\<rparr>))"

definition verifyEmail :: "auth_env \<Rightarrow> string \<Rightarrow> string option \<Rightarrow> instant \<Rightarrow> app \<Rightarrow> app \<times> bool res" where
  "verifyEmail env token ip now s = (case parseActionToken env now token VERIFY_EMAIL of
       Inl e \<Rightarrow> (s, Inl e)
     | Inr (userId, jti, _) \<Rightarrow>
         bindE (token_transaction (verify_email_tx userId jti now)) (\<lambda>_ s'.
           (record_audit (Some userId) ''email_verified'' ip True None s', Inr True)) s)"

text \<open>Five mails an hour and account; beyond that the mail is skipped and the answer stays the same.\<close>

definition mail_budget :: "string \<Rightarrow> uuid \<Rightarrow> instant \<Rightarrow> app \<Rightarrow> bool \<times> app" where
  "mail_budget purpose userId now s =
     (let (n, s') = app_increment now (''mail:'' @ purpose @ '':'' @ userId) (Some 3600000) s in (n \<le> 5, s'))"

definition resendVerification :: "auth_env \<Rightarrow> string \<Rightarrow> string option \<Rightarrow> instant \<Rightarrow> app \<Rightarrow> app \<times> bool res" where
  "resendVerification env email ip now s = (case find_email email (users s) of
       None \<Rightarrow> (s, Inr True)
     | Some u \<Rightarrow>
         if usr_deletedAt u = None \<and> usr_isActive u \<and> usr_emailVerifiedAt u = None
         then let (token, s1) = signActionToken env (usr_id u) VERIFY_EMAIL VERIFY_EMAIL_TTL_SECONDS None now s;
                  (within, s2) = mail_budget ''VERIFY_EMAIL'' (usr_id u) now s1
              in (record_audit (Some (usr_id u)) ''email_verification_resent'' ip True None
                    (if within then mail_verification env u token s2 else s2), Inr True)
         else (s, Inr True))"

definition forgotPassword :: "auth_env \<Rightarrow> string \<Rightarrow> string option \<Rightarrow> instant \<Rightarrow> app \<Rightarrow> app \<times> bool res" where
  "forgotPassword env email ip now s = (case find_email email (users s) of
       None \<Rightarrow> (s, Inr True)
     | Some u \<Rightarrow>
         if usr_deletedAt u = None \<and> usr_isActive u
         then let (token, s1) = signActionToken env (usr_id u) RESET_PASSWORD RESET_PASSWORD_TTL_SECONDS None now s;
                  (within, s2) = mail_budget ''RESET_PASSWORD'' (usr_id u) now s1
              in (record_audit (Some (usr_id u)) ''password_reset_requested'' ip True None
                    (if within then notify env (usr_email u) ''RESET_PASSWORD'' ''Password recovery''
                        (''Use this token to reset your password (valid 15 minutes): '' @ token) s2 else s2), Inr True)
         else (s, Inr True))"

definition set_password :: "string \<Rightarrow> user \<Rightarrow> user" where
  "set_password hash u = u\<lparr>usr_passwordHash := hash, usr_pwdVersion := usr_pwdVersion u + 1\<rparr>"

definition reset_tx :: "uuid \<Rightarrow> string \<Rightarrow> string \<Rightarrow> instant \<Rightarrow> app \<Rightarrow> app \<times> unit res" where
  "reset_tx userId jti hash now =
     bindE (use_token jti userId RESET_PASSWORD now) (\<lambda>_.
       bindE (update_user userId (set_password hash)) (\<lambda>_ s. (revoke_user userId s, Inr ())))"

definition weak_password :: exn where
  "weak_password = BadRequest ''Password must be at least 8 characters and contain letters and digits''"

definition resetPassword ::
  "auth_env \<Rightarrow> string \<Rightarrow> string \<Rightarrow> string option \<Rightarrow> string \<Rightarrow> instant \<Rightarrow> app \<Rightarrow> app \<times> bool res" where
  "resetPassword env token password ip salt now s =
     (if \<not> validatePasswordPolicy password [] then (s, Inl weak_password)
      else case parseActionToken env now token RESET_PASSWORD of
        Inl e \<Rightarrow> (s, Inl e)
      | Inr (userId, jti, _) \<Rightarrow>
          bindE (token_transaction (reset_tx userId jti (lib_bcrypt_hash env salt password) now)) (\<lambda>_ s'.
            (record_audit (Some userId) ''password_reset'' ip True None s', Inr True)) s)"

section \<open>Sessions\<close>

record session_tokens =
  stk_accessToken :: string
  stk_refreshToken :: string
  stk_sessionId :: uuid

record public_user =
  pub_id :: uuid
  pub_email :: string
  pub_role :: user_role
  pub_emailVerified :: bool
  pub_mfaEnabled :: bool
  pub_createdAt :: instant

definition toPublicUser :: "user \<Rightarrow> bool \<Rightarrow> public_user" where
  "toPublicUser u mfaEnabled = \<lparr> pub_id = usr_id u, pub_email = usr_email u, pub_role = usr_role u,
     pub_emailVerified = (usr_emailVerifiedAt u \<noteq> None), pub_mfaEnabled = mfaEnabled, pub_createdAt = usr_createdAt u \<rparr>"

text \<open>\<^verbatim>\<open>rnd\<close> is the refresh token drawn (32 random bytes in base64url); only its hash is stored.\<close>

definition create_session ::
  "uuid \<Rightarrow> string option \<Rightarrow> string option \<Rightarrow> instant \<Rightarrow> instant \<Rightarrow> app \<Rightarrow> app \<times> uuid res" where
  "create_session userId ip userAgent expiresAt now s = (let (sid, s') = fresh_uuid s in
     case insert_row session_uqs \<lparr> ses_id = sid, ses_userId = userId, ses_ip = ip, ses_userAgent = userAgent,
            ses_revoked = False, ses_lastActiveAt = now, ses_expiresAt = expiresAt, ses_createdAt = now \<rparr> (sessions s') of
       Inl e \<Rightarrow> (s', Inl e)
     | Inr t \<Rightarrow> (s'\<lparr>sessions := t\<rparr>, Inr sid))"

definition create_refresh :: "uuid \<Rightarrow> uuid \<Rightarrow> string \<Rightarrow> instant \<Rightarrow> app \<Rightarrow> app \<times> unit res" where
  "create_refresh userId sid hash expiresAt s = (let (rid, s') = fresh_uuid s in
     case insert_row refresh_uqs \<lparr> rt_id = rid, rt_userId = userId, rt_sessionId = sid, rt_tokenHash = hash,
            rt_revoked = False, rt_expiresAt = expiresAt \<rparr> (refreshTokens s') of
       Inl e \<Rightarrow> (s', Inl e)
     | Inr t \<Rightarrow> (s'\<lparr>refreshTokens := t\<rparr>, Inr ()))"

definition issueSession ::
  "auth_env \<Rightarrow> uuid \<Rightarrow> string option \<Rightarrow> string option \<Rightarrow> string \<Rightarrow> instant \<Rightarrow> app \<Rightarrow> app \<times> session_tokens res" where
  "issueSession env userId ip userAgent rnd now s =
     (let expiresAt = now + refreshTtlSeconds env * 1000 in
      case find_user userId (users s) of
        None \<Rightarrow> (s, Inl P2025)
      | Some u \<Rightarrow>
          bindE (transaction (bindE (create_session userId ip userAgent expiresAt now) (\<lambda>sid.
              bindE (create_refresh userId sid (lib_sha256 env rnd) expiresAt) (\<lambda>_. returnE sid))))
            (\<lambda>sid s'. let (acc, s'') = signAccessToken env u sid now s' in
               (s'', Inr \<lparr> stk_accessToken = acc, stk_refreshToken = rnd, stk_sessionId = sid \<rparr>)) s)"

section \<open>Login\<close>

record login_result =
  lgr_mfaRequired :: bool
  lgr_mfaToken :: "string option"
  lgr_tokens :: "session_tokens option"
  lgr_user :: public_user

text \<open>
  \<^verbatim>\<open>registerFailedAttempt\<close> counts from the row that was read. The lockout duration is
  parsed when it is needed; a bad setting makes the call throw before anything is written.
\<close>

definition failed_update :: "bool \<Rightarrow> int \<Rightarrow> instant option \<Rightarrow> user \<Rightarrow> user" where
  "failed_update shouldLock tries until u =
     u\<lparr>usr_failedLoginAttempts := (if shouldLock then 0 else tries), usr_lockedUntil := until\<rparr>"

definition registerFailedAttempt :: "auth_env \<Rightarrow> user \<Rightarrow> string option \<Rightarrow> instant \<Rightarrow> app \<Rightarrow> app \<times> unit res" where
  "registerFailedAttempt env u ip now s =
     (let tries = usr_failedLoginAttempts u + 1;
          shouldLock = (tries \<ge> env_maxLoginAttempts env) in
      case (if shouldLock then (case parseDurationSeconds (env_loginLockoutDuration env) of
                Inl e \<Rightarrow> Inl e | Inr d \<Rightarrow> Inr (Some (now + d * 1000))) else Inr None) of
        Inl e \<Rightarrow> (s, Inl e)
      | Inr until \<Rightarrow>
          bindE (update_user (usr_id u) (failed_update shouldLock tries until)) (\<lambda>_ s1.
            (record_audit (Some (usr_id u)) ''login_failed'' ip False None
               (if shouldLock
                then notify env (usr_email u) ''ACCOUNT_LOCKED'' ''Account temporarily locked''
                       ''Too many failed sign-ins locked your account temporarily.''
                       (record_audit (Some (usr_id u)) ''account_locked'' ip False None s1)
                else s1), Inr ())) s)"

definition NEW_IP_WINDOW_DAYS :: int where "NEW_IP_WINDOW_DAYS = 30"

definition known_logins :: "uuid \<Rightarrow> string \<Rightarrow> instant \<Rightarrow> app \<Rightarrow> nat" where
  "known_logins userId ip since s = count_rows (\<lambda>(at, e). aud_userId e = Some userId \<and> aud_event e = ''login'' \<and>
     aud_success e \<and> aud_ip e = Some ip \<and> at \<ge> since) (aq_rows (audit s))"

definition alertOnNewIp :: "auth_env \<Rightarrow> user \<Rightarrow> string option \<Rightarrow> instant \<Rightarrow> app \<Rightarrow> app" where
  "alertOnNewIp env u ip now s = (case ip of
       None \<Rightarrow> s
     | Some addr \<Rightarrow> if addr = [] then s
         else if known_logins (usr_id u) addr (now - NEW_IP_WINDOW_DAYS * 86400000) s = 0
         then record_audit (Some (usr_id u)) ''login_new_ip'' ip True None
                (notify env (usr_email u) ''LOGIN_NEW_IP'' ''New location sign-in''
                   (''A sign-in to your account was recorded from a new IP address ('' @ addr @
                    ''). If this was not you, reset your password immediately.'') s)
         else s)"

text \<open>A login that is refused after the password matched: a mail to the account and an audit entry.\<close>

definition refuse_login ::
  "auth_env \<Rightarrow> user \<Rightarrow> string \<Rightarrow> string \<Rightarrow> string \<Rightarrow> string \<Rightarrow> string option \<Rightarrow> string option \<Rightarrow> app \<Rightarrow> app \<times> login_result res" where
  "refuse_login env u tpl subj body event ip detail s =
     (record_audit (Some (usr_id u)) event ip False detail (notify env (usr_email u) tpl subj body s),
      Inl invalid_credentials)"

definition complete_login ::
  "auth_env \<Rightarrow> user \<Rightarrow> string option \<Rightarrow> string option \<Rightarrow> string \<Rightarrow> instant \<Rightarrow> app \<Rightarrow> app \<times> login_result res" where
  "complete_login env u ip userAgent rnd now s =
     (if has_totp (usr_id u) s \<noteq> None
      then let s1 = record_audit (Some (usr_id u)) ''login'' ip True (Some ''mfa_pending'') s;
               (token, s2) = signMfaPendingToken env (usr_id u) now s1
           in (s2, Inr \<lparr> lgr_mfaRequired = True, lgr_mfaToken = Some token, lgr_tokens = None, lgr_user = toPublicUser u True \<rparr>)
      else bindE (issueSession env (usr_id u) ip userAgent rnd now) (\<lambda>tokens s1.
             (record_audit (Some (usr_id u)) ''login'' ip True None (alertOnNewIp env u ip now s1),
              Inr \<lparr> lgr_mfaRequired = False, lgr_mfaToken = None, lgr_tokens = Some tokens, lgr_user = toPublicUser u False \<rparr>)) s)"

definition login ::
  "auth_env \<Rightarrow> user list \<Rightarrow> string \<Rightarrow> string \<Rightarrow> string option \<Rightarrow> string option \<Rightarrow> string \<Rightarrow> instant \<Rightarrow> app \<Rightarrow> app \<times> login_result res" where
  "login env view email password ip userAgent rnd now s = (case find_email email view of
       None \<Rightarrow> (record_audit None ''login_failed'' ip False (Some ''unknown account'') s, Inl invalid_credentials)
     | Some u \<Rightarrow>
         if \<not> lib_bcrypt_compare env password (usr_passwordHash u)
         then bindE (registerFailedAttempt env u ip now) (\<lambda>_. throwE invalid_credentials) s
         else if usr_deletedAt u \<noteq> None \<or> \<not> usr_isActive u
         then refuse_login env u ''LOGIN_BLOCKED_DISABLED'' ''Sign-in attempt on a disabled account''
                ''A correct password was used for an account that is no longer active. No action is needed if this was you.''
                ''login_failed'' ip (Some ''disabled'') s
         else if (case usr_lockedUntil u of Some t \<Rightarrow> t > now | None \<Rightarrow> False)
         then refuse_login env u ''LOGIN_BLOCKED_LOCKED'' ''Sign-in attempt on a temporarily locked account''
                ''Your account is temporarily locked after repeated failed sign-ins. Try again later.''
                ''login_locked'' ip None s
         else if usr_emailVerifiedAt u = None
         then refuse_login env u ''LOGIN_BLOCKED_UNVERIFIED'' ''Verify your email to sign in''
                ''A sign-in was attempted before the email address was verified. Check your inbox for the verification token.''
                ''login_failed'' ip (Some ''unverified'') s
         else complete_login env u ip userAgent rnd now s)"

section \<open>Refresh tokens\<close>

definition revokeEverythingForUser :: "auth_env \<Rightarrow> uuid \<Rightarrow> string option \<Rightarrow> app \<Rightarrow> app" where
  "revokeEverythingForUser env userId ip s =
     (let s1 = record_audit (Some userId) ''token_reuse_detected'' ip False None (revoke_user userId s) in
      case find_user userId (users s1) of
        None \<Rightarrow> s1
      | Some u \<Rightarrow> notify env (usr_email u) ''TOKEN_REUSE'' ''Security alert: all sessions were signed out''
          ''A refresh token was reused, which usually means a token was stolen. All sessions have been revoked.'' s1)"

text \<open>
  \<^verbatim>\<open>refresh\<close> up to the atomic revoke: the row and its user are read (\<open>view\<close>), and the caller that
  revokes the row goes on with them. A user row always exists for a token (foreign key).
\<close>

definition refresh_claim ::
  "auth_env \<Rightarrow> app \<Rightarrow> string \<Rightarrow> string option \<Rightarrow> instant \<Rightarrow> app \<Rightarrow> app \<times> (refresh_token \<times> user) res" where
  "refresh_claim env view refreshToken ip now s =
     (case List.find (\<lambda>r. rt_tokenHash r = lib_sha256 env refreshToken) (refreshTokens view) of
        None \<Rightarrow> (s, Inl invalid_credentials)
      | Some row \<Rightarrow> (case find_user (rt_userId row) (users view) of
            None \<Rightarrow> (s, Inl (OtherError ''inconsistent query result''))
          | Some u \<Rightarrow>
              if rt_revoked row then (revokeEverythingForUser env (usr_id u) ip s, Inl invalid_credentials)
              else if rt_expiresAt row \<le> now then (s, Inl invalid_credentials)
              else let (t, n) = update_many (\<lambda>r. rt_id r = rt_id row \<and> \<not> rt_revoked r) (\<lambda>r. r\<lparr>rt_revoked := True\<rparr>) (refreshTokens s);
                       s1 = s\<lparr>refreshTokens := t\<rparr>
                   in if n = 0 then (revokeEverythingForUser env (usr_id u) ip s1, Inl invalid_credentials)
                      else (s1, Inr (row, u))))"

definition touch_session :: "uuid \<Rightarrow> instant \<Rightarrow> app \<Rightarrow> app \<times> unit res" where
  "touch_session sid now s = (if List.find (\<lambda>x. ses_id x = sid) (sessions s) = None then (s, Inl P2025)
     else (s\<lparr>sessions := update_rows (\<lambda>x. ses_id x = sid) (\<lambda>x. x\<lparr>ses_lastActiveAt := now\<rparr>) (sessions s)\<rparr>, Inr ()))"

text \<open>The rest of \<^verbatim>\<open>refresh\<close>, by the caller that consumed \<open>row\<close>; \<open>view\<close> holds the session it reads.\<close>

definition refresh_issue ::
  "auth_env \<Rightarrow> session list \<Rightarrow> refresh_token \<Rightarrow> user \<Rightarrow> string \<Rightarrow> instant \<Rightarrow> app \<Rightarrow> app \<times> session_tokens res" where
  "refresh_issue env view row u rnd now s =
     (if usr_deletedAt u \<noteq> None \<or> \<not> usr_isActive u \<or> usr_emailVerifiedAt u = None then (s, Inl invalid_credentials)
      else case List.find (\<lambda>x. ses_id x = rt_sessionId row) view of
        None \<Rightarrow> (s, Inl P2025)
      | Some sess \<Rightarrow>
          if ses_revoked sess then (s, Inl invalid_credentials)
          else let nextExpiresAt = (if ses_expiresAt sess \<le> now then ses_expiresAt sess else now + refreshTtlSeconds env * 1000) in
            bindE (transaction (bindE (create_refresh (usr_id u) (rt_sessionId row) (lib_sha256 env rnd) nextExpiresAt)
                                  (\<lambda>_. touch_session (rt_sessionId row) now)))
              (\<lambda>_ s1. let (acc, s2) = signAccessToken env u (rt_sessionId row) now s1 in
                 (s2, Inr \<lparr> stk_accessToken = acc, stk_refreshToken = rnd, stk_sessionId = rt_sessionId row \<rparr>)) s)"

definition refresh ::
  "auth_env \<Rightarrow> string \<Rightarrow> string option \<Rightarrow> string \<Rightarrow> instant \<Rightarrow> app \<Rightarrow> app \<times> session_tokens res" where
  "refresh env refreshToken ip rnd now s =
     bindE (refresh_claim env s refreshToken ip now) (\<lambda>(row, u) s1. refresh_issue env (sessions s1) row u rnd now s1) s"

section \<open>Logging out\<close>

definition denylist :: "string \<Rightarrow> int \<Rightarrow> instant \<Rightarrow> app \<Rightarrow> app" where
  "denylist jti ttlMs now s = app_set now (''jti:denylist:'' @ jti) (SBool True) (Some ttlMs) s"

definition logout :: "auth_env \<Rightarrow> string \<Rightarrow> string \<Rightarrow> uuid \<Rightarrow> string option \<Rightarrow> instant \<Rightarrow> app \<Rightarrow> app \<times> bool res" where
  "logout env accessToken jti sid ip now s =
     (let ttlMs = max 1000 (remainingLifetimeSeconds env now accessToken * 1000);
          s1 = revoke_refresh (\<lambda>r. rt_sessionId r = sid) (revoke_sessions (\<lambda>x. ses_id x = sid) s)
      in (record_audit None ''logout'' ip True None (denylist jti ttlMs now s1), Inr True))"

definition bump_version :: "user \<Rightarrow> user" where
  "bump_version u = u\<lparr>usr_pwdVersion := usr_pwdVersion u + 1\<rparr>"

definition logoutAll :: "auth_env \<Rightarrow> uuid \<Rightarrow> string \<Rightarrow> string option \<Rightarrow> instant \<Rightarrow> app \<Rightarrow> app \<times> bool res" where
  "logoutAll env userId currentJti ip now s =
     bindE (transaction (\<lambda>s0. update_user userId bump_version (revoke_user userId s0))) (\<lambda>_ s1.
       (record_audit (Some userId) ''logout_all'' ip True None (denylist currentJti (accessTtlMs env) now s1), Inr True)) s"

definition listSessions :: "uuid \<Rightarrow> instant \<Rightarrow> app \<Rightarrow> session list" where
  "listSessions userId now s = sort_key (\<lambda>x. - ses_lastActiveAt x)
     (filter (\<lambda>x. ses_userId x = userId \<and> \<not> ses_revoked x \<and> ses_expiresAt x > now) (sessions s))"

definition revokeSession :: "uuid \<Rightarrow> uuid \<Rightarrow> string option \<Rightarrow> app \<Rightarrow> app \<times> unit res" where
  "revokeSession userId sid ip s =
     (let (t, n) = update_many (\<lambda>x. ses_id x = sid \<and> ses_userId x = userId \<and> \<not> ses_revoked x)
                     (\<lambda>x. x\<lparr>ses_revoked := True\<rparr>) (sessions s);
          s1 = s\<lparr>sessions := t\<rparr>
      in if n = 0 then (s1, Inl invalid_credentials)
         else (record_audit (Some userId) ''session_revoked'' ip True (Some sid) (revoke_refresh (\<lambda>r. rt_sessionId r = sid) s1),
               Inr ()))"

definition me :: "uuid \<Rightarrow> app \<Rightarrow> public_user res" where
  "me userId s = (case find_user userId (users s) of
       None \<Rightarrow> Inl P2025
     | Some u \<Rightarrow> Inr (toPublicUser u (has_totp userId s \<noteq> None)))"

text \<open>The rows of one user, newest first; equal times keep the table order.\<close>

definition auditLog :: "uuid \<Rightarrow> nat \<Rightarrow> nat \<Rightarrow> app \<Rightarrow> (instant \<times> audit_entry) list \<times> nat" where
  "auditLog userId page limit s =
     (let mine = filter (\<lambda>(at, e). aud_userId e = Some userId) (aq_rows (audit s)) in
      (page_of page limit (sort_key (\<lambda>(at, e). - at) mine), length mine))"

section \<open>Second factor\<close>

text \<open>The enrolment is answered with its URL and QR code and without the secret.\<close>

definition totpEnable ::
  "(string \<Rightarrow> string \<Rightarrow> string \<Rightarrow> string) \<Rightarrow> (string \<Rightarrow> string) \<Rightarrow> uuid \<Rightarrow> string \<Rightarrow> instant \<Rightarrow> app \<Rightarrow> app \<times> (string \<times> string) res" where
  "totpEnable keyuri toDataURL userId secret now s =
     (if has_totp userId s \<noteq> None then (s, Inl (Conflict ''MFA is already enabled''))
      else case find_user userId (users s) of
        None \<Rightarrow> (s, Inl P2025)
      | Some u \<Rightarrow> let enrollment = totp_createEnrollment keyuri toDataURL secret (usr_email u) in
          (s\<lparr>store := stashPendingSecret now userId (ten_secret enrollment) (store s)\<rparr>,
           Inr (ten_otpauthUrl enrollment, ten_qrDataUrl enrollment)))"

fun create_codes :: "uuid \<Rightarrow> string list \<Rightarrow> app \<Rightarrow> app \<times> unit res" where
  "create_codes userId [] s = (s, Inr ())"
| "create_codes userId (h # hs) s = (let (rid, s') = fresh_uuid s in
     case insert_row recovery_uqs \<lparr> rc_id = rid, rc_userId = userId, rc_codeHash = h, rc_usedAt = None \<rparr> (recoveryCodes s') of
       Inl e \<Rightarrow> (s', Inl e)
     | Inr t \<Rightarrow> create_codes userId hs (s'\<lparr>recoveryCodes := t\<rparr>))"

definition create_totp :: "uuid \<Rightarrow> string \<Rightarrow> instant \<Rightarrow> app \<Rightarrow> app \<times> unit res" where
  "create_totp userId sealed now s =
     (case insert_row totp_uqs \<lparr> tc_userId = userId, tc_secretEncrypted = sealed, tc_enabledAt = now \<rparr> (totpCredentials s) of
        Inl e \<Rightarrow> (s, Inl e)
      | Inr t \<Rightarrow> (s\<lparr>totpCredentials := t\<rparr>, Inr ()))"

definition totpVerify ::
  "auth_env \<Rightarrow> uuid \<Rightarrow> string \<Rightarrow> string option \<Rightarrow> string \<Rightarrow> nat list list \<Rightarrow> instant \<Rightarrow> app \<Rightarrow> app \<times> string list res" where
  "totpVerify env userId code ip iv draws now s =
     (let (s1, pending) = on_store (takePendingSecret now userId) s in
      case pending of
        None \<Rightarrow> (s1, Inl (BadRequest ''No pending MFA enrollment''))
      | Some secret \<Rightarrow>
          bindE (on_store (verifyCode env now userId secret code)) (\<lambda>ok s2.
            if \<not> ok then (s2, Inl (Unauthorized ''Invalid verification code''))
            else let codes = generateRecoveryCodes draws in
              bindE (transaction (bindE (create_totp userId (seal env iv secret) now)
                                    (\<lambda>_. create_codes userId (map (lib_sha256 env) codes))))
                (\<lambda>_ s3. (record_audit (Some userId) ''mfa_enabled'' ip True None s3, Inr codes)) s2) s1)"

definition totpValidate :: "auth_env \<Rightarrow> uuid \<Rightarrow> string \<Rightarrow> instant \<Rightarrow> app \<Rightarrow> app \<times> bool res" where
  "totpValidate env userId code now s = (case has_totp userId s of
       None \<Rightarrow> (s, Inl (BadRequest ''MFA is not enabled''))
     | Some c \<Rightarrow> (case unseal env (tc_secretEncrypted c) of
           Inl e \<Rightarrow> (s, Inl e)
         | Inr secret \<Rightarrow> bindE (on_store (validateCode env now userId secret code)) (\<lambda>ok s1.
             if ok then (s1, Inr True) else (s1, Inl (Unauthorized ''Invalid verification code''))) s))"

definition verifySensitiveCredentials ::
  "auth_env \<Rightarrow> user \<Rightarrow> string \<Rightarrow> string option \<Rightarrow> instant \<Rightarrow> app \<Rightarrow> app \<times> unit res" where
  "verifySensitiveCredentials env u password code now s =
     (if \<not> lib_bcrypt_compare env password (usr_passwordHash u) then (s, Inl invalid_credentials)
      else case has_totp (usr_id u) s of
        None \<Rightarrow> (s, Inr ())
      | Some c \<Rightarrow> (case code of
            None \<Rightarrow> (s, Inl (BadRequest ''TOTP code required''))
          | Some x \<Rightarrow> (case unseal env (tc_secretEncrypted c) of
                Inl e \<Rightarrow> (s, Inl e)
              | Inr secret \<Rightarrow> bindE (on_store (verifyCode env now (usr_id u) secret x)) (\<lambda>ok s1.
                  if ok then (s1, Inr ()) else (s1, Inl invalid_credentials)) s)))"

text \<open>The common start of the sensitive operations: the user row, then password and code.\<close>

definition confirm_user :: "auth_env \<Rightarrow> uuid \<Rightarrow> string \<Rightarrow> string option \<Rightarrow> instant \<Rightarrow> app \<Rightarrow> app \<times> user res" where
  "confirm_user env userId password code now s = (case find_user userId (users s) of
       None \<Rightarrow> (s, Inl P2025)
     | Some u \<Rightarrow> bindE (verifySensitiveCredentials env u password code now) (\<lambda>_. returnE u) s)"

definition totpDisable ::
  "auth_env \<Rightarrow> uuid \<Rightarrow> string \<Rightarrow> string \<Rightarrow> string option \<Rightarrow> instant \<Rightarrow> app \<Rightarrow> app \<times> bool res" where
  "totpDisable env userId password code ip now =
     bindE (confirm_user env userId password (Some code) now) (\<lambda>_.
       bindE (transaction (\<lambda>s0. update_user userId bump_version (revoke_user userId
                (s0\<lparr>totpCredentials := delete_rows (\<lambda>c. tc_userId c = userId) (totpCredentials s0),
                    recoveryCodes := delete_rows (\<lambda>c. rc_userId c = userId) (recoveryCodes s0)\<rparr>))))
         (\<lambda>_ s1. (record_audit (Some userId) ''mfa_disabled'' ip True None s1, Inr True)))"

definition recoveryCodesRemaining :: "uuid \<Rightarrow> app \<Rightarrow> nat" where
  "recoveryCodesRemaining userId s = count_rows (\<lambda>c. rc_userId c = userId \<and> rc_usedAt c = None) (recoveryCodes s)"

definition mfaMethods :: "uuid \<Rightarrow> app \<Rightarrow> (string \<times> bool) list" where
  "mfaMethods userId s = [(''totp'', has_totp userId s \<noteq> None)]"

text \<open>
  The recovery-code leg of the second login step: \<open>view\<close> is the table the code was looked up in,
  so two requests may both have found it unused.
\<close>

definition use_recovery_code ::
  "auth_env \<Rightarrow> recovery_code list \<Rightarrow> uuid \<Rightarrow> string \<Rightarrow> instant \<Rightarrow> app \<Rightarrow> bool \<times> app" where
  "use_recovery_code env view userId code now s =
     (if length code \<noteq> 8 then (False, s)
      else case List.find (\<lambda>c. rc_userId c = userId \<and> rc_codeHash c = lib_sha256 env code \<and> rc_usedAt c = None) view of
        None \<Rightarrow> (False, s)
      | Some c \<Rightarrow> (True, s\<lparr>recoveryCodes := update_rows (\<lambda>r. rc_id r = rc_id c) (\<lambda>r. r\<lparr>rc_usedAt := Some now\<rparr>) (recoveryCodes s)\<rparr>))"

definition mfa_subject :: "auth_env \<Rightarrow> instant \<Rightarrow> string \<Rightarrow> uuid res" where
  "mfa_subject env now token = (case token_verify env now token ''mfa_pending'' of
       Inl _ \<Rightarrow> Inl invalid_credentials
     | Inr claims \<Rightarrow> (case json_get claims ''sub'' of Some (JStr userId) \<Rightarrow> Inr userId | _ \<Rightarrow> Inl invalid_credentials))"

definition mfa_complete ::
  "auth_env \<Rightarrow> uuid \<Rightarrow> bool \<Rightarrow> string option \<Rightarrow> string option \<Rightarrow> string \<Rightarrow> instant \<Rightarrow> app \<Rightarrow> app \<times> login_result res" where
  "mfa_complete env userId recovery ip userAgent rnd now s = (case find_user userId (users s) of
       None \<Rightarrow> (s, Inl P2025)
     | Some u \<Rightarrow>
         if usr_deletedAt u \<noteq> None \<or> \<not> usr_isActive u then (s, Inl invalid_credentials)
         else bindE (issueSession env (usr_id u) ip userAgent rnd now) (\<lambda>tokens s1.
           let s2 = record_audit (Some userId) ''login'' ip True (Some (if recovery then ''mfa_recovery_used'' else ''mfa''))
                      (alertOnNewIp env u ip now s1);
               s3 = (if recovery then notify env (usr_email u) ''MFA_RECOVERY_USED'' ''A recovery code was used to sign in''
                        ''A single-use recovery code was used to sign in to your account. If this was not you, reset your password immediately.''
                        (record_audit (Some userId) ''mfa_recovery_used'' ip True None s2) else s2)
           in (s3, Inr \<lparr> lgr_mfaRequired = False, lgr_mfaToken = None, lgr_tokens = Some tokens, lgr_user = toPublicUser u True \<rparr>)) s)"

definition mfaLoginVerify ::
  "auth_env \<Rightarrow> recovery_code list \<Rightarrow> string \<Rightarrow> string \<Rightarrow> string option \<Rightarrow> string option \<Rightarrow> string \<Rightarrow> instant \<Rightarrow> app \<Rightarrow> app \<times> login_result res" where
  "mfaLoginVerify env view mfaToken code ip userAgent rnd now s = (case mfa_subject env now mfaToken of
       Inl e \<Rightarrow> (s, Inl e)
     | Inr userId \<Rightarrow>
         bindE (on_store (assertNotLocked now userId)) (\<lambda>_ s1. case has_totp userId s1 of
             None \<Rightarrow> (s1, Inl invalid_credentials)
           | Some c \<Rightarrow> (case unseal env (tc_secretEncrypted c) of
                 Inl e \<Rightarrow> (s1, Inl e)
               | Inr secret \<Rightarrow> bindE (on_store (verifyCode env now userId secret code)) (\<lambda>totpOk s2.
                   if totpOk then mfa_complete env userId False ip userAgent rnd now s2
                   else let (recovery, s3) = use_recovery_code env view userId code now s2 in
                     if \<not> recovery then (s3, Inl invalid_credentials)
                     else mfa_complete env userId True ip userAgent rnd now s3) s1)) s)"

section \<open>Account lifecycle\<close>

definition changePassword ::
  "auth_env \<Rightarrow> uuid \<Rightarrow> string \<Rightarrow> string \<Rightarrow> string option \<Rightarrow> string \<Rightarrow> string option \<Rightarrow> string \<Rightarrow> instant \<Rightarrow> app \<Rightarrow> app \<times> bool res" where
  "changePassword env userId currentPassword newPassword code currentJti ip salt now s =
     (if \<not> validatePasswordPolicy newPassword [] then (s, Inl weak_password)
      else bindE (confirm_user env userId currentPassword code now) (\<lambda>_.
        bindE (transaction (bindE (update_user userId (set_password (lib_bcrypt_hash env salt newPassword)))
                 (\<lambda>_ s0. (revoke_user userId s0, Inr ()))))
          (\<lambda>_ s1. (record_audit (Some userId) ''password_changed'' ip True None
                     (denylist currentJti (accessTtlMs env) now s1), Inr True))) s)"

definition requestChangeEmail ::
  "auth_env \<Rightarrow> uuid \<Rightarrow> string \<Rightarrow> string \<Rightarrow> string option \<Rightarrow> instant \<Rightarrow> app \<Rightarrow> app \<times> bool res" where
  "requestChangeEmail env userId currentPassword newEmail ip now =
     bindE (confirm_user env userId currentPassword None now) (\<lambda>_ s1.
       if find_email newEmail (users s1) \<noteq> None then (s1, Inl (Conflict ''Email already in use''))
       else let (token, s2) = signActionToken env userId CHANGE_EMAIL VERIFY_EMAIL_TTL_SECONDS (Some newEmail) now s1 in
         (record_audit (Some userId) ''email_change_requested'' ip True None
            (notify env newEmail ''CHANGE_EMAIL'' ''Confirm your new email address''
               (''Use this token to confirm the email change (valid 24 hours): '' @ token) s2), Inr True))"

definition set_email :: "string \<Rightarrow> instant \<Rightarrow> user \<Rightarrow> user" where
  "set_email email now u = u\<lparr>usr_email := email, usr_emailVerifiedAt := Some now, usr_pwdVersion := usr_pwdVersion u + 1\<rparr>"

definition change_email_tx :: "uuid \<Rightarrow> string \<Rightarrow> string \<Rightarrow> instant \<Rightarrow> app \<Rightarrow> app \<times> unit res" where
  "change_email_tx userId jti email now =
     bindE (use_token jti userId CHANGE_EMAIL now) (\<lambda>_.
       bindE (update_user userId (set_email email now)) (\<lambda>_ s. (revoke_user userId s, Inr ())))"

definition confirmChangeEmail :: "auth_env \<Rightarrow> string \<Rightarrow> string option \<Rightarrow> instant \<Rightarrow> app \<Rightarrow> app \<times> bool res" where
  "confirmChangeEmail env token ip now s = (case parseActionToken env now token CHANGE_EMAIL of
       Inl e \<Rightarrow> (s, Inl e)
     | Inr (userId, jti, target) \<Rightarrow> (case target of
           None \<Rightarrow> (s, Inl invalid_token)
         | Some email \<Rightarrow>
             if find_email email (users s) \<noteq> None then (s, Inl (Conflict ''Email already in use''))
             else bindE (token_transaction (change_email_tx userId jti email now)) (\<lambda>_ s'.
               (record_audit (Some userId) ''email_changed'' ip True (Some email) s', Inr True)) s))"

definition close_account :: "instant \<Rightarrow> user \<Rightarrow> user" where
  "close_account now u = u\<lparr>usr_isActive := False, usr_deletedAt := Some now\<rparr>"

definition deactivate ::
  "auth_env \<Rightarrow> uuid \<Rightarrow> string \<Rightarrow> string option \<Rightarrow> string \<Rightarrow> string option \<Rightarrow> instant \<Rightarrow> app \<Rightarrow> app \<times> bool res" where
  "deactivate env userId password code currentJti ip now =
     bindE (confirm_user env userId password code now) (\<lambda>_.
       bindE (transaction (bindE (update_user userId (close_account now)) (\<lambda>_ s0. (revoke_user userId s0, Inr ()))))
         (\<lambda>_ s1. (record_audit (Some userId) ''account_deactivated'' ip True None
                    (denylist currentJti (accessTtlMs env) now s1), Inr True)))"

section \<open>The purge of used tokens\<close>

definition RETENTION_MS :: int where "RETENTION_MS = 7 * 86400000"

definition purgeOnce :: "instant \<Rightarrow> app \<Rightarrow> app" where
  "purgeOnce now s = s\<lparr>usedTokens := delete_rows (\<lambda>u. ut_expiresAt u < now - RETENTION_MS) (usedTokens s)\<rparr>"

end
