(* ===== verification/Guards.thy ===== *)
theory Guards
  imports Auth
begin

text \<open>
  What stands before a handler: the bearer-token guard and the role guard of \<^verbatim>\<open>src/auth/guards\<close>, the
  per-address limiter of \<^verbatim>\<open>src/auth/auth-ip-throttle.guard.ts\<close> with the address normalisation of
  \<^verbatim>\<open>src/common/ip-tracker.ts\<close>; and the administration of accounts, \<^verbatim>\<open>src/auth/admin-users.service.ts\<close>.
\<close>

section \<open>Bearer tokens\<close>

definition unauthorized :: exn where
  "unauthorized = Unauthorized ''Unauthorized''"

text \<open>The part of the guard after the token has been verified.\<close>

definition guard_claims :: "json \<Rightarrow> (uuid \<times> string \<times> uuid) option" where
  "guard_claims claims = (case (json_get claims ''sub'', json_get claims ''jti'', json_get claims ''sid'') of
       (Some (JStr sub), Some (JStr jti), Some (JStr sid)) \<Rightarrow> Some (sub, jti, sid) | _ \<Rightarrow> None)"

definition user_admitted :: "uuid \<Rightarrow> json option \<Rightarrow> user list \<Rightarrow> user option" where
  "user_admitted sub pwdver t = (case find_user sub t of
       None \<Rightarrow> None
     | Some u \<Rightarrow> if usr_deletedAt u \<noteq> None \<or> \<not> usr_isActive u \<or> pwdver \<noteq> Some (JNum (usr_pwdVersion u)) then None else Some u)"

definition session_admitted :: "uuid \<Rightarrow> instant \<Rightarrow> session list \<Rightarrow> bool" where
  "session_admitted sid now t = (case List.find (\<lambda>x. ses_id x = sid) t of
       None \<Rightarrow> False | Some x \<Rightarrow> \<not> ses_revoked x \<and> \<not> ses_expiresAt x \<le> now)"

definition jwt_guard :: "auth_env \<Rightarrow> string option \<Rightarrow> instant \<Rightarrow> app \<Rightarrow> app \<times> caller res" where
  "jwt_guard env header now s = (case header of
       None \<Rightarrow> (s, Inl unauthorized)
     | Some h \<Rightarrow>
         if \<not> startsWith h ''Bearer '' then (s, Inl unauthorized)
         else case token_verify env now (drop 7 h) ''access'' of
           Inl _ \<Rightarrow> (s, Inl unauthorized)
         | Inr claims \<Rightarrow> (case guard_claims claims of
               None \<Rightarrow> (s, Inl unauthorized)
             | Some (sub, jti, sid) \<Rightarrow>
                 let (denied, s1) = app_get now (''jti:denylist:'' @ jti) s in
                 if denied \<noteq> None then (s1, Inl unauthorized)
                 else case user_admitted sub (json_get claims ''pwdver'') (users s1) of
                   None \<Rightarrow> (s1, Inl unauthorized)
                 | Some u \<Rightarrow>
                     if \<not> session_admitted sid now (sessions s1) then (s1, Inl unauthorized)
                     else (s1, Inr \<lparr> cal_id = usr_id u, cal_role = usr_role u, cal_sessionId = sid, cal_jti = jti \<rparr>)))"

section \<open>Roles\<close>

definition roles_guard :: "user_role list option \<Rightarrow> caller option \<Rightarrow> app \<Rightarrow> bool res" where
  "roles_guard required cal s = (case required of
       None \<Rightarrow> Inr True
     | Some rs \<Rightarrow> if rs = [] then Inr True
         else case cal of
           None \<Rightarrow> Inl unauthorized
         | Some c \<Rightarrow>
             if cal_role c \<notin> set rs then Inl (Forbidden ''Forbidden'')
             else if cal_role c = ADMIN \<and> ADMIN \<in> set rs \<and> has_totp (cal_id c) s = None
             then Inl (Forbidden ''MFA enrollment required'')
             else Inr True)"

section \<open>Address tracking\<close>

fun split_char :: "char \<Rightarrow> string \<Rightarrow> string list" where
  "split_char c [] = [[]]"
| "split_char c (x # xs) = (if x = c then [] # split_char c xs
     else case split_char c xs of [] \<Rightarrow> [[x]] | g # gs \<Rightarrow> (x # g) # gs)"

text \<open>The text before the first \<^verbatim>\<open>::\<close> and, if there is one, the text after it up to the next.\<close>

fun before_colons :: "string \<Rightarrow> string" where
  "before_colons (a # b # xs) = (if a = CHR '':'' \<and> b = CHR '':'' then [] else a # before_colons (b # xs))"
| "before_colons xs = xs"

definition split_colons :: "string \<Rightarrow> string \<times> string option" where
  "split_colons s = (let h = before_colons s in
     if length h = length s then (h, None) else (h, Some (before_colons (drop (length h + 2) s))))"

definition is_octet :: "string \<Rightarrow> bool" where
  "is_octet g \<longleftrightarrow> 1 \<le> length g \<and> length g \<le> 3 \<and> list_all is_digit g"

definition v4mapped :: "string \<Rightarrow> string option" where
  "v4mapped s = (let r = drop 7 s; gs = split_char CHR ''.'' r in
     if startsWith s ''::ffff:'' \<and> length gs = 4 \<and> list_all is_octet gs then Some r else None)"

fun join_colon :: "string list \<Rightarrow> string" where
  "join_colon [] = []"
| "join_colon [g] = g"
| "join_colon (g # gs) = g @ CHR '':'' # join_colon gs"

definition groups_of :: "string \<Rightarrow> string list" where
  "groups_of g = (if g = [] then [] else split_char CHR '':'' g)"

definition trackerForIp :: "string \<Rightarrow> string" where
  "trackerForIp ip =
     (if CHR '':'' \<notin> set ip then ip
      else let clean = toLowerCase (takeWhile (\<lambda>c. c \<noteq> CHR ''%'') ip) in
        case v4mapped clean of
          Some v4 \<Rightarrow> v4
        | None \<Rightarrow>
            let (h, t) = split_colons clean;
                headGroups = groups_of h;
                tailGroups = groups_of (case_option [] id t);
                missing = 8 - length headGroups - length tailGroups;
                groups = headGroups @ replicate missing ''0'' @ tailGroups;
                groups8 = groups @ replicate (8 - length groups) ''0''
            in ''v6-'' @ join_colon (map (padStart 4 CHR ''0'') (take 4 groups8)))"

definition trackerFromRequest :: "string option \<Rightarrow> string" where
  "trackerFromRequest ip = trackerForIp (case_option ''unknown'' id ip)"

definition auth_ip_throttle :: "auth_env \<Rightarrow> string option \<Rightarrow> instant \<Rightarrow> app \<Rightarrow> app \<times> bool res" where
  "auth_ip_throttle env ip now s =
     (let (n, s') = app_increment now (''auth-ip:'' @ trackerFromRequest ip) (Some (env_authIpLimitTtlSeconds env * 1000)) s in
      if n > env_authIpLimitMax env then (s', Inl (TooManyRequests ''Too many requests'')) else (s', Inr True))"

section \<open>Administration of accounts\<close>

record user_view =
  uvw_id :: uuid
  uvw_email :: string
  uvw_role :: user_role
  uvw_emailVerified :: bool
  uvw_isActive :: bool
  uvw_deletedAt :: "instant option"
  uvw_createdAt :: instant

definition serializeUser :: "user \<Rightarrow> user_view" where
  "serializeUser u = \<lparr> uvw_id = usr_id u, uvw_email = usr_email u, uvw_role = usr_role u,
     uvw_emailVerified = (usr_emailVerifiedAt u \<noteq> None), uvw_isActive = usr_isActive u,
     uvw_deletedAt = usr_deletedAt u, uvw_createdAt = usr_createdAt u \<rparr>"

record list_users_query =
  luq_page :: "nat option"
  luq_limit :: "nat option"
  luq_role :: "user_role option"
  luq_search :: "string option"

definition users_where :: "list_users_query \<Rightarrow> user \<Rightarrow> bool" where
  "users_where q u \<longleftrightarrow> usr_deletedAt u = None \<and> (case luq_role q of None \<Rightarrow> True | Some r \<Rightarrow> usr_role u = r) \<and>
     (case luq_search q of None \<Rightarrow> True | Some x \<Rightarrow> x = [] \<or> contains_str (toLowerCase (usr_email u)) (toLowerCase x))"

definition listUsers :: "list_users_query \<Rightarrow> app \<Rightarrow> user_view list \<times> nat \<times> nat \<times> nat" where
  "listUsers q s = (let page = case_option 1 id (luq_page q); limit = min (case_option 20 id (luq_limit q)) 100;
       found = filter (users_where q) (users s) in
     (map serializeUser (page_of page limit (sort_key (\<lambda>u. - usr_createdAt u) found)), length found, page, limit))"

definition weak_admin_password :: exn where
  "weak_admin_password = BadRequest ''Password must be 8+ characters with letters and digits and must not contain the email''"

definition createUser ::
  "auth_env \<Rightarrow> caller \<Rightarrow> string \<Rightarrow> string \<Rightarrow> user_role \<Rightarrow> string \<Rightarrow> instant \<Rightarrow> app \<Rightarrow> app \<times> user_view res" where
  "createUser env cal email password role salt now s =
     (if \<not> validatePasswordPolicy password [email, local_part email] then (s, Inl weak_admin_password)
      else case create_user (new_user (toLowerCase email) (lib_bcrypt_hash env salt password) role (Some now) now) s of
        (s1, Inl e) \<Rightarrow> (s1, Inl (if is_P2002 e then Conflict ''Email already exists'' else e))
      | (s1, Inr u) \<Rightarrow> (record_audit (Some (cal_id cal)) ''user_created'' None True
            (Some (''user:'' @ usr_id u @ '' role:'' @ show_role (usr_role u))) s1, Inr (serializeUser u)))"

record update_user_dto =
  uud_role :: "user_role option"
  uud_isActive :: "bool option"
  uud_newPassword :: "string option"

definition trust_changed :: "update_user_dto \<Rightarrow> user \<Rightarrow> bool" where
  "trust_changed dto u \<longleftrightarrow> (uud_role dto \<noteq> None \<and> uud_role dto \<noteq> Some (usr_role u)) \<or>
     uud_isActive dto = Some False \<or> uud_newPassword dto \<noteq> None"

definition patch_user :: "auth_env \<Rightarrow> update_user_dto \<Rightarrow> bool \<Rightarrow> string \<Rightarrow> user \<Rightarrow> user" where
  "patch_user env dto trust salt u = u\<lparr>
     usr_passwordHash := (case uud_newPassword dto of None \<Rightarrow> usr_passwordHash u | Some p \<Rightarrow> lib_bcrypt_hash env salt p),
     usr_role := case_option (usr_role u) id (uud_role dto),
     usr_pwdVersion := (if trust then usr_pwdVersion u + 1 else usr_pwdVersion u),
     usr_isActive := case_option (usr_isActive u) id (uud_isActive dto)\<rparr>"

definition policy_violated :: "uuid \<Rightarrow> update_user_dto \<Rightarrow> app \<Rightarrow> bool" where
  "policy_violated userId dto s = (case uud_newPassword dto of
       None \<Rightarrow> False
     | Some p \<Rightarrow> (case find_user userId (users s) of
           None \<Rightarrow> False
         | Some u \<Rightarrow> \<not> validatePasswordPolicy p [usr_email u, local_part (usr_email u)]))"

definition show_opt :: "('a \<Rightarrow> string) \<Rightarrow> 'a option \<Rightarrow> string" where
  "show_opt f x = (case x of None \<Rightarrow> ''unchanged'' | Some v \<Rightarrow> f v)"

definition show_flag :: "bool \<Rightarrow> string" where
  "show_flag b = (if b then ''true'' else ''false'')"

definition updateUser ::
  "auth_env \<Rightarrow> caller \<Rightarrow> uuid \<Rightarrow> update_user_dto \<Rightarrow> string \<Rightarrow> instant \<Rightarrow> app \<Rightarrow> app \<times> user_view res" where
  "updateUser env cal userId dto salt now s =
     (if uud_role dto = None \<and> uud_isActive dto = None \<and> uud_newPassword dto = None
      then (s, Inl (BadRequest ''Nothing to update''))
      else if cal_id cal = userId \<and> (uud_role dto \<noteq> None \<or> uud_isActive dto = Some False)
      then (s, Inl (BadRequest ''Admins cannot change their own role or deactivate themselves''))
      else if policy_violated userId dto s then (s, Inl weak_admin_password)
      else case List.find (\<lambda>u. usr_id u = userId \<and> usr_deletedAt u = None) (users s) of
        None \<Rightarrow> (s, Inl (NotFound ''Not found''))
      | Some existing \<Rightarrow>
          let trust = trust_changed dto existing in
          bindE (transaction (bindE (update_user userId (patch_user env dto trust salt))
              (\<lambda>_ s1. (if trust then revoke_user userId s1 else s1, Inr ()))))
            (\<lambda>_ s2. (record_audit (Some (cal_id cal)) ''user_updated'' None True
                (Some (''user:'' @ userId @ '' role:'' @ show_opt show_role (uud_role dto) @ '' active:'' @
                   show_opt show_flag (uud_isActive dto) @ '' password:'' @ show_flag (uud_newPassword dto \<noteq> None))) s2,
              Inr (serializeUser (patch_user env dto trust salt existing)))) s)"

definition deactivateUser :: "caller \<Rightarrow> uuid \<Rightarrow> instant \<Rightarrow> app \<Rightarrow> app \<times> (uuid \<times> bool) res" where
  "deactivateUser cal userId now s =
     (if cal_id cal = userId then (s, Inl (BadRequest ''Admins cannot deactivate their own account here''))
      else case List.find (\<lambda>u. usr_id u = userId \<and> usr_deletedAt u = None) (users s) of
        None \<Rightarrow> (s, Inl (NotFound ''Not found''))
      | Some existing \<Rightarrow>
          bindE (transaction (bindE (update_user userId (close_account now)) (\<lambda>_ s1. (revoke_user userId s1, Inr ()))))
            (\<lambda>_ s2. (record_audit (Some (cal_id cal)) ''user_deactivated'' None True
                (Some (''user:'' @ userId @ '' email:'' @ usr_email existing)) s2, Inr (userId, True))) s)"

definition listAuditLog :: "string option \<Rightarrow> string option \<Rightarrow> nat option \<Rightarrow> nat option \<Rightarrow> app \<Rightarrow> (instant \<times> audit_entry) list \<times> nat" where
  "listAuditLog userId event page limit s =
     (let found = filter (\<lambda>(at, e). (case userId of None \<Rightarrow> True | Some x \<Rightarrow> x = [] \<or> aud_userId e = Some x) \<and>
                    (case event of None \<Rightarrow> True | Some x \<Rightarrow> x = [] \<or> aud_event e = x)) (aq_rows (audit s)) in
      (page_of (case_option 1 id page) (min (case_option 20 id limit) 100) (rev found), length found))"

end
