(* ===== verification/Handlers.thy ===== *)
theory Handlers
  imports Database
begin

text \<open>
  Relations between the state before and after a handler, as an interface. A relation that
  holds between states with the same tables and that is transitive (the locale \<open>db_relation\<close>)
  passes through the ways handlers are put together: sequencing, transactions, and the
  effects outside the tables (audit queue, store, mail). A component gives a relation, proves
  it for its table operations, and gets it for its handlers.
\<close>

section \<open>Relations kept by handlers\<close>

locale db_relation =
  fixes R :: "app \<Rightarrow> app \<Rightarrow> bool"
  assumes same: "same_db s' s \<Longrightarrow> R s s'"
    and trans: "R s t \<Longrightarrow> R t u \<Longrightarrow> R s u"
begin

definition keeps :: "(app \<Rightarrow> app \<times> 'a) \<Rightarrow> bool" where
  "keeps m \<longleftrightarrow> (\<forall>s. R s (fst (m s)))"

lemma keepsI: "(\<And>s. R s (fst (m s))) \<Longrightarrow> keeps m"
  by (simp add: keeps_def)

lemma keepsD: "keeps m \<Longrightarrow> R s (fst (m s))"
  by (simp add: keeps_def)

lemma refl_db [simp]: "R s s"
  by (simp add: same)

lemma then_same: "R s t \<Longrightarrow> same_db u t \<Longrightarrow> R s u"
  using same trans by blast

lemma bind_step: "keeps m \<Longrightarrow> (\<And>a t. R t (fst (f a t))) \<Longrightarrow> R s (fst (bindE m f s))"
proof -
  assume m: "keeps m" and f: "\<And>a t. R t (fst (f a t))"
  obtain t r where t: "m s = (t, r)" by fastforce
  then have "R s t" using keepsD [OF m, of s] by simp
  then show ?thesis using t f trans by (cases r) (auto simp: bindE_def)
qed

lemma keeps_bindE: "keeps m \<Longrightarrow> (\<And>a. keeps (f a)) \<Longrightarrow> keeps (bindE m f)"
  by (intro keepsI bind_step) (simp_all add: keepsD)

lemma keeps_transaction: "keeps m \<Longrightarrow> keeps (transaction m)"
proof (rule keepsI)
  fix s assume m: "keeps m"
  obtain t r where t: "m s = (t, r)" by fastforce
  show "R s (fst (transaction m s))"
  proof (cases r)
    case (Inl e)
    then show ?thesis using t by (simp add: transaction_def same)
  next
    case (Inr v)
    then show ?thesis using t keepsD [OF m, of s] by (simp add: transaction_def)
  qed
qed

lemma keeps_simple: "keeps (returnE v)" "keeps (throwE e)" "keeps (liftE r)" "keeps (\<lambda>s. (s, w))"
  by (simp_all add: keeps_def returnE_def throwE_def liftE_def)

end

section \<open>Tables that grow\<close>

text \<open>
  A table \<open>extends\<close> another when its first rows are the old rows, each related to what it has
  become, followed by new rows. Inserting and updating extend a table; a lookup by a key that
  the relation preserves still finds the same row.
\<close>

definition extends :: "('r \<Rightarrow> 'r \<Rightarrow> bool) \<Rightarrow> 'r list \<Rightarrow> 'r list \<Rightarrow> bool" where
  "extends K t t' \<longleftrightarrow> (\<exists>u v. t' = u @ v \<and> list_all2 K t u)"

lemma extends_refl: "(\<And>x. K x x) \<Longrightarrow> extends K t t"
  unfolding extends_def by (intro exI [of _ t] exI [of _ "[]"]) (simp add: list_all2_same)

lemma extends_trans:
  assumes "extends K t t1" and "extends K t1 t2" and "\<And>x y z. K x y \<Longrightarrow> K y z \<Longrightarrow> K x z"
  shows "extends K t t2"
proof -
  obtain u v where t1: "t1 = u @ v" "list_all2 K t u" using assms(1) by (auto simp: extends_def)
  obtain u' v' where t2: "t2 = u' @ v'" "list_all2 K t1 u'" using assms(2) by (auto simp: extends_def)
  obtain p q where u': "u' = p @ q" "list_all2 K u p"
    using t2(2) t1(1) by (auto simp: list_all2_append1)
  have "list_all2 K t p" using list_all2_trans [of K K K t u p] assms(3) t1(2) u'(2) by blast
  then show ?thesis using t2(1) u'(1) unfolding extends_def by (intro exI [of _ p] exI [of _ "q @ v'"]) simp
qed

lemma extends_append: "(\<And>x. K x x) \<Longrightarrow> extends K t (t @ xs)"
  unfolding extends_def by (intro exI [of _ t] exI [of _ xs]) (simp add: list_all2_same)

lemma extends_update:
  assumes "\<And>x. K x x" and "\<And>x. w x \<Longrightarrow> K x (d x)"
  shows "extends K t (update_rows w d t)"
proof -
  have "list_all2 K t (update_rows w d t)"
    using assms by (induction t) simp_all
  then show ?thesis unfolding extends_def by (intro exI [of _ "update_rows w d t"] exI [of _ "[]"]) simp
qed

lemma list_all2_find:
  "list_all2 K t u \<Longrightarrow> (\<And>x y. K x y \<Longrightarrow> f y = f x) \<Longrightarrow> List.find (\<lambda>x. f x = k) t = Some x \<Longrightarrow>
     \<exists>y. List.find (\<lambda>x. f x = k) u = Some y \<and> K x y"
  by (induction rule: list_all2_induct) (auto split: if_splits)

lemma find_append: "List.find P (xs @ ys) = (case List.find P xs of None \<Rightarrow> List.find P ys | Some x \<Rightarrow> Some x)"
  by (induction xs) simp_all

lemma extends_find:
  assumes "extends K t t'" and "\<And>x y. K x y \<Longrightarrow> f y = f x" and "List.find (\<lambda>x. f x = k) t = Some x"
  obtains y where "List.find (\<lambda>x. f x = k) t' = Some y" and "K x y"
proof -
  obtain u v where "t' = u @ v" "list_all2 K t u" using assms(1) by (auto simp: extends_def)
  then show ?thesis using list_all2_find [of K t u f k x] assms(2,3) that by (auto simp: find_append)
qed

lemma extends_in:
  assumes "extends K t t'" and "x \<in> set t"
  obtains y where "y \<in> set t'" and "K x y"
proof -
  obtain u v where u: "t' = u @ v" "list_all2 K t u" using assms(1) by (auto simp: extends_def)
  obtain i where i: "i < length t" "t ! i = x" using assms(2) by (auto simp: in_set_conv_nth)
  then have "K x (u ! i)" "u ! i \<in> set u" using u(2) list_all2_lengthD [OF u(2)] by (auto simp: list_all2_nthD)
  then show ?thesis using that u(1) by auto
qed

end
