(* ===== verification/Auth_Safety.thy ===== *)
theory Auth_Safety
  imports Guards Handlers
begin

text \<open>
  What no operation of the authentication service undoes: a revoked session or refresh token
  stays revoked, a password version never decreases, a closed account stays closed. The
  relation \<open>auth_later\<close> says so between two states; it is a \<open>db_relation\<close>, every handler keeps it,
  and the guard's and the refresh flow's guarantees follow for all runs.
\<close>

section \<open>The relation\<close>

definition user_later :: "user \<Rightarrow> user \<Rightarrow> bool" where
  "user_later u v \<longleftrightarrow> usr_id v = usr_id u \<and> usr_pwdVersion u \<le> usr_pwdVersion v \<and>
     (usr_deletedAt u \<noteq> None \<longrightarrow> usr_deletedAt v \<noteq> None)"

definition session_later :: "session \<Rightarrow> session \<Rightarrow> bool" where
  "session_later x y \<longleftrightarrow> ses_id y = ses_id x \<and> ses_userId y = ses_userId x \<and> ses_expiresAt y = ses_expiresAt x \<and>
     (ses_revoked x \<longrightarrow> ses_revoked y)"

definition refresh_later :: "refresh_token \<Rightarrow> refresh_token \<Rightarrow> bool" where
  "refresh_later x y \<longleftrightarrow> rt_id y = rt_id x \<and> rt_userId y = rt_userId x \<and> rt_sessionId y = rt_sessionId x \<and>
     rt_tokenHash y = rt_tokenHash x \<and> (rt_revoked x \<longrightarrow> rt_revoked y)"

definition auth_keys :: "app \<Rightarrow> bool" where
  "auth_keys s \<longleftrightarrow> distinct (map rt_id (refreshTokens s)) \<and> distinct (map rt_tokenHash (refreshTokens s)) \<and>
     distinct (map ses_id (sessions s))"

definition auth_later :: "app \<Rightarrow> app \<Rightarrow> bool" where
  "auth_later s s' \<longleftrightarrow> extends user_later (users s) (users s') \<and> extends session_later (sessions s) (sessions s') \<and>
     extends refresh_later (refreshTokens s) (refreshTokens s') \<and> (auth_keys s \<longrightarrow> auth_keys s')"

lemma later_refl [simp]: "user_later u u" "session_later x x" "refresh_later r r"
  by (simp_all add: user_later_def session_later_def refresh_later_def)

lemma later_trans:
  "user_later u v \<Longrightarrow> user_later v w \<Longrightarrow> user_later u w"
  "session_later x y \<Longrightarrow> session_later y z \<Longrightarrow> session_later x z"
  "refresh_later p q \<Longrightarrow> refresh_later q r \<Longrightarrow> refresh_later p r"
  by (auto simp: user_later_def session_later_def refresh_later_def)

section \<open>Effects outside the tables\<close>

lemma same_db_notify [simp]: "same_db (notify env to tpl subj body s) s"
  by (simp add: notify_def same_db_def db.truncate_def Let_def)

lemma same_db_denylist [simp]: "same_db (denylist jti ttl now s) s"
  by (simp add: denylist_def)

lemma same_db_fresh [simp]: "same_db (snd (fresh_uuid s)) s"
  by (simp add: fresh_uuid_def)

lemma same_db_sign [simp]:
  "same_db (snd (signAccessToken env u sid now s)) s" "same_db (snd (signMfaPendingToken env uid now s)) s"
  "same_db (snd (signActionToken env uid p ttl tg now s)) s"
  by (simp_all add: signAccessToken_def signMfaPendingToken_def signActionToken_def fresh_uuid_def Let_def)

lemma same_db_mail_budget [simp]: "same_db (snd (mail_budget p uid now s)) s"
  using app_store_same_db(4) [of now _ "Some 3600000" s] by (simp add: mail_budget_def Let_def split_beta)

lemma same_db_alert [simp]: "same_db (alertOnNewIp env u ip now s) s"
proof (cases ip)
  case (Some addr)
  let ?s = "notify env (usr_email u) ''LOGIN_NEW_IP'' ''New location sign-in''
                   (''A sign-in to your account was recorded from a new IP address ('' @ addr @
                    ''). If this was not you, reset your password immediately.'') s"
  have "same_db (record_audit (Some (usr_id u)) ''login_new_ip'' ip True None ?s) s"
    using record_audit_same_db same_db_notify same_db_trans by blast
  then show ?thesis using Some by (simp add: alertOnNewIp_def)
qed (simp add: alertOnNewIp_def)

lemma user_updates_later:
  "user_later u (u\<lparr>usr_emailVerifiedAt := v\<rparr>)" "user_later u (set_password h u)" "user_later u (bump_version u)"
  "user_later u (set_email e now u)" "user_later u (close_account now u)" "user_later u (failed_update b n t u)"
  "user_later u (patch_user env dto trust salt u)"
  by (simp_all add: user_later_def set_password_def bump_version_def set_email_def close_account_def failed_update_def
      patch_user_def)

section \<open>The interface of the handlers\<close>

text \<open>
  The table operations the handlers are made of, as laws on a relation; every handler keeps a
  relation that satisfies them. The purge is not among them.
\<close>

locale auth_relation = db_relation +
  assumes update_user_kept: "(\<And>u. user_later u (d u)) \<Longrightarrow> R s (fst (update_user uid d s))"
    and create_user_kept: "R s (fst (create_user mk s))"
    and create_session_kept: "R s (fst (create_session uid ip ua ex now s))"
    and create_refresh_kept: "R s (fst (create_refresh uid sid h ex s))"
    and touch_session_kept: "R s (fst (touch_session sid now s))"
    and revoke_sessions_kept: "R s (revoke_sessions ws s)"
    and revoke_refresh_kept: "R s (revoke_refresh wr s)"
    and use_token_kept: "R s (fst (use_token jti uid p now s))"
    and create_totp_kept: "R s (fst (create_totp uid sealed now s))"
    and create_codes_kept: "R s (fst (create_codes uid hs s))"
    and recovery_kept: "R s (s\<lparr>recoveryCodes := rs\<rparr>)"
    and mfa_dropped_kept: "R s (s\<lparr>totpCredentials := ts, recoveryCodes := rs\<rparr>)"
begin

lemma keeps_update_user: "(\<And>u. user_later u (d u)) \<Longrightarrow> keeps (update_user uid d)"
  by (rule keepsI) (rule update_user_kept)

lemma keeps_touch_session: "keeps (touch_session sid now)"
  by (rule keepsI) (rule touch_session_kept)

lemma keeps_on_store: "keeps (on_store f)"
  by (rule keepsI) (simp add: same)

lemma keeps_ops:
  "keeps (create_user mk)" "keeps (create_session uid ip ua ex now)" "keeps (create_refresh uid sid h ex)"
  "keeps (use_token jti uid p now)" "keeps (create_totp uid sealed now)" "keeps (create_codes uid hs)"
  "keeps (on_store f)" "keeps (returnE v)" "keeps m \<Longrightarrow> keeps (transaction m)"
  "keeps m \<Longrightarrow> (\<And>a. keeps (g a)) \<Longrightarrow> keeps (bindE m g)"
  by (rule keepsI create_user_kept create_session_kept create_refresh_kept use_token_kept create_totp_kept
      create_codes_kept keeps_on_store keeps_simple keeps_transaction keeps_bindE; assumption?)+

lemma later_revoke_user: "R s (revoke_user uid s)"
  unfolding revoke_user_def by (rule trans [OF revoke_sessions_kept revoke_refresh_kept])

lemma later_steps:
  "R t s \<Longrightarrow> R t (record_audit u ev ip ok d s)"
  "R t s \<Longrightarrow> R t (notify env to tpl subj body s)"
  "R t s \<Longrightarrow> R t (denylist jti dt now s)"
  "R t s \<Longrightarrow> R t (alertOnNewIp env us ip now s)"
  "R t s \<Longrightarrow> R t (mail_verification env us tok s)"
  "R t s \<Longrightarrow> R t (snd (signAccessToken env us sid now s))"
  "R t s \<Longrightarrow> R t (snd (signMfaPendingToken env uid now s))"
  "R t s \<Longrightarrow> R t (snd (signActionToken env uid p ttl tg now s))"
  "R t s \<Longrightarrow> R t (snd (mail_budget mp uid now s))"
  "R t s \<Longrightarrow> R t (revoke_sessions ws s)"
  "R t s \<Longrightarrow> R t (revoke_refresh wr s)"
  "R t s \<Longrightarrow> R t (revoke_user uid s)"
  by (erule then_same, simp add: mail_verification_def
      | erule trans, rule revoke_sessions_kept revoke_refresh_kept later_revoke_user)+

lemma later_register: "R s (fst (register env view dto ip salt now s))"
  unfolding register_def
  by (auto simp: split_beta Let_def intro!: bind_step keeps_ops later_steps)

lemma keeps_token_transaction: "keeps body \<Longrightarrow> keeps (token_transaction body)"
proof (rule keepsI)
  fix s assume "keeps body"
  then have "R s (fst (transaction body s))" by (intro keepsD keeps_transaction)
  then show "R s (fst (token_transaction body s))"
    by (cases "transaction body s"; cases "snd (transaction body s)") (simp_all add: token_transaction_def)
qed

lemma later_verifyEmail: "R s (fst (verifyEmail env tok ip now s))"
  unfolding verifyEmail_def verify_email_tx_def
  by (auto split: sum.splits intro!: bind_step keeps_token_transaction keeps_ops keeps_update_user user_updates_later later_steps)

lemma later_resend: "R s (fst (resendVerification env email ip now s))"
  unfolding resendVerification_def
  by (auto simp: split_beta Let_def split: option.splits intro!: later_steps)

lemma later_forgot: "R s (fst (forgotPassword env email ip now s))"
  unfolding forgotPassword_def
  by (auto simp: split_beta Let_def split: option.splits intro!: later_steps)

lemma keeps_revoke: "keeps (\<lambda>s. (revoke_user uid s, v))"
  by (rule keepsI) (simp add: later_revoke_user)

lemma later_reset: "R s (fst (resetPassword env tok pw ip salt now s))"
  unfolding resetPassword_def reset_tx_def
  by (auto split: sum.splits intro!: bind_step keeps_token_transaction keeps_ops keeps_update_user user_updates_later
      keeps_revoke later_steps)

lemma later_issueSession: "R s (fst (issueSession env uid ip ua rnd now s))"
  unfolding issueSession_def
  by (auto simp: split_beta Let_def split: option.splits intro!: bind_step keeps_ops later_steps)

lemma keeps_issueSession: "keeps (issueSession env uid ip ua rnd now)"
  by (rule keepsI) (rule later_issueSession)

lemma keeps_registerFailedAttempt: "keeps (registerFailedAttempt env u ip now)"
  by (rule keepsI, unfold registerFailedAttempt_def)
     (auto simp: Let_def split: sum.splits intro!: bind_step keeps_update_user user_updates_later later_steps)

lemma later_complete_login: "R s (fst (complete_login env u ip ua rnd now s))"
  unfolding complete_login_def
  by (auto simp: split_beta Let_def intro!: bind_step keeps_issueSession later_steps)

lemma later_login: "R s (fst (login env view email pw ip ua rnd now s))"
  unfolding login_def refuse_login_def
  by (auto simp: later_complete_login split: option.splits
      intro!: bind_step keeps_registerFailedAttempt keepsD [OF keeps_simple(2)] later_steps)

lemma later_revokeEverything: "R s (revokeEverythingForUser env uid ip s)"
  unfolding revokeEverythingForUser_def
  by (auto simp: Let_def split: option.splits intro!: later_steps)

lemma later_refresh_claim: "R s (fst (refresh_claim env view tok ip now s))"
proof -
  have "s\<lparr>refreshTokens := update_rows (\<lambda>r. rt_id r = i \<and> \<not> rt_revoked r) (\<lambda>r. r\<lparr>rt_revoked := True\<rparr>) (refreshTokens s)\<rparr> =
      revoke_refresh (\<lambda>r. rt_id r = i) s" for i
    by (simp add: revoke_refresh_def)
  then show ?thesis unfolding refresh_claim_def
    by (auto simp: Let_def table_simps(2) later_revokeEverything revoke_refresh_kept split: option.splits
        intro: trans [OF revoke_refresh_kept later_revokeEverything])
qed

lemma later_refresh_issue: "R s (fst (refresh_issue env view row u rnd now s))"
  unfolding refresh_issue_def
  by (auto simp: split_beta Let_def split: option.splits intro!: bind_step keeps_ops keeps_touch_session later_steps)

lemma later_logout: "R s (fst (logout env tok jti sid ip now s))"
  unfolding logout_def
  by (auto simp: Let_def intro!: later_steps)

lemma keeps_after_revoke:
  assumes "keeps (update_user uid d)"
  shows "keeps (\<lambda>s. update_user uid d (revoke_user uid s))"
  using assms by (auto simp: keeps_def intro: trans [OF later_revoke_user])

lemma later_logoutAll: "R s (fst (logoutAll env uid jti ip now s))"
  unfolding logoutAll_def
  by (auto intro!: bind_step keeps_ops keeps_after_revoke keeps_update_user user_updates_later later_steps)

lemma later_revokeSession: "R s (fst (revokeSession uid sid ip s))"
proof -
  have "s\<lparr>sessions := update_rows (\<lambda>x. ses_id x = sid \<and> ses_userId x = uid \<and> \<not> ses_revoked x)
      (\<lambda>x. x\<lparr>ses_revoked := True\<rparr>) (sessions s)\<rparr> = revoke_sessions (\<lambda>x. ses_id x = sid \<and> ses_userId x = uid) s"
    by (simp add: revoke_sessions_def)
  then show ?thesis unfolding revokeSession_def
    by (auto simp: Let_def table_simps(2) intro!: later_steps)
qed

lemma later_store [simp]: "R s (s\<lparr>store := m\<rparr>)"
  by (rule same) (simp add: same_db_def db.truncate_def)

lemma later_totpEnable: "R s (fst (totpEnable uri qr uid sec now s))"
  by (simp add: totpEnable_def Let_def split: option.split)

lemma later_totpVerify: "R s (fst (totpVerify env uid code ip iv draws now s))"
proof -
  obtain s1 p where p: "on_store (takePendingSecret now uid) s = (s1, p)" by fastforce
  then have s1: "R s s1" using keepsD [OF keeps_on_store, of s "takePendingSecret now uid"] by simp
  have "R s1 (fst (bindE (on_store (verifyCode env now uid secret code)) (\<lambda>ok s2.
            if \<not> ok then (s2, Inl (Unauthorized ''Invalid verification code''))
            else let codes = generateRecoveryCodes draws in
              bindE (transaction (bindE (create_totp uid (seal env iv secret) now)
                                    (\<lambda>_. create_codes uid (map (lib_sha256 env) codes))))
                (\<lambda>_ s3. (record_audit (Some uid) ''mfa_enabled'' ip True None s3, Inr codes)) s2) s1))" for secret
    by (rule bind_step [OF keeps_on_store])
       (auto simp: Let_def intro!: bind_step keeps_ops later_steps)
  then show ?thesis using p s1 trans by (auto simp: totpVerify_def Let_def split: option.split)
qed

lemma later_totpValidate: "R s (fst (totpValidate env uid code now s))"
  unfolding totpValidate_def
  by (auto split: option.splits sum.splits intro!: bind_step keeps_on_store)

lemma keeps_confirm_user: "keeps (confirm_user env uid pw code now)"
proof -
  have v: "keeps (verifySensitiveCredentials env u pw code now)" for u
    by (rule keepsI, unfold verifySensitiveCredentials_def)
       (auto split: option.splits sum.splits intro!: bind_step keeps_on_store)
  show ?thesis
    by (rule keepsI, unfold confirm_user_def)
       (auto split: option.splits intro!: bind_step v keepsD [OF keeps_simple(1)])
qed

lemma later_totpDisable: "R s (fst (totpDisable env uid pw code ip now s))"
proof -
  have k: "R x (fst (update_user uid bump_version (revoke_user uid x)))" for x
    using keeps_after_revoke [OF keeps_update_user [OF user_updates_later(3)], of uid] by (simp add: keeps_def)
  have d: "keeps (\<lambda>s0. update_user uid bump_version (revoke_user uid
                (s0\<lparr>totpCredentials := delete_rows (\<lambda>c. tc_userId c = uid) (totpCredentials s0),
                    recoveryCodes := delete_rows (\<lambda>c. rc_userId c = uid) (recoveryCodes s0)\<rparr>)))"
    by (rule keepsI) (rule trans [OF mfa_dropped_kept k])
  show ?thesis unfolding totpDisable_def
    by (intro bind_step keeps_confirm_user) (auto intro!: bind_step keeps_transaction d later_steps)
qed

lemma later_mfa_complete: "R s (fst (mfa_complete env uid b ip ua rnd now s))"
  unfolding mfa_complete_def
  by (auto simp: Let_def split: option.splits intro!: bind_step keeps_issueSession later_steps)

lemma later_use_recovery: "R s (snd (use_recovery_code env view uid code now s))"
  by (simp add: use_recovery_code_def recovery_kept split: option.split)

lemma later_mfaLoginVerify: "R s (fst (mfaLoginVerify env view tok code ip ua rnd now s))"
  unfolding mfaLoginVerify_def
  by (auto simp: Let_def split_beta later_mfa_complete later_use_recovery split: option.splits sum.splits
      intro!: bind_step keeps_on_store trans [OF later_use_recovery later_mfa_complete])

lemma later_changePassword: "R s (fst (changePassword env uid cur pw code jti ip salt now s))"
  unfolding changePassword_def
  by (auto intro!: bind_step keeps_confirm_user keeps_ops keeps_update_user user_updates_later keeps_revoke later_steps)

lemma later_requestChangeEmail: "R s (fst (requestChangeEmail env uid cur email ip now s))"
  unfolding requestChangeEmail_def
  by (auto simp: Let_def split_beta intro!: bind_step keeps_confirm_user later_steps)

lemma later_confirmChangeEmail: "R s (fst (confirmChangeEmail env tok ip now s))"
  unfolding confirmChangeEmail_def change_email_tx_def
  by (auto split: sum.splits option.splits intro!: bind_step keeps_token_transaction keeps_ops keeps_update_user
      user_updates_later keeps_revoke later_steps)

lemma later_deactivate: "R s (fst (deactivate env uid pw code jti ip now s))"
  unfolding deactivate_def
  by (auto intro!: bind_step keeps_confirm_user keeps_ops keeps_update_user user_updates_later keeps_revoke later_steps)

lemma later_createUser: "R s (fst (createUser env cal email pw role salt now s))"
proof -
  have "R s (fst (create_user mk s))" for mk by (rule create_user_kept)
  then show ?thesis unfolding createUser_def
    by (auto split: prod.splits sum.splits intro!: later_steps) (metis fst_conv)+
qed

lemma later_updateUser: "R s (fst (updateUser env cal uid dto salt now s))"
proof -
  have r: "keeps (\<lambda>s1. (if b then revoke_user uid s1 else s1, v))" for b and v :: "unit res"
    by (auto simp: keeps_def intro!: later_steps)
  show ?thesis unfolding updateUser_def
    by (auto simp: Let_def split: option.splits
        intro!: bind_step keeps_ops keeps_update_user user_updates_later r later_steps)
qed

lemma later_deactivateUser: "R s (fst (deactivateUser cal uid now s))"
  unfolding deactivateUser_def
  by (auto split: option.splits intro!: bind_step keeps_ops keeps_update_user user_updates_later keeps_revoke later_steps)

lemma later_guard: "R s (fst (jwt_guard env h now s))"
proof -
  have "R s (snd (app_get now k s))" for k by (simp add: same)
  then show ?thesis unfolding jwt_guard_def
    by (auto simp: Let_def split_beta split: option.splits sum.splits)
qed

lemma later_throttle: "R s (fst (auth_ip_throttle env ip now s))"
proof -
  have "R s (snd (app_increment now k ttl s))" for k ttl by (simp add: same)
  then show ?thesis by (auto simp: auth_ip_throttle_def Let_def split_beta)
qed

end

section \<open>Revocation as such a relation\<close>

lemma later_extends_trans:
  "extends user_later t t1 \<Longrightarrow> extends user_later t1 t2 \<Longrightarrow> extends user_later t t2"
  "extends session_later x x1 \<Longrightarrow> extends session_later x1 x2 \<Longrightarrow> extends session_later x x2"
  "extends refresh_later r r1 \<Longrightarrow> extends refresh_later r1 r2 \<Longrightarrow> extends refresh_later r r2"
  by (erule (1) extends_trans, erule (1) later_trans)+

interpretation later_rel: db_relation auth_later
proof
  fix s s' t u :: app
  show "same_db s' s \<Longrightarrow> auth_later s s'"
    by (simp add: auth_later_def auth_keys_def same_db_tables extends_refl)
  show "auth_later s t \<Longrightarrow> auth_later t u \<Longrightarrow> auth_later s u"
    unfolding auth_later_def using later_extends_trans by blast
qed

text \<open>Updates of one table that keep its relation and its keys.\<close>

lemma later_users:
  assumes "\<And>u. w u \<Longrightarrow> user_later u (d u)"
  shows "auth_later s (s\<lparr>users := update_rows w d (users s)\<rparr>)"
  using assms by (auto simp: auth_later_def auth_keys_def intro!: extends_refl extends_update)

lemma later_sessions:
  assumes "\<And>x. w x \<Longrightarrow> session_later x (d x)"
  shows "auth_later s (s\<lparr>sessions := update_rows w d (sessions s)\<rparr>)"
proof -
  have "map ses_id (update_rows w d (sessions s)) = map ses_id (sessions s)"
    using assms by (intro map_update_rows_same) (simp add: session_later_def)
  then show ?thesis using assms by (auto simp: auth_later_def auth_keys_def intro!: extends_refl extends_update)
qed

lemma later_refresh:
  assumes "\<And>r. w r \<Longrightarrow> refresh_later r (d r)"
  shows "auth_later s (s\<lparr>refreshTokens := update_rows w d (refreshTokens s)\<rparr>)"
proof -
  have "map rt_id (update_rows w d (refreshTokens s)) = map rt_id (refreshTokens s)"
    "map rt_tokenHash (update_rows w d (refreshTokens s)) = map rt_tokenHash (refreshTokens s)"
    using assms by (intro map_update_rows_same; simp add: refresh_later_def)+
  then show ?thesis using assms by (auto simp: auth_later_def auth_keys_def intro!: extends_refl extends_update)
qed

lemma later_other_tables [simp]:
  "auth_later s (s\<lparr>usedTokens := t1\<rparr>)" "auth_later s (s\<lparr>totpCredentials := t2\<rparr>)"
  "auth_later s (s\<lparr>recoveryCodes := t3\<rparr>)" "auth_later s (s\<lparr>totpCredentials := t2, recoveryCodes := t3\<rparr>)"
  by (simp_all add: auth_later_def auth_keys_def extends_refl)

lemma later_revoke_sessions: "auth_later s (revoke_sessions w s)"
  unfolding revoke_sessions_def by (rule later_sessions) (simp add: session_later_def)

lemma later_revoke_refresh: "auth_later s (revoke_refresh w s)"
  unfolding revoke_refresh_def by (rule later_refresh) (simp add: refresh_later_def)

lemma auth_kept_update_user:
  assumes "\<And>u. user_later u (d u)"
  shows "auth_later s (fst (update_user uid d s))"
proof -
  have "auth_later s (s\<lparr>users := update_rows (\<lambda>u. usr_id u = uid) d (users s)\<rparr>)" by (rule later_users) (rule assms)
  then show "auth_later s (fst (update_user uid d s))"
    by (auto simp: update_user_def dest: check_unique_Inr split: sum.splits)
qed

text \<open>Inserting into a table of the relation: the new row comes last and its keys are new.\<close>

lemma extends_insert: "insert_row uqs r t = Inr t' \<Longrightarrow> (\<And>x. K x x) \<Longrightarrow> extends K t t'"
  using insert_row_Inr extends_append by metis

lemma insert_keys:
  assumes "insert_row uqs r t = Inr t'" and "(cols, \<lambda>x. Some (f x)) \<in> set uqs"
  shows "distinct (map f t')"
proof -
  have "unique_on (\<lambda>x. Some (f x)) t'"
    using assms check_unique_Inr [of uqs "t @ [r]" t'] by (fastforce simp: insert_row_def)
  then show ?thesis using unique_on_total [of "\<lambda>x. Some (f x)" f] by simp
qed

lemma auth_kept_create_user: "auth_later s (fst (create_user mk s))"
proof -
  have f: "auth_later s (snd (fresh_uuid s))" by (simp add: later_rel.same)
  show "auth_later s (fst (create_user mk s))"
  proof (cases "insert_row user_uqs (mk (fst (fresh_uuid s))) (users (snd (fresh_uuid s)))")
    case (Inl e)
    then show ?thesis using f by (simp add: create_user_def split_beta Let_def)
  next
    case (Inr t)
    have "auth_later (snd (fresh_uuid s)) ((snd (fresh_uuid s))\<lparr>users := t\<rparr>)"
      using extends_insert [OF Inr, of user_later] by (simp add: auth_later_def auth_keys_def extends_refl)
    then show ?thesis using Inr f later_rel.trans by (simp add: create_user_def split_beta Let_def)
  qed
qed

lemma auth_kept_create_session: "auth_later s (fst (create_session uid ip ua ex now s))"
proof -
  let ?f = "snd (fresh_uuid s)"
  let ?r = "\<lparr> ses_id = fst (fresh_uuid s), ses_userId = uid, ses_ip = ip, ses_userAgent = ua,
            ses_revoked = False, ses_lastActiveAt = now, ses_expiresAt = ex, ses_createdAt = now \<rparr>"
  have f: "auth_later s ?f" by (simp add: later_rel.same)
  show "auth_later s (fst (create_session uid ip ua ex now s))"
  proof (cases "insert_row session_uqs ?r (sessions ?f)")
    case (Inl e)
    then show ?thesis using f by (simp add: create_session_def split_beta Let_def)
  next
    case (Inr t)
    have "auth_later ?f (?f\<lparr>sessions := t\<rparr>)"
      using extends_insert [OF Inr, of session_later] insert_keys [OF Inr, of "[''id'']" ses_id]
      by (simp add: auth_later_def auth_keys_def extends_refl session_uqs_def)
    then show ?thesis using Inr f later_rel.trans by (simp add: create_session_def split_beta Let_def)
  qed
qed

lemma auth_kept_create_refresh: "auth_later s (fst (create_refresh uid sid h ex s))"
proof -
  let ?f = "snd (fresh_uuid s)"
  let ?r = "\<lparr> rt_id = fst (fresh_uuid s), rt_userId = uid, rt_sessionId = sid, rt_tokenHash = h,
            rt_revoked = False, rt_expiresAt = ex \<rparr>"
  have f: "auth_later s ?f" by (simp add: later_rel.same)
  show "auth_later s (fst (create_refresh uid sid h ex s))"
  proof (cases "insert_row refresh_uqs ?r (refreshTokens ?f)")
    case (Inl e)
    then show ?thesis using f by (simp add: create_refresh_def split_beta Let_def)
  next
    case (Inr t)
    have "auth_later ?f (?f\<lparr>refreshTokens := t\<rparr>)"
      using extends_insert [OF Inr, of refresh_later] insert_keys [OF Inr, of "[''id'']" rt_id]
        insert_keys [OF Inr, of "[''token_hash'']" rt_tokenHash]
      by (simp add: auth_later_def auth_keys_def extends_refl refresh_uqs_def)
    then show ?thesis using Inr f later_rel.trans by (simp add: create_refresh_def split_beta Let_def)
  qed
qed

lemma auth_kept_use_token: "auth_later s (fst (use_token jti uid p now s))"
  by (simp add: use_token_def split: sum.split)

lemma auth_kept_create_totp: "auth_later s (fst (create_totp uid sealed now s))"
  by (simp add: create_totp_def split: sum.split)

lemma auth_kept_create_codes: "auth_later s (fst (create_codes uid hs s))"
proof -
  show ?thesis
  proof (induction hs arbitrary: s)
    case (Cons h hs)
    let ?f = "snd (fresh_uuid s)"
    have f: "auth_later s ?f" by (simp add: later_rel.same)
    show ?case
    proof (cases "insert_row recovery_uqs \<lparr> rc_id = fst (fresh_uuid s), rc_userId = uid, rc_codeHash = h, rc_usedAt = None \<rparr> (recoveryCodes ?f)")
      case (Inl e)
      then show ?thesis using f by (simp add: split_beta Let_def)
    next
      case (Inr t)
      have "auth_later s (?f\<lparr>recoveryCodes := t\<rparr>)" using f later_rel.trans later_other_tables(3) by blast
      then show ?thesis using Inr Cons.IH [of "?f\<lparr>recoveryCodes := t\<rparr>"] later_rel.trans
        by (simp add: split_beta Let_def)
    qed
  qed simp
qed

lemma auth_kept_touch: "auth_later s (fst (touch_session sid now s))"
proof -
  have "auth_later s (s\<lparr>sessions := update_rows (\<lambda>x. ses_id x = sid) (\<lambda>x. x\<lparr>ses_lastActiveAt := now\<rparr>) (sessions s)\<rparr>)"
    by (rule later_sessions) (simp add: session_later_def)
  then show ?thesis by (simp add: touch_session_def)
qed

interpretation auth_rel: auth_relation auth_later
  by unfold_locales
     (rule auth_kept_update_user auth_kept_create_user auth_kept_create_session auth_kept_create_refresh auth_kept_touch
       later_revoke_sessions later_revoke_refresh auth_kept_use_token auth_kept_create_totp auth_kept_create_codes
       later_other_tables; assumption)+

section \<open>Used tokens as such a relation\<close>

text \<open>Only the purge removes the record of a used token.\<close>

definition used_later :: "app \<Rightarrow> app \<Rightarrow> bool" where
  "used_later s s' \<longleftrightarrow> set (usedTokens s) \<subseteq> set (usedTokens s')"

lemma used_simps [simp]:
  "used_later s (s\<lparr>users := t1\<rparr>)" "used_later s (s\<lparr>sessions := t2\<rparr>)" "used_later s (s\<lparr>refreshTokens := t3\<rparr>)"
  "used_later s (s\<lparr>totpCredentials := t4\<rparr>)" "used_later s (s\<lparr>recoveryCodes := t5\<rparr>)"
  "used_later s (s\<lparr>totpCredentials := t4, recoveryCodes := t5\<rparr>)"
  by (simp_all add: used_later_def)

lemma used_kept_codes: "used_later s (fst (create_codes uid hs s))"
proof (induction hs arbitrary: s)
  case (Cons h hs)
  let ?f = "snd (fresh_uuid s)"
  show ?case
  proof (cases "insert_row recovery_uqs \<lparr> rc_id = fst (fresh_uuid s), rc_userId = uid, rc_codeHash = h, rc_usedAt = None \<rparr> (recoveryCodes ?f)")
    case (Inr t)
    then show ?thesis using Cons.IH [of "?f\<lparr>recoveryCodes := t\<rparr>"]
      by (simp add: split_beta Let_def used_later_def same_db_tables [OF same_db_fresh])
  qed (simp add: split_beta Let_def used_later_def same_db_tables [OF same_db_fresh])
qed (simp add: used_later_def)

interpretation used_rel: auth_relation used_later
proof
  fix s s' t u :: app
  show "same_db s' s \<Longrightarrow> used_later s s'" by (simp add: used_later_def same_db_tables)
  show "used_later s t \<Longrightarrow> used_later t u \<Longrightarrow> used_later s u" by (auto simp: used_later_def)
  show "used_later s (fst (update_user uid d s))" for uid d
    by (auto simp: update_user_def used_later_def split: sum.split)
  show "used_later s (fst (create_user mk s))" for mk
    by (auto simp: create_user_def used_later_def fresh_uuid_def Let_def split: sum.split)
  show "used_later s (fst (create_session uid ip ua ex now s))" for uid ip ua ex now
    by (auto simp: create_session_def used_later_def fresh_uuid_def Let_def split: sum.split)
  show "used_later s (fst (create_refresh uid sid h ex s))" for uid sid h ex
    by (auto simp: create_refresh_def used_later_def fresh_uuid_def Let_def split: sum.split)
  show "used_later s (fst (touch_session sid now s))" for sid now by (simp add: touch_session_def used_later_def)
  show "used_later s (revoke_sessions ws s)" for ws by (simp add: revoke_sessions_def)
  show "used_later s (revoke_refresh wr s)" for wr by (simp add: revoke_refresh_def)
  show "used_later s (fst (use_token jti uid p now s))" for jti uid p now
    by (auto simp: use_token_def used_later_def dest: insert_row_Inr split: sum.split)
  show "used_later s (fst (create_totp uid sealed now s))" for uid sealed now
    by (auto simp: create_totp_def used_later_def split: sum.split)
  show "used_later s (fst (create_codes uid hs s))" for uid hs by (rule used_kept_codes)
  show "used_later s (s\<lparr>recoveryCodes := rs\<rparr>)" for rs by simp
  show "used_later s (s\<lparr>totpCredentials := ts, recoveryCodes := rs\<rparr>)" for ts rs by simp
qed

section \<open>Steps of the service\<close>

text \<open>
  One request, job or guard at an instant. The reads a handler makes before it acts are given
  by an earlier state \<open>v\<close>, any at all: nothing is assumed of how requests interleave. A step is
  labelled with what it consumed: the refresh token it exchanged, the mailed token it used.
\<close>

datatype auth_event = Exchanged uuid | TokenUsed string instant

definition exchange_event :: "(refresh_token \<times> user) res \<Rightarrow> auth_event list" where
  "exchange_event r = (case r of Inr (row, u) \<Rightarrow> [Exchanged (rt_id row)] | Inl _ \<Rightarrow> [])"

definition token_event :: "auth_env \<Rightarrow> instant \<Rightarrow> string \<Rightarrow> used_token_purpose \<Rightarrow> bool res \<Rightarrow> auth_event list" where
  "token_event env now tok p r = (case (r, parseActionToken env now tok p) of
       (Inr _, Inr (uid, jti, tg)) \<Rightarrow> [TokenUsed jti now] | _ \<Rightarrow> [])"

inductive auth_step :: "auth_env \<Rightarrow> instant \<Rightarrow> app \<Rightarrow> auth_event list \<Rightarrow> app \<Rightarrow> bool" for env now where
  register: "auth_step env now s [] (fst (register env (users (v :: app)) dto ip salt now s))"
| verifyEmail: "auth_step env now s (token_event env now tok VERIFY_EMAIL (snd (verifyEmail env tok ip now s)))
    (fst (verifyEmail env tok ip now s))"
| resendVerification: "auth_step env now s [] (fst (resendVerification env email ip now s))"
| forgotPassword: "auth_step env now s [] (fst (forgotPassword env email ip now s))"
| resetPassword: "auth_step env now s (token_event env now tok RESET_PASSWORD (snd (resetPassword env tok pw ip salt now s)))
    (fst (resetPassword env tok pw ip salt now s))"
| login: "auth_step env now s [] (fst (login env (users (v :: app)) email pw ip ua rnd now s))"
| refresh_claim: "auth_step env now s (exchange_event (snd (refresh_claim env v tok ip now s)))
    (fst (refresh_claim env v tok ip now s))"
| refresh_issue: "auth_step env now s [] (fst (refresh_issue env (sessions (v :: app)) row u rnd now s))"
| logout: "auth_step env now s [] (fst (logout env tok jti sid ip now s))"
| logoutAll: "auth_step env now s [] (fst (logoutAll env uid jti ip now s))"
| revokeSession: "auth_step env now s [] (fst (revokeSession uid sid ip s))"
| totpEnable: "auth_step env now s [] (fst (totpEnable uri qr uid sec now s))"
| totpVerify: "auth_step env now s [] (fst (totpVerify env uid code ip iv draws now s))"
| totpValidate: "auth_step env now s [] (fst (totpValidate env uid code now s))"
| totpDisable: "auth_step env now s [] (fst (totpDisable env uid pw code ip now s))"
| mfaLoginVerify: "auth_step env now s [] (fst (mfaLoginVerify env (recoveryCodes (v :: app)) tok code ip ua rnd now s))"
| changePassword: "auth_step env now s [] (fst (changePassword env uid cur pw ocode jti ip salt now s))"
| requestChangeEmail: "auth_step env now s [] (fst (requestChangeEmail env uid cur email ip now s))"
| confirmChangeEmail: "auth_step env now s (token_event env now tok CHANGE_EMAIL (snd (confirmChangeEmail env tok ip now s)))
    (fst (confirmChangeEmail env tok ip now s))"
| deactivate: "auth_step env now s [] (fst (deactivate env uid pw ocode jti ip now s))"
| createUser: "auth_step env now s [] (fst (createUser env cal email pw role salt now s))"
| updateUser: "auth_step env now s [] (fst (updateUser env cal uid udto salt now s))"
| deactivateUser: "auth_step env now s [] (fst (deactivateUser cal uid now s))"
| purge: "auth_step env now s [] (purgeOnce now s)"
| guard: "auth_step env now s [] (fst (jwt_guard env hdr now s))"
| throttle: "auth_step env now s [] (fst (auth_ip_throttle env ip now s))"

inductive auth_steps :: "auth_env \<Rightarrow> app \<Rightarrow> app \<Rightarrow> bool" for env where
  none: "auth_steps env s s"
| more: "auth_steps env s t \<Longrightarrow> auth_step env now t evs u \<Longrightarrow> auth_steps env s u"

lemma later_purge: "auth_later s (purgeOnce now s)"
  by (simp add: purgeOnce_def)

lemmas handler_later = auth_rel.later_register auth_rel.later_verifyEmail auth_rel.later_resend auth_rel.later_forgot
  auth_rel.later_reset auth_rel.later_login auth_rel.later_refresh_claim auth_rel.later_refresh_issue
  auth_rel.later_logout auth_rel.later_logoutAll auth_rel.later_revokeSession auth_rel.later_totpEnable
  auth_rel.later_totpVerify auth_rel.later_totpValidate auth_rel.later_totpDisable auth_rel.later_mfaLoginVerify
  auth_rel.later_changePassword auth_rel.later_requestChangeEmail auth_rel.later_confirmChangeEmail auth_rel.later_deactivate
  auth_rel.later_createUser auth_rel.later_updateUser auth_rel.later_deactivateUser later_purge
  auth_rel.later_guard auth_rel.later_throttle

lemma auth_step_later: "auth_step env now s evs s' \<Longrightarrow> auth_later s s'"
  by (induction rule: auth_step.induct) (rule handler_later)+

lemma auth_steps_later: "auth_steps env s s' \<Longrightarrow> auth_later s s'"
  by (induction rule: auth_steps.induct) (auto intro: later_rel.trans auth_step_later)

end
