(* ===== verification/Auth_Guarantees.thy ===== *)
theory Auth_Guarantees
  imports Auth_Safety
begin

text \<open>
  The guarantees of the authentication service: tokens that were revoked stay refused, a change of
  credentials ends everything that was issued before, a refresh token is exchanged once, a mailed
  token is used once, and what login tells and locks.
\<close>

section \<open>Revocation is for ever\<close>

text \<open>The claims of an access token that the state no longer honours.\<close>

definition token_dead :: "json \<Rightarrow> app \<Rightarrow> bool" where
  "token_dead claims s = (case guard_claims claims of
       None \<Rightarrow> True
     | Some (sub, jti, sid) \<Rightarrow>
         (case List.find (\<lambda>x. ses_id x = sid) (sessions s) of Some x \<Rightarrow> ses_revoked x | None \<Rightarrow> False) \<or>
         (case find_user sub (users s) of
            Some u \<Rightarrow> usr_deletedAt u \<noteq> None \<or>
              (case json_get claims ''pwdver'' of Some (JNum v) \<Rightarrow> v < usr_pwdVersion u | _ \<Rightarrow> True)
          | None \<Rightarrow> False))"

lemma token_dead_later:
  assumes "token_dead claims s" and "auth_later s s'"
  shows "token_dead claims s'"
proof (cases "guard_claims claims")
  case (Some c)
  obtain sub jti sid where c: "c = (sub, jti, sid)" by (cases c) auto
  show ?thesis
  proof (cases "case List.find (\<lambda>x. ses_id x = sid) (sessions s) of Some x \<Rightarrow> ses_revoked x | None \<Rightarrow> False")
    case True
    then obtain x where x: "List.find (\<lambda>x. ses_id x = sid) (sessions s) = Some x" "ses_revoked x"
      by (auto split: option.splits)
    have "extends session_later (sessions s) (sessions s')" using assms(2) by (simp add: auth_later_def)
    then obtain y where "List.find (\<lambda>x. ses_id x = sid) (sessions s') = Some y" "session_later x y"
      by (rule extends_find [where f = ses_id]) (use x in \<open>auto simp: session_later_def\<close>)
    then show ?thesis using x(2) Some c by (simp add: token_dead_def session_later_def)
  next
    case False
    then obtain u where u: "find_user sub (users s) = Some u" "usr_deletedAt u \<noteq> None \<or>
        (case json_get claims ''pwdver'' of Some (JNum v) \<Rightarrow> v < usr_pwdVersion u | _ \<Rightarrow> True)"
      using assms(1) Some c by (auto simp: token_dead_def split: option.splits)
    have "extends user_later (users s) (users s')" using assms(2) by (simp add: auth_later_def)
    then obtain w where "find_user sub (users s') = Some w" "user_later u w" unfolding find_user_def
      by (rule extends_find [where f = usr_id]) (use u in \<open>auto simp: user_later_def find_user_def\<close>)
    then show ?thesis using u(2) Some c
      by (auto simp: token_dead_def user_later_def split: option.splits json.splits)
  qed
qed (simp add: token_dead_def)

lemma guard_dead:
  assumes "token_verify env now tok ''access'' = Inr claims" and "token_dead claims s"
  shows "snd (jwt_guard env (Some (''Bearer '' @ tok)) now s) = Inl unauthorized"
proof (cases "guard_claims claims")
  case None
  then show ?thesis using assms(1) by (simp add: jwt_guard_def startsWith_def)
next
  case (Some c)
  obtain sub jti sid where c: "c = (sub, jti, sid)" by (cases c) auto
  let ?s = "snd (app_get now (''jti:denylist:'' @ jti) s)"
  have t: "users ?s = users s" "sessions ?s = sessions s" by (simp_all add: same_db_tables [OF app_store_same_db(1)])
  have "user_admitted sub (json_get claims ''pwdver'') (users s) = None \<or> \<not> session_admitted sid now (sessions s)"
    using assms(2) Some c
    by (auto simp: token_dead_def user_admitted_def session_admitted_def split: option.splits json.splits)
  then show ?thesis using assms(1) Some c t
    by (auto simp: jwt_guard_def startsWith_def Let_def split_beta split: option.splits)
qed

text \<open>
  An access token whose session has been revoked, whose password version is out of date or whose
  account is closed is refused with 401 by the guard in that state and after every further
  sequence of requests, jobs and guard calls, at every instant.
\<close>

theorem revoked_access_refused:
  assumes "token_dead claims s" and "auth_steps env s s'" and "token_verify env now tok ''access'' = Inr claims"
  shows "snd (jwt_guard env (Some (''Bearer '' @ tok)) now s') = Inl unauthorized"
  using guard_dead [OF assms(3) token_dead_later [OF assms(1) auth_steps_later [OF assms(2)]]] .

section \<open>Changes of credentials\<close>

definition killed :: "uuid \<Rightarrow> int \<Rightarrow> app \<Rightarrow> bool" where
  "killed uid v s \<longleftrightarrow>
     (case find_user uid (users s) of Some u \<Rightarrow> v < usr_pwdVersion u \<or> usr_deletedAt u \<noteq> None | None \<Rightarrow> False) \<and>
     (\<forall>x \<in> set (sessions s). ses_userId x = uid \<longrightarrow> ses_revoked x) \<and>
     (\<forall>r \<in> set (refreshTokens s). rt_userId r = uid \<longrightarrow> rt_revoked r)"

lemma killed_same_db: "killed uid v s \<Longrightarrow> same_db s' s \<Longrightarrow> killed uid v s'"
  by (simp add: killed_def same_db_tables)

lemma update_user_Inr:
  assumes "update_user uid d s = (s', Inr w)" and "find_user uid (users s) = Some u" and "usr_id (d u) = usr_id u"
  shows "s' = s\<lparr>users := update_rows (\<lambda>u. usr_id u = uid) d (users s)\<rparr>"
    and "find_user uid (users s') = Some (d u)"
proof -
  show s': "s' = s\<lparr>users := update_rows (\<lambda>u. usr_id u = uid) d (users s)\<rparr>"
    using assms(1,2) by (auto simp: update_user_def dest: check_unique_Inr split: sum.splits)
  have "find_user uid t = Some u \<Longrightarrow> find_user uid (update_rows (\<lambda>u. usr_id u = uid) d t) = Some (d u)" for t
    using assms(3) by (induction t) (auto simp: find_user_def split: if_splits)
  then show "find_user uid (users s') = Some (d u)" using assms(2) s' by simp
qed

lemma revoked_rows:
  "x \<in> set (sessions (revoke_sessions w s)) \<Longrightarrow> w x \<Longrightarrow> (\<And>y. w (y\<lparr>ses_revoked := True\<rparr>) = w y) \<Longrightarrow> ses_revoked x"
  "r \<in> set (refreshTokens (revoke_refresh v s)) \<Longrightarrow> v r \<Longrightarrow> (\<And>y. v (y\<lparr>rt_revoked := True\<rparr>) = v y) \<Longrightarrow> rt_revoked r"
  by (force simp: revoke_sessions_def set_update_rows split: if_splits)
     (force simp: revoke_refresh_def set_update_rows split: if_splits)

lemma revoke_user_tables:
  "users (revoke_user uid s) = users s"
  "x \<in> set (sessions (revoke_user uid s)) \<Longrightarrow> ses_userId x = uid \<Longrightarrow> ses_revoked x"
  "r \<in> set (refreshTokens (revoke_user uid s)) \<Longrightarrow> rt_userId r = uid \<Longrightarrow> rt_revoked r"
proof -
  show "users (revoke_user uid s) = users s"
    by (simp add: revoke_user_def revoke_refresh_def revoke_sessions_def)
  have "sessions (revoke_user uid s) = sessions (revoke_sessions (\<lambda>x. ses_userId x = uid) s)"
    by (simp add: revoke_user_def revoke_refresh_def)
  then show "x \<in> set (sessions (revoke_user uid s)) \<Longrightarrow> ses_userId x = uid \<Longrightarrow> ses_revoked x"
    using revoked_rows(1) [of x "\<lambda>x. ses_userId x = uid" s] by simp
  show "r \<in> set (refreshTokens (revoke_user uid s)) \<Longrightarrow> rt_userId r = uid \<Longrightarrow> rt_revoked r"
    using revoked_rows(2) [of r "\<lambda>r. rt_userId r = uid"] by (simp add: revoke_user_def)
qed

lemma killed_update_revoke:
  assumes "update_user uid d s = (s1, Inr w)" and "find_user uid (users s) = Some u"
    and "usr_id (d u) = usr_id u" and "usr_pwdVersion u < usr_pwdVersion (d u) \<or> usr_deletedAt (d u) \<noteq> None"
  shows "killed uid (usr_pwdVersion u) (revoke_user uid s1)"
  unfolding killed_def
  using update_user_Inr(2) [OF assms(1-3)] assms(4) revoke_user_tables(2,3) by (simp add: revoke_user_tables(1))

lemma killed_revoke_update:
  assumes "update_user uid d (revoke_user uid s) = (s1, Inr w)" and "find_user uid (users s) = Some u"
    and "usr_id (d u) = usr_id u" and "usr_pwdVersion u < usr_pwdVersion (d u)"
  shows "killed uid (usr_pwdVersion u) s1"
proof -
  have f: "find_user uid (users (revoke_user uid s)) = Some u" using assms(2) by (simp add: revoke_user_tables)
  note r = update_user_Inr [OF assms(1) f assms(3)]
  have "sessions s1 = sessions (revoke_user uid s)" "refreshTokens s1 = refreshTokens (revoke_user uid s)"
    using r(1) by simp_all
  then show ?thesis unfolding killed_def using r(2) assms(4) revoke_user_tables(2,3) by simp
qed

lemma same_db_on_store: "same_db t s \<Longrightarrow> same_db (fst (on_store f t)) s"
  using on_store_same_db same_db_trans by blast

lemma confirm_user_same_db:
  assumes "confirm_user env uid pw code now s = (t, r)"
  shows "same_db t s"
proof -
  have b: "same_db (fst (bindE (on_store f) (\<lambda>ok s1. if ok then (s1, Inr ()) else (s1, Inl e)) x)) x" for f e x
    using on_store_same_db [of f x] by (cases "on_store f x"; cases "snd (on_store f x)") (auto simp: bindE_def)
  have v: "same_db (fst (verifySensitiveCredentials env u pw code now s)) s" for u
    by (auto simp: verifySensitiveCredentials_def b split: option.splits sum.splits)
  have "same_db (fst (bindE (verifySensitiveCredentials env u pw code now) (\<lambda>_. returnE u) s)) s" for u
    using v [of u] by (cases "verifySensitiveCredentials env u pw code now s"; cases "snd (verifySensitiveCredentials env u pw code now s)")
      (auto simp: bindE_def returnE_def)
  then show ?thesis using assms by (auto simp: confirm_user_def split: option.splits) (metis fst_conv)+
qed

lemma transaction_bind_Inr:
  assumes "bindE (transaction m) f s = (s', Inr v)"
  obtains s1 a where "m s = (s1, Inr a)" "f a s1 = (s', Inr v)"
  using assms by (elim bindE_Inr) (auto simp: transaction_Inr)

text \<open>The operations that end what was issued before.\<close>

inductive trust_change :: "auth_env \<Rightarrow> uuid \<Rightarrow> app \<Rightarrow> app \<Rightarrow> bool" for env uid where
  reset: "resetPassword env tok pw ip salt now s = (s', Inr b) \<Longrightarrow>
    parseActionToken env now tok RESET_PASSWORD = Inr (uid, jti, tg) \<Longrightarrow> trust_change env uid s s'"
| change: "changePassword env uid cur pw code jti ip salt now s = (s', Inr b) \<Longrightarrow> trust_change env uid s s'"
| everywhere: "logoutAll env uid jti ip now s = (s', Inr b) \<Longrightarrow> trust_change env uid s s'"
| mfa_off: "totpDisable env uid pw otp ip now s = (s', Inr b) \<Longrightarrow> trust_change env uid s s'"
| email: "confirmChangeEmail env tok ip now s = (s', Inr b) \<Longrightarrow>
    parseActionToken env now tok CHANGE_EMAIL = Inr (uid, jti, tg) \<Longrightarrow> trust_change env uid s s'"
| admin: "updateUser env cal uid dto salt now s = (s', Inr w) \<Longrightarrow>
    find_user uid (users s) = Some u \<Longrightarrow> trust_changed dto u \<Longrightarrow> trust_change env uid s s'"
| closed: "deactivate env uid pw ocode jti ip now s = (s', Inr b) \<Longrightarrow> trust_change env uid s s'"
| admin_closed: "deactivateUser cal uid now s = (s', Inr v) \<Longrightarrow> trust_change env uid s s'"

lemma token_transaction_Inr: "token_transaction body s = (s', Inr v) \<longleftrightarrow> body s = (s', Inr v)"
  by (auto simp: token_transaction_def transaction_def split: prod.splits sum.splits)

lemma token_bind_Inr:
  assumes "bindE (token_transaction m) f s = (s', Inr v)"
  obtains s1 a where "m s = (s1, Inr a)" "f a s1 = (s', Inr v)"
  using assms by (elim bindE_Inr) (auto simp: token_transaction_Inr)

lemma use_token_Inr:
  assumes "use_token jti uid p now s = (s1, Inr a)"
  shows "s1 = s\<lparr>usedTokens := usedTokens s @ [\<lparr> ut_jti = jti, ut_userId = uid, ut_purpose = p,
            ut_expiresAt = now + USED_TOKEN_RETENTION_MS \<rparr>]\<rparr>"
    and "jti \<notin> ut_jti ` set (usedTokens s)"
proof -
  let ?r = "\<lparr> ut_jti = jti, ut_userId = uid, ut_purpose = p, ut_expiresAt = now + USED_TOKEN_RETENTION_MS \<rparr>"
  obtain t where t: "insert_row used_token_uqs ?r (usedTokens s) = Inr t" "s1 = s\<lparr>usedTokens := t\<rparr>"
    using assms by (auto simp: use_token_def split: sum.splits)
  show "s1 = s\<lparr>usedTokens := usedTokens s @ [?r]\<rparr>" using t insert_row_Inr [OF t(1)] by simp
  have "distinct (map ut_jti t)" by (rule insert_keys [OF t(1), of "[''jti'']"]) (simp add: used_token_uqs_def)
  then show "jti \<notin> ut_jti ` set (usedTokens s)" using insert_row_Inr [OF t(1)] by auto
qed

lemma killed_token_tx:
  assumes "bindE (use_token jti uid p now) (\<lambda>_. bindE (update_user uid d) (\<lambda>_ s. (revoke_user uid s, Inr ()))) s = (s1, Inr a)"
    and "find_user uid (users s) = Some u" and "usr_id (d u) = usr_id u" and "usr_pwdVersion u < usr_pwdVersion (d u)"
  shows "killed uid (usr_pwdVersion u) s1"
proof -
  from assms(1) obtain t b where t: "use_token jti uid p now s = (t, Inr b)"
      "bindE (update_user uid d) (\<lambda>_ s. (revoke_user uid s, Inr ())) t = (s1, Inr a)"
    by (rule bindE_Inr)
  from t(2) obtain t2 c where t2: "update_user uid d t = (t2, Inr c)" "s1 = revoke_user uid t2"
    by (rule bindE_Inr) simp
  have "find_user uid (users t) = Some u" using use_token_Inr(1) [OF t(1)] assms(2) by simp
  from killed_update_revoke [OF t2(1) this assms(3)] assms(4) show ?thesis using t2(2) by simp
qed

lemma killed_audit: "killed uid v s \<Longrightarrow> killed uid v (record_audit us ev ip ok d s)"
  by (erule killed_same_db) simp

lemma killed_denylist: "killed uid v s \<Longrightarrow> killed uid v (denylist jti ttl now s)"
  by (erule killed_same_db) simp

lemma versions_rise:
  "usr_pwdVersion u < usr_pwdVersion (set_password h u)" "usr_pwdVersion u < usr_pwdVersion (bump_version u)"
  "usr_pwdVersion u < usr_pwdVersion (set_email e now u)" "usr_pwdVersion u < usr_pwdVersion (patch_user env dto True salt u)"
  "usr_id (set_password h u) = usr_id u" "usr_id (bump_version u) = usr_id u" "usr_id (set_email e now u) = usr_id u"
  "usr_id (patch_user env dto b salt u) = usr_id u"
  by (simp_all add: set_password_def bump_version_def set_email_def patch_user_def)

lemma confirmed_tables:
  assumes "confirm_user env uid pw code now s = (t, r)" and "find_user uid (users s) = Some u"
  shows "find_user uid (users t) = Some u"
  using same_db_tables(1) [OF confirm_user_same_db [OF assms(1)]] assms(2) by simp

lemma killed_reset:
  assumes "resetPassword env tok pw ip salt now s = (s', Inr b)"
    and "parseActionToken env now tok RESET_PASSWORD = Inr (uid, jti, tg)" and "find_user uid (users s) = Some u"
  shows "killed uid (usr_pwdVersion u) s'"
proof -
  have "bindE (token_transaction (reset_tx uid jti (lib_bcrypt_hash env salt pw) now)) (\<lambda>_ s'.
            (record_audit (Some uid) ''password_reset'' ip True None s', Inr True)) s = (s', Inr b)"
    using assms(1,2) by (simp add: resetPassword_def split: if_splits)
  then obtain s1 a where s1: "reset_tx uid jti (lib_bcrypt_hash env salt pw) now s = (s1, Inr a)"
      "s' = record_audit (Some uid) ''password_reset'' ip True None s1"
    by (rule token_bind_Inr) simp
  from killed_token_tx [OF s1(1) [unfolded reset_tx_def] assms(3)] show ?thesis
    unfolding s1(2) by (intro killed_audit) (simp add: versions_rise)
qed

lemma killed_email:
  assumes "confirmChangeEmail env tok ip now s = (s', Inr b)"
    and "parseActionToken env now tok CHANGE_EMAIL = Inr (uid, jti, tg)" and "find_user uid (users s) = Some u"
  shows "killed uid (usr_pwdVersion u) s'"
proof -
  obtain e where "bindE (token_transaction (change_email_tx uid jti e now)) (\<lambda>_ s'.
               (record_audit (Some uid) ''email_changed'' ip True (Some e) s', Inr True)) s = (s', Inr b)"
    using assms(1,2) by (auto simp: confirmChangeEmail_def split: option.splits if_splits)
  then obtain s1 a where s1: "change_email_tx uid jti e now s = (s1, Inr a)"
      "s' = record_audit (Some uid) ''email_changed'' ip True (Some e) s1"
    by (rule token_bind_Inr) simp
  from killed_token_tx [OF s1(1) [unfolded change_email_tx_def] assms(3)] show ?thesis
    unfolding s1(2) by (intro killed_audit) (simp add: versions_rise)
qed

lemma killed_change:
  assumes "changePassword env uid cur pw code jti ip salt now s = (s', Inr b)" and "find_user uid (users s) = Some u"
  shows "killed uid (usr_pwdVersion u) s'"
proof -
  let ?d = "set_password (lib_bcrypt_hash env salt pw)"
  have "bindE (confirm_user env uid cur code now) (\<lambda>_.
        bindE (transaction (bindE (update_user uid ?d) (\<lambda>_ s0. (revoke_user uid s0, Inr ()))))
          (\<lambda>_ s1. (record_audit (Some uid) ''password_changed'' ip True None
                     (denylist jti (accessTtlMs env) now s1), Inr True))) s = (s', Inr b)"
    using assms(1) by (simp add: changePassword_def split: if_splits)
  then obtain t w where t: "confirm_user env uid cur code now s = (t, Inr w)"
      "bindE (transaction (bindE (update_user uid ?d) (\<lambda>_ s0. (revoke_user uid s0, Inr ()))))
          (\<lambda>_ s1. (record_audit (Some uid) ''password_changed'' ip True None
                     (denylist jti (accessTtlMs env) now s1), Inr True)) t = (s', Inr b)"
    by (rule bindE_Inr)
  from t(2) obtain s1 a where s1: "bindE (update_user uid ?d) (\<lambda>_ s0. (revoke_user uid s0, Inr ())) t = (s1, Inr a)"
      "s' = record_audit (Some uid) ''password_changed'' ip True None (denylist jti (accessTtlMs env) now s1)"
    by (rule transaction_bind_Inr) simp
  from s1(1) obtain t2 c where t2: "update_user uid ?d t = (t2, Inr c)" "s1 = revoke_user uid t2"
    by (rule bindE_Inr) simp
  show ?thesis unfolding s1(2) t2(2)
    by (intro killed_audit killed_denylist killed_update_revoke [OF t2(1) confirmed_tables [OF t(1) assms(2)]])
       (simp_all add: versions_rise)
qed

lemma killed_everywhere:
  assumes "logoutAll env uid jti ip now s = (s', Inr b)" and "find_user uid (users s) = Some u"
  shows "killed uid (usr_pwdVersion u) s'"
proof -
  from assms(1) obtain s1 a where s1: "update_user uid bump_version (revoke_user uid s) = (s1, Inr a)"
      "s' = record_audit (Some uid) ''logout_all'' ip True None (denylist jti (accessTtlMs env) now s1)"
    unfolding logoutAll_def by (rule transaction_bind_Inr) simp
  show ?thesis unfolding s1(2)
    by (intro killed_audit killed_denylist killed_revoke_update [OF s1(1) assms(2)]) (simp_all add: versions_rise)
qed

lemma killed_mfa_off:
  assumes "totpDisable env uid pw otp ip now s = (s', Inr b)" and "find_user uid (users s) = Some u"
  shows "killed uid (usr_pwdVersion u) s'"
proof -
  let ?clear = "\<lambda>s0. s0\<lparr>totpCredentials := delete_rows (\<lambda>c. tc_userId c = uid) (totpCredentials s0),
                    recoveryCodes := delete_rows (\<lambda>c. rc_userId c = uid) (recoveryCodes s0)\<rparr>"
  from assms(1) obtain t w where t: "confirm_user env uid pw (Some otp) now s = (t, Inr w)"
      "bindE (transaction (\<lambda>s0. update_user uid bump_version (revoke_user uid (?clear s0))))
         (\<lambda>_ s1. (record_audit (Some uid) ''mfa_disabled'' ip True None s1, Inr True)) t = (s', Inr b)"
    unfolding totpDisable_def by (rule bindE_Inr)
  from t(2) obtain s1 a where s1: "update_user uid bump_version (revoke_user uid (?clear t)) = (s1, Inr a)"
      "s' = record_audit (Some uid) ''mfa_disabled'' ip True None s1"
    by (rule transaction_bind_Inr) simp
  have "find_user uid (users (?clear t)) = Some u" using confirmed_tables [OF t(1) assms(2)] by simp
  then show ?thesis unfolding s1(2)
    by (intro killed_audit killed_revoke_update [OF s1(1)]) (simp_all add: versions_rise)
qed

lemma killed_admin:
  assumes "updateUser env cal uid dto salt now s = (s', Inr w)" and "find_user uid (users s) = Some u"
    and "trust_changed dto u" and "distinct (map usr_id (users s))"
  shows "killed uid (usr_pwdVersion u) s'"
proof -
  obtain e where e: "List.find (\<lambda>u. usr_id u = uid \<and> usr_deletedAt u = None) (users s) = Some e"
    using assms(1) by (auto simp: updateUser_def split: if_splits option.splits)
  have "usr_id u = uid" using find_Some_iff [OF assms(2) [unfolded find_user_def]] by simp
  then have "e = u"
    using find_Some_iff [OF e] find_key [OF assms(4), of e] assms(2) by (simp add: find_user_def)
  then have "bindE (transaction (bindE (update_user uid (patch_user env dto True salt)) (\<lambda>_ s1. (revoke_user uid s1, Inr ()))))
            (\<lambda>_ s2. (record_audit (Some (cal_id cal)) ''user_updated'' None True
                (Some (''user:'' @ uid @ '' role:'' @ show_opt show_role (uud_role dto) @ '' active:'' @
                   show_opt show_flag (uud_isActive dto) @ '' password:'' @ show_flag (uud_newPassword dto \<noteq> None))) s2,
              Inr (serializeUser (patch_user env dto True salt u)))) s = (s', Inr w)"
    using assms(1,3) e by (simp only: updateUser_def option.case Let_def if_True split: if_splits) simp_all
  then obtain s1 a d where s1: "bindE (update_user uid (patch_user env dto True salt)) (\<lambda>_ s1. (revoke_user uid s1, Inr ())) s = (s1, Inr a)"
      "s' = record_audit (Some (cal_id cal)) ''user_updated'' None True d s1"
    by (rule transaction_bind_Inr) auto
  from s1(1) obtain t2 c where t2: "update_user uid (patch_user env dto True salt) s = (t2, Inr c)" "s1 = revoke_user uid t2"
    by (rule bindE_Inr) simp
  show ?thesis unfolding s1(2) t2(2)
    by (intro killed_audit killed_update_revoke [OF t2(1) assms(2)]) (simp_all add: versions_rise)
qed

lemma killed_closed:
  assumes "deactivate env uid pw code jti ip now s = (s', Inr b)" and "find_user uid (users s) = Some u"
  shows "killed uid (usr_pwdVersion u) s'"
proof -
  from assms(1) obtain t w where t: "confirm_user env uid pw code now s = (t, Inr w)"
      "bindE (transaction (bindE (update_user uid (close_account now)) (\<lambda>_ s0. (revoke_user uid s0, Inr ()))))
         (\<lambda>_ s1. (record_audit (Some uid) ''account_deactivated'' ip True None
                    (denylist jti (accessTtlMs env) now s1), Inr True)) t = (s', Inr b)"
    unfolding deactivate_def by (rule bindE_Inr)
  from t(2) obtain s1 a where s1: "bindE (update_user uid (close_account now)) (\<lambda>_ s0. (revoke_user uid s0, Inr ())) t = (s1, Inr a)"
      "s' = record_audit (Some uid) ''account_deactivated'' ip True None (denylist jti (accessTtlMs env) now s1)"
    by (rule transaction_bind_Inr) simp
  from s1(1) obtain t2 c where t2: "update_user uid (close_account now) t = (t2, Inr c)" "s1 = revoke_user uid t2"
    by (rule bindE_Inr) simp
  show ?thesis unfolding s1(2) t2(2)
    by (intro killed_audit killed_denylist killed_update_revoke [OF t2(1) confirmed_tables [OF t(1) assms(2)]])
       (simp_all add: close_account_def)
qed

lemma killed_admin_closed:
  assumes "deactivateUser cal uid now s = (s', Inr v)" and "find_user uid (users s) = Some u"
  shows "killed uid (usr_pwdVersion u) s'"
proof -
  obtain d where "bindE (transaction (bindE (update_user uid (close_account now)) (\<lambda>_ s1. (revoke_user uid s1, Inr ()))))
            (\<lambda>_ s2. (record_audit (Some (cal_id cal)) ''user_deactivated'' None True d s2, Inr (uid, True))) s = (s', Inr v)"
    using assms(1) by (auto simp: deactivateUser_def split: if_splits option.splits)
  then obtain s1 a where s1: "bindE (update_user uid (close_account now)) (\<lambda>_ s1. (revoke_user uid s1, Inr ())) s = (s1, Inr a)"
      "s' = record_audit (Some (cal_id cal)) ''user_deactivated'' None True d s1"
    by (rule transaction_bind_Inr) simp
  from s1(1) obtain t2 c where t2: "update_user uid (close_account now) s = (t2, Inr c)" "s1 = revoke_user uid t2"
    by (rule bindE_Inr) simp
  show ?thesis unfolding s1(2) t2(2)
    by (intro killed_audit killed_update_revoke [OF t2(1) assms(2)]) (simp_all add: close_account_def)
qed

lemma trust_change_killed:
  assumes "trust_change env uid s s'" and "find_user uid (users s) = Some u" and "distinct (map usr_id (users s))"
  shows "killed uid (usr_pwdVersion u) s'"
  using assms
proof (induction rule: trust_change.induct)
  case (reset tok pw ip salt now s s' b jti tg)
  then show ?case by (intro killed_reset)
next
  case (change cur pw code jti ip salt now s s' b)
  then show ?case by (intro killed_change)
next
  case (everywhere jti ip now s s' b)
  then show ?case by (intro killed_everywhere)
next
  case (mfa_off pw otp ip now s s' b)
  then show ?case by (intro killed_mfa_off)
next
  case (email tok ip now s s' b jti tg)
  then show ?case by (intro killed_email)
next
  case (admin cal dto salt now s s' w v)
  then show ?case by (intro killed_admin) simp_all
next
  case (closed pw ocode jti ip now s s' b)
  then show ?case by (intro killed_closed)
next
  case (admin_closed cal now s s' v)
  then show ?case by (intro killed_admin_closed)
qed

lemma killed_tokens_dead:
  assumes "killed uid v s" and "guard_claims claims = Some (uid, jti, sid)"
    and "json_get claims ''pwdver'' = Some (JNum n)" and "n \<le> v"
  shows "token_dead claims s"
  using assms by (auto simp: killed_def token_dead_def split: option.splits)

text \<open>
  C7: A password reset or change, a log-out everywhere, switching off the second factor, a
  confirmed change of email, an administrator's change of role, new password or deactivation, and
  the closing of the account by its owner or an administrator revoke every session and refresh
  token of the user, and every access token issued to the user before is refused from then on,
  whatever requests follow. (Enabling the second factor, reactivating an account and changes that
  set the role it already has revoke nothing, and are not among these operations.)
\<close>

theorem credential_change_ends_sessions:
  assumes "trust_change env uid s s1" and "find_user uid (users s) = Some u" and "distinct (map usr_id (users s))"
    and "auth_steps env s1 s2" and "token_verify env now tok ''access'' = Inr claims"
    and "guard_claims claims = Some (uid, jti, sid)" and "json_get claims ''pwdver'' = Some (JNum n)"
    and "n \<le> usr_pwdVersion u"
  shows "(\<forall>x \<in> set (sessions s1). ses_userId x = uid \<longrightarrow> ses_revoked x) \<and>
    (\<forall>r \<in> set (refreshTokens s1). rt_userId r = uid \<longrightarrow> rt_revoked r) \<and>
    snd (jwt_guard env (Some (''Bearer '' @ tok)) now s2) = Inl unauthorized"
proof -
  have k: "killed uid (usr_pwdVersion u) s1" by (rule trust_change_killed [OF assms(1-3)])
  then have "token_dead claims s1" by (rule killed_tokens_dead) (rule assms)+
  then show ?thesis using k guard_dead [OF assms(5) token_dead_later [OF _ auth_steps_later [OF assms(4)]]]
    unfolding killed_def by simp
qed

text \<open>One signed-in user, who logs out everywhere.\<close>

definition user0 :: user where
  "user0 = new_user ''a@b.c'' ''secret123'' STUDENT (Some 0) 0 ''u''"

definition session0 :: session where
  "session0 = \<lparr> ses_id = ''sid'', ses_userId = ''u'', ses_ip = None, ses_userAgent = None, ses_revoked = False,
     ses_lastActiveAt = 0, ses_expiresAt = 1000000, ses_createdAt = 0 \<rparr>"

definition access0 :: jwt_lib where
  "access0 = jwt0 0 (access_claims user0 ''j'' ''sid'') ''new''
     \<lparr> jo_keyid = CURRENT_KID, jo_subject = ''u'', jo_issuer = ''club'', jo_expiresIn = 900 \<rparr>"

definition claims0 :: json where
  "claims0 = signed_claims 0 (access_claims user0 ''j'' ''sid'')
     \<lparr> jo_keyid = CURRENT_KID, jo_subject = ''u'', jo_issuer = ''club'', jo_expiresIn = 900 \<rparr>"

definition signed_in :: app where
  "signed_in = empty_app\<lparr>users := [user0], sessions := [session0]\<rparr>"

lemma verify0: "0 \<le> t \<Longrightarrow> t < 900000 \<Longrightarrow> token_verify (env0 access0) t ''T'' ''access'' = Inr claims0"
proof -
  assume "0 \<le> t" "t < 900000"
  then have "t div 1000 < 900" using zdiv_mono1 [of t 899999 1000] by simp
  then show ?thesis
    by (simp add: token_verify_def env0_def access0_def jwt0_def claims0_def Let_def token_kid_def CURRENT_KID_def
        token_secret_def PREVIOUS_KID_def json_get_signed access_claims_def)
qed

lemma claims0_facts:
  "guard_claims claims0 = Some (''u'', ''j'', ''sid'')" "json_get claims0 ''pwdver'' = Some (JNum 1)"
  by (simp_all add: guard_claims_def claims0_def json_get_signed access_claims_def user0_def new_user_def)

lemma user0_facts: "usr_id user0 = ''u''" "usr_pwdVersion user0 = 1" "usr_email user0 = ''a@b.c''"
  by (simp_all add: user0_def new_user_def)

lemma logout0: "\<exists>s1. logoutAll (env0 access0) ''u'' ''j'' None 1000 signed_in = (s1, Inr True)"
  by (simp add: logoutAll_def transaction_def update_user_def signed_in_def revoke_user_def revoke_refresh_def
      revoke_sessions_def find_user_def user0_facts user_uqs_def unique_on_def List.map_filter_def bump_version_def bindE_def)

theorem credential_change_ends_sessions_witness:
  "snd (jwt_guard (env0 access0) (Some (''Bearer '' @ ''T'')) 2000
     (fst (logoutAll (env0 access0) ''u'' ''j'' None 1000 signed_in))) = Inl unauthorized"
proof -
  obtain s1 where s1: "logoutAll (env0 access0) ''u'' ''j'' None 1000 signed_in = (s1, Inr True)" using logout0 by blast
  have f: "find_user ''u'' (users signed_in) = Some user0" "distinct (map usr_id (users signed_in))"
    by (simp_all add: signed_in_def find_user_def user0_facts)
  have "snd (jwt_guard (env0 access0) (Some (''Bearer '' @ ''T'')) 2000 s1) = Inl unauthorized"
    using credential_change_ends_sessions [OF trust_change.everywhere [OF s1] f auth_steps.none verify0 claims0_facts]
    by (simp add: user0_facts)
  then show ?thesis using s1 by simp
qed

theorem revoked_access_refused_witness:
  "snd (jwt_guard (env0 access0) (Some (''Bearer '' @ ''T'')) 2000
     (fst (revokeSession ''u'' ''sid'' None signed_in))) = Inl unauthorized"
proof -
  have "token_dead claims0 (fst (revokeSession ''u'' ''sid'' None signed_in))"
    by (simp add: token_dead_def claims0_facts revokeSession_def signed_in_def session0_def update_many_def
        revoke_refresh_def Let_def)
  from revoked_access_refused [OF this auth_steps.none verify0] show ?thesis by simp
qed

end
