(* ===== verification/Auth_Flows.thy ===== *)
theory Auth_Flows
  imports Auth_Guarantees
begin

text \<open>
  Single use: along every run of the service a refresh token is exchanged at most once and a mailed
  token is used at most once, the purge of old records notwithstanding.
\<close>

section \<open>Runs\<close>

inductive auth_run :: "auth_env \<Rightarrow> app \<Rightarrow> auth_event list \<Rightarrow> instant \<Rightarrow> app \<Rightarrow> bool" for env s0 where
  start: "auth_run env s0 [] t s0"
| step: "auth_run env s0 log t s \<Longrightarrow> t \<le> now \<Longrightarrow> auth_step env now s evs s' \<Longrightarrow> auth_run env s0 (evs @ log) now s'"

lemma auth_run_later: "auth_run env s0 log t s \<Longrightarrow> auth_later s0 s"
  by (induction rule: auth_run.induct) (auto intro: later_rel.trans auth_step_later)

section \<open>Refresh tokens\<close>

text \<open>Every row with the id of an exchanged token is revoked, and ids do not repeat.\<close>

definition spent :: "uuid \<Rightarrow> app \<Rightarrow> bool" where
  "spent i s \<longleftrightarrow> (\<exists>r \<in> set (refreshTokens s). rt_id r = i) \<and> (\<forall>r \<in> set (refreshTokens s). rt_id r = i \<longrightarrow> rt_revoked r)"

lemma spent_later:
  assumes "spent i s" and "auth_later s s'" and "auth_keys s"
  shows "spent i s'"
proof -
  obtain r where r: "r \<in> set (refreshTokens s)" "rt_id r = i" "rt_revoked r" using assms(1) by (auto simp: spent_def)
  have "extends refresh_later (refreshTokens s) (refreshTokens s')" using assms(2) by (simp add: auth_later_def)
  then obtain q where q: "q \<in> set (refreshTokens s')" "refresh_later r q" by (rule extends_in) (rule r(1))
  then have "rt_id q = i" "rt_revoked q" using r by (simp_all add: refresh_later_def)
  moreover have "distinct (map rt_id (refreshTokens s'))" using assms(2,3) by (simp add: auth_later_def auth_keys_def)
  ultimately show ?thesis using q(1) by (auto simp: spent_def distinct_map inj_on_def)
qed

lemma claim_spends:
  assumes "refresh_claim env v tok ip now s = (s', Inr (row, u))"
  shows "\<not> spent (rt_id row) s" and "spent (rt_id row) s'"
proof -
  let ?w = "\<lambda>r. rt_id r = rt_id row \<and> \<not> rt_revoked r"
  have n: "count_rows ?w (refreshTokens s) \<noteq> 0"
    and s': "s' = s\<lparr>refreshTokens := update_rows ?w (\<lambda>r. r\<lparr>rt_revoked := True\<rparr>) (refreshTokens s)\<rparr>"
    using assms by (auto simp: refresh_claim_def Let_def table_simps(2) split: option.splits if_splits)
  then obtain r where r: "r \<in> set (refreshTokens s)" "?w r" by auto
  then show "\<not> spent (rt_id row) s" by (auto simp: spent_def)
  have "(if ?w r then r\<lparr>rt_revoked := True\<rparr> else r) \<in> set (refreshTokens s')"
    using r(1) unfolding s' by (simp add: set_update_rows)
  moreover have "rt_revoked q" if "q \<in> set (refreshTokens s')" "rt_id q = rt_id row" for q
    using that unfolding s' by (auto simp: set_update_rows split: if_splits)
  moreover have "rt_id (if ?w r then r\<lparr>rt_revoked := True\<rparr> else r) = rt_id row" using r(2) by simp
  ultimately show "spent (rt_id row) s'" unfolding spent_def by blast
qed

lemma exchange_step:
  assumes "auth_step env now s evs s'" and "Exchanged i \<in> set evs"
  shows "\<not> spent i s" and "spent i s'" and "evs = [Exchanged i]"
proof -
  have "\<exists>v tok ip row u. evs = [Exchanged i] \<and> rt_id row = i \<and> refresh_claim env v tok ip now s = (s', Inr (row, u))"
    using assms
  proof (induction rule: auth_step.induct)
    case (refresh_claim s v tok ip)
    then show ?case
      by (cases "refresh_claim env v tok ip now s") (auto simp: exchange_event_def split: sum.splits; blast)
  qed (auto simp: token_event_def split: sum.splits prod.splits)
  then obtain v tok ip row u where c: "evs = [Exchanged i]" "rt_id row = i" "refresh_claim env v tok ip now s = (s', Inr (row, u))"
    by blast
  show "\<not> spent i s" "spent i s'" "evs = [Exchanged i]" using claim_spends [OF c(3)] c(1,2) by simp_all
qed

lemma exchanged_spent:
  "auth_run env s0 log t s \<Longrightarrow> auth_keys s0 \<Longrightarrow> Exchanged i \<in> set log \<Longrightarrow> spent i s"
proof (induction rule: auth_run.induct)
  case (step log t s now evs s')
  show ?case
  proof (cases "Exchanged i \<in> set evs")
    case True
    then show ?thesis using exchange_step(2) step.hyps(3) by blast
  next
    case False
    have "auth_keys s" using auth_run_later [OF step.hyps(1)] step.prems(1) by (simp add: auth_later_def)
    then show ?thesis using False step spent_later auth_step_later by fastforce
  qed
qed simp

lemma exchanged_once:
  "auth_run env s0 log t s \<Longrightarrow> auth_keys s0 \<Longrightarrow> count_list log (Exchanged i) \<le> 1"
proof (induction rule: auth_run.induct)
  case (step log t s now evs s')
  show ?case
  proof (cases "Exchanged i \<in> set evs")
    case True
    note e = exchange_step [OF step.hyps(3) True]
    have "Exchanged i \<notin> set log" using exchanged_spent [OF step.hyps(1) step.prems] e(1) by blast
    then show ?thesis using e(3) by (simp add: count_list_0_iff)
  next
    case False
    then show ?thesis using step.IH [OF step.prems] by (simp add: count_list_0_iff)
  qed
qed simp

text \<open>
  C8: In every run, with any interleaving of the requests, a refresh token is exchanged for a
  new pair at most once, and once it has been exchanged every later attempt to use it is
  answered 401 and revokes all sessions and refresh tokens of its user.
\<close>

theorem refresh_token_once:
  assumes "auth_run env s0 log t s" and "auth_keys s0"
  shows "count_list log (Exchanged i) \<le> 1 \<and>
    (Exchanged i \<in> set log \<and> List.find (\<lambda>r. rt_tokenHash r = lib_sha256 env tok) (refreshTokens s) = Some row \<and>
     rt_id row = i \<and> find_user (rt_userId row) (users s) = Some u \<longrightarrow>
     snd (refresh env tok ip rnd now s) = Inl invalid_credentials \<and>
     (\<forall>x \<in> set (sessions (fst (refresh env tok ip rnd now s))). ses_userId x = usr_id u \<longrightarrow> ses_revoked x) \<and>
     (\<forall>r \<in> set (refreshTokens (fst (refresh env tok ip rnd now s))). rt_userId r = usr_id u \<longrightarrow> rt_revoked r))"
proof (intro conjI impI)
  show "count_list log (Exchanged i) \<le> 1" by (rule exchanged_once [OF assms])
  assume a: "Exchanged i \<in> set log \<and> List.find (\<lambda>r. rt_tokenHash r = lib_sha256 env tok) (refreshTokens s) = Some row \<and>
     rt_id row = i \<and> find_user (rt_userId row) (users s) = Some u"
  then have "rt_revoked row" using exchanged_spent [OF assms, of i] find_Some_iff [of _ "refreshTokens s" row] by (auto simp: spent_def)
  then have c: "refresh env tok ip rnd now s = (revokeEverythingForUser env (usr_id u) ip s, Inl invalid_credentials)"
    using a by (simp add: refresh_def refresh_claim_def bindE_def)
  show "snd (refresh env tok ip rnd now s) = Inl invalid_credentials" using c by simp
  have "same_db (revokeEverythingForUser env (usr_id u) ip s) (revoke_user (usr_id u) s)"
    using same_db_trans [OF same_db_notify record_audit_same_db]
    by (auto simp: revokeEverythingForUser_def Let_def split: option.split)
  then have "sessions (fst (refresh env tok ip rnd now s)) = sessions (revoke_user (usr_id u) s)"
    "refreshTokens (fst (refresh env tok ip rnd now s)) = refreshTokens (revoke_user (usr_id u) s)"
    using c same_db_tables(2,3) by simp_all
  then show "\<forall>x \<in> set (sessions (fst (refresh env tok ip rnd now s))). ses_userId x = usr_id u \<longrightarrow> ses_revoked x"
    "\<forall>r \<in> set (refreshTokens (fst (refresh env tok ip rnd now s))). rt_userId r = usr_id u \<longrightarrow> rt_revoked r"
    using revoke_user_tables(2,3) by simp_all
qed

section \<open>Mailed tokens\<close>

lemma used_kept_step:
  assumes "auth_step env now s evs s'" and "u \<in> set (usedTokens s)" and "\<not> ut_expiresAt u < now - RETENTION_MS"
  shows "u \<in> set (usedTokens s')"
proof -
  have "used_later s s' \<or> s' = purgeOnce now s"
    using assms(1)
    by (induction rule: auth_step.induct)
       (simp_all add: used_rel.later_register used_rel.later_verifyEmail used_rel.later_resend used_rel.later_forgot
          used_rel.later_reset used_rel.later_login used_rel.later_refresh_claim used_rel.later_refresh_issue
          used_rel.later_logout used_rel.later_logoutAll used_rel.later_revokeSession used_rel.later_totpEnable
          used_rel.later_totpVerify used_rel.later_totpValidate used_rel.later_totpDisable used_rel.later_mfaLoginVerify
          used_rel.later_changePassword used_rel.later_requestChangeEmail used_rel.later_confirmChangeEmail
          used_rel.later_deactivate used_rel.later_createUser used_rel.later_updateUser used_rel.later_deactivateUser
          used_rel.later_guard used_rel.later_throttle)
  then show ?thesis using assms(2,3) by (auto simp: used_later_def purgeOnce_def delete_rows_def)
qed

definition recorded :: "string \<Rightarrow> instant \<Rightarrow> app \<Rightarrow> bool" where
  "recorded jti t s \<longleftrightarrow> (\<exists>u \<in> set (usedTokens s). ut_jti u = jti \<and> ut_expiresAt u = t + USED_TOKEN_RETENTION_MS)"

lemma recorded_same_db: "recorded jti t s \<Longrightarrow> same_db s' s \<Longrightarrow> recorded jti t s'"
  by (simp add: recorded_def same_db_tables)

lemma use_token_recorded: "use_token jti uid p now s = (s1, Inr a) \<Longrightarrow> recorded jti now s1"
  using use_token_Inr(1) [of jti uid p now s s1 a] by (simp add: recorded_def)

lemma used_tables_later: "used_later s s' \<Longrightarrow> recorded jti t s \<Longrightarrow> recorded jti t s'"
  by (auto simp: used_later_def recorded_def)

lemma token_tx_recorded:
  assumes "bindE (token_transaction (bindE (use_token jti uid p now) (\<lambda>_. m))) (\<lambda>_ s'. (record_audit us ev ip ok d s', Inr v)) s = (s', Inr b)"
    and "used_rel.keeps m"
  shows "recorded jti now s'"
proof -
  from assms(1) obtain s1 a where s1: "bindE (use_token jti uid p now) (\<lambda>_. m) s = (s1, Inr a)"
      "s' = record_audit us ev ip ok d s1"
    by (rule token_bind_Inr) simp
  from s1(1) obtain t c where t: "use_token jti uid p now s = (t, Inr c)" "m t = (s1, Inr a)" by (rule bindE_Inr)
  have "used_later t s1" using used_rel.keepsD [OF assms(2), of t] t(2) by simp
  then have "recorded jti now s1" using used_tables_later use_token_recorded [OF t(1)] by blast
  then show ?thesis unfolding s1(2) by (rule recorded_same_db) simp
qed

lemma used_keeps_revoking:
  "(\<And>u. user_later u (d u)) \<Longrightarrow> used_rel.keeps (bindE (update_user uid d) (\<lambda>_ s. (revoke_user uid s, Inr ())))"
  by (intro used_rel.keeps_bindE used_rel.keeps_update_user used_rel.keeps_revoke)

lemma handler_records:
  "verifyEmail env tok ip now s = (s', Inr b) \<Longrightarrow> parseActionToken env now tok VERIFY_EMAIL = Inr (uid, jti, tg) \<Longrightarrow> recorded jti now s'"
  "resetPassword env tok pw ip salt now s = (s', Inr b) \<Longrightarrow> parseActionToken env now tok RESET_PASSWORD = Inr (uid, jti, tg) \<Longrightarrow> recorded jti now s'"
  "confirmChangeEmail env tok ip now s = (s', Inr b) \<Longrightarrow> parseActionToken env now tok CHANGE_EMAIL = Inr (uid, jti, tg) \<Longrightarrow> recorded jti now s'"
proof -
  assume a: "verifyEmail env tok ip now s = (s', Inr b)" "parseActionToken env now tok VERIFY_EMAIL = Inr (uid, jti, tg)"
  then have "bindE (token_transaction (verify_email_tx uid jti now)) (\<lambda>_ s'.
      (record_audit (Some uid) ''email_verified'' ip True None s', Inr True)) s = (s', Inr b)"
    by (simp add: verifyEmail_def)
  then show "recorded jti now s'" unfolding verify_email_tx_def
    by (rule token_tx_recorded) (intro used_rel.keeps_update_user user_updates_later)
next
  assume a: "resetPassword env tok pw ip salt now s = (s', Inr b)" "parseActionToken env now tok RESET_PASSWORD = Inr (uid, jti, tg)"
  then have "bindE (token_transaction (reset_tx uid jti (lib_bcrypt_hash env salt pw) now)) (\<lambda>_ s'.
      (record_audit (Some uid) ''password_reset'' ip True None s', Inr True)) s = (s', Inr b)"
    by (simp add: resetPassword_def split: if_splits)
  then show "recorded jti now s'" unfolding reset_tx_def
    by (rule token_tx_recorded) (intro used_keeps_revoking user_updates_later)
next
  assume a: "confirmChangeEmail env tok ip now s = (s', Inr b)" "parseActionToken env now tok CHANGE_EMAIL = Inr (uid, jti, tg)"
  then obtain e where "bindE (token_transaction (change_email_tx uid jti e now)) (\<lambda>_ s'.
               (record_audit (Some uid) ''email_changed'' ip True (Some e) s', Inr True)) s = (s', Inr b)"
    by (auto simp: confirmChangeEmail_def split: option.splits if_splits)
  then show "recorded jti now s'" unfolding change_email_tx_def
    by (rule token_tx_recorded) (intro used_keeps_revoking user_updates_later)
qed

lemma token_event_cases:
  assumes "TokenUsed jti t \<in> set (token_event env now tok p r)"
  obtains b uid tg where "r = Inr b" "parseActionToken env now tok p = Inr (uid, jti, tg)" "t = now"
proof -
  obtain b uid j tg where "r = Inr b" "parseActionToken env now tok p = Inr (uid, j, tg)" "TokenUsed jti t = TokenUsed j now"
    using assms by (cases r; cases "parseActionToken env now tok p") (auto simp: token_event_def)
  then show thesis using that by simp
qed

lemma event_recorded:
  assumes "auth_step env now s evs s'" and "TokenUsed jti t \<in> set evs"
  shows "t = now \<and> recorded jti now s'"
  using assms
proof (induction rule: auth_step.induct)
  case (verifyEmail s tok ip)
  then obtain b uid tg where "snd (verifyEmail env tok ip now s) = Inr b"
      "parseActionToken env now tok VERIFY_EMAIL = Inr (uid, jti, tg)" "t = now" by (rule token_event_cases)
  then show ?case using handler_records(1) [of env tok ip now s "fst (verifyEmail env tok ip now s)" b] by (simp add: prod_eq_iff)
next
  case (resetPassword s tok pw ip salt)
  then obtain b uid tg where "snd (resetPassword env tok pw ip salt now s) = Inr b"
      "parseActionToken env now tok RESET_PASSWORD = Inr (uid, jti, tg)" "t = now" by (rule token_event_cases)
  then show ?case using handler_records(2) [of env tok pw ip salt now s "fst (resetPassword env tok pw ip salt now s)" b]
    by (simp add: prod_eq_iff)
next
  case (confirmChangeEmail s tok ip)
  then obtain b uid tg where "snd (confirmChangeEmail env tok ip now s) = Inr b"
      "parseActionToken env now tok CHANGE_EMAIL = Inr (uid, jti, tg)" "t = now" by (rule token_event_cases)
  then show ?case using handler_records(3) [of env tok ip now s "fst (confirmChangeEmail env tok ip now s)" b]
    by (simp add: prod_eq_iff)
qed (auto simp: exchange_event_def split: sum.splits)

lemma used_token_kept:
  "auth_run env s0 log t s \<Longrightarrow> TokenUsed jti t1 \<in> set log \<Longrightarrow>
     t1 \<le> t \<and> (t \<le> t1 + (USED_TOKEN_RETENTION_MS + RETENTION_MS) \<longrightarrow> recorded jti t1 s)"
proof (induction rule: auth_run.induct)
  case (step log t s now evs s')
  show ?case
  proof (cases "TokenUsed jti t1 \<in> set evs")
    case True
    then show ?thesis using event_recorded [OF step.hyps(3)] by blast
  next
    case False
    then have IH: "t1 \<le> t" "t \<le> t1 + (USED_TOKEN_RETENTION_MS + RETENTION_MS) \<Longrightarrow> recorded jti t1 s"
      using step.IH step.prems by auto
    have "recorded jti t1 s'" if "now \<le> t1 + (USED_TOKEN_RETENTION_MS + RETENTION_MS)"
    proof -
      have "recorded jti t1 s" using IH(2) step.hyps(2) that by simp
      then obtain u where u: "u \<in> set (usedTokens s)" "ut_jti u = jti" "ut_expiresAt u = t1 + USED_TOKEN_RETENTION_MS"
        by (auto simp: recorded_def)
      then have "u \<in> set (usedTokens s')" using used_kept_step [OF step.hyps(3) u(1)] that by simp
      then show ?thesis using u by (auto simp: recorded_def)
    qed
    then show ?thesis using IH(1) step.hyps(2) by simp
  qed
qed simp

text \<open>A second use of a recorded token fails inside the transaction, which is rolled back.\<close>

lemma recorded_use_fails:
  assumes "recorded jti t s"
  shows "\<exists>e. use_token jti uid p now s = (s, Inl e)"
proof -
  obtain u where u: "u \<in> set (usedTokens s)" "ut_jti u = jti" using assms by (auto simp: recorded_def)
  show ?thesis
  proof (cases "use_token jti uid p now s")
    case (Pair s1 r)
    show ?thesis
    proof (cases r)
      case (Inl e)
      then show ?thesis using Pair by (auto simp: use_token_def split: sum.splits)
    next
      case (Inr v)
      then have "jti \<notin> ut_jti ` set (usedTokens s)" using use_token_Inr(2) Pair by blast
      then show ?thesis using u by auto
    qed
  qed
qed

lemma recorded_tx_fails:
  assumes "recorded jti t s"
  shows "\<exists>s'. same_db s' s \<and> bindE (token_transaction (bindE (use_token jti uid p now) m)) k s = (s', Inl invalid_token)"
proof -
  obtain e where "use_token jti uid p now s = (s, Inl e)" using recorded_use_fails [OF assms] by blast
  then show ?thesis by (simp add: bindE_def token_transaction_def transaction_def)
qed

lemma parse_signed:
  assumes "jwt_contract (lib_jwt env) t0 (action_claims q jti target) (env_jwtSecret env) (sign_options env uid ttl)"
    and "parseActionToken env now (jwt_sign (lib_jwt env) t0 (action_claims q jti target) (env_jwtSecret env) (sign_options env uid ttl)) p
      = Inr (uid', jti', tg)"
  shows "jti' = jti" and "now div 1000 < t0 div 1000 + ttl"
proof -
  let ?o = "sign_options env uid ttl" and ?kvs = "action_claims q jti target"
  have ty: "map_of (rev ?kvs) ''type'' = Some (JStr ''action'')" "map_of (rev ?kvs) ''jti'' = Some (JStr jti)"
    by (simp_all add: action_claims_def split: option.split)
  note v = token_verify_signed [OF assms(1) ty(1), of now "''action''"]
  have lt: "\<not> now div 1000 \<ge> t0 div 1000 + ttl" using assms(2) v by (auto simp: parseActionToken_def)
  then have "token_verify env now (jwt_sign (lib_jwt env) t0 ?kvs (env_jwtSecret env) ?o) ''action'' = Inr (signed_claims t0 ?kvs ?o)"
    using v by simp
  then show "jti' = jti" using assms(2) ty(2)
    by (auto simp: parseActionToken_def json_get_signed json_str_def split: if_splits)
  show "now div 1000 < t0 div 1000 + ttl" using lt by simp
qed

text \<open>
  C9: A mailed token (verification, password reset, change of email; at most a day of life) that
  has been used is refused for ever after: in every run, at every later instant, each of the three
  flows answers it with an error and leaves the tables as they were. The purge job cannot
  bring it back, because the record of its use outlives the token.
\<close>

theorem action_token_once:
  assumes "auth_run env s0 log t s" and "TokenUsed jti t1 \<in> set log"
    and "jwt_contract (lib_jwt env) t0 (action_claims q jti target) (env_jwtSecret env) (sign_options env uid ttl)"
    and "tok = jwt_sign (lib_jwt env) t0 (action_claims q jti target) (env_jwtSecret env) (sign_options env uid ttl)"
    and "ttl \<le> VERIFY_EMAIL_TTL_SECONDS" and "t0 \<le> t1" and "t \<le> now"
    and "h \<in> {verifyEmail env tok ip now, resetPassword env tok pw ip salt now, confirmChangeEmail env tok ip now}"
  shows "\<exists>s' e. h s = (s', Inl e) \<and> same_db s' s"
proof -
  have rec: "recorded jti t1 s" if "parseActionToken env now tok p = Inr (uid', jti', tg)" for p uid' jti' tg
  proof -
    have "now div 1000 < t0 div 1000 + 86400"
      using parse_signed(2) [OF assms(3) that [unfolded assms(4)]] assms(5) by (simp add: VERIFY_EMAIL_TTL_SECONDS_def)
    then have "now < t0 + 86401000" by linarith
    then have "t \<le> t1 + (USED_TOKEN_RETENTION_MS + RETENTION_MS)"
      using assms(6,7) by (simp add: USED_TOKEN_RETENTION_MS_def RETENTION_MS_def)
    then show ?thesis using used_token_kept [OF assms(1,2)] by simp
  qed
  have jti: "jti' = jti" if "parseActionToken env now tok p = Inr (uid', jti', tg)" for p uid' jti' tg
    using parse_signed(1) [OF assms(3) that [unfolded assms(4)]] .
  consider "h = verifyEmail env tok ip now" | "h = resetPassword env tok pw ip salt now" | "h = confirmChangeEmail env tok ip now"
    using assms(8) by blast
  then show ?thesis
  proof cases
    case 1
    show ?thesis
    proof (cases "parseActionToken env now tok VERIFY_EMAIL")
      case (Inr c)
      obtain u j g where c: "c = (u, j, g)" by (cases c) auto
      have "recorded j t1 s" using rec jti Inr c by blast
      from recorded_tx_fails [OF this] show ?thesis using 1 Inr c by (fastforce simp: verifyEmail_def verify_email_tx_def)
    qed (use 1 in \<open>simp add: verifyEmail_def\<close>)
  next
    case 2
    show ?thesis
    proof (cases "parseActionToken env now tok RESET_PASSWORD")
      case (Inr c)
      obtain u j g where c: "c = (u, j, g)" by (cases c) auto
      have "recorded j t1 s" using rec jti Inr c by blast
      from recorded_tx_fails [OF this] show ?thesis using 2 Inr c by (fastforce simp: resetPassword_def reset_tx_def)
    qed (use 2 in \<open>simp add: resetPassword_def\<close>)
  next
    case 3
    show ?thesis
    proof (cases "parseActionToken env now tok CHANGE_EMAIL")
      case (Inr c)
      obtain u j g where c: "c = (u, j, g)" by (cases c) auto
      have "recorded j t1 s" using rec jti Inr c by blast
      from recorded_tx_fails [OF this] show ?thesis using 3 Inr c
        by (cases g) (fastforce simp: confirmChangeEmail_def change_email_tx_def)+
    qed (use 3 in \<open>simp add: confirmChangeEmail_def\<close>)
  qed
qed

section \<open>Witnesses\<close>

text \<open>A signed-in user with one refresh token, which is exchanged and then presented again.\<close>

definition refresh0 :: refresh_token where
  "refresh0 = \<lparr> rt_id = ''r'', rt_userId = ''u'', rt_sessionId = ''sid'', rt_tokenHash = ''tok'', rt_revoked = False,
     rt_expiresAt = 1000000 \<rparr>"

definition with_refresh :: app where
  "with_refresh = signed_in\<lparr>refreshTokens := [refresh0]\<rparr>"

lemma with_refresh_tables: "refreshTokens with_refresh = [refresh0]" "users with_refresh = [user0]" "sessions with_refresh = [session0]"
  by (simp_all add: with_refresh_def signed_in_def)

lemma claim0:
  "refresh_claim (env0 jwt_none) with_refresh ''tok'' None 1000 with_refresh
     = (with_refresh\<lparr>refreshTokens := [refresh0\<lparr>rt_revoked := True\<rparr>]\<rparr>, Inr (refresh0, user0))"
  by (simp add: refresh_claim_def with_refresh_tables env0_def refresh0_def find_user_def user0_facts update_many_def)

lemma run_claim0:
  "auth_run (env0 jwt_none) with_refresh [Exchanged ''r''] 1000 (with_refresh\<lparr>refreshTokens := [refresh0\<lparr>rt_revoked := True\<rparr>]\<rparr>)"
proof -
  have "auth_step (env0 jwt_none) 1000 with_refresh [Exchanged ''r''] (with_refresh\<lparr>refreshTokens := [refresh0\<lparr>rt_revoked := True\<rparr>]\<rparr>)"
    using auth_step.refresh_claim [of "env0 jwt_none" 1000 with_refresh with_refresh "''tok''" None]
    by (simp add: claim0 exchange_event_def refresh0_def)
  from auth_run.step [OF auth_run.start [of _ _ 0] _ this] show ?thesis by simp
qed

theorem refresh_token_once_witness:
  "snd (refresh (env0 jwt_none) ''tok'' None ''x'' 2000 (with_refresh\<lparr>refreshTokens := [refresh0\<lparr>rt_revoked := True\<rparr>]\<rparr>))
     = Inl invalid_credentials"
proof -
  have k: "auth_keys with_refresh" by (simp add: auth_keys_def with_refresh_tables)
  have "List.find (\<lambda>r. rt_tokenHash r = lib_sha256 (env0 jwt_none) ''tok'') [refresh0\<lparr>rt_revoked := True\<rparr>]
      = Some (refresh0\<lparr>rt_revoked := True\<rparr>)" "find_user ''u'' [user0] = Some user0"
    by (simp_all add: refresh0_def env0_def find_user_def user0_facts)
  then show ?thesis
    using refresh_token_once [OF run_claim0 k, where i = "''r''" and tok = "''tok''" and row = "refresh0\<lparr>rt_revoked := True\<rparr>" and u = user0
        and ip = None and rnd = "''x''" and now = 2000]
    by (simp add: with_refresh_tables refresh0_def)
qed

text \<open>A verification mail whose link is opened twice.\<close>

definition action0 :: jwt_lib where
  "action0 = jwt0 0 (action_claims VERIFY_EMAIL ''j'' None) ''new'' (sign_options (env0 jwt_none) ''u'' 86400)"

lemma parse0: "parseActionToken (env0 action0) 1000 ''T'' VERIFY_EMAIL = Inr (''u'', ''j'', None)"
  by (simp add: parseActionToken_def token_verify_def env0_def action0_def jwt0_def sign_options_def token_kid_def
      CURRENT_KID_def PREVIOUS_KID_def token_secret_def json_get_signed action_claims_def json_str_def show_purpose_def)

lemma verify_run0:
  "\<exists>s. auth_run (env0 action0) signed_in [TokenUsed ''j'' 1000] 1000 s"
proof -
  obtain s where "verifyEmail (env0 action0) ''T'' None 1000 signed_in = (s, Inr True)"
    by (simp add: verifyEmail_def parse0 bindE_def token_transaction_def transaction_def verify_email_tx_def use_token_def
        insert_row_def update_user_def signed_in_def find_user_def user0_facts user_uqs_def used_token_uqs_def unique_on_def
        List.map_filter_def empty_app_def)
  then have "auth_step (env0 action0) 1000 signed_in [TokenUsed ''j'' 1000] s"
    using auth_step.verifyEmail [of "env0 action0" 1000 signed_in "''T''" None] by (simp add: token_event_def parse0)
  from auth_run.step [OF auth_run.start [of _ _ 0] _ this] show ?thesis by auto
qed

theorem action_token_once_witness:
  "\<exists>s s' e. auth_run (env0 action0) signed_in [TokenUsed ''j'' 1000] 1000 s \<and>
     verifyEmail (env0 action0) ''T'' None 2000 s = (s', Inl e) \<and> same_db s' s"
proof -
  obtain s where r: "auth_run (env0 action0) signed_in [TokenUsed ''j'' 1000] 1000 s" using verify_run0 by blast
  have c: "jwt_contract (lib_jwt (env0 action0)) 0 (action_claims VERIFY_EMAIL ''j'' None) (env_jwtSecret (env0 action0))
      (sign_options (env0 action0) ''u'' 86400)"
    using jwt0_contract [of 0 "action_claims VERIFY_EMAIL ''j'' None" "''new''" "sign_options (env0 jwt_none) ''u'' 86400"]
    by (simp add: env0_def action0_def sign_options_def)
  have t: "''T'' = jwt_sign (lib_jwt (env0 action0)) 0 (action_claims VERIFY_EMAIL ''j'' None) (env_jwtSecret (env0 action0))
      (sign_options (env0 action0) ''u'' 86400)" by (simp add: env0_def action0_def jwt0_def)
  let ?h = "verifyEmail (env0 action0) ''T'' None 2000"
  have "\<exists>s' e. ?h s = (s', Inl e) \<and> same_db s' s"
    using action_token_once [OF r _ c t, where now = 2000 and h = ?h and ip = None]
    by (simp add: VERIFY_EMAIL_TTL_SECONDS_def)
  then show ?thesis using r by blast
qed

end
