(* ===== verification/Auth_Login.thy ===== *)
theory Auth_Login
  imports Auth_Flows
begin

text \<open>
  Sign-in: who is admitted, what a refused caller learns, the lockout after repeated wrong
  passwords and how it is lifted, and the boundaries of key rotation and of the second factor.
\<close>

section \<open>The account of an address\<close>

definition users_ok :: "app \<Rightarrow> bool" where
  "users_ok s \<longleftrightarrow> distinct (map usr_id (users s)) \<and> distinct (map usr_email (users s))"

definition account :: "string \<Rightarrow> user \<Rightarrow> app \<Rightarrow> bool" where
  "account email u s \<longleftrightarrow> users_ok s \<and> find_email email (users s) = Some u"

lemma account_user:
  assumes "account email u s"
  shows "u \<in> set (users s)" and "usr_email u = email" and "find_user (usr_id u) (users s) = Some u"
proof -
  have d: "distinct (map usr_id (users s))" and f: "find_email email (users s) = Some u"
    using assms by (simp_all add: account_def users_ok_def)
  show u: "u \<in> set (users s)" "usr_email u = email"
    using f find_Some_iff [of "\<lambda>x. usr_email x = email" "users s" u] by (auto simp: find_email_def)
  show "find_user (usr_id u) (users s) = Some u" unfolding find_user_def
    by (rule find_key [OF d u(1)])
qed

lemma account_unique: "account email u s \<Longrightarrow> account email v s \<Longrightarrow> u = v"
  by (simp add: account_def)

lemma account_same_db: "same_db s' s \<Longrightarrow> account email u s' = account email u s"
  by (simp add: account_def users_ok_def same_db_tables)

text \<open>An update of one user that keeps its id and email.\<close>

lemma account_update:
  assumes "account email u s" and "\<And>x. usr_id (d x) = usr_id x \<and> usr_email (d x) = usr_email x"
  shows "\<exists>s'. update_user (usr_id u) d s = (s', Inr ()) \<and> account email (d u) s'"
proof -
  let ?t = "update_rows (\<lambda>x. usr_id x = usr_id u) d (users s)"
  have m: "map usr_id ?t = map usr_id (users s)" "map usr_email ?t = map usr_email (users s)"
    using assms(2) by (simp_all add: update_rows_def update_many_def)
  have ok: "users_ok s" using assms(1) by (simp add: account_def)
  have k: "check_unique user_uqs ?t = Inr ?t"
    by (rule check_unique_ok) (use ok m in \<open>auto simp: user_uqs_def users_ok_def unique_on_total\<close>)
  have "List.find (\<lambda>x. usr_email x = email) (map f xs) = map_option f (List.find (\<lambda>x. usr_email x = email) xs)"
    if "\<And>x. usr_email (f x) = usr_email x" for f and xs :: "user list"
    using that by (induction xs) simp_all
  from this [of "\<lambda>x. if usr_id x = usr_id u then d x else x" "users s"]
  have "find_email email ?t = Some (d u)"
    using assms by (simp add: find_email_def account_def update_rows_def update_many_def)
  then show ?thesis using account_user(3) [OF assms(1)] k m ok
    by (simp add: update_user_def account_def users_ok_def)
qed

section \<open>Admission\<close>

definition locked_at :: "instant \<Rightarrow> user \<Rightarrow> bool" where
  "locked_at now u = (case usr_lockedUntil u of Some t \<Rightarrow> t > now | None \<Rightarrow> False)"

definition admitted :: "auth_env \<Rightarrow> string \<Rightarrow> instant \<Rightarrow> user \<Rightarrow> bool" where
  "admitted env pw now u \<longleftrightarrow> lib_bcrypt_compare env pw (usr_passwordHash u) \<and> usr_deletedAt u = None \<and>
     usr_isActive u \<and> \<not> locked_at now u \<and> usr_emailVerifiedAt u \<noteq> None"

lemma failed_update_keeps: "usr_id (failed_update b n t x) = usr_id x \<and> usr_email (failed_update b n t x) = usr_email x"
  by (simp add: failed_update_def)

definition lock_until :: "auth_env \<Rightarrow> int \<Rightarrow> instant \<Rightarrow> int \<Rightarrow> instant option" where
  "lock_until env tries now d = (if tries \<ge> env_maxLoginAttempts env then Some (now + d * 1000) else None)"

lemma wrong_password:
  assumes "account email u s" and "\<not> lib_bcrypt_compare env pw (usr_passwordHash u)"
    and "parseDurationSeconds (env_loginLockoutDuration env) = Inr d"
  shows "\<exists>s'. login env (users s) email pw ip ua rnd now s = (s', Inl invalid_credentials) \<and>
    sessions s' = sessions s \<and> refreshTokens s' = refreshTokens s \<and>
    account email (failed_update (usr_failedLoginAttempts u + 1 \<ge> env_maxLoginAttempts env)
      (usr_failedLoginAttempts u + 1) (lock_until env (usr_failedLoginAttempts u + 1) now d) u) s'"
proof -
  let ?n = "usr_failedLoginAttempts u + 1"
  let ?d = "failed_update (?n \<ge> env_maxLoginAttempts env) ?n (lock_until env ?n now d)"
  obtain s1 where s1: "update_user (usr_id u) ?d s = (s1, Inr ())" "account email (?d u) s1"
    using account_update [OF assms(1), of ?d] failed_update_keeps by blast
  have t: "sessions s1 = sessions s" "refreshTokens s1 = refreshTokens s"
    using s1(1) by (auto simp: update_user_def split: if_splits sum.splits)
  have r: "\<exists>s2. registerFailedAttempt env u ip now s = (s2, Inr ()) \<and> same_db s2 s1"
    using s1(1) assms(3) same_db_trans [OF record_audit_same_db same_db_trans [OF same_db_notify record_audit_same_db]]
    by (auto simp: registerFailedAttempt_def lock_until_def Let_def bindE_def)
  then obtain s2 where s2: "registerFailedAttempt env u ip now s = (s2, Inr ())" "same_db s2 s1" by blast
  have "login env (users s) email pw ip ua rnd now s = (s2, Inl invalid_credentials)"
    using assms(1,2) s2(1) by (simp add: login_def account_def bindE_def throwE_def)
  then show ?thesis using s1(2) t s2(2) account_same_db same_db_tables(2,3) by auto
qed

lemma refuse_login_effect [simp]:
  "snd (refuse_login env u tpl subj body ev ip dt s) = Inl invalid_credentials"
  "sessions (fst (refuse_login env u tpl subj body ev ip dt s)) = sessions s"
  "refreshTokens (fst (refuse_login env u tpl subj body ev ip dt s)) = refreshTokens s"
proof -
  have "same_db (fst (refuse_login env u tpl subj body ev ip dt s)) s"
    using same_db_trans [OF record_audit_same_db same_db_notify] by (simp add: refuse_login_def)
  then show "sessions (fst (refuse_login env u tpl subj body ev ip dt s)) = sessions s"
    "refreshTokens (fst (refuse_login env u tpl subj body ev ip dt s)) = refreshTokens s"
    using same_db_tables(2,3) by simp_all
qed (simp add: refuse_login_def)

lemma refused_login:
  assumes "account email u s" and "\<not> admitted env pw now u"
    and "parseDurationSeconds (env_loginLockoutDuration env) = Inr d"
  shows "snd (login env (users s) email pw ip ua rnd now s) = Inl invalid_credentials \<and>
    sessions (fst (login env (users s) email pw ip ua rnd now s)) = sessions s \<and>
    refreshTokens (fst (login env (users s) email pw ip ua rnd now s)) = refreshTokens s"
proof (cases "lib_bcrypt_compare env pw (usr_passwordHash u)")
  case False
  from wrong_password [OF assms(1) this assms(3), of ip ua rnd now] show ?thesis by auto
next
  case True
  have f: "find_email email (users s) = Some u" using assms(1) by (simp add: account_def)
  consider "usr_deletedAt u \<noteq> None \<or> \<not> usr_isActive u" | "\<not> (usr_deletedAt u \<noteq> None \<or> \<not> usr_isActive u)" "locked_at now u"
    | "\<not> (usr_deletedAt u \<noteq> None \<or> \<not> usr_isActive u)" "\<not> locked_at now u" "usr_emailVerifiedAt u = None"
    using assms(2) True unfolding admitted_def by argo
  then show ?thesis by cases (simp_all add: login_def f True locked_at_def)
qed

lemma admitted_login:
  assumes "account email u s" and "admitted env pw now u"
  shows "login env (users s) email pw ip ua rnd now s = complete_login env u ip ua rnd now s"
  using assms by (auto simp: login_def account_def admitted_def locked_at_def)
lemma issueSession_ok:
  assumes "find_user uid (users s) = Some u"
    and "\<forall>x \<in> set (sessions s). ses_id x \<noteq> uuid_src s (uuid_ctr s)" and "distinct (map ses_id (sessions s))"
    and "\<forall>r \<in> set (refreshTokens s). rt_id r \<noteq> uuid_src s (Suc (uuid_ctr s)) \<and> rt_tokenHash r \<noteq> lib_sha256 env rnd"
    and "distinct (map rt_id (refreshTokens s))" and "distinct (map rt_tokenHash (refreshTokens s))"
  shows "\<exists>acc s'. issueSession env uid ip ua rnd now s =
      (s', Inr \<lparr> stk_accessToken = acc, stk_refreshToken = rnd, stk_sessionId = uuid_src s (uuid_ctr s) \<rparr>) \<and>
    sessions s' = sessions s @ [\<lparr> ses_id = uuid_src s (uuid_ctr s), ses_userId = uid, ses_ip = ip, ses_userAgent = ua,
      ses_revoked = False, ses_lastActiveAt = now, ses_expiresAt = now + refreshTtlSeconds env * 1000, ses_createdAt = now \<rparr>] \<and>
    (\<exists>r \<in> set (refreshTokens s'). rt_tokenHash r = lib_sha256 env rnd \<and> rt_userId r = uid \<and> \<not> rt_revoked r \<and>
       rt_sessionId r = uuid_src s (uuid_ctr s) \<and> rt_expiresAt r = now + refreshTtlSeconds env * 1000)"
proof -
  have i: "insert_row session_uqs x (sessions s) = Inr (sessions s @ [x])" if "ses_id x = uuid_src s (uuid_ctr s)" for x
    unfolding insert_row_def by (rule check_unique_ok) (use assms(2,3) that in \<open>auto simp: session_uqs_def unique_on_total\<close>)
  have j: "insert_row refresh_uqs r (refreshTokens s) = Inr (refreshTokens s @ [r])"
    if "rt_id r = uuid_src s (Suc (uuid_ctr s))" "rt_tokenHash r = lib_sha256 env rnd" for r
    unfolding insert_row_def by (rule check_unique_ok) (use assms(4-6) that in \<open>auto simp: refresh_uqs_def unique_on_total\<close>)
  show ?thesis
    by (simp add: issueSession_def assms(1) bindE_def transaction_def create_session_def create_refresh_def fresh_uuid_def i j
        returnE_def signAccessToken_def Let_def)
qed

lemma mfa_login:
  assumes "has_totp (usr_id u) s \<noteq> None"
  shows "\<exists>v s'. complete_login env u ip ua rnd now s = (s', Inr v) \<and> lgr_mfaRequired v \<and> lgr_tokens v = None \<and> same_db s' s"
proof -
  let ?s1 = "record_audit (Some (usr_id u)) ''login'' ip True (Some ''mfa_pending'') s"
  obtain tok s2 where t: "signMfaPendingToken env (usr_id u) now ?s1 = (tok, s2)" by fastforce
  have "same_db s2 ?s1" using t by (auto simp: signMfaPendingToken_def fresh_uuid_def)
  then have "same_db s2 s" using same_db_trans record_audit_same_db by blast
  then show ?thesis using assms t by (simp add: complete_login_def)
qed

lemma session_login:
  assumes "has_totp (usr_id u) s = None" and "issueSession env (usr_id u) ip ua rnd now s = (s1, Inr tk)"
  shows "\<exists>v s'. complete_login env u ip ua rnd now s = (s', Inr v) \<and> \<not> lgr_mfaRequired v \<and> lgr_tokens v = Some tk \<and> same_db s' s1"
  using assms same_db_trans [OF record_audit_same_db same_db_alert] by (simp add: complete_login_def bindE_def)

text \<open>
  C10: Sign-in admits exactly the right people and tells the others nothing. An unknown address, a
  wrong password, a disabled, locked or unverified account all get the same error and no
  session. An admitted user with a second factor gets only an MFA token and no session; without one, a fresh
  session of this user, live for the refresh lifetime, with a refresh token of which only the hash is stored.
\<close>

theorem login_decides:
  assumes "users_ok s" and "parseDurationSeconds (env_loginLockoutDuration env) = Inr d"
    and "fresh_for (map ses_id (sessions s) @ map rt_id (refreshTokens s)) s" and "auth_keys s"
    and "lib_sha256 env rnd \<notin> rt_tokenHash ` set (refreshTokens s)"
    and "login env (users s) email pw ip ua rnd now s = (s', r)"
  shows "case find_email email (users s) of
      Some u \<Rightarrow>
        if \<not> admitted env pw now u
        then r = Inl invalid_credentials \<and> sessions s' = sessions s \<and> refreshTokens s' = refreshTokens s
        else if has_totp (usr_id u) s \<noteq> None
        then (\<exists>v. r = Inr v \<and> lgr_mfaRequired v \<and> lgr_tokens v = None) \<and>
          sessions s' = sessions s \<and> refreshTokens s' = refreshTokens s
        else (\<exists>v tk x q. r = Inr v \<and> \<not> lgr_mfaRequired v \<and> lgr_tokens v = Some tk \<and> stk_refreshToken tk = rnd \<and>
          sessions s' = sessions s @ [x] \<and> ses_id x = stk_sessionId tk \<and> ses_userId x = usr_id u \<and> \<not> ses_revoked x \<and>
          ses_expiresAt x = now + refreshTtlSeconds env * 1000 \<and> q \<in> set (refreshTokens s') \<and>
          rt_tokenHash q = lib_sha256 env rnd \<and> rt_userId q = usr_id u \<and> \<not> rt_revoked q)
    | None \<Rightarrow> r = Inl invalid_credentials \<and> sessions s' = sessions s \<and> refreshTokens s' = refreshTokens s"
proof (cases "find_email email (users s)")
  case None
  then show ?thesis using assms(6) same_db_tables(2,3) [OF record_audit_same_db] by (auto simp: login_def)
next
  case (Some u)
  then have a: "account email u s" using assms(1) by (simp add: account_def)
  consider "\<not> admitted env pw now u" | "admitted env pw now u" "has_totp (usr_id u) s \<noteq> None"
    | "admitted env pw now u" "has_totp (usr_id u) s = None" by blast
  then show ?thesis
  proof cases
    case 1
    then show ?thesis using refused_login [OF a 1 assms(2), of ip ua rnd] assms(6) Some by simp
  next
    case 2
    obtain v where "r = Inr v" "lgr_mfaRequired v" "lgr_tokens v = None" "same_db s' s"
      using mfa_login [OF 2(2), of env ip ua rnd now] admitted_login [OF a 2(1), of ip ua rnd] assms(6) by auto
    then show ?thesis using 2 Some same_db_tables(2,3) by simp
  next
    case 3
    have n: "uuid_src s (uuid_ctr s) \<notin> ses_id ` set (sessions s)" "uuid_src s (Suc (uuid_ctr s)) \<notin> rt_id ` set (refreshTokens s)"
      using assms(3) by (simp_all add: fresh_for_def)
    have f: "\<forall>x \<in> set (sessions s). ses_id x \<noteq> uuid_src s (uuid_ctr s)"
      "\<forall>q \<in> set (refreshTokens s). rt_id q \<noteq> uuid_src s (Suc (uuid_ctr s)) \<and> rt_tokenHash q \<noteq> lib_sha256 env rnd"
      using n assms(5) by force+
    obtain acc s1 q where i: "issueSession env (usr_id u) ip ua rnd now s =
        (s1, Inr \<lparr> stk_accessToken = acc, stk_refreshToken = rnd, stk_sessionId = uuid_src s (uuid_ctr s) \<rparr>)"
      "sessions s1 = sessions s @ [\<lparr> ses_id = uuid_src s (uuid_ctr s), ses_userId = usr_id u, ses_ip = ip, ses_userAgent = ua,
        ses_revoked = False, ses_lastActiveAt = now, ses_expiresAt = now + refreshTtlSeconds env * 1000, ses_createdAt = now \<rparr>]"
      "q \<in> set (refreshTokens s1)" "rt_tokenHash q = lib_sha256 env rnd" "rt_userId q = usr_id u" "\<not> rt_revoked q"
      using issueSession_ok [OF account_user(3) [OF a] f(1) _ f(2), of ip ua now] assms(4) by (auto simp: auth_keys_def)
    obtain v where v: "r = Inr v" "\<not> lgr_mfaRequired v" "same_db s' s1"
        "lgr_tokens v = Some \<lparr> stk_accessToken = acc, stk_refreshToken = rnd, stk_sessionId = uuid_src s (uuid_ctr s) \<rparr>"
      using session_login [OF 3(2) i(1)] admitted_login [OF a 3(1), of ip ua rnd] assms(6) by auto
    show ?thesis using 3 Some v i(2-) same_db_tables(2,3) [OF v(3)] by auto
  qed
qed

section \<open>Lockout\<close>

fun wrong_logins ::
  "auth_env \<Rightarrow> string \<Rightarrow> string option \<Rightarrow> string option \<Rightarrow> string \<Rightarrow> (string \<times> instant) list \<Rightarrow> app \<Rightarrow> app" where
  "wrong_logins env email ip ua rnd [] s = s"
| "wrong_logins env email ip ua rnd ((pw, now) # gs) s =
     wrong_logins env email ip ua rnd gs (fst (login env (users s) email pw ip ua rnd now s))"

lemma wrong_login_step:
  assumes "account email u s" and "\<not> lib_bcrypt_compare env pw (usr_passwordHash u)"
    and "parseDurationSeconds (env_loginLockoutDuration env) = Inr d"
  shows "account email (failed_update (usr_failedLoginAttempts u + 1 \<ge> env_maxLoginAttempts env)
      (usr_failedLoginAttempts u + 1) (lock_until env (usr_failedLoginAttempts u + 1) now d) u)
      (fst (login env (users s) email pw ip ua rnd now s))"
  using wrong_password [OF assms, of ip ua rnd now] by auto

lemma wrong_logins_lock:
  "account email u s \<Longrightarrow> parseDurationSeconds (env_loginLockoutDuration env) = Inr d \<Longrightarrow>
   usr_failedLoginAttempts u + int (length gs) = env_maxLoginAttempts env \<Longrightarrow> gs \<noteq> [] \<Longrightarrow>
   \<forall>g \<in> set gs. \<not> lib_bcrypt_compare env (fst g) (usr_passwordHash u) \<Longrightarrow>
   \<exists>v. account email v (wrong_logins env email ip ua rnd gs s) \<and> usr_lockedUntil v = Some (snd (last gs) + d * 1000) \<and>
     usr_failedLoginAttempts v = 0 \<and> usr_passwordHash v = usr_passwordHash u"
proof (induction gs arbitrary: u s)
  case (Cons g gs)
  obtain pw now where g: "g = (pw, now)" by fastforce
  let ?n = "usr_failedLoginAttempts u + 1"
  let ?v = "failed_update (?n \<ge> env_maxLoginAttempts env) ?n (lock_until env ?n now d) u"
  have a: "account email ?v (fst (login env (users s) email pw ip ua rnd now s))"
    by (rule wrong_login_step) (use Cons.prems g in auto)
  show ?case
  proof (cases "gs = []")
    case True
    then have "?n \<ge> env_maxLoginAttempts env" using Cons.prems(3) by simp
    then show ?thesis using a True g by (auto simp: failed_update_def lock_until_def)
  next
    case False
    then have "\<not> ?n \<ge> env_maxLoginAttempts env" using Cons.prems(3) by (cases gs) simp_all
    then have v: "usr_failedLoginAttempts ?v = ?n" "usr_passwordHash ?v = usr_passwordHash u" by (simp_all add: failed_update_def)
    have "\<exists>w. account email w (wrong_logins env email ip ua rnd gs (fst (login env (users s) email pw ip ua rnd now s))) \<and>
        usr_lockedUntil w = Some (snd (last gs) + d * 1000) \<and> usr_failedLoginAttempts w = 0 \<and> usr_passwordHash w = usr_passwordHash ?v"
      by (rule Cons.IH [OF a Cons.prems(2) _ False]) (use v Cons.prems in auto)
    then show ?thesis using g False v(2) by auto
  qed
qed simp

text \<open>
  After as many wrong passwords in a row as the configured limit, the account is locked for the
  configured time from the last of them, and during that time even the right password is
  refused, with the same error as a wrong one and without a session.
\<close>

theorem login_lockout:
  assumes "account email u s" and "usr_failedLoginAttempts u = 0"
    and "parseDurationSeconds (env_loginLockoutDuration env) = Inr d"
    and "int (length gs) = env_maxLoginAttempts env" and "gs \<noteq> []"
    and "\<forall>g \<in> set gs. \<not> lib_bcrypt_compare env (fst g) (usr_passwordHash u)"
    and "s' = wrong_logins env email ip ua rnd gs s" and "now < snd (last gs) + d * 1000"
  shows "snd (login env (users s') email pw ip' ua' rnd' now s') = Inl invalid_credentials \<and>
    sessions (fst (login env (users s') email pw ip' ua' rnd' now s')) = sessions s'"
proof -
  obtain v where v: "account email v s'" "usr_lockedUntil v = Some (snd (last gs) + d * 1000)"
    using wrong_logins_lock [OF assms(1,3) _ assms(5,6), of ip ua rnd] assms(2,4,7) by auto
  have "\<not> admitted env pw now v" using v(2) assms(8) by (simp add: admitted_def locked_at_def)
  then show ?thesis using refused_login [OF v(1) _ assms(3)] by blast
qed

text \<open>
  The lock does not hold against the guesser: one more wrong password while the account is
  locked starts the count again and removes the lock, so that the right password is admitted at once.
\<close>

theorem wrong_password_lifts_lock:
  assumes "account email u s" and "usr_failedLoginAttempts u = 0" and "usr_lockedUntil u = Some until" and "now < until"
    and "1 < env_maxLoginAttempts env" and "parseDurationSeconds (env_loginLockoutDuration env) = Inr d"
    and "\<not> lib_bcrypt_compare env wrong (usr_passwordHash u)" and "lib_bcrypt_compare env right (usr_passwordHash u)"
    and "usr_deletedAt u = None" and "usr_isActive u" and "usr_emailVerifiedAt u \<noteq> None"
  shows "\<not> admitted env right now u \<and>
    (\<exists>v. account email v (fst (login env (users s) email wrong ip ua rnd now s)) \<and> admitted env right now v)"
proof -
  have "account email (failed_update False 1 None u) (fst (login env (users s) email wrong ip ua rnd now s))"
    using wrong_login_step [OF assms(1,7,6), of now ip ua rnd] assms(2,5) by (simp add: lock_until_def)
  moreover have "admitted env right now (failed_update False 1 None u)"
    using assms by (auto simp: admitted_def locked_at_def failed_update_def)
  ultimately show ?thesis using assms(3,4) by (auto simp: admitted_def locked_at_def)
qed

text \<open>
  Guesses that run in parallel read the same row: each writes the same count, so that any
  number of them counts as one.
\<close>

theorem parallel_guesses_count_once:
  assumes "account email u s" and "usr_failedLoginAttempts u + 1 < env_maxLoginAttempts env"
    and "\<not> lib_bcrypt_compare env pw1 (usr_passwordHash u)" and "\<not> lib_bcrypt_compare env pw2 (usr_passwordHash u)"
  shows "\<exists>v. account email v (fst (login env (users s) email pw2 ip ua rnd now (fst (login env (users s) email pw1 ip ua rnd now s)))) \<and>
    usr_failedLoginAttempts v = usr_failedLoginAttempts u + 1"
proof -
  let ?d = "failed_update False (usr_failedLoginAttempts u + 1) None"
  have step: "account email (?d w) (fst (login env (users s) email pw ip ua rnd now t))"
    if w: "account email w t" "usr_id w = usr_id u" "\<not> lib_bcrypt_compare env pw (usr_passwordHash u)" for w t pw
  proof -
    obtain t' where t': "update_user (usr_id w) ?d t = (t', Inr ())" "account email (?d w) t'"
      using account_update [OF w(1), of ?d] failed_update_keeps by blast
    have "login env (users s) email pw ip ua rnd now t = (record_audit (Some (usr_id u)) ''login_failed'' ip False None t', Inl invalid_credentials)"
      using assms(1,2) w(2,3) t'(1) by (simp add: login_def account_def registerFailedAttempt_def bindE_def throwE_def)
    then show ?thesis using t'(2) account_same_db [OF record_audit_same_db] by simp
  qed
  have "account email (?d (?d u)) (fst (login env (users s) email pw2 ip ua rnd now (fst (login env (users s) email pw1 ip ua rnd now s))))"
    by (rule step [OF step [OF assms(1)]]) (use assms(3,4) in \<open>simp_all add: failed_update_def\<close>)
  then show ?thesis by (auto simp: failed_update_def)
qed

section \<open>Key rotation\<close>

text \<open>
  Rotating the signing secret: the old secret becomes \<^verbatim>\<open>JWT_SECRET_PREVIOUS\<close>. Tokens signed before
  carry the key id "current" in their header, so they are checked with the new secret and
  refused; the previous secret is never tried for any token the service signed.
\<close>

definition rotate_secret :: "auth_env \<Rightarrow> string \<Rightarrow> auth_env" where
  "rotate_secret env new = env\<lparr>env_jwtSecret := new, env_jwtSecretPrevious := Some (env_jwtSecret env)\<rparr>"

theorem rotation_refuses_issued_tokens:
  assumes "jwt_contract (lib_jwt env) t0 kvs (env_jwtSecret env) (sign_options env uid ttl)" and "new \<noteq> env_jwtSecret env"
  shows "token_verify (rotate_secret env new) now (jwt_sign (lib_jwt env) t0 kvs (env_jwtSecret env) (sign_options env uid ttl)) ty
    = Inl (OtherError ''jwt verification failed'')"
  using assms by (simp add: token_verify_def rotate_secret_def jwt_contract_def Let_def sign_options_def token_kid_def
      token_secret_def CURRENT_KID_def PREVIOUS_KID_def)

section \<open>The second factor\<close>

text \<open>A user with a second factor cannot ask for a change of email: the request has no field for the code.\<close>

theorem change_email_impossible_with_totp:
  assumes "find_user uid (users s) = Some u" and "has_totp (usr_id u) s \<noteq> None"
  shows "\<exists>e. requestChangeEmail env uid pw email ip now s = (s, Inl e)"
  using assms by (auto simp: requestChangeEmail_def bindE_def confirm_user_def verifySensitiveCredentials_def)

text \<open>
  A recovery code is not claimed atomically: two requests that read the table before either
  has written are both let through with the same code.
\<close>

theorem recovery_code_race:
  assumes "length code = 8" and "c \<in> set (recoveryCodes s)" and "rc_userId c = uid"
    and "rc_codeHash c = lib_sha256 env code" and "rc_usedAt c = None"
  shows "fst (use_recovery_code env (recoveryCodes s) uid code t1 s) \<and>
    fst (use_recovery_code env (recoveryCodes s) uid code t2 (snd (use_recovery_code env (recoveryCodes s) uid code t1 s)))"
proof -
  have "List.find (\<lambda>c. rc_userId c = uid \<and> rc_codeHash c = lib_sha256 env code \<and> rc_usedAt c = None) (recoveryCodes s) \<noteq> None"
    using assms(2-) by (auto simp: find_None_iff)
  then show ?thesis using assms(1) by (auto simp: use_recovery_code_def)
qed

section \<open>Witnesses\<close>

lemma account0: "account ''a@b.c'' user0 signed_in"
  by (simp add: account_def users_ok_def signed_in_def find_email_def user0_facts)

lemma duration0: "parseDurationSeconds (env_loginLockoutDuration (env0 jwt_none)) = Inr 900"
  by (simp add: env0_def) code_simp

lemma sid_not_nat: "show_nat n \<noteq> ''sid''"
  using show_nat_digits [of n] by (auto simp: is_digit_def char_code_def)

theorem login_decides_witness:
  "\<exists>v tk x s'. login (env0 jwt_none) (users signed_in) ''a@b.c'' ''secret123'' None None ''rnd'' 5000 signed_in = (s', Inr v) \<and>
     lgr_tokens v = Some tk \<and> sessions s' = [session0, x] \<and> ses_userId x = ''u'' \<and> \<not> ses_revoked x"
proof -
  obtain s' r where l: "login (env0 jwt_none) (users signed_in) ''a@b.c'' ''secret123'' None None ''rnd'' 5000 signed_in = (s', r)"
    by fastforce
  have t: "users signed_in = [user0]" "sessions signed_in = [session0]" "refreshTokens signed_in = []"
    "totpCredentials signed_in = []" "uuid_src signed_in = show_nat"
    by (simp_all add: signed_in_def empty_app_def)
  have ok: "users_ok signed_in" and e: "find_email ''a@b.c'' (users signed_in) = Some user0"
    using account0 by (simp_all add: account_def)
  have f: "fresh_for (map ses_id (sessions signed_in) @ map rt_id (refreshTokens signed_in)) signed_in"
    using sid_not_nat by (auto simp: fresh_for_def t session0_def inj_def)
  have a: "admitted (env0 jwt_none) ''secret123'' 5000 user0"
    by (simp add: admitted_def locked_at_def env0_def user0_def new_user_def)
  have k: "auth_keys signed_in" by (simp add: auth_keys_def t)
  have h: "has_totp (usr_id user0) signed_in = None" by (simp add: has_totp_def t)
  show ?thesis using login_decides [OF ok duration0 f k _ l] l e a h by (auto simp: t user0_facts)
qed

theorem login_lockout_witness:
  "snd (login (env0 jwt_none) (users (wrong_logins (env0 jwt_none) ''a@b.c'' None None [] [(''x'', 0), (''y'', 1), (''z'', 2)] signed_in))
     ''a@b.c'' ''secret123'' None None [] 800000
     (wrong_logins (env0 jwt_none) ''a@b.c'' None None [] [(''x'', 0), (''y'', 1), (''z'', 2)] signed_in)) = Inl invalid_credentials"
proof -
  have "usr_failedLoginAttempts user0 = 0" by (simp add: user0_def new_user_def)
  from login_lockout [OF account0 this duration0 _ _ _ refl, where gs = "[(''x'', 0), (''y'', 1), (''z'', 2)]" and now = 800000
      and pw = "''secret123''" and ip = None and ua = None and rnd = "[]" and ip' = None and ua' = None and rnd' = "[]"]
  show ?thesis by (simp add: env0_def user0_def new_user_def)
qed

end
