(* ===== verification/Tables.thy ===== *)
theory Tables
  imports Audit_Log Handlers
begin

text \<open>
  Row creation and update for the smaller services. A table is a pair of a reader and a writer on
  the application state (the locale \<open>table\<close>); \<open>create_in\<close> is Prisma's \<^verbatim>\<open>create\<close> with a generated
  id, \<open>update_in\<close> its \<^verbatim>\<open>update\<close>, \<open>delete_in\<close> its \<^verbatim>\<open>delete\<close> by a key. The lemmas of the locale say what a success and
  what a failure leave behind, once for all tables.
\<close>

section \<open>Operations\<close>

definition create_in ::
  "('r, 'k) uq list \<Rightarrow> (app \<Rightarrow> 'r list) \<Rightarrow> ('r list \<Rightarrow> app \<Rightarrow> app) \<Rightarrow> (uuid \<Rightarrow> 'r) \<Rightarrow> app \<Rightarrow> app \<times> 'r res" where
  "create_in uqs get put mk s = (let (i, s') = fresh_uuid s in
     case insert_row uqs (mk i) (get s') of
       Inl e \<Rightarrow> (s', Inl e)
     | Inr t \<Rightarrow> (put t s', Inr (mk i)))"

text \<open>\<^verbatim>\<open>update\<close> of the row with the given key; the row read back is returned.\<close>

definition update_in ::
  "('r, 'k) uq list \<Rightarrow> (app \<Rightarrow> 'r list) \<Rightarrow> ('r list \<Rightarrow> app \<Rightarrow> app) \<Rightarrow> ('r \<Rightarrow> bool) \<Rightarrow> ('r \<Rightarrow> 'r) \<Rightarrow> app \<Rightarrow> app \<times> 'r res" where
  "update_in uqs get put w d s = (case List.find w (get s) of
       None \<Rightarrow> (s, Inl P2025)
     | Some r \<Rightarrow> (case check_unique uqs (update_rows w d (get s)) of
           Inl e \<Rightarrow> (s, Inl e)
         | Inr t \<Rightarrow> (put t s, Inr (d r))))"

definition delete_in :: "(app \<Rightarrow> 'r list) \<Rightarrow> ('r list \<Rightarrow> app \<Rightarrow> app) \<Rightarrow> ('r \<Rightarrow> bool) \<Rightarrow> app \<Rightarrow> app \<times> unit res" where
  "delete_in get put w s = (case List.find w (get s) of
       None \<Rightarrow> (s, Inl P2025)
     | Some _ \<Rightarrow> (put (delete_rows w (get s)) s, Inr ()))"

text \<open>An audit entry without an address, as most services write it.\<close>

definition audited :: "uuid option \<Rightarrow> string \<Rightarrow> string \<Rightarrow> app \<Rightarrow> app" where
  "audited userId event detail s = record_audit userId event None True (Some detail) s"

lemma same_db_audited [simp]: "same_db (audited u e d s) s"
  by (simp add: audited_def)

section \<open>Tables\<close>

locale table =
  fixes get :: "app \<Rightarrow> 'r list" and put :: "'r list \<Rightarrow> app \<Rightarrow> app"
  assumes get_put: "get (put t s) = t"
    and get_db: "same_db s s' \<Longrightarrow> get s = get s'"
begin

lemma get_ctr: "get (s\<lparr>uuid_ctr := n\<rparr>) = get s"
  by (rule get_db) simp

lemma create_cases:
  assumes "create_in uqs get put mk s = (s', r)"
  obtains (fail) e where "r = Inl e" "same_db s' s"
    | (ok) i where "r = Inr (mk i)" "i = uuid_src s (uuid_ctr s)" "s' = put (get s @ [mk i]) (s\<lparr>uuid_ctr := Suc (uuid_ctr s)\<rparr>)"
        "get s' = get s @ [mk i]" "\<forall>u \<in> set uqs. unique_on (snd u) (get s @ [mk i])"
proof (cases "insert_row uqs (mk (uuid_src s (uuid_ctr s))) (get s)")
  case (Inl e)
  then show thesis using fail assms by (auto simp: create_in_def fresh_uuid_def get_ctr)
next
  case (Inr t)
  then have "t = get s @ [mk (uuid_src s (uuid_ctr s))]" "\<forall>u \<in> set uqs. unique_on (snd u) t"
    using check_unique_Inr [of uqs "get s @ [mk (uuid_src s (uuid_ctr s))]" t] by (simp_all add: insert_row_def)
  then show thesis using Inr ok assms by (auto simp: create_in_def fresh_uuid_def get_ctr get_put)
qed

lemma create_Inr:
  assumes "create_in uqs get put mk s = (s', Inr row)"
  shows "row = mk (uuid_src s (uuid_ctr s))" and "get s' = get s @ [row]"
    and "s' = put (get s @ [row]) (s\<lparr>uuid_ctr := Suc (uuid_ctr s)\<rparr>)"
    and "\<forall>u \<in> set uqs. unique_on (snd u) (get s @ [row])"
  using assms by (rule create_cases; simp)+

lemma update_cases:
  assumes "update_in uqs get put w d s = (s', r)"
  obtains (fail) e where "r = Inl e" "s' = s"
    | (ok) x where "List.find w (get s) = Some x" "r = Inr (d x)" "s' = put (update_rows w d (get s)) s"
        "get s' = update_rows w d (get s)" "\<forall>u \<in> set uqs. unique_on (snd u) (get s')"
proof (cases "List.find w (get s)")
  case None
  then show thesis using fail assms by (auto simp: update_in_def)
next
  case (Some x)
  show thesis
  proof (cases "check_unique uqs (update_rows w d (get s))")
    case (Inl e)
    then show thesis using fail assms Some by (auto simp: update_in_def)
  next
    case (Inr t)
    then have "t = update_rows w d (get s)" "\<forall>u \<in> set uqs. unique_on (snd u) t" using check_unique_Inr by blast+
    then show thesis using ok Some Inr assms by (auto simp: update_in_def get_put)
  qed
qed

lemma delete_Inr:
  assumes "delete_in get put w s = (s', Inr u)"
  shows "get s' = delete_rows w (get s)" and "s' = put (delete_rows w (get s)) s"
  using assms by (auto simp: delete_in_def get_put split: option.splits)

end

section \<open>The tables of the small services\<close>

abbreviation put_ranks :: "belt_rank list \<Rightarrow> app \<Rightarrow> app" where "put_ranks t s \<equiv> s\<lparr>beltRanks := t\<rparr>"
abbreviation put_students :: "student_profile list \<Rightarrow> app \<Rightarrow> app" where "put_students t s \<equiv> s\<lparr>students := t\<rparr>"
abbreviation put_links :: "parent_link list \<Rightarrow> app \<Rightarrow> app" where "put_links t s \<equiv> s\<lparr>parentLinks := t\<rparr>"
abbreviation put_classes :: "class_row list \<Rightarrow> app \<Rightarrow> app" where "put_classes t s \<equiv> s\<lparr>classes := t\<rparr>"
abbreviation put_schedules :: "class_schedule list \<Rightarrow> app \<Rightarrow> app" where "put_schedules t s \<equiv> s\<lparr>schedules := t\<rparr>"
abbreviation put_enrollments :: "enrollment list \<Rightarrow> app \<Rightarrow> app" where "put_enrollments t s \<equiv> s\<lparr>enrollments := t\<rparr>"
abbreviation put_exams :: "belt_exam list \<Rightarrow> app \<Rightarrow> app" where "put_exams t s \<equiv> s\<lparr>beltExams := t\<rparr>"
abbreviation put_regs :: "exam_registration list \<Rightarrow> app \<Rightarrow> app" where "put_regs t s \<equiv> s\<lparr>examRegistrations := t\<rparr>"
abbreviation put_asessions :: "attendance_session list \<Rightarrow> app \<Rightarrow> app" where "put_asessions t s \<equiv> s\<lparr>attendanceSessions := t\<rparr>"
abbreviation put_records :: "attendance_record list \<Rightarrow> app \<Rightarrow> app" where "put_records t s \<equiv> s\<lparr>attendanceRecords := t\<rparr>"
abbreviation put_leaves :: "leave_request list \<Rightarrow> app \<Rightarrow> app" where "put_leaves t s \<equiv> s\<lparr>leaveRequests := t\<rparr>"
abbreviation put_proposals :: "promotion_proposal list \<Rightarrow> app \<Rightarrow> app" where "put_proposals t s \<equiv> s\<lparr>proposals := t\<rparr>"
abbreviation put_evaluations :: "student_evaluation list \<Rightarrow> app \<Rightarrow> app" where "put_evaluations t s \<equiv> s\<lparr>evaluations := t\<rparr>"
abbreviation put_consents :: "consent_log list \<Rightarrow> app \<Rightarrow> app" where "put_consents t s \<equiv> s\<lparr>consents := t\<rparr>"
abbreviation put_announcements :: "announcement list \<Rightarrow> app \<Rightarrow> app" where "put_announcements t s \<equiv> s\<lparr>announcements := t\<rparr>"

interpretation ranks: table beltRanks put_ranks by unfold_locales (simp_all add: same_db_tables)
interpretation profiles: table students put_students by unfold_locales (simp_all add: same_db_tables)
interpretation links: table parentLinks put_links by unfold_locales (simp_all add: same_db_tables)
interpretation class_rows: table classes put_classes by unfold_locales (simp_all add: same_db_tables)
interpretation slots: table schedules put_schedules by unfold_locales (simp_all add: same_db_tables)
interpretation enrolled: table enrollments put_enrollments by unfold_locales (simp_all add: same_db_tables)
interpretation exam_rows: table beltExams put_exams by unfold_locales (simp_all add: same_db_tables)
interpretation regs: table examRegistrations put_regs by unfold_locales (simp_all add: same_db_tables)
interpretation lessons: table attendanceSessions put_asessions by unfold_locales (simp_all add: same_db_tables)
interpretation marks: table attendanceRecords put_records by unfold_locales (simp_all add: same_db_tables)
interpretation leave_rows: table leaveRequests put_leaves by unfold_locales (simp_all add: same_db_tables)
interpretation proposal_rows: table proposals put_proposals by unfold_locales (simp_all add: same_db_tables)
interpretation evaluation_rows: table evaluations put_evaluations by unfold_locales (simp_all add: same_db_tables)
interpretation consent_rows: table consents put_consents by unfold_locales (simp_all add: same_db_tables)
interpretation notices: table announcements put_announcements by unfold_locales (simp_all add: same_db_tables)

end
