(* ===== verification/Students.thy ===== *)
theory Students
  imports Tables Ownership
begin

text \<open>
  \<^verbatim>\<open>src/students/students.service.ts\<close>, \<^verbatim>\<open>serialize-student.ts\<close> and \<^verbatim>\<open>src/parents/parents.service.ts\<close>: student
  profiles, what each role sees of them, and the single-use invite code by which a parent is
  linked to a child. Random bytes are arguments. The main result: in every interleaving an invite code is used
  for at most one link.
\<close>

section \<open>Serialization\<close>

text \<open>The part hidden from instructors is optional.\<close>

record contact_view =
  ctv_phone :: "string option"
  ctv_address :: "string option"
  ctv_emergencyContactName :: "string option"
  ctv_emergencyContactPhone :: "string option"
  ctv_hasLinkedAccount :: bool

record student_view =
  stv_id :: uuid
  stv_fullName :: string
  stv_dob :: instant
  stv_gender :: gender
  stv_currentBeltRankId :: "int option"
  stv_status :: student_status
  stv_joinedAt :: instant
  stv_medicalNotes :: "string option"
  stv_contact :: "contact_view option"

definition serializeStudent :: "student_profile \<Rightarrow> user_role \<Rightarrow> student_view" where
  "serializeStudent p callerRole = \<lparr> stv_id = stu_id p, stv_fullName = stu_fullName p, stv_dob = stu_dob p, stv_gender = stu_gender p,
     stv_currentBeltRankId = stu_currentBeltRankId p, stv_status = stu_status p, stv_joinedAt = stu_joinedAt p,
     stv_medicalNotes = stu_medicalNotes p,
     stv_contact = (if callerRole = INSTRUCTOR then None
       else Some \<lparr> ctv_phone = stu_phone p, ctv_address = stu_address p, ctv_emergencyContactName = stu_emergencyContactName p,
         ctv_emergencyContactPhone = stu_emergencyContactPhone p, ctv_hasLinkedAccount = (stu_userId p \<noteq> None) \<rparr>) \<rparr>"

section \<open>Invite codes\<close>

definition INVITE_ALPHABET :: string where
  "INVITE_ALPHABET = ''ABCDEFGHJKLMNPQRSTUVWXYZ23456789''"

definition generateInviteCode :: "nat list \<Rightarrow> string" where
  "generateInviteCode bytes = map (\<lambda>b. INVITE_ALPHABET ! (b mod length INVITE_ALPHABET)) bytes"

text \<open>\<open>draws\<close> are the random bytes of the attempts, one list per attempt.\<close>

fun uniqueInviteCode :: "nat list list \<Rightarrow> app \<Rightarrow> string res" where
  "uniqueInviteCode [] s = Inl (Conflict ''Could not generate a unique invite code'')"
| "uniqueInviteCode (bytes # draws) s = (let code = generateInviteCode bytes in
     if List.find (\<lambda>p. stu_inviteCode p = code) (students s) = None then Inr code else uniqueInviteCode draws s)"

section \<open>Profiles\<close>

definition student_uqs :: "(student_profile, string) uq list" where
  "student_uqs = [([''id''], \<lambda>p. Some (stu_id p)), ([''user_id''], stu_userId), ([''invite_code''], \<lambda>p. Some (stu_inviteCode p))]"

record create_student_dto =
  csd_fullName :: string
  csd_dob :: instant
  csd_gender :: gender
  csd_phone :: "string option"
  csd_address :: "string option"
  csd_emergencyContactName :: "string option"
  csd_emergencyContactPhone :: "string option"
  csd_medicalNotes :: "string option"
  csd_currentBeltRankId :: "int option"
  csd_linkedUserEmail :: "string option"

definition assertBeltRankExists :: "int \<Rightarrow> app \<Rightarrow> unit res" where
  "assertBeltRankExists rid s = (if List.find (\<lambda>r. rank_id r = rid) (beltRanks s) = None then Inl (NotFound ''Not found'') else Inr ())"

definition resolve_account :: "string option \<Rightarrow> app \<Rightarrow> uuid option res" where
  "resolve_account email s = (case email of
       None \<Rightarrow> Inr None
     | Some e \<Rightarrow> (case List.find (\<lambda>u. usr_email u = e) (users s) of
           None \<Rightarrow> Inl (NotFound ''Not found'')
         | Some u \<Rightarrow>
             if usr_deletedAt u \<noteq> None \<or> usr_role u \<noteq> STUDENT then Inl (NotFound ''Not found'')
             else if List.find (\<lambda>p. stu_userId p = Some (usr_id u)) (students s) \<noteq> None
             then Inl (Conflict ''Student profile already exists for this account'')
             else Inr (Some (usr_id u))))"

definition new_student :: "create_student_dto \<Rightarrow> uuid option \<Rightarrow> string \<Rightarrow> instant \<Rightarrow> uuid \<Rightarrow> student_profile" where
  "new_student dto userId code now i = \<lparr> stu_id = i, stu_userId = userId, stu_fullName = csd_fullName dto,
     stu_dob = as_date (csd_dob dto), stu_gender = csd_gender dto, stu_phone = csd_phone dto, stu_address = csd_address dto,
     stu_emergencyContactName = csd_emergencyContactName dto, stu_emergencyContactPhone = csd_emergencyContactPhone dto,
     stu_medicalNotes = csd_medicalNotes dto, stu_currentBeltRankId = csd_currentBeltRankId dto, stu_inviteCode = code,
     stu_joinedAt = now, stu_status = SActive, stu_deletedAt = None \<rparr>"

definition createStudent :: "caller \<Rightarrow> create_student_dto \<Rightarrow> nat list list \<Rightarrow> instant \<Rightarrow> app \<Rightarrow> app \<times> (student_view \<times> string) res" where
  "createStudent cal dto draws now =
     bindE (\<lambda>s. (s, resolve_account (csd_linkedUserEmail dto) s)) (\<lambda>userId.
     bindE (\<lambda>s. (s, case csd_currentBeltRankId dto of None \<Rightarrow> Inr () | Some r \<Rightarrow> assertBeltRankExists r s)) (\<lambda>_.
     bindE (\<lambda>s. (s, uniqueInviteCode (take 5 draws) s)) (\<lambda>code.
     bindE (create_in student_uqs students put_students (new_student dto userId code now)) (\<lambda>p s.
       (audited (Some (cal_id cal)) ''student_profile_created'' (''student_profile:'' @ stu_id p) s,
        Inr (serializeStudent p ADMIN, stu_inviteCode p))))))"

definition getStudent :: "caller \<Rightarrow> uuid \<Rightarrow> app \<Rightarrow> student_view res" where
  "getStudent cal studentId s = (case assertCanAccess s cal studentId of
       Inl e \<Rightarrow> Inl e
     | Inr _ \<Rightarrow> (case live_student s studentId of
           None \<Rightarrow> Inl (NotFound ''Not found'')
         | Some p \<Rightarrow> Inr (serializeStudent p (cal_role cal))))"

definition own_profile :: "uuid \<Rightarrow> app \<Rightarrow> student_profile option" where
  "own_profile userId s = List.find (\<lambda>p. stu_userId p = Some userId \<and> stu_deletedAt p = None) (students s)"

definition myProfile :: "caller \<Rightarrow> app \<Rightarrow> student_view res" where
  "myProfile cal s = (case own_profile (cal_id cal) s of
       None \<Rightarrow> Inl (NotFound ''Not found'') | Some p \<Rightarrow> Inr (serializeStudent p STUDENT))"

record list_students_query =
  lsq_status :: "student_status option"
  lsq_search :: "string option"
  lsq_classId :: "uuid option"
  lsq_page :: nat
  lsq_limit :: nat

definition enrolled_for :: "caller \<Rightarrow> uuid option \<Rightarrow> app \<Rightarrow> student_profile \<Rightarrow> bool" where
  "enrolled_for cal cid s p =
     (if cal_role cal = INSTRUCTOR
      then (\<exists>e \<in> set (enrollments s). enr_studentId e = stu_id p \<and> teaches s (cal_id cal) e \<and>
              (case cid of None \<Rightarrow> True | Some c \<Rightarrow> enr_classId e = c))
      else (case cid of None \<Rightarrow> True
            | Some c \<Rightarrow> (\<exists>e \<in> set (enrollments s). enr_studentId e = stu_id p \<and> enr_classId e = c \<and> enr_leftAt e = None)))"

text \<open>The order of names is the database's collation, given as a key.\<close>

definition listStudents :: "(string \<Rightarrow> nat) \<Rightarrow> caller \<Rightarrow> list_students_query \<Rightarrow> app \<Rightarrow> student_view list \<times> nat" where
  "listStudents collate cal q s =
     (let found = filter (\<lambda>p. stu_deletedAt p = None \<and> (case lsq_status q of None \<Rightarrow> True | Some x \<Rightarrow> stu_status p = x) \<and>
            (case lsq_search q of None \<Rightarrow> True | Some x \<Rightarrow> contains_str (stu_fullName p) x) \<and>
            enrolled_for cal (lsq_classId q) s p) (students s);
          role = (if cal_role cal = INSTRUCTOR then INSTRUCTOR else ADMIN)
      in (map (\<lambda>p. serializeStudent p role) (page_of (lsq_page q) (lsq_limit q) (sort_key (collate \<circ> stu_fullName) found)), length found))"

text \<open>An omitted field of a request leaves the column as it is.\<close>

record contact_dto =
  cdt_phone :: "string option"
  cdt_address :: "string option"
  cdt_emergencyContactName :: "string option"
  cdt_emergencyContactPhone :: "string option"
  cdt_medicalNotes :: "string option"

definition given :: "'a option \<Rightarrow> 'a option \<Rightarrow> 'a option" where
  "given new old = (case new of None \<Rightarrow> old | Some v \<Rightarrow> Some v)"

definition patch_contact :: "contact_dto \<Rightarrow> student_profile \<Rightarrow> student_profile" where
  "patch_contact dto p = p\<lparr>stu_phone := given (cdt_phone dto) (stu_phone p), stu_address := given (cdt_address dto) (stu_address p),
     stu_emergencyContactName := given (cdt_emergencyContactName dto) (stu_emergencyContactName p),
     stu_emergencyContactPhone := given (cdt_emergencyContactPhone dto) (stu_emergencyContactPhone p),
     stu_medicalNotes := given (cdt_medicalNotes dto) (stu_medicalNotes p)\<rparr>"

definition updateOwn :: "caller \<Rightarrow> contact_dto \<Rightarrow> app \<Rightarrow> app \<times> student_view res" where
  "updateOwn cal dto s = (case own_profile (cal_id cal) s of
       None \<Rightarrow> (s, Inl (NotFound ''Not found''))
     | Some p \<Rightarrow> bindE (update_in student_uqs students put_students (\<lambda>x. stu_id x = stu_id p) (patch_contact dto)) (\<lambda>p' s1.
         (audited (Some (cal_id cal)) ''student_profile_self_updated'' (''student_profile:'' @ stu_id p) s1,
          Inr (serializeStudent p' STUDENT))) s)"

record update_student_dto =
  usd_fullName :: "string option"
  usd_dob :: "instant option"
  usd_gender :: "gender option"
  usd_contact :: contact_dto
  usd_currentBeltRankId :: "int option"
  usd_status :: "student_status option"

definition patch_student :: "update_student_dto \<Rightarrow> student_profile \<Rightarrow> student_profile" where
  "patch_student dto p = (patch_contact (usd_contact dto) p)\<lparr>stu_fullName := case_option (stu_fullName p) id (usd_fullName dto),
     stu_dob := case_option (stu_dob p) as_date (usd_dob dto), stu_gender := case_option (stu_gender p) id (usd_gender dto),
     stu_currentBeltRankId := given (usd_currentBeltRankId dto) (stu_currentBeltRankId p),
     stu_status := case_option (stu_status p) id (usd_status dto)\<rparr>"

definition updateStudent :: "caller \<Rightarrow> uuid \<Rightarrow> update_student_dto \<Rightarrow> app \<Rightarrow> app \<times> student_view res" where
  "updateStudent cal studentId dto s =
     (if live_student s studentId = None then (s, Inl (NotFound ''Not found''))
      else case (case usd_currentBeltRankId dto of None \<Rightarrow> Inr () | Some r \<Rightarrow> assertBeltRankExists r s) of
        Inl e \<Rightarrow> (s, Inl e)
      | Inr _ \<Rightarrow> bindE (update_in student_uqs students put_students (\<lambda>x. stu_id x = studentId) (patch_student dto)) (\<lambda>p s1.
          (audited (Some (cal_id cal)) ''student_profile_updated'' (''student_profile:'' @ studentId) s1,
           Inr (serializeStudent p ADMIN))) s)"

definition softDelete :: "caller \<Rightarrow> uuid \<Rightarrow> instant \<Rightarrow> app \<Rightarrow> app \<times> bool res" where
  "softDelete cal studentId now s =
     (let (t, n) = update_many (\<lambda>p. stu_id p = studentId \<and> stu_deletedAt p = None) (\<lambda>p. p\<lparr>stu_deletedAt := Some now\<rparr>) (students s) in
      if n = 0 then (s\<lparr>students := t\<rparr>, Inl (NotFound ''Not found''))
      else let s1 = s\<lparr>students := t,
             users := update_rows (\<lambda>u. (\<exists>p \<in> set t. stu_id p = studentId \<and> stu_userId p = Some (usr_id u)) \<and> usr_isActive u)
               (\<lambda>u. u\<lparr>usr_isActive := False\<rparr>) (users s)\<rparr>
        in (audited (Some (cal_id cal)) ''student_profile_deleted'' (''student_profile:'' @ studentId) s1, Inr True))"

definition regenerateInviteCode :: "caller \<Rightarrow> uuid \<Rightarrow> nat list list \<Rightarrow> app \<Rightarrow> app \<times> string res" where
  "regenerateInviteCode cal studentId draws s =
     (if live_student s studentId = None then (s, Inl (NotFound ''Not found''))
      else case uniqueInviteCode (take 5 draws) s of
        Inl e \<Rightarrow> (s, Inl e)
      | Inr code \<Rightarrow> bindE (update_in student_uqs students put_students (\<lambda>x. stu_id x = studentId) (\<lambda>p. p\<lparr>stu_inviteCode := code\<rparr>)) (\<lambda>p s1.
          (audited (Some (cal_id cal)) ''student_invite_regenerated'' (''student_profile:'' @ studentId) s1, Inr (stu_inviteCode p))) s)"

section \<open>Parents\<close>

definition link_uqs :: "(parent_link, string list) uq list" where
  "link_uqs = [([''id''], \<lambda>l. Some [lnk_id l]), ([''parent_user_id'', ''student_id''], \<lambda>l. Some [lnk_parentUserId l, lnk_studentId l])]"

text \<open>
  \<^verbatim>\<open>claimRotation\<close>: up to five attempts to replace the consumed code. A fresh code that collides
  with another profile raises P2002; the loop goes on, but inside the transaction every
  further statement fails (\<open>aborted\<close>).
\<close>

fun claim_loop :: "nat list list \<Rightarrow> bool \<Rightarrow> uuid \<Rightarrow> string \<Rightarrow> app \<Rightarrow> app \<times> unit res" where
  "claim_loop [] aborted pid consumed s = (s, Inl (Conflict ''Could not rotate the invite code''))"
| "claim_loop (bytes # draws) aborted pid consumed s = (let code = generateInviteCode bytes in
     if code = consumed then claim_loop draws aborted pid consumed s
     else if aborted then (s, Inl tx_aborted)
     else let w = (\<lambda>p. stu_id p = pid \<and> stu_inviteCode p = consumed) in
       case check_unique student_uqs (update_rows w (\<lambda>p. p\<lparr>stu_inviteCode := code\<rparr>) (students s)) of
         Inl e \<Rightarrow> claim_loop draws True pid consumed s
       | Inr t \<Rightarrow> if count_rows w (students s) = 1 then (s\<lparr>students := t\<rparr>, Inr ()) else (s, Inl (NotFound ''Not found'')))"

definition claimRotation :: "nat list list \<Rightarrow> uuid \<Rightarrow> string \<Rightarrow> app \<Rightarrow> app \<times> unit res" where
  "claimRotation draws pid consumed = claim_loop (take 5 draws) False pid consumed"

definition new_link :: "uuid \<Rightarrow> uuid \<Rightarrow> instant \<Rightarrow> uuid \<Rightarrow> parent_link" where
  "new_link parentId studentId now i = \<lparr> lnk_id = i, lnk_parentUserId = parentId, lnk_studentId = studentId,
     lnk_relationship = LPARENT, lnk_verified = True, lnk_verifiedByUserId = None, lnk_createdAt = now \<rparr>"

definition link_tx :: "nat list list \<Rightarrow> uuid \<Rightarrow> student_profile \<Rightarrow> string \<Rightarrow> instant \<Rightarrow> app \<Rightarrow> app \<times> unit res" where
  "link_tx draws parentId p code now =
     bindE (claimRotation draws (stu_id p) code) (\<lambda>_.
     bindE (create_in link_uqs parentLinks put_links (new_link parentId (stu_id p) now)) (\<lambda>_. returnE ()))"

text \<open>\<open>view\<close> is the state when the profile and the existing link were read.\<close>

definition linkChild :: "app \<Rightarrow> uuid \<Rightarrow> string \<Rightarrow> nat list list \<Rightarrow> instant \<Rightarrow> app \<Rightarrow> app \<times> student_view res" where
  "linkChild view parentId code draws now s =
     (case List.find (\<lambda>p. stu_inviteCode p = code \<and> stu_deletedAt p = None) (students view) of
        None \<Rightarrow> (s, Inl (NotFound ''Not found''))
      | Some p \<Rightarrow>
          if List.find (\<lambda>l. lnk_parentUserId l = parentId \<and> lnk_studentId l = stu_id p) (parentLinks view) \<noteq> None
          then (s, Inl (Conflict ''Already linked''))
          else bindE (transaction (link_tx draws parentId p code now)) (\<lambda>_ s1.
            (audited None ''parent_link_created'' (''student_profile:'' @ stu_id p @ '' parent:'' @ parentId) s1,
             Inr (serializeStudent p PARENT))) s)"

definition children :: "uuid \<Rightarrow> app \<Rightarrow> student_profile list" where
  "children parentId s = filter (\<lambda>p. stu_deletedAt p = None)
     (List.map_filter (\<lambda>l. if lnk_parentUserId l = parentId \<and> lnk_verified l
        then List.find (\<lambda>p. stu_id p = lnk_studentId l) (students s) else None) (parentLinks s))"

definition findProfileForParent :: "uuid \<Rightarrow> app \<Rightarrow> student_profile list" where
  "findProfileForParent parentId s = children parentId s"

definition myChildren :: "uuid \<Rightarrow> app \<Rightarrow> student_view list" where
  "myChildren parentId s = map (\<lambda>p. serializeStudent p PARENT) (children parentId s)"

definition unlink :: "uuid \<Rightarrow> uuid \<Rightarrow> app \<Rightarrow> app \<times> bool res" where
  "unlink parentId studentId s =
     (case List.find (\<lambda>l. lnk_parentUserId l = parentId \<and> lnk_studentId l = studentId) (parentLinks s) of
        None \<Rightarrow> (s, Inl (NotFound ''Not found''))
      | Some l \<Rightarrow> if lnk_verified l then (s, Inl (Conflict ''Contact the club to unlink a verified child''))
          else bindE (delete_in parentLinks put_links (\<lambda>x. lnk_id x = lnk_id l)) (\<lambda>_ s1.
            (audited None ''parent_link_removed'' (''student_profile:'' @ studentId @ '' parent:'' @ parentId) s1, Inr True)) s)"

section \<open>An invite code is used once\<close>

definition codes :: "app \<Rightarrow> string set" where
  "codes s = stu_inviteCode ` set (students s)"

definition drawn :: "nat list list \<Rightarrow> string set" where
  "drawn draws = generateInviteCode ` set draws"

lemma codes_same_db: "same_db s' s \<Longrightarrow> codes s' = codes s"
  by (simp add: codes_def same_db_tables)

lemma codes_audited [simp]: "codes (audited u e d s) = codes s"
  by (rule codes_same_db) simp

lemma uniqueInviteCode_drawn: "uniqueInviteCode draws s = Inr code \<Longrightarrow> code \<in> drawn draws"
  by (induction draws) (auto simp: drawn_def Let_def split: if_splits)

lemma drawn_take: "drawn (take n draws) \<subseteq> drawn draws"
  using set_take_subset by (fastforce simp: drawn_def)

lemma codes_update:
  assumes "update_in student_uqs students put_students w d s = (s', r)"
  shows "codes s' \<subseteq> codes s \<union> (\<lambda>p. stu_inviteCode (d p)) ` set (students s)"
  using assms by (rule profiles.update_cases) (auto simp: codes_def set_update_rows)

lemma codes_createStudent: "codes (fst (createStudent cal dto draws now s)) \<subseteq> codes s \<union> drawn draws"
proof -
  have "codes s' \<subseteq> codes s \<union> {code}"
    if "create_in student_uqs students put_students (new_student dto u code now) s = (s', r)" for s' r u code
    using that by (rule profiles.create_cases) (use codes_same_db [of s' s] in \<open>auto simp: codes_def new_student_def\<close>)
  moreover have "code \<in> drawn draws" if "uniqueInviteCode (take 5 draws) s = Inr code" for code
    using uniqueInviteCode_drawn [OF that] drawn_take [of 5 draws] by blast
  ultimately show ?thesis
    unfolding createStudent_def bindE_def by (fastforce split: sum.splits prod.splits)
qed

lemma codes_regenerate: "codes (fst (regenerateInviteCode cal sid draws s)) \<subseteq> codes s \<union> drawn draws"
proof (cases "uniqueInviteCode (take 5 draws) s")
  case (Inl e)
  then show ?thesis by (simp add: regenerateInviteCode_def)
next
  case (Inr code)
  obtain s' r where u: "update_in student_uqs students put_students (\<lambda>x. stu_id x = sid) (\<lambda>p. p\<lparr>stu_inviteCode := code\<rparr>) s = (s', r)"
    by fastforce
  have "codes s' \<subseteq> codes s \<union> drawn draws"
    using codes_update [OF u] uniqueInviteCode_drawn [OF Inr] drawn_take [of 5 draws] by auto
  then show ?thesis using Inr u by (auto simp: regenerateInviteCode_def bindE_def split: sum.splits)
qed

lemma codes_patched:
  assumes "\<And>p. stu_inviteCode (d p) = stu_inviteCode p"
  shows "codes (fst (bindE (update_in student_uqs students put_students w d) (\<lambda>p s. (audited u ev dt s, Inr (f p)))  s)) \<subseteq> codes s"
proof -
  obtain s' r where u: "update_in student_uqs students put_students w d s = (s', r)" by fastforce
  have "codes s' \<subseteq> codes s" using codes_update [OF u] assms by (auto simp: codes_def)
  then show ?thesis using u by (cases r) (auto simp: bindE_def)
qed

lemma patch_codes: "stu_inviteCode (patch_contact c p) = stu_inviteCode p" "stu_inviteCode (patch_student dto p) = stu_inviteCode p"
  by (simp_all add: patch_contact_def patch_student_def)

lemma codes_updateOwn: "codes (fst (updateOwn cal dto s)) \<subseteq> codes s"
proof (cases "own_profile (cal_id cal) s")
  case (Some p)
  then show ?thesis using codes_patched [of "patch_contact dto"] patch_codes(1) by (simp add: updateOwn_def)
qed (simp add: updateOwn_def)

lemma codes_updateStudent: "codes (fst (updateStudent cal sid dto s)) \<subseteq> codes s"
proof -
  define chk where "chk = (case usd_currentBeltRankId dto of None \<Rightarrow> Inr () | Some r \<Rightarrow> assertBeltRankExists r s)"
  have "updateStudent cal sid dto s = (if live_student s sid = None then (s, Inl (NotFound ''Not found''))
      else case chk of Inl e \<Rightarrow> (s, Inl e) | Inr _ \<Rightarrow>
        bindE (update_in student_uqs students put_students (\<lambda>x. stu_id x = sid) (patch_student dto)) (\<lambda>p s1.
          (audited (Some (cal_id cal)) ''student_profile_updated'' (''student_profile:'' @ sid) s1, Inr (serializeStudent p ADMIN))) s)"
    by (simp only: updateStudent_def chk_def)
  then show ?thesis
    using codes_patched [of "patch_student dto" "\<lambda>x. stu_id x = sid" "Some (cal_id cal)" "''student_profile_updated''"
        "''student_profile:'' @ sid" "\<lambda>p. serializeStudent p ADMIN" s, OF patch_codes(2)]
    by (cases chk) simp_all
qed

lemma codes_softDelete: "codes (fst (softDelete cal sid now s)) = codes s"
proof -
  have "stu_inviteCode ` set (update_rows w (\<lambda>p. p\<lparr>stu_deletedAt := Some now\<rparr>) t) = stu_inviteCode ` set t" for w and t :: "student_profile list"
    unfolding set_map [symmetric] by (simp add: map_update_rows_same del: set_map)
  then show ?thesis by (simp add: softDelete_def table_simps(2) Let_def codes_def audited_def)
qed

lemma claim_loop_Inr:
  "claim_loop draws a pid c s = (s', Inr u) \<Longrightarrow> \<exists>code \<in> drawn draws. code \<noteq> c \<and>
     count_rows (\<lambda>p. stu_id p = pid \<and> stu_inviteCode p = c) (students s) = 1 \<and>
     s' = s\<lparr>students := update_rows (\<lambda>p. stu_id p = pid \<and> stu_inviteCode p = c) (\<lambda>p. p\<lparr>stu_inviteCode := code\<rparr>) (students s)\<rparr>"
  by (induction draws a pid c s rule: claim_loop.induct)
     (auto simp: drawn_def Let_def dest: check_unique_Inr split: if_splits sum.splits)

lemma claim_loop_Inl: "claim_loop draws a pid c s = (s', Inl e) \<Longrightarrow> s' = s"
  by (induction draws a pid c s rule: claim_loop.induct) (auto simp: Let_def split: if_splits sum.splits)

lemma linkChild_Inr:
  assumes "linkChild view par c draws now s = (s', Inr w)"
  obtains code and p :: student_profile where "code \<in> drawn draws" "code \<noteq> c" "stu_id p = stv_id w"
    "count_rows (\<lambda>q. stu_id q = stu_id p \<and> stu_inviteCode q = c) (students s) = 1"
    "students s' = update_rows (\<lambda>q. stu_id q = stu_id p \<and> stu_inviteCode q = c) (\<lambda>q. q\<lparr>stu_inviteCode := code\<rparr>) (students s)"
    "\<exists>i. new_link par (stu_id p) now i \<in> set (parentLinks s')"
proof -
  obtain p where t: "bindE (transaction (link_tx draws par p c now)) (\<lambda>_ s1.
            (audited None ''parent_link_created'' (''student_profile:'' @ stu_id p @ '' parent:'' @ par) s1,
             Inr (serializeStudent p PARENT))) s = (s', Inr w)"
    using assms by (auto simp: linkChild_def split: option.splits if_splits)
  from t obtain s1 where s1: "link_tx draws par p c now s = (s1, Inr ())" "same_db s' s1" and w: "w = serializeStudent p PARENT"
    by (elim bindE_Inr) (auto simp: transaction_Inr)
  from s1(1) obtain s2 where s2: "claimRotation draws (stu_id p) c s = (s2, Inr ())"
      and l: "\<exists>x. create_in link_uqs parentLinks put_links (new_link par (stu_id p) now) s2 = (s1, Inr x)"
    unfolding link_tx_def by (elim bindE_Inr) (auto simp: returnE_def)
  obtain x where x: "create_in link_uqs parentLinks put_links (new_link par (stu_id p) now) s2 = (s1, Inr x)" using l by blast
  have st: "students s1 = students s2" using links.create_Inr(3) [OF x] by simp
  obtain code where c: "code \<in> drawn (take 5 draws)" "code \<noteq> c"
    "count_rows (\<lambda>q. stu_id q = stu_id p \<and> stu_inviteCode q = c) (students s) = 1"
    "s2 = s\<lparr>students := update_rows (\<lambda>q. stu_id q = stu_id p \<and> stu_inviteCode q = c) (\<lambda>q. q\<lparr>stu_inviteCode := code\<rparr>) (students s)\<rparr>"
    using claim_loop_Inr [OF s2 [unfolded claimRotation_def]] by blast
  show thesis
  proof (rule that [of code p])
    show "\<exists>i. new_link par (stu_id p) now i \<in> set (parentLinks s')"
      using links.create_Inr(1,2) [OF x] same_db_tables(10) [OF s1(2)] by auto
  qed (use c drawn_take w s1(2) st same_db_tables(9) in \<open>auto simp: serializeStudent_def\<close>)
qed

lemma linkChild_Inl:
  assumes "linkChild view par c draws now s = (s', Inl e)"
  shows "same_db s' s"
  using assms transaction_Inl [of "link_tx draws par _ c now" s]
  by (auto simp: linkChild_def bindE_def split: option.splits if_splits prod.splits sum.splits)

lemma codes_linkChild: "codes (fst (linkChild view par c draws now s)) \<subseteq> codes s \<union> drawn draws"
proof (cases "linkChild view par c draws now s")
  case (Pair s' r)
  show ?thesis
  proof (cases r)
    case (Inl e)
    then have "same_db s' s" using Pair by (intro linkChild_Inl) simp
    then show ?thesis using Pair codes_same_db [of s' s] by simp
  next
    case (Inr w)
    then have "linkChild view par c draws now s = (s', Inr w)" using Pair by simp
    then obtain code and p :: student_profile where "code \<in> drawn draws"
      "students s' = update_rows (\<lambda>q. stu_id q = stu_id p \<and> stu_inviteCode q = c) (\<lambda>q. q\<lparr>stu_inviteCode := code\<rparr>) (students s)"
      by (rule linkChild_Inr)
    then show ?thesis using Pair by (auto simp: codes_def set_update_rows split: if_splits)
  qed
qed

text \<open>The steps of the service, each with the codes it drew; a link may act on an older reading of the tables.\<close>

inductive student_step :: "app \<Rightarrow> string set \<Rightarrow> app \<Rightarrow> bool" where
  create: "student_step s (drawn draws) (fst (createStudent cal dto draws now s))"
| own: "student_step s {} (fst (updateOwn cal cdto s))"
| patch: "student_step s {} (fst (updateStudent cal sid udto s))"
| delete: "student_step s {} (fst (softDelete cal sid now s))"
| regenerate: "student_step s (drawn draws) (fst (regenerateInviteCode cal sid draws s))"
| link: "student_step s (drawn draws) (fst (linkChild view par c draws now s))"
| unlink: "student_step s {} (fst (unlink par sid s))"

inductive students_run :: "app \<Rightarrow> string set \<Rightarrow> app \<Rightarrow> bool" for s0 where
  start: "students_run s0 {} s0"
| step: "students_run s0 ds s \<Longrightarrow> student_step s d s' \<Longrightarrow> students_run s0 (ds \<union> d) s'"

lemma codes_unlink: "codes (fst (unlink par sid s)) = codes s"
  by (auto simp: unlink_def bindE_def delete_in_def codes_def audited_def split: option.split)

lemma student_step_codes: "student_step s d s' \<Longrightarrow> codes s' \<subseteq> codes s \<union> d"
  by (induction rule: student_step.induct)
     (simp_all add: codes_createStudent codes_updateOwn codes_updateStudent codes_softDelete codes_regenerate codes_linkChild codes_unlink)

lemma students_run_codes: "students_run s0 ds s \<Longrightarrow> codes s \<subseteq> codes s0 \<union> ds"
  by (induction rule: students_run.induct) (use student_step_codes in fastforce)+

lemma one_row: "count_rows w t = 1 \<Longrightarrow> \<exists>x \<in> set t. w x"
  by (cases "filter w t") (auto simp: count_rows_def filter_eq_Cons_iff)

lemma link_needs_code: "linkChild view par c draws now s = (s', Inr w) \<Longrightarrow> c \<in> codes s"
proof (erule linkChild_Inr)
  fix p :: student_profile assume "count_rows (\<lambda>q. stu_id q = stu_id p \<and> stu_inviteCode q = c) (students s) = 1"
  then show "c \<in> codes s" using one_row by (force simp: codes_def)
qed

text \<open>
  C23: An invite code links one parent. The link is verified and names the student whose code it
  was; the code is replaced in the same transaction, and from then on, whatever requests
  follow, a parent who presents it (even one who looked it up before) is refused and gets no link,
  unless the code is drawn anew for somebody.
\<close>

theorem invite_code_once:
  assumes "linkChild view par c draws now s = (s1, Inr w)" and "distinct (map stu_inviteCode (students s))"
    and "students_run s1 ds s2" and "c \<notin> ds"
  shows "(\<exists>i. new_link par (stv_id w) now i \<in> set (parentLinks s1)) \<and>
    (\<exists>s3 e. linkChild view2 par2 c draws2 now2 s2 = (s3, Inl e) \<and> same_db s3 s2)"
proof -
  obtain code and p :: student_profile where cp: "code \<noteq> c" "stu_id p = stv_id w"
    "count_rows (\<lambda>q. stu_id q = stu_id p \<and> stu_inviteCode q = c) (students s) = 1"
    "students s1 = update_rows (\<lambda>q. stu_id q = stu_id p \<and> stu_inviteCode q = c) (\<lambda>q. q\<lparr>stu_inviteCode := code\<rparr>) (students s)"
    "\<exists>i. new_link par (stu_id p) now i \<in> set (parentLinks s1)"
    using assms(1) by (rule linkChild_Inr)
  have "\<exists>q \<in> set (students s). stu_id q = stu_id p \<and> stu_inviteCode q = c" using one_row [OF cp(3)] by blast
  then have "stu_id q = stu_id p" if "q \<in> set (students s)" "stu_inviteCode q = c" for q
    using assms(2) that by (auto simp: distinct_map dest: inj_onD)
  then have "c \<notin> codes s1" using cp(1,4) by (auto simp: codes_def set_update_rows split: if_splits)
  then have "c \<notin> codes s2" using students_run_codes [OF assms(3)] assms(4) by blast
  then show ?thesis using link_needs_code linkChild_Inl cp(2,5)
    by (cases "linkChild view2 par2 c draws2 now2 s2"; cases "snd (linkChild view2 par2 c draws2 now2 s2)") auto
qed

text \<open>
  The retry of \<^verbatim>\<open>claimRotation\<close> cannot help: after a fresh code collided with another profile's, the
  next attempt fails because the transaction is aborted.
\<close>

theorem claim_retry_is_dead:
  assumes "generateInviteCode b1 \<noteq> c" and "generateInviteCode b2 \<noteq> c"
    and "check_unique student_uqs (update_rows (\<lambda>p. stu_id p = pid \<and> stu_inviteCode p = c)
           (\<lambda>p. p\<lparr>stu_inviteCode := generateInviteCode b1\<rparr>) (students s)) = Inl e"
  shows "claimRotation (b1 # b2 # draws) pid c s = (s, Inl tx_aborted)"
  using assms by (simp add: claimRotation_def Let_def)

text \<open>A class of one student.\<close>

definition kid0 :: student_profile where
  "kid0 = new_student \<lparr> csd_fullName = ''An'', csd_dob = 0, csd_gender = FEMALE, csd_phone = Some ''0901'', csd_address = None,
     csd_emergencyContactName = None, csd_emergencyContactPhone = None, csd_medicalNotes = None, csd_currentBeltRankId = None,
     csd_linkedUserEmail = None \<rparr> None ''AAAAAAAA'' 0 ''kid''"

definition club0 :: app where
  "club0 = empty_app\<lparr>students := [kid0]\<rparr>"

lemma kid0_facts: "stu_id kid0 = ''kid''" "stu_inviteCode kid0 = ''AAAAAAAA''" "stu_userId kid0 = None" "stu_deletedAt kid0 = None"
  by (simp_all add: kid0_def new_student_def)

lemma code0: "generateInviteCode (replicate 8 3) = ''DDDDDDDD''"
  by code_simp

lemma rotate0:
  "claimRotation [replicate 8 3] ''kid'' ''AAAAAAAA'' club0 = (club0\<lparr>students := [kid0\<lparr>stu_inviteCode := ''DDDDDDDD''\<rparr>]\<rparr>, Inr ())"
  by (simp add: claimRotation_def Let_def code0 club0_def kid0_facts student_uqs_def unique_on_def List.map_filter_def count_rows_def)

lemma link_row0: "\<exists>s1 l. create_in link_uqs parentLinks put_links (new_link ''par'' ''kid'' 5) (club0\<lparr>students := t\<rparr>) = (s1, Inr l)"
  by (simp add: create_in_def fresh_uuid_def insert_row_def link_uqs_def unique_on_def List.map_filter_def club0_def empty_app_def)

lemma link0: "\<exists>s1. linkChild club0 ''par'' ''AAAAAAAA'' [replicate 8 3] 5 club0 = (s1, Inr (serializeStudent kid0 PARENT))"
proof -
  obtain s1 l where l: "create_in link_uqs parentLinks put_links (new_link ''par'' ''kid'' 5)
      (club0\<lparr>students := [kid0\<lparr>stu_inviteCode := ''DDDDDDDD''\<rparr>]\<rparr>) = (s1, Inr l)" using link_row0 by blast
  have "students club0 = [kid0]" "parentLinks club0 = []" by (simp_all add: club0_def empty_app_def)
  then show ?thesis using rotate0 l
    by (simp add: linkChild_def kid0_facts link_tx_def bindE_def transaction_def returnE_def)
qed

theorem invite_code_once_witness:
  "\<exists>s1. linkChild club0 ''par'' ''AAAAAAAA'' [replicate 8 3] 5 club0 = (s1, Inr (serializeStudent kid0 PARENT)) \<and>
     (\<exists>s3 e. linkChild club0 ''other'' ''AAAAAAAA'' [replicate 8 2] 6 s1 = (s3, Inl e))"
proof -
  obtain s1 where l: "linkChild club0 ''par'' ''AAAAAAAA'' [replicate 8 3] 5 club0 = (s1, Inr (serializeStudent kid0 PARENT))"
    using link0 by blast
  have d: "distinct (map stu_inviteCode (students club0))" by (simp add: club0_def)
  have "\<exists>s3 e. linkChild club0 ''other'' ''AAAAAAAA'' [replicate 8 2] 6 s1 = (s3, Inl e)"
    using invite_code_once [OF l d students_run.start] by blast
  then show ?thesis using l by blast
qed

end
