(* ===== verification/Classes.thy ===== *)
theory Classes
  imports Students Calendar
begin

text \<open>
  \<^verbatim>\<open>src/classes\<close>: classes and their weekly schedule (\<^verbatim>\<open>classes.service.ts\<close>, \<^verbatim>\<open>time.ts\<close>,
  \<^verbatim>\<open>serialize-class.ts\<close>) and enrollments (\<^verbatim>\<open>enrollments.service.ts\<close>). A time of day is the instant of
  1970-01-01 the database client gives for a TIME column. Request dates arrive as
  instants, the request text having been validated. Responses leave out the row timestamps
  \<^verbatim>\<open>createdAt\<close> and \<^verbatim>\<open>updatedAt\<close>. The main invariant: a class never has more open enrollments than places.
\<close>

section \<open>Times of day\<close>

definition hh_mm :: "string \<Rightarrow> bool" where
  "hh_mm v = (case v of
       [a, b, c, d, e] \<Rightarrow>
         ((a \<in> {CHR ''0'', CHR ''1''} \<and> is_digit b) \<or> (a = CHR ''2'' \<and> b \<in> {CHR ''0'', CHR ''1'', CHR ''2'', CHR ''3''})) \<and>
         c = CHR '':'' \<and> (is_digit d \<and> digit_val d \<le> 5) \<and> is_digit e
     | _ \<Rightarrow> False)"

definition parseHhMm :: "string \<Rightarrow> instant res" where
  "parseHhMm v = (if \<not> hh_mm v then Inl (OtherError ''Invalid time of day'')
     else Inr (int (digits_val (take 2 v)) * 3600000 + int (digits_val (drop 3 v)) * 60000))"

definition formatHhMm :: "instant \<Rightarrow> string" where
  "formatHhMm t = padStart 2 CHR ''0'' (show_nat (nat (t div 3600000 mod 24))) @ '':'' @
     padStart 2 CHR ''0'' (show_nat (nat (t div 60000 mod 60)))"

section \<open>Serialization\<close>

record schedule_view =
  scv_id :: uuid
  scv_weekday :: int
  scv_startTime :: string
  scv_endTime :: string
  scv_effectiveFrom :: instant
  scv_effectiveTo :: "instant option"

definition serializeSchedule :: "class_schedule \<Rightarrow> schedule_view" where
  "serializeSchedule x = \<lparr> scv_id = sch_id x, scv_weekday = sch_weekday x, scv_startTime = formatHhMm (sch_startTime x),
     scv_endTime = formatHhMm (sch_endTime x), scv_effectiveFrom = sch_effectiveFrom x, scv_effectiveTo = sch_effectiveTo x \<rparr>"

record class_view =
  clv_id :: uuid
  clv_name :: string
  clv_instructorId :: uuid
  clv_location :: "string option"
  clv_capacity :: int
  clv_status :: class_status
  clv_schedules :: "schedule_view list"
  clv_active :: "nat option"

definition serializeClass :: "class_row \<Rightarrow> class_schedule list \<Rightarrow> nat option \<Rightarrow> class_view" where
  "serializeClass c ss n = \<lparr> clv_id = cls_id c, clv_name = cls_name c, clv_instructorId = cls_instructorId c,
     clv_location = cls_location c, clv_capacity = cls_capacity c, clv_status = cls_status c,
     clv_schedules = map serializeSchedule ss, clv_active = n \<rparr>"

section \<open>Classes\<close>

definition class_uqs :: "(class_row, string) uq list" where
  "class_uqs = [([''id''], \<lambda>c. Some (cls_id c))]"

definition find_class :: "uuid \<Rightarrow> app \<Rightarrow> class_row option" where
  "find_class cid s = List.find (\<lambda>c. cls_id c = cid) (classes s)"

definition open_in :: "uuid \<Rightarrow> enrollment \<Rightarrow> bool" where
  "open_in cid e \<longleftrightarrow> enr_classId e = cid \<and> enr_leftAt e = None"

definition class_schedules :: "uuid \<Rightarrow> app \<Rightarrow> class_schedule list" where
  "class_schedules cid s = filter (\<lambda>x. sch_classId x = cid) (schedules s)"

text \<open>Rows are kept in the order of their creation.\<close>

definition listClasses :: "class_status option \<Rightarrow> nat \<Rightarrow> nat \<Rightarrow> app \<Rightarrow> class_view list \<times> nat" where
  "listClasses status page limit s =
     (let found = filter (\<lambda>c. case status of None \<Rightarrow> True | Some x \<Rightarrow> cls_status c = x) (classes s) in
      (map (\<lambda>c. serializeClass c (class_schedules (cls_id c) s) None) (page_of page limit found), length found))"

definition getClass :: "uuid \<Rightarrow> app \<Rightarrow> class_view res" where
  "getClass cid s = (case find_class cid s of
       None \<Rightarrow> Inl (NotFound ''Not found'')
     | Some c \<Rightarrow> Inr (serializeClass c (class_schedules cid s) (Some (count_rows (open_in cid) (enrollments s)))))"

definition assertInstructorUser :: "uuid \<Rightarrow> app \<Rightarrow> unit res" where
  "assertInstructorUser userId s =
     (case List.find (\<lambda>u. usr_id u = userId \<and> usr_deletedAt u = None \<and> usr_isActive u) (users s) of
        None \<Rightarrow> Inl (NotFound ''Not found'')
      | Some u \<Rightarrow> if usr_role u \<noteq> INSTRUCTOR then Inl (BadRequest ''Class instructor must have the INSTRUCTOR role'') else Inr ())"

definition new_class :: "string \<Rightarrow> uuid \<Rightarrow> string option \<Rightarrow> int option \<Rightarrow> uuid \<Rightarrow> class_row" where
  "new_class name instructorId location capacity i = \<lparr> cls_id = i, cls_name = name, cls_instructorId = instructorId,
     cls_location = location, cls_capacity = case_option 30 id capacity, cls_status = CActive \<rparr>"

definition createClass :: "string \<Rightarrow> uuid \<Rightarrow> string option \<Rightarrow> int option \<Rightarrow> app \<Rightarrow> app \<times> class_view res" where
  "createClass name instructorId location capacity s = (case assertInstructorUser instructorId s of
       Inl e \<Rightarrow> (s, Inl e)
     | Inr _ \<Rightarrow> bindE (create_in class_uqs classes put_classes (new_class name instructorId location capacity)) (\<lambda>c s1.
         (audited None ''class_created'' (''class:'' @ cls_id c) s1, Inr (serializeClass c [] None))) s)"

record update_class_dto =
  ucd_name :: "string option"
  ucd_instructorId :: "uuid option"
  ucd_location :: "string option"
  ucd_capacity :: "int option"
  ucd_status :: "class_status option"

definition patch_class :: "update_class_dto \<Rightarrow> class_row \<Rightarrow> class_row" where
  "patch_class dto c = c\<lparr>cls_name := case_option (cls_name c) id (ucd_name dto),
     cls_instructorId := case_option (cls_instructorId c) id (ucd_instructorId dto),
     cls_location := case_option (cls_location c) Some (ucd_location dto),
     cls_capacity := case_option (cls_capacity c) id (ucd_capacity dto),
     cls_status := case_option (cls_status c) id (ucd_status dto)\<rparr>"

text \<open>\<open>counted\<close> is the enrollment table at the time of the count, which precedes the update without a lock.\<close>

definition updateClass :: "enrollment list \<Rightarrow> uuid \<Rightarrow> update_class_dto \<Rightarrow> app \<Rightarrow> app \<times> class_view res" where
  "updateClass counted cid dto s =
     (if find_class cid s = None then (s, Inl (NotFound ''Not found''))
      else case (case ucd_instructorId dto of None \<Rightarrow> Inr () | Some i \<Rightarrow> assertInstructorUser i s) of
        Inl e \<Rightarrow> (s, Inl e)
      | Inr _ \<Rightarrow>
          if (case ucd_capacity dto of None \<Rightarrow> False | Some n \<Rightarrow> n < int (count_rows (open_in cid) counted))
          then (s, Inl (Conflict ''Capacity cannot be below the current number of active enrollments''))
          else bindE (update_in class_uqs classes put_classes (\<lambda>c. cls_id c = cid) (patch_class dto)) (\<lambda>c s1.
            (audited None ''class_updated'' (''class:'' @ cid) s1, Inr (serializeClass c [] None))) s)"

text \<open>The gate shared with the attendance module.\<close>

definition assertManageable :: "caller \<Rightarrow> uuid \<Rightarrow> app \<Rightarrow> class_row res" where
  "assertManageable cal cid s = (case find_class cid s of
       None \<Rightarrow> Inl (NotFound ''Not found'')
     | Some c \<Rightarrow>
         if (cal_role cal \<noteq> ADMIN \<and> cal_role cal \<noteq> INSTRUCTOR) \<or> (cal_role cal = INSTRUCTOR \<and> cls_instructorId c \<noteq> cal_id cal)
         then Inl (NotFound ''Not found'') else Inr c)"

section \<open>Schedules\<close>

definition schedule_uqs :: "(class_schedule, string) uq list" where
  "schedule_uqs = [([''id''], \<lambda>x. Some (sch_id x))]"

record schedule_dto =
  sdt_weekday :: int
  sdt_startTime :: string
  sdt_endTime :: string
  sdt_effectiveFrom :: instant
  sdt_effectiveTo :: "instant option"

definition new_schedule :: "uuid \<Rightarrow> schedule_dto \<Rightarrow> instant \<Rightarrow> instant \<Rightarrow> uuid \<Rightarrow> class_schedule" where
  "new_schedule cid dto t0 t1 i = \<lparr> sch_id = i, sch_classId = cid, sch_weekday = sdt_weekday dto, sch_startTime = t0, sch_endTime = t1,
     sch_effectiveFrom = as_date (sdt_effectiveFrom dto), sch_effectiveTo = map_option as_date (sdt_effectiveTo dto) \<rparr>"

definition addSchedule :: "uuid \<Rightarrow> schedule_dto \<Rightarrow> app \<Rightarrow> app \<times> (uuid \<times> uuid) res" where
  "addSchedule cid dto s =
     (if find_class cid s = None then (s, Inl (NotFound ''Not found''))
      else case parseHhMm (sdt_startTime dto) of
        Inl e \<Rightarrow> (s, Inl e)
      | Inr t0 \<Rightarrow> (case parseHhMm (sdt_endTime dto) of
          Inl e \<Rightarrow> (s, Inl e)
        | Inr t1 \<Rightarrow>
            if t0 \<ge> t1 then (s, Inl (BadRequest ''Start time must be before end time''))
            else if (case sdt_effectiveTo dto of None \<Rightarrow> False | Some t \<Rightarrow> t < sdt_effectiveFrom dto)
            then (s, Inl (BadRequest ''Effective end date must not precede the start date''))
            else bindE (create_in schedule_uqs schedules put_schedules (new_schedule cid dto t0 t1)) (\<lambda>x s1.
              (s1, Inr (sch_id x, sch_classId x))) s))"

definition removeSchedule :: "uuid \<Rightarrow> uuid \<Rightarrow> app \<Rightarrow> app \<times> bool res" where
  "removeSchedule cid scheduleId s =
     (if List.find (\<lambda>x. sch_id x = scheduleId \<and> sch_classId x = cid) (schedules s) = None then (s, Inl (NotFound ''Not found''))
      else bindE (delete_in schedules put_schedules (\<lambda>x. sch_id x = scheduleId)) (\<lambda>_. returnE True) s)"

section \<open>Enrollments\<close>

definition enrollment_uqs :: "(enrollment, string list) uq list" where
  "enrollment_uqs = [([''id''], \<lambda>e. Some [enr_id e]),
     ([''student_id'', ''class_id'', ''enrolled_at''], \<lambda>e. Some [enr_studentId e, enr_classId e, show_int (enr_enrolledAt e)])]"

definition startOfUtcDay :: "instant \<Rightarrow> instant" where
  "startOfUtcDay t = as_date t"

definition new_enrollment :: "uuid \<Rightarrow> uuid \<Rightarrow> instant \<Rightarrow> uuid \<Rightarrow> enrollment" where
  "new_enrollment studentId cid now i = \<lparr> enr_id = i, enr_studentId = studentId, enr_classId = cid, enr_enrolledAt = now, enr_leftAt = None \<rparr>"

text \<open>The body runs under a lock on the class row, so that no other enrollment of the class intervenes.\<close>

definition enroll_tx :: "uuid \<Rightarrow> uuid \<Rightarrow> instant \<Rightarrow> app \<Rightarrow> app \<times> enrollment res" where
  "enroll_tx studentId cid now s = (case find_class cid s of
       None \<Rightarrow> (s, Inl (NotFound ''Not found''))
     | Some c \<Rightarrow>
         if cls_status c \<noteq> CActive then (s, Inl (Conflict ''Class is not active''))
         else case live_student s studentId of
           None \<Rightarrow> (s, Inl (NotFound ''Not found''))
         | Some p \<Rightarrow>
             if stu_status p \<noteq> SActive then (s, Inl (Conflict ''Student profile is not active''))
             else if List.find (\<lambda>e. enr_studentId e = studentId \<and> open_in cid e) (enrollments s) \<noteq> None
             then (s, Inl (Conflict ''Student is already enrolled in this class''))
             else if List.find (\<lambda>e. enr_studentId e = studentId \<and> enr_classId e = cid \<and> enr_enrolledAt e \<ge> startOfUtcDay now)
                       (enrollments s) \<noteq> None
             then (s, Inl (Conflict ''Student was already enrolled in this class today''))
             else if int (count_rows (open_in cid) (enrollments s)) \<ge> cls_capacity c then (s, Inl (Conflict ''Class is full''))
             else create_in enrollment_uqs enrollments put_enrollments (new_enrollment studentId cid now) s)"

text \<open>The student and the class of an enrollment exist (foreign keys).\<close>

record enrollment_view =
  env_id :: uuid
  env_student :: "student_view option"
  env_classId :: uuid
  env_class :: "(string \<times> class_status) option"
  env_enrolledAt :: instant
  env_leftAt :: "instant option"

definition serializeEnrollment :: "app \<Rightarrow> enrollment \<Rightarrow> enrollment_view" where
  "serializeEnrollment s e = \<lparr> env_id = enr_id e,
     env_student = map_option (\<lambda>p. serializeStudent p ADMIN) (List.find (\<lambda>p. stu_id p = enr_studentId e) (students s)),
     env_classId = enr_classId e, env_class = map_option (\<lambda>c. (cls_name c, cls_status c)) (find_class (enr_classId e) s),
     env_enrolledAt = enr_enrolledAt e, env_leftAt = enr_leftAt e \<rparr>"

definition createEnrollment :: "uuid \<Rightarrow> uuid \<Rightarrow> instant \<Rightarrow> app \<Rightarrow> app \<times> enrollment_view res" where
  "createEnrollment studentId cid now s = bindE (transaction (enroll_tx studentId cid now)) (\<lambda>e s1.
     (audited None ''enrollment_created'' (''enrollment:'' @ enr_id e @ '' student:'' @ studentId @ '' class:'' @ cid) s1,
      Inr (serializeEnrollment s1 e))) s"

definition listEnrollments :: "uuid option \<Rightarrow> uuid option \<Rightarrow> nat \<Rightarrow> nat \<Rightarrow> app \<Rightarrow> enrollment_view list \<times> nat" where
  "listEnrollments cid studentId page limit s =
     (let found = filter (\<lambda>e. (case cid of None \<Rightarrow> True | Some x \<Rightarrow> enr_classId e = x) \<and>
                             (case studentId of None \<Rightarrow> True | Some x \<Rightarrow> enr_studentId e = x)) (enrollments s) in
      (map (serializeEnrollment s) (page_of page limit (sort_key (\<lambda>e. - enr_enrolledAt e) found)), length found))"

definition removeEnrollment :: "uuid \<Rightarrow> instant \<Rightarrow> app \<Rightarrow> app \<times> bool res" where
  "removeEnrollment eid now s =
     (if List.find (\<lambda>e. enr_id e = eid \<and> enr_leftAt e = None) (enrollments s) = None then (s, Inl (NotFound ''Not found''))
      else bindE (update_in enrollment_uqs enrollments put_enrollments (\<lambda>e. enr_id e = eid) (\<lambda>e. e\<lparr>enr_leftAt := Some now\<rparr>)) (\<lambda>_ s1.
        (audited None ''enrollment_removed'' (''enrollment:'' @ eid) s1, Inr True)) s)"

section \<open>Times of day\<close>

lemma digit_char_zero: "digit_char 0 = CHR ''0''"
  by code_simp

lemma two_digits: "n < 100 \<Longrightarrow> padStart 2 CHR ''0'' (show_nat n) = [digit_char (n div 10), digit_char (n mod 10)]"
proof (cases "n < 10")
  case True
  then show ?thesis by (simp add: show_nat.simps [of n] padStart_def digit_char_zero)
next
  case False
  assume "n < 100"
  then have "n div 10 < 10" by simp
  then have "show_nat n = [digit_char (n div 10), digit_char (n mod 10)]"
    using False by (simp add: show_nat.simps [of n] show_nat.simps [of "n div 10"])
  then show ?thesis by (simp add: padStart_def)
qed

lemma digit_char_val: "is_digit c \<Longrightarrow> digit_char (digit_val c) = c"
  by (simp add: digit_char_def digit_val_def is_digit_def char_code_def)

lemma digits_two: "digits_val [a, b] = digit_val a * 10 + digit_val b"
  by (simp add: digits_val_def)

lemma digit_val_less: "is_digit c \<Longrightarrow> digit_val c < 10"
  by (auto simp: digit_val_def is_digit_def)

lemma pad_pair: "is_digit a \<Longrightarrow> is_digit b \<Longrightarrow> padStart 2 CHR ''0'' (show_nat (digit_val a * 10 + digit_val b)) = [a, b]"
  using digit_val_less [of a] digit_val_less [of b] by (simp add: two_digits digit_char_val)

lemma hh_mm_cases:
  assumes "hh_mm v"
  obtains a b d e where "v = [a, b, CHR '':'', d, e]" "is_digit a" "is_digit b" "is_digit d" "is_digit e"
    "digit_val a * 10 + digit_val b < 24" "digit_val d \<le> 5"
proof -
  obtain a b c d e where v: "v = [a, b, c, d, e]"
    using assms by (auto simp: hh_mm_def split: list.splits)
  have z: "is_digit CHR ''0''" "is_digit CHR ''1''" "is_digit CHR ''2''" "is_digit CHR ''3''"
    "digit_val CHR ''0'' = 0" "digit_val CHR ''1'' = 1" "digit_val CHR ''2'' = 2" "digit_val CHR ''3'' = 3"
    by (simp_all add: is_digit_def digit_val_def char_code_def)
  have "is_digit a \<and> is_digit b \<and> digit_val a * 10 + digit_val b < 24"
    using assms digit_val_less [of b] z unfolding v hh_mm_def by auto
  then show thesis using that [of a b d e] assms unfolding v hh_mm_def by simp
qed

text \<open>A time of day read from a request is printed back as it was written.\<close>

theorem time_of_day_roundtrip:
  assumes "parseHhMm v = Inr t"
  shows "formatHhMm t = v \<and> 0 \<le> t \<and> t < day_ms"
proof -
  have h: "hh_mm v" and t: "t = int (digits_val (take 2 v)) * 3600000 + int (digits_val (drop 3 v)) * 60000"
    using assms by (auto simp: parseHhMm_def split: if_splits)
  obtain a b d e where v: "v = [a, b, CHR '':'', d, e]" "is_digit a" "is_digit b" "is_digit d" "is_digit e"
      "digit_val a * 10 + digit_val b < 24" "digit_val d \<le> 5"
    by (rule hh_mm_cases [OF h])
  let ?h = "digit_val a * 10 + digit_val b" and ?m = "digit_val d * 10 + digit_val e"
  have m: "?m < 60" using v(7) digit_val_less [OF v(5)] by simp
  have t': "t = int ?h * 3600000 + int ?m * 60000" using t v(1) by (simp add: digits_two)
  have q: "(h * 3600000 + k * 60000) div 3600000 = h \<and> (h * 3600000 + k * 60000) div 60000 mod 60 = k"
    if "0 \<le> k" "k < 60" for h k :: int
  proof -
    have "(h * 3600000 + k * 60000) div 60000 = h * 60 + k" using that by linarith
    moreover have "(h * 60 + k) mod 60 = k" using that by simp
    ultimately show ?thesis using that by simp
  qed
  have "int ?m < 60" using m by simp
  then have "t div 3600000 = int ?h" "t div 60000 mod 60 = int ?m"
    using q [of "int ?m" "int ?h"] unfolding t' by simp_all
  moreover have "t div 3600000 mod 24 = int ?h" using calculation(1) v(6) by simp
  ultimately have "nat (t div 3600000 mod 24) = ?h" "nat (t div 60000 mod 60) = ?m" by (simp_all only: nat_int)
  then have "formatHhMm t = [a, b] @ '':'' @ [d, e]"
    using v(2-5) by (simp only: formatHhMm_def pad_pair)
  then show ?thesis using v(1,6) m t' by (simp add: day_ms_def)
qed

section \<open>Capacity\<close>

text \<open>Class ids are unique, enrollments name classes, and no class is overbooked.\<close>

definition class_inv :: "app \<Rightarrow> bool" where
  "class_inv s \<longleftrightarrow> distinct (map cls_id (classes s)) \<and>
     (\<forall>e \<in> set (enrollments s). enr_classId e \<in> cls_id ` set (classes s)) \<and>
     (\<forall>c \<in> set (classes s). int (count_rows (open_in (cls_id c)) (enrollments s)) \<le> cls_capacity c)"

lemma class_inv_cong: "classes s' = classes s \<Longrightarrow> enrollments s' = enrollments s \<Longrightarrow> class_inv s' = class_inv s"
  by (simp add: class_inv_def)

lemma class_inv_same_db: "same_db s' s \<Longrightarrow> class_inv s' = class_inv s"
  by (rule class_inv_cong) (simp_all add: same_db_tables)

lemma class_inv_audited [simp]: "class_inv (audited u e d s) = class_inv s"
  by (rule class_inv_same_db) simp

lemma count_open_zero: "\<forall>e \<in> set t. enr_classId e \<noteq> i \<Longrightarrow> count_rows (open_in i) t = 0"
  by (auto simp: open_in_def count_rows_def filter_empty_conv)

lemma class_inv_insert:
  assumes "class_inv s" and "classes s' = classes s @ [c]" and "enrollments s' = enrollments s"
    and "cls_id c \<notin> cls_id ` set (classes s)" and "0 \<le> cls_capacity c"
  shows "class_inv s'"
proof -
  have "count_rows (open_in (cls_id c)) (enrollments s) = 0"
    using assms(1,4) unfolding class_inv_def by (intro count_open_zero) metis
  then have "int (count_rows (open_in (cls_id c)) (enrollments s)) \<le> cls_capacity c" using assms(5) by (simp only: of_nat_0)
  then show ?thesis using assms by (auto simp: class_inv_def)
qed

lemma class_inv_createClass:
  assumes "class_inv s" and "\<forall>n. cap = Some n \<longrightarrow> 0 \<le> n"
  shows "class_inv (fst (createClass name i loc cap s))"
proof (cases "assertInstructorUser i s")
  case (Inr u)
  obtain s1 r where c: "create_in class_uqs classes put_classes (new_class name i loc cap) s = (s1, r)" by fastforce
  have "class_inv s1" using c
  proof (cases rule: class_rows.create_cases)
    case (fail e)
    then show ?thesis using class_inv_same_db assms(1) by blast
  next
    case (ok k)
    have "unique_on (\<lambda>c. Some (cls_id c)) (classes s @ [new_class name i loc cap k])" using ok(5) by (simp add: class_uqs_def)
    then have "k \<notin> cls_id ` set (classes s)" by (auto simp: unique_on_total new_class_def)
    then show ?thesis using class_inv_insert [OF assms(1) ok(4)] assms(2)
      by (simp add: ok(3) new_class_def split: option.split)
  qed
  then show ?thesis using Inr c by (cases r) (simp_all add: createClass_def bindE_def)
qed (use assms in \<open>simp add: createClass_def\<close>)

lemma class_inv_patch:
  assumes "class_inv s" and "classes s' = update_rows (\<lambda>c. cls_id c = cid) (patch_class dto) (classes s)"
    and "enrollments s' = enrollments s"
    and "\<forall>n. ucd_capacity dto = Some n \<longrightarrow> int (count_rows (open_in cid) (enrollments s)) \<le> n"
  shows "class_inv s'"
proof -
  have m: "map cls_id (classes s') = map cls_id (classes s)"
    unfolding assms(2) by (rule map_update_rows_same) (simp add: patch_class_def)
  then have i: "cls_id ` set (classes s') = cls_id ` set (classes s)" by (metis set_map)
  have "int (count_rows (open_in (cls_id c)) (enrollments s)) \<le> cls_capacity c" if c: "c \<in> set (classes s')" for c
  proof -
    obtain x where x: "x \<in> set (classes s)" "c = (if cls_id x = cid then patch_class dto x else x)"
      using c unfolding assms(2) by (auto simp: set_update_rows)
    have "int (count_rows (open_in (cls_id x)) (enrollments s)) \<le> cls_capacity x"
      using assms(1) x(1) by (simp add: class_inv_def)
    then show ?thesis using x(2) assms(4) by (auto simp: patch_class_def split: option.split)
  qed
  then show ?thesis using assms(1,3) m i by (simp add: class_inv_def)
qed

lemma class_inv_updateClass:
  assumes "class_inv s"
  shows "class_inv (fst (updateClass (enrollments s) cid dto s))"
proof -
  obtain s1 r where u: "update_in class_uqs classes put_classes (\<lambda>c. cls_id c = cid) (patch_class dto) s = (s1, r)" by fastforce
  have "class_inv s1" if n: "\<forall>n. ucd_capacity dto = Some n \<longrightarrow> int (count_rows (open_in cid) (enrollments s)) \<le> n"
    using u
  proof (cases rule: class_rows.update_cases)
    case (ok x)
    then show ?thesis using class_inv_patch [OF assms ok(4) _ n] by simp
  qed (use assms in simp)
  then show ?thesis using u assms
    by (cases r; auto simp: updateClass_def bindE_def split: option.splits sum.splits)
qed

lemma class_inv_leave:
  assumes "class_inv s" and "enrollments s' = update_rows w (\<lambda>e. e\<lparr>enr_leftAt := Some now\<rparr>) (enrollments s)" and "classes s' = classes s"
  shows "class_inv s'"
proof -
  have "count_rows (open_in i) (update_rows w (\<lambda>e. e\<lparr>enr_leftAt := Some now\<rparr>) t) \<le> count_rows (open_in i) t" for i t
    by (induction t) (auto simp: count_rows_def open_in_def)
  then have "count_rows (open_in i) (enrollments s') \<le> count_rows (open_in i) (enrollments s)" for i
    unfolding assms(2) .
  then have "int (count_rows (open_in i) (enrollments s')) \<le> n" if "int (count_rows (open_in i) (enrollments s)) \<le> n" for i n
    using that by (meson of_nat_mono order_trans)
  moreover have "\<forall>e \<in> set (enrollments s'). enr_classId e \<in> cls_id ` set (classes s)"
    using assms(1) unfolding assms(2) by (auto simp: class_inv_def set_update_rows)
  ultimately show ?thesis using assms(1,3) by (simp add: class_inv_def)
qed

lemma class_inv_removeEnrollment:
  assumes "class_inv s"
  shows "class_inv (fst (removeEnrollment eid now s))"
proof -
  obtain s1 r where u: "update_in enrollment_uqs enrollments put_enrollments (\<lambda>e. enr_id e = eid) (\<lambda>e. e\<lparr>enr_leftAt := Some now\<rparr>) s = (s1, r)"
    by fastforce
  have "class_inv s1" using u
  proof (cases rule: enrolled.update_cases)
    case (ok x)
    then show ?thesis using class_inv_leave [OF assms ok(4)] by simp
  qed (use assms in simp)
  then show ?thesis using u assms by (cases r) (simp_all add: removeEnrollment_def bindE_def)
qed

lemma enroll_tx_Inr:
  assumes "enroll_tx sid cid now s = (s', Inr e)"
  obtains c where "find_class cid s = Some c" "int (count_rows (open_in cid) (enrollments s)) < cls_capacity c"
    "create_in enrollment_uqs enrollments put_enrollments (new_enrollment sid cid now) s = (s', Inr e)"
  using assms by (auto simp: enroll_tx_def split: option.splits if_splits)

lemma class_inv_createEnrollment:
  assumes "class_inv s"
  shows "class_inv (fst (createEnrollment sid cid now s))"
proof -
  obtain s1 r where t: "transaction (enroll_tx sid cid now) s = (s1, r)" by fastforce
  have "class_inv s1"
  proof (cases r)
    case (Inl x)
    then show ?thesis using transaction_Inl t class_inv_same_db assms by blast
  next
    case (Inr e)
    then have "enroll_tx sid cid now s = (s1, Inr e)" using t by (simp add: transaction_Inr)
    then obtain c where c: "find_class cid s = Some c" "int (count_rows (open_in cid) (enrollments s)) < cls_capacity c"
        "create_in enrollment_uqs enrollments put_enrollments (new_enrollment sid cid now) s = (s1, Inr e)"
      by (rule enroll_tx_Inr)
    have f: "c \<in> set (classes s)" "cls_id c = cid" using c(1) find_Some_iff by (fastforce simp: find_class_def)+
    have e: "e = new_enrollment sid cid now (uuid_src s (uuid_ctr s))" "enrollments s1 = enrollments s @ [e]" "classes s1 = classes s"
      using enrolled.create_Inr(1-3) [OF c(3)] by simp_all
    have "int (count_rows (open_in (cls_id d)) (enrollments s1)) \<le> cls_capacity d" if d: "d \<in> set (classes s)" for d
    proof (cases "cls_id d = cid")
      case True
      then have "d = c" using assms d f by (auto simp: class_inv_def distinct_map dest: inj_onD)
      then show ?thesis using c(2) f(2) e by (simp add: count_rows_append count_rows_def [of _ "[_]"])
    next
      case False
      then show ?thesis using assms d e by (simp add: class_inv_def count_rows_append count_rows_def [of _ "[_]"] open_in_def new_enrollment_def)
    qed
    then show ?thesis using assms e f by (auto simp: class_inv_def new_enrollment_def)
  qed
  then show ?thesis using t by (cases r) (simp_all add: createEnrollment_def bindE_def)
qed

text \<open>The requests, one after another; the count of a capacity change is current.\<close>

inductive class_step :: "app \<Rightarrow> app \<Rightarrow> bool" where
  create: "\<forall>n. cap = Some n \<longrightarrow> 1 \<le> n \<Longrightarrow> class_step s (fst (createClass name i loc cap s))"
| update: "class_step s (fst (updateClass (enrollments s) cid dto s))"
| add: "class_step s (fst (addSchedule cid sdto s))"
| remove: "class_step s (fst (removeSchedule cid schedId s))"
| enroll: "class_step s (fst (createEnrollment sid cid now s))"
| leave: "class_step s (fst (removeEnrollment eid now s))"

inductive class_run :: "app \<Rightarrow> app \<Rightarrow> bool" for s0 where
  start: "class_run s0 s0"
| step: "class_run s0 s \<Longrightarrow> class_step s s' \<Longrightarrow> class_run s0 s'"

lemma class_inv_schedules:
  "class_inv (fst (addSchedule cid dto s)) = class_inv s" "class_inv (fst (removeSchedule cid k s)) = class_inv s"
  by (rule class_inv_cong;
      auto simp: addSchedule_def removeSchedule_def bindE_def create_in_def fresh_uuid_def delete_in_def returnE_def
        split: sum.splits option.splits)+

lemma class_step_inv: "class_step s s' \<Longrightarrow> class_inv s \<Longrightarrow> class_inv s'"
proof (induction rule: class_step.induct)
  case (create cap s name i loc)
  then show ?case by (intro class_inv_createClass) fastforce+
qed (simp_all add: class_inv_updateClass class_inv_schedules class_inv_createEnrollment class_inv_removeEnrollment)

text \<open>
  C24: No class is overbooked while the edits of a class count its current enrollments: from a state where
  every class has at most as many open enrollments as places, every sequence of requests (classes
  created, enrollments opened and closed, schedules edited, and classes changed where the
  enrollments that \<^verbatim>\<open>updateClass\<close> counted are those at its update) leads to such a state; a request
  for one place too many is refused. Without the condition a change of the capacity can overbook the class
  (\<open>capacity_change_race\<close>).
\<close>

theorem class_capacity_invariant:
  assumes "class_run s0 s" and "class_inv s0" and "find_class cid s = Some c"
  shows "int (count_rows (open_in cid) (enrollments s)) \<le> cls_capacity c \<and>
    (int (count_rows (open_in cid) (enrollments s)) = cls_capacity c \<longrightarrow>
      (\<exists>s' e. createEnrollment sid cid now s = (s', Inl e) \<and> same_db s' s))"
proof -
  have "class_inv s" using assms(1,2) by (induction rule: class_run.induct) (auto intro: class_step_inv)
  moreover have "c \<in> set (classes s)" "cls_id c = cid" using assms(3) find_Some_iff by (fastforce simp: find_class_def)+
  ultimately have le: "int (count_rows (open_in cid) (enrollments s)) \<le> cls_capacity c" by (auto simp: class_inv_def)
  have "\<exists>e. enroll_tx sid cid now s = (s, Inl e)" if "int (count_rows (open_in cid) (enrollments s)) = cls_capacity c"
    using that assms(3) by (auto simp: enroll_tx_def split: option.split)
  then show ?thesis using le by (auto simp: createEnrollment_def bindE_def transaction_def)
qed

text \<open>
  The count of a capacity change is not protected: if an enrollment commits between the count and
  the update, the class ends up overbooked.
\<close>

theorem capacity_change_race:
  assumes "find_class cid s = Some c" and "distinct (map cls_id (classes s))"
    and "count_rows (open_in cid) (enrollments s) = Suc (count_rows (open_in cid) counted)"
    and "dto = \<lparr> ucd_name = None, ucd_instructorId = None, ucd_location = None,
           ucd_capacity = Some (int (count_rows (open_in cid) counted)), ucd_status = None \<rparr>"
  shows "\<exists>v s' c'. updateClass counted cid dto s = (s', Inr v) \<and> find_class cid s' = Some c' \<and>
    cls_capacity c' < int (count_rows (open_in cid) (enrollments s'))"
proof -
  let ?t = "update_rows (\<lambda>c. cls_id c = cid) (patch_class dto) (classes s)"
  have m: "map cls_id ?t = map cls_id (classes s)" by (rule map_update_rows_same) (simp add: patch_class_def)
  then have k: "check_unique class_uqs ?t = Inr ?t" by (intro check_unique_ok) (use assms(2) in \<open>auto simp: class_uqs_def unique_on_total\<close>)
  have "List.find (\<lambda>c. cls_id c = cid) (map f xs) = map_option f (List.find (\<lambda>c. cls_id c = cid) xs)"
    if "\<And>x. cls_id (f x) = cls_id x" for f and xs :: "class_row list"
    using that by (induction xs) simp_all
  from this [of "\<lambda>x. if cls_id x = cid then patch_class dto x else x" "classes s"]
  have f: "List.find (\<lambda>c. cls_id c = cid) ?t = Some (patch_class dto c)"
    using assms(1) find_Some_iff [of "\<lambda>c. cls_id c = cid" "classes s" c] by (simp add: find_class_def patch_class_def table_simps)
  have u: "updateClass counted cid dto s = (audited None ''class_updated'' (''class:'' @ cid) (s\<lparr>classes := ?t\<rparr>),
      Inr (serializeClass (patch_class dto c) [] None))"
    using assms(1,4) k by (simp add: updateClass_def bindE_def update_in_def find_class_def)
  have "classes (audited None ''class_updated'' (''class:'' @ cid) (s\<lparr>classes := ?t\<rparr>)) = ?t"
    "enrollments (audited None ''class_updated'' (''class:'' @ cid) (s\<lparr>classes := ?t\<rparr>)) = enrollments s"
    by (simp_all add: audited_def)
  then show ?thesis using u f assms(3,4) by (simp add: find_class_def patch_class_def)
qed

text \<open>A class of one place, taken.\<close>

definition full0 :: app where
  "full0 = club0\<lparr>classes := [new_class ''A1'' ''coach'' None (Some 1) ''c1''], enrollments := [new_enrollment ''kid'' ''c1'' 0 ''e1'']\<rparr>"

lemma full0_tables: "classes full0 = [new_class ''A1'' ''coach'' None (Some 1) ''c1'']" "enrollments full0 = [new_enrollment ''kid'' ''c1'' 0 ''e1'']"
  by (simp_all add: full0_def)

lemma full0_inv: "class_inv full0"
  by (simp add: class_inv_def full0_tables new_class_def new_enrollment_def count_rows_def)

theorem class_capacity_invariant_witness:
  "\<exists>s' e. createEnrollment ''kid2'' ''c1'' 5 full0 = (s', Inl e) \<and> same_db s' full0"
proof -
  have "find_class ''c1'' full0 = Some (new_class ''A1'' ''coach'' None (Some 1) ''c1'')"
    by (simp add: find_class_def full0_tables new_class_def)
  from class_capacity_invariant [OF class_run.start full0_inv this, of "''kid2''" 5]
  show ?thesis by (simp add: full0_tables new_class_def new_enrollment_def count_rows_def open_in_def)
qed

end
