(* ===== verification/Attendance.thy ===== *)
theory Attendance
  imports Classes "HOL-Library.AList"
begin

text \<open>
  Attendance (\<^verbatim>\<open>attendance/attendance.service.ts\<close>): lessons, the bulk upsert of marks, a student's history and
  monthly summary, and the monthly report of the club. The report's percentage is computed in
  double precision in the source; the model carries the same roundings.
\<close>

section \<open>Month windows\<close>

text \<open>\<^verbatim>\<open>Date.UTC\<close> reads the years 0 to 99 as 1900 to 1999.\<close>

definition utc_year :: "int \<Rightarrow> int" where
  "utc_year y = (if 0 \<le> y \<and> y \<le> 99 then 1900 + y else y)"

definition month_window :: "int \<Rightarrow> int \<Rightarrow> instant \<times> instant" where
  "month_window year month = (date_UTC (utc_year year) (month - 1) 1, date_UTC (utc_year year) month 1)"

text \<open>The request's month has the form YYYY-MM, which the validator checks.\<close>

definition month_text :: "string \<Rightarrow> bool" where
  "month_text m \<longleftrightarrow> length m = 7 \<and> m ! 4 = CHR ''-'' \<and> (\<forall>c \<in> set (take 4 m @ drop 5 m). is_digit c) \<and>
     1 \<le> digits_val (drop 5 m) \<and> digits_val (drop 5 m) \<le> 12"

definition monthRange :: "string \<Rightarrow> instant \<times> instant" where
  "monthRange m = month_window (int (digits_val (take 4 m))) (int (digits_val (drop 5 m)))"

section \<open>Lessons and marks\<close>

definition lesson_uqs :: "(attendance_session, string list) uq list" where
  "lesson_uqs = [([''id''], \<lambda>x. Some [ats_id x]),
     ([''class_id'', ''session_date''], \<lambda>x. Some [ats_classId x, show_int (ats_sessionDate x)])]"

definition record_uqs :: "(attendance_record, string list) uq list" where
  "record_uqs = [([''id''], \<lambda>r. Some [atr_id r]),
     ([''attendance_session_id'', ''student_id''], \<lambda>r. Some [atr_sessionId r, atr_studentId r])]"

definition new_session :: "uuid \<Rightarrow> instant \<Rightarrow> uuid \<Rightarrow> string option \<Rightarrow> uuid \<Rightarrow> attendance_session" where
  "new_session cid sessionDate instructorId topic i = \<lparr> ats_id = i, ats_classId = cid, ats_sessionDate = as_date sessionDate,
     ats_instructorId = instructorId, ats_topic = topic \<rparr>"

definition createSession :: "caller \<Rightarrow> uuid \<Rightarrow> instant \<Rightarrow> string option \<Rightarrow> app \<Rightarrow> app \<times> attendance_session res" where
  "createSession cal cid sessionDate topic s = (case assertManageable cal cid s of
       Inl e \<Rightarrow> (s, Inl e)
     | Inr c \<Rightarrow>
         if cls_status c \<noteq> CActive then (s, Inl (Conflict ''Class is not active''))
         else let instructorId = (if cal_role cal = INSTRUCTOR then cal_id cal else cls_instructorId c) in
           case create_in lesson_uqs attendanceSessions put_asessions (new_session cid sessionDate instructorId topic) s of
             (s1, Inl e) \<Rightarrow> (s1, Inl (if is_P2002 e then Conflict ''Attendance session already exists for this date'' else e))
           | (s1, Inr x) \<Rightarrow> (audited None ''attendance_session_created'' (''session:'' @ ats_id x @ '' class:'' @ cid) s1, Inr x))"

definition find_session :: "uuid \<Rightarrow> app \<Rightarrow> attendance_session option" where
  "find_session i s = List.find (\<lambda>x. ats_id x = i) (attendanceSessions s)"

text \<open>The lesson's class exists (foreign key); a missing one would make the property access fail.\<close>

definition assertSessionAccessible :: "caller \<Rightarrow> uuid \<Rightarrow> app \<Rightarrow> attendance_session res" where
  "assertSessionAccessible cal i s = (case find_session i s of
       None \<Rightarrow> Inl (NotFound ''Not found'')
     | Some x \<Rightarrow>
         if cal_role cal = INSTRUCTOR \<and> map_option cls_instructorId (find_class (ats_classId x) s) \<noteq> Some (cal_id cal)
         then Inl (NotFound ''Not found'')
         else if cal_role cal \<noteq> ADMIN \<and> cal_role cal \<noteq> INSTRUCTOR then Inl (NotFound ''Not found'')
         else Inr x)"

record mark_dto =
  mkd_studentId :: uuid
  mkd_status :: attendance_status
  mkd_note :: "string option"

record mark_view =
  mkv_id :: uuid
  mkv_studentId :: uuid
  mkv_fullName :: "string option"
  mkv_status :: attendance_status
  mkv_note :: "string option"

definition serializeRecord :: "student_profile option \<Rightarrow> attendance_record \<Rightarrow> mark_view" where
  "serializeRecord p r = \<lparr> mkv_id = atr_id r, mkv_studentId = atr_studentId r, mkv_fullName = map_option stu_fullName p,
     mkv_status = atr_status r, mkv_note = atr_note r \<rparr>"

definition new_mark :: "caller \<Rightarrow> uuid \<Rightarrow> mark_dto \<Rightarrow> uuid \<Rightarrow> attendance_record" where
  "new_mark cal sid m i = \<lparr> atr_id = i, atr_sessionId = sid, atr_studentId = mkd_studentId m, atr_status = mkd_status m,
     atr_note = mkd_note m, atr_recordedBy = cal_id cal \<rparr>"

definition patch_mark :: "caller \<Rightarrow> mark_dto \<Rightarrow> attendance_record \<Rightarrow> attendance_record" where
  "patch_mark cal m r = r\<lparr>atr_status := mkd_status m, atr_note := given (mkd_note m) (atr_note r), atr_recordedBy := cal_id cal\<rparr>"

definition mark_of :: "uuid \<Rightarrow> uuid \<Rightarrow> attendance_record \<Rightarrow> bool" where
  "mark_of sid stu r \<longleftrightarrow> atr_sessionId r = sid \<and> atr_studentId r = stu"

definition upsert_mark :: "caller \<Rightarrow> uuid \<Rightarrow> mark_dto \<Rightarrow> app \<Rightarrow> app \<times> attendance_record res" where
  "upsert_mark cal sid m s =
     (if List.find (mark_of sid (mkd_studentId m)) (attendanceRecords s) = None
      then create_in record_uqs attendanceRecords put_records (new_mark cal sid m) s
      else update_in record_uqs attendanceRecords put_records (mark_of sid (mkd_studentId m)) (patch_mark cal m) s)"

fun upsert_all :: "caller \<Rightarrow> uuid \<Rightarrow> mark_dto list \<Rightarrow> app \<Rightarrow> app \<times> attendance_record list res" where
  "upsert_all cal sid [] s = (s, Inr [])"
| "upsert_all cal sid (m # ms) s = bindE (upsert_mark cal sid m) (\<lambda>r. bindE (upsert_all cal sid ms) (\<lambda>rs. returnE (r # rs))) s"

definition enrolled_among :: "uuid \<Rightarrow> uuid list \<Rightarrow> app \<Rightarrow> enrollment list" where
  "enrolled_among cid ids s = filter (\<lambda>e. open_in cid e \<and> enr_studentId e \<in> set ids) (enrollments s)"

definition upsertRecords :: "caller \<Rightarrow> uuid \<Rightarrow> mark_dto list \<Rightarrow> app \<Rightarrow> app \<times> mark_view list res" where
  "upsertRecords cal sid ms s = (case assertSessionAccessible cal sid s of
       Inl e \<Rightarrow> (s, Inl e)
     | Inr x \<Rightarrow>
         if \<not> distinct (map mkd_studentId ms) then (s, Inl (BadRequest ''Duplicate students in records''))
         else if length (enrolled_among (ats_classId x) (map mkd_studentId ms) s) \<noteq> length ms
         then (s, Inl (BadRequest ''Some students are not enrolled in this class''))
         else bindE (transaction (upsert_all cal sid ms)) (\<lambda>rs s1.
           (audited None ''attendance_recorded'' (''session:'' @ sid @ '' records:'' @ show_nat (length rs)) s1,
            Inr (map (serializeRecord None) rs))) s)"

text \<open>The table keeps the order of creation.\<close>

definition listRecords :: "caller \<Rightarrow> uuid \<Rightarrow> app \<Rightarrow> (mark_view list \<times> nat) res" where
  "listRecords cal sid s = (case assertSessionAccessible cal sid s of
       Inl e \<Rightarrow> Inl e
     | Inr _ \<Rightarrow> (let rs = filter (\<lambda>r. atr_sessionId r = sid) (attendanceRecords s) in
         Inr (map (\<lambda>r. serializeRecord (List.find (\<lambda>p. stu_id p = atr_studentId r) (students s)) r) rs, length rs)))"

section \<open>A student's attendance\<close>

record history_item =
  his_sessionId :: uuid
  his_sessionDate :: "instant option"
  his_classId :: "uuid option"
  his_className :: "string option"
  his_status :: attendance_status
  his_note :: "string option"

definition lesson_of :: "app \<Rightarrow> attendance_record \<Rightarrow> attendance_session option" where
  "lesson_of s r = find_session (atr_sessionId r) s"

definition history_item_of :: "app \<Rightarrow> attendance_record \<Rightarrow> history_item" where
  "history_item_of s r = \<lparr> his_sessionId = atr_sessionId r, his_sessionDate = map_option ats_sessionDate (lesson_of s r),
     his_classId = map_option ats_classId (lesson_of s r),
     his_className = Option.bind (lesson_of s r) (\<lambda>x. map_option cls_name (find_class (ats_classId x) s)),
     his_status = atr_status r, his_note = atr_note r \<rparr>"

text \<open>A bound of the window is compared with a DATE column, so only its day counts.\<close>

definition in_window :: "instant option \<Rightarrow> instant option \<Rightarrow> attendance_session \<Rightarrow> bool" where
  "in_window from to x \<longleftrightarrow> (case from of None \<Rightarrow> True | Some t \<Rightarrow> ats_sessionDate x \<ge> as_date t) \<and>
     (case to of None \<Rightarrow> True | Some t \<Rightarrow> ats_sessionDate x \<le> as_date t)"

definition attendance_history ::
  "caller \<Rightarrow> uuid \<Rightarrow> instant option \<Rightarrow> instant option \<Rightarrow> nat \<Rightarrow> nat \<Rightarrow> app \<Rightarrow> (history_item list \<times> nat) res" where
  "attendance_history cal stu from to page limit s = (case assertCanAccess s cal stu of
       Inl e \<Rightarrow> Inl e
     | Inr _ \<Rightarrow>
         let found = filter (\<lambda>r. atr_studentId r = stu \<and>
               (if from = None \<and> to = None then True else (case lesson_of s r of None \<Rightarrow> False | Some x \<Rightarrow> in_window from to x)))
               (attendanceRecords s);
             key = (\<lambda>r. case lesson_of s r of None \<Rightarrow> 0 | Some x \<Rightarrow> - ats_sessionDate x)
         in Inr (map (history_item_of s) (page_of page limit (sort_key key found)), length found))"

definition in_month :: "instant \<times> instant \<Rightarrow> attendance_session \<Rightarrow> bool" where
  "in_month w x \<longleftrightarrow> fst w \<le> ats_sessionDate x \<and> ats_sessionDate x < snd w"

text \<open>The counters per status, with the number of records.\<close>

definition attendance_summary :: "caller \<Rightarrow> uuid \<Rightarrow> string \<Rightarrow> app \<Rightarrow> ((attendance_status \<Rightarrow> nat) \<times> nat) res" where
  "attendance_summary cal stu month s = (case assertCanAccess s cal stu of
       Inl e \<Rightarrow> Inl e
     | Inr _ \<Rightarrow>
         let found = filter (\<lambda>r. atr_studentId r = stu \<and>
               (case lesson_of s r of None \<Rightarrow> False | Some x \<Rightarrow> in_month (monthRange month) x)) (attendanceRecords s)
         in Inr (foldl (\<lambda>c r. c(atr_status r := c (atr_status r) + 1)) (\<lambda>_. 0) found, length found))"

section \<open>Percentages in double precision\<close>

text \<open>Division with rounding to the nearest integer, ties to even.\<close>

definition round_quot :: "nat \<Rightarrow> nat \<Rightarrow> nat" where
  "round_quot n d = (let q = n div d; r = n mod d in
     if 2 * r < d then q else if d < 2 * r then q + 1 else if even q then q else q + 1)"

text \<open>The number of doublings after which \<open>a / m\<close> has 53 bits before the point.\<close>

function scale :: "nat \<Rightarrow> nat \<Rightarrow> nat" where
  "scale a m = (if a = 0 \<or> 2 ^ 52 * m \<le> a then 0 else Suc (scale (2 * a) m))"
  by pat_completeness auto
termination by (relation "measure (\<lambda>(a, m). 2 ^ 52 * m - a)") auto

fun excess :: "nat \<Rightarrow> nat" where
  "excess p = (if p < 2 ^ 53 then 0 else Suc (excess (p div 2)))"

declare scale.simps [simp del] excess.simps [simp del]

text \<open>A double is a significand and the power of two that divides it.\<close>

definition dbl_div :: "nat \<Rightarrow> nat \<Rightarrow> nat \<times> nat" where
  "dbl_div a m = (let k = scale a m in (round_quot (a * 2 ^ k) m, k))"

definition dbl_mul :: "nat \<times> nat \<Rightarrow> nat \<Rightarrow> nat \<times> nat" where
  "dbl_mul x c = (let p = fst x * c; j = min (excess p) (snd x) in (round_quot p (2 ^ j), snd x - j))"

definition math_round :: "nat \<times> nat \<Rightarrow> nat" where
  "math_round x = (2 * fst x + 2 ^ snd x) div 2 ^ (snd x + 1)"

text \<open>The rate in tenths of a percent.\<close>

definition attendanceRate :: "nat \<Rightarrow> nat \<Rightarrow> nat option" where
  "attendanceRate attended marked = (if marked = 0 then None else Some (math_round (dbl_mul (dbl_div attended marked) 1000)))"

section \<open>The monthly report\<close>

record report_row =
  rpt_classId :: uuid
  rpt_className :: string
  rpt_sessionsHeld :: nat
  rpt_counts :: "attendance_status \<Rightarrow> nat"
  rpt_marked :: nat
  rpt_rate :: "nat option"

text \<open>The database's grouping by status and lesson, with the size of each group.\<close>

definition grouped :: "attendance_record list \<Rightarrow> ((attendance_status \<times> uuid) \<times> nat) list" where
  "grouped rs = (let key = (\<lambda>r. (atr_status r, atr_sessionId r)) in
     map (\<lambda>k. (k, count_rows (\<lambda>r. key r = k) rs)) (remdups (map key rs)))"

type_synonym bucket = "(attendance_status \<times> nat) list"

definition add_group :: "(attendance_status \<times> uuid) \<times> nat \<Rightarrow> (uuid \<times> bucket) list \<Rightarrow> (uuid \<times> bucket) list" where
  "add_group g m = (case g of ((st, sid), n) \<Rightarrow>
     AList.update sid (AList.update st n (case map_of m sid of None \<Rightarrow> [] | Some b \<Rightarrow> b)) m)"

definition status_by_session :: "((attendance_status \<times> uuid) \<times> nat) list \<Rightarrow> (uuid \<times> bucket) list" where
  "status_by_session gs = fold add_group gs []"

definition bump :: "attendance_status \<times> nat \<Rightarrow> (attendance_status \<Rightarrow> nat) \<Rightarrow> attendance_status \<Rightarrow> nat" where
  "bump p c = c(fst p := c (fst p) + snd p)"

definition tally :: "(uuid \<times> bucket) list \<Rightarrow> attendance_session list \<Rightarrow> attendance_status \<Rightarrow> nat" where
  "tally m xs = fold (\<lambda>x c. fold bump (case map_of m (ats_id x) of None \<Rightarrow> [] | Some b \<Rightarrow> b) c) xs (\<lambda>_. 0)"

definition class_report :: "(uuid \<times> bucket) list \<Rightarrow> attendance_session list \<Rightarrow> class_row \<Rightarrow> report_row" where
  "class_report m xs c = (let own = filter (\<lambda>x. ats_classId x = cls_id c) xs; n = tally m own;
       marked = n PRESENT + n LATE + n ABSENT + n EXCUSED in
     \<lparr> rpt_classId = cls_id c, rpt_className = cls_name c, rpt_sessionsHeld = length own, rpt_counts = n, rpt_marked = marked,
       rpt_rate = attendanceRate (n PRESENT + n LATE) marked \<rparr>)"

definition report_classes :: "caller \<Rightarrow> app \<Rightarrow> class_row list" where
  "report_classes cal s = filter (\<lambda>c. cal_role cal = ADMIN \<or> (cls_instructorId c = cal_id cal \<and> cls_status c \<noteq> CArchived)) (classes s)"

definition monthlyReport :: "caller \<Rightarrow> int \<Rightarrow> int \<Rightarrow> app \<Rightarrow> report_row list" where
  "monthlyReport cal month year s = (let cs = report_classes cal s in
     if cs = [] then []
     else let xs = filter (\<lambda>x. ats_classId x \<in> set (map cls_id cs) \<and> in_month (month_window year month) x) (attendanceSessions s);
              rs = filter (\<lambda>r. atr_sessionId r \<in> set (map ats_id xs)) (attendanceRecords s);
              m = status_by_session (grouped rs)
          in map (class_report m xs) cs)"

section \<open>The report counts the records\<close>

definition mark_count :: "(uuid \<times> bucket) list \<Rightarrow> uuid \<Rightarrow> attendance_status \<Rightarrow> nat option" where
  "mark_count m sid st = (case map_of m sid of None \<Rightarrow> None | Some b \<Rightarrow> map_of b st)"

definition buckets_ok :: "(uuid \<times> bucket) list \<Rightarrow> bool" where
  "buckets_ok m \<longleftrightarrow> (\<forall>sid b. map_of m sid = Some b \<longrightarrow> distinct (map fst b))"

lemma add_group_ok: "buckets_ok m \<Longrightarrow> buckets_ok (add_group g m)"
  by (auto simp: buckets_ok_def add_group_def update_conv' distinct_update split: prod.split option.split if_splits)

lemma add_group_count:
  "mark_count (add_group ((st, sid), n) m) sid' st' = (if sid' = sid \<and> st' = st then Some n else mark_count m sid' st')"
  by (auto simp: mark_count_def add_group_def update_conv' split: option.split)

lemma groups_ok: "buckets_ok m \<Longrightarrow> buckets_ok (fold add_group gs m)"
  by (induction gs arbitrary: m) (simp_all add: add_group_ok)

lemma groups_count:
  "distinct (map fst gs) \<Longrightarrow>
     mark_count (fold add_group gs m) sid st = (case map_of gs (st, sid) of None \<Rightarrow> mark_count m sid st | Some n \<Rightarrow> Some n)"
proof (induction gs arbitrary: m)
  case (Cons g gs)
  obtain st0 sid0 n where g: "g = ((st0, sid0), n)" by (metis surj_pair)
  have "map_of gs (st0, sid0) = None" using Cons.prems g by (simp add: map_of_eq_None_iff)
  then show ?case using Cons g by (auto simp: add_group_count split: option.split)
qed simp

lemma map_of_grouped:
  "map_of (grouped rs) (st, sid) =
     (let n = count_rows (\<lambda>r. atr_status r = st \<and> atr_sessionId r = sid) rs in if n = 0 then None else Some n)"
  by (auto simp: grouped_def Let_def map_of_map_restrict restrict_map_def count_rows_def filter_empty_conv image_iff)

lemma distinct_grouped: "distinct (map fst (grouped rs))"
  by (simp add: grouped_def Let_def comp_def)

lemma mark_count_grouped:
  "(case mark_count (status_by_session (grouped rs)) sid st of None \<Rightarrow> 0 | Some n \<Rightarrow> n) =
     count_rows (\<lambda>r. atr_status r = st \<and> atr_sessionId r = sid) rs"
  unfolding status_by_session_def groups_count [OF distinct_grouped] map_of_grouped Let_def
  by (simp add: mark_count_def [of "[]"] del: count_rows_0)

lemma bucket_fold:
  "distinct (map fst b) \<Longrightarrow>
     fold bump b c st = c st + (case map_of b st of None \<Rightarrow> 0 | Some n \<Rightarrow> (n::nat))"
proof (induction b arbitrary: c)
  case (Cons p b)
  obtain st0 n where p: "p = (st0, n)" by fastforce
  then have "map_of b st0 = None" using Cons.prems by (simp add: map_of_eq_None_iff)
  then show ?case using Cons p by (simp add: bump_def split: option.split)
qed simp

lemma tally_step:
  "buckets_ok m \<Longrightarrow>
     fold (\<lambda>x c. fold bump (case map_of m (ats_id x) of None \<Rightarrow> [] | Some b \<Rightarrow> b) c) xs c st =
     c st + sum_list (map (\<lambda>x. case mark_count m (ats_id x) st of None \<Rightarrow> 0 | Some n \<Rightarrow> n) xs)"
proof (induction xs arbitrary: c)
  case (Cons x xs)
  have "distinct (map fst (case map_of m (ats_id x) of None \<Rightarrow> [] | Some b \<Rightarrow> b))"
    using Cons.prems by (auto simp: buckets_ok_def split: option.split)
  then have "fold bump (case map_of m (ats_id x) of None \<Rightarrow> [] | Some b \<Rightarrow> b) c st =
      c st + (case mark_count m (ats_id x) st of None \<Rightarrow> 0 | Some n \<Rightarrow> n)"
    by (cases "map_of m (ats_id x)") (simp_all add: bucket_fold mark_count_def)
  then show ?case using Cons by simp
qed simp

lemma count_by_lesson:
  "distinct (map f xs) \<Longrightarrow>
     sum_list (map (\<lambda>x. count_rows (\<lambda>r. P r \<and> g r = f x) rs) xs) = count_rows (\<lambda>r. P r \<and> g r \<in> f ` set xs) rs"
proof (induction rs)
  case (Cons r rs)
  have "sum_list (map (\<lambda>x. if g r = f x then 1 else 0) xs) = (if g r \<in> f ` set xs then 1 else (0::nat))"
    using Cons.prems by (induction xs) auto
  moreover have "count_rows w (r # rs) = (if w r then 1 else 0) + count_rows w rs" for w
    by (simp add: count_rows_def)
  ultimately show ?case using Cons by (cases "P r") (simp_all add: sum_list_addf)
qed (simp add: count_rows_def)

lemma tally_counts:
  assumes "distinct (map ats_id xs)"
  shows "tally (status_by_session (grouped rs)) xs st =
    count_rows (\<lambda>r. atr_status r = st \<and> atr_sessionId r \<in> ats_id ` set xs) rs"
proof -
  have "buckets_ok (status_by_session (grouped rs))"
    unfolding status_by_session_def by (rule groups_ok) (simp add: buckets_ok_def)
  then show ?thesis
    unfolding tally_def by (simp only: tally_step mark_count_grouped count_by_lesson [OF assms] add_0)
qed

lemma round_quot_le: "0 < d \<Longrightarrow> n \<le> q * d \<Longrightarrow> round_quot n d \<le> q"
proof -
  assume d: "0 < d" and n: "n \<le> q * d"
  have "n div d \<le> q" using n d by (metis div_le_mono div_mult_self_is_m)
  moreover have "n mod d = 0" if "n div d = q"
  proof -
    have "q * d + n mod d = n" using that by (metis div_mult_mod_eq)
    then show ?thesis using n by linarith
  qed
  ultimately show ?thesis using d by (cases "n div d = q") (auto simp: round_quot_def Let_def)
qed

lemma math_round_le: "fst x \<le> q * 2 ^ snd x \<Longrightarrow> math_round x \<le> q"
proof -
  assume "fst x \<le> q * 2 ^ snd x"
  moreover have "(q + 1) * 2 ^ (snd x + 1) = 2 * (q * 2 ^ snd x) + 2 * (2 ^ snd x :: nat)" "0 < (2 ^ snd x :: nat)"
    by (simp_all add: algebra_simps)
  ultimately have "2 * fst x + 2 ^ snd x < (q + 1) * 2 ^ (snd x + 1)" by linarith
  then have "math_round x < q + 1" unfolding math_round_def by (metis less_mult_imp_div_less)
  then show ?thesis by simp
qed

lemma attendanceRate_le:
  assumes "a \<le> m" and "attendanceRate a m = Some t"
  shows "t \<le> 1000"
proof -
  have m: "0 < m" using assms(2) by (auto simp: attendanceRate_def split: if_splits)
  let ?k = "scale a m"
  let ?p = "fst (dbl_div a m) * 1000"
  let ?j = "min (excess ?p) ?k"
  have s: "fst (dbl_div a m) \<le> 2 ^ ?k" and k: "snd (dbl_div a m) = ?k"
    using round_quot_le [OF m, of "a * 2 ^ ?k" "2 ^ ?k"] assms(1) by (simp_all add: dbl_div_def Let_def mult.commute)
  have e: "(1000 * 2 ^ (?k - ?j)) * 2 ^ ?j = (1000 * 2 ^ ?k :: nat)"
    by (simp add: power_add [symmetric] mult.assoc)
  have "?p \<le> 1000 * 2 ^ ?k" using s by simp
  then have "round_quot ?p (2 ^ ?j) \<le> 1000 * 2 ^ (?k - ?j)" by (intro round_quot_le) (simp_all only: e, simp_all)
  then have "math_round (dbl_mul (dbl_div a m) 1000) \<le> 1000"
    by (intro math_round_le) (simp add: dbl_mul_def Let_def k)
  then show ?thesis using assms(2) m by (simp add: attendanceRate_def)
qed

definition held :: "uuid \<Rightarrow> instant \<times> instant \<Rightarrow> attendance_session \<Rightarrow> bool" where
  "held cid w x \<longleftrightarrow> ats_classId x = cid \<and> in_month w x"

text \<open>
  C27: The monthly report has one row per class in the caller's scope, in the order of the classes. Its
  lessons and its four counters are exactly the numbers of lessons of the class in the month and
  of attendance records of each status in those lessons, although they are assembled from grouped
  counts through a map of buckets, and the percentage lies between 0 and 100.
\<close>

theorem monthly_report_counts:
  assumes "distinct (map ats_id (attendanceSessions s))"
  shows "map rpt_classId (monthlyReport cal month year s) = map cls_id (report_classes cal s) \<and>
    (\<forall>row \<in> set (monthlyReport cal month year s).
       let here = held (rpt_classId row) (month_window year month) in
       rpt_sessionsHeld row = count_rows here (attendanceSessions s) \<and>
       (\<forall>st. rpt_counts row st =
          count_rows (\<lambda>r. atr_status r = st \<and> (\<exists>x. lesson_of s r = Some x \<and> here x)) (attendanceRecords s)) \<and>
       (\<forall>t. rpt_rate row = Some t \<longrightarrow> t \<le> 1000))"
proof -
  let ?cs = "report_classes cal s" and ?w = "month_window year month"
  define xs where "xs = filter (\<lambda>x. ats_classId x \<in> set (map cls_id ?cs) \<and> in_month ?w x) (attendanceSessions s)"
  define rs where "rs = filter (\<lambda>r. atr_sessionId r \<in> set (map ats_id xs)) (attendanceRecords s)"
  define m where "m = status_by_session (grouped rs)"
  have rows: "monthlyReport cal month year s = map (class_report m xs) ?cs"
    by (simp add: monthlyReport_def Let_def m_def rs_def xs_def)
  have row: "rpt_sessionsHeld row = count_rows (held (rpt_classId row) ?w) (attendanceSessions s) \<and>
       (\<forall>st. rpt_counts row st = count_rows (\<lambda>r. atr_status r = st \<and> (\<exists>x. lesson_of s r = Some x \<and> held (rpt_classId row) ?w x)) (attendanceRecords s)) \<and>
       (\<forall>t. rpt_rate row = Some t \<longrightarrow> t \<le> 1000)" if c: "c \<in> set ?cs" and r: "row = class_report m xs c" for row c
  proof -
    let ?own = "filter (\<lambda>x. ats_classId x = cls_id c) xs"
    have own: "?own = filter (held (cls_id c) ?w) (attendanceSessions s)"
      using c by (auto simp: xs_def held_def intro!: filter_cong)
    have d: "distinct (map ats_id ?own)" using assms own by (simp add: distinct_map_filter)
    have lesson: "atr_sessionId r \<in> set (map ats_id xs) \<and> atr_sessionId r \<in> ats_id ` set ?own \<longleftrightarrow>
        (\<exists>x. lesson_of s r = Some x \<and> held (cls_id c) ?w x)" for r
    proof
      assume "atr_sessionId r \<in> set (map ats_id xs) \<and> atr_sessionId r \<in> ats_id ` set ?own"
      then obtain x where x: "x \<in> set (attendanceSessions s)" "held (cls_id c) ?w x" "atr_sessionId r = ats_id x"
        unfolding own by auto
      then show "\<exists>x. lesson_of s r = Some x \<and> held (cls_id c) ?w x"
        using find_key [OF assms x(1)] by (auto simp: lesson_of_def find_session_def)
    next
      assume "\<exists>x. lesson_of s r = Some x \<and> held (cls_id c) ?w x"
      then obtain x where x: "x \<in> set (attendanceSessions s)" "held (cls_id c) ?w x" "ats_id x = atr_sessionId r"
        using find_Some_iff by (fastforce simp: lesson_of_def find_session_def)
      then have "x \<in> set ?own" unfolding own by simp
      then show "atr_sessionId r \<in> set (map ats_id xs) \<and> atr_sessionId r \<in> ats_id ` set ?own"
        using x(3) by force
    qed
    have "tally m ?own st = count_rows (\<lambda>r. atr_status r = st \<and> (\<exists>x. lesson_of s r = Some x \<and> held (cls_id c) ?w x)) (attendanceRecords s)" for st
      unfolding m_def tally_counts [OF d] rs_def count_rows_def filter_filter lesson [symmetric] by (simp only: conj_assoc conj_left_commute)
    moreover have "t \<le> 1000" if "rpt_rate row = Some t" for t
    proof -
      have "attendanceRate (tally m ?own PRESENT + tally m ?own LATE)
          (tally m ?own PRESENT + tally m ?own LATE + tally m ?own ABSENT + tally m ?own EXCUSED) = Some t"
        using that unfolding r class_report_def Let_def by simp
      then show ?thesis by (rule attendanceRate_le [rotated]) simp
    qed
    ultimately show ?thesis using r own by (simp add: class_report_def Let_def count_rows_def)
  qed
  have "map rpt_classId (monthlyReport cal month year s) = map cls_id ?cs"
    by (simp add: rows class_report_def Let_def)
  then show ?thesis using row by (auto simp: rows Let_def)
qed

section \<open>Marks are upserted\<close>

definition other_mark :: "uuid \<Rightarrow> uuid set \<Rightarrow> attendance_record \<Rightarrow> bool" where
  "other_mark sid S r \<longleftrightarrow> \<not> (atr_sessionId r = sid \<and> atr_studentId r \<in> S)"

definition written :: "caller \<Rightarrow> uuid \<Rightarrow> mark_dto \<Rightarrow> attendance_record \<Rightarrow> bool" where
  "written cal sid m r \<longleftrightarrow> mark_of sid (mkd_studentId m) r \<and> atr_status r = mkd_status m \<and> atr_recordedBy r = cal_id cal \<and>
     (mkd_note m \<noteq> None \<longrightarrow> atr_note r = mkd_note m)"

lemma written_cases: "written cal sid m (new_mark cal sid m i)" "mark_of sid (mkd_studentId m) r \<Longrightarrow> written cal sid m (patch_mark cal m r)"
  by (auto simp: written_def new_mark_def patch_mark_def mark_of_def given_def split: option.split)

lemma upsert_mark_cases:
  assumes "upsert_mark cal sid m s = (s', Inr r)"
  obtains (new) i where "r = new_mark cal sid m i" "s' = put_records (attendanceRecords s @ [r]) (s\<lparr>uuid_ctr := Suc (uuid_ctr s)\<rparr>)"
      "\<forall>u \<in> set record_uqs. unique_on (snd u) (attendanceRecords s')"
    | (old) y where "y \<in> set (attendanceRecords s)" "mark_of sid (mkd_studentId m) y" "r = patch_mark cal m y"
      "s' = put_records (update_rows (mark_of sid (mkd_studentId m)) (patch_mark cal m) (attendanceRecords s)) s"
      "\<forall>u \<in> set record_uqs. unique_on (snd u) (attendanceRecords s')"
proof (cases "List.find (mark_of sid (mkd_studentId m)) (attendanceRecords s)")
  case None
  then have "create_in record_uqs attendanceRecords put_records (new_mark cal sid m) s = (s', Inr r)"
    using assms by (simp add: upsert_mark_def)
  then show thesis by (rule marks.create_cases) (use new in auto)
next
  case (Some y)
  then have "update_in record_uqs attendanceRecords put_records (mark_of sid (mkd_studentId m)) (patch_mark cal m) s = (s', Inr r)"
    using assms by (simp add: upsert_mark_def)
  then show thesis by (rule marks.update_cases) (use old find_Some_iff [OF Some] Some in auto)
qed

lemma upsert_mark_written:
  assumes "upsert_mark cal sid m s = (s', Inr r)"
  shows "r \<in> set (attendanceRecords s')" and "written cal sid m r" and "enrollments s' = enrollments s"
    and "\<forall>u \<in> set record_uqs. unique_on (snd u) (attendanceRecords s')"
  using assms by (rule upsert_mark_cases; auto simp: written_cases set_update_rows image_iff)+

lemma filter_patch:
  assumes "mkd_studentId m \<in> S"
  shows "filter (other_mark sid S) (update_rows (mark_of sid (mkd_studentId m)) (patch_mark cal m) t) = filter (other_mark sid S) t"
proof (induction t)
  case (Cons x t)
  have "other_mark sid S (patch_mark cal m x) = other_mark sid S x" by (simp add: other_mark_def patch_mark_def)
  moreover have "\<not> other_mark sid S x" if "mark_of sid (mkd_studentId m) x" using that assms by (simp add: other_mark_def mark_of_def)
  ultimately show ?case using Cons by auto
qed simp

lemma upsert_mark_others:
  assumes "upsert_mark cal sid m s = (s', Inr r)" and "mkd_studentId m \<in> S"
  shows "filter (other_mark sid S) (attendanceRecords s') = filter (other_mark sid S) (attendanceRecords s)"
  using assms(1)
proof (rule upsert_mark_cases)
  fix i assume "r = new_mark cal sid m i" "s' = put_records (attendanceRecords s @ [r]) (s\<lparr>uuid_ctr := Suc (uuid_ctr s)\<rparr>)"
  then show ?thesis using assms(2) by (simp add: other_mark_def new_mark_def)
qed (simp add: filter_patch assms(2))

lemma upsert_all_written:
  assumes "upsert_all cal sid ms s = (s', Inr rs)" and "distinct (map mkd_studentId ms)"
  shows "list_all2 (written cal sid) ms rs \<and> set rs \<subseteq> set (attendanceRecords s') \<and> enrollments s' = enrollments s \<and>
    filter (other_mark sid (mkd_studentId ` set ms)) (attendanceRecords s') =
      filter (other_mark sid (mkd_studentId ` set ms)) (attendanceRecords s) \<and>
    (ms \<noteq> [] \<longrightarrow> (\<forall>u \<in> set record_uqs. unique_on (snd u) (attendanceRecords s')))"
  using assms
proof (induction ms arbitrary: s rs)
  case (Cons m ms)
  from Cons.prems(1) obtain s1 r rs1 where m: "upsert_mark cal sid m s = (s1, Inr r)"
    and ms: "upsert_all cal sid ms s1 = (s', Inr rs1)" and rs: "rs = r # rs1"
    by (auto simp: returnE_def elim!: bindE_Inr)
  have ih: "list_all2 (written cal sid) ms rs1 \<and> set rs1 \<subseteq> set (attendanceRecords s') \<and> enrollments s' = enrollments s1 \<and>
    filter (other_mark sid (mkd_studentId ` set ms)) (attendanceRecords s') =
      filter (other_mark sid (mkd_studentId ` set ms)) (attendanceRecords s1) \<and>
    (ms \<noteq> [] \<longrightarrow> (\<forall>u \<in> set record_uqs. unique_on (snd u) (attendanceRecords s')))"
    using Cons.IH [OF ms] Cons.prems(2) by simp
  note w = upsert_mark_written [OF m]
  let ?S = "mkd_studentId ` set ms" and ?T = "mkd_studentId ` set (m # ms)"
  have two: "filter (other_mark sid ?T) t = filter (other_mark sid {mkd_studentId m}) (filter (other_mark sid ?S) t)" for t
    by (auto simp: other_mark_def intro!: filter_cong)
  have "filter (other_mark sid ?T) (attendanceRecords s') = filter (other_mark sid ?T) (attendanceRecords s1)"
    unfolding two using ih by simp
  also have "\<dots> = filter (other_mark sid ?T) (attendanceRecords s)" by (rule upsert_mark_others [OF m]) simp
  finally have f: "filter (other_mark sid ?T) (attendanceRecords s') = filter (other_mark sid ?T) (attendanceRecords s)" .
  have "other_mark sid ?S r" using w(2) Cons.prems(2) by (auto simp: other_mark_def written_def mark_of_def)
  then have "r \<in> set (filter (other_mark sid ?S) (attendanceRecords s1))" using w(1) by simp
  then have "r \<in> set (filter (other_mark sid ?S) (attendanceRecords s'))" using ih by simp
  then have "r \<in> set (attendanceRecords s')" by simp
  moreover have "\<forall>u \<in> set record_uqs. unique_on (snd u) (attendanceRecords s')" if "ms = []"
    using that ms w(4) by simp
  ultimately show ?case using ih f w rs by (cases "ms = []") simp_all
qed simp

lemma enrolled_all:
  assumes "distinct (map enr_studentId (filter (open_in cid) (enrollments s)))" and "distinct ids"
    and "length (enrolled_among cid ids s) = length ids" and "i \<in> set ids"
  shows "\<exists>e \<in> set (enrollments s). open_in cid e \<and> enr_studentId e = i"
proof -
  let ?E = "enrolled_among cid ids s"
  have e: "?E = filter (\<lambda>e. enr_studentId e \<in> set ids) (filter (open_in cid) (enrollments s))"
    by (simp add: enrolled_among_def conj_commute)
  have d: "distinct (map enr_studentId ?E)" unfolding e using assms(1) by (rule distinct_map_filter)
  have "card (enr_studentId ` set ?E) = card (set ids)"
    using distinct_card [OF d] distinct_card [OF assms(2)] assms(3) by simp
  moreover have "enr_studentId ` set ?E \<subseteq> set ids" by (auto simp: enrolled_among_def)
  ultimately have "enr_studentId ` set ?E = set ids" by (intro card_subset_eq) simp_all
  then have "i \<in> enr_studentId ` set ?E" using assms(4) by simp
  then show ?thesis by (auto simp: enrolled_among_def)
qed

text \<open>
  The bulk upsert of marks is all or nothing and exact. When it succeeds, every student of the batch
  was enrolled in the class of the lesson, each submitted mark is the one record of its lesson and
  student with the submitted status (and note, when one was sent), attributed to the caller; the
  list of the lesson shows it; and every record of another lesson or student is as before. When it
  is refused the tables are unchanged.
\<close>

theorem attendance_upsert:
  assumes "upsertRecords cal sid ms s = (s', res)" and "ms \<noteq> []"
    and "\<And>cid. distinct (map enr_studentId (filter (open_in cid) (enrollments s)))"
  shows "case res of
      Inl e \<Rightarrow> same_db s' s
    | Inr views \<Rightarrow>
        map mkv_studentId views = map mkd_studentId ms \<and> map mkv_status views = map mkd_status ms \<and>
        (\<exists>x. find_session sid s = Some x \<and>
          (\<forall>m \<in> set ms. (\<exists>e \<in> set (enrollments s). open_in (ats_classId x) e \<and> enr_studentId e = mkd_studentId m) \<and>
             filter (mark_of sid (mkd_studentId m)) (attendanceRecords s') \<noteq> [] \<and>
             (\<forall>r \<in> set (attendanceRecords s'). mark_of sid (mkd_studentId m) r \<longrightarrow> written cal sid m r))) \<and>
        filter (other_mark sid (mkd_studentId ` set ms)) (attendanceRecords s') =
          filter (other_mark sid (mkd_studentId ` set ms)) (attendanceRecords s)"
proof (cases "assertSessionAccessible cal sid s")
  case (Inl e)
  then show ?thesis using assms(1) by (auto simp: upsertRecords_def)
next
  case (Inr x)
  have x: "find_session sid s = Some x" using Inr by (auto simp: assertSessionAccessible_def split: option.splits if_splits)
  show ?thesis
  proof (cases "distinct (map mkd_studentId ms) \<and> length (enrolled_among (ats_classId x) (map mkd_studentId ms) s) = length ms")
    case False
    then have "s' = s" "\<exists>e. res = Inl e" using assms(1) Inr by (auto simp: upsertRecords_def split: if_splits)
    then show ?thesis by auto
  next
    case ok: True
    obtain s1 v where u: "transaction (upsert_all cal sid ms) s = (s1, v)" by fastforce
    show ?thesis
    proof (cases v)
      case e: (Inl e)
      then have "s' = s1" "res = Inl e" using assms(1) Inr ok u by (auto simp: upsertRecords_def bindE_def)
      then show ?thesis using transaction_Inl [of "upsert_all cal sid ms" s s1 e] u e by simp
    next
      case r: (Inr rs)
      then have s': "same_db s' s1" and res: "res = Inr (map (serializeRecord None) rs)"
        using assms(1) Inr ok u by (auto simp: upsertRecords_def bindE_def)
      have t: "attendanceRecords s' = attendanceRecords s1" using s' by (simp add: same_db_tables)
      have "upsert_all cal sid ms s = (s1, Inr rs)" using u r by (simp add: transaction_Inr)
      from upsert_all_written [OF this] ok assms(2)
      have w: "list_all2 (written cal sid) ms rs" "set rs \<subseteq> set (attendanceRecords s')"
        and f: "filter (other_mark sid (mkd_studentId ` set ms)) (attendanceRecords s') = filter (other_mark sid (mkd_studentId ` set ms)) (attendanceRecords s)"
        and uq: "unique_on (\<lambda>r. Some [atr_sessionId r, atr_studentId r]) (attendanceRecords s')"
        unfolding t by (auto simp: record_uqs_def)
      have "map mkd_studentId ms = map atr_studentId rs" "map mkd_status ms = map atr_status rs"
        using w(1) by (induction rule: list_all2_induct) (simp_all add: written_def mark_of_def)
      then have views: "map mkv_studentId (map (serializeRecord None) rs) = map mkd_studentId ms" "map mkv_status (map (serializeRecord None) rs) = map mkd_status ms"
        by (simp_all add: serializeRecord_def)
      have one: "\<exists>e \<in> set (enrollments s). open_in (ats_classId x) e \<and> enr_studentId e = mkd_studentId m" if "m \<in> set ms" for m
        using enrolled_all [OF assms(3), of "map mkd_studentId ms" "ats_classId x" "mkd_studentId m"] ok that by simp
      have d: "distinct (map (\<lambda>r. [atr_sessionId r, atr_studentId r]) (attendanceRecords s'))"
        using uq by (simp add: unique_on_total)
      have all: "filter (mark_of sid (mkd_studentId m)) (attendanceRecords s') \<noteq> []"
        "r \<in> set (attendanceRecords s') \<Longrightarrow> mark_of sid (mkd_studentId m) r \<Longrightarrow> written cal sid m r" if m: "m \<in> set ms" for m r
      proof -
        obtain q where q: "q \<in> set rs" "written cal sid m q" using w(1) m by (metis in_set_conv_nth list_all2_conv_all_nth)
        have qs: "q \<in> set (attendanceRecords s')" "mark_of sid (mkd_studentId m) q" using q w(2) by (auto simp: written_def)
        then show "filter (mark_of sid (mkd_studentId m)) (attendanceRecords s') \<noteq> []" by (auto simp: filter_empty_conv)
        assume "r \<in> set (attendanceRecords s')" "mark_of sid (mkd_studentId m) r"
        then have "r = q" using d qs by (auto simp: distinct_map mark_of_def inj_on_def)
        then show "written cal sid m r" using q(2) by simp
      qed
      show ?thesis unfolding res using views x one all f by simp
    qed
  qed
qed

section \<open>Examples\<close>

definition lesson0 :: app where
  "lesson0 = full0\<lparr>attendanceSessions := [new_session ''c1'' 86400000 ''coach'' None ''a1'']\<rparr>"

lemma lesson0_tables:
  "enrollments lesson0 = enrollments full0" "classes lesson0 = classes full0"
  "attendanceSessions lesson0 = [new_session ''c1'' 86400000 ''coach'' None ''a1'']"
  by (simp_all add: lesson0_def)

definition desk0 :: caller where
  "desk0 = \<lparr> cal_id = ''head'', cal_role = ADMIN, cal_sessionId = ''s'', cal_jti = ''j'' \<rparr>"

definition mark0 :: mark_dto where
  "mark0 = \<lparr> mkd_studentId = ''kid'', mkd_status = LATE, mkd_note = None \<rparr>"

theorem monthly_report_counts_witness: "map rpt_classId (monthlyReport desk0 1 1970 lesson0) = [''c1'']"
  using monthly_report_counts [of lesson0 desk0 1 1970]
  by (simp add: lesson0_tables full0_tables report_classes_def new_class_def desk0_def)

lemma marked0: "upsertRecords desk0 ''a1'' [mark0] lesson0 =
    (fst (upsertRecords desk0 ''a1'' [mark0] lesson0), Inr [serializeRecord None (new_mark desk0 ''a1'' mark0 (uuid_src lesson0 (uuid_ctr lesson0)))])"
proof -
  have "attendanceRecords lesson0 = []" by (simp add: lesson0_def full0_def club0_def empty_app_def)
  moreover have "assertSessionAccessible desk0 ''a1'' lesson0 = Inr (new_session ''c1'' 86400000 ''coach'' None ''a1'')"
    by (simp add: assertSessionAccessible_def find_session_def lesson0_tables new_session_def desk0_def)
  ultimately show ?thesis
    by (simp add: upsertRecords_def lesson0_tables full0_tables enrolled_among_def new_session_def new_enrollment_def mark0_def open_in_def
        upsert_mark_def create_in_def fresh_uuid_def record_uqs_def insert_row_def unique_on_def transaction_def bindE_def returnE_def)
qed

theorem attendance_upsert_witness:
  "\<exists>s'. upsertRecords desk0 ''a1'' [mark0] lesson0 =
       (s', Inr [serializeRecord None (new_mark desk0 ''a1'' mark0 (uuid_src lesson0 (uuid_ctr lesson0)))]) \<and>
     (\<forall>r \<in> set (attendanceRecords s'). mark_of ''a1'' ''kid'' r \<longrightarrow> written desk0 ''a1'' mark0 r)"
proof -
  have "distinct (map enr_studentId (filter (open_in cid) (enrollments lesson0)))" for cid
    by (simp add: lesson0_tables full0_tables)
  from attendance_upsert [OF marked0 _ this]
  have "\<forall>r \<in> set (attendanceRecords (fst (upsertRecords desk0 ''a1'' [mark0] lesson0))). mark_of ''a1'' ''kid'' r \<longrightarrow> written desk0 ''a1'' mark0 r"
    by (auto simp: mark0_def)
  then show ?thesis using marked0 by blast
qed

end
