(* ===== verification/Exams.thy ===== *)
theory Exams
  imports Invoices Students
begin

text \<open>
  \<^verbatim>\<open>src/belts/belts.service.ts\<close> (the rank catalogue and its distribution report) and
  \<^verbatim>\<open>src/exams/exams.service.ts\<close>: belt exams, registration with the fee invoice in one transaction,
  results and promotion. Main results: what a successful registration guarantees, and that results never
  lower a belt when they are recorded one after another, while two recorded at once can.
\<close>

section \<open>Ranks\<close>

definition rank_uqs :: "(belt_rank, string) uq list" where
  "rank_uqs = [([''id''], \<lambda>r. Some (show_int (rank_id r))), ([''code''], \<lambda>r. Some (rank_code r)),
     ([''order_index''], \<lambda>r. Some (show_int (rank_orderIndex r)))]"

definition mapRankConflict :: "exn \<Rightarrow> exn" where
  "mapRankConflict e = (case e of
       P2002 target \<Rightarrow> if ''orderIndex'' \<in> set target \<or> ''order_index'' \<in> set target
         then Conflict ''Order index already exists'' else Conflict ''Belt rank code already exists''
     | _ \<Rightarrow> e)"

definition listRanks :: "app \<Rightarrow> belt_rank list" where
  "listRanks s = sort_key rank_orderIndex (beltRanks s)"

text \<open>\<open>rid\<close> is the next value of the id sequence; \<^verbatim>\<open>isActive\<close> defaults to true.\<close>

definition createRank :: "string \<Rightarrow> string \<Rightarrow> belt_rank_group \<Rightarrow> int \<Rightarrow> bool option \<Rightarrow> int \<Rightarrow> app \<Rightarrow> app \<times> (int \<times> string \<times> string) res" where
  "createRank code name rankGroup orderIndex active rid s =
     (let r = \<lparr> rank_id = rid, rank_code = code, rank_name = name, rank_rankGroup = rankGroup, rank_orderIndex = orderIndex,
                rank_isActive = case_option True id active \<rparr> in
      case insert_row rank_uqs r (beltRanks s) of
        Inl e \<Rightarrow> (s, Inl (mapRankConflict e))
      | Inr t \<Rightarrow> (audited None ''belt_rank_created'' (''belt_rank:'' @ show_int rid @ '' code:'' @ code) (s\<lparr>beltRanks := t\<rparr>),
          Inr (rid, code, name)))"

record update_rank_dto =
  urd_code :: "string option"
  urd_name :: "string option"
  urd_rankGroup :: "belt_rank_group option"
  urd_orderIndex :: "int option"
  urd_isActive :: "bool option"

definition patch_rank :: "update_rank_dto \<Rightarrow> belt_rank \<Rightarrow> belt_rank" where
  "patch_rank dto r = r\<lparr>rank_code := case_option (rank_code r) id (urd_code dto), rank_name := case_option (rank_name r) id (urd_name dto),
     rank_rankGroup := case_option (rank_rankGroup r) id (urd_rankGroup dto),
     rank_orderIndex := case_option (rank_orderIndex r) id (urd_orderIndex dto),
     rank_isActive := case_option (rank_isActive r) id (urd_isActive dto)\<rparr>"

definition updateRank :: "int \<Rightarrow> update_rank_dto \<Rightarrow> app \<Rightarrow> app \<times> (int \<times> string \<times> string) res" where
  "updateRank rid dto s =
     (if List.find (\<lambda>r. rank_id r = rid) (beltRanks s) = None then (s, Inl (NotFound ''Not found''))
      else case update_in rank_uqs beltRanks put_ranks (\<lambda>r. rank_id r = rid) (patch_rank dto) s of
        (s1, Inl e) \<Rightarrow> (s1, Inl (mapRankConflict e))
      | (s1, Inr r) \<Rightarrow> (audited None ''belt_rank_updated'' (''belt_rank:'' @ show_int rid) s1, Inr (rank_id r, rank_code r, rank_name r)))"

definition report_scope :: "caller \<Rightarrow> app \<Rightarrow> student_profile \<Rightarrow> bool" where
  "report_scope cal s p \<longleftrightarrow> stu_deletedAt p = None \<and>
     (cal_role cal = INSTRUCTOR \<longrightarrow> (\<exists>e \<in> set (enrollments s). enr_studentId e = stu_id p \<and> teaches s (cal_id cal) e))"

text \<open>Per rank its id, code, name, order and number of students; then the students without a rank.\<close>

definition distribution :: "caller \<Rightarrow> app \<Rightarrow> (int \<times> string \<times> string \<times> int \<times> nat) list \<times> nat" where
  "distribution cal s =
     (map (\<lambda>r. (rank_id r, rank_code r, rank_name r, rank_orderIndex r,
             count_rows (\<lambda>p. report_scope cal s p \<and> stu_currentBeltRankId p = Some (rank_id r)) (students s))) (listRanks s),
      count_rows (\<lambda>p. report_scope cal s p \<and> stu_currentBeltRankId p = None) (students s))"

section \<open>Exams\<close>

definition exam_uqs :: "(belt_exam, string) uq list" where
  "exam_uqs = [([''id''], \<lambda>x. Some (exm_id x)), ([''code''], \<lambda>x. Some (exm_code x))]"

definition find_rank :: "int \<Rightarrow> app \<Rightarrow> belt_rank option" where
  "find_rank rid s = List.find (\<lambda>r. rank_id r = rid) (beltRanks s)"

definition find_exam :: "uuid \<Rightarrow> app \<Rightarrow> belt_exam option" where
  "find_exam xid s = List.find (\<lambda>x. exm_id x = xid) (beltExams s)"

definition assertTargetRank :: "int \<Rightarrow> app \<Rightarrow> unit res" where
  "assertTargetRank rid s = (case find_rank rid s of
       None \<Rightarrow> Inl (NotFound ''Not found'')
     | Some r \<Rightarrow> if \<not> rank_isActive r then Inl (Conflict ''Belt rank is not active'') else Inr ())"

definition assertDateOrder :: "instant \<Rightarrow> instant \<Rightarrow> unit res" where
  "assertDateOrder deadline examDate =
     (if deadline > examDate then Inl (BadRequest ''Registration deadline must not be after the exam date'') else Inr ())"

text \<open>Five attempts; each reads the codes of the year and derives the next one.\<close>

fun exam_code_loop :: "nat \<Rightarrow> string \<Rightarrow> app \<Rightarrow> string res" where
  "exam_code_loop 0 prefix s = Inl (Conflict ''Could not generate a unique exam code'')"
| "exam_code_loop (Suc n) prefix s =
     (let code = nextSequentialCode prefix (map exm_code (filter (\<lambda>x. startsWith (exm_code x) prefix) (beltExams s))) 2 in
      if List.find (\<lambda>x. exm_code x = code) (beltExams s) = None then Inr code else exam_code_loop n prefix s)"

definition generateExamCode :: "instant \<Rightarrow> app \<Rightarrow> string res" where
  "generateExamCode now s = exam_code_loop 5 (''EXAM-'' @ show_int (getUTCFullYear now) @ ''-'') s"

record create_exam_dto =
  ced_code :: "string option"
  ced_title :: string
  ced_examDate :: instant
  ced_location :: "string option"
  ced_targetRankId :: int
  ced_feeAmount :: int
  ced_capacity :: "int option"
  ced_registrationDeadline :: instant

definition new_exam :: "create_exam_dto \<Rightarrow> string \<Rightarrow> uuid \<Rightarrow> belt_exam" where
  "new_exam dto code i = \<lparr> exm_id = i, exm_code = code, exm_title = ced_title dto, exm_examDate = as_date (ced_examDate dto),
     exm_location = ced_location dto, exm_targetRankId = ced_targetRankId dto, exm_feeAmount = ced_feeAmount dto,
     exm_capacity = ced_capacity dto, exm_registrationDeadline = as_date (ced_registrationDeadline dto), exm_status = EDraft \<rparr>"

definition createExam :: "create_exam_dto \<Rightarrow> instant \<Rightarrow> app \<Rightarrow> app \<times> belt_exam res" where
  "createExam dto now =
     bindE (\<lambda>s. (s, assertTargetRank (ced_targetRankId dto) s)) (\<lambda>_.
     bindE (liftE (assertDateOrder (ced_registrationDeadline dto) (ced_examDate dto))) (\<lambda>_.
     bindE (\<lambda>s. (s, case ced_code dto of Some c \<Rightarrow> Inr c | None \<Rightarrow> generateExamCode now s)) (\<lambda>code.
     bindE (create_in exam_uqs beltExams put_exams (new_exam dto code)) (\<lambda>x s.
       (audited None ''belt_exam_created'' (''belt_exam:'' @ exm_id x @ '' code:'' @ exm_code x) s, Inr x)))))"

text \<open>
  A date in an update request keeps its text form: a bare date, or a date and time. The request body is
  handed to the database client, which takes only the second form.
\<close>

datatype iso_text = DateOnly instant | DateTime instant

fun iso_instant :: "iso_text \<Rightarrow> instant" where
  "iso_instant (DateOnly t) = t" | "iso_instant (DateTime t) = t"

fun accepted_text :: "iso_text option \<Rightarrow> bool" where
  "accepted_text (Some (DateOnly t)) = False" | "accepted_text _ = True"

record update_exam_dto =
  ued_code :: "string option"
  ued_title :: "string option"
  ued_examDate :: "iso_text option"
  ued_location :: "string option"
  ued_targetRankId :: "int option"
  ued_feeAmount :: "int option"
  ued_capacity :: "int option"
  ued_registrationDeadline :: "iso_text option"
  ued_status :: "exam_status option"

definition patch_exam :: "update_exam_dto \<Rightarrow> belt_exam \<Rightarrow> belt_exam" where
  "patch_exam dto x = x\<lparr>exm_code := case_option (exm_code x) id (ued_code dto), exm_title := case_option (exm_title x) id (ued_title dto),
     exm_examDate := case_option (exm_examDate x) (as_date \<circ> iso_instant) (ued_examDate dto),
     exm_location := given (ued_location dto) (exm_location x),
     exm_targetRankId := case_option (exm_targetRankId x) id (ued_targetRankId dto),
     exm_feeAmount := case_option (exm_feeAmount x) id (ued_feeAmount dto),
     exm_capacity := given (ued_capacity dto) (exm_capacity x),
     exm_registrationDeadline := case_option (exm_registrationDeadline x) (as_date \<circ> iso_instant) (ued_registrationDeadline dto),
     exm_status := case_option (exm_status x) id (ued_status dto)\<rparr>"

definition updateExam :: "uuid \<Rightarrow> update_exam_dto \<Rightarrow> app \<Rightarrow> app \<times> belt_exam res" where
  "updateExam xid dto s = (case find_exam xid s of
       None \<Rightarrow> (s, Inl (NotFound ''Not found''))
     | Some x \<Rightarrow>
         bindE (liftE (case ued_targetRankId dto of None \<Rightarrow> Inr () | Some r \<Rightarrow> assertTargetRank r s)) (\<lambda>_.
         bindE (liftE (assertDateOrder (case_option (exm_registrationDeadline x) iso_instant (ued_registrationDeadline dto))
                  (case_option (exm_examDate x) iso_instant (ued_examDate dto)))) (\<lambda>_.
         bindE (liftE (if accepted_text (ued_examDate dto) \<and> accepted_text (ued_registrationDeadline dto) then Inr ()
                  else Inl (OtherError ''Invalid value: expected ISO-8601 DateTime''))) (\<lambda>_.
         bindE (update_in exam_uqs beltExams put_exams (\<lambda>x. exm_id x = xid) (patch_exam dto)) (\<lambda>x' s1.
           (audited None ''belt_exam_updated'' (''belt_exam:'' @ xid) s1, Inr x'))))) s)"

definition active_reg :: "uuid \<Rightarrow> exam_registration \<Rightarrow> bool" where
  "active_reg xid r \<longleftrightarrow> reg_examId r = xid \<and> reg_status r \<noteq> REG_CANCELLED"

text \<open>An exam is shown with the code and name of its target rank, which exists.\<close>

definition serializeExam :: "app \<Rightarrow> belt_exam \<Rightarrow> belt_exam \<times> (string \<times> string) option" where
  "serializeExam s x = (x, map_option (\<lambda>r. (rank_code r, rank_name r)) (find_rank (exm_targetRankId x) s))"

definition listExams :: "exam_status option \<Rightarrow> nat \<Rightarrow> nat \<Rightarrow> app \<Rightarrow> (belt_exam \<times> (string \<times> string) option) list \<times> nat" where
  "listExams status page limit s =
     (let found = filter (\<lambda>x. case status of None \<Rightarrow> True | Some st \<Rightarrow> exm_status x = st) (beltExams s) in
      (map (serializeExam s) (page_of page limit (sort_key exm_examDate found)), length found))"

definition getExam :: "uuid \<Rightarrow> app \<Rightarrow> ((belt_exam \<times> (string \<times> string) option) \<times> nat) res" where
  "getExam xid s = (case find_exam xid s of
       None \<Rightarrow> Inl (NotFound ''Not found'')
     | Some x \<Rightarrow> Inr (serializeExam s x, count_rows (active_reg xid) (examRegistrations s)))"

section \<open>Registration\<close>

definition reg_uqs :: "(exam_registration, string list) uq list" where
  "reg_uqs = [([''id''], \<lambda>r. Some [reg_id r]), ([''exam_id'', ''student_id''], \<lambda>r. Some [reg_examId r, reg_studentId r])]"

text \<open>The rank check of registration and of results: both ranks are known and the target is not above.\<close>

definition not_above :: "int option \<Rightarrow> int \<Rightarrow> app \<Rightarrow> bool" where
  "not_above current target s = (case current of
       None \<Rightarrow> False
     | Some c \<Rightarrow> (case (find_rank c s, find_rank target s) of
           (Some rc, Some rt) \<Rightarrow> rank_orderIndex rc \<ge> rank_orderIndex rt
         | _ \<Rightarrow> False))"

definition new_reg :: "belt_exam \<Rightarrow> student_profile \<Rightarrow> instant \<Rightarrow> uuid \<Rightarrow> exam_registration" where
  "new_reg x p now i = \<lparr> reg_id = i, reg_examId = exm_id x, reg_studentId = stu_id p, reg_currentRankId = stu_currentBeltRankId p,
     reg_targetRankId = exm_targetRankId x, reg_status = PENDING_PAYMENT, reg_resultNote = None, reg_examinerId = None,
     reg_updatedAt = now \<rparr>"

definition register_checks :: "uuid \<Rightarrow> uuid \<Rightarrow> instant \<Rightarrow> app \<Rightarrow> (belt_exam \<times> student_profile) res" where
  "register_checks xid studentId now s = (case find_exam xid s of
       None \<Rightarrow> Inl (NotFound ''Not found'')
     | Some x \<Rightarrow>
         if exm_status x \<noteq> EOpen then Inl (Conflict ''Exam is not open for registration'')
         else if now > exm_registrationDeadline x then Inl (Conflict ''Registration deadline has passed'')
         else case live_student s studentId of
           None \<Rightarrow> Inl (NotFound ''Not found'')
         | Some p \<Rightarrow>
             if stu_status p \<noteq> SActive then Inl (Conflict ''Student profile is not active'')
             else if not_above (stu_currentBeltRankId p) (exm_targetRankId x) s
             then Inl (Conflict ''Student already holds this rank or higher'')
             else if (case exm_capacity x of None \<Rightarrow> False
                      | Some n \<Rightarrow> int (count_rows (active_reg xid) (examRegistrations s)) \<ge> n)
             then Inl (Conflict ''Exam is full'')
             else if List.find (\<lambda>r. reg_examId r = xid \<and> reg_studentId r = studentId) (examRegistrations s) \<noteq> None
             then Inl (Conflict ''Student is already registered for this exam'')
             else Inr (x, p))"

definition register_tx ::
  "(nat \<Rightarrow> invoice \<Rightarrow> bool) \<Rightarrow> caller \<Rightarrow> uuid \<Rightarrow> uuid \<Rightarrow> instant \<Rightarrow> app \<Rightarrow> app \<times> (exam_registration \<times> fee_result) res" where
  "register_tx seen cal xid studentId now s = (case register_checks xid studentId now s of
       Inl e \<Rightarrow> (s, Inl e)
     | Inr (x, p) \<Rightarrow>
         bindE (create_in reg_uqs examRegistrations put_regs (new_reg x p now)) (\<lambda>r.
         bindE (createExamFeeInvoice seen
                  \<lparr> efa_studentId = studentId, efa_exam = x, efa_registrationId = reg_id r, efa_createdBy = cal_id cal \<rparr> now)
           (\<lambda>fee. returnE (r, fee))) s)"

definition registerExam ::
  "(nat \<Rightarrow> invoice \<Rightarrow> bool) \<Rightarrow> caller \<Rightarrow> uuid \<Rightarrow> uuid \<Rightarrow> instant \<Rightarrow> app \<Rightarrow> app \<times> (exam_registration \<times> fee_result) res" where
  "registerExam seen cal xid studentId now s = (case assertCanAccess s cal studentId of
       Inl e \<Rightarrow> (s, Inl e)
     | Inr _ \<Rightarrow> bindE (transaction (register_tx seen cal xid studentId now)) (\<lambda>(r, fee) s1.
         (audited None ''exam_registration_created'' (''exam_registration:'' @ reg_id r @ '' student:'' @ studentId @ '' exam:'' @ xid) s1,
          Inr (r, fee))) s)"

section \<open>Results\<close>

definition show_result :: "registration_status \<Rightarrow> string" where
  "show_result st = (if st = RESULT_PASS then ''RESULT_PASS'' else ''RESULT_FAIL'')"

text \<open>The request's outcome is one of the two results.\<close>

record result_dto =
  rdt_pass :: bool
  rdt_note :: "string option"
  rdt_examinerId :: "uuid option"

definition result_of :: "result_dto \<Rightarrow> registration_status" where
  "result_of dto = (if rdt_pass dto then RESULT_PASS else RESULT_FAIL)"

definition resolve_examiner :: "caller \<Rightarrow> result_dto \<Rightarrow> app \<Rightarrow> uuid res" where
  "resolve_examiner cal dto s = (case rdt_examinerId dto of
       None \<Rightarrow> Inr (cal_id cal)
     | Some i \<Rightarrow>
         if cal_role cal \<noteq> ADMIN then Inl (BadRequest ''Only an admin can attribute a different examiner'')
         else case List.find (\<lambda>u. usr_id u = i \<and> usr_deletedAt u = None \<and> usr_isActive u \<and> usr_role u \<in> {INSTRUCTOR, ADMIN}) (users s) of
           None \<Rightarrow> Inl (NotFound ''Not found'') | Some u \<Rightarrow> Inr (usr_id u))"

definition record_outcome :: "result_dto \<Rightarrow> uuid \<Rightarrow> instant \<Rightarrow> exam_registration \<Rightarrow> exam_registration" where
  "record_outcome dto examinerId now r = r\<lparr>reg_status := result_of dto, reg_resultNote := given (rdt_note dto) (reg_resultNote r),
     reg_examinerId := Some examinerId, reg_updatedAt := now\<rparr>"

definition promote :: "uuid \<Rightarrow> int \<Rightarrow> app \<Rightarrow> app \<times> student_profile res" where
  "promote studentId target = update_in student_uqs students put_students (\<lambda>p. stu_id p = studentId) (\<lambda>p. p\<lparr>stu_currentBeltRankId := Some target\<rparr>)"

text \<open>
  The transaction holds no lock: \<open>view\<close> is the state in which it read the registration, its exam and the
  student's rank; the writes go to the current state.
\<close>

definition result_tx :: "app \<Rightarrow> caller \<Rightarrow> uuid \<Rightarrow> result_dto \<Rightarrow> uuid \<Rightarrow> instant \<Rightarrow> app \<Rightarrow> app \<times> exam_registration res" where
  "result_tx view cal rid dto examinerId now s = (case List.find (\<lambda>r. reg_id r = rid) (examRegistrations view) of
       None \<Rightarrow> (s, Inl (NotFound ''Not found''))
     | Some r \<Rightarrow> (case (if cal_role cal \<noteq> ADMIN then assertCanAccess view cal (reg_studentId r) else Inr ()) of
           Inl e \<Rightarrow> (s, Inl e)
         | Inr _ \<Rightarrow>
             if reg_status r = RESULT_PASS \<or> reg_status r = RESULT_FAIL then (s, Inl (Conflict ''Result already recorded''))
             else if reg_status r = REG_CANCELLED then (s, Inl (Conflict ''Registration is cancelled''))
             else case find_exam (reg_examId r) view of
               None \<Rightarrow> (s, Inl (OtherError ''inconsistent query result''))
             | Some x \<Rightarrow>
                 bindE (update_in reg_uqs examRegistrations put_regs (\<lambda>q. reg_id q = rid) (record_outcome dto examinerId now)) (\<lambda>r' s1.
                   if \<not> rdt_pass dto then (s1, Inr r')
                   else case List.find (\<lambda>p. stu_id p = reg_studentId r) (students view) of
                     Some p \<Rightarrow>
                       if not_above (stu_currentBeltRankId p) (exm_targetRankId x) view
                       then (s1, Inl (Conflict ''Student already holds this rank or higher''))
                       else bindE (promote (reg_studentId r) (exm_targetRankId x)) (\<lambda>_. returnE r') s1
                   | None \<Rightarrow> bindE (promote (reg_studentId r) (exm_targetRankId x)) (\<lambda>_. returnE r') s1) s))"

definition recordResult :: "app \<Rightarrow> caller \<Rightarrow> uuid \<Rightarrow> result_dto \<Rightarrow> instant \<Rightarrow> app \<Rightarrow> app \<times> exam_registration res" where
  "recordResult view cal rid dto now s = (case resolve_examiner cal dto s of
       Inl e \<Rightarrow> (s, Inl e)
     | Inr examinerId \<Rightarrow> bindE (transaction (result_tx view cal rid dto examinerId now)) (\<lambda>r s1.
         (audited None ''exam_result_recorded'' (''exam_registration:'' @ rid @ '' outcome:'' @ show_result (result_of dto) @
            '' examiner:'' @ examinerId) s1, Inr r)) s)"

text \<open>Registrations of one student with exam and ranks, newest exam first.\<close>

record history_row =
  hr_id :: uuid
  hr_exam :: "(uuid \<times> string \<times> string \<times> instant) option"
  hr_status :: registration_status
  hr_rankAtRegistration :: "(string \<times> string \<times> int) option"
  hr_targetRank :: "(string \<times> string \<times> int) option"
  hr_resultNote :: "string option"
  hr_resultRecordedAt :: instant

definition show_rank :: "belt_rank \<Rightarrow> string \<times> string \<times> int" where
  "show_rank r = (rank_code r, rank_name r, rank_orderIndex r)"

definition history_of :: "app \<Rightarrow> exam_registration \<Rightarrow> history_row" where
  "history_of s r = \<lparr> hr_id = reg_id r,
     hr_exam = map_option (\<lambda>x. (exm_id x, exm_code x, exm_title x, exm_examDate x)) (find_exam (reg_examId r) s),
     hr_status = reg_status r,
     hr_rankAtRegistration = (case reg_currentRankId r of None \<Rightarrow> None | Some c \<Rightarrow> map_option show_rank (find_rank c s)),
     hr_targetRank = map_option show_rank (find_rank (reg_targetRankId r) s), hr_resultNote = reg_resultNote r,
     hr_resultRecordedAt = reg_updatedAt r \<rparr>"

definition listStudentRegistrations :: "caller \<Rightarrow> uuid \<Rightarrow> nat option \<Rightarrow> nat option \<Rightarrow> app \<Rightarrow> (history_row list \<times> nat \<times> nat \<times> nat) res" where
  "listStudentRegistrations cal studentId pg lim s = (case assertCanAccess s cal studentId of
       Inl e \<Rightarrow> Inl e
     | Inr _ \<Rightarrow> let page = case_option 1 id pg; limit = min (case_option 20 id lim) 100;
                   found = filter (\<lambda>r. reg_studentId r = studentId) (examRegistrations s);
                   key = (\<lambda>r. case find_exam (reg_examId r) s of None \<Rightarrow> 0 | Some x \<Rightarrow> - exm_examDate x)
                in Inr (map (history_of s) (page_of page limit (sort_key key found)), length found, page, limit))"

section \<open>What a registration guarantees\<close>

lemma register_checks_Inr:
  assumes "register_checks xid sid now s = Inr (x, p)"
  shows "find_exam xid s = Some x" "exm_status x = EOpen" "now \<le> exm_registrationDeadline x" "live_student s sid = Some p"
    "stu_status p = SActive" "\<not> not_above (stu_currentBeltRankId p) (exm_targetRankId x) s"
    "\<forall>n. exm_capacity x = Some n \<longrightarrow> int (count_rows (active_reg xid) (examRegistrations s)) < n"
    "\<forall>r \<in> set (examRegistrations s). \<not> (reg_examId r = xid \<and> reg_studentId r = sid)"
  using assms by (auto simp: register_checks_def find_None_ball split: option.splits if_splits)

lemma register_tx_Inr:
  assumes "register_tx seen cal xid sid now s = (s', Inr (r, fee))"
  obtains x p i k no iid where "register_checks xid sid now s = Inr (x, p)" "r = new_reg x p now k"
    "examRegistrations s' = examRegistrations s @ [r]"
    "invoices s' = invoices s @ [i]" "insert_row invoice_uqs i (invoices s) = Inr (invoices s @ [i])"
    "i = exam_fee_row \<lparr> efa_studentId = sid, efa_exam = x, efa_registrationId = k, efa_createdBy = cal_id cal \<rparr> no now iid"
    "fee = \<lparr> fr_id = inv_id i, fr_invoiceNo = inv_invoiceNo i, fr_total = inv_total i, fr_status = inv_status i \<rparr>"
    "students s' = students s" "beltExams s' = beltExams s" "beltRanks s' = beltRanks s"
proof -
  obtain x p where c: "register_checks xid sid now s = Inr (x, p)"
    using assms by (auto simp: register_tx_def split: sum.splits)
  let ?a = "\<lambda>r. \<lparr> efa_studentId = sid, efa_exam = x, efa_registrationId = reg_id r, efa_createdBy = cal_id cal \<rparr>"
  have "bindE (create_in reg_uqs examRegistrations put_regs (new_reg x p now)) (\<lambda>r.
      bindE (createExamFeeInvoice seen (?a r) now) (\<lambda>fee. returnE (r, fee))) s = (s', Inr (r, fee))"
    using assms c by (simp add: register_tx_def)
  then obtain s1 where s1: "create_in reg_uqs examRegistrations put_regs (new_reg x p now) s = (s1, Inr r)"
      "createExamFeeInvoice seen (?a r) now s1 = (s', Inr fee)"
    by (elim bindE_Inr) (auto simp: returnE_def)
  note k = regs.create_Inr [OF s1(1)]
  obtain iid ids n detail i where i: "i = exam_fee_row (?a r) (nextInvoiceNo (filter (seen 0) (invoices s1)) (getUTCFullYear now)) now iid"
    "insert_row invoice_uqs i (invoices s1) = Inr (invoices s1 @ [i])"
    "s' = record_audit None ''invoice_issued'' None True detail
        (s1\<lparr>invoices := invoices s1 @ [i],
           invoiceItems := invoiceItems s1 @ item_rows (inv_id i) ids [exam_fee_line x], uuid_ctr := n\<rparr>)"
    "fee = \<lparr> fr_id = inv_id i, fr_invoiceNo = inv_invoiceNo i, fr_total = inv_total i, fr_status = inv_status i \<rparr>"
    using exam_fee_body_Inr [OF createExamFeeInvoice_Inr [OF s1(2)]] by auto
  have rk: "reg_id r = uuid_src s (uuid_ctr s)" using k(1) by (simp add: new_reg_def)
  have t: "invoices s1 = invoices s" "students s1 = students s" "beltExams s1 = beltExams s" "beltRanks s1 = beltRanks s"
    using k(3) by simp_all
  show thesis
  proof (rule that [OF c k(1)])
    show "examRegistrations s' = examRegistrations s @ [r]" using k(2) i(3) by simp
    show "i = exam_fee_row \<lparr> efa_studentId = sid, efa_exam = x, efa_registrationId = uuid_src s (uuid_ctr s), efa_createdBy = cal_id cal \<rparr>
        (nextInvoiceNo (filter (seen 0) (invoices s1)) (getUTCFullYear now)) now iid" using i(1) unfolding rk .
  qed (use i t in simp_all)
qed

text \<open>
  C25: A registration that is answered is sound: the caller may act for the student; the exam is open
  and its deadline not passed; the student is active and below the target rank; the exam is
  not overbooked afterwards; the registration is new for this exam and student; and one unpaid
  fee invoice over the exam's fee, with a number no other invoice has, refers to it. A registration
  that fails leaves every table as it was.
\<close>

theorem exam_registration_sound:
  assumes "registerExam seen cal xid sid now s = (s', res)"
  shows "case res of
      Inl e \<Rightarrow> same_db s' s
    | Inr (r, fee) \<Rightarrow> canAccess s cal sid \<and> (\<exists>x p i. find_exam xid s = Some x \<and> exm_status x = EOpen \<and>
        now \<le> exm_registrationDeadline x \<and> live_student s sid = Some p \<and> stu_status p = SActive \<and>
        \<not> not_above (stu_currentBeltRankId p) (exm_targetRankId x) s \<and>
        examRegistrations s' = examRegistrations s @ [r] \<and> reg_examId r = xid \<and> reg_studentId r = sid \<and> reg_status r = PENDING_PAYMENT \<and>
        (\<forall>q \<in> set (examRegistrations s). \<not> (reg_examId q = xid \<and> reg_studentId q = sid)) \<and>
        (\<forall>n. exm_capacity x = Some n \<longrightarrow> int (count_rows (active_reg xid) (examRegistrations s')) \<le> n) \<and>
        invoices s' = invoices s @ [i] \<and> inv_type i = EXAM_FEE \<and> inv_studentId i = sid \<and> inv_status i = UNPAID \<and>
        inv_total i = exm_feeAmount x \<and> inv_refExamRegistrationId i = Some (reg_id r) \<and>
        inv_invoiceNo i \<notin> inv_invoiceNo ` set (invoices s) \<and> fr_id fee = inv_id i \<and> fr_total fee = exm_feeAmount x)"
proof (cases "assertCanAccess s cal sid")
  case (Inl e)
  then show ?thesis using assms by (auto simp: registerExam_def)
next
  case (Inr u)
  obtain s1 r1 where t: "transaction (register_tx seen cal xid sid now) s = (s1, r1)" by fastforce
  show ?thesis
  proof (cases r1)
    case (Inl e)
    then have "same_db s1 s" using t transaction_Inl by blast
    then show ?thesis using assms Inr Inl t by (auto simp: registerExam_def bindE_def)
  next
    case R: (Inr v)
    obtain r fee where v: "v = (r, fee)" by fastforce
    have res: "res = Inr (r, fee)" "same_db s' s1" using assms Inr R t v by (auto simp: registerExam_def bindE_def)
    have "register_tx seen cal xid sid now s = (s1, Inr (r, fee))" using t R v by (simp add: transaction_Inr)
    then obtain x p i k no iid where x: "register_checks xid sid now s = Inr (x, p)" "r = new_reg x p now k"
        "examRegistrations s1 = examRegistrations s @ [r]" "invoices s1 = invoices s @ [i]"
        "insert_row invoice_uqs i (invoices s) = Inr (invoices s @ [i])"
        "i = exam_fee_row \<lparr> efa_studentId = sid, efa_exam = x, efa_registrationId = k, efa_createdBy = cal_id cal \<rparr> no now iid"
        "fee = \<lparr> fr_id = inv_id i, fr_invoiceNo = inv_invoiceNo i, fr_total = inv_total i, fr_status = inv_status i \<rparr>"
      by (rule register_tx_Inr)
    note c = register_checks_Inr [OF x(1)]
    have ids: "exm_id x = xid" "stu_id p = sid" using find_Some_iff [OF c(1) [unfolded find_exam_def]] live_student_Some [OF c(4)] by simp_all
    have rf: "reg_examId r = xid" "reg_studentId r = sid" "reg_status r = PENDING_PAYMENT"
      using x(2) ids by (simp_all add: new_reg_def)
    have ii: "inv_type i = EXAM_FEE" "inv_studentId i = sid" "inv_status i = UNPAID" "inv_total i = exm_feeAmount x"
        "inv_refExamRegistrationId i = Some (reg_id r)"
      using x(2,6) by (simp_all add: exam_fee_row_def new_reg_def)
    have no: "inv_invoiceNo i \<notin> inv_invoiceNo ` set (invoices s)"
      using check_unique_Inr [OF x(5) [unfolded insert_row_def]] by (auto simp: invoice_uqs_def unique_on_total)
    have cap: "\<forall>n. exm_capacity x = Some n \<longrightarrow> int (count_rows (active_reg xid) (examRegistrations s1)) \<le> n"
      using c(7) x(3) by (auto simp: count_rows_append count_rows_def [of _ "[_]"])
    have acc: "canAccess s cal sid" using Inr by (simp add: assertCanAccess_def split: if_splits)
    note db = same_db_tables(14,15) [OF res(2)]
    show ?thesis unfolding res(1) sum.case prod.case db
      by (intro conjI exI [of _ x] exI [of _ p] exI [of _ i]) (use c acc rf ii no cap x(3,4,7) in simp_all)
  qed
qed

section \<open>Belts\<close>

text \<open>The position of a student's belt; no belt is below every belt.\<close>

definition belt_order :: "app \<Rightarrow> student_profile \<Rightarrow> int option" where
  "belt_order s p = (case stu_currentBeltRankId p of None \<Rightarrow> None | Some c \<Rightarrow> map_option rank_orderIndex (find_rank c s))"

definition order_le :: "int option \<Rightarrow> int option \<Rightarrow> bool" where
  "order_le a b = (case a of None \<Rightarrow> True | Some m \<Rightarrow> (case b of None \<Rightarrow> False | Some n \<Rightarrow> m \<le> n))"

lemma order_le_refl [simp]: "order_le a a"
  by (simp add: order_le_def split: option.split)

lemma order_le_trans: "order_le a b \<Longrightarrow> order_le b c \<Longrightarrow> order_le a c"
  by (auto simp: order_le_def split: option.splits)

text \<open>Foreign keys into the rank table.\<close>

definition ranks_known :: "app \<Rightarrow> bool" where
  "ranks_known s \<longleftrightarrow> (\<forall>p \<in> set (students s). \<forall>c. stu_currentBeltRankId p = Some c \<longrightarrow> find_rank c s \<noteq> None) \<and>
     (\<forall>x \<in> set (beltExams s). find_rank (exm_targetRankId x) s \<noteq> None)"

text \<open>The state may grow into a later one: same ranks and students, no belt lowered.\<close>

definition belts_later :: "app \<Rightarrow> app \<Rightarrow> bool" where
  "belts_later s s' \<longleftrightarrow> beltRanks s' = beltRanks s \<and> (ranks_known s \<longrightarrow> ranks_known s') \<and>
     (ranks_known s \<and> distinct (map stu_id (students s)) \<longrightarrow>
        list_all2 (\<lambda>p p'. stu_id p' = stu_id p \<and> order_le (belt_order s p) (belt_order s' p')) (students s) (students s'))"

lemma find_rank_cong: "beltRanks s' = beltRanks s \<Longrightarrow> find_rank c s' = find_rank c s"
  by (simp add: find_rank_def)

lemma belt_order_cong: "beltRanks s' = beltRanks s \<Longrightarrow> belt_order s' p = belt_order s p"
  by (simp add: belt_order_def find_rank_cong [of s' s] split: option.split)

lemma later_keeps_ids:
  "list_all2 (\<lambda>p p'. stu_id p' = stu_id p \<and> R p p') t t' \<Longrightarrow> map stu_id t' = map stu_id t"
  by (induction rule: list_all2_induct) simp_all

lemma belts_later_trans:
  assumes "belts_later s t" and "belts_later t u"
  shows "belts_later s u"
proof -
  have "list_all2 (\<lambda>p p'. stu_id p' = stu_id p \<and> order_le (belt_order s p) (belt_order u p')) (students s) (students u)"
    if k: "ranks_known s" "distinct (map stu_id (students s))"
  proof -
    have a: "list_all2 (\<lambda>p p'. stu_id p' = stu_id p \<and> order_le (belt_order s p) (belt_order t p')) (students s) (students t)"
      using assms(1) k by (simp add: belts_later_def)
    then have "distinct (map stu_id (students t))" using later_keeps_ids [OF a] k(2) by simp
    then have b: "list_all2 (\<lambda>p p'. stu_id p' = stu_id p \<and> order_le (belt_order t p) (belt_order u p')) (students t) (students u)"
      using assms k by (simp add: belts_later_def)
    show ?thesis by (rule list_all2_trans [OF _ a b]) (auto intro: order_le_trans)
  qed
  then show ?thesis using assms by (simp add: belts_later_def)
qed

lemma belts_later_same: "same_db s' s \<Longrightarrow> belts_later s s'"
  using belt_order_cong [of s' s] find_rank_cong [of s' s]
  by (auto simp: belts_later_def ranks_known_def same_db_tables list_all2_same)

interpretation belts_rel: db_relation belts_later
  by unfold_locales (use belts_later_same belts_later_trans in blast)+

lemma belts_later_audited: "belts_later s t \<Longrightarrow> belts_later s (audited u e d t)"
  by (erule belts_rel.then_same) (rule same_db_audited)

text \<open>Exams may change when their target rank exists.\<close>

lemma belts_later_exams:
  assumes "students s' = students s" and "beltRanks s' = beltRanks s"
    and "ranks_known s \<Longrightarrow> \<forall>x \<in> set (beltExams s'). find_rank (exm_targetRankId x) s \<noteq> None"
  shows "belts_later s s'"
  using assms belt_order_cong [OF assms(2)] find_rank_cong [OF assms(2)]
  by (auto simp: belts_later_def ranks_known_def list_all2_same)

lemma belts_later_createExam: "belts_later s (fst (createExam dto now s))"
proof (cases "assertTargetRank (ced_targetRankId dto) s")
  case (Inr u)
  then have r: "find_rank (ced_targetRankId dto) s \<noteq> None" by (auto simp: assertTargetRank_def split: option.splits)
  have c: "belts_later s t" if "create_in exam_uqs beltExams put_exams (new_exam dto code) s = (t, v)" for t v code
    using that
  proof (cases rule: exam_rows.create_cases)
    case (ok i)
    then show ?thesis using r by (intro belts_later_exams) (auto simp: ranks_known_def new_exam_def)
  qed (simp add: belts_later_same)
  show ?thesis using Inr
    by (auto simp: createExam_def bindE_def liftE_def belts_later_audited dest!: c split: sum.splits prod.splits)
qed (simp add: createExam_def bindE_def)

lemma belts_later_updateExam: "belts_later s (fst (updateExam xid dto s))"
proof -
  obtain t v where u: "update_in exam_uqs beltExams put_exams (\<lambda>x. exm_id x = xid) (patch_exam dto) s = (t, v)" by fastforce
  have "belts_later s t" if r: "\<forall>c. ued_targetRankId dto = Some c \<longrightarrow> find_rank c s \<noteq> None"
    using u
  proof (cases rule: exam_rows.update_cases)
    case (ok x)
    then show ?thesis using r
      by (intro belts_later_exams) (auto simp: ranks_known_def set_update_rows patch_exam_def split: option.split)
  qed simp
  moreover have "find_rank c s \<noteq> None" if "assertTargetRank c s = Inr w" for c w
    using that by (auto simp: assertTargetRank_def split: option.splits)
  ultimately show ?thesis using u
    by (auto simp: updateExam_def bindE_def liftE_def intro!: belts_later_audited split: sum.splits option.splits prod.splits)
qed

lemma belts_later_registerExam: "belts_later s (fst (registerExam seen cal xid sid now s))"
proof (cases "assertCanAccess s cal sid")
  case (Inr u)
  obtain s1 r1 where t: "transaction (register_tx seen cal xid sid now) s = (s1, r1)" by fastforce
  have "belts_later s s1"
  proof (cases r1)
    case (Inl e)
    then show ?thesis using t transaction_Inl belts_later_same by blast
  next
    case R: (Inr v)
    obtain r fee where "v = (r, fee)" by fastforce
    then have "register_tx seen cal xid sid now s = (s1, Inr (r, fee))" using t R by (simp add: transaction_Inr)
    then have "students s1 = students s" "beltExams s1 = beltExams s" "beltRanks s1 = beltRanks s"
      by (auto elim: register_tx_Inr)
    then show ?thesis by (intro belts_later_exams) (auto simp: ranks_known_def)
  qed
  then show ?thesis using Inr t by (cases r1) (auto simp: registerExam_def bindE_def intro!: belts_later_audited split: prod.splits)
qed (simp add: registerExam_def)

lemma belts_later_promote:
  assumes "students s' = update_rows (\<lambda>p. stu_id p = sid) (\<lambda>p. p\<lparr>stu_currentBeltRankId := Some target\<rparr>) (students s)"
    and "beltRanks s' = beltRanks s" and "beltExams s' = beltExams s"
    and "ranks_known s \<Longrightarrow> find_rank target s \<noteq> None"
    and "\<And>p. List.find (\<lambda>p. stu_id p = sid) (students s) = Some p \<Longrightarrow> \<not> not_above (stu_currentBeltRankId p) target s"
  shows "belts_later s s'"
proof -
  note cong = belt_order_cong [OF assms(2)] find_rank_cong [OF assms(2)]
  have "order_le (belt_order s p) (belt_order s (p\<lparr>stu_currentBeltRankId := Some target\<rparr>))"
    if k: "ranks_known s" and d: "distinct (map stu_id (students s))" and p: "p \<in> set (students s)" "stu_id p = sid" for p
  proof -
    have "List.find (\<lambda>q. stu_id q = sid) (students s) = Some p" using find_key [OF d p(1)] p(2) by simp
    then have "\<not> not_above (stu_currentBeltRankId p) target s" by (rule assms(5))
    moreover obtain rt where "find_rank target s = Some rt" using assms(4) k by blast
    moreover have "\<forall>c. stu_currentBeltRankId p = Some c \<longrightarrow> (\<exists>r. find_rank c s = Some r)"
      using k p(1) by (auto simp: ranks_known_def)
    ultimately show ?thesis by (auto simp: not_above_def belt_order_def order_le_def split: option.splits)
  qed
  then have "list_all2 (\<lambda>p p'. stu_id p' = stu_id p \<and> order_le (belt_order s p) (belt_order s p')) (students s) (students s')"
    if "ranks_known s" "distinct (map stu_id (students s))"
    using that unfolding assms(1) table_simps(1) list_all2_map2 list_all2_same [symmetric]
    by (intro list.rel_refl_strong) auto
  moreover have "ranks_known s \<Longrightarrow> ranks_known s'"
    using assms(3,4) unfolding ranks_known_def assms(1) cong by (auto simp: set_update_rows)
  ultimately show ?thesis using assms(2) by (simp add: belts_later_def cong)
qed

lemma result_tx_Inr:
  assumes "result_tx s cal rid dto ex now s = (s', Inr q)"
  shows "belts_later s s'"
proof -
  obtain r x where r: "List.find (\<lambda>r. reg_id r = rid) (examRegistrations s) = Some r" "find_exam (reg_examId r) s = Some x"
    and b: "bindE (update_in reg_uqs examRegistrations put_regs (\<lambda>q. reg_id q = rid) (record_outcome dto ex now)) (\<lambda>r' s1.
       if \<not> rdt_pass dto then (s1, Inr r')
       else case List.find (\<lambda>p. stu_id p = reg_studentId r) (students s) of
         Some p \<Rightarrow> if not_above (stu_currentBeltRankId p) (exm_targetRankId x) s
           then (s1, Inl (Conflict ''Student already holds this rank or higher''))
           else bindE (promote (reg_studentId r) (exm_targetRankId x)) (\<lambda>_. returnE r') s1
       | None \<Rightarrow> bindE (promote (reg_studentId r) (exm_targetRankId x)) (\<lambda>_. returnE r') s1) s = (s', Inr q)"
    using assms by (auto simp: result_tx_def split: option.splits sum.splits if_splits)
  obtain s1 r1 where u: "update_in reg_uqs examRegistrations put_regs (\<lambda>q. reg_id q = rid) (record_outcome dto ex now) s = (s1, r1)" by fastforce
  have t: "students s1 = students s" "beltExams s1 = beltExams s" "beltRanks s1 = beltRanks s"
    using u by (auto simp: update_in_def split: option.splits sum.splits)
  have x: "ranks_known s \<Longrightarrow> find_rank (exm_targetRankId x) s \<noteq> None"
    using find_Some_iff [OF r(2) [unfolded find_exam_def]] by (auto simp: ranks_known_def)
  show ?thesis
  proof (cases "rdt_pass dto")
    case False
    then have "s' = s1" using b u by (auto simp: bindE_def split: sum.splits)
    then show ?thesis using t by (intro belts_later_exams) (auto simp: ranks_known_def)
  next
    case True
    then obtain v where p: "promote (reg_studentId r) (exm_targetRankId x) s1 = (s', Inr v)"
      and na: "\<And>p. List.find (\<lambda>p. stu_id p = reg_studentId r) (students s) = Some p \<Longrightarrow> \<not> not_above (stu_currentBeltRankId p) (exm_targetRankId x) s"
      using b u by (auto simp: bindE_def returnE_def split: sum.splits option.splits if_splits prod.splits)
    have "students s' = update_rows (\<lambda>p. stu_id p = reg_studentId r) (\<lambda>p. p\<lparr>stu_currentBeltRankId := Some (exm_targetRankId x)\<rparr>) (students s1)"
        "beltExams s' = beltExams s1" "beltRanks s' = beltRanks s1"
      using p unfolding promote_def by (auto elim!: profiles.update_cases)
    then show ?thesis using t x na by (intro belts_later_promote) simp_all
  qed
qed

lemma belts_later_recordResult: "belts_later s (fst (recordResult s cal rid dto now s))"
proof (cases "resolve_examiner cal dto s")
  case (Inr ex)
  obtain s1 r1 where t: "transaction (result_tx s cal rid dto ex now) s = (s1, r1)" by fastforce
  have "belts_later s s1"
  proof (cases r1)
    case (Inl e)
    then show ?thesis using t transaction_Inl belts_later_same by blast
  next
    case R: (Inr q)
    then show ?thesis using t result_tx_Inr by (simp add: transaction_Inr)
  qed
  then show ?thesis using Inr t by (cases r1) (simp_all add: recordResult_def bindE_def belts_later_audited)
qed (simp add: recordResult_def)

inductive exam_step :: "app \<Rightarrow> app \<Rightarrow> bool" where
  create: "exam_step s (fst (createExam dto now s))"
| update: "exam_step s (fst (updateExam xid udto s))"
| register: "exam_step s (fst (registerExam seen cal xid sid now s))"
| result: "exam_step s (fst (recordResult s cal rid rdto now s))"

inductive exam_run :: "app \<Rightarrow> app \<Rightarrow> bool" for s0 where
  start: "exam_run s0 s0"
| step: "exam_run s0 s \<Longrightarrow> exam_step s s' \<Longrightarrow> exam_run s0 s'"

lemma exam_step_later: "exam_step s s' \<Longrightarrow> belts_later s s'"
  by (induction rule: exam_step.induct)
     (simp_all add: belts_later_createExam belts_later_updateExam belts_later_registerExam belts_later_recordResult)

lemma exam_run_later: "exam_run s0 s \<Longrightarrow> belts_later s0 s"
  by (induction rule: exam_run.induct) (auto intro: belts_later_trans exam_step_later)

text \<open>
  C26: When exam requests are handled one after another (exams created and changed, registrations,
  results), no student's belt ever falls: at the end every student holds a belt at least as
  high as before, whatever the order in which results arrive.
\<close>

theorem belt_never_falls:
  assumes "exam_run s0 s" and "ranks_known s0" and "distinct (map stu_id (students s0))"
    and "i < length (students s0)"
  shows "length (students s) = length (students s0) \<and> stu_id (students s ! i) = stu_id (students s0 ! i) \<and>
    order_le (belt_order s0 (students s0 ! i)) (belt_order s (students s ! i))"
proof -
  have "list_all2 (\<lambda>p p'. stu_id p' = stu_id p \<and> order_le (belt_order s0 p) (belt_order s p')) (students s0) (students s)"
    using exam_run_later [OF assms(1)] assms(2,3) by (simp add: belts_later_def)
  then show ?thesis using assms(4) by (auto simp: list_all2_conv_all_nth)
qed

lemma find_update: "(\<And>x. w x \<Longrightarrow> w (d x)) \<Longrightarrow> List.find w (update_rows w d t) = map_option d (List.find w t)"
  by (induction t) simp_all

lemma check_unique_keys:
  assumes "check_unique uqs t = Inr t" and "\<And>u x. u \<in> set uqs \<Longrightarrow> snd u (d x) = snd u x"
  shows "check_unique uqs (update_rows w d t) = Inr (update_rows w d t)"
proof (rule check_unique_ok, rule ballI)
  fix u assume u: "u \<in> set uqs"
  have "map (snd u) (update_rows w d t) = map (snd u) t" by (rule map_update_rows_same) (rule assms(2) [OF u])
  then show "unique_on (snd u) (update_rows w d t)" using check_unique_Inr [OF assms(1)] u unique_on_keys by metis
qed

lemma update_in_keys:
  assumes "List.find w (get s) = Some x" and "check_unique uqs (get s) = Inr (get s)" and "\<And>u y. u \<in> set uqs \<Longrightarrow> snd u (d y) = snd u y"
  shows "update_in uqs get put w d s = (put (update_rows w d (get s)) s, Inr (d x))"
  using assms check_unique_keys [of uqs "get s" d w] by (simp add: update_in_def)

lemma belt_keys: "u \<in> set student_uqs \<Longrightarrow> snd u (x\<lparr>stu_currentBeltRankId := b\<rparr>) = snd u x"
  by (auto simp: student_uqs_def)

text \<open>
  Two results recorded at once can lower a belt: a transaction that read the student before another
  promoted them overwrites the higher belt with its own target.
\<close>

theorem result_race_lowers_belt:
  assumes "List.find (\<lambda>r. reg_id r = rid) (examRegistrations view) = Some r" and "reg_status r = PENDING_PAYMENT"
    and "find_exam (reg_examId r) view = Some x"
    and "List.find (\<lambda>p. stu_id p = reg_studentId r) (students view) = Some p"
    and "\<not> not_above (stu_currentBeltRankId p) (exm_targetRankId x) view"
    and "cal_role cal = ADMIN" and "dto = \<lparr> rdt_pass = True, rdt_note = None, rdt_examinerId = None \<rparr>"
    and "s = view\<lparr>students := update_rows (\<lambda>p. stu_id p = reg_studentId r) (\<lambda>p. p\<lparr>stu_currentBeltRankId := Some high\<rparr>) (students view)\<rparr>"
    and "check_unique reg_uqs (examRegistrations view) = Inr (examRegistrations view)"
    and "check_unique student_uqs (students view) = Inr (students view)"
  shows "\<exists>s' q p'. recordResult view cal rid dto now s = (s', Inr q) \<and>
    List.find (\<lambda>p. stu_id p = reg_studentId r) (students s) = Some (p\<lparr>stu_currentBeltRankId := Some high\<rparr>) \<and>
    List.find (\<lambda>p. stu_id p = reg_studentId r) (students s') = Some p' \<and> stu_currentBeltRankId p' = Some (exm_targetRankId x)"
proof -
  let ?w = "\<lambda>p. stu_id p = reg_studentId r" and ?x = "exm_targetRankId x"
  let ?s1 = "s\<lparr>examRegistrations := update_rows (\<lambda>q. reg_id q = rid) (record_outcome dto (cal_id cal) now) (examRegistrations s)\<rparr>"
  have regs: "update_in reg_uqs examRegistrations put_regs (\<lambda>q. reg_id q = rid) (record_outcome dto (cal_id cal) now) s
      = (?s1, Inr (record_outcome dto (cal_id cal) now r))"
    using assms(1,9) by (intro update_in_keys) (auto simp: assms(8) reg_uqs_def record_outcome_def)
  have stu: "check_unique student_uqs (students s) = Inr (students s)"
    unfolding assms(8) using check_unique_keys [OF assms(10) belt_keys] by simp
  have f: "List.find ?w (students s) = Some (p\<lparr>stu_currentBeltRankId := Some high\<rparr>)"
    using find_update [of ?w "\<lambda>p. p\<lparr>stu_currentBeltRankId := Some high\<rparr>" "students view"] assms(4,8) by simp
  let ?s2 = "?s1\<lparr>students := update_rows ?w (\<lambda>p. p\<lparr>stu_currentBeltRankId := Some ?x\<rparr>) (students s)\<rparr>"
  have "promote (reg_studentId r) ?x ?s1 = (?s2, Inr (p\<lparr>stu_currentBeltRankId := Some ?x\<rparr>))"
    unfolding promote_def using update_in_keys [of ?w students ?s1 "p\<lparr>stu_currentBeltRankId := Some high\<rparr>" student_uqs
        "\<lambda>p. p\<lparr>stu_currentBeltRankId := Some ?x\<rparr>" put_students, OF _ _ belt_keys] f stu by simp
  then have "result_tx view cal rid dto (cal_id cal) now s = (?s2, Inr (record_outcome dto (cal_id cal) now r))"
    using assms(1-7) regs by (simp add: result_tx_def bindE_def returnE_def)
  then have "recordResult view cal rid dto now s = (audited None ''exam_result_recorded'' (''exam_registration:'' @ rid @ '' outcome:'' @
      show_result (result_of dto) @ '' examiner:'' @ cal_id cal) ?s2, Inr (record_outcome dto (cal_id cal) now r))"
    using assms(7) by (simp add: recordResult_def resolve_examiner_def bindE_def transaction_def)
  moreover have "List.find ?w (students ?s2) = Some (p\<lparr>stu_currentBeltRankId := Some ?x\<rparr>)"
    using find_update [of ?w "\<lambda>p. p\<lparr>stu_currentBeltRankId := Some ?x\<rparr>" "students s"] f by simp
  ultimately show ?thesis using f by (simp add: audited_def)
qed

section \<open>Witnesses\<close>

definition head0 :: caller where
  "head0 = \<lparr> cal_id = ''head'', cal_role = ADMIN, cal_sessionId = ''s'', cal_jti = ''j'' \<rparr>"

definition rank0 :: "int \<Rightarrow> belt_rank" where
  "rank0 n = \<lparr> rank_id = n, rank_code = ''R'' @ show_int n, rank_name = ''rank'', rank_rankGroup = LAM, rank_orderIndex = n, rank_isActive = True \<rparr>"

definition exam0 :: belt_exam where
  "exam0 = \<lparr> exm_id = ''x'', exm_code = ''EXAM-1970-01'', exm_title = ''first'', exm_examDate = 864000000, exm_location = None,
     exm_targetRankId = 2, exm_feeAmount = 150000, exm_capacity = Some 1, exm_registrationDeadline = 86400000, exm_status = EOpen \<rparr>"

definition dojo0 :: app where
  "dojo0 = empty_app\<lparr>beltRanks := [rank0 1, rank0 2], students := [kid0\<lparr>stu_currentBeltRankId := Some 1\<rparr>], beltExams := [exam0]\<rparr>"

lemma checks0: "register_checks ''x'' ''kid'' 5 dojo0 = Inr (exam0, kid0\<lparr>stu_currentBeltRankId := Some 1\<rparr>)"
  by (simp add: register_checks_def find_exam_def dojo0_def exam0_def live_student_def kid0_def new_student_def not_above_def
      find_rank_def rank0_def empty_app_def count_rows_def)

lemma no0: "nextInvoiceNo [] 1970 = ''INV-1970-0001''"
  by code_simp

lemma registered0: "\<exists>r fee. snd (registerExam (\<lambda>_ _. True) head0 ''x'' ''kid'' 5 dojo0) = Inr (r, fee)"
proof -
  have "getUTCFullYear 5 = 1970" by code_simp
  moreover have "assertCanAccess dojo0 head0 ''kid'' = Inr ()"
    by (simp add: assertCanAccess_def canAccess_def head0_def live_student_def dojo0_def kid0_facts)
  moreover have "examRegistrations dojo0 = []" "invoices dojo0 = []" "invoiceItems dojo0 = []" by (simp_all add: dojo0_def empty_app_def)
  ultimately show ?thesis
    by (simp add: registerExam_def register_tx_def checks0 bindE_def transaction_def create_in_def fresh_uuid_def insert_row_def
        reg_uqs_def unique_on_def List.map_filter_def createExamFeeInvoice_def eval_nat_numeral exam_fee_body_def no0
        create_invoice_row_def exam_fee_row_def exam0_def int4_def invoice_uqs_def period_key_def item_uqs_def new_item_def
        exam_fee_line_def returnE_def Let_def)
qed

theorem exam_registration_sound_witness:
  "\<exists>s' r fee. registerExam (\<lambda>_ _. True) head0 ''x'' ''kid'' 5 dojo0 = (s', Inr (r, fee)) \<and>
     examRegistrations s' = [r] \<and> fr_total fee = 150000"
proof -
  obtain s' r fee where k: "registerExam (\<lambda>_ _. True) head0 ''x'' ''kid'' 5 dojo0 = (s', Inr (r, fee))"
    using registered0 by (metis prod.collapse)
  have "find_exam ''x'' dojo0 = Some exam0" "examRegistrations dojo0 = []"
    by (simp_all add: find_exam_def dojo0_def exam0_def empty_app_def)
  then show ?thesis using exam_registration_sound [OF k] k by (auto simp: exam0_def)
qed

definition sat0 :: app where
  "sat0 = dojo0\<lparr>examRegistrations := [new_reg exam0 (kid0\<lparr>stu_currentBeltRankId := Some 1\<rparr>) 3 ''g'']\<rparr>"

theorem belt_never_falls_witness:
  "order_le (Some 1) (belt_order (fst (recordResult sat0 head0 ''g'' \<lparr> rdt_pass = True, rdt_note = None, rdt_examinerId = None \<rparr> 7 sat0))
     (students (fst (recordResult sat0 head0 ''g'' \<lparr> rdt_pass = True, rdt_note = None, rdt_examinerId = None \<rparr> 7 sat0)) ! 0))"
proof -
  have t: "students sat0 = [kid0\<lparr>stu_currentBeltRankId := Some 1\<rparr>]" "beltExams sat0 = [exam0]" "beltRanks sat0 = [rank0 1, rank0 2]"
    by (simp_all add: sat0_def dojo0_def)
  have r: "find_rank 1 sat0 = Some (rank0 1)" "find_rank 2 sat0 = Some (rank0 2)"
    by (simp_all add: find_rank_def t rank0_def)
  have k: "ranks_known sat0" by (simp add: ranks_known_def t r exam0_def)
  have "belt_order sat0 (kid0\<lparr>stu_currentBeltRankId := Some 1\<rparr>) = Some 1" by (simp add: belt_order_def r rank0_def)
  then show ?thesis
    using belt_never_falls [OF exam_run.step [OF exam_run.start exam_step.result] k, where i = 0] by (simp add: t)
qed

end
