(* ===== verification/Requests.thy ===== *)
theory Requests
  imports Classes Exams
begin

text \<open>
  Requests that somebody decides: absence requests (\<^verbatim>\<open>leaves/leaves.service.ts\<close>), promotion proposals
  (\<^verbatim>\<open>promotions/promotions.service.ts\<close>), and the evaluations of students
  (\<^verbatim>\<open>evaluations/evaluations.service.ts\<close>). A review reads the row, checks it and updates it by its id in a
  separate statement; the argument \<open>view\<close> is the state the checks read. The interface \<open>requests\<close> states
  once that decided rows are final.
\<close>

section \<open>Absence requests\<close>

text \<open>
  The language's reading of an ISO day (year, year and month, or full date) at midnight UTC. Months
  run from 1 to 12 and days from 1 to 31; a day past the end of its month carries over.
\<close>

definition parse_day :: "string \<Rightarrow> instant option" where
  "parse_day t = (let y = int (digits_val (take 4 t)); m = int (digits_val (take 2 (drop 5 t))); d = int (digits_val (take 2 (drop 8 t)));
       ds = (\<lambda>i n. \<forall>c \<in> set (take n (drop i t)). is_digit c) in
     if length t = 4 \<and> ds 0 4 then Some (date_UTC y 0 1)
     else if length t = 7 \<and> ds 0 4 \<and> t ! 4 = CHR ''-'' \<and> ds 5 2 \<and> 1 \<le> m \<and> m \<le> 12 then Some (date_UTC y (m - 1) 1)
     else if length t = 10 \<and> ds 0 4 \<and> t ! 4 = CHR ''-'' \<and> ds 5 2 \<and> t ! 7 = CHR ''-'' \<and> ds 8 2 \<and> 1 \<le> m \<and> m \<le> 12 \<and> 1 \<le> d \<and> d \<le> 31
     then Some (date_UTC y (m - 1) d) else None)"

definition leave_uqs :: "(leave_request, string list) uq list" where
  "leave_uqs = [([''id''], \<lambda>r. Some [lv_id r]),
     ([''student_id'', ''class_id'', ''session_date''], \<lambda>r. Some [lv_studentId r, lv_classId r, show_int (lv_sessionDate r)])]"

record leave_view =
  lvv_row :: leave_request
  lvv_studentName :: "string option"
  lvv_className :: "string option"

definition student_name :: "app \<Rightarrow> uuid \<Rightarrow> string option" where
  "student_name s i = map_option stu_fullName (List.find (\<lambda>p. stu_id p = i) (students s))"

definition serializeLeaveRequest :: "app \<Rightarrow> leave_request \<Rightarrow> leave_view" where
  "serializeLeaveRequest s r = \<lparr> lvv_row = r, lvv_studentName = student_name s (lv_studentId r),
     lvv_className = map_option cls_name (find_class (lv_classId r) s) \<rparr>"

definition new_leave :: "caller \<Rightarrow> uuid \<Rightarrow> uuid \<Rightarrow> instant \<Rightarrow> string \<Rightarrow> instant \<Rightarrow> uuid \<Rightarrow> leave_request" where
  "new_leave cal studentId cid day reason now i = \<lparr> lv_id = i, lv_studentId = studentId, lv_classId = cid,
     lv_requestedByUserId = Some (cal_id cal), lv_sessionDate = as_date day, lv_reason = reason, lv_status = LvPending,
     lv_reviewedByUserId = None, lv_reviewedAt = None, lv_reviewNote = None, lv_createdAt = now \<rparr>"

definition createLeave :: "caller \<Rightarrow> uuid \<Rightarrow> uuid \<Rightarrow> string \<Rightarrow> string \<Rightarrow> instant \<Rightarrow> app \<Rightarrow> app \<times> leave_view res" where
  "createLeave cal studentId cid sessionDate reason now s = (case assertCanAccess s cal studentId of
       Inl e \<Rightarrow> (s, Inl e)
     | Inr _ \<Rightarrow> (case parse_day (take 10 sessionDate) of
         None \<Rightarrow> (s, Inl (BadRequest ''The requested session date must be today or later''))
       | Some day \<Rightarrow>
           if day < as_date now then (s, Inl (BadRequest ''The requested session date must be today or later''))
           else if List.find (\<lambda>c. cls_id c = cid \<and> cls_status c = CActive) (classes s) = None then (s, Inl (NotFound ''Not found''))
           else if List.find (\<lambda>e. enr_studentId e = studentId \<and> open_in cid e) (enrollments s) = None
           then (s, Inl (Conflict ''The student is not enrolled in this class''))
           else case create_in leave_uqs leaveRequests put_leaves (new_leave cal studentId cid day reason now) s of
             (s1, Inl e) \<Rightarrow> (s1, Inl (if is_P2002 e then Conflict ''A leave request for this session already exists'' else e))
           | (s1, Inr r) \<Rightarrow>
               (audited (Some (cal_id cal)) ''leave_request_created''
                 (''request:'' @ lv_id r @ '' student:'' @ studentId @ '' date:'' @ take 10 sessionDate) s1,
                Inr (serializeLeaveRequest s1 r))))"

definition matches :: "'a option \<Rightarrow> 'a \<Rightarrow> bool" where
  "matches q x \<longleftrightarrow> (case q of None \<Rightarrow> True | Some y \<Rightarrow> x = y)"

text \<open>The caller's scope replaces the student filter of the query: both set the same field of the filter.\<close>

definition in_scope :: "uuid list option \<Rightarrow> uuid option \<Rightarrow> uuid \<Rightarrow> bool" where
  "in_scope visible studentId i \<longleftrightarrow> (case visible of None \<Rightarrow> matches studentId i | Some vs \<Rightarrow> i \<in> set vs)"

definition listLeaves ::
  "caller \<Rightarrow> leave_status option \<Rightarrow> uuid option \<Rightarrow> uuid option \<Rightarrow> nat option \<Rightarrow> nat option \<Rightarrow> app \<Rightarrow> leave_view list \<times> nat \<times> nat \<times> nat" where
  "listLeaves cal status cid studentId page limit s =
     (let page = case_option 1 id page; limit = min (case_option 20 id limit) 100; visible = visibleStudentIds s cal in
      if visible = Some [] then ([], 0, page, limit)
      else let found = filter (\<lambda>r. matches status (lv_status r) \<and> matches cid (lv_classId r) \<and> in_scope visible studentId (lv_studentId r) \<and>
                 (cal_role cal = INSTRUCTOR \<longrightarrow> map_option cls_instructorId (find_class (lv_classId r) s) = Some (cal_id cal)))
                 (leaveRequests s)
        in (map (serializeLeaveRequest s) (page_of page limit (sort_key (\<lambda>r. - lv_createdAt r) found)), length found, page, limit))"

definition find_leave :: "uuid \<Rightarrow> app \<Rightarrow> leave_request option" where
  "find_leave i s = List.find (\<lambda>r. lv_id r = i) (leaveRequests s)"

definition decide_leave :: "caller \<Rightarrow> bool \<Rightarrow> string option \<Rightarrow> instant \<Rightarrow> leave_request \<Rightarrow> leave_request" where
  "decide_leave cal approve note now r = r\<lparr>lv_status := if approve then LvApproved else LvRejected,
     lv_reviewedByUserId := Some (cal_id cal), lv_reviewedAt := Some now, lv_reviewNote := given note (lv_reviewNote r)\<rparr>"

definition reviewLeave ::
  "app \<Rightarrow> caller \<Rightarrow> uuid \<Rightarrow> bool \<Rightarrow> string option \<Rightarrow> instant \<Rightarrow> app \<Rightarrow> app \<times> leave_view res" where
  "reviewLeave view cal i approve note now s = (case find_leave i view of
       None \<Rightarrow> (s, Inl (NotFound ''Not found''))
     | Some r \<Rightarrow>
         if lv_status r \<noteq> LvPending then (s, Inl (Conflict ''Only pending requests can be reviewed''))
         else if cal_role cal = INSTRUCTOR \<and> map_option cls_instructorId (find_class (lv_classId r) view) \<noteq> Some (cal_id cal)
         then (s, Inl (NotFound ''Not found''))
         else bindE (update_in leave_uqs leaveRequests put_leaves (\<lambda>r. lv_id r = i) (decide_leave cal approve note now)) (\<lambda>r' s1.
           (audited (Some (cal_id cal)) ''leave_request_reviewed''
              (''request:'' @ i @ '' status:'' @ (if approve then ''APPROVED'' else ''REJECTED'')) s1,
            Inr (serializeLeaveRequest s1 r'))) s)"

definition cancelLeave :: "app \<Rightarrow> caller \<Rightarrow> uuid \<Rightarrow> app \<Rightarrow> app \<times> leave_view res" where
  "cancelLeave view cal i s = (case find_leave i view of
       None \<Rightarrow> (s, Inl (NotFound ''Not found''))
     | Some r \<Rightarrow>
         if lv_status r \<noteq> LvPending then (s, Inl (Conflict ''Only pending requests can be cancelled''))
         else let isOwner = lv_requestedByUserId r = Some (cal_id cal) \<or>
                Option.bind (List.find (\<lambda>p. stu_id p = lv_studentId r) (students view)) stu_userId = Some (cal_id cal) in
           if cal_role cal \<noteq> ADMIN \<and> \<not> isOwner then (s, Inl (NotFound ''Not found''))
           else bindE (update_in leave_uqs leaveRequests put_leaves (\<lambda>r. lv_id r = i) (\<lambda>r. r\<lparr>lv_status := LvCancelled\<rparr>)) (\<lambda>r' s1.
             (audited (Some (cal_id cal)) ''leave_request_cancelled'' (''request:'' @ i) s1, Inr (serializeLeaveRequest s1 r'))) s)"

definition deleteLeave :: "caller \<Rightarrow> uuid \<Rightarrow> app \<Rightarrow> app \<times> bool res" where
  "deleteLeave cal i s =
     (if find_leave i s = None then (s, Inl (NotFound ''Not found''))
      else bindE (delete_in leaveRequests put_leaves (\<lambda>r. lv_id r = i)) (\<lambda>_ s1.
        (audited (Some (cal_id cal)) ''leave_request_deleted'' (''request:'' @ i) s1, Inr True)) s)"

section \<open>Promotion proposals\<close>

definition proposal_uqs :: "(promotion_proposal, string list) uq list" where
  "proposal_uqs = [([''id''], \<lambda>r. Some [pp_id r])]"

record proposal_view =
  ppv_row :: promotion_proposal
  ppv_studentName :: "string option"
  ppv_rank :: "(string \<times> string \<times> int) option"

definition serializeProposal :: "app \<Rightarrow> promotion_proposal \<Rightarrow> proposal_view" where
  "serializeProposal s r = \<lparr> ppv_row = r, ppv_studentName = student_name s (pp_studentId r),
     ppv_rank = map_option show_rank (find_rank (pp_proposedRankId r) s) \<rparr>"

definition current_order :: "student_profile \<Rightarrow> app \<Rightarrow> int" where
  "current_order p s = (case Option.bind (stu_currentBeltRankId p) (\<lambda>i. find_rank i s) of None \<Rightarrow> 0 | Some r \<Rightarrow> rank_orderIndex r)"

definition new_proposal :: "caller \<Rightarrow> uuid \<Rightarrow> int \<Rightarrow> string option \<Rightarrow> instant \<Rightarrow> uuid \<Rightarrow> promotion_proposal" where
  "new_proposal cal studentId rankId note now i = \<lparr> pp_id = i, pp_studentId = studentId, pp_proposedRankId = rankId,
     pp_proposedByUserId = cal_id cal, pp_note = note, pp_status = PrPending, pp_reviewedByUserId = None, pp_reviewedAt = None,
     pp_reviewNote = None, pp_createdAt = now \<rparr>"

definition open_for :: "uuid \<Rightarrow> promotion_proposal \<Rightarrow> bool" where
  "open_for studentId r \<longleftrightarrow> pp_studentId r = studentId \<and> pp_status r = PrPending"

text \<open>The apostrophe of the message is the character U+2019.\<close>

definition right_quote :: string where
  "right_quote = [CHR 0xE2, CHR 0x80, CHR 0x99]"

definition not_above_text :: string where
  "not_above_text = ''The proposed rank is not above the student'' @ right_quote @ ''s current rank''"

definition createProposal ::
  "app \<Rightarrow> caller \<Rightarrow> uuid \<Rightarrow> int \<Rightarrow> string option \<Rightarrow> instant \<Rightarrow> app \<Rightarrow> app \<times> proposal_view res" where
  "createProposal view cal studentId rankId note now s = (case assertCanAccess view cal studentId of
       Inl e \<Rightarrow> (s, Inl e)
     | Inr _ \<Rightarrow> (case live_student view studentId of
         None \<Rightarrow> (s, Inl (NotFound ''Not found''))
       | Some p \<Rightarrow> (case List.find (\<lambda>r. rank_id r = rankId \<and> rank_isActive r) (beltRanks view) of
           None \<Rightarrow> (s, Inl (NotFound ''Not found''))
         | Some rank \<Rightarrow>
             if rank_orderIndex rank \<le> current_order p view then (s, Inl (Conflict not_above_text))
             else if List.find (open_for studentId) (proposals view) \<noteq> None
             then (s, Inl (Conflict ''The student already has an open promotion proposal''))
             else bindE (create_in proposal_uqs proposals put_proposals (new_proposal cal studentId rankId note now)) (\<lambda>r s1.
               (audited (Some (cal_id cal)) ''proposal_created''
                  (''proposal:'' @ pp_id r @ '' student:'' @ studentId @ '' rank:'' @ rank_code rank) s1,
                Inr (serializeProposal s1 r))) s)))"

definition listProposals ::
  "caller \<Rightarrow> proposal_status option \<Rightarrow> uuid option \<Rightarrow> nat option \<Rightarrow> nat option \<Rightarrow> app \<Rightarrow> proposal_view list \<times> nat \<times> nat \<times> nat" where
  "listProposals cal status studentId page limit s =
     (let page = case_option 1 id page; limit = min (case_option 20 id limit) 100; visible = visibleStudentIds s cal in
      if visible = Some [] then ([], 0, page, limit)
      else let found = filter (\<lambda>r. matches status (pp_status r) \<and> in_scope visible studentId (pp_studentId r)) (proposals s)
        in (map (serializeProposal s) (page_of page limit (sort_key (\<lambda>r. - pp_createdAt r) found)), length found, page, limit))"

definition find_proposal :: "uuid \<Rightarrow> app \<Rightarrow> promotion_proposal option" where
  "find_proposal i s = List.find (\<lambda>r. pp_id r = i) (proposals s)"

definition updateNote :: "app \<Rightarrow> caller \<Rightarrow> uuid \<Rightarrow> string option \<Rightarrow> app \<Rightarrow> app \<times> proposal_view res" where
  "updateNote view cal i note s = (case find_proposal i view of
       None \<Rightarrow> (s, Inl (NotFound ''Not found''))
     | Some r \<Rightarrow>
         if pp_status r \<noteq> PrPending then (s, Inl (Conflict ''Only pending proposals can be edited''))
         else if cal_role cal \<noteq> ADMIN \<and> pp_proposedByUserId r \<noteq> cal_id cal then (s, Inl (NotFound ''Not found''))
         else bindE (update_in proposal_uqs proposals put_proposals (\<lambda>r. pp_id r = i) (\<lambda>r. r\<lparr>pp_note := given note (pp_note r)\<rparr>)) (\<lambda>r' s1.
           (audited (Some (cal_id cal)) ''proposal_updated'' (''proposal:'' @ i) s1, Inr (serializeProposal s1 r'))) s)"

definition decide_proposal :: "caller \<Rightarrow> bool \<Rightarrow> string option \<Rightarrow> instant \<Rightarrow> promotion_proposal \<Rightarrow> promotion_proposal" where
  "decide_proposal cal approve note now r = r\<lparr>pp_status := if approve then PrApproved else PrRejected,
     pp_reviewedByUserId := Some (cal_id cal), pp_reviewedAt := Some now, pp_reviewNote := given note (pp_reviewNote r)\<rparr>"

definition reviewProposal ::
  "app \<Rightarrow> caller \<Rightarrow> uuid \<Rightarrow> bool \<Rightarrow> string option \<Rightarrow> instant \<Rightarrow> app \<Rightarrow> app \<times> proposal_view res" where
  "reviewProposal view cal i approve note now s =
     (if cal_role cal \<noteq> ADMIN then (s, Inl (NotFound ''Not found''))
      else case find_proposal i view of
        None \<Rightarrow> (s, Inl (NotFound ''Not found''))
      | Some r \<Rightarrow>
          if pp_status r \<noteq> PrPending then (s, Inl (Conflict ''Only pending proposals can be reviewed''))
          else bindE (update_in proposal_uqs proposals put_proposals (\<lambda>r. pp_id r = i) (decide_proposal cal approve note now)) (\<lambda>r' s1.
            (audited (Some (cal_id cal)) ''proposal_reviewed''
               (''proposal:'' @ i @ '' status:'' @ (if approve then ''APPROVED'' else ''REJECTED'')) s1,
             Inr (serializeProposal s1 r'))) s)"

section \<open>Evaluations\<close>

definition evaluation_uqs :: "(student_evaluation, string list) uq list" where
  "evaluation_uqs = [([''id''], \<lambda>r. Some [ev_id r]),
     ([''student_id'', ''author_user_id'', ''period_month'', ''period_year''], \<lambda>r. case (ev_periodMonth r, ev_periodYear r) of
        (Some m, Some y) \<Rightarrow> Some [ev_studentId r, ev_authorUserId r, show_int m, show_int y] | _ \<Rightarrow> None)]"

record evaluation_dto =
  evd_studentId :: uuid
  evd_classId :: "uuid option"
  evd_periodMonth :: "int option"
  evd_periodYear :: "int option"
  evd_rating :: int
  evd_comment :: "string option"

record evaluation_view =
  evv_row :: student_evaluation
  evv_studentName :: "string option"
  evv_authorEmail :: "string option"

definition serializeEvaluation :: "app \<Rightarrow> student_evaluation \<Rightarrow> evaluation_view" where
  "serializeEvaluation s r = \<lparr> evv_row = r, evv_studentName = student_name s (ev_studentId r),
     evv_authorEmail = map_option usr_email (List.find (\<lambda>u. usr_id u = ev_authorUserId r) (users s)) \<rparr>"

definition new_evaluation :: "caller \<Rightarrow> evaluation_dto \<Rightarrow> instant \<Rightarrow> uuid \<Rightarrow> student_evaluation" where
  "new_evaluation cal dto now i = \<lparr> ev_id = i, ev_studentId = evd_studentId dto, ev_authorUserId = cal_id cal, ev_classId = evd_classId dto,
     ev_periodMonth = evd_periodMonth dto, ev_periodYear = evd_periodYear dto, ev_rating = evd_rating dto, ev_comment = evd_comment dto,
     ev_createdAt = now \<rparr>"

definition createEvaluation :: "caller \<Rightarrow> evaluation_dto \<Rightarrow> instant \<Rightarrow> app \<Rightarrow> app \<times> evaluation_view res" where
  "createEvaluation cal dto now s = (case assertCanAccess s cal (evd_studentId dto) of
       Inl e \<Rightarrow> (s, Inl e)
     | Inr _ \<Rightarrow>
         if (evd_periodMonth dto = None) \<noteq> (evd_periodYear dto = None)
         then (s, Inl (BadRequest ''Period month and year must be given together''))
         else case (case evd_classId dto of None \<Rightarrow> Inr () | Some cid \<Rightarrow> (case find_class cid s of
                      None \<Rightarrow> Inl (NotFound ''Not found'')
                    | Some c \<Rightarrow> if cal_role cal = INSTRUCTOR \<and> cls_instructorId c \<noteq> cal_id cal then Inl (NotFound ''Not found'') else Inr ())) of
           Inl e \<Rightarrow> (s, Inl e)
         | Inr _ \<Rightarrow> (case create_in evaluation_uqs evaluations put_evaluations (new_evaluation cal dto now) s of
             (s1, Inl e) \<Rightarrow> (s1, Inl (if is_P2002 e then Conflict ''This author already evaluated the student for that period'' else e))
           | (s1, Inr r) \<Rightarrow>
               (audited (Some (cal_id cal)) ''evaluation_recorded''
                  (''evaluation:'' @ ev_id r @ '' student:'' @ evd_studentId dto @ '' rating:'' @ show_int (evd_rating dto)) s1,
                Inr (serializeEvaluation s1 r))))"

definition listForStudent ::
  "caller \<Rightarrow> uuid \<Rightarrow> nat option \<Rightarrow> nat option \<Rightarrow> app \<Rightarrow> (evaluation_view list \<times> nat \<times> nat \<times> nat) res" where
  "listForStudent cal studentId page limit s = (case assertCanAccess s cal studentId of
       Inl e \<Rightarrow> Inl e
     | Inr _ \<Rightarrow>
         let page = case_option 1 id page; limit = min (case_option 20 id limit) 100;
             found = filter (\<lambda>r. ev_studentId r = studentId) (evaluations s)
         in Inr (map (serializeEvaluation s) (page_of page limit (sort_key (\<lambda>r. - ev_createdAt r) found)), length found, page, limit))"

definition find_evaluation :: "uuid \<Rightarrow> app \<Rightarrow> student_evaluation option" where
  "find_evaluation i s = List.find (\<lambda>r. ev_id r = i) (evaluations s)"

definition own_evaluation :: "caller \<Rightarrow> uuid \<Rightarrow> app \<Rightarrow> student_evaluation res" where
  "own_evaluation cal i s = (case find_evaluation i s of
       None \<Rightarrow> Inl (NotFound ''Not found'')
     | Some r \<Rightarrow> if cal_role cal \<noteq> ADMIN \<and> ev_authorUserId r \<noteq> cal_id cal then Inl (NotFound ''Not found'') else Inr r)"

definition updateEvaluation :: "caller \<Rightarrow> uuid \<Rightarrow> int option \<Rightarrow> string option \<Rightarrow> app \<Rightarrow> app \<times> evaluation_view res" where
  "updateEvaluation cal i rating comment s = (case own_evaluation cal i s of
       Inl e \<Rightarrow> (s, Inl e)
     | Inr _ \<Rightarrow> bindE (update_in evaluation_uqs evaluations put_evaluations (\<lambda>r. ev_id r = i)
           (\<lambda>r. r\<lparr>ev_rating := case_option (ev_rating r) id rating, ev_comment := given comment (ev_comment r)\<rparr>)) (\<lambda>r' s1.
         (audited (Some (cal_id cal)) ''evaluation_updated'' (''evaluation:'' @ i @ '' rating:'' @ show_int (ev_rating r')) s1,
          Inr (serializeEvaluation s1 r'))) s)"

definition deleteEvaluation :: "caller \<Rightarrow> uuid \<Rightarrow> app \<Rightarrow> app \<times> bool res" where
  "deleteEvaluation cal i s = (case own_evaluation cal i s of
       Inl e \<Rightarrow> (s, Inl e)
     | Inr _ \<Rightarrow> bindE (delete_in evaluations put_evaluations (\<lambda>r. ev_id r = i)) (\<lambda>_ s1.
         (audited (Some (cal_id cal)) ''evaluation_deleted'' (''evaluation:'' @ i) s1, Inr True)) s)"

section \<open>Decided requests are final\<close>

context db_relation
begin

lemma bind_audited:
  assumes "bindE m (\<lambda>r s1. (audited u e (d r) s1, w r s1)) s = (s', v)" and "\<And>t x. m s = (t, x) \<Longrightarrow> R s t"
  shows "R s s'"
proof -
  obtain t x where m: "m s = (t, x)" by fastforce
  then have "same_db s' t" using assms(1) by (cases x) auto
  then show ?thesis using then_same assms(2) [OF m] by blast
qed

end


text \<open>
  The contract shared by the two kinds of requests: rows with unique ids that stay as they are once they
  are no longer pending. Creating rows and updating a row that is pending keep it.
\<close>

locale requests = table get put
  for get :: "app \<Rightarrow> 'r list" and put :: "'r list \<Rightarrow> app \<Rightarrow> app" +
  fixes ident :: "'r \<Rightarrow> uuid" and pending :: "'r \<Rightarrow> bool" and uqs :: "('r, 'k) uq list"
  assumes idents: "(\<forall>u \<in> set uqs. unique_on (snd u) t) \<Longrightarrow> distinct (map ident t)"
begin

definition unaltered :: "uuid \<Rightarrow> app \<Rightarrow> app \<Rightarrow> bool" where
  "unaltered i s s' \<longleftrightarrow> (distinct (map ident (get s)) \<longrightarrow>
     distinct (map ident (get s')) \<and> (\<forall>r \<in> set (get s). ident r = i \<and> \<not> pending r \<longrightarrow> r \<in> set (get s')))"

lemma unaltered_same: "same_db s' s \<Longrightarrow> unaltered i s s'"
  using get_db [of s' s] by (simp add: unaltered_def)

lemma unaltered_trans: "unaltered i s t \<Longrightarrow> unaltered i t u \<Longrightarrow> unaltered i s u"
  by (auto simp: unaltered_def)

lemma unaltered_create: "create_in uqs get put mk s = (s', v) \<Longrightarrow> unaltered i s s'"
proof (erule create_cases)
  fix j assume k: "get s' = get s @ [mk j]" "\<forall>u \<in> set uqs. unique_on (snd u) (get s @ [mk j])"
  show ?thesis using idents [OF k(2)] by (simp add: unaltered_def k(1))
qed (simp add: unaltered_same)

lemma unaltered_update:
  assumes "update_in uqs get put (\<lambda>x. ident x = j) d s = (s', v)" and "List.find (\<lambda>x. ident x = j) (get s) = Some r" and "pending r"
  shows "unaltered i s s'"
  using assms(1)
proof (rule update_cases)
  fix x assume k: "get s' = update_rows (\<lambda>x. ident x = j) d (get s)" "\<forall>u \<in> set uqs. unique_on (snd u) (get s')"
  have "y \<in> set (get s')" if d: "distinct (map ident (get s))" and y: "y \<in> set (get s)" "\<not> pending y" for y
  proof -
    have "r \<in> set (get s)" "ident r = j" using find_Some_iff [OF assms(2)] by auto
    then have "ident y \<noteq> j" using d y assms(3) by (auto simp: distinct_map inj_on_def)
    then show ?thesis using y(1) unfolding k(1) by (auto simp: set_update_rows image_iff)
  qed
  then show ?thesis using idents [OF k(2)] by (simp add: unaltered_def)
qed (simp add: unaltered_same)

lemma unaltered_delete:
  assumes "delete_in get put (\<lambda>x. ident x = j) s = (s', v)" and "j \<noteq> i"
  shows "unaltered i s s'"
proof (cases v)
  case (Inl e)
  then show ?thesis using assms(1) by (auto simp: delete_in_def unaltered_same split: option.splits)
next
  case (Inr u)
  then have g: "get s' = delete_rows (\<lambda>x. ident x = j) (get s)" using delete_Inr assms(1) by blast
  show ?thesis unfolding unaltered_def g delete_rows_def using assms(2) by (auto simp: distinct_map_filter)
qed

text \<open>
  What holds whatever state the checks read: a decided row stays decided, with its core, as long as
  it is not deleted.
\<close>

definition lasting :: "('r \<Rightarrow> 'c) \<Rightarrow> uuid \<Rightarrow> app \<Rightarrow> app \<Rightarrow> bool" where
  "lasting core i s s' \<longleftrightarrow> (distinct (map ident (get s)) \<longrightarrow> distinct (map ident (get s')) \<and>
     (\<forall>r \<in> set (get s). ident r = i \<and> \<not> pending r \<longrightarrow> (\<exists>q \<in> set (get s'). ident q = i \<and> \<not> pending q \<and> core q = core r)))"

lemma lasting_unaltered: "unaltered i s s' \<Longrightarrow> lasting core i s s'"
  by (auto simp: unaltered_def lasting_def)

lemma lasting_same: "same_db s' s \<Longrightarrow> lasting core i s s'"
  by (rule lasting_unaltered) (rule unaltered_same)

lemma lasting_trans: "lasting core i s t \<Longrightarrow> lasting core i t u \<Longrightarrow> lasting core i s u"
  unfolding lasting_def by metis

lemma lasting_update:
  assumes "update_in uqs get put (\<lambda>x. ident x = j) d s = (s', v)"
    and d: "\<And>x. ident (d x) = ident x" "\<And>x. core (d x) = core x" "\<And>x. \<not> pending x \<Longrightarrow> \<not> pending (d x)"
  shows "lasting core i s s'"
  using assms(1)
proof (rule update_cases)
  fix x assume k: "get s' = update_rows (\<lambda>x. ident x = j) d (get s)" "\<forall>u \<in> set uqs. unique_on (snd u) (get s')"
  have "\<exists>q \<in> set (get s'). ident q = i \<and> \<not> pending q \<and> core q = core r" if "r \<in> set (get s)" "ident r = i" "\<not> pending r" for r
    by (rule bexI [of _ "if ident r = j then d r else r"]) (use that d k(1) in \<open>auto simp: set_update_rows\<close>)
  then show ?thesis using idents [OF k(2)] by (simp add: lasting_def)
qed (simp add: lasting_same)

lemma lasting_find:
  assumes "lasting core i s s'" and "distinct (map ident (get s))" and "List.find (\<lambda>x. ident x = i) (get s) = Some r" and "\<not> pending r"
  shows "\<exists>q. List.find (\<lambda>x. ident x = i) (get s') = Some q \<and> \<not> pending q \<and> core q = core r"
proof -
  have r: "r \<in> set (get s)" "ident r = i" using find_Some_iff [OF assms(3)] by auto
  then obtain q where "q \<in> set (get s')" "ident q = i" "\<not> pending q" "core q = core r" "distinct (map ident (get s'))"
    using assms(1,2,4) by (auto simp: lasting_def)
  then show ?thesis using find_key by metis
qed

lemma final_find:
  assumes "unaltered i s s'" and "distinct (map ident (get s))" and "List.find (\<lambda>x. ident x = i) (get s) = Some r" and "\<not> pending r"
  shows "List.find (\<lambda>x. ident x = i) (get s') = Some r"
proof -
  have r: "r \<in> set (get s)" "ident r = i" using find_Some_iff [OF assms(3)] by auto
  then have "r \<in> set (get s')" "distinct (map ident (get s'))" using assms(1,2,4) by (auto simp: unaltered_def)
  then show ?thesis using find_key r(2) by metis
qed

end

sublocale requests < final: db_relation "unaltered i" for i
  by unfold_locales (auto intro: unaltered_same unaltered_trans)

sublocale requests < lasts: db_relation "lasting core i" for core i
  by unfold_locales (auto intro: lasting_same lasting_trans)

interpretation leave: requests leaveRequests put_leaves lv_id "\<lambda>r. lv_status r = LvPending" leave_uqs
  by unfold_locales (simp add: leave_uqs_def unique_on_total distinct_map inj_on_def)

interpretation proposal: requests proposals put_proposals pp_id "\<lambda>r. pp_status r = PrPending" proposal_uqs
  by unfold_locales (simp add: proposal_uqs_def unique_on_total distinct_map inj_on_def)

inductive leave_step :: "uuid \<Rightarrow> app \<Rightarrow> app \<Rightarrow> bool" for i where
  create: "leave_step i s (fst (createLeave cal stu cid day reason now s))"
| review: "leave_step i s (fst (reviewLeave s cal j approve note now s))"
| cancel: "leave_step i s (fst (cancelLeave s cal j s))"
| delete: "j \<noteq> i \<Longrightarrow> leave_step i s (fst (deleteLeave cal j s))"

inductive leave_run :: "uuid \<Rightarrow> app \<Rightarrow> app \<Rightarrow> bool" for i s0 where
  start: "leave_run i s0 s0"
| step: "leave_run i s0 s \<Longrightarrow> leave_step i s s' \<Longrightarrow> leave_run i s0 s'"

lemma created_audited:
  "same_db (fst (case x of (s1, Inl e) \<Rightarrow> (s1, f e) | (s1, Inr r) \<Rightarrow> (audited u ev (d r) s1, g r s1))) (fst x)"
  by (cases x; cases "snd x") simp_all

lemma unaltered_createLeave: "leave.unaltered i s (fst (createLeave cal stu cid day reason now s))"
proof -
  let ?mk = "\<lambda>d. create_in leave_uqs leaveRequests put_leaves (new_leave cal stu cid d reason now) s"
  have c: "leave.unaltered i s u" if "same_db u (fst (?mk d))" for d u
    using leave.final.then_same [OF leave.unaltered_create [OF prod.collapse [symmetric]] that] .
  show ?thesis
    unfolding createLeave_def
    by (cases "assertCanAccess s cal stu"; cases "parse_day (take 10 day)")
      (simp_all add: c [OF created_audited])
qed

lemma unaltered_reviewLeave: "leave.unaltered i s (fst (reviewLeave s cal j approve note now s))"
proof (cases "find_leave j s")
  case (Some r)
  let ?up = "update_in leave_uqs leaveRequests put_leaves (\<lambda>r. lv_id r = j) (decide_leave cal approve note now)"
  have "leave.unaltered i s t" if "?up s = (t, x)" "lv_status r = LvPending" for t x
    using leave.unaltered_update that Some by (simp add: find_leave_def)
  then show ?thesis using Some
    by (auto simp: reviewLeave_def intro: leave.final.bind_audited [OF prod.collapse [symmetric]])
qed (simp add: reviewLeave_def)

lemma unaltered_cancelLeave: "leave.unaltered i s (fst (cancelLeave s cal j s))"
proof (cases "find_leave j s")
  case (Some r)
  let ?up = "update_in leave_uqs leaveRequests put_leaves (\<lambda>r. lv_id r = j) (\<lambda>r. r\<lparr>lv_status := LvCancelled\<rparr>)"
  have "leave.unaltered i s t" if "?up s = (t, x)" "lv_status r = LvPending" for t x
    using leave.unaltered_update that Some by (simp add: find_leave_def)
  then show ?thesis using Some
    by (auto simp: cancelLeave_def Let_def intro: leave.final.bind_audited [OF prod.collapse [symmetric]])
qed (simp add: cancelLeave_def)

lemma unaltered_deleteLeave: "j \<noteq> i \<Longrightarrow> leave.unaltered i s (fst (deleteLeave cal j s))"
  by (auto simp: deleteLeave_def intro: leave.final.bind_audited [OF prod.collapse [symmetric]] leave.unaltered_delete)

text \<open>
  The same requests when reviews and cancellations may have read any state whatever, as when they
  are served at the same time.
\<close>

inductive leave_race :: "uuid \<Rightarrow> app \<Rightarrow> app \<Rightarrow> bool" for i s0 where
  start: "leave_race i s0 s0"
| create: "leave_race i s0 s \<Longrightarrow> leave_race i s0 (fst (createLeave cal stu cid day reason now s))"
| review: "leave_race i s0 s \<Longrightarrow> leave_race i s0 (fst (reviewLeave view cal j approve note now s))"
| cancel: "leave_race i s0 s \<Longrightarrow> leave_race i s0 (fst (cancelLeave view cal j s))"
| delete: "leave_race i s0 s \<Longrightarrow> j \<noteq> i \<Longrightarrow> leave_race i s0 (fst (deleteLeave cal j s))"

definition leave_core :: "leave_request \<Rightarrow> uuid \<times> uuid \<times> instant" where
  "leave_core r = (lv_studentId r, lv_classId r, lv_sessionDate r)"

lemma lasting_reviewLeave: "leave.lasting leave_core i s (fst (reviewLeave view cal j approve note now s))"
proof -
  have "leave.lasting leave_core i s t"
    if "update_in leave_uqs leaveRequests put_leaves (\<lambda>r. lv_id r = j) (decide_leave cal approve note now) s = (t, x)" for t x
    using that by (rule leave.lasting_update) (simp_all add: decide_leave_def leave_core_def)
  then show ?thesis
    by (auto simp: reviewLeave_def intro: leave.lasts.bind_audited [OF prod.collapse [symmetric]] split: option.split)
qed

lemma lasting_cancelLeave: "leave.lasting leave_core i s (fst (cancelLeave view cal j s))"
proof -
  have "leave.lasting leave_core i s t"
    if "update_in leave_uqs leaveRequests put_leaves (\<lambda>r. lv_id r = j) (\<lambda>r. r\<lparr>lv_status := LvCancelled\<rparr>) s = (t, x)" for t x
    using that by (rule leave.lasting_update) (simp_all add: leave_core_def)
  then show ?thesis
    by (auto simp: cancelLeave_def Let_def intro: leave.lasts.bind_audited [OF prod.collapse [symmetric]] split: option.split)
qed

lemma leave_race_lasting: "leave_race i s0 s \<Longrightarrow> leave.lasting leave_core i s0 s"
proof (induction rule: leave_race.induct)
  case (create s cal stu cid day reason now)
  then show ?case using leave.lasting_unaltered [OF unaltered_createLeave] leave.lasting_trans by blast
next
  case (delete s j cal)
  then show ?case using leave.lasting_unaltered [OF unaltered_deleteLeave] leave.lasting_trans by blast
qed (use lasting_reviewLeave lasting_cancelLeave leave.lasting_trans in \<open>simp | blast\<close>)+

lemma leave_run_unaltered: "leave_run i s0 s \<Longrightarrow> leave.unaltered i s0 s"
proof (induction rule: leave_run.induct)
  case (step s s')
  have "leave.unaltered i s s'" using step.hyps(2)
    by (induction rule: leave_step.induct) (simp_all add: unaltered_createLeave unaltered_reviewLeave unaltered_cancelLeave unaltered_deleteLeave)
  then show ?case using step.IH leave.unaltered_trans by blast
qed simp

text \<open>
  C28: A decision on an absence request is final as long as the request is not deleted. Served one
  after the other, so that each reads the current row, no sequence of new requests, reviews,
  cancellations and deletions of other requests changes a request that was approved, rejected or
  cancelled, and reviewing or cancelling it again is refused with a conflict and changes nothing.
  When reviews and cancellations act on stale reads, one decision may replace another
  (\<open>leave_review_race\<close>), but a decided request never becomes pending again and keeps its student, class
  and day.
\<close>

theorem leave_decision_final:
  assumes "distinct (map lv_id (leaveRequests s0))" and "find_leave i s0 = Some r" and "lv_status r \<noteq> LvPending"
  shows "(leave_run i s0 s \<longrightarrow> find_leave i s = Some r \<and>
      reviewLeave s cal i approve note now s = (s, Inl (Conflict ''Only pending requests can be reviewed'')) \<and>
      cancelLeave s cal i s = (s, Inl (Conflict ''Only pending requests can be cancelled''))) \<and>
    (leave_race i s0 s \<longrightarrow> (\<exists>q. find_leave i s = Some q \<and> lv_status q \<noteq> LvPending \<and>
      lv_studentId q = lv_studentId r \<and> lv_classId q = lv_classId r \<and> lv_sessionDate q = lv_sessionDate r))"
proof (intro conjI impI)
  assume "leave_run i s0 s"
  then have f: "find_leave i s = Some r"
    using leave.final_find [OF leave_run_unaltered assms(1)] assms(2,3) by (simp add: find_leave_def)
  then show "find_leave i s = Some r"
    "reviewLeave s cal i approve note now s = (s, Inl (Conflict ''Only pending requests can be reviewed''))"
    "cancelLeave s cal i s = (s, Inl (Conflict ''Only pending requests can be cancelled''))"
    using assms(3) by (simp_all add: reviewLeave_def cancelLeave_def)
next
  assume "leave_race i s0 s"
  from leave.lasting_find [OF leave_race_lasting [OF this] assms(1)] assms(2,3)
  show "\<exists>q. find_leave i s = Some q \<and> lv_status q \<noteq> LvPending \<and>
      lv_studentId q = lv_studentId r \<and> lv_classId q = lv_classId r \<and> lv_sessionDate q = lv_sessionDate r"
    by (simp add: find_leave_def leave_core_def)
qed

lemma decide_leave_keys:
  "lv_id (decide_leave c ap n t x) = lv_id x" "lv_studentId (decide_leave c ap n t x) = lv_studentId x"
  "lv_classId (decide_leave c ap n t x) = lv_classId x" "lv_sessionDate (decide_leave c ap n t x) = lv_sessionDate x"
  by (simp_all add: decide_leave_def)

lemma reviewLeave_writes:
  assumes "find_leave i view = Some r" and "lv_status r = LvPending" and "cal_role a = ADMIN"
    and "find_leave i s = Some q" and "\<forall>u \<in> set leave_uqs. unique_on (snd u) (leaveRequests s)"
  obtains s' v where "reviewLeave view a i ap n t s = (s', Inr v)" "lvv_row v = decide_leave a ap n t q"
    "find_leave i s' = Some (decide_leave a ap n t q)" "\<forall>u \<in> set leave_uqs. unique_on (snd u) (leaveRequests s')"
proof -
  let ?t = "update_rows (\<lambda>r. lv_id r = i) (decide_leave a ap n t) (leaveRequests s)"
  have u: "\<forall>u \<in> set leave_uqs. unique_on (snd u) ?t"
    using assms(5) by (simp add: leave_uqs_def unique_on_total map_update_rows_same decide_leave_keys)
  have "List.find (\<lambda>r. lv_id r = i) ?t = Some (decide_leave a ap n t q)"
    using find_update [of "\<lambda>r. lv_id r = i" "decide_leave a ap n t" "leaveRequests s"] assms(4) by (simp add: decide_leave_keys find_leave_def)
  moreover have up: "update_in leave_uqs leaveRequests put_leaves (\<lambda>r. lv_id r = i) (decide_leave a ap n t) s =
      (put_leaves ?t s, Inr (decide_leave a ap n t q))"
    using assms(4) by (simp add: update_in_def find_leave_def check_unique_ok [OF u])
  moreover obtain d where "reviewLeave view a i ap n t s =
      (audited (Some (cal_id a)) ''leave_request_reviewed'' d (put_leaves ?t s), Inr (serializeLeaveRequest (put_leaves ?t s) (decide_leave a ap n t q)))"
    unfolding reviewLeave_def assms(1) by (simp add: assms(2,3) bindE_def up)
  moreover have "leaveRequests (audited (Some (cal_id a)) ''leave_request_reviewed'' d (put_leaves ?t s)) = ?t"
    using same_db_tables [OF same_db_audited] by simp
  ultimately show thesis using that u by (simp add: serializeLeaveRequest_def find_leave_def)
qed

text \<open>Two reviews whose checks ran before either wrote both succeed, and the later one prevails.\<close>

theorem leave_review_race:
  assumes "find_leave i s = Some r" and "lv_status r = LvPending" and "cal_role a = ADMIN" and "cal_role b = ADMIN"
    and "\<forall>u \<in> set leave_uqs. unique_on (snd u) (leaveRequests s)"
  shows "\<exists>s1 s2 v w. reviewLeave s a i False n t s = (s1, Inr v) \<and> lv_status (lvv_row v) = LvRejected \<and>
    reviewLeave s b i True n' t' s1 = (s2, Inr w) \<and> lv_status (lvv_row w) = LvApproved"
proof -
  obtain s1 v where 1: "reviewLeave s a i False n t s = (s1, Inr v)" "lvv_row v = decide_leave a False n t r"
    "find_leave i s1 = Some (decide_leave a False n t r)" "\<forall>u \<in> set leave_uqs. unique_on (snd u) (leaveRequests s1)"
    using reviewLeave_writes [OF assms(1,2,3,1,5)] by metis
  obtain s2 w where "reviewLeave s b i True n' t' s1 = (s2, Inr w)" "lvv_row w = decide_leave b True n' t' (decide_leave a False n t r)"
    using reviewLeave_writes [OF assms(1,2,4) 1(3,4)] by metis
  then show ?thesis using 1(1,2) by (auto simp: decide_leave_def)
qed

section \<open>Proposals are final and advisory\<close>

inductive proposal_step :: "app \<Rightarrow> app \<Rightarrow> bool" where
  create: "proposal_step s (fst (createProposal s cal stu rank note now s))"
| edit: "proposal_step s (fst (updateNote s cal j note s))"
| review: "proposal_step s (fst (reviewProposal s cal j approve note now s))"

inductive proposal_run :: "app \<Rightarrow> app \<Rightarrow> bool" for s0 where
  start: "proposal_run s0 s0"
| step: "proposal_run s0 s \<Longrightarrow> proposal_step s s' \<Longrightarrow> proposal_run s0 s'"

definition one_open :: "promotion_proposal list \<Rightarrow> bool" where
  "one_open t \<longleftrightarrow> distinct (map pp_studentId (filter (\<lambda>r. pp_status r = PrPending) t))"

text \<open>What a proposal operation does to the rest: no student changes, and a second open proposal of a student does not appear.\<close>

definition advisory :: "app \<Rightarrow> app \<Rightarrow> bool" where
  "advisory s s' \<longleftrightarrow> students s' = students s \<and> beltRanks s' = beltRanks s \<and> (one_open (proposals s) \<longrightarrow> one_open (proposals s'))"

interpretation advisory: db_relation advisory
  by unfold_locales (auto simp: advisory_def same_db_tables)

lemma one_open_update:
  assumes "one_open t" and "\<And>r. pp_studentId (d r) = pp_studentId r" and "\<And>r. pp_status r \<noteq> PrPending \<Longrightarrow> w r \<Longrightarrow> pp_status (d r) \<noteq> PrPending"
  shows "one_open (update_rows w d t)"
  using assms(1)
proof (induction t)
  case (Cons x t)
  have "pp_studentId ` set (filter (\<lambda>r. pp_status r = PrPending) (update_rows w d t)) \<subseteq>
      pp_studentId ` set (filter (\<lambda>r. pp_status r = PrPending) t)"
    using assms(2,3) by (fastforce simp: set_update_rows)
  then show ?case using Cons assms(2,3) by (cases "w x"; cases "pp_status x = PrPending") (auto simp: one_open_def)
qed (simp add: one_open_def)

lemma createProposal_steps: "advisory s (fst (createProposal s cal stu rank note now s))"
  "proposal.unaltered i s (fst (createProposal s cal stu rank note now s))"
proof -
  let ?mk = "create_in proposal_uqs proposals put_proposals (new_proposal cal stu rank note now)"
  have "advisory s t" if "?mk s = (t, x)" "List.find (open_for stu) (proposals s) = None" for t x
    using that(1)
  proof (rule proposal_rows.create_cases)
    fix j assume k: "t = put_proposals (proposals s @ [new_proposal cal stu rank note now j]) (s\<lparr>uuid_ctr := Suc (uuid_ctr s)\<rparr>)"
    have "stu \<notin> pp_studentId ` set (filter (\<lambda>r. pp_status r = PrPending) (proposals s))"
      using that(2) by (auto simp: find_None_ball open_for_def)
    then show ?thesis by (simp add: advisory_def k one_open_def new_proposal_def)
  qed (simp add: advisory.same)
  then show "advisory s (fst (createProposal s cal stu rank note now s))"
    unfolding createProposal_def by (auto intro: advisory.bind_audited [OF prod.collapse [symmetric]] split: sum.split option.split)
  have "proposal.unaltered i s t" if "?mk s = (t, x)" for t x using that by (rule proposal.unaltered_create)
  then show "proposal.unaltered i s (fst (createProposal s cal stu rank note now s))"
    unfolding createProposal_def by (auto intro: proposal.final.bind_audited [OF prod.collapse [symmetric]] split: sum.split option.split)
qed

lemma proposal_update_steps:
  assumes "update_in proposal_uqs proposals put_proposals (\<lambda>r. pp_id r = j) d s = (t, x)" and "find_proposal j s = Some r" and "pp_status r = PrPending"
    and "\<And>q. pp_studentId (d q) = pp_studentId q" and "\<And>q. pp_status q \<noteq> PrPending \<Longrightarrow> pp_status (d q) \<noteq> PrPending"
  shows "advisory s t" and "proposal.unaltered i s t"
proof -
  show "advisory s t" using assms(1)
    by (rule proposal_rows.update_cases) (simp_all add: advisory.same advisory_def one_open_update assms(4,5))
  show "proposal.unaltered i s t" using proposal.unaltered_update [OF assms(1)] assms(2,3) by (simp add: find_proposal_def)
qed

lemma updateNote_steps: "advisory s (fst (updateNote s cal j note s))" "proposal.unaltered i s (fst (updateNote s cal j note s))"
proof -
  have k: "advisory s t \<and> proposal.unaltered i s t"
    if "update_in proposal_uqs proposals put_proposals (\<lambda>r. pp_id r = j) (\<lambda>r. r\<lparr>pp_note := given note (pp_note r)\<rparr>) s = (t, x)"
      "find_proposal j s = Some r" "pp_status r = PrPending" for t x r
    using proposal_update_steps [OF that] by simp
  show "advisory s (fst (updateNote s cal j note s))" "proposal.unaltered i s (fst (updateNote s cal j note s))"
    unfolding updateNote_def using k
    by (auto intro: advisory.bind_audited [OF prod.collapse [symmetric]] proposal.final.bind_audited [OF prod.collapse [symmetric]] split: option.split)
qed

lemma reviewProposal_steps: "advisory s (fst (reviewProposal s cal j approve note now s))"
  "proposal.unaltered i s (fst (reviewProposal s cal j approve note now s))"
proof -
  have k: "advisory s t \<and> proposal.unaltered i s t"
    if "update_in proposal_uqs proposals put_proposals (\<lambda>r. pp_id r = j) (decide_proposal cal approve note now) s = (t, x)"
      "find_proposal j s = Some r" "pp_status r = PrPending" for t x r
    using proposal_update_steps [OF that] by (simp add: decide_proposal_def)
  show "advisory s (fst (reviewProposal s cal j approve note now s))" "proposal.unaltered i s (fst (reviewProposal s cal j approve note now s))"
    unfolding reviewProposal_def using k
    by (auto intro: advisory.bind_audited [OF prod.collapse [symmetric]] proposal.final.bind_audited [OF prod.collapse [symmetric]] split: option.split)
qed

text \<open>The same requests on arbitrary reads.\<close>

inductive proposal_race :: "app \<Rightarrow> app \<Rightarrow> bool" for s0 where
  start: "proposal_race s0 s0"
| create: "proposal_race s0 s \<Longrightarrow> proposal_race s0 (fst (createProposal view cal stu rank note now s))"
| edit: "proposal_race s0 s \<Longrightarrow> proposal_race s0 (fst (updateNote view cal j note s))"
| review: "proposal_race s0 s \<Longrightarrow> proposal_race s0 (fst (reviewProposal view cal j approve note now s))"

definition proposal_core :: "promotion_proposal \<Rightarrow> uuid \<times> int" where
  "proposal_core r = (pp_studentId r, pp_proposedRankId r)"

definition belts_kept :: "app \<Rightarrow> app \<Rightarrow> bool" where
  "belts_kept s s' \<longleftrightarrow> students s' = students s \<and> beltRanks s' = beltRanks s"

interpretation belts_kept: db_relation belts_kept
  by unfold_locales (auto simp: belts_kept_def same_db_tables)

lemma belts_kept_create: "create_in proposal_uqs proposals put_proposals mk s = (t, x) \<Longrightarrow> belts_kept s t"
  by (erule proposal_rows.create_cases) (simp_all add: belts_kept_def same_db_tables)

lemma belts_kept_update: "update_in proposal_uqs proposals put_proposals w d s = (t, x) \<Longrightarrow> belts_kept s t"
  by (erule proposal_rows.update_cases) (simp_all add: belts_kept_def same_db_tables)

lemma createProposal_any: "belts_kept s (fst (createProposal view cal stu rank note now s)) \<and>
    proposal.lasting proposal_core i s (fst (createProposal view cal stu rank note now s))"
proof -
  have "proposal.lasting proposal_core i s t"
    if "create_in proposal_uqs proposals put_proposals (new_proposal cal stu rank note now) s = (t, x)" for t x
    by (rule proposal.lasting_unaltered [OF proposal.unaltered_create [OF that]])
  then show ?thesis unfolding createProposal_def
    by (auto intro: belts_kept.bind_audited [OF prod.collapse [symmetric]] proposal.lasts.bind_audited [OF prod.collapse [symmetric]]
        belts_kept_create split: sum.split option.split)
qed

lemma proposal_update_any:
  assumes "update_in proposal_uqs proposals put_proposals (\<lambda>r. pp_id r = j) d s = (t, x)"
    and "\<And>q. pp_id (d q) = pp_id q \<and> proposal_core (d q) = proposal_core q" and "\<And>q. pp_status q \<noteq> PrPending \<Longrightarrow> pp_status (d q) \<noteq> PrPending"
  shows "proposal.lasting proposal_core i s t"
  using assms(1) by (rule proposal.lasting_update) (use assms(2,3) in auto)

lemma updateNote_any: "belts_kept s (fst (updateNote view cal j note s)) \<and> proposal.lasting proposal_core i s (fst (updateNote view cal j note s))"
proof -
  have "proposal.lasting proposal_core i s t"
    if "update_in proposal_uqs proposals put_proposals (\<lambda>r. pp_id r = j) (\<lambda>r. r\<lparr>pp_note := given note (pp_note r)\<rparr>) s = (t, x)" for t x
    using that by (rule proposal_update_any) (simp_all add: proposal_core_def)
  then show ?thesis unfolding updateNote_def
    by (auto intro: belts_kept.bind_audited [OF prod.collapse [symmetric]] proposal.lasts.bind_audited [OF prod.collapse [symmetric]]
        belts_kept_update split: option.split)
qed

lemma reviewProposal_any: "belts_kept s (fst (reviewProposal view cal j approve note now s)) \<and>
    proposal.lasting proposal_core i s (fst (reviewProposal view cal j approve note now s))"
proof -
  have "proposal.lasting proposal_core i s t"
    if "update_in proposal_uqs proposals put_proposals (\<lambda>r. pp_id r = j) (decide_proposal cal approve note now) s = (t, x)" for t x
    using that by (rule proposal_update_any) (simp_all add: proposal_core_def decide_proposal_def)
  then show ?thesis unfolding reviewProposal_def
    by (auto intro: belts_kept.bind_audited [OF prod.collapse [symmetric]] proposal.lasts.bind_audited [OF prod.collapse [symmetric]]
        belts_kept_update split: option.split)
qed

lemma proposal_race_steps: "proposal_race s0 s \<Longrightarrow> belts_kept s0 s \<and> proposal.lasting proposal_core i s0 s"
proof (induction rule: proposal_race.induct)
  case (create s view cal stu rank n now)
  then show ?case using createProposal_any belts_kept.trans proposal.lasting_trans by blast
next
  case (edit s view cal j n)
  then show ?case using updateNote_any belts_kept.trans proposal.lasting_trans by blast
next
  case (review s view cal j approve n now)
  then show ?case using reviewProposal_any belts_kept.trans proposal.lasting_trans by blast
qed simp

lemma proposal_run_steps: "proposal_run s0 s \<Longrightarrow> advisory s0 s \<and> proposal.unaltered i s0 s"
proof (induction rule: proposal_run.induct)
  case (step s s')
  have "advisory s s' \<and> proposal.unaltered i s s'" using step.hyps(2)
    by (induction rule: proposal_step.induct) (simp_all add: createProposal_steps updateNote_steps reviewProposal_steps)
  then show ?case using step.IH advisory.trans proposal.unaltered_trans by blast
qed simp

text \<open>
  C29: Promotion proposals are advisory: whatever states the requests read, no sequence of them
  changes a student or a rank, and a decided proposal never becomes pending again and keeps its
  student and rank. Served one after the other, they give no student a second open proposal and
  leave a decided proposal exactly as it is, and editing or reviewing it again is refused. (On
  stale reads a second open proposal and a second decision are possible.)
\<close>

theorem proposals_final_and_advisory:
  "(proposal_race s0 s \<longrightarrow> students s = students s0 \<and> beltRanks s = beltRanks s0) \<and>
   (proposal_run s0 s \<and> one_open (proposals s0) \<longrightarrow> one_open (proposals s)) \<and>
   (distinct (map pp_id (proposals s0)) \<and> find_proposal i s0 = Some r \<and> pp_status r \<noteq> PrPending \<longrightarrow>
      (proposal_race s0 s \<longrightarrow> (\<exists>q. find_proposal i s = Some q \<and> pp_status q \<noteq> PrPending \<and>
         pp_studentId q = pp_studentId r \<and> pp_proposedRankId q = pp_proposedRankId r)) \<and>
      (proposal_run s0 s \<longrightarrow> find_proposal i s = Some r \<and>
         (\<exists>e. updateNote s cal i note s = (s, Inl e)) \<and> (\<exists>e. reviewProposal s cal i approve note now s = (s, Inl e))))"
proof -
  let ?d = "distinct (map pp_id (proposals s0)) \<and> find_proposal i s0 = Some r \<and> pp_status r \<noteq> PrPending"
  have race: "\<exists>q. find_proposal i s = Some q \<and> pp_status q \<noteq> PrPending \<and> pp_studentId q = pp_studentId r \<and> pp_proposedRankId q = pp_proposedRankId r"
    if d: ?d and r: "proposal_race s0 s"
  proof -
    have "proposal.lasting proposal_core i s0 s" using proposal_race_steps [OF r] by blast
    from proposal.lasting_find [OF this] d show ?thesis by (simp add: find_proposal_def proposal_core_def)
  qed
  have run: "find_proposal i s = Some r \<and> (\<exists>e. updateNote s cal i note s = (s, Inl e)) \<and> (\<exists>e. reviewProposal s cal i approve note now s = (s, Inl e))"
    if d: ?d and r: "proposal_run s0 s"
  proof -
    have "proposal.unaltered i s0 s" using proposal_run_steps [OF r] by blast
    then have "find_proposal i s = Some r" using proposal.final_find d by (simp add: find_proposal_def)
    then show ?thesis using d by (simp add: updateNote_def reviewProposal_def)
  qed
  have "proposal_race s0 s \<longrightarrow> students s = students s0 \<and> beltRanks s = beltRanks s0"
    using proposal_race_steps [of s0 s] by (simp add: belts_kept_def)
  moreover have "proposal_run s0 s \<and> one_open (proposals s0) \<longrightarrow> one_open (proposals s)"
    using proposal_run_steps [of s0 s] by (simp add: advisory_def)
  ultimately show ?thesis using race run by blast
qed

section \<open>Examples\<close>

definition asked0 :: app where
  "asked0 = full0\<lparr>leaveRequests := [(new_leave head0 ''kid'' ''c1'' 0 ''flu'' 0 ''q'')\<lparr>lv_status := LvApproved\<rparr>],
     proposals := [(new_proposal head0 ''kid'' 2 None 0 ''p'')\<lparr>pp_status := PrRejected\<rparr>]\<rparr>"

theorem leave_decision_final_witness:
  "map lv_status (leaveRequests asked0) = [LvApproved] \<and>
   reviewLeave asked0 head0 ''q'' False None 9 asked0 = (asked0, Inl (Conflict ''Only pending requests can be reviewed''))"
  using leave_decision_final [of asked0 "''q''"
      "(new_leave head0 ''kid'' ''c1'' 0 ''flu'' 0 ''q'')\<lparr>lv_status := LvApproved\<rparr>" asked0 head0 False None 9] leave_run.start [of "''q''" asked0]
  by (simp add: asked0_def find_leave_def new_leave_def)

theorem proposals_final_and_advisory_witness:
  "map pp_status (proposals asked0) = [PrRejected] \<and>
   (let s = fst (createProposal asked0 head0 ''kid'' 2 None 5 asked0) in
    students s = students asked0 \<and> map pp_status (filter (\<lambda>r. pp_id r = ''p'') (proposals asked0)) = [PrRejected] \<and>
    (\<exists>e. reviewProposal s head0 ''p'' True None 9 s = (s, Inl e)))"
proof -
  let ?s = "fst (createProposal asked0 head0 ''kid'' 2 None 5 asked0)" and ?r = "(new_proposal head0 ''kid'' 2 None 0 ''p'')\<lparr>pp_status := PrRejected\<rparr>"
  have "proposal_run asked0 ?s" by (rule proposal_run.step [OF proposal_run.start proposal_step.create])
  moreover have "proposal_race asked0 ?s" by (rule proposal_race.create [OF proposal_race.start])
  moreover have "distinct (map pp_id (proposals asked0)) \<and> find_proposal ''p'' asked0 = Some ?r \<and> pp_status ?r \<noteq> PrPending"
    by (simp add: asked0_def find_proposal_def new_proposal_def)
  ultimately have "students ?s = students asked0 \<and> (\<exists>e. reviewProposal ?s head0 ''p'' True None 9 ?s = (?s, Inl e))"
    using proposals_final_and_advisory [of asked0 ?s "''p''" ?r head0 None True 9] by blast
  moreover have "map pp_status (proposals asked0) = [PrRejected]" "map pp_status (filter (\<lambda>r. pp_id r = ''p'') (proposals asked0)) = [PrRejected]"
    by (simp_all add: asked0_def new_proposal_def)
  ultimately show ?thesis unfolding Let_def by blast
qed

end
