(* ===== verification/Notices.thy ===== *)
theory Notices
  imports Classes Outbox Tokens
begin

text \<open>
  Consent records (\<^verbatim>\<open>consent/consent.service.ts\<close>), club announcements
  (\<^verbatim>\<open>announcements/announcements.service.ts\<close>) and the in-app feed
  (\<^verbatim>\<open>notifications/notifications.service.ts\<close>).
\<close>

section \<open>Consent\<close>

definition MINOR_CUTOFF_YEARS :: int where "MINOR_CUTOFF_YEARS = 18"

definition show_consent :: "consent_purpose \<Rightarrow> string" where
  "show_consent p = (case p of DATA_PROCESSING \<Rightarrow> ''DATA_PROCESSING'' | MEDIA_USAGE \<Rightarrow> ''MEDIA_USAGE'' | MARKETING_NOTICE \<Rightarrow> ''MARKETING_NOTICE'')"

definition consent_uqs :: "(consent_log, string) uq list" where
  "consent_uqs = [([''id''], \<lambda>r. Some (con_id r))]"

text \<open>An active consent of a user for a purpose.\<close>

definition active_consent :: "uuid \<Rightarrow> consent_purpose \<Rightarrow> consent_log \<Rightarrow> bool" where
  "active_consent userId purpose r \<longleftrightarrow> con_userId r = userId \<and> con_purpose r = purpose \<and> con_revokedAt r = None"

text \<open>\<^verbatim>\<open>setUTCFullYear\<close> keeps the month, the day and the time; a day the month does not have carries over.\<close>

definition setUTCFullYear :: "int \<Rightarrow> instant \<Rightarrow> instant" where
  "setUTCFullYear y t = date_UTC y (int (getUTCMonth t)) (getUTCDate t) + (t - as_date t)"

record consent_subject =
  csb_userId :: uuid
  csb_consentedBy :: "uuid option"
  csb_label :: string

definition resolveSubject :: "caller \<Rightarrow> uuid option \<Rightarrow> instant \<Rightarrow> app \<Rightarrow> consent_subject res" where
  "resolveSubject cal studentId now s = (case studentId of
       None \<Rightarrow> Inr \<lparr> csb_userId = cal_id cal, csb_consentedBy = None, csb_label = '''' \<rparr>
     | Some sid \<Rightarrow> (case assertCanAccess s cal sid of
         Inl e \<Rightarrow> Inl e
       | Inr _ \<Rightarrow> (case live_student s sid of
           None \<Rightarrow> Inl (NotFound ''Not found'')
         | Some p \<Rightarrow> (case stu_userId p of
             None \<Rightarrow> Inl (BadRequest ''Consent requires the student to have an account'')
           | Some u \<Rightarrow>
               if u = cal_id cal then Inr \<lparr> csb_userId = cal_id cal, csb_consentedBy = None, csb_label = '''' \<rparr>
               else if stu_dob p \<le> setUTCFullYear (getUTCFullYear now - MINOR_CUTOFF_YEARS) now
               then Inl (BadRequest ''Parent consent applies to minors only'')
               else Inr \<lparr> csb_userId = u, csb_consentedBy = Some (cal_id cal), csb_label = '' student_profile:'' @ sid \<rparr>))))"

record consent_view =
  csv_row :: consent_log
  csv_active :: bool
  csv_alreadyActive :: bool

definition serializeConsent :: "consent_log \<Rightarrow> bool \<Rightarrow> consent_view" where
  "serializeConsent r already = \<lparr> csv_row = r, csv_active = (con_revokedAt r = None), csv_alreadyActive = already \<rparr>"

definition new_consent :: "consent_subject \<Rightarrow> consent_purpose \<Rightarrow> instant \<Rightarrow> uuid \<Rightarrow> consent_log" where
  "new_consent x purpose now i = \<lparr> con_id = i, con_userId = csb_userId x, con_purpose = purpose,
     con_consentedByUserId = csb_consentedBy x, con_consentedAt = now, con_revokedAt = None \<rparr>"

text \<open>The search for an active row and the insertion are separate statements; \<open>view\<close> is what the search read.\<close>

definition grantConsent :: "app \<Rightarrow> caller \<Rightarrow> consent_purpose \<Rightarrow> uuid option \<Rightarrow> instant \<Rightarrow> app \<Rightarrow> app \<times> consent_view res" where
  "grantConsent view cal purpose studentId now s = (case resolveSubject cal studentId now view of
       Inl e \<Rightarrow> (s, Inl e)
     | Inr x \<Rightarrow> (case List.find (active_consent (csb_userId x) purpose) (consents view) of
         Some r \<Rightarrow> (s, Inr (serializeConsent r True))
       | None \<Rightarrow> bindE (create_in consent_uqs consents put_consents (new_consent x purpose now)) (\<lambda>r s1.
           (audited (Some (cal_id cal)) ''consent_granted''
              (''purpose:'' @ show_consent purpose @ '' subject_user:'' @ csb_userId x @ csb_label x) s1,
            Inr (serializeConsent r False))) s))"

definition revokeConsent :: "caller \<Rightarrow> consent_purpose \<Rightarrow> uuid option \<Rightarrow> instant \<Rightarrow> app \<Rightarrow> app \<times> (consent_purpose \<times> instant) res" where
  "revokeConsent cal purpose studentId now s = (case resolveSubject cal studentId now s of
       Inl e \<Rightarrow> (s, Inl e)
     | Inr x \<Rightarrow> (let (t, n) = update_many (active_consent (csb_userId x) purpose) (\<lambda>r. r\<lparr>con_revokedAt := Some now\<rparr>) (consents s) in
         if n = 0 then (s, Inl (NotFound ''No active consent for this purpose''))
         else (audited (Some (cal_id cal)) ''consent_revoked''
                 (''purpose:'' @ show_consent purpose @ '' subject_user:'' @ csb_userId x @ csb_label x) (put_consents t s),
               Inr (purpose, now))))"

definition myHistory :: "caller \<Rightarrow> app \<Rightarrow> consent_view list" where
  "myHistory cal s = map (\<lambda>r. serializeConsent r False)
     (sort_key (\<lambda>r. - con_consentedAt r) (filter (\<lambda>r. con_userId r = cal_id cal) (consents s)))"

section \<open>Announcements\<close>

definition announcement_uqs :: "(announcement, string) uq list" where
  "announcement_uqs = [([''id''], \<lambda>r. Some (ann_id r))]"

definition show_audience :: "announcement_audience \<Rightarrow> string" where
  "show_audience a = (case a of AudAll \<Rightarrow> ''ALL'' | AudClass \<Rightarrow> ''CLASS'')"

record announcement_view =
  anv_row :: announcement
  anv_className :: "string option"

definition serializeAnnouncement :: "app \<Rightarrow> announcement \<Rightarrow> announcement_view" where
  "serializeAnnouncement s r = \<lparr> anv_row = r,
     anv_className = Option.bind (ann_classId r) (\<lambda>i. map_option cls_name (find_class i s)) \<rparr>"

text \<open>The classes of the caller: taught, attended, or attended by a linked child.\<close>

definition related_student :: "caller \<Rightarrow> app \<Rightarrow> student_profile \<Rightarrow> bool" where
  "related_student cal s p \<longleftrightarrow> stu_userId p = Some (cal_id cal) \<or>
     (\<exists>l \<in> set (parentLinks s). lnk_studentId l = stu_id p \<and> lnk_parentUserId l = cal_id cal \<and> lnk_verified l)"

definition classAudience :: "caller \<Rightarrow> app \<Rightarrow> announcement \<Rightarrow> bool" where
  "classAudience cal s a \<longleftrightarrow> ann_audience a = AudClass \<and>
     (case Option.bind (ann_classId a) (\<lambda>i. find_class i s) of
        None \<Rightarrow> False
      | Some c \<Rightarrow> (cal_role cal = INSTRUCTOR \<and> cls_instructorId c = cal_id cal) \<or>
          (\<exists>e \<in> set (enrollments s). open_in (cls_id c) e \<and>
             (\<exists>p \<in> set (students s). stu_id p = enr_studentId e \<and> related_student cal s p)))"

definition listAnnouncements :: "caller \<Rightarrow> nat \<Rightarrow> nat \<Rightarrow> app \<Rightarrow> announcement_view list \<times> nat" where
  "listAnnouncements cal page limit s =
     (let found = filter (\<lambda>a. cal_role cal = ADMIN \<or> ann_audience a = AudAll \<or> classAudience cal s a) (announcements s) in
      (map (serializeAnnouncement s) (page_of page limit (sort_key (\<lambda>a. - ann_publishedAt a) found)), length found))"

definition assertOwnClass :: "caller \<Rightarrow> uuid \<Rightarrow> app \<Rightarrow> unit res" where
  "assertOwnClass cal cid s =
     (if List.find (\<lambda>c. cls_id c = cid \<and> cls_instructorId c = cal_id cal) (classes s) = None then Inl (NotFound ''Not found'') else Inr ())"

definition resolveClassTarget :: "announcement_audience \<Rightarrow> uuid option \<Rightarrow> app \<Rightarrow> uuid option res" where
  "resolveClassTarget audience cid s = (case audience of
       AudAll \<Rightarrow> (case cid of Some _ \<Rightarrow> Inl (BadRequest ''A club-wide announcement cannot target a class'') | None \<Rightarrow> Inr None)
     | AudClass \<Rightarrow> (case cid of
         None \<Rightarrow> Inl (BadRequest ''A class announcement needs a class'')
       | Some i \<Rightarrow> (case find_class i s of None \<Rightarrow> Inl (NotFound ''Not found'') | Some c \<Rightarrow> Inr (Some (cls_id c)))))"

definition instructor_only :: exn where
  "instructor_only = Forbidden ''Instructors may only post announcements to their own classes''"

record announcement_dto =
  and_title :: string
  and_body :: string
  and_audience :: announcement_audience
  and_classId :: "uuid option"

definition new_announcement :: "caller \<Rightarrow> announcement_dto \<Rightarrow> uuid option \<Rightarrow> instant \<Rightarrow> uuid \<Rightarrow> announcement" where
  "new_announcement cal dto cid now i = \<lparr> ann_id = i, ann_title = and_title dto, ann_body = and_body dto, ann_audience = and_audience dto,
     ann_classId = cid, ann_publishedAt = now, ann_createdBy = cal_id cal \<rparr>"

definition createAnnouncement :: "caller \<Rightarrow> announcement_dto \<Rightarrow> instant \<Rightarrow> app \<Rightarrow> app \<times> announcement_view res" where
  "createAnnouncement cal dto now s = (case (if cal_role cal \<noteq> INSTRUCTOR then Inr ()
        else if and_audience dto \<noteq> AudClass then Inl instructor_only
        else case and_classId dto of None \<Rightarrow> Inl instructor_only | Some i \<Rightarrow> assertOwnClass cal i s) of
       Inl e \<Rightarrow> (s, Inl e)
     | Inr _ \<Rightarrow> (case resolveClassTarget (and_audience dto) (and_classId dto) s of
         Inl e \<Rightarrow> (s, Inl e)
       | Inr cid \<Rightarrow> bindE (create_in announcement_uqs announcements put_announcements (new_announcement cal dto cid now)) (\<lambda>a s1.
           (audited None ''announcement_created'' (''announcement:'' @ ann_id a @ '' audience:'' @ show_audience (ann_audience a)) s1,
            Inr (serializeAnnouncement s1 a))) s))"

record announcement_patch =
  anp_title :: "string option"
  anp_body :: "string option"
  anp_audience :: "announcement_audience option"
  anp_classId :: "uuid option"

definition find_announcement :: "uuid \<Rightarrow> app \<Rightarrow> announcement option" where
  "find_announcement i s = List.find (\<lambda>a. ann_id a = i) (announcements s)"

definition updateAnnouncement :: "caller \<Rightarrow> uuid \<Rightarrow> announcement_patch \<Rightarrow> app \<Rightarrow> app \<times> announcement_view res" where
  "updateAnnouncement cal i dto s = (case find_announcement i s of
       None \<Rightarrow> (s, Inl (NotFound ''Not found''))
     | Some a \<Rightarrow>
         let audience = case_option (ann_audience a) id (anp_audience dto);
             target = (case anp_classId dto of None \<Rightarrow> ann_classId a | Some c \<Rightarrow> Some c);
             allowed = (if cal_role cal \<noteq> INSTRUCTOR then Inr ()
               else if ann_createdBy a \<noteq> cal_id cal then Inl (NotFound ''Not found'')
               else if audience \<noteq> AudClass then Inl instructor_only
               else case target of None \<Rightarrow> Inr () | Some c \<Rightarrow> assertOwnClass cal c s)
         in case allowed of
              Inl e \<Rightarrow> (s, Inl e)
            | Inr _ \<Rightarrow> (case (if audience = AudAll \<and> anp_classId dto = None then Inr None else resolveClassTarget audience target s) of
                Inl e \<Rightarrow> (s, Inl e)
              | Inr cid \<Rightarrow> bindE (update_in announcement_uqs announcements put_announcements (\<lambda>a. ann_id a = i)
                    (\<lambda>a. a\<lparr>ann_title := case_option (ann_title a) id (anp_title dto), ann_body := case_option (ann_body a) id (anp_body dto),
                          ann_audience := audience, ann_classId := cid\<rparr>)) (\<lambda>a' s1.
                  (audited None ''announcement_updated'' (''announcement:'' @ i) s1, Inr (serializeAnnouncement s1 a'))) s))"

definition removeAnnouncement :: "caller \<Rightarrow> uuid \<Rightarrow> app \<Rightarrow> app \<times> bool res" where
  "removeAnnouncement cal i s = (case find_announcement i s of
       None \<Rightarrow> (s, Inl (NotFound ''Not found''))
     | Some a \<Rightarrow>
         if cal_role cal \<noteq> ADMIN \<and> ann_createdBy a \<noteq> cal_id cal then (s, Inl (NotFound ''Not found''))
         else bindE (delete_in announcements put_announcements (\<lambda>a. ann_id a = i)) (\<lambda>_ s1.
           (audited None ''announcement_deleted'' (''announcement:'' @ i) s1, Inr True)) s)"

section \<open>The in-app feed\<close>

definition listMine :: "caller \<Rightarrow> nat \<Rightarrow> nat \<Rightarrow> app \<Rightarrow> notification list \<times> nat" where
  "listMine cal page limit s = (let found = filter (\<lambda>n. ntf_userId n = Some (cal_id cal)) (notifications s) in
     (page_of page limit (sort_key (\<lambda>n. - ntf_createdAt n) found), length found))"

definition markRead :: "caller \<Rightarrow> uuid \<Rightarrow> instant \<Rightarrow> app \<Rightarrow> app \<times> (uuid \<times> instant option) res" where
  "markRead cal i now s =
     (let own = (\<lambda>n. ntf_id n = i \<and> ntf_userId n = Some (cal_id cal));
          (t, k) = update_many (\<lambda>n. own n \<and> ntf_readAt n = None) (\<lambda>n. n\<lparr>ntf_readAt := Some now\<rparr>) (notifications s) in
      if k = 0 then (case List.find own (notifications s) of
          None \<Rightarrow> (s, Inl (NotFound ''Not found''))
        | Some n \<Rightarrow> (s, Inr (ntf_id n, ntf_readAt n)))
      else (s\<lparr>notifications := t\<rparr>, Inr (i, Some now)))"

section \<open>Consent history is never erased\<close>

definition consent_le :: "consent_log \<Rightarrow> consent_log \<Rightarrow> bool" where
  "consent_le r r' \<longleftrightarrow> r' = r \<or> (con_revokedAt r = None \<and> (\<exists>t. r' = r\<lparr>con_revokedAt := Some t\<rparr>))"

definition consents_later :: "app \<Rightarrow> app \<Rightarrow> bool" where
  "consents_later s s' \<longleftrightarrow> extends consent_le (consents s) (consents s')"

interpretation consents_rel: db_relation consents_later
proof
  show "consents_later s s'" if "same_db s' s" for s s'
    using that by (simp add: consents_later_def same_db_tables extends_refl consent_le_def)
  show "consents_later s u" if "consents_later s t" "consents_later t u" for s t u
    using that unfolding consents_later_def by (rule extends_trans) (auto simp: consent_le_def)
qed

text \<open>Requests interleave: what a grant read may be out of date when it writes.\<close>

inductive consent_step :: "app \<Rightarrow> app \<Rightarrow> bool" where
  grant: "consent_step s (fst (grantConsent view cal purpose sid now s))"
| revoke: "consent_step s (fst (revokeConsent cal purpose sid now s))"

inductive consent_run :: "app \<Rightarrow> app \<Rightarrow> bool" for s0 where
  start: "consent_run s0 s0"
| step: "consent_run s0 s \<Longrightarrow> consent_step s s' \<Longrightarrow> consent_run s0 s'"

lemma consents_create:
  assumes "create_in consent_uqs consents put_consents mk s = (s', v)"
  shows "consents_later s s'"
  using assms by (rule consent_rows.create_cases) (simp_all add: consents_rel.same, simp add: consents_later_def extends_append consent_le_def)

lemma grant_later: "consents_later s (fst (grantConsent view cal purpose sid now s))"
proof -
  have "consents_later s (fst (bindE (create_in consent_uqs consents put_consents mk) (\<lambda>r s1. (audited u e d s1, w r)) s))" for mk u e d and w :: "consent_log \<Rightarrow> consent_view res"
  proof -
    obtain t x where t: "create_in consent_uqs consents put_consents mk s = (t, x)" by fastforce
    have "same_db (fst (bindE (create_in consent_uqs consents put_consents mk) (\<lambda>r s1. (audited u e d s1, w r)) s)) t"
      using t by (cases x) (simp_all add: bindE_def)
    then show ?thesis using consents_create [OF t] consents_rel.then_same by blast
  qed
  then show ?thesis unfolding grantConsent_def by (simp split: sum.split option.split)
qed

lemma revoke_later: "consents_later s (fst (revokeConsent cal purpose sid now s))"
proof (cases "resolveSubject cal sid now s")
  case (Inr x)
  let ?t = "update_rows (active_consent (csb_userId x) purpose) (\<lambda>r. r\<lparr>con_revokedAt := Some now\<rparr>) (consents s)"
  have "extends consent_le (consents s) ?t"
    by (rule extends_update) (auto simp: consent_le_def active_consent_def)
  then have "consents_later s (put_consents ?t s)" by (simp add: consents_later_def)
  then show ?thesis using Inr consents_rel.then_same [OF _ same_db_audited]
    by (simp add: revokeConsent_def update_many_pair Let_def)
qed (simp add: revokeConsent_def)

lemma consent_run_later: "consent_run s0 s \<Longrightarrow> consents_later s0 s"
proof (induction rule: consent_run.induct)
  case (step s s')
  have "consents_later s s'" using step.hyps(2) by (induction rule: consent_step.induct) (simp_all add: grant_later revoke_later)
  then show ?case using step.IH consents_rel.trans by blast
qed simp

lemma grant_active:
  assumes "grantConsent s cal purpose sid now s = (s', Inr v)"
  shows "\<exists>x. resolveSubject cal sid now s = Inr x \<and> (\<exists>r \<in> set (consents s'). active_consent (csb_userId x) purpose r)"
proof (cases "resolveSubject cal sid now s")
  case (Inr x)
  show ?thesis
  proof (cases "List.find (active_consent (csb_userId x) purpose) (consents s)")
    case None
    then obtain s1 r where c: "create_in consent_uqs consents put_consents (new_consent x purpose now) s = (s1, Inr r)" "same_db s' s1"
      using assms Inr by (auto simp: grantConsent_def elim!: bindE_Inr)
    then have "r \<in> set (consents s')" "active_consent (csb_userId x) purpose r"
      using consent_rows.create_Inr(1,2) [OF c(1)] by (simp_all add: same_db_tables active_consent_def new_consent_def)
    then show ?thesis using Inr by blast
  next
    case (Some r)
    then have "s' = s" using assms Inr by (simp add: grantConsent_def)
    then show ?thesis using Inr find_Some_iff [OF Some] by blast
  qed
qed (use assms in \<open>simp add: grantConsent_def\<close>)

lemma revoke_inactive:
  assumes "revokeConsent cal purpose sid now s = (s', Inr u)"
  shows "\<exists>x. resolveSubject cal sid now s = Inr x \<and> (\<forall>r \<in> set (consents s'). \<not> active_consent (csb_userId x) purpose r)"
proof (cases "resolveSubject cal sid now s")
  case (Inr x)
  let ?t = "update_rows (active_consent (csb_userId x) purpose) (\<lambda>r. r\<lparr>con_revokedAt := Some now\<rparr>) (consents s)"
  have "same_db s' (put_consents ?t s)"
    using assms Inr by (auto simp: revokeConsent_def update_many_pair Let_def split: if_splits)
  then have t: "consents s' = ?t" by (simp add: same_db_tables)
  have "\<not> active_consent (csb_userId x) purpose r" if "r \<in> set ?t" for r
  proof -
    obtain q where "r = (if active_consent (csb_userId x) purpose q then q\<lparr>con_revokedAt := Some now\<rparr> else q)"
      using \<open>r \<in> set ?t\<close> unfolding set_update_rows by blast
    then show ?thesis by (cases "active_consent (csb_userId x) purpose q") (simp_all add: active_consent_def)
  qed
  then show ?thesis using Inr t by (intro exI [of _ x]) simp
qed (use assms in \<open>simp add: revokeConsent_def\<close>)

text \<open>
  C30: Consent history is append-only: whatever the interleaving of grants and revocations, every record ever
  written is still there, unchanged except that an active one may have been stamped as revoked, once.
  A grant leaves its subject with an active consent for the purpose, and a revocation leaves none.
\<close>

theorem consent_log_append_only:
  assumes "consent_run s0 s"
  shows "extends consent_le (consents s0) (consents s) \<and>
    (\<forall>s' v. grantConsent s cal purpose sid now s = (s', Inr v) \<longrightarrow>
       (\<exists>x. resolveSubject cal sid now s = Inr x \<and> (\<exists>r \<in> set (consents s'). active_consent (csb_userId x) purpose r))) \<and>
    (\<forall>s' u. revokeConsent cal purpose sid now s = (s', Inr u) \<longrightarrow>
       (\<exists>x. resolveSubject cal sid now s = Inr x \<and> (\<forall>r \<in> set (consents s'). \<not> active_consent (csb_userId x) purpose r)))"
  using consent_run_later [OF assms] grant_active revoke_inactive unfolding consents_later_def by blast

section \<open>Announcements keep their target\<close>

definition target_ok :: "app \<Rightarrow> announcement \<Rightarrow> bool" where
  "target_ok s a \<longleftrightarrow> (case ann_audience a of
       AudAll \<Rightarrow> ann_classId a = None
     | AudClass \<Rightarrow> (\<exists>c \<in> set (classes s). ann_classId a = Some (cls_id c)))"

definition targets_ok :: "app \<Rightarrow> bool" where
  "targets_ok s \<longleftrightarrow> (\<forall>a \<in> set (announcements s). target_ok s a)"

text \<open>What an instructor may leave behind: announcements of their own to a class they teach.\<close>

definition own_post :: "caller \<Rightarrow> app \<Rightarrow> announcement \<Rightarrow> bool" where
  "own_post cal s a \<longleftrightarrow> ann_createdBy a = cal_id cal \<and> ann_audience a = AudClass \<and>
     (\<exists>c \<in> set (classes s). ann_classId a = Some (cls_id c) \<and> cls_instructorId c = cal_id cal)"

definition announcement_effect :: "caller \<Rightarrow> app \<Rightarrow> app \<Rightarrow> bool" where
  "announcement_effect cal s s' \<longleftrightarrow> classes s' = classes s \<and>
     (\<forall>a \<in> set (announcements s'). a \<in> set (announcements s) \<or> target_ok s a) \<and>
     (distinct (map ann_id (announcements s)) \<longrightarrow> distinct (map ann_id (announcements s')) \<and>
       (cal_role cal = INSTRUCTOR \<longrightarrow>
         (\<forall>a \<in> set (announcements s'). a \<in> set (announcements s) \<or> own_post cal s a) \<and>
         (\<forall>a \<in> set (announcements s). ann_createdBy a \<noteq> cal_id cal \<longrightarrow> a \<in> set (announcements s'))))"

lemma effect_same: "same_db s' s \<Longrightarrow> announcement_effect cal s s'"
  by (simp add: announcement_effect_def same_db_tables)

lemma effect_audited:
  assumes "bindE m (\<lambda>r s1. (audited u e (d r) s1, w r s1)) s = (s', v)" and "\<And>t x. m s = (t, x) \<Longrightarrow> announcement_effect cal s t"
  shows "announcement_effect cal s s'"
proof -
  obtain t x where m: "m s = (t, x)" by fastforce
  then have "same_db s' t" using assms(1) by (cases x) auto
  then show ?thesis using assms(2) [OF m] by (simp add: announcement_effect_def same_db_tables)
qed

lemma resolveClassTarget_ok:
  assumes "resolveClassTarget audience cid s = Inr t"
  shows "case audience of AudAll \<Rightarrow> t = None \<and> cid = None | AudClass \<Rightarrow> t = cid \<and> (\<exists>c \<in> set (classes s). t = Some (cls_id c))"
proof (cases audience)
  case AudAll
  then show ?thesis using assms by (auto simp: resolveClassTarget_def split: option.splits)
next
  case AudClass
  then obtain i c where c: "cid = Some i" "find_class i s = Some c" "t = Some (cls_id c)"
    using assms by (auto simp: resolveClassTarget_def split: option.splits)
  then have "c \<in> set (classes s)" "cls_id c = i" using find_Some_iff by (fastforce simp: find_class_def)+
  then show ?thesis using AudClass c by auto
qed

lemma assertOwnClass_ok: "assertOwnClass cal i s = Inr u \<Longrightarrow> \<exists>c \<in> set (classes s). cls_id c = i \<and> cls_instructorId c = cal_id cal"
  by (auto simp: assertOwnClass_def find_None_ball split: if_splits)

lemma createAnnouncement_effect: "announcement_effect cal s (fst (createAnnouncement cal dto now s))"
proof -
  let ?allowed = "if cal_role cal \<noteq> INSTRUCTOR then Inr ()
        else if and_audience dto \<noteq> AudClass then Inl instructor_only
        else case and_classId dto of None \<Rightarrow> Inl instructor_only | Some i \<Rightarrow> assertOwnClass cal i s"
  show ?thesis
  proof (cases ?allowed)
    case a: (Inr u)
    show ?thesis
    proof (cases "resolveClassTarget (and_audience dto) (and_classId dto) s")
      case r: (Inr cid)
      have ok: "target_ok s (new_announcement cal dto cid now i)" for i
        using resolveClassTarget_ok [OF r] by (auto simp: target_ok_def new_announcement_def split: announcement_audience.splits)
      have own: "own_post cal s (new_announcement cal dto cid now i)" if w: "cal_role cal = INSTRUCTOR" for i
      proof -
        obtain j where j: "and_audience dto = AudClass" "and_classId dto = Some j" "assertOwnClass cal j s = Inr u"
          using a w by (auto split: if_splits option.splits)
        then have "cid = Some j" using resolveClassTarget_ok [OF r] by simp
        then show ?thesis using j(1) assertOwnClass_ok [OF j(3)] by (fastforce simp: own_post_def new_announcement_def)
      qed
      have "announcement_effect cal s t" if "create_in announcement_uqs announcements put_announcements (new_announcement cal dto cid now) s = (t, x)" for t x
        using that
      proof (rule notices.create_cases)
        fix i assume k: "announcements t = announcements s @ [new_announcement cal dto cid now i]"
          "t = put_announcements (announcements s @ [new_announcement cal dto cid now i]) (s\<lparr>uuid_ctr := Suc (uuid_ctr s)\<rparr>)"
          "\<forall>u \<in> set announcement_uqs. unique_on (snd u) (announcements s @ [new_announcement cal dto cid now i])"
        have "distinct (map ann_id (announcements t))" using k(3) unfolding k(1) by (simp add: announcement_uqs_def unique_on_total)
        then show ?thesis using ok own by (auto simp: announcement_effect_def k(1)) (simp add: k(2))
      qed (simp add: effect_same)
      then show ?thesis using a r
        by (auto simp: createAnnouncement_def intro: effect_audited [OF prod.collapse [symmetric]])
    qed (use a in \<open>simp add: createAnnouncement_def effect_same\<close>)
  qed (simp add: createAnnouncement_def effect_same)
qed

lemma effect_update:
  assumes "update_in announcement_uqs announcements put_announcements (\<lambda>b. ann_id b = i) d s = (t, x)"
    and a: "a \<in> set (announcements s)" "ann_id a = i" and ok: "\<And>b. target_ok s (d b)"
    and own: "cal_role cal = INSTRUCTOR \<Longrightarrow> ann_createdBy a = cal_id cal \<and> own_post cal s (d a)"
  shows "announcement_effect cal s t"
  using assms(1)
proof (rule notices.update_cases)
  let ?t = "update_rows (\<lambda>b. ann_id b = i) d (announcements s)"
  assume k: "announcements t = ?t" "t = put_announcements ?t s" "\<forall>u \<in> set announcement_uqs. unique_on (snd u) (announcements t)"
  have mem: "b \<in> set ?t \<Longrightarrow> b \<in> set (announcements s) \<or> (\<exists>q \<in> set (announcements s). ann_id q = i \<and> b = d q)" for b
    unfolding set_update_rows by auto
  have keep: "b \<in> set (announcements s) \<Longrightarrow> ann_id b \<noteq> i \<Longrightarrow> b \<in> set ?t" for b
    unfolding set_update_rows by (auto simp: image_iff)
  have uq: "q = a" if "distinct (map ann_id (announcements s))" "q \<in> set (announcements s)" "ann_id q = i" for q
    using that a by (auto simp: distinct_map inj_on_def)
  have "distinct (map ann_id (announcements t))" using k(3) by (simp add: announcement_uqs_def unique_on_total)
  moreover have "b \<in> set (announcements s) \<or> target_ok s b" if "b \<in> set ?t" for b using mem [OF that] ok by blast
  moreover have "b \<in> set (announcements s) \<or> own_post cal s b"
    if "distinct (map ann_id (announcements s))" "cal_role cal = INSTRUCTOR" "b \<in> set ?t" for b
    using mem [OF that(3)] own [OF that(2)] uq [OF that(1)] by blast
  moreover have "b \<in> set ?t" if "distinct (map ann_id (announcements s))" "cal_role cal = INSTRUCTOR"
      "b \<in> set (announcements s)" "ann_createdBy b \<noteq> cal_id cal" for b
    using keep that uq [OF that(1,3)] own by blast
  ultimately show ?thesis unfolding announcement_effect_def k(1) by (simp add: k(2))
qed (simp add: effect_same)

lemma updateAnnouncement_effect: "announcement_effect cal s (fst (updateAnnouncement cal i dto s))"
proof (cases "find_announcement i s")
  case (Some a)
  let ?aud = "case_option (ann_audience a) id (anp_audience dto)"
  let ?target = "case anp_classId dto of None \<Rightarrow> ann_classId a | Some c \<Rightarrow> Some c"
  let ?allowed = "if cal_role cal \<noteq> INSTRUCTOR then Inr ()
      else if ann_createdBy a \<noteq> cal_id cal then Inl (NotFound ''Not found'')
      else if ?aud \<noteq> AudClass then Inl instructor_only
      else case ?target of None \<Rightarrow> Inr () | Some c \<Rightarrow> assertOwnClass cal c s"
  let ?resolved = "if ?aud = AudAll \<and> anp_classId dto = None then Inr None else resolveClassTarget ?aud ?target s"
  have a: "a \<in> set (announcements s)" "ann_id a = i" using Some find_Some_iff by (fastforce simp: find_announcement_def)+
  show ?thesis
  proof (cases ?allowed)
    case al: (Inr u)
    show ?thesis
    proof (cases ?resolved)
      case r: (Inr cid)
      let ?d = "\<lambda>b. b\<lparr>ann_title := case_option (ann_title b) id (anp_title dto), ann_body := case_option (ann_body b) id (anp_body dto),
                          ann_audience := ?aud, ann_classId := cid\<rparr>"
      have ok: "target_ok s (?d b)" for b
        using r by (cases ?aud) (auto simp: target_ok_def dest: resolveClassTarget_ok split: if_splits)
      have own: "ann_createdBy a = cal_id cal \<and> own_post cal s (?d a)" if w: "cal_role cal = INSTRUCTOR"
      proof -
        have c: "ann_createdBy a = cal_id cal" "?aud = AudClass" using al w by (auto split: if_splits)
        then obtain j where j: "?target = Some j" "cid = Some j" using r resolveClassTarget_ok [of AudClass ?target s cid] by auto
        then have "assertOwnClass cal j s = Inr u" using al w c by simp
        then show ?thesis using c j assertOwnClass_ok by (fastforce simp: own_post_def)
      qed
      have "announcement_effect cal s t"
        if "update_in announcement_uqs announcements put_announcements (\<lambda>b. ann_id b = i) ?d s = (t, x)" for t x
        using that a ok own by (rule effect_update)
      then show ?thesis using Some al r
        by (auto simp: updateAnnouncement_def Let_def intro: effect_audited [OF prod.collapse [symmetric]])
    qed (use Some al in \<open>simp add: updateAnnouncement_def Let_def effect_same\<close>)
  qed (use Some in \<open>simp add: updateAnnouncement_def Let_def effect_same\<close>)
qed (simp add: updateAnnouncement_def effect_same)

lemma removeAnnouncement_effect: "announcement_effect cal s (fst (removeAnnouncement cal i s))"
proof (cases "find_announcement i s")
  case (Some a)
  have a: "a \<in> set (announcements s)" "ann_id a = i" using Some find_Some_iff by (fastforce simp: find_announcement_def)+
  have "announcement_effect cal s t" if w: "delete_in announcements put_announcements (\<lambda>a. ann_id a = i) s = (t, x)"
    and own: "cal_role cal = ADMIN \<or> ann_createdBy a = cal_id cal" for t x
  proof (cases x)
    case (Inl e)
    then show ?thesis using w by (auto simp: delete_in_def effect_same split: option.splits)
  next
    case (Inr u)
    then have t: "t = put_announcements (delete_rows (\<lambda>a. ann_id a = i) (announcements s)) s" using notices.delete_Inr(2) w by blast
    have "b = a" if "distinct (map ann_id (announcements s))" "b \<in> set (announcements s)" "ann_id b = i" for b
      using that a by (auto simp: distinct_map inj_on_def)
    then show ?thesis using own by (auto simp: announcement_effect_def t delete_rows_def distinct_map_filter)
  qed
  then show ?thesis using Some
    by (auto simp: removeAnnouncement_def effect_same intro!: effect_audited [OF prod.collapse [symmetric]])
qed (simp add: removeAnnouncement_def effect_same)

inductive announcement_step :: "caller \<Rightarrow> app \<Rightarrow> app \<Rightarrow> bool" for cal where
  create: "announcement_step cal s (fst (createAnnouncement cal dto now s))"
| update: "announcement_step cal s (fst (updateAnnouncement cal i patch s))"
| remove: "announcement_step cal s (fst (removeAnnouncement cal i s))"

inductive announcement_run :: "app \<Rightarrow> app \<Rightarrow> bool" for s0 where
  start: "announcement_run s0 s0"
| step: "announcement_run s0 s \<Longrightarrow> announcement_step cal s s' \<Longrightarrow> announcement_run s0 s'"

lemma announcement_step_effect: "announcement_step cal s s' \<Longrightarrow> announcement_effect cal s s'"
  by (induction rule: announcement_step.induct)
    (rule createAnnouncement_effect updateAnnouncement_effect removeAnnouncement_effect)+

lemma effect_targets: "announcement_effect cal s s' \<Longrightarrow> targets_ok s \<Longrightarrow> targets_ok s'"
  by (auto simp: announcement_effect_def targets_ok_def target_ok_def split: announcement_audience.splits)

lemma announcement_run_ok:
  "announcement_run s0 s \<Longrightarrow> targets_ok s0 \<Longrightarrow> distinct (map ann_id (announcements s0)) \<Longrightarrow>
     targets_ok s \<and> distinct (map ann_id (announcements s))"
proof (induction rule: announcement_run.induct)
  case (step s cal s')
  have e: "announcement_effect cal s s'" using step.hyps(2) by (rule announcement_step_effect)
  then have "distinct (map ann_id (announcements s'))" using step.IH step.prems by (simp add: announcement_effect_def)
  then show ?case using effect_targets [OF e] step.IH step.prems by simp
qed simp

text \<open>
  Every announcement keeps a consistent target through every sequence of requests: one for the whole
  club names no class, one for a class names a class that exists. An instructor's request leaves all
  announcements of other authors as they are and whatever it writes is an announcement of the
  instructor to a class the instructor teaches.
\<close>

theorem announcement_targets_invariant:
  assumes "announcement_run s0 s" and "targets_ok s0" and "distinct (map ann_id (announcements s0))"
    and "announcement_step cal s s'" and "cal_role cal = INSTRUCTOR"
  shows "targets_ok s \<and> targets_ok s' \<and>
    (\<forall>a \<in> set (announcements s'). a \<in> set (announcements s) \<or> own_post cal s a) \<and>
    (\<forall>a \<in> set (announcements s). ann_createdBy a \<noteq> cal_id cal \<longrightarrow> a \<in> set (announcements s'))"
proof -
  have s: "targets_ok s" "distinct (map ann_id (announcements s))" using announcement_run_ok assms(1,2,3) by blast+
  have e: "announcement_effect cal s s'" using assms(4) by (rule announcement_step_effect)
  then have "targets_ok s'" using effect_targets s(1) by blast
  then show ?thesis using e s assms(5) by (simp add: announcement_effect_def)
qed

section \<open>Minors on a leap day\<close>

text \<open>
  On 29 February the cut-off date of the consent service is 1 March of a year without a leap day, so a student whose
  eighteenth birthday is the next day is already treated as an adult, while registration counts 17 years.
\<close>

theorem consent_cutoff_leap_day:
  "let now = date_UTC 2028 1 29; dob = date_UTC 2010 2 1 in
   dob \<le> setUTCFullYear (getUTCFullYear now - MINOR_CUTOFF_YEARS) now \<and> yearsFrom now dob = 17"
proof -
  have now: "getUTCFullYear (date_UTC 2028 (int 1) 29) = 2028" "getUTCMonth (date_UTC 2028 (int 1) 29) = 1" "getUTCDate (date_UTC 2028 (int 1) 29) = 29"
    using date_UTC_roundtrip [of 1 29 2028] by (simp_all add: is_leap_def month_start_def month_starts_def)
  have dob: "getUTCFullYear (date_UTC 2010 (int 2) 1) = 2010" "getUTCMonth (date_UTC 2010 (int 2) 1) = 2" "getUTCDate (date_UTC 2010 (int 2) 1) = 1"
    using date_UTC_roundtrip [of 2 1 2010] by (simp_all add: is_leap_def month_start_def month_starts_def)
  have "date_UTC 2010 (int 2) 1 \<le> date_UTC 2010 (int 1) 29"
    by (simp add: date_UTC_def is_leap_def month_start_def month_starts_def Let_def add.commute)
  then have "date_UTC 2010 (int 2) 1 \<le> setUTCFullYear 2010 (date_UTC 2028 (int 1) 29)"
    using as_date_le(1) [of "date_UTC 2028 (int 1) 29"] unfolding setUTCFullYear_def now by linarith
  then show ?thesis using now dob by (simp add: Let_def yearsFrom_def MINOR_CUTOFF_YEARS_def)
qed

section \<open>Examples\<close>

definition user0 :: caller where
  "user0 = \<lparr> cal_id = ''u'', cal_role = INSTRUCTOR, cal_sessionId = ''s'', cal_jti = ''j'' \<rparr>"

definition granted0 :: app where
  "granted0 = club0\<lparr>consents := [new_consent \<lparr> csb_userId = ''u'', csb_consentedBy = None, csb_label = '''' \<rparr> MEDIA_USAGE 3 ''k'']\<rparr>"

theorem consent_log_append_only_witness:
  "\<exists>s'. revokeConsent user0 MEDIA_USAGE None 9 granted0 = (s', Inr (MEDIA_USAGE, 9)) \<and>
     (\<forall>r \<in> set (consents s'). \<not> active_consent ''u'' MEDIA_USAGE r)"
proof -
  have r: "resolveSubject user0 None 9 granted0 = Inr \<lparr> csb_userId = ''u'', csb_consentedBy = None, csb_label = '''' \<rparr>"
    by (simp add: resolveSubject_def user0_def)
  have "\<exists>s'. revokeConsent user0 MEDIA_USAGE None 9 granted0 = (s', Inr (MEDIA_USAGE, 9))"
    unfolding revokeConsent_def r
    by (simp add: granted0_def update_many_pair count_rows_def active_consent_def new_consent_def)
  then show ?thesis using consent_log_append_only [OF consent_run.start, of granted0 user0 MEDIA_USAGE None 9] r by fastforce
qed

definition posted0 :: app where
  "posted0 = full0\<lparr>announcements := [new_announcement user0 \<lparr> and_title = ''t'', and_body = ''b'', and_audience = AudClass, and_classId = Some ''c1'' \<rparr> (Some ''c1'') 1 ''n'']\<rparr>"

definition coach0 :: caller where
  "coach0 = user0\<lparr>cal_id := ''coach''\<rparr>"

theorem announcement_targets_invariant_witness:
  "targets_ok posted0 \<and> targets_ok (fst (removeAnnouncement coach0 ''n'' posted0)) \<and>
   announcements posted0 \<noteq> [] \<and> set (announcements posted0) \<subseteq> set (announcements (fst (removeAnnouncement coach0 ''n'' posted0)))"
proof -
  have ok: "targets_ok posted0"
    by (simp add: targets_ok_def target_ok_def posted0_def new_announcement_def full0_tables new_class_def)
  have d: "distinct (map ann_id (announcements posted0))" by (simp add: posted0_def)
  have "ann_createdBy a \<noteq> cal_id coach0" if "a \<in> set (announcements posted0)" for a
    using that by (simp add: posted0_def new_announcement_def coach0_def user0_def)
  then show ?thesis
    using announcement_targets_invariant [OF announcement_run.start ok d announcement_step.remove, of coach0 "''n''"] ok
    by (auto simp: coach0_def user0_def) (simp add: posted0_def)
qed

end
