(* ===== verification/Reports.thy ===== *)
theory Reports
  imports Invoices Payments Tables "HOL-Library.Multiset" "HOL-Library.Char_ord" "HOL-Library.List_Lexorder" "HOL-Library.Product_Lexorder"
begin

text \<open>
  The reports and the settings of the billing service (\<^verbatim>\<open>billing/billing.service.ts\<close>): revenue by month and channel,
  the close of a tuition period, and the two settings the billing flows read. Prices and accounts are
  stored as JSON; the theorems follow them to the operations that use them.
\<close>

section \<open>Revenue\<close>

definition show_gateway :: "payment_gateway \<Rightarrow> string" where
  "show_gateway g = (case g of PAYOS \<Rightarrow> ''PAYOS'' | SEPAY \<Rightarrow> ''SEPAY'' | CASH \<Rightarrow> ''CASH'' | BANK_TRANSFER \<Rightarrow> ''BANK_TRANSFER'')"

record revenue_row =
  rev_month :: string
  rev_gateway :: payment_gateway
  rev_total :: int
  rev_count :: nat

definition month_of :: "instant \<Rightarrow> string" where
  "month_of t = show_int (getUTCFullYear t) @ ''-'' @ padStart 2 CHR ''0'' (show_nat (getUTCMonth t + 1))"

definition paid_month :: "payment \<Rightarrow> string" where
  "paid_month p = month_of (case_option 0 id (pay_paidAt p))"

definition bucket_key :: "payment \<Rightarrow> string" where
  "bucket_key p = paid_month p @ '':'' @ show_gateway (pay_gateway p)"

text \<open>One turn of the loop: the bucket of the key, created at zero when it is missing.\<close>

fun add_payment :: "payment \<Rightarrow> (string \<times> revenue_row) list \<Rightarrow> (string \<times> revenue_row) list" where
  "add_payment p [] = [(bucket_key p, \<lparr> rev_month = paid_month p, rev_gateway = pay_gateway p, rev_total = pay_amount p, rev_count = 1 \<rparr>)]"
| "add_payment p ((k, b) # m) =
     (if k = bucket_key p then (k, b\<lparr>rev_total := rev_total b + pay_amount p, rev_count := rev_count b + 1\<rparr>) # m
      else (k, b) # add_payment p m)"

definition revenue_payments :: "instant \<Rightarrow> instant \<Rightarrow> app \<Rightarrow> payment list" where
  "revenue_payments from to s = filter (\<lambda>p. pay_status p = SUCCESS \<and>
     (case pay_paidAt p of None \<Rightarrow> False | Some t \<Rightarrow> from \<le> t \<and> t \<le> end_of_day to)) (payments s)"

text \<open>On these texts (digits and a hyphen, names of channels) \<^verbatim>\<open>localeCompare\<close> is the order of the characters.\<close>

definition revenue :: "instant \<Rightarrow> instant \<Rightarrow> app \<Rightarrow> revenue_row list \<times> int" where
  "revenue from to s = (let ps = revenue_payments from to s; byBucket = foldl (\<lambda>m p. add_payment p m) [] ps in
     (sort_key (\<lambda>b. (rev_month b, show_gateway (rev_gateway b))) (map snd byBucket), foldl (\<lambda>a p. a + pay_amount p) 0 ps))"

section \<open>The close of a tuition period\<close>

record tuition_report =
  tur_byStatus :: "(invoice_status \<times> nat \<times> int) list"
  tur_collected :: int

definition in_period :: "int \<Rightarrow> int \<Rightarrow> invoice \<Rightarrow> bool" where
  "in_period month year i \<longleftrightarrow> inv_type i = TUITION \<and> inv_periodMonth i = Some month \<and> inv_periodYear i = Some year"

definition tuitionReport :: "int \<Rightarrow> int \<Rightarrow> app \<Rightarrow> tuition_report" where
  "tuitionReport month year s = (let is = filter (in_period month year) (invoices s) in
     \<lparr> tur_byStatus = map (\<lambda>st. (st, count_rows (\<lambda>i. inv_status i = st) is, sum_rows (\<lambda>i. inv_status i = st) inv_total is))
         (remdups (map inv_status is)),
       tur_collected = sum_rows (\<lambda>p. pay_status p = SUCCESS \<and>
         (case find_invoice (pay_invoiceId p) (invoices s) of None \<Rightarrow> False | Some i \<Rightarrow> in_period month year i)) pay_amount (payments s) \<rparr>)"

section \<open>Settings\<close>

definition setting :: "string \<Rightarrow> app \<Rightarrow> json option" where
  "setting k s = map_option set_value (List.find (\<lambda>r. set_key r = k) (appSettings s))"

text \<open>A stored JSON null counts as missing (\<^verbatim>\<open>??\<close>).\<close>

definition or_else :: "json option \<Rightarrow> json \<Rightarrow> json" where
  "or_else v d = (case v of None \<Rightarrow> d | Some x \<Rightarrow> if x = JNull then d else x)"

definition getSettings :: "app \<Rightarrow> json \<times> json" where
  "getSettings s = (or_else (setting ''tuition_rates'' s) (JObj []), or_else (setting ''bank_account'' s) JNull)"

definition upsert_setting :: "string \<Rightarrow> json \<Rightarrow> uuid \<Rightarrow> app \<Rightarrow> app" where
  "upsert_setting k v by s = s\<lparr>appSettings :=
     (if List.find (\<lambda>r. set_key r = k) (appSettings s) = None
      then appSettings s @ [\<lparr> set_key = k, set_value = v, set_updatedBy = Some by \<rparr>]
      else update_rows (\<lambda>r. set_key r = k) (\<lambda>r. r\<lparr>set_value := v, set_updatedBy := Some by\<rparr>) (appSettings s))\<rparr>"

fun rate_map :: "(uuid \<times> int) list \<Rightarrow> (string \<times> json) list \<Rightarrow> (string \<times> json) list res" where
  "rate_map [] m = Inr m"
| "rate_map ((c, n) # rates) m =
     (if c \<in> fst ` set m then Inl (BadRequest ''Duplicate class id in rates'') else rate_map rates (m @ [(c, JNum n)]))"

definition updateTuitionRates :: "caller \<Rightarrow> (uuid \<times> int) list \<Rightarrow> app \<Rightarrow> app \<times> (json \<times> json) res" where
  "updateTuitionRates cal rates s = (case rate_map rates [] of
       Inl e \<Rightarrow> (s, Inl e)
     | Inr m \<Rightarrow>
         let classIds = map fst m in
         if classIds \<noteq> [] \<and> count_rows (\<lambda>c. cls_id c \<in> set classIds) (classes s) \<noteq> length classIds
         then (s, Inl (BadRequest ''Unknown class id in rates''))
         else let s1 = audited (Some (cal_id cal)) ''settings_updated'' (''tuition_rates classes:'' @ show_nat (length classIds))
                    (upsert_setting ''tuition_rates'' (JObj m) (cal_id cal) s)
           in (s1, Inr (getSettings s1)))"

record bank_account =
  bnk_bin :: string
  bnk_number :: string
  bnk_name :: string
  bnk_ownerType :: string

definition account_json :: "bank_account \<Rightarrow> json" where
  "account_json a = JObj [(''bin'', JStr (bnk_bin a)), (''number'', JStr (bnk_number a)), (''name'', JStr (bnk_name a)),
     (''owner_type'', JStr (bnk_ownerType a))]"

definition updateBankAccount :: "caller \<Rightarrow> bank_account \<Rightarrow> app \<Rightarrow> app \<times> (json \<times> json) res" where
  "updateBankAccount cal a s =
     (let s1 = audited (Some (cal_id cal)) ''settings_updated'' ''bank_account updated (owner_type BUSINESS)''
            (upsert_setting ''bank_account'' (account_json a) (cal_id cal) s)
      in (s1, Inr (getSettings s1)))"

section \<open>The revenue report is exact\<close>

lemma show_nat_no_colon: "CHR '':'' \<notin> set (show_nat n)"
  using show_nat_digits [of n] by (auto simp: is_digit_def char_code_def)

lemma paid_month_no_colon: "CHR '':'' \<notin> set (paid_month p)"
  by (auto simp: paid_month_def month_of_def show_int_def padStart_def show_nat_no_colon)

lemma bucket_key_eq: "bucket_key p = bucket_key q \<longleftrightarrow> paid_month p = paid_month q \<and> pay_gateway p = pay_gateway q"
proof
  assume e: "bucket_key p = bucket_key q"
  have t: "takeWhile (\<lambda>c. c \<noteq> CHR '':'') (bucket_key r) = paid_month r" for r
  proof -
    have "\<forall>c \<in> set (paid_month r). c \<noteq> CHR '':''" using paid_month_no_colon by metis
    then show ?thesis by (simp add: bucket_key_def takeWhile_append2)
  qed
  have m: "paid_month p = paid_month q" using t [of p] t [of q] e by simp
  then have "show_gateway (pay_gateway p) = show_gateway (pay_gateway q)" using e by (simp add: bucket_key_def)
  then show "paid_month p = paid_month q \<and> pay_gateway p = pay_gateway q"
    using m by (cases "pay_gateway p"; cases "pay_gateway q") (simp_all add: show_gateway_def)
qed (simp add: bucket_key_def)

definition bucket_of :: "payment list \<Rightarrow> string \<Rightarrow> revenue_row option" where
  "bucket_of ps k = (case List.find (\<lambda>p. bucket_key p = k) ps of
       None \<Rightarrow> None
     | Some p \<Rightarrow> Some \<lparr> rev_month = paid_month p, rev_gateway = pay_gateway p,
         rev_total = sum_rows (\<lambda>q. bucket_key q = k) pay_amount ps, rev_count = count_rows (\<lambda>q. bucket_key q = k) ps \<rparr>)"

lemma add_payment_lookup:
  "map_of (add_payment p m) k = (if k = bucket_key p
     then Some (case map_of m k of
         None \<Rightarrow> \<lparr> rev_month = paid_month p, rev_gateway = pay_gateway p, rev_total = pay_amount p, rev_count = 1 \<rparr>
       | Some b \<Rightarrow> b\<lparr>rev_total := rev_total b + pay_amount p, rev_count := rev_count b + 1\<rparr>)
     else map_of m k)"
  by (induction m rule: add_payment.induct) auto

lemma add_payment_keys: "map fst (add_payment p m) = map fst m @ (if bucket_key p \<in> fst ` set m then [] else [bucket_key p])"
  by (induction m rule: add_payment.induct) auto

lemma buckets_snoc: "foldl (\<lambda>m p. add_payment p m) [] (ps @ [p]) = add_payment p (foldl (\<lambda>m p. add_payment p m) [] ps)"
  by simp

lemma buckets_lookup: "map_of (foldl (\<lambda>m p. add_payment p m) [] ps) k = bucket_of ps k"
proof (induction ps rule: rev_induct)
  case (snoc p ps)
  have c: "count_rows w [p] = (if w p then 1 else 0)" for w by (simp add: count_rows_def)
  have none: "count_rows (\<lambda>q. bucket_key q = k) ps = 0" "sum_rows (\<lambda>q. bucket_key q = k) pay_amount ps = 0"
    if "List.find (\<lambda>p. bucket_key p = k) ps = None"
    using that by (induction ps) (auto simp: count_rows_def split: if_splits)
  show ?case
    unfolding buckets_snoc add_payment_lookup snoc
    using none by (auto simp: bucket_of_def find_append c simp del: count_rows_0 split: option.split)
qed (simp add: bucket_of_def)

lemma buckets_distinct: "distinct (map fst (foldl (\<lambda>m p. add_payment p m) [] ps))"
proof (induction ps rule: rev_induct)
  case (snoc p ps)
  then show ?case unfolding buckets_snoc add_payment_keys by simp
qed simp

lemma buckets_total: "sum_list (map (\<lambda>x. rev_total (snd x)) (foldl (\<lambda>m p. add_payment p m) [] ps)) = sum_list (map pay_amount ps)"
proof (induction ps rule: rev_induct)
  case (snoc p ps)
  have "sum_list (map (\<lambda>x. rev_total (snd x)) (add_payment p m)) = sum_list (map (\<lambda>x. rev_total (snd x)) m) + pay_amount p" for m
    by (induction m rule: add_payment.induct) simp_all
  then show ?case using snoc by simp
qed simp

lemma foldl_sum: "foldl (\<lambda>a p. a + f p) (a :: int) ps = a + sum_list (map f ps)"
  by (induction ps arbitrary: a) simp_all

lemma bucket_of_Some:
  assumes "bucket_of ps k = Some b"
  shows "\<exists>p \<in> set ps. bucket_key p = k \<and> rev_month b = paid_month p \<and> rev_gateway b = pay_gateway p"
    and "rev_total b = sum_rows (\<lambda>p. paid_month p = rev_month b \<and> pay_gateway p = rev_gateway b) pay_amount ps"
    and "rev_count b = count_rows (\<lambda>p. paid_month p = rev_month b \<and> pay_gateway p = rev_gateway b) ps"
proof -
  obtain p where p: "List.find (\<lambda>p. bucket_key p = k) ps = Some p"
    and b: "b = \<lparr> rev_month = paid_month p, rev_gateway = pay_gateway p,
         rev_total = sum_rows (\<lambda>q. bucket_key q = k) pay_amount ps, rev_count = count_rows (\<lambda>q. bucket_key q = k) ps \<rparr>"
    using assms by (auto simp: bucket_of_def split: option.splits)
  have k: "p \<in> set ps" "k = bucket_key p" using find_Some_iff [OF p] by auto
  show "\<exists>p \<in> set ps. bucket_key p = k \<and> rev_month b = paid_month p \<and> rev_gateway b = pay_gateway p" using k b by auto
  show "rev_total b = sum_rows (\<lambda>p. paid_month p = rev_month b \<and> pay_gateway p = rev_gateway b) pay_amount ps"
    "rev_count b = count_rows (\<lambda>p. paid_month p = rev_month b \<and> pay_gateway p = rev_gateway b) ps"
    unfolding b k(2) by (simp_all add: bucket_key_eq)
qed

text \<open>
  C31: The revenue report is exact. Its rows are sorted by month and channel, there is one for every month and
  channel with a successful payment in the window and no other, each row's total and count are those
  of the payments of its month and channel, and the rows add up to the grand total, which is the sum
  of all successful payments paid in the window, its last day included.
\<close>

theorem revenue_report_exact:
  assumes "revenue from to s = (rows, grand)"
  shows "sorted (map (\<lambda>b. (rev_month b, show_gateway (rev_gateway b))) rows) \<and>
    distinct (map (\<lambda>b. (rev_month b, rev_gateway b)) rows) \<and>
    (\<lambda>b. (rev_month b, rev_gateway b)) ` set rows = (\<lambda>p. (paid_month p, pay_gateway p)) ` set (revenue_payments from to s) \<and>
    (\<forall>b \<in> set rows.
       rev_total b = sum_rows (\<lambda>p. paid_month p = rev_month b \<and> pay_gateway p = rev_gateway b) pay_amount (revenue_payments from to s) \<and>
       rev_count b = count_rows (\<lambda>p. paid_month p = rev_month b \<and> pay_gateway p = rev_gateway b) (revenue_payments from to s)) \<and>
    grand = sum_list (map pay_amount (revenue_payments from to s)) \<and> grand = sum_list (map rev_total rows)"
proof -
  define ps where "ps = revenue_payments from to s"
  define m where "m = foldl (\<lambda>m p. add_payment p m) [] ps"
  have d: "distinct (map fst m)" unfolding m_def by (rule buckets_distinct)
  have rows: "rows = sort_key (\<lambda>b. (rev_month b, show_gateway (rev_gateway b))) (map snd m)"
    and grand: "grand = foldl (\<lambda>a p. a + pay_amount p) 0 ps"
    using assms unfolding revenue_def Let_def m_def ps_def by simp_all
  have lookup: "(k, b) \<in> set m \<longleftrightarrow> bucket_of ps k = Some b" for k b
    using map_of_eq_Some_iff [OF d, of k b] buckets_lookup [of ps k] unfolding m_def by simp
  have mem: "b \<in> set rows \<longleftrightarrow> (\<exists>k. bucket_of ps k = Some b)" for b using lookup by (force simp: rows)
  have key: "(k, b) \<in> set m \<Longrightarrow> k = rev_month b @ '':'' @ show_gateway (rev_gateway b)" for k b
    using bucket_of_Some(1) [of ps k b] lookup by (auto simp: bucket_key_def)
  have "inj_on (\<lambda>x. (rev_month (snd x), rev_gateway (snd x))) (set m)"
  proof (rule inj_onI)
    fix x y assume xy: "x \<in> set m" "y \<in> set m" "(rev_month (snd x), rev_gateway (snd x)) = (rev_month (snd y), rev_gateway (snd y))"
    then have "fst x = fst y" using key [of "fst x" "snd x"] key [of "fst y" "snd y"] by simp
    then show "x = y" using xy(1,2) d by (simp add: distinct_map inj_on_def)
  qed
  then have "distinct (map (\<lambda>x. (rev_month (snd x), rev_gateway (snd x))) m)" using d by (simp add: distinct_map)
  moreover have "mset (map (\<lambda>b. (rev_month b, rev_gateway b)) rows) = mset (map (\<lambda>x. (rev_month (snd x), rev_gateway (snd x))) m)"
    by (simp add: rows image_mset.compositionality comp_def)
  ultimately have dist: "distinct (map (\<lambda>b. (rev_month b, rev_gateway b)) rows)" using mset_eq_imp_distinct_iff by blast
  have "bucket_of ps (bucket_key p) \<noteq> None" if "p \<in> set ps" for p
    using that by (auto simp: bucket_of_def find_None_ball split: option.split)
  then have there: "\<exists>b \<in> set rows. (rev_month b, rev_gateway b) = (paid_month p, pay_gateway p)" if p: "p \<in> set ps" for p
  proof -
    obtain b where b: "bucket_of ps (bucket_key p) = Some b" using p \<open>\<And>p. p \<in> set ps \<Longrightarrow> bucket_of ps (bucket_key p) \<noteq> None\<close> by blast
    then obtain q where "bucket_key q = bucket_key p" "rev_month b = paid_month q" "rev_gateway b = pay_gateway q"
      using bucket_of_Some(1) by blast
    then show ?thesis using b mem by (auto simp: bucket_key_eq)
  qed
  have here: "\<exists>p \<in> set ps. (rev_month b, rev_gateway b) = (paid_month p, pay_gateway p)" if "b \<in> set rows" for b
    using that mem bucket_of_Some(1) by fastforce
  have img: "(\<lambda>b. (rev_month b, rev_gateway b)) ` set rows = (\<lambda>p. (paid_month p, pay_gateway p)) ` set ps"
    by (intro equalityI subsetI; elim imageE) (use there here in \<open>force+\<close>)
  have "sum_list (map rev_total rows) = sum_list (map (\<lambda>x. rev_total (snd x)) m)"
  proof -
    have "mset (map rev_total rows) = mset (map (\<lambda>x. rev_total (snd x)) m)"
      by (simp add: rows image_mset.compositionality comp_def)
    then show ?thesis by (metis sum_mset_sum_list)
  qed
  then have "grand = sum_list (map rev_total rows)" using buckets_total [of ps] grand by (simp add: foldl_sum m_def)
  moreover have "sorted (map (\<lambda>b. (rev_month b, show_gateway (rev_gateway b))) rows)" unfolding rows by (rule sorted_sort_key)
  moreover have "grand = sum_list (map pay_amount ps)" by (simp add: grand foldl_sum)
  ultimately show ?thesis using dist img mem bucket_of_Some(2,3) unfolding ps_def [symmetric] by blast
qed

section \<open>Settings reach the billing operations\<close>

lemma upsert_setting_lookup: "setting k (upsert_setting k v by s) = Some v"
proof (cases "List.find (\<lambda>r. set_key r = k) (appSettings s)")
  case None
  then show ?thesis by (simp add: setting_def upsert_setting_def find_append)
next
  case (Some r)
  have "List.find (\<lambda>r. set_key r = k) (update_rows (\<lambda>r. set_key r = k) (\<lambda>r. r\<lparr>set_value := v, set_updatedBy := Some by\<rparr>) t) =
      map_option (\<lambda>r. r\<lparr>set_value := v, set_updatedBy := Some by\<rparr>) (List.find (\<lambda>r. set_key r = k) t)" for t :: "app_setting list"
    by (induction t) simp_all
  then show ?thesis using Some by (simp add: setting_def upsert_setting_def)
qed

lemma upsert_setting_other: "k' \<noteq> k \<Longrightarrow> setting k' (upsert_setting k v by s) = setting k' s"
proof -
  assume k: "k' \<noteq> k"
  have "List.find (\<lambda>r. set_key r = k') (update_rows (\<lambda>r. set_key r = k) (\<lambda>r. r\<lparr>set_value := v, set_updatedBy := Some by\<rparr>) t) =
      List.find (\<lambda>r. set_key r = k') t" for t :: "app_setting list"
    using k by (induction t) simp_all
  then show ?thesis using k by (simp add: setting_def upsert_setting_def find_append split: option.split)
qed

lemma setting_audited [simp]: "setting k (audited u e d s) = setting k s"
  using same_db_tables(7) [OF same_db_audited] by (simp add: setting_def)

lemma rates_setting_eq: "rates_setting s = or_else (setting ''tuition_rates'' s) (JObj [])"
  by (simp add: rates_setting_def or_else_def setting_def split: option.split)

lemma rate_map_Inr:
  "rate_map rates m = Inr m' \<Longrightarrow> m' = m @ map (\<lambda>x. (fst x, JNum (snd x))) rates"
  "rate_map rates m = Inr m' \<Longrightarrow> distinct (map fst m) \<Longrightarrow> distinct (map fst m')"
  by (induction rates m rule: rate_map.induct) (simp_all split: if_splits)

text \<open>
  C32: What an administrator stores is what billing uses. After the rates are replaced, the monthly close bills
  exactly the requested classes with a positive stored rate, and each line costs the stored amount; the
  account setting is untouched. After the bank account is stored, QR payments find it configured
  exactly when it is a business account with non-empty fields; the rates are untouched. A refused
  change of the rates changes nothing.
\<close>

theorem settings_roundtrip:
  assumes "updateTuitionRates cal rates s = (s', r)"
  shows "case r of
      Inl e \<Rightarrow> s' = s
    | Inr view \<Rightarrow> view = getSettings s' \<and> setting ''bank_account'' s' = setting ''bank_account'' s \<and>
        rated_classes s' dto = filter (\<lambda>c. \<exists>n. (c, n) \<in> set rates \<and> 0 < n) (gen_classIds dto) \<and>
        (\<forall>e n. (enr_classId e, n) \<in> set rates \<longrightarrow> (\<exists>l. tuition_line s' dto e = Some l \<and> ln_amount l = n)) \<and>
        (let s2 = fst (updateBankAccount cal' a s') in
         rates_setting s2 = rates_setting s' \<and>
         (assertBankAccountConfigured s2 = Inr () \<longleftrightarrow>
           bnk_ownerType a = ''BUSINESS'' \<and> bnk_bin a \<noteq> [] \<and> bnk_number a \<noteq> [] \<and> bnk_name a \<noteq> []))"
proof (cases "rate_map rates []")
  case (Inl e)
  then show ?thesis using assms by (auto simp: updateTuitionRates_def)
next
  case (Inr m)
  show ?thesis
  proof (cases r)
    case e: (Inl e)
    then show ?thesis using assms Inr by (auto simp: updateTuitionRates_def Let_def split: if_splits)
  next
    case v: (Inr view)
    have m: "m = map (\<lambda>x. (fst x, JNum (snd x))) rates" "distinct (map fst m)"
      using rate_map_Inr(1) [OF Inr] rate_map_Inr(2) [OF Inr] by fastforce+
    obtain d where s': "s' = audited (Some (cal_id cal)) ''settings_updated'' d (upsert_setting ''tuition_rates'' (JObj m) (cal_id cal) s)"
      and view: "view = getSettings s'"
      using assms Inr v by (auto simp: updateTuitionRates_def Let_def split: if_splits)
    have rates: "rates_setting s' = JObj m" by (simp add: rates_setting_eq s' upsert_setting_lookup or_else_def)
    have bank: "setting ''bank_account'' s' = setting ''bank_account'' s" by (simp add: s' upsert_setting_other)
    have entry: "json_get (JObj m) c = Some v \<longleftrightarrow> (c, v) \<in> set m" for c v
      using map_of_eq_Some_iff [of "rev m" c v] m(2) by (simp flip: rev_map)
    have get: "json_get (JObj m) c = Some (JNum n) \<longleftrightarrow> (c, n) \<in> set rates" for c n
      using entry [of c "JNum n"] by (force simp: m(1))
    have shape: "\<exists>n. v = JNum n" if "json_get (JObj m) c = Some v" for c v
      using that entry [of c v] by (auto simp: m(1))
    have "valid_rate (json_get (JObj m) c) \<longleftrightarrow> (\<exists>n. (c, n) \<in> set rates \<and> 0 < n)" for c
    proof (cases "json_get (JObj m) c")
      case None
      then show ?thesis using get [of c] by (auto simp: valid_rate_def)
    next
      case (Some v)
      then obtain n where n: "v = JNum n" using shape by blast
      then have "(c, k) \<in> set rates \<longleftrightarrow> k = n" for k using Some get [of c k] by auto
      then show ?thesis unfolding Some n by (auto simp: valid_rate_def)
    qed
    then have rated: "rated_classes s' dto = filter (\<lambda>c. \<exists>n. (c, n) \<in> set rates \<and> 0 < n) (gen_classIds dto)"
      by (simp add: rated_classes_def rates)
    have line: "\<exists>l. tuition_line s' dto e = Some l \<and> ln_amount l = n" if "(enr_classId e, n) \<in> set rates" for e n
      using get [of "enr_classId e" n] that by (simp add: tuition_line_def rates del: json_get.simps)
    let ?s2 = "fst (updateBankAccount cal' a s')"
    have two: "setting ''tuition_rates'' ?s2 = setting ''tuition_rates'' s'" "setting ''bank_account'' ?s2 = Some (account_json a)"
      by (simp_all add: updateBankAccount_def Let_def upsert_setting_other upsert_setting_lookup)
    have "assertBankAccountConfigured ?s2 = Inr () \<longleftrightarrow>
        bnk_ownerType a = ''BUSINESS'' \<and> bnk_bin a \<noteq> [] \<and> bnk_number a \<noteq> [] \<and> bnk_name a \<noteq> []"
    proof -
      have acc: "(case List.find (\<lambda>r. set_key r = ''bank_account'') (appSettings ?s2) of None \<Rightarrow> JNull | Some row \<Rightarrow> set_value row) = account_json a"
        using two(2) by (auto simp: setting_def)
      show ?thesis unfolding assertBankAccountConfigured_def acc Let_def by (auto simp: account_json_def truthy_def)
    qed
    then show ?thesis unfolding v using view bank rated line two(1) by (simp add: rates_setting_eq Let_def)
  qed
qed

section \<open>Examples\<close>

definition paid0 :: "payment_gateway \<Rightarrow> int \<Rightarrow> payment" where
  "paid0 g n = \<lparr> pay_id = ''p'', pay_invoiceId = ''i'', pay_orderRef = ''r'', pay_gateway = g, pay_gatewayTxnId = None, pay_amount = n,
     pay_status = SUCCESS, pay_paidAt = Some 5, pay_expiresAt = None, pay_recordedBy = None, pay_note = None, pay_createdAt = 0 \<rparr>"

definition till0 :: app where
  "till0 = empty_app\<lparr>payments := [paid0 CASH 100, paid0 PAYOS 30, paid0 CASH 20]\<rparr>"

theorem revenue_report_exact_witness:
  "snd (revenue 0 9 till0) = 150 \<and> sum_list (map rev_total (fst (revenue 0 9 till0))) = 150 \<and> length (fst (revenue 0 9 till0)) = 2"
proof -
  note r = revenue_report_exact [OF prod.collapse [symmetric], of 0 9 till0]
  have "0 \<le> as_date 9" by (simp add: as_date_def day_ms_def)
  then have ps: "revenue_payments 0 9 till0 = [paid0 CASH 100, paid0 PAYOS 30, paid0 CASH 20]"
    by (simp add: revenue_payments_def till0_def paid0_def end_of_day_def day_ms_def)
  have "length (fst (revenue 0 9 till0)) = card ((\<lambda>p. (paid_month p, pay_gateway p)) ` set (revenue_payments 0 9 till0))"
    using r distinct_card [of "map (\<lambda>b. (rev_month b, rev_gateway b)) (fst (revenue 0 9 till0))"] by simp
  also have "\<dots> = 2" by (simp add: ps paid0_def paid_month_def card_insert_if)
  finally show ?thesis using r by (simp add: ps paid0_def)
qed

theorem settings_roundtrip_witness:
  "\<exists>s' v. updateTuitionRates admin0 [(''c1'', 5), (''c2'', 0)] (school0\<lparr>classes := [cls0, cls0\<lparr>cls_id := ''c2''\<rparr>]\<rparr>) = (s', Inr v) \<and>
     rated_classes s' \<lparr> gen_month = 1, gen_year = 2026, gen_classIds = [''c2'', ''c1''] \<rparr> = [''c1'']"
proof -
  let ?s = "school0\<lparr>classes := [cls0, cls0\<lparr>cls_id := ''c2''\<rparr>]\<rparr>"
  obtain s' r where u: "updateTuitionRates admin0 [(''c1'', 5), (''c2'', 0)] ?s = (s', r)" by fastforce
  have "\<exists>v. snd (updateTuitionRates admin0 [(''c1'', 5), (''c2'', 0)] ?s) = Inr v"
    by (simp add: updateTuitionRates_def Let_def count_rows_def cls0_def split_paired_Ex)
  then obtain v where "r = Inr v" using u by auto
  then show ?thesis
    using settings_roundtrip [OF u, of "\<lparr> gen_month = 1, gen_year = 2026, gen_classIds = [''c2'', ''c1''] \<rparr>"] u by auto
qed

end
