(* ===== verification/Http.thy ===== *)
theory Http
  imports Guards
begin

text \<open>
  What happens around a handler: the response envelope of \<^verbatim>\<open>src/common/envelope.ts\<close>, the exception filter,
  the response and access-log interceptors, the request identifier and the id pipe of \<^verbatim>\<open>src/common\<close>, and the
  three operational endpoints of \<^verbatim>\<open>src/health\<close>.
\<close>

section \<open>Envelope\<close>

definition envelope :: "json \<Rightarrow> int \<Rightarrow> string \<Rightarrow> json" where
  "envelope d code message = JObj [(''code'', JNum code), (''message'', JStr message), (''data'', d)]"

definition DEFAULT_STATUS_MESSAGES :: "(int \<times> string) list" where
  "DEFAULT_STATUS_MESSAGES = [(200, ''OK''), (201, ''Created''), (202, ''Accepted''), (204, ''No content''),
     (400, ''Bad request''), (401, ''Unauthorized''), (403, ''Forbidden''), (404, ''Not found''), (409, ''Conflict''),
     (413, ''Payload too large''), (422, ''Unprocessable entity''), (429, ''Too many requests''),
     (500, ''Internal server error''), (503, ''Service unavailable'')]"

definition default_message :: "int \<Rightarrow> string \<Rightarrow> string" where
  "default_message status other = (case map_of DEFAULT_STATUS_MESSAGES status of Some m \<Rightarrow> m | None \<Rightarrow> other)"

text \<open>A body of \<^term>\<open>None\<close> is an empty one.\<close>

record api_response =
  rsp_status :: int
  rsp_body :: "json option"

section \<open>Errors\<close>

text \<open>
  A thrown value is an \<^verbatim>\<open>HttpException\<close> with its status and response body, or anything else, seen
  through its properties. The statuses that body-parser puts on its errors are integers.
\<close>

datatype thrown =
    HttpException int json
  | Thrown json

definition propertyOf :: "json \<Rightarrow> string \<Rightarrow> json option" where
  "propertyOf v key = (case v of JObj _ \<Rightarrow> json_get v key | _ \<Rightarrow> None)"

text \<open>How \<^verbatim>\<open>Array.prototype.join\<close> prints an element; a nested array is joined with commas.\<close>

fun js_join :: "string \<Rightarrow> string list \<Rightarrow> string" where
  "js_join sep [] = []"
| "js_join sep [x] = x"
| "js_join sep (x # y # xs) = x @ sep @ js_join sep (y # xs)"

fun js_element :: "json \<Rightarrow> string" where
  "js_element JNull = []"
| "js_element (JBool b) = (if b then ''true'' else ''false'')"
| "js_element (JNum n) = show_int n"
| "js_element (JFrac n printed) = printed"
| "js_element (JStr s) = s"
| "js_element (JArr xs) = js_join '','' (map js_element xs)"
| "js_element (JObj _) = ''[object Object]''"

definition resolveHttpException :: "thrown \<Rightarrow> int \<times> string" where
  "resolveHttpException ex = (case ex of
       HttpException status body \<Rightarrow>
         (case body of
            JStr m \<Rightarrow> (status, m)
          | _ \<Rightarrow> (case propertyOf body ''message'' of
                Some (JStr m) \<Rightarrow> (status, m)
              | Some (JArr ms) \<Rightarrow> (status, js_join ''; '' (map js_element ms))
              | _ \<Rightarrow> (status, default_message status ''Error'')))
     | Thrown v \<Rightarrow>
         (case propertyOf v ''status'' of
            Some (JNum status) \<Rightarrow> if status \<ge> 400 \<and> status < 600 then (status, default_message status ''Request failed'')
              else (500, default_message 500 ''Internal server error'')
          | _ \<Rightarrow> (500, default_message 500 ''Internal server error'')))"

datatype log_line =
    Unhandled_exception thrown string string
  | Request_failed string string int
  | Http_request string string string int int

text \<open>The filter of \<^verbatim>\<open>HttpExceptionFilter.catch\<close>: the line it logs and the response it sends.\<close>

definition catch_exception :: "string \<Rightarrow> string \<Rightarrow> thrown \<Rightarrow> log_line \<times> api_response" where
  "catch_exception requestId url ex = (let (status, message) = resolveHttpException ex in
     (if status \<ge> 500 then Unhandled_exception ex requestId url else Request_failed requestId url status,
      \<lparr> rsp_status = status, rsp_body = Some (envelope JNull status message) \<rparr>))"

text \<open>
  The exceptions of the model as thrown values: the built-in exceptions of Nest carry an object with the
  message, the generic one with status 429 its message alone; the errors of the database driver carry
  a code and no status, other errors a message.
\<close>

definition built_in :: "int \<Rightarrow> string \<Rightarrow> string \<Rightarrow> thrown" where
  "built_in status name m = HttpException status
     (JObj [(''message'', JStr m), (''error'', JStr name), (''statusCode'', JNum status)])"

definition thrown_of :: "exn \<Rightarrow> thrown" where
  "thrown_of e = (case e of
       BadRequest m \<Rightarrow> built_in 400 ''Bad Request'' m
     | Unauthorized m \<Rightarrow> built_in 401 ''Unauthorized'' m
     | Forbidden m \<Rightarrow> built_in 403 ''Forbidden'' m
     | NotFound m \<Rightarrow> built_in 404 ''Not Found'' m
     | Conflict m \<Rightarrow> built_in 409 ''Conflict'' m
     | TooManyRequests m \<Rightarrow> HttpException 429 (JStr m)
     | ServiceUnavailable m \<Rightarrow> built_in 503 ''Service Unavailable'' m
     | P2002 cols \<Rightarrow> Thrown (JObj [(''code'', JStr ''P2002''), (''meta'', JObj [(''target'', JArr (map JStr cols))])])
     | P2025 \<Rightarrow> Thrown (JObj [(''code'', JStr ''P2025'')])
     | OtherError m \<Rightarrow> Thrown (JObj [(''message'', JStr m)]))"

section \<open>Interceptors\<close>

text \<open>\<^verbatim>\<open>ResponseInterceptor.intercept\<close>: the body sent for what the handler returned (\<^term>\<open>None\<close> is \<^verbatim>\<open>undefined\<close>).\<close>

definition intercept_response :: "bool \<Rightarrow> int \<Rightarrow> json option \<Rightarrow> json option" where
  "intercept_response skip status d =
     (if skip then d
      else if status < 200 \<or> status \<ge> 300 then d
      else Some (envelope (case d of None \<Rightarrow> JNull | Some v \<Rightarrow> v) status (default_message status ''OK'')))"

definition OPS_PATHS :: "string list" where
  "OPS_PATHS = [''/healthz'', ''/readyz'', ''/metrics'']"

definition intercept_logging :: "string \<Rightarrow> string \<Rightarrow> string \<Rightarrow> string \<Rightarrow> int \<Rightarrow> instant \<Rightarrow> instant \<Rightarrow> log_line option" where
  "intercept_logging path requestId verb originalUrl status startMs now =
     (if path \<in> set OPS_PATHS then None else Some (Http_request requestId verb originalUrl status (now - startMs)))"

text \<open>\<^verbatim>\<open>MetricsMiddleware.use\<close>: the labels of the observation made when the response is finished.\<close>

definition metrics_labels :: "string \<Rightarrow> string \<Rightarrow> string \<Rightarrow> string option \<Rightarrow> int \<Rightarrow> (string \<times> string \<times> string) option" where
  "metrics_labels path verb baseUrl routePath status =
     (if path = ''/metrics'' then None
      else Some (verb, case routePath of Some p \<Rightarrow> baseUrl @ p | None \<Rightarrow> ''unmatched'', show_int status))"

section \<open>Identifiers\<close>

definition is_hex :: "char \<Rightarrow> bool" where
  "is_hex c \<longleftrightarrow> is_digit c \<or> c \<in> set ''abcdefABCDEF''"

definition UUID_PATTERN :: "string \<Rightarrow> bool" where
  "UUID_PATTERN s \<longleftrightarrow> map length (split_char CHR ''-'' s) = [8, 4, 4, 4, 12] \<and>
     list_all (list_all is_hex) (split_char CHR ''-'' s)"

datatype header = Absent | Single string | Repeated "string list"

text \<open>The request id, which is also sent back in \<^verbatim>\<open>X-Request-Id\<close>; \<^term>\<open>minted\<close> is the draw of \<^verbatim>\<open>randomUUID\<close>.\<close>

definition request_id :: "header \<Rightarrow> string \<Rightarrow> string" where
  "request_id h minted = (let incoming = (case h of Absent \<Rightarrow> None | Single x \<Rightarrow> Some x
       | Repeated xs \<Rightarrow> (case xs of [] \<Rightarrow> None | x # _ \<Rightarrow> Some x)) in
     case incoming of Some x \<Rightarrow> if UUID_PATTERN x then x else minted | None \<Rightarrow> minted)"

text \<open>\<^verbatim>\<open>ParseUuidPipe.transform\<close> over \<^verbatim>\<open>isUUID\<close> of class-validator.\<close>

definition parseUuid :: "(string \<Rightarrow> bool) \<Rightarrow> string \<Rightarrow> string res" where
  "parseUuid isUUID v = (if \<not> isUUID v then Inl (BadRequest ''Invalid id format'') else Inr v)"

section \<open>Operational endpoints\<close>

definition getLiveness :: json where
  "getLiveness = JObj [(''status'', JStr ''ok'')]"

definition getReadiness :: "bool \<Rightarrow> json res" where
  "getReadiness database_answers =
     (if \<not> database_answers then Inl (ServiceUnavailable ''Service unavailable'')
      else Inr (JObj [(''status'', JStr ''ok''), (''database'', JStr ''up'')]))"

definition getVersion :: "string option \<Rightarrow> json" where
  "getVersion buildSha = JObj [(''commit'', case buildSha of Some c \<Rightarrow> JStr c | None \<Rightarrow> JNull)]"

definition constantTimeEquals :: "(string \<Rightarrow> string) \<Rightarrow> string \<Rightarrow> string \<Rightarrow> bool" where
  "constantTimeEquals sha256 a b \<longleftrightarrow> sha256 a = sha256 b"

definition getMetrics :: "(string \<Rightarrow> string) \<Rightarrow> string option \<Rightarrow> string \<Rightarrow> string option \<Rightarrow> string res" where
  "getMetrics sha256 metricsToken scrape authorization = (case metricsToken of
       None \<Rightarrow> Inl (NotFound ''Not found'')
     | Some expected \<Rightarrow>
         let provided = (case authorization of
               Some a \<Rightarrow> if startsWith a ''Bearer '' then drop 7 a else []
             | None \<Rightarrow> []) in
         if provided = [] \<or> \<not> constantTimeEquals sha256 provided expected then Inl (Unauthorized ''Unauthorized'')
         else Inr scrape)"

section \<open>What a client sees of an error\<close>

definition exn_status :: "exn \<Rightarrow> int" where
  "exn_status e = (case e of BadRequest _ \<Rightarrow> 400 | Unauthorized _ \<Rightarrow> 401 | Forbidden _ \<Rightarrow> 403 | NotFound _ \<Rightarrow> 404
     | Conflict _ \<Rightarrow> 409 | TooManyRequests _ \<Rightarrow> 429 | ServiceUnavailable _ \<Rightarrow> 503 | _ \<Rightarrow> 500)"

definition exn_message :: "exn \<Rightarrow> string" where
  "exn_message e = (case e of BadRequest m \<Rightarrow> m | Unauthorized m \<Rightarrow> m | Forbidden m \<Rightarrow> m | NotFound m \<Rightarrow> m
     | Conflict m \<Rightarrow> m | TooManyRequests m \<Rightarrow> m | ServiceUnavailable m \<Rightarrow> m | _ \<Rightarrow> ''Internal server error'')"

definition error_response :: "int \<Rightarrow> string \<Rightarrow> api_response" where
  "error_response status m = \<lparr> rsp_status = status, rsp_body = Some (envelope JNull status m) \<rparr>"

lemma resolve_exn: "resolveHttpException (thrown_of e) = (exn_status e, exn_message e)"
  by (cases e) (simp_all add: thrown_of_def built_in_def resolveHttpException_def propertyOf_def exn_status_def
      exn_message_def default_message_def DEFAULT_STATUS_MESSAGES_def)

lemma catch_exn: "snd (catch_exception i url (thrown_of e)) = error_response (exn_status e) (exn_message e)"
  by (simp add: catch_exception_def resolve_exn error_response_def)

lemma default_message_listed:
  "default_message status other \<in> insert other (snd ` set DEFAULT_STATUS_MESSAGES)"
  by (force simp: default_message_def dest: map_of_SomeD split: option.splits)

lemma resolve_foreign:
  assumes "resolveHttpException (Thrown v) = (status, m)"
  shows "400 \<le> status \<and> status < 600" "m \<in> insert ''Request failed'' (snd ` set DEFAULT_STATUS_MESSAGES)"
proof -
  have f: "default_message 500 ''Internal server error'' \<in> snd ` set DEFAULT_STATUS_MESSAGES"
    by (simp add: default_message_def DEFAULT_STATUS_MESSAGES_def)
  show "400 \<le> status \<and> status < 600" using assms
    by (auto simp: resolveHttpException_def split: option.splits json.splits if_splits)
  show "m \<in> insert ''Request failed'' (snd ` set DEFAULT_STATUS_MESSAGES)"
    using assms f default_message_listed [of status "''Request failed''"]
    by (auto simp: resolveHttpException_def simp del: insert_iff split: option.splits json.splits if_splits)
qed

lemma http_error_cases:
  "snd (catch_exception i url (thrown_of e)) = error_response (exn_status e) (exn_message e)"
  "snd (catch_exception i url (HttpException 400 (JObj [(''message'', JArr (map JStr ms))]))) = error_response 400 (js_join ''; '' ms)"
  "\<exists>status m. snd (catch_exception i url (Thrown v)) = error_response status m \<and> 400 \<le> status \<and> status < 600 \<and>
     m \<in> insert ''Request failed'' (snd ` set DEFAULT_STATUS_MESSAGES)"
  "fst (catch_exception i url x) = (if rsp_status (snd (catch_exception i url x)) \<ge> 500 then Unhandled_exception x i url
     else Request_failed i url (rsp_status (snd (catch_exception i url x))))"
proof -
  have j: "map (js_element \<circ> JStr) ms = ms" by (induction ms) simp_all
  show "snd (catch_exception i url (thrown_of e)) = error_response (exn_status e) (exn_message e)"
    by (rule catch_exn)
  show "snd (catch_exception i url (HttpException 400 (JObj [(''message'', JArr (map JStr ms))]))) = error_response 400 (js_join ''; '' ms)"
    by (simp add: catch_exception_def resolveHttpException_def propertyOf_def error_response_def j)
  obtain status m where r: "resolveHttpException (Thrown v) = (status, m)" by (cases "resolveHttpException (Thrown v)") auto
  then show "\<exists>status m. snd (catch_exception i url (Thrown v)) = error_response status m \<and> 400 \<le> status \<and> status < 600 \<and>
     m \<in> insert ''Request failed'' (snd ` set DEFAULT_STATUS_MESSAGES)"
    using resolve_foreign [OF r] by (auto simp: catch_exception_def error_response_def simp del: insert_iff)
  show "fst (catch_exception i url x) = (if rsp_status (snd (catch_exception i url x)) \<ge> 500 then Unhandled_exception x i url
     else Request_failed i url (rsp_status (snd (catch_exception i url x))))"
    by (simp add: catch_exception_def split_beta Let_def)
qed

text \<open>C33: Every error leaves the API as the uniform envelope with null data. A service exception answers with its own
  status and message; a database or unexpected error answers 500 \<^verbatim>\<open>Internal server error\<close> whatever it says; any value
  thrown outside the exception hierarchy answers with a status from 400 to 599 and one of a fixed list of
  messages, so nothing of its content reaches the client; and the messages of a failed validation are joined.
  An answer of 500 and above is logged with the exception, every other one without it.\<close>

theorem http_error_uniform:
  "snd (catch_exception i url (thrown_of e)) = error_response (exn_status e) (exn_message e) \<and>
   snd (catch_exception i url (HttpException 400 (JObj [(''message'', JArr (map JStr ms))]))) = error_response 400 (js_join ''; '' ms) \<and>
   (\<exists>status m. snd (catch_exception i url (Thrown v)) = error_response status m \<and> 400 \<le> status \<and> status < 600 \<and>
     m \<in> insert ''Request failed'' (snd ` set DEFAULT_STATUS_MESSAGES)) \<and>
   fst (catch_exception i url x) = (if rsp_status (snd (catch_exception i url x)) \<ge> 500 then Unhandled_exception x i url
     else Request_failed i url (rsp_status (snd (catch_exception i url x))))"
  by (intro conjI) (rule http_error_cases)+

text \<open>The identifier under which a request is logged and answered is always a UUID when the minted one is.\<close>

lemma request_id_uuid: "UUID_PATTERN minted \<Longrightarrow> UUID_PATTERN (request_id h minted)"
  by (auto simp: request_id_def Let_def split: header.splits option.splits list.splits)

text \<open>The scrape is given out for the configured token only, up to collisions of the hash.\<close>

lemma getMetrics_token:
  assumes "getMetrics sha256 tok scrape hdr = Inr out"
  obtains expected provided where "out = scrape" "tok = Some expected" "hdr = Some (''Bearer '' @ provided)"
    "provided \<noteq> []" "sha256 provided = sha256 expected"
proof -
  obtain expected where t: "tok = Some expected" using assms by (cases tok) (simp_all add: getMetrics_def)
  obtain h where h: "hdr = Some h" using assms t by (cases hdr) (simp_all add: getMetrics_def)
  have s: "startsWith h ''Bearer ''" using assms t h by (cases "startsWith h ''Bearer ''") (simp_all add: getMetrics_def)
  obtain p where p: "h = ''Bearer '' @ p" using s unfolding startsWith_iff by (elim exE)
  have "getMetrics sha256 tok scrape hdr =
      (if p = [] \<or> sha256 p \<noteq> sha256 expected then Inl (Unauthorized ''Unauthorized'') else Inr scrape)"
    using s by (simp add: getMetrics_def t h p constantTimeEquals_def)
  then show thesis using assms that t h p by (simp split: if_splits)
qed

end
