(* ===== verification/Config.thy ===== *)
theory Config
  imports Http
begin

text \<open>
  The environment contract of \<^verbatim>\<open>src/config/env.validation.ts\<close> and the typed access of
  \<^verbatim>\<open>src/config/env.service.ts\<close>. The environment is a map from names to strings; what Joi converts is a parameter.
\<close>

section \<open>Rules\<close>

datatype env_value = EStr string | ENum int | EBool bool | EList "string list"

text \<open>
  What the schema takes from Joi: the conversion of a string to an integer and to a boolean
  (\<^term>\<open>None\<close> when it does not convert), the test for a URI, and the text of the error for the rejected keys.
\<close>

record joi_lib =
  joi_integer :: "string \<Rightarrow> int option"
  joi_boolean :: "string \<Rightarrow> bool option"
  joi_uri :: "string \<Rightarrow> bool"
  joi_details :: "string list \<Rightarrow> string"

text \<open>
  A rule maps the raw value to \<^term>\<open>None\<close> when it is rejected and to the validated value otherwise, which may be
  absent. A string rule rejects the empty string unless it is allowed.
\<close>

type_synonym env_rule = "string option \<Rightarrow> env_value option option"

definition str_required :: "(string \<Rightarrow> bool) \<Rightarrow> env_rule" where
  "str_required P v = (case v of None \<Rightarrow> None | Some x \<Rightarrow> if x \<noteq> [] \<and> P x then Some (Some (EStr x)) else None)"

definition str_default :: "(string \<Rightarrow> bool) \<Rightarrow> string \<Rightarrow> env_rule" where
  "str_default P d v = (case v of None \<Rightarrow> Some (Some (EStr d)) | Some x \<Rightarrow> str_required P (Some x))"

definition str_optional :: "(string \<Rightarrow> bool) \<Rightarrow> env_rule" where
  "str_optional P v = (case v of None \<Rightarrow> Some None | Some x \<Rightarrow> if x = [] \<or> P x then Some (Some (EStr x)) else None)"

definition str_forbidden :: env_rule where
  "str_forbidden v = (case v of None \<Rightarrow> Some None | Some _ \<Rightarrow> None)"

definition str_or_empty :: env_rule where
  "str_or_empty v = (case v of None \<Rightarrow> Some (Some (EStr [])) | Some x \<Rightarrow> Some (Some (EStr x)))"

definition num_default :: "joi_lib \<Rightarrow> (int \<Rightarrow> bool) \<Rightarrow> int \<Rightarrow> env_rule" where
  "num_default lib P d v = (case v of None \<Rightarrow> Some (Some (ENum d))
     | Some x \<Rightarrow> (case joi_integer lib x of Some n \<Rightarrow> if P n then Some (Some (ENum n)) else None | None \<Rightarrow> None))"

definition bool_default :: "joi_lib \<Rightarrow> bool \<Rightarrow> env_rule" where
  "bool_default lib d v = (case v of None \<Rightarrow> Some (Some (EBool d))
     | Some x \<Rightarrow> map_option (\<lambda>b. Some (EBool b)) (joi_boolean lib x))"

definition str_when :: "bool \<Rightarrow> (string \<Rightarrow> bool) \<Rightarrow> env_rule" where
  "str_when c P = (if c then str_required P else str_optional P)"

lemmas env_rules = str_required_def str_default_def str_optional_def str_forbidden_def str_or_empty_def
  num_default_def bool_default_def str_when_def

section \<open>The schema\<close>

definition is_port :: "int \<Rightarrow> bool" where "is_port n \<longleftrightarrow> 0 \<le> n \<and> n \<le> 65535"
definition is_sha :: "string \<Rightarrow> bool" where "is_sha x \<longleftrightarrow> length x = 40 \<and> list_all is_hex x"
definition is_key64 :: "string \<Rightarrow> bool" where "is_key64 x \<longleftrightarrow> length x = 64 \<and> list_all is_hex x"
definition any_str :: "string \<Rightarrow> bool" where "any_str x \<longleftrightarrow> True"
definition one_of :: "string list \<Rightarrow> string \<Rightarrow> bool" where "one_of xs x \<longleftrightarrow> x \<in> set xs"
definition len_between :: "nat \<Rightarrow> nat \<Rightarrow> string \<Rightarrow> bool" where "len_between a b x \<longleftrightarrow> a \<le> length x \<and> length x \<le> b"
definition len_min :: "nat \<Rightarrow> string \<Rightarrow> bool" where "len_min a x \<longleftrightarrow> a \<le> length x"

text \<open>The values a \<^verbatim>\<open>when\<close> refers to, with their defaults applied.\<close>

definition ref_value :: "(string \<rightharpoonup> string) \<Rightarrow> string \<Rightarrow> string \<Rightarrow> string" where
  "ref_value raw k d = (case raw k of Some x \<Rightarrow> x | None \<Rightarrow> d)"

definition in_production :: "(string \<rightharpoonup> string) \<Rightarrow> bool" where
  "in_production raw \<longleftrightarrow> ref_value raw ''NODE_ENV'' ''local'' = ''production''"

definition gateway_ref :: "(string \<rightharpoonup> string) \<Rightarrow> string" where
  "gateway_ref raw = ref_value raw ''PAYMENTS_GATEWAY'' (if in_production raw then [] else ''simulated'')"

definition envSchema :: "joi_lib \<Rightarrow> (string \<rightharpoonup> string) \<Rightarrow> (string \<times> env_rule) list" where
  "envSchema lib raw =
     (let production = in_production raw;
          smtp = ref_value raw ''MAIL_DRIVER'' ''logging'' = ''smtp'';
          payos = gateway_ref raw = ''payos'' in
      [(''NODE_ENV'', str_default (one_of [''local'', ''test'', ''staging'', ''production'']) ''local''),
       (''PORT'', num_default lib is_port 3000),
       (''BUILD_SHA'', str_optional is_sha),
       (''RENDER_GIT_COMMIT'', str_optional is_sha),
       (''DATABASE_URL'', str_required (joi_uri lib)),
       (''TRUST_PROXY_HOPS'', num_default lib (\<lambda>n. 0 \<le> n \<and> n \<le> 5) 1),
       (''JWT_SECRET'', str_required (len_between 32 256)),
       (''JWT_SECRET_PREVIOUS'', str_optional (len_between 32 256)),
       (''JWT_ISSUER'', str_default any_str ''vovinam-api''),
       (''ACCESS_TOKEN_TTL'', str_default any_str ''15m''),
       (''REFRESH_TOKEN_TTL'', str_default any_str ''30d''),
       (''APP_ENCRYPTION_KEY'', str_when production is_key64),
       (''MAX_LOGIN_ATTEMPTS'', num_default lib (\<lambda>n. 1 \<le> n \<and> n \<le> 20) 5),
       (''LOGIN_LOCKOUT_DURATION'', str_default any_str ''15m''),
       (''RATE_LIMIT_TTL_SECONDS'', num_default lib (\<lambda>n. 1 \<le> n) 60),
       (''RATE_LIMIT_MAX_REQUESTS'', num_default lib (\<lambda>n. 1 \<le> n) 100),
       (''AUTH_IP_LIMIT_MAX'', num_default lib (\<lambda>n. 1 \<le> n) 30),
       (''AUTH_IP_LIMIT_TTL_SECONDS'', num_default lib (\<lambda>n. 1 \<le> n) 60),
       (''CORS_ALLOWED_ORIGINS'', str_or_empty),
       (''SWAGGER_ENABLED'', bool_default lib False),
       (''METRICS_TOKEN'', str_when production (len_min 16)),
       (''MAIL_DRIVER'', str_default (one_of [''logging'', ''smtp'']) ''logging''),
       (''SMTP_HOST'', str_when smtp any_str),
       (''SMTP_PORT'', num_default lib is_port 587),
       (''SMTP_USER'', str_optional any_str),
       (''SMTP_PASSWORD'', str_optional any_str),
       (''SMTP_FROM'', str_when smtp any_str),
       (''MAIL_LOG_FILE'', if production then str_forbidden else str_optional any_str),
       (''PAYOS_CLIENT_ID'', str_when payos any_str),
       (''PAYOS_API_KEY'', str_when payos any_str),
       (''PAYOS_CHECKSUM_KEY'', str_when payos any_str),
       (''PAYOS_RETURN_URL'', str_when payos (joi_uri lib)),
       (''PAYOS_CANCEL_URL'', str_when payos (joi_uri lib)),
       (''PAYMENTS_GATEWAY'', if production then str_required (one_of [''payos'', ''sepay''])
          else str_default (one_of [''payos'', ''sepay'', ''simulated'']) ''simulated''),
       (''PAYMENTS_WEBHOOK_SECRET'', str_when (gateway_ref raw = ''simulated'') (len_min 16)),
       (''ZALO_OA_ACCESS_TOKEN'', str_optional any_str),
       (''ZALO_OA_APP_ID'', str_optional any_str),
       (''ZALO_OA_SECRET_KEY'', str_optional any_str),
       (''ESMS_API_KEY'', str_optional any_str),
       (''ESMS_SECRET_KEY'', str_optional any_str),
       (''ESMS_BRANDNAME'', str_optional any_str)])"

section \<open>Validation\<close>

type_synonym config = "string \<Rightarrow> env_value option"

definition rejected :: "joi_lib \<Rightarrow> (string \<rightharpoonup> string) \<Rightarrow> string list" where
  "rejected lib raw = map fst (filter (\<lambda>(k, rule). rule (raw k) = None) (envSchema lib raw))"

definition parsed_env :: "joi_lib \<Rightarrow> (string \<rightharpoonup> string) \<Rightarrow> config" where
  "parsed_env lib raw k = (case map_of (envSchema lib raw) k of
       Some rule \<Rightarrow> (case rule (raw k) of Some v \<Rightarrow> v | None \<Rightarrow> None)
     | None \<Rightarrow> map_option EStr (raw k))"

definition split_origins :: "string \<Rightarrow> string list" where
  "split_origins x = filter (\<lambda>o'. length o' > 0) (map trim (split_char CHR '','' x))"

definition validateEnv :: "joi_lib \<Rightarrow> (string \<rightharpoonup> string) \<Rightarrow> config res" where
  "validateEnv lib raw =
     (if rejected lib raw \<noteq> [] then Inl (OtherError (''Invalid environment configuration: '' @ joi_details lib (rejected lib raw)))
      else Inr ((parsed_env lib raw)(''CORS_ALLOWED_ORIGINS'' := (case parsed_env lib raw ''CORS_ALLOWED_ORIGINS'' of
          Some (EStr x) \<Rightarrow> Some (EList (split_origins x)) | v \<Rightarrow> v))))"

section \<open>Access\<close>

definition env_get :: "config \<Rightarrow> string \<Rightarrow> env_value res" where
  "env_get cfg key = (case cfg key of
       None \<Rightarrow> Inl (OtherError (''Missing validated environment variable: '' @ key))
     | Some v \<Rightarrow> if v = EStr [] then Inl (OtherError (''Missing validated environment variable: '' @ key)) else Inr v)"

definition getOptional :: "config \<Rightarrow> string \<Rightarrow> env_value option" where
  "getOptional cfg key = (if cfg key = Some (EStr []) then None else cfg key)"

definition buildSha :: "config \<Rightarrow> env_value option" where
  "buildSha cfg = (case getOptional cfg ''BUILD_SHA'' of Some v \<Rightarrow> Some v | None \<Rightarrow> getOptional cfg ''RENDER_GIT_COMMIT'')"

definition nodeEnv :: "config \<Rightarrow> env_value res" where "nodeEnv cfg = env_get cfg ''NODE_ENV''"
definition port :: "config \<Rightarrow> env_value res" where "port cfg = env_get cfg ''PORT''"
definition trustProxyHops :: "config \<Rightarrow> env_value res" where "trustProxyHops cfg = env_get cfg ''TRUST_PROXY_HOPS''"
definition databaseUrl :: "config \<Rightarrow> env_value res" where "databaseUrl cfg = env_get cfg ''DATABASE_URL''"
definition jwtSecret :: "config \<Rightarrow> env_value res" where "jwtSecret cfg = env_get cfg ''JWT_SECRET''"
definition jwtSecretPrevious :: "config \<Rightarrow> env_value option" where "jwtSecretPrevious cfg = getOptional cfg ''JWT_SECRET_PREVIOUS''"
definition jwtIssuer :: "config \<Rightarrow> env_value res" where "jwtIssuer cfg = env_get cfg ''JWT_ISSUER''"
definition accessTokenTtl :: "config \<Rightarrow> env_value res" where "accessTokenTtl cfg = env_get cfg ''ACCESS_TOKEN_TTL''"
definition refreshTokenTtl :: "config \<Rightarrow> env_value res" where "refreshTokenTtl cfg = env_get cfg ''REFRESH_TOKEN_TTL''"
definition appEncryptionKey :: "config \<Rightarrow> env_value option" where "appEncryptionKey cfg = getOptional cfg ''APP_ENCRYPTION_KEY''"
definition maxLoginAttempts :: "config \<Rightarrow> env_value res" where "maxLoginAttempts cfg = env_get cfg ''MAX_LOGIN_ATTEMPTS''"
definition loginLockoutDuration :: "config \<Rightarrow> env_value res" where "loginLockoutDuration cfg = env_get cfg ''LOGIN_LOCKOUT_DURATION''"
definition rateLimitTtlSeconds :: "config \<Rightarrow> env_value res" where "rateLimitTtlSeconds cfg = env_get cfg ''RATE_LIMIT_TTL_SECONDS''"
definition rateLimitMaxRequests :: "config \<Rightarrow> env_value res" where "rateLimitMaxRequests cfg = env_get cfg ''RATE_LIMIT_MAX_REQUESTS''"
definition authIpLimitMax :: "config \<Rightarrow> env_value res" where "authIpLimitMax cfg = env_get cfg ''AUTH_IP_LIMIT_MAX''"
definition authIpLimitTtlSeconds :: "config \<Rightarrow> env_value res" where "authIpLimitTtlSeconds cfg = env_get cfg ''AUTH_IP_LIMIT_TTL_SECONDS''"
definition corsOrigins :: "config \<Rightarrow> env_value res" where "corsOrigins cfg = env_get cfg ''CORS_ALLOWED_ORIGINS''"
definition swaggerEnabled :: "config \<Rightarrow> env_value res" where "swaggerEnabled cfg = env_get cfg ''SWAGGER_ENABLED''"
definition metricsToken :: "config \<Rightarrow> env_value option" where "metricsToken cfg = getOptional cfg ''METRICS_TOKEN''"
definition mailDriver :: "config \<Rightarrow> env_value res" where "mailDriver cfg = env_get cfg ''MAIL_DRIVER''"
definition smtpHost :: "config \<Rightarrow> env_value res" where "smtpHost cfg = env_get cfg ''SMTP_HOST''"
definition smtpPort :: "config \<Rightarrow> env_value res" where "smtpPort cfg = env_get cfg ''SMTP_PORT''"
definition smtpUser :: "config \<Rightarrow> env_value option" where "smtpUser cfg = getOptional cfg ''SMTP_USER''"
definition smtpPassword :: "config \<Rightarrow> env_value option" where "smtpPassword cfg = getOptional cfg ''SMTP_PASSWORD''"
definition smtpFrom :: "config \<Rightarrow> env_value res" where "smtpFrom cfg = env_get cfg ''SMTP_FROM''"
definition payosClientId :: "config \<Rightarrow> env_value res" where "payosClientId cfg = env_get cfg ''PAYOS_CLIENT_ID''"
definition payosApiKey :: "config \<Rightarrow> env_value res" where "payosApiKey cfg = env_get cfg ''PAYOS_API_KEY''"
definition payosChecksumKey :: "config \<Rightarrow> env_value res" where "payosChecksumKey cfg = env_get cfg ''PAYOS_CHECKSUM_KEY''"
definition payosReturnUrl :: "config \<Rightarrow> env_value res" where "payosReturnUrl cfg = env_get cfg ''PAYOS_RETURN_URL''"
definition payosCancelUrl :: "config \<Rightarrow> env_value res" where "payosCancelUrl cfg = env_get cfg ''PAYOS_CANCEL_URL''"
definition paymentsGateway :: "config \<Rightarrow> env_value res" where "paymentsGateway cfg = env_get cfg ''PAYMENTS_GATEWAY''"
definition paymentsWebhookSecret :: "config \<Rightarrow> env_value option" where "paymentsWebhookSecret cfg = getOptional cfg ''PAYMENTS_WEBHOOK_SECRET''"

lemmas required_getters = nodeEnv_def port_def trustProxyHops_def databaseUrl_def jwtSecret_def jwtIssuer_def accessTokenTtl_def refreshTokenTtl_def maxLoginAttempts_def loginLockoutDuration_def rateLimitTtlSeconds_def rateLimitMaxRequests_def authIpLimitMax_def authIpLimitTtlSeconds_def corsOrigins_def swaggerEnabled_def mailDriver_def smtpHost_def smtpPort_def smtpFrom_def payosClientId_def payosApiKey_def payosChecksumKey_def payosReturnUrl_def payosCancelUrl_def paymentsGateway_def

definition znsConfigured :: "config \<Rightarrow> bool" where
  "znsConfigured cfg \<longleftrightarrow> getOptional cfg ''ZALO_OA_ACCESS_TOKEN'' \<noteq> None \<and> getOptional cfg ''ZALO_OA_APP_ID'' \<noteq> None \<and>
     getOptional cfg ''ZALO_OA_SECRET_KEY'' \<noteq> None"

definition smsConfigured :: "config \<Rightarrow> bool" where
  "smsConfigured cfg \<longleftrightarrow> getOptional cfg ''ESMS_API_KEY'' \<noteq> None \<and> getOptional cfg ''ESMS_SECRET_KEY'' \<noteq> None \<and>
     getOptional cfg ''ESMS_BRANDNAME'' \<noteq> None"

definition isProduction :: "config \<Rightarrow> bool res" where
  "isProduction cfg = map_sum id (\<lambda>v. v = EStr ''production'') (nodeEnv cfg)"

section \<open>What a validated environment gives\<close>

lemma validated_key:
  assumes "validateEnv lib raw = Inr cfg" and "map_of (envSchema lib raw) k = Some rule" and "k \<noteq> ''CORS_ALLOWED_ORIGINS''"
  shows "rule (raw k) = Some (cfg k)"
proof -
  have r: "rejected lib raw = []" and c: "cfg k = parsed_env lib raw k"
    using assms(1,3) by (auto simp: validateEnv_def split: if_splits)
  have "(k, rule) \<in> set (envSchema lib raw)" using assms(2) by (rule map_of_SomeD)
  then have "rule (raw k) \<noteq> None" using r by (auto simp: rejected_def filter_empty_conv)
  then show ?thesis using c assms(2) by (auto simp: parsed_env_def)
qed

lemma validated_origins:
  assumes "validateEnv lib raw = Inr cfg"
  shows "cfg ''CORS_ALLOWED_ORIGINS'' = Some (EList (split_origins (case_option [] id (raw ''CORS_ALLOWED_ORIGINS''))))"
proof -
  have "map_of (envSchema lib raw) ''CORS_ALLOWED_ORIGINS'' = Some str_or_empty" by (simp add: envSchema_def Let_def)
  then have "parsed_env lib raw ''CORS_ALLOWED_ORIGINS'' = Some (EStr (case_option [] id (raw ''CORS_ALLOWED_ORIGINS'')))"
    by (simp add: parsed_env_def str_or_empty_def split: option.splits)
  then show ?thesis using assms by (auto simp: validateEnv_def split: if_splits)
qed

text \<open>What each kind of rule says of an accepted value.\<close>

lemma accepted_str:
  "str_required P v = Some w \<Longrightarrow> \<exists>x. w = Some (EStr x) \<and> v = Some x \<and> x \<noteq> [] \<and> P x"
  "str_default P d v = Some w \<Longrightarrow> \<exists>x. w = Some (EStr x) \<and> x = case_option d id v \<and> (x = d \<or> x \<noteq> [] \<and> P x)"
  "str_forbidden v = Some w \<Longrightarrow> w = None"
  by (auto simp: env_rules split: option.splits if_splits)

lemma accepted_num: "num_default lib P d v = Some w \<Longrightarrow> P d \<Longrightarrow> \<exists>n. w = Some (ENum n) \<and> P n"
  by (auto simp: env_rules split: option.splits if_splits)

lemma accepted_bool: "bool_default lib d v = Some w \<Longrightarrow> \<exists>b. w = Some (EBool b)"
  by (auto simp: env_rules split: option.splits)

lemma env_get_present: "cfg k = Some v \<Longrightarrow> v \<noteq> EStr [] \<Longrightarrow> env_get cfg k = Inr v"
  by (simp add: env_get_def)

lemma validated_required:
  assumes "validateEnv lib raw = Inr cfg" and "map_of (envSchema lib raw) k = Some (str_required P)" and "k \<noteq> ''CORS_ALLOWED_ORIGINS''"
  shows "\<exists>x. cfg k = Some (EStr x) \<and> env_get cfg k = Inr (EStr x) \<and> P x"
  using accepted_str(1) [OF validated_key [OF assms]] by (auto intro: env_get_present)

lemma validated_default:
  assumes "validateEnv lib raw = Inr cfg" and "map_of (envSchema lib raw) k = Some (str_default P d)" and "k \<noteq> ''CORS_ALLOWED_ORIGINS''"
    and "P d" and "d \<noteq> []"
  shows "\<exists>x. env_get cfg k = Inr (EStr x) \<and> x = ref_value raw k d \<and> P x"
  using accepted_str(2) [OF validated_key [OF assms(1-3)]] assms(4,5)
  by (auto intro!: env_get_present simp: ref_value_def split: option.splits)

lemma validated_num:
  assumes "validateEnv lib raw = Inr cfg" and "map_of (envSchema lib raw) k = Some (num_default lib P d)" and "k \<noteq> ''CORS_ALLOWED_ORIGINS''" and "P d"
  shows "\<exists>n. env_get cfg k = Inr (ENum n) \<and> P n"
  using accepted_num [OF validated_key [OF assms(1-3)] assms(4)] by (auto intro: env_get_present)

lemma schema_keys:
  "map_of (envSchema lib raw) ''NODE_ENV'' = Some (str_default (one_of [''local'', ''test'', ''staging'', ''production'']) ''local'')"
  "map_of (envSchema lib raw) ''PORT'' = Some (num_default lib is_port 3000)"
  "map_of (envSchema lib raw) ''DATABASE_URL'' = Some (str_required (joi_uri lib))"
  "map_of (envSchema lib raw) ''TRUST_PROXY_HOPS'' = Some (num_default lib (\<lambda>n. 0 \<le> n \<and> n \<le> 5) 1)"
  "map_of (envSchema lib raw) ''JWT_SECRET'' = Some (str_required (len_between 32 256))"
  "map_of (envSchema lib raw) ''JWT_SECRET_PREVIOUS'' = Some (str_optional (len_between 32 256))"
  "map_of (envSchema lib raw) ''JWT_ISSUER'' = Some (str_default any_str ''vovinam-api'')"
  "map_of (envSchema lib raw) ''ACCESS_TOKEN_TTL'' = Some (str_default any_str ''15m'')"
  "map_of (envSchema lib raw) ''REFRESH_TOKEN_TTL'' = Some (str_default any_str ''30d'')"
  "map_of (envSchema lib raw) ''APP_ENCRYPTION_KEY'' = Some (str_when (in_production raw) is_key64)"
  "map_of (envSchema lib raw) ''MAX_LOGIN_ATTEMPTS'' = Some (num_default lib (\<lambda>n. 1 \<le> n \<and> n \<le> 20) 5)"
  "map_of (envSchema lib raw) ''LOGIN_LOCKOUT_DURATION'' = Some (str_default any_str ''15m'')"
  "map_of (envSchema lib raw) ''RATE_LIMIT_TTL_SECONDS'' = Some (num_default lib (\<lambda>n. 1 \<le> n) 60)"
  "map_of (envSchema lib raw) ''RATE_LIMIT_MAX_REQUESTS'' = Some (num_default lib (\<lambda>n. 1 \<le> n) 100)"
  "map_of (envSchema lib raw) ''AUTH_IP_LIMIT_MAX'' = Some (num_default lib (\<lambda>n. 1 \<le> n) 30)"
  "map_of (envSchema lib raw) ''AUTH_IP_LIMIT_TTL_SECONDS'' = Some (num_default lib (\<lambda>n. 1 \<le> n) 60)"
  "map_of (envSchema lib raw) ''SWAGGER_ENABLED'' = Some (bool_default lib False)"
  "map_of (envSchema lib raw) ''METRICS_TOKEN'' = Some (str_when (in_production raw) (len_min 16))"
  "map_of (envSchema lib raw) ''MAIL_DRIVER'' = Some (str_default (one_of [''logging'', ''smtp'']) ''logging'')"
  "map_of (envSchema lib raw) ''SMTP_HOST'' = Some (str_when (ref_value raw ''MAIL_DRIVER'' ''logging'' = ''smtp'') any_str)"
  "map_of (envSchema lib raw) ''SMTP_PORT'' = Some (num_default lib is_port 587)"
  "map_of (envSchema lib raw) ''SMTP_FROM'' = Some (str_when (ref_value raw ''MAIL_DRIVER'' ''logging'' = ''smtp'') any_str)"
  "map_of (envSchema lib raw) ''MAIL_LOG_FILE'' = Some (if in_production raw then str_forbidden else str_optional any_str)"
  "map_of (envSchema lib raw) ''PAYOS_CLIENT_ID'' = Some (str_when (gateway_ref raw = ''payos'') any_str)"
  "map_of (envSchema lib raw) ''PAYOS_API_KEY'' = Some (str_when (gateway_ref raw = ''payos'') any_str)"
  "map_of (envSchema lib raw) ''PAYOS_CHECKSUM_KEY'' = Some (str_when (gateway_ref raw = ''payos'') any_str)"
  "map_of (envSchema lib raw) ''PAYOS_RETURN_URL'' = Some (str_when (gateway_ref raw = ''payos'') (joi_uri lib))"
  "map_of (envSchema lib raw) ''PAYOS_CANCEL_URL'' = Some (str_when (gateway_ref raw = ''payos'') (joi_uri lib))"
  "map_of (envSchema lib raw) ''PAYMENTS_GATEWAY'' = Some (if in_production raw then str_required (one_of [''payos'', ''sepay'']) else str_default (one_of [''payos'', ''sepay'', ''simulated'']) ''simulated'')"
  "map_of (envSchema lib raw) ''PAYMENTS_WEBHOOK_SECRET'' = Some (str_when (gateway_ref raw = ''simulated'') (len_min 16))"
  by (simp_all add: envSchema_def Let_def)

definition gives_str :: "config \<Rightarrow> (string \<Rightarrow> bool) \<Rightarrow> (config \<Rightarrow> env_value res) \<Rightarrow> bool" where
  "gives_str cfg P g \<longleftrightarrow> (\<exists>x. g cfg = Inr (EStr x) \<and> P x)"

definition gives_num :: "config \<Rightarrow> (int \<Rightarrow> bool) \<Rightarrow> (config \<Rightarrow> env_value res) \<Rightarrow> bool" where
  "gives_num cfg P g \<longleftrightarrow> (\<exists>n. g cfg = Inr (ENum n) \<and> P n)"

lemma validated_nodeEnv:
  assumes "validateEnv lib raw = Inr cfg"
  shows "nodeEnv cfg = Inr (EStr (ref_value raw ''NODE_ENV'' ''local''))"
    "one_of [''local'', ''test'', ''staging'', ''production''] (ref_value raw ''NODE_ENV'' ''local'')"
    "isProduction cfg = Inr (in_production raw)"
proof -
  note n = validated_default [OF assms schema_keys(1), unfolded one_of_def]
  show v: "nodeEnv cfg = Inr (EStr (ref_value raw ''NODE_ENV'' ''local''))" using n by (auto simp: nodeEnv_def)
  show "one_of [''local'', ''test'', ''staging'', ''production''] (ref_value raw ''NODE_ENV'' ''local'')"
    using n by (auto simp: one_of_def)
  show "isProduction cfg = Inr (in_production raw)" by (simp add: isProduction_def v in_production_def)
qed

lemma validated_driver:
  assumes "validateEnv lib raw = Inr cfg"
  shows "mailDriver cfg = Inr (EStr (ref_value raw ''MAIL_DRIVER'' ''logging''))"
  using validated_default [OF assms schema_keys(19), unfolded one_of_def] by (auto simp: mailDriver_def)

lemma validated_gateway:
  assumes "validateEnv lib raw = Inr cfg"
  shows "paymentsGateway cfg = Inr (EStr (gateway_ref raw))"
    "gateway_ref raw \<in> set (if in_production raw then [''payos'', ''sepay''] else [''payos'', ''sepay'', ''simulated''])"
proof -
  have "paymentsGateway cfg = Inr (EStr (gateway_ref raw)) \<and>
    gateway_ref raw \<in> set (if in_production raw then [''payos'', ''sepay''] else [''payos'', ''sepay'', ''simulated''])"
  proof (cases "in_production raw")
    case True
    note k = validated_key [OF assms schema_keys(29)]
    have "str_required (one_of [''payos'', ''sepay'']) (raw ''PAYMENTS_GATEWAY'') = Some (cfg ''PAYMENTS_GATEWAY'')"
      using k True by simp
    from accepted_str(1) [OF this] show ?thesis using True
      by (auto simp: paymentsGateway_def env_get_def gateway_ref_def ref_value_def one_of_def)
  next
    case False
    then have "map_of (envSchema lib raw) ''PAYMENTS_GATEWAY'' = Some (str_default (one_of [''payos'', ''sepay'', ''simulated'']) ''simulated'')"
      using schema_keys(29) [of lib raw] by simp
    from validated_default [OF assms this] show ?thesis using False
      by (auto simp: paymentsGateway_def gateway_ref_def one_of_def)
  qed
  then show "paymentsGateway cfg = Inr (EStr (gateway_ref raw))"
    "gateway_ref raw \<in> set (if in_production raw then [''payos'', ''sepay''] else [''payos'', ''sepay'', ''simulated''])" by auto
qed

lemma validated_when:
  assumes "validateEnv lib raw = Inr cfg" and "map_of (envSchema lib raw) k = Some (str_when c P)" and "k \<noteq> ''CORS_ALLOWED_ORIGINS''" and "c"
  shows "\<exists>x. cfg k = Some (EStr x) \<and> env_get cfg k = Inr (EStr x) \<and> P x"
  by (rule validated_required [OF assms(1)]) (use assms in \<open>simp_all add: str_when_def\<close>)

lemma optional_present: "\<exists>x. cfg k = Some (EStr x) \<and> env_get cfg k = Inr (EStr x) \<and> P x \<Longrightarrow> \<exists>x. getOptional cfg k = Some (EStr x) \<and> P x"
  by (auto simp: getOptional_def env_get_def split: if_splits)

lemma origins_clean: "x \<in> set (split_origins v) \<Longrightarrow> x \<noteq> [] \<and> (\<exists>y. x = trim y)"
  by (auto simp: split_origins_def)

lemma environment_access:
  assumes "validateEnv lib raw = Inr cfg"
  shows "\<forall>g \<in> set [nodeEnv, databaseUrl, jwtSecret, jwtIssuer, accessTokenTtl, refreshTokenTtl, loginLockoutDuration,
        mailDriver, paymentsGateway]. gives_str cfg any_str g"
    and "\<forall>g \<in> set [port, trustProxyHops, maxLoginAttempts, rateLimitTtlSeconds, rateLimitMaxRequests, authIpLimitMax,
        authIpLimitTtlSeconds, smtpPort]. gives_num cfg (\<lambda>_. True) g"
    and "\<exists>origins. corsOrigins cfg = Inr (EList origins)" and "\<exists>b. swaggerEnabled cfg = Inr (EBool b)"
    and "mailDriver cfg = Inr (EStr ''smtp'') \<Longrightarrow> gives_str cfg any_str smtpHost \<and> gives_str cfg any_str smtpFrom"
    and "paymentsGateway cfg = Inr (EStr ''payos'') \<Longrightarrow> \<forall>g \<in> set [payosClientId, payosApiKey, payosChecksumKey,
        payosReturnUrl, payosCancelUrl]. gives_str cfg any_str g"
proof -
  note req = validated_required [OF assms schema_keys(3)] validated_required [OF assms schema_keys(5)]
  note dft = validated_default [OF assms schema_keys(7)] validated_default [OF assms schema_keys(8)]
    validated_default [OF assms schema_keys(9)] validated_default [OF assms schema_keys(12)]
  show "\<forall>g \<in> set [nodeEnv, databaseUrl, jwtSecret, jwtIssuer, accessTokenTtl, refreshTokenTtl, loginLockoutDuration,
        mailDriver, paymentsGateway]. gives_str cfg any_str g"
    using req dft validated_nodeEnv(1) [OF assms] validated_driver [OF assms] validated_gateway(1) [OF assms]
    by (auto simp: gives_str_def any_str_def databaseUrl_def jwtSecret_def jwtIssuer_def accessTokenTtl_def
        refreshTokenTtl_def loginLockoutDuration_def)
  note num = validated_num [OF assms schema_keys(2)] validated_num [OF assms schema_keys(4)] validated_num [OF assms schema_keys(11)]
    validated_num [OF assms schema_keys(13)] validated_num [OF assms schema_keys(14)] validated_num [OF assms schema_keys(15)]
    validated_num [OF assms schema_keys(16)] validated_num [OF assms schema_keys(21)]
  show "\<forall>g \<in> set [port, trustProxyHops, maxLoginAttempts, rateLimitTtlSeconds, rateLimitMaxRequests, authIpLimitMax,
        authIpLimitTtlSeconds, smtpPort]. gives_num cfg (\<lambda>_. True) g"
    using num by (auto simp: gives_num_def is_port_def port_def trustProxyHops_def maxLoginAttempts_def rateLimitTtlSeconds_def
        rateLimitMaxRequests_def authIpLimitMax_def authIpLimitTtlSeconds_def smtpPort_def)
  show "\<exists>origins. corsOrigins cfg = Inr (EList origins)"
    using validated_origins [OF assms] by (simp add: corsOrigins_def env_get_def)
  show "\<exists>b. swaggerEnabled cfg = Inr (EBool b)"
    using accepted_bool [OF validated_key [OF assms schema_keys(17)]] by (auto simp: swaggerEnabled_def env_get_def)
  show "gives_str cfg any_str smtpHost \<and> gives_str cfg any_str smtpFrom" if "mailDriver cfg = Inr (EStr ''smtp'')"
    using that validated_driver [OF assms] validated_when [OF assms schema_keys(20)] validated_when [OF assms schema_keys(22)]
    by (auto simp: gives_str_def smtpHost_def smtpFrom_def)
  show "\<forall>g \<in> set [payosClientId, payosApiKey, payosChecksumKey, payosReturnUrl, payosCancelUrl]. gives_str cfg any_str g"
    if "paymentsGateway cfg = Inr (EStr ''payos'')"
    using that validated_gateway(1) [OF assms] validated_when [OF assms schema_keys(24)] validated_when [OF assms schema_keys(25)]
      validated_when [OF assms schema_keys(26)] validated_when [OF assms schema_keys(27)] validated_when [OF assms schema_keys(28)]
    by (auto simp: gives_str_def any_str_def payosClientId_def payosApiKey_def payosChecksumKey_def payosReturnUrl_def payosCancelUrl_def)
qed

text \<open>
  Access to a validated environment never throws and always gives a value of the declared type: every
  getter that the services read unconditionally returns, as a string, a number, a boolean or a list of
  origins; the SMTP getters return whenever the mail driver is \<^verbatim>\<open>smtp\<close>, and the payOS getters whenever the
  gateway is \<^verbatim>\<open>payos\<close>.
\<close>

theorem environment_access_total:
  assumes "validateEnv lib raw = Inr cfg"
  shows "(\<forall>g \<in> set [nodeEnv, databaseUrl, jwtSecret, jwtIssuer, accessTokenTtl, refreshTokenTtl, loginLockoutDuration,
        mailDriver, paymentsGateway]. gives_str cfg any_str g) \<and>
    (\<forall>g \<in> set [port, trustProxyHops, maxLoginAttempts, rateLimitTtlSeconds, rateLimitMaxRequests, authIpLimitMax,
        authIpLimitTtlSeconds, smtpPort]. gives_num cfg (\<lambda>_. True) g) \<and>
    (\<exists>origins. corsOrigins cfg = Inr (EList origins)) \<and>
    (\<exists>b. swaggerEnabled cfg = Inr (EBool b)) \<and>
    (mailDriver cfg = Inr (EStr ''smtp'') \<longrightarrow> (gives_str cfg any_str smtpHost \<and> gives_str cfg any_str smtpFrom)) \<and>
    (paymentsGateway cfg = Inr (EStr ''payos'') \<longrightarrow> (\<forall>g \<in> set [payosClientId, payosApiKey, payosChecksumKey,
        payosReturnUrl, payosCancelUrl]. gives_str cfg any_str g))"
  using environment_access [OF assms] by blast

lemma environment_ranges:
  assumes "validateEnv lib raw = Inr cfg"
  shows "gives_str cfg (len_between 32 256) jwtSecret" and "gives_num cfg is_port port" and "gives_num cfg is_port smtpPort"
    and "gives_num cfg (\<lambda>n. 0 \<le> n \<and> n \<le> 5) trustProxyHops" and "gives_num cfg (\<lambda>n. 1 \<le> n \<and> n \<le> 20) maxLoginAttempts"
    and "\<forall>g \<in> set [rateLimitTtlSeconds, rateLimitMaxRequests, authIpLimitMax, authIpLimitTtlSeconds]. gives_num cfg (\<lambda>n. 1 \<le> n) g"
    and "\<forall>origins. corsOrigins cfg = Inr (EList origins) \<longrightarrow> (\<forall>x \<in> set origins. x \<noteq> [] \<and> (\<exists>y. x = trim y))"
    and "isProduction cfg = Inr True \<Longrightarrow> (paymentsGateway cfg = Inr (EStr ''payos'') \<or> paymentsGateway cfg = Inr (EStr ''sepay'')) \<and>
      (\<exists>k. appEncryptionKey cfg = Some (EStr k) \<and> length k = 64 \<and> list_all is_hex k) \<and>
      (\<exists>t. metricsToken cfg = Some (EStr t) \<and> 16 \<le> length t) \<and> cfg ''MAIL_LOG_FILE'' = None"
    and "paymentsGateway cfg = Inr (EStr ''simulated'') \<Longrightarrow> \<exists>x. paymentsWebhookSecret cfg = Some (EStr x) \<and> 16 \<le> length x"
proof -
  show "gives_str cfg (len_between 32 256) jwtSecret"
    using validated_required [OF assms schema_keys(5)] by (auto simp: gives_str_def jwtSecret_def)
  show "gives_num cfg is_port port" "gives_num cfg is_port smtpPort"
    using validated_num [OF assms schema_keys(2)] validated_num [OF assms schema_keys(21)]
    by (auto simp: gives_num_def port_def smtpPort_def is_port_def)
  show "gives_num cfg (\<lambda>n. 0 \<le> n \<and> n \<le> 5) trustProxyHops" "gives_num cfg (\<lambda>n. 1 \<le> n \<and> n \<le> 20) maxLoginAttempts"
    using validated_num [OF assms schema_keys(4)] validated_num [OF assms schema_keys(11)]
    by (auto simp: gives_num_def trustProxyHops_def maxLoginAttempts_def)
  show "\<forall>g \<in> set [rateLimitTtlSeconds, rateLimitMaxRequests, authIpLimitMax, authIpLimitTtlSeconds]. gives_num cfg (\<lambda>n. 1 \<le> n) g"
    using validated_num [OF assms schema_keys(13)] validated_num [OF assms schema_keys(14)] validated_num [OF assms schema_keys(15)]
      validated_num [OF assms schema_keys(16)]
    by (auto simp: gives_num_def rateLimitTtlSeconds_def rateLimitMaxRequests_def authIpLimitMax_def authIpLimitTtlSeconds_def)
  show "\<forall>origins. corsOrigins cfg = Inr (EList origins) \<longrightarrow> (\<forall>x \<in> set origins. x \<noteq> [] \<and> (\<exists>y. x = trim y))"
    using validated_origins [OF assms] origins_clean by (simp add: corsOrigins_def env_get_def)
  show "(paymentsGateway cfg = Inr (EStr ''payos'') \<or> paymentsGateway cfg = Inr (EStr ''sepay'')) \<and>
      (\<exists>k. appEncryptionKey cfg = Some (EStr k) \<and> length k = 64 \<and> list_all is_hex k) \<and>
      (\<exists>t. metricsToken cfg = Some (EStr t) \<and> 16 \<le> length t) \<and> cfg ''MAIL_LOG_FILE'' = None"
    if "isProduction cfg = Inr True"
  proof -
    have p: "in_production raw" using that validated_nodeEnv(3) [OF assms] by simp
    have "str_forbidden (raw ''MAIL_LOG_FILE'') = Some (cfg ''MAIL_LOG_FILE'')"
      using validated_key [OF assms schema_keys(23)] p by simp
    then have m: "cfg ''MAIL_LOG_FILE'' = None" by (rule accepted_str(3))
    show ?thesis using p m validated_gateway [OF assms] optional_present [OF validated_when [OF assms schema_keys(10)]]
        optional_present [OF validated_when [OF assms schema_keys(18)]]
      by (auto simp: appEncryptionKey_def metricsToken_def is_key64_def len_min_def)
  qed
  show "\<exists>x. paymentsWebhookSecret cfg = Some (EStr x) \<and> 16 \<le> length x" if "paymentsGateway cfg = Inr (EStr ''simulated'')"
    using that validated_gateway(1) [OF assms] optional_present [OF validated_when [OF assms schema_keys(30)]]
    by (auto simp: paymentsWebhookSecret_def len_min_def)
qed

text \<open>
  An environment that passes validation is within its bounds: a signing secret of 32 to 256 characters, valid
  ports, at most five trusted proxies, one to twenty sign-in attempts, positive limits, and non-empty trimmed
  origins. In production moreover the gateway is not the simulated one, the sealing key has 64
  hexadecimal digits, the metrics token has at least 16 characters and no mail is captured to a file;
  wherever the gateway is simulated its webhook secret has at least 16 characters.
\<close>

theorem environment_bounds:
  assumes "validateEnv lib raw = Inr cfg"
  shows "gives_str cfg (len_between 32 256) jwtSecret \<and>
    gives_num cfg is_port port \<and>
    gives_num cfg is_port smtpPort \<and>
    gives_num cfg (\<lambda>n. 0 \<le> n \<and> n \<le> 5) trustProxyHops \<and>
    gives_num cfg (\<lambda>n. 1 \<le> n \<and> n \<le> 20) maxLoginAttempts \<and>
    (\<forall>g \<in> set [rateLimitTtlSeconds, rateLimitMaxRequests, authIpLimitMax, authIpLimitTtlSeconds]. gives_num cfg (\<lambda>n. 1 \<le> n) g) \<and>
    (\<forall>origins. corsOrigins cfg = Inr (EList origins) \<longrightarrow> (\<forall>x \<in> set origins. x \<noteq> [] \<and> (\<exists>y. x = trim y))) \<and>
    (isProduction cfg = Inr True \<longrightarrow> ((paymentsGateway cfg = Inr (EStr ''payos'') \<or> paymentsGateway cfg = Inr (EStr ''sepay'')) \<and>
      (\<exists>k. appEncryptionKey cfg = Some (EStr k) \<and> length k = 64 \<and> list_all is_hex k) \<and>
      (\<exists>t. metricsToken cfg = Some (EStr t) \<and> 16 \<le> length t) \<and> cfg ''MAIL_LOG_FILE'' = None)) \<and>
    (paymentsGateway cfg = Inr (EStr ''simulated'') \<longrightarrow> (\<exists>x. paymentsWebhookSecret cfg = Some (EStr x) \<and> 16 \<le> length x))"
  using environment_ranges [OF assms] by blast

text \<open>A production environment with payOS and SMTP, in which the duration of the lockout is no duration.\<close>

definition joi0 :: joi_lib where
  "joi0 = \<lparr> joi_integer = (\<lambda>x. if x = ''8080'' then Some 8080 else None), joi_boolean = (\<lambda>_. None),
     joi_uri = (\<lambda>x. CHR '':'' \<in> set x), joi_details = concat \<rparr>"

definition production0 :: "string \<rightharpoonup> string" where
  "production0 = map_of [(''NODE_ENV'', ''production''), (''PORT'', ''8080''), (''DATABASE_URL'', ''pg://db''),
     (''JWT_SECRET'', replicate 32 CHR ''s''), (''APP_ENCRYPTION_KEY'', replicate 64 CHR ''a''),
     (''METRICS_TOKEN'', replicate 16 CHR ''m''), (''MAIL_DRIVER'', ''smtp''), (''SMTP_HOST'', ''mail''),
     (''SMTP_FROM'', ''a@b.c''), (''PAYMENTS_GATEWAY'', ''payos''), (''PAYOS_CLIENT_ID'', ''c''), (''PAYOS_API_KEY'', ''k''),
     (''PAYOS_CHECKSUM_KEY'', ''s''), (''PAYOS_RETURN_URL'', ''x://r''), (''PAYOS_CANCEL_URL'', ''x://c''),
     (''CORS_ALLOWED_ORIGINS'', '' x://a,, x://b ''), (''LOGIN_LOCKOUT_DURATION'', ''soon'')]"

lemma production0_valid: "\<exists>cfg. validateEnv joi0 production0 = Inr cfg"
proof -
  have "rejected joi0 production0 = []"
    by (simp add: rejected_def envSchema_def Let_def production0_def joi0_def in_production_def gateway_ref_def ref_value_def
        env_rules is_port_def is_sha_def is_key64_def any_str_def one_of_def len_between_def len_min_def is_hex_def
        list_all_iff)
  then show ?thesis by (simp add: validateEnv_def)
qed

theorem environment_access_total_witness:
  "\<exists>cfg. validateEnv joi0 production0 = Inr cfg \<and> gives_str cfg any_str smtpHost \<and> gives_str cfg any_str payosApiKey"
proof -
  obtain cfg where v: "validateEnv joi0 production0 = Inr cfg" using production0_valid ..
  have "mailDriver cfg = Inr (EStr ''smtp'')" "paymentsGateway cfg = Inr (EStr ''payos'')"
    using validated_driver [OF v] validated_gateway(1) [OF v] by (simp_all add: production0_def gateway_ref_def ref_value_def)
  then show ?thesis using v environment_access_total [OF v] by auto
qed

theorem environment_bounds_witness:
  "\<exists>cfg. validateEnv joi0 production0 = Inr cfg \<and> (\<exists>t. metricsToken cfg = Some (EStr t) \<and> 16 \<le> length t) \<and>
     cfg ''MAIL_LOG_FILE'' = None \<and> gives_num cfg is_port port"
proof -
  obtain cfg where v: "validateEnv joi0 production0 = Inr cfg" using production0_valid ..
  have "isProduction cfg = Inr True"
    using validated_nodeEnv(3) [OF v] by (simp add: in_production_def production0_def ref_value_def)
  then show ?thesis using v environment_bounds [OF v] by auto
qed

text \<open>
  The boot contract accepts a lockout duration that is no duration. With it the attempt that should lock the
  account fails with an error and leaves the account as it is, counter included, so the lock never comes.
\<close>

lemma lockout_duration_unchecked:
  "\<exists>cfg. validateEnv joi0 production0 = Inr cfg \<and> loginLockoutDuration cfg = Inr (EStr ''soon'')"
  "env_loginLockoutDuration env = ''soon'' \<Longrightarrow> usr_failedLoginAttempts u + 1 \<ge> env_maxLoginAttempts env \<Longrightarrow>
     registerFailedAttempt env u ip now s = (s, Inl (OtherError ''Invalid duration value''))"
proof -
  obtain cfg where v: "validateEnv joi0 production0 = Inr cfg" using production0_valid ..
  show "\<exists>cfg. validateEnv joi0 production0 = Inr cfg \<and> loginLockoutDuration cfg = Inr (EStr ''soon'')"
    using v validated_default [OF v schema_keys(12)]
    by (auto simp: loginLockoutDuration_def any_str_def production0_def ref_value_def)
  have "parseDurationSeconds ''soon'' = Inl (OtherError ''Invalid duration value'')"
    by code_simp
  then show "env_loginLockoutDuration env = ''soon'' \<Longrightarrow> usr_failedLoginAttempts u + 1 \<ge> env_maxLoginAttempts env \<Longrightarrow>
     registerFailedAttempt env u ip now s = (s, Inl (OtherError ''Invalid duration value''))"
    by (simp add: registerFailedAttempt_def)
qed

end
