(* ===== verification/Routes.thy ===== *)
theory Routes
  imports Http Auth_Guarantees
begin

text \<open>
  The route tables of the controllers under \<^verbatim>\<open>src\<close>, in the order in which \<^verbatim>\<open>app.module.ts\<close> loads their modules,
  and the way of a request through the global throttle, the guards of the route, the id pipe, the
  handler and the envelope or the exception filter.
\<close>

section \<open>Routes\<close>

datatype verb = GET | POST | PUT | PATCH | DEL

text \<open>
  What the decorators of a controller method say: verb and path, whether the per-address limiter and the
  bearer guard stand before it, the roles of \<^verbatim>\<open>@Roles\<close>, the path parameters that go through
  \<^verbatim>\<open>ParseUuidPipe\<close>, the status of a success and whether the envelope is skipped. The path is without the
  prefix of \<^verbatim>\<open>setGlobalPrefix\<close>.
\<close>

record route =
  rte_verb :: verb
  rte_path :: string
  rte_handler :: string
  rte_authLimit :: bool
  rte_jwt :: bool
  rte_roles :: "user_role list option"
  rte_uuids :: "string list"
  rte_status :: int
  rte_skip :: bool

definition open_route :: "verb \<Rightarrow> string \<Rightarrow> string \<Rightarrow> string list \<Rightarrow> int \<Rightarrow> route" where
  "open_route v p h ids st = \<lparr> rte_verb = v, rte_path = p, rte_handler = h, rte_authLimit = False, rte_jwt = False,
     rte_roles = None, rte_uuids = ids, rte_status = st, rte_skip = False \<rparr>"

definition raw_route :: "verb \<Rightarrow> string \<Rightarrow> string \<Rightarrow> string list \<Rightarrow> int \<Rightarrow> route" where
  "raw_route v p h ids st = (open_route v p h ids st)\<lparr>rte_skip := True\<rparr>"

definition auth_route :: "verb \<Rightarrow> string \<Rightarrow> string \<Rightarrow> string list \<Rightarrow> int \<Rightarrow> route" where
  "auth_route v p h ids st = (open_route v p h ids st)\<lparr>rte_authLimit := True\<rparr>"

definition user_route :: "verb \<Rightarrow> string \<Rightarrow> string \<Rightarrow> string list \<Rightarrow> int \<Rightarrow> route" where
  "user_route v p h ids st = (open_route v p h ids st)\<lparr>rte_jwt := True\<rparr>"

definition account_route :: "verb \<Rightarrow> string \<Rightarrow> string \<Rightarrow> string list \<Rightarrow> int \<Rightarrow> route" where
  "account_route v p h ids st = (user_route v p h ids st)\<lparr>rte_authLimit := True\<rparr>"

definition role_route :: "verb \<Rightarrow> string \<Rightarrow> string \<Rightarrow> user_role list \<Rightarrow> string list \<Rightarrow> int \<Rightarrow> route" where
  "role_route v p h rs ids st = (user_route v p h ids st)\<lparr>rte_roles := Some rs\<rparr>"

lemmas route_defs = open_route_def raw_route_def auth_route_def user_route_def account_route_def role_route_def

definition health_routes :: "route list" where
  "health_routes = [
     open_route GET ''healthz'' ''Health.getLiveness'' [] 200,
     open_route GET ''readyz'' ''Health.getReadiness'' [] 200]"

definition metrics_routes :: "route list" where
  "metrics_routes = [
     raw_route GET ''metrics'' ''Metrics.getMetrics'' [] 200]"

definition version_routes :: "route list" where
  "version_routes = [
     open_route GET ''version'' ''Version.getVersion'' [] 200]"

definition auth_routes :: "route list" where
  "auth_routes = [
     auth_route POST ''auth/register'' ''Auth.register'' [] 201,
     auth_route POST ''auth/login'' ''Auth.login'' [] 200,
     auth_route POST ''auth/refresh-token'' ''Auth.refreshToken'' [] 200,
     auth_route POST ''auth/verify-email'' ''Auth.verifyEmail'' [] 201,
     auth_route POST ''auth/resend-verification'' ''Auth.resendVerification'' [] 200,
     auth_route POST ''auth/forgot-password'' ''Auth.forgotPassword'' [] 200,
     auth_route POST ''auth/reset-password'' ''Auth.resetPassword'' [] 201,
     account_route POST ''auth/logout'' ''Auth.logout'' [] 200,
     account_route POST ''auth/logout-all'' ''Auth.logoutAll'' [] 200,
     account_route GET ''auth/sessions'' ''Auth.sessions'' [] 200,
     account_route DEL ''auth/sessions/:id'' ''Auth.revokeSession'' [''id''] 200,
     account_route GET ''auth/me'' ''Auth.me'' [] 200,
     account_route GET ''auth/me/audit-log'' ''Auth.auditLog'' [] 200,
     account_route POST ''auth/change-password'' ''Auth.changePassword'' [] 201,
     account_route POST ''auth/change-email/request'' ''Auth.requestChangeEmail'' [] 201,
     auth_route POST ''auth/change-email/confirm'' ''Auth.confirmChangeEmail'' [] 201,
     account_route POST ''auth/deactivate'' ''Auth.deactivate'' [] 200,
     account_route DEL ''auth/me'' ''Auth.deactivateViaDelete'' [] 200,
     auth_route POST ''auth/mfa/login-verify'' ''Auth.mfaLoginVerify'' [] 200,
     account_route GET ''auth/mfa/methods'' ''Auth.mfaMethods'' [] 200,
     account_route POST ''auth/mfa/totp/enable'' ''Auth.totpEnable'' [] 201,
     account_route POST ''auth/mfa/totp/verify'' ''Auth.totpVerify'' [] 201,
     account_route POST ''auth/mfa/totp/validate'' ''Auth.totpValidate'' [] 200,
     account_route POST ''auth/mfa/totp/disable'' ''Auth.totpDisable'' [] 201,
     account_route GET ''auth/mfa/totp/recovery-codes'' ''Auth.recoveryCodes'' [] 200]"

definition admin_users_routes :: "route list" where
  "admin_users_routes = [
     role_route GET ''users'' ''AdminUsers.list'' [ADMIN] [] 200,
     role_route POST ''users'' ''AdminUsers.create'' [ADMIN] [] 201,
     role_route PATCH ''users/:id'' ''AdminUsers.update'' [ADMIN] [''id''] 200,
     role_route DEL ''users/:id'' ''AdminUsers.deactivate'' [ADMIN] [''id''] 200,
     role_route GET ''admin/audit-log'' ''AdminUsers.auditLog'' [ADMIN] [] 200]"

definition billing_routes :: "route list" where
  "billing_routes = [
     role_route GET ''invoices'' ''Billing.list'' [ADMIN, STUDENT, PARENT] [] 200,
     user_route GET ''invoices/:id'' ''Billing.getById'' [''id''] 200,
     role_route POST ''invoices'' ''Billing.create'' [ADMIN] [] 201,
     role_route POST ''admin/billing/generate-monthly'' ''Billing.generateMonthly'' [ADMIN] [] 200,
     role_route GET ''admin/reports/revenue'' ''Billing.revenue'' [ADMIN] [] 200,
     role_route GET ''admin/reports/tuition'' ''Billing.tuitionReport'' [ADMIN] [] 200,
     role_route GET ''admin/billing/settings'' ''Billing.getSettings'' [ADMIN] [] 200,
     role_route PUT ''admin/billing/settings/tuition-rates'' ''Billing.updateTuitionRates'' [ADMIN] [] 200,
     role_route PUT ''admin/billing/settings/bank-account'' ''Billing.updateBankAccount'' [ADMIN] [] 200,
     role_route GET ''discounts'' ''Billing.listDiscounts'' [ADMIN] [] 200,
     role_route POST ''discounts'' ''Billing.createDiscount'' [ADMIN] [] 201,
     role_route PATCH ''discounts/:id'' ''Billing.updateDiscount'' [ADMIN] [''id''] 200,
     role_route DEL ''discounts/:id'' ''Billing.deleteDiscount'' [ADMIN] [''id''] 200]"

definition payments_routes :: "route list" where
  "payments_routes = [
     role_route POST ''payments/qr/:invoiceId'' ''Payments.createQrPayment'' [ADMIN, STUDENT, PARENT] [''invoiceId''] 201,
     open_route POST ''payments/webhook/:provider'' ''Payments.webhook'' [] 200,
     role_route POST ''payments/:invoiceId/confirm-cash'' ''Payments.confirmCash'' [ADMIN] [''invoiceId''] 200,
     role_route PATCH ''payments/:id'' ''Payments.setOutcome'' [ADMIN] [''id''] 200,
     role_route GET ''payments'' ''Payments.listForInvoice'' [ADMIN, STUDENT, PARENT] [] 200]"

definition classes_routes :: "route list" where
  "classes_routes = [
     user_route GET ''classes'' ''Classes.list'' [] 200,
     user_route GET ''classes/:id'' ''Classes.getById'' [''id''] 200,
     role_route POST ''classes'' ''Classes.create'' [ADMIN] [] 201,
     role_route PATCH ''classes/:id'' ''Classes.update'' [ADMIN] [''id''] 200,
     role_route POST ''classes/:id/schedules'' ''Classes.addSchedule'' [ADMIN] [''id''] 201,
     role_route DEL ''classes/:id/schedules/:scheduleId'' ''Classes.removeSchedule'' [ADMIN] [''id'', ''scheduleId''] 200]"

definition enrollments_routes :: "route list" where
  "enrollments_routes = [
     role_route POST ''enrollments'' ''Enrollments.create'' [ADMIN] [] 201,
     role_route GET ''enrollments'' ''Enrollments.list'' [ADMIN] [] 200,
     role_route DEL ''enrollments/:id'' ''Enrollments.remove'' [ADMIN] [''id''] 200]"

definition attendance_routes :: "route list" where
  "attendance_routes = [
     role_route POST ''attendance-sessions'' ''Attendance.createSession'' [ADMIN, INSTRUCTOR] [] 201,
     role_route POST ''attendance-sessions/:id/records'' ''Attendance.upsertRecords'' [ADMIN, INSTRUCTOR] [''id''] 200,
     role_route GET ''attendance-sessions/:id/records'' ''Attendance.listRecords'' [ADMIN, INSTRUCTOR] [''id''] 200,
     user_route GET ''students/:id/attendance'' ''Attendance.history'' [''id''] 200,
     user_route GET ''attendance/summary'' ''Attendance.summary'' [] 200,
     role_route GET ''admin/reports/attendance'' ''Attendance.monthlyReport'' [ADMIN, INSTRUCTOR] [] 200]"

definition belts_routes :: "route list" where
  "belts_routes = [
     user_route GET ''belt-ranks'' ''Belts.list'' [] 200,
     role_route POST ''belt-ranks'' ''Belts.create'' [ADMIN] [] 201,
     role_route PATCH ''belt-ranks/:id'' ''Belts.update'' [ADMIN] [] 200]"

definition belt_reports_routes :: "route list" where
  "belt_reports_routes = [
     role_route GET ''admin/reports/belts'' ''BeltReports.distribution'' [ADMIN, INSTRUCTOR] [] 200]"

definition exams_routes :: "route list" where
  "exams_routes = [
     user_route GET ''belt-exams'' ''Exams.list'' [] 200,
     user_route GET ''belt-exams/:id'' ''Exams.getById'' [''id''] 200,
     role_route POST ''belt-exams'' ''Exams.create'' [ADMIN] [] 201,
     role_route PATCH ''belt-exams/:id'' ''Exams.update'' [ADMIN] [''id''] 200,
     role_route POST ''belt-exams/:id/register'' ''Exams.register'' [STUDENT, PARENT] [''id''] 201,
     user_route GET ''exam-registrations'' ''Exams.listStudentRegistrations'' [] 200,
     role_route POST ''exam-registrations/:id/result'' ''Exams.recordResult'' [ADMIN, INSTRUCTOR] [''id''] 200]"

definition students_routes :: "route list" where
  "students_routes = [
     role_route GET ''students/me'' ''Students.me'' [STUDENT] [] 200,
     role_route PATCH ''students/me'' ''Students.updateOwn'' [STUDENT] [] 200,
     role_route GET ''students'' ''Students.list'' [ADMIN, INSTRUCTOR] [] 200,
     role_route POST ''students'' ''Students.create'' [ADMIN] [] 201,
     user_route GET ''students/:id'' ''Students.getById'' [''id''] 200,
     role_route PATCH ''students/:id'' ''Students.update'' [ADMIN] [''id''] 200,
     role_route DEL ''students/:id'' ''Students.softDelete'' [ADMIN] [''id''] 200,
     role_route POST ''students/:id/invite-code'' ''Students.regenerateInviteCode'' [ADMIN] [''id''] 200]"

definition parents_routes :: "route list" where
  "parents_routes = [
     role_route POST ''parents/link'' ''Parents.linkChild'' [PARENT] [] 201,
     role_route GET ''parents/me/children'' ''Parents.myChildren'' [PARENT] [] 200,
     role_route DEL ''parents/links/:studentId'' ''Parents.unlink'' [PARENT] [''studentId''] 200]"

definition notifications_routes :: "route list" where
  "notifications_routes = [
     user_route GET ''notifications/me'' ''Notifications.feed'' [] 200,
     role_route POST ''admin/notifications/flush'' ''Notifications.flush'' [ADMIN] [] 200,
     user_route PATCH ''notifications/:id/read'' ''Notifications.markRead'' [''id''] 200]"

definition consent_routes :: "route list" where
  "consent_routes = [
     user_route POST ''consent'' ''Consent.grant'' [] 201,
     user_route POST ''consent/revoke'' ''Consent.revoke'' [] 200,
     user_route GET ''consent/me'' ''Consent.history'' [] 200]"

definition announcements_routes :: "route list" where
  "announcements_routes = [
     user_route GET ''announcements'' ''Announcements.list'' [] 200,
     role_route POST ''announcements'' ''Announcements.create'' [ADMIN, INSTRUCTOR] [] 201,
     role_route PATCH ''announcements/:id'' ''Announcements.update'' [ADMIN, INSTRUCTOR] [''id''] 200,
     role_route DEL ''announcements/:id'' ''Announcements.remove'' [ADMIN, INSTRUCTOR] [''id''] 200]"

definition leaves_routes :: "route list" where
  "leaves_routes = [
     role_route POST ''leave-requests'' ''Leaves.create'' [ADMIN, STUDENT, PARENT] [] 201,
     role_route GET ''leave-requests'' ''Leaves.list'' [ADMIN, INSTRUCTOR, STUDENT, PARENT] [] 200,
     role_route POST ''leave-requests/:id/review'' ''Leaves.review'' [ADMIN, INSTRUCTOR] [''id''] 200,
     role_route POST ''leave-requests/:id/cancel'' ''Leaves.cancel'' [ADMIN, STUDENT, PARENT] [''id''] 200,
     role_route DEL ''leave-requests/:id'' ''Leaves.delete'' [ADMIN] [''id''] 200]"

definition promotions_routes :: "route list" where
  "promotions_routes = [
     role_route POST ''promotion-proposals'' ''Promotions.create'' [ADMIN, INSTRUCTOR] [] 201,
     role_route GET ''promotion-proposals'' ''Promotions.list'' [ADMIN, INSTRUCTOR, STUDENT, PARENT] [] 200,
     role_route PATCH ''promotion-proposals/:id'' ''Promotions.updateNote'' [ADMIN, INSTRUCTOR] [''id''] 200,
     role_route POST ''promotion-proposals/:id/review'' ''Promotions.review'' [ADMIN] [''id''] 200]"

definition evaluations_routes :: "route list" where
  "evaluations_routes = [
     role_route POST ''evaluations'' ''Evaluations.create'' [ADMIN, INSTRUCTOR] [] 201,
     user_route GET ''evaluations'' ''Evaluations.listForStudent'' [] 200,
     role_route PATCH ''evaluations/:id'' ''Evaluations.update'' [ADMIN, INSTRUCTOR] [''id''] 200,
     role_route DEL ''evaluations/:id'' ''Evaluations.delete'' [ADMIN, INSTRUCTOR] [''id''] 200]"

definition api_routes :: "route list" where
  "api_routes = health_routes @ metrics_routes @ version_routes @ auth_routes @ admin_users_routes @ billing_routes @ payments_routes
     @ classes_routes @ enrollments_routes @ attendance_routes
     @ belts_routes @ belt_reports_routes @ exams_routes
     @ students_routes @ parents_routes @ notifications_routes @ consent_routes
     @ announcements_routes @ leaves_routes @ promotions_routes @ evaluations_routes"

lemmas route_tables = health_routes_def metrics_routes_def version_routes_def auth_routes_def admin_users_routes_def billing_routes_def payments_routes_def
  classes_routes_def enrollments_routes_def attendance_routes_def belts_routes_def belt_reports_routes_def exams_routes_def
  students_routes_def parents_routes_def notifications_routes_def consent_routes_def announcements_routes_def leaves_routes_def promotions_routes_def evaluations_routes_def

text \<open>The prefix of \<^verbatim>\<open>setGlobalPrefix\<close> and its exclusions, \<^verbatim>\<open>src/bootstrap.ts\<close>.\<close>

definition full_path :: "route \<Rightarrow> string" where
  "full_path r = (if rte_verb r = GET \<and> rte_path r \<in> set [''healthz'', ''readyz'', ''version'', ''metrics'']
     then CHR ''/'' # rte_path r else ''/api/v1/'' @ rte_path r)"

section \<open>Serving a request\<close>

record http_request =
  rqs_ip :: "string option"
  rqs_authorization :: "string option"
  rqs_params :: "string \<Rightarrow> string"
  rqs_id :: string
  rqs_url :: string

text \<open>
  What is outside: the throttler of \<^verbatim>\<open>@nestjs/throttler\<close>, which answers the message of its exception when the
  tracker is over the limit; \<^verbatim>\<open>isUUID\<close> of class-validator; and the controller methods, which decode and
  validate their body and query and call the services.
\<close>

record api =
  api_throttler :: "string \<Rightarrow> instant \<Rightarrow> string option"
  api_isUUID :: "string \<Rightarrow> bool"
  api_handle :: "string \<Rightarrow> caller option \<Rightarrow> http_request \<Rightarrow> instant \<Rightarrow> (app, json option) handler"

definition global_throttle :: "api \<Rightarrow> http_request \<Rightarrow> instant \<Rightarrow> (app, bool) handler" where
  "global_throttle a rq now = liftE (case api_throttler a (trackerFromRequest (rqs_ip rq)) now of
       Some m \<Rightarrow> Inl (TooManyRequests m) | None \<Rightarrow> Inr True)"

definition bearer :: "auth_env \<Rightarrow> route \<Rightarrow> http_request \<Rightarrow> instant \<Rightarrow> (app, caller option) handler" where
  "bearer env r rq now = (if rte_jwt r then bindE (jwt_guard env (rqs_authorization rq) now) (\<lambda>c. returnE (Some c))
     else returnE None)"

fun parse_ids :: "(string \<Rightarrow> bool) \<Rightarrow> (string \<Rightarrow> string) \<Rightarrow> string list \<Rightarrow> unit res" where
  "parse_ids isUUID params [] = Inr ()"
| "parse_ids isUUID params (p # ps) = (case parseUuid isUUID (params p) of
       Inl e \<Rightarrow> Inl e | Inr _ \<Rightarrow> parse_ids isUUID params ps)"

text \<open>Everything before the handler, in the order of the framework: global guard, controller guards, method guards, pipes.\<close>

definition admit :: "api \<Rightarrow> auth_env \<Rightarrow> route \<Rightarrow> http_request \<Rightarrow> instant \<Rightarrow> (app, caller option) handler" where
  "admit a env r rq now =
     bindE (global_throttle a rq now) (\<lambda>_.
     bindE (if rte_authLimit r then auth_ip_throttle env (rqs_ip rq) now else returnE True) (\<lambda>_.
     bindE (bearer env r rq now) (\<lambda>cal.
     bindE (\<lambda>s. (s, roles_guard (rte_roles r) cal s)) (\<lambda>_.
     bindE (liftE (parse_ids (api_isUUID a) (rqs_params rq) (rte_uuids r))) (\<lambda>_.
     returnE cal)))))"

definition respond :: "route \<Rightarrow> http_request \<Rightarrow> app \<times> json option res \<Rightarrow> app \<times> api_response" where
  "respond r rq res = (case res of
       (s, Inl e) \<Rightarrow> (s, snd (catch_exception (rqs_id rq) (rqs_url rq) (thrown_of e)))
     | (s, Inr d) \<Rightarrow> (s, \<lparr> rsp_status = rte_status r, rsp_body = intercept_response (rte_skip r) (rte_status r) d \<rparr>))"

definition serve :: "api \<Rightarrow> auth_env \<Rightarrow> route \<Rightarrow> http_request \<Rightarrow> instant \<Rightarrow> app \<Rightarrow> app \<times> api_response" where
  "serve a env r rq now s =
     respond r rq (bindE (admit a env r rq now) (\<lambda>cal. api_handle a (rte_handler r) cal rq now) s)"

section \<open>The gate\<close>

definition live_caller :: "instant \<Rightarrow> app \<Rightarrow> caller \<Rightarrow> bool" where
  "live_caller now s c \<longleftrightarrow> (\<exists>u. find_user (cal_id c) (users s) = Some u \<and> usr_deletedAt u = None \<and> usr_isActive u \<and>
     cal_role c = usr_role u) \<and> session_admitted (cal_sessionId c) now (sessions s)"

lemma jwt_guard_sound:
  assumes "jwt_guard env h now s = (s', res)"
  shows "same_db s' s" and "case res of Inl e \<Rightarrow> e = unauthorized | Inr c \<Rightarrow> live_caller now s c"
proof -
  have t: "users (snd (app_get now k s)) = users s" "sessions (snd (app_get now k s)) = sessions s" for k
    by (simp_all add: same_db_tables [OF app_store_same_db(1)])
  have i: "find_user (usr_id u) us = Some u" if "find_user i us = Some u" for i us u
    using that find_Some_iff unfolding find_user_def by fastforce
  show "same_db s' s" using assms by (auto simp: jwt_guard_def Let_def split_beta split: option.splits sum.splits if_splits)
  show "case res of Inl e \<Rightarrow> e = unauthorized | Inr c \<Rightarrow> live_caller now s c" using assms
    by (auto simp: jwt_guard_def Let_def split_beta t user_admitted_def live_caller_def
        split: option.splits sum.splits if_splits) (use i in blast)
qed

text \<open>
  A step before the handler leaves the tables as they are, and refuses with 400, 401, 403 or 429 or gives a
  value with the given property.
\<close>

definition refusal :: "exn \<Rightarrow> bool" where
  "refusal e = (case e of BadRequest _ \<Rightarrow> True | Unauthorized _ \<Rightarrow> True | Forbidden _ \<Rightarrow> True
     | TooManyRequests _ \<Rightarrow> True | _ \<Rightarrow> False)"

definition gate :: "app \<Rightarrow> (app, 'a) handler \<Rightarrow> ('a \<Rightarrow> bool) \<Rightarrow> bool" where
  "gate s0 m P \<longleftrightarrow> (\<forall>s. same_db s s0 \<longrightarrow> (case m s of (s', res) \<Rightarrow> same_db s' s0 \<and>
     (case res of Inl e \<Rightarrow> refusal e | Inr v \<Rightarrow> P v)))"

lemma gate_bind:
  assumes "gate s0 m P" and "\<And>v. P v \<Longrightarrow> gate s0 (f v) Q"
  shows "gate s0 (bindE m f) Q"
  unfolding gate_def
proof (intro allI impI)
  fix s assume s: "same_db s s0"
  obtain s1 res where m: "m s = (s1, res)" by (cases "m s") auto
  have r: "same_db s1 s0" "case res of Inl e \<Rightarrow> refusal e | Inr v \<Rightarrow> P v"
    using assms(1) s m unfolding gate_def by fastforce+
  show "case bindE m f s of (s', res) \<Rightarrow> same_db s' s0 \<and> (case res of Inl e \<Rightarrow> refusal e | Inr v \<Rightarrow> Q v)"
  proof (cases res)
    case (Inr v)
    then have "gate s0 (f v) Q" using r(2) assms(2) by simp
    then show ?thesis using r(1) Inr m by (simp add: gate_def)
  qed (use r m in simp)
qed

lemma gate_return: "P v \<Longrightarrow> gate s0 (returnE v) P"
  by (simp add: gate_def returnE_def)

lemma gate_run:
  "gate s m P \<Longrightarrow> m s = (s1, res) \<Longrightarrow> same_db s1 s"
  "gate s m P \<Longrightarrow> m s = (s1, Inl e) \<Longrightarrow> refusal e"
  "gate s m P \<Longrightarrow> m s = (s1, Inr v) \<Longrightarrow> P v"
  unfolding gate_def by (force dest: spec [of _ s])+

lemma gate_throttles:
  "gate s0 (global_throttle a rq now) (\<lambda>_. True)" "gate s0 (auth_ip_throttle env ip now) (\<lambda>_. True)"
proof -
  have "same_db (snd (app_increment now k ttl s)) s0" if "same_db s s0" for k ttl s
    using same_db_trans [OF app_store_same_db(4) that] .
  then show "gate s0 (auth_ip_throttle env ip now) (\<lambda>_. True)"
    by (auto simp: gate_def auth_ip_throttle_def Let_def split_beta refusal_def)
qed (simp add: gate_def global_throttle_def liftE_def refusal_def split: option.splits)

lemma live_caller_same_db: "same_db s s0 \<Longrightarrow> live_caller now s c = live_caller now s0 c"
  by (simp add: live_caller_def same_db_tables)

lemma gate_bearer:
  "gate s0 (bearer env r rq now) (\<lambda>cal. (rte_jwt r \<longrightarrow> cal \<noteq> None) \<and> (\<forall>c. cal = Some c \<longrightarrow> rte_jwt r \<and> live_caller now s0 c))"
proof -
  have g: "gate s0 (jwt_guard env h now) (live_caller now s0)" for h
    unfolding gate_def
  proof (intro allI impI)
    fix s assume s: "same_db s s0"
    obtain s' res where r: "jwt_guard env h now s = (s', res)" by (cases "jwt_guard env h now s") auto
    show "case jwt_guard env h now s of (s', res) \<Rightarrow> same_db s' s0 \<and>
        (case res of Inl e \<Rightarrow> refusal e | Inr v \<Rightarrow> live_caller now s0 v)"
      using same_db_trans [OF jwt_guard_sound(1) [OF r] s] jwt_guard_sound(2) [OF r] r live_caller_same_db [OF s]
      by (auto simp: refusal_def unauthorized_def split: sum.splits)
  qed
  show ?thesis unfolding bearer_def by (auto intro!: gate_bind [OF g] gate_return)
qed

text \<open>What \<^verbatim>\<open>RolesGuard\<close> lets through.\<close>

definition role_admitted :: "user_role list option \<Rightarrow> app \<Rightarrow> caller \<Rightarrow> bool" where
  "role_admitted roles s c = (case roles of None \<Rightarrow> True | Some rs \<Rightarrow> rs = [] \<or>
     cal_role c \<in> set rs \<and> (cal_role c = ADMIN \<longrightarrow> has_totp (cal_id c) s \<noteq> None))"

lemma gate_roles:
  "gate s0 (\<lambda>s. (s, roles_guard roles cal s)) (\<lambda>_. case cal of None \<Rightarrow> roles = None \<or> roles = Some []
     | Some c \<Rightarrow> role_admitted roles s0 c)"
  unfolding gate_def
proof (intro allI impI)
  fix s assume "same_db s s0"
  then have t: "has_totp i s = has_totp i s0" for i by (simp add: has_totp_def same_db_tables)
  show "case (s, roles_guard roles cal s) of (s', res) \<Rightarrow> same_db s' s0 \<and> (case res of Inl e \<Rightarrow> refusal e
      | Inr v \<Rightarrow> (case cal of None \<Rightarrow> roles = None \<or> roles = Some [] | Some c \<Rightarrow> role_admitted roles s0 c))"
    using \<open>same_db s s0\<close>
    by (simp add: roles_guard_def role_admitted_def refusal_def unauthorized_def t split: option.splits) auto
qed

lemma parse_ids_sound:
  "case parse_ids isUUID params ps of Inl e \<Rightarrow> refusal e | Inr _ \<Rightarrow> (\<forall>p \<in> set ps. isUUID (params p))"
  by (induction ps) (simp_all add: parseUuid_def refusal_def split: sum.splits)

lemma gate_ids: "gate s0 (liftE (parse_ids isUUID params ps)) (\<lambda>_. \<forall>p \<in> set ps. isUUID (params p))"
  using parse_ids_sound [of ps isUUID params] by (simp add: gate_def liftE_def)

lemma gate_admit:
  "gate s0 (admit a env r rq now) (\<lambda>cal. (rte_jwt r \<longleftrightarrow> cal \<noteq> None) \<and> (cal = None \<longrightarrow> rte_roles r = None \<or> rte_roles r = Some []) \<and>
     (\<forall>c. cal = Some c \<longrightarrow> live_caller now s0 c \<and> role_admitted (rte_roles r) s0 c) \<and>
     (\<forall>p \<in> set (rte_uuids r). api_isUUID a (rqs_params rq p)))"
proof -
  have t: "gate s0 (if rte_authLimit r then auth_ip_throttle env (rqs_ip rq) now else returnE True) (\<lambda>_. True)"
    by (simp add: gate_throttles gate_return)
  show ?thesis unfolding admit_def
    by (rule gate_bind [OF gate_throttles(1)], rule gate_bind [OF t], rule gate_bind [OF gate_bearer],
        rule gate_bind [OF gate_roles], rule gate_bind [OF gate_ids], rule gate_return) (auto split: option.splits)
qed

section \<open>Admission\<close>

text \<open>The routes that answer without a bearer token.\<close>

definition public_surface :: "(verb \<times> string) list" where
  "public_surface = [(GET, ''/healthz''), (GET, ''/readyz''), (GET, ''/metrics''), (GET, ''/version''),
     (POST, ''/api/v1/auth/register''), (POST, ''/api/v1/auth/login''), (POST, ''/api/v1/auth/refresh-token''),
     (POST, ''/api/v1/auth/verify-email''), (POST, ''/api/v1/auth/resend-verification''),
     (POST, ''/api/v1/auth/forgot-password''), (POST, ''/api/v1/auth/reset-password''),
     (POST, ''/api/v1/auth/change-email/confirm''), (POST, ''/api/v1/auth/mfa/login-verify''),
     (POST, ''/api/v1/payments/webhook/:provider'')]"

lemma public_routes_exact:
  "map (\<lambda>r. (rte_verb r, full_path r)) (filter (\<lambda>r. \<not> rte_jwt r) api_routes) = public_surface"
  by (simp add: api_routes_def route_tables route_defs full_path_def public_surface_def)

lemma roles_nonempty: "r \<in> set api_routes \<Longrightarrow> rte_roles r \<noteq> Some []"
proof -
  have "list_all (\<lambda>r. rte_roles r \<noteq> Some []) api_routes"
    by (simp add: api_routes_def route_tables route_defs)
  then show "r \<in> set api_routes \<Longrightarrow> rte_roles r \<noteq> Some []" by (simp add: list_all_iff)
qed

lemma refusal_status: "refusal e \<longleftrightarrow> exn_status e \<in> {400, 401, 403, 429}"
  by (cases e) (simp_all add: refusal_def exn_status_def)

lemma admission_cases:
  assumes "r \<in> set api_routes"
  shows "(\<exists>s' e. serve a env r rq now s = (s', error_response (exn_status e) (exn_message e)) \<and>
       exn_status e \<in> {400, 401, 403, 429} \<and> same_db s' s) \<or>
     (\<exists>s1 cal. serve a env r rq now s = respond r rq (api_handle a (rte_handler r) cal rq now s1) \<and> same_db s1 s \<and>
       (\<forall>p \<in> set (rte_uuids r). api_isUUID a (rqs_params rq p)) \<and>
       (case cal of None \<Rightarrow> (rte_verb r, full_path r) \<in> set public_surface
        | Some c \<Rightarrow> live_caller now s c \<and> (\<forall>rs. rte_roles r = Some rs \<longrightarrow>
            cal_role c \<in> set rs \<and> (cal_role c = ADMIN \<longrightarrow> has_totp (cal_id c) s \<noteq> None))))"
proof -
  obtain s1 res where m: "admit a env r rq now s = (s1, res)" by (cases "admit a env r rq now s") auto
  note g = gate_run [OF gate_admit [of s a env r rq now]]
  show ?thesis
  proof (cases res)
    case (Inl e)
    then have "serve a env r rq now s = (s1, error_response (exn_status e) (exn_message e))"
      using m by (simp add: serve_def respond_def catch_exn)
    then show ?thesis using g(1) [OF m] g(2) m Inl refusal_status by auto
  next
    case (Inr cal)
    have v: "serve a env r rq now s = respond r rq (api_handle a (rte_handler r) cal rq now s1)"
      using m Inr by (simp add: serve_def)
    have pub: "(rte_verb r, full_path r) \<in> set public_surface" if "\<not> rte_jwt r"
      using that assms unfolding public_routes_exact [symmetric] by auto
    show ?thesis using v g(1) [OF m] g(3) [OF m [unfolded Inr]] pub roles_nonempty [OF assms]
      by (intro disjI2 exI [of _ s1] exI [of _ cal]) (auto simp: role_admitted_def split: option.splits)
  qed
qed

text \<open>
  C11: A request to a route of the API is either refused with 400, 401, 403 or 429 in the uniform envelope, with every
  table unchanged and without running the handler; or the handler runs on the unchanged tables and its
  result is the response. On a route outside the public surface, which is listed exactly, the handler then
  runs for a caller whose account is active and not deleted and whose session is neither revoked nor
  expired, with the role the account has now; where the route names roles that role is one of them and an
  administrator has a TOTP credential; and every path parameter declared an id is one.
\<close>

theorem request_admission:
  assumes "r \<in> set api_routes"
  shows "(\<exists>s' e. serve a env r rq now s = (s', error_response (exn_status e) (exn_message e)) \<and>
       exn_status e \<in> {400, 401, 403, 429} \<and> same_db s' s) \<or>
     (\<exists>s1 cal. serve a env r rq now s = respond r rq (api_handle a (rte_handler r) cal rq now s1) \<and> same_db s1 s \<and>
       (\<forall>p \<in> set (rte_uuids r). api_isUUID a (rqs_params rq p)) \<and>
       (case cal of None \<Rightarrow> (rte_verb r, full_path r) \<in> set public_surface
        | Some c \<Rightarrow> live_caller now s c \<and> (\<forall>rs. rte_roles r = Some rs \<longrightarrow>
            cal_role c \<in> set rs \<and> (cal_role c = ADMIN \<longrightarrow> has_totp (cal_id c) s \<noteq> None))))"
  using assms by (rule admission_cases)


text \<open>A student asks for the list of accounts.\<close>

definition api0 :: api where
  "api0 = \<lparr> api_throttler = (\<lambda>_ _. None), api_isUUID = (\<lambda>_. True), api_handle = (\<lambda>h cal rq now. returnE (Some (JStr h))) \<rparr>"

definition rq0 :: http_request where
  "rq0 = \<lparr> rqs_ip = Some ''10.0.0.1'', rqs_authorization = Some (''Bearer '' @ ''T''), rqs_params = (\<lambda>_. ''x''),
     rqs_id = ''i'', rqs_url = ''/api/v1/users'' \<rparr>"

lemma signed_in_student: "live_caller now signed_in c \<Longrightarrow> cal_role c = STUDENT"
  by (auto simp: live_caller_def signed_in_def find_user_def user0_def new_user_def split: if_splits)

theorem request_admission_witness:
  "\<exists>s' e. serve api0 (env0 access0) (role_route GET ''users'' ''AdminUsers.list'' [ADMIN] [] 200) rq0 2000 signed_in
     = (s', error_response (exn_status e) (exn_message e)) \<and> exn_status e \<in> {400, 401, 403, 429} \<and> same_db s' signed_in"
proof -
  let ?r = "role_route GET ''users'' ''AdminUsers.list'' [ADMIN] [] 200"
  have "?r \<in> set api_routes" by (simp add: api_routes_def admin_users_routes_def)
  from request_admission [OF this, of api0 "env0 access0" rq0 2000 signed_in] show ?thesis
  proof (elim disjE exE conjE)
    fix s1 cal
    assume c: "case cal of None \<Rightarrow> (rte_verb ?r, full_path ?r) \<in> set public_surface
      | Some c \<Rightarrow> live_caller 2000 signed_in c \<and> (\<forall>rs. rte_roles ?r = Some rs \<longrightarrow>
          cal_role c \<in> set rs \<and> (cal_role c = ADMIN \<longrightarrow> has_totp (cal_id c) signed_in \<noteq> None))"
    have "(rte_verb ?r, full_path ?r) \<notin> set public_surface"
      by (simp add: route_defs full_path_def public_surface_def)
    then show ?thesis using c signed_in_student by (cases cal) (auto simp: route_defs)
  qed blast
qed

text \<open>
  A route that names no roles admits an administrator who has no TOTP credential, for the invoices of the
  club and the records of its students as much as for the account's own enrolment.
\<close>

definition admin_signed_in :: app where
  "admin_signed_in = signed_in\<lparr>users := [user0\<lparr>usr_role := ADMIN\<rparr>]\<rparr>"

lemma admin_without_totp_reads_invoices:
  "user_route GET ''invoices/:id'' ''Billing.getById'' [''id''] 200 \<in> set api_routes"
  "has_totp ''u'' admin_signed_in = None"
  "\<exists>s'. serve api0 (env0 access0) (user_route GET ''invoices/:id'' ''Billing.getById'' [''id''] 200) rq0 2000 admin_signed_in
     = (s', \<lparr> rsp_status = 200, rsp_body = Some (envelope (JStr ''Billing.getById'') 200 ''OK'') \<rparr>)"
proof -
  show "user_route GET ''invoices/:id'' ''Billing.getById'' [''id''] 200 \<in> set api_routes"
    by (simp add: api_routes_def billing_routes_def)
  show "has_totp ''u'' admin_signed_in = None"
    by (simp add: has_totp_def admin_signed_in_def signed_in_def empty_app_def)
  have "\<exists>s1. jwt_guard (env0 access0) (Some (''Bearer '' @ ''T'')) 2000 admin_signed_in
      = (s1, Inr \<lparr> cal_id = ''u'', cal_role = ADMIN, cal_sessionId = ''sid'', cal_jti = ''j'' \<rparr>)"
    using verify0 [of 2000] claims0_facts
    by (simp add: jwt_guard_def startsWith_def admin_signed_in_def signed_in_def empty_app_def Let_def app_get_def store_get_def getEntry_def
        user_admitted_def find_user_def user0_def new_user_def session_admitted_def session0_def)
  then show "\<exists>s'. serve api0 (env0 access0) (user_route GET ''invoices/:id'' ''Billing.getById'' [''id''] 200) rq0 2000 admin_signed_in
     = (s', \<lparr> rsp_status = 200, rsp_body = Some (envelope (JStr ''Billing.getById'') 200 ''OK'') \<rparr>)"
    by (auto simp: serve_def admit_def global_throttle_def bearer_def api0_def rq0_def route_defs roles_guard_def liftE_def
        returnE_def parseUuid_def respond_def intercept_response_def default_message_def DEFAULT_STATUS_MESSAGES_def bindE_def)
qed

end
