(* ===== verification/Money_Api.thy ===== *)
theory Money_Api
  imports Routes Webhook
begin

text \<open>
  The payments controller of \<^verbatim>\<open>src/billing/billing.controller.ts\<close> over the payment service, served through the
  guards: who can move money over HTTP.
\<close>

section \<open>The controller\<close>

text \<open>
  What reaches the methods besides the path: headers and raw body of a webhook, the decoded body and query, the
  random bytes of an order reference, what the first reads of the service returned, and the printing
  of the results.
\<close>

record money_wire =
  wir_headers :: headers
  wir_rawBody :: "string option"
  wir_note :: "string option"
  wir_outcome :: outcome
  wir_query :: uuid
  wir_bytes :: "nat list"
  wir_invoices :: "invoice list"
  wir_payments :: "payment list"
  wir_payment :: "payment_view \<Rightarrow> json"
  wir_qr :: "qr_view \<Rightarrow> json"
  wir_hook :: "webhook_result \<Rightarrow> json"
  wir_list :: "payment_view list \<times> nat \<Rightarrow> json"

definition printed :: "('a \<Rightarrow> json) \<Rightarrow> (app, 'a) handler \<Rightarrow> (app, json option) handler" where
  "printed f m = bindE m (\<lambda>v. returnE (Some (f v)))"

definition webhook_body :: "money_wire \<Rightarrow> string" where
  "webhook_body w = (case wir_rawBody w of Some b \<Rightarrow> b | None \<Rightarrow> [])"

definition payments_controller ::
  "gateway_port \<Rightarrow> money_wire \<Rightarrow> string \<Rightarrow> caller option \<Rightarrow> http_request \<Rightarrow> instant \<Rightarrow> (app, json option) handler" where
  "payments_controller gw w h cal rq now =
     (if h = ''Payments.webhook''
      then printed (wir_hook w) (handleWebhook gw (wir_payments w) (rqs_params rq ''provider'') (wir_headers w) (webhook_body w) now)
      else case cal of
        None \<Rightarrow> throwE (OtherError ''Cannot read properties of undefined'')
      | Some c \<Rightarrow>
          if h = ''Payments.createQrPayment''
          then printed (wir_qr w) (createQrPayment gw (wir_invoices w) c (rqs_params rq ''invoiceId'') (wir_bytes w) now)
          else if h = ''Payments.confirmCash''
          then printed (wir_payment w) (confirmCash (wir_invoices w) c (rqs_params rq ''invoiceId'') (wir_note w) (wir_bytes w) now)
          else if h = ''Payments.setOutcome''
          then printed (wir_payment w) (setOutcome c (rqs_params rq ''id'') (wir_outcome w) (wir_note w))
          else printed (wir_list w) (\<lambda>s. (s, listForInvoice c (wir_query w) s)))"

section \<open>Requests that move no money\<close>

definition same_money :: "app \<Rightarrow> app \<Rightarrow> bool" where
  "same_money s' s \<longleftrightarrow> invoices s' = invoices s \<and> (\<forall>i. settled (payments s') i = settled (payments s) i)"

lemma same_money_db: "same_db s' s \<Longrightarrow> same_money s' s"
  by (simp add: same_money_def same_db_tables)

lemma same_money_trans: "same_money s2 s1 \<Longrightarrow> same_money s1 s \<Longrightarrow> same_money s2 s"
  by (simp add: same_money_def)

lemma printed_state: "fst (printed f m s) = fst (m s)"
  by (auto simp: printed_def bindE_def returnE_def split: prod.splits sum.splits)

lemma settled_supersede:
  "settled (update_rows (\<lambda>p. pay_invoiceId p = i \<and> pay_status p = PENDING) (supersede now) t) j = settled t j"
  by (induction t) (simp_all add: settled_def update_rows_def update_many_def supersede_def)

lemma qr_same_money: "same_money (fst (createQrPayment gw view c i bytes now s)) s"
proof -
  have tx: "same_money t s" if t: "transaction (qr_tx gw i ref amount ex now) s = (t, r)" for ref amount ex t r
  proof (cases r)
    case (Inl e)
    then show ?thesis using t transaction_Inl same_money_db by blast
  next
    case (Inr p)
    then have q: "qr_tx gw i ref amount ex now s = (t, Inr p)" using t by (simp add: transaction_Inr)
    let ?s = "s\<lparr>payments := update_rows (\<lambda>p. pay_invoiceId p = i \<and> pay_status p = PENDING) (supersede now) (payments s)\<rparr>"
    have "create_payment (qr_row i ref (gatewayForProvider (gwp_provider gw)) amount ex now) ?s = (t, Inr p)"
      using q by (auto simp: qr_tx_def split: option.splits if_splits)
    from create_payment_Inr [OF this] show ?thesis
      by (auto simp: same_money_def settled_snoc worth_def qr_row_def settled_supersede)
  qed
  have a: "same_money (record_audit u ev ip ok d t) s" if "same_money t s" for u ev ip ok d t
    using same_money_trans [OF same_money_db [OF record_audit_same_db] that] .
  show ?thesis
    by (auto simp: createQrPayment_def Let_def bindE_def same_money_db split: option.splits sum.splits prod.splits dest: tx intro: a)
qed

lemma unsigned_webhook_noop:
  assumes "\<not> (gwp_verifySignature gw hs body \<and> provider = gwp_provider gw)"
  shows "fst (handleWebhook gw view provider hs body now s) = s"
  using assms by (auto simp: handleWebhook_def)

lemma controller_money:
  assumes "\<not> same_money (fst (payments_controller gw w h cal rq now s)) s"
  shows "h = ''Payments.webhook'' \<and> rqs_params rq ''provider'' = gwp_provider gw \<and>
       gwp_verifySignature gw (wir_headers w) (webhook_body w) \<or>
     h \<in> {''Payments.confirmCash'', ''Payments.setOutcome''} \<and> cal \<noteq> None"
proof (cases "h = ''Payments.webhook''")
  case True
  then have "\<not> same_money (fst (handleWebhook gw (wir_payments w) (rqs_params rq ''provider'') (wir_headers w) (webhook_body w) now s)) s"
    using assms by (simp add: payments_controller_def printed_state)
  then show ?thesis using True unsigned_webhook_noop same_money_db [OF same_db_refl] by metis
next
  case False
  have refl: "same_money s s" by (rule same_money_db) simp
  obtain c where c: "cal = Some c"
    using assms False refl by (cases cal) (simp_all add: payments_controller_def throwE_def)
  have "h \<in> {''Payments.confirmCash'', ''Payments.setOutcome''}"
  proof (rule ccontr)
    assume n: "h \<notin> {''Payments.confirmCash'', ''Payments.setOutcome''}"
    have "same_money (fst (payments_controller gw w h cal rq now s)) s"
    proof (cases "h = ''Payments.createQrPayment''")
      case True
      then show ?thesis using qr_same_money c by (simp add: payments_controller_def printed_state)
    next
      case q: False
      then show ?thesis using n False c refl by (simp add: payments_controller_def printed_state)
    qed
    then show False using assms by contradiction
  qed
  then show ?thesis using c by simp
qed

lemma respond_state: "fst (respond r rq res) = fst res"
  by (auto simp: respond_def split: prod.splits sum.splits)

section \<open>Who moves money\<close>

lemma payments_in_api: "r \<in> set payments_routes \<Longrightarrow> r \<in> set api_routes"
  by (simp add: api_routes_def)

lemma payments_route_cases:
  assumes "r \<in> set payments_routes"
  shows "rte_handler r \<in> {''Payments.createQrPayment'', ''Payments.webhook'', ''Payments.listForInvoice''} \<or>
    rte_handler r \<in> {''Payments.confirmCash'', ''Payments.setOutcome''} \<and> rte_roles r = Some [ADMIN]"
  using assms by (auto simp: payments_routes_def route_defs)

text \<open>
  C12: Over the payments routes the money state, that is the invoices and the settled amount of every invoice, changes only
  for a webhook of the configured provider whose signature the gateway verifies, or for a caller with
  a live account, the role ADMIN and a TOTP credential. Every other request, in particular every QR
  request, every unauthenticated one and every one of another role, leaves it as it is.
\<close>

theorem money_moves_authenticated:
  assumes "r \<in> set payments_routes" and "api_handle a = payments_controller gw w"
    and "serve a env r rq now s = (s', resp)" and "\<not> same_money s' s"
  shows "rte_handler r = ''Payments.webhook'' \<and> rqs_params rq ''provider'' = gwp_provider gw \<and>
       gwp_verifySignature gw (wir_headers w) (webhook_body w) \<or>
     rte_handler r \<in> {''Payments.confirmCash'', ''Payments.setOutcome''} \<and>
       (\<exists>c. live_caller now s c \<and> cal_role c = ADMIN \<and> has_totp (cal_id c) s \<noteq> None)"
proof -
  from admission_cases [OF payments_in_api [OF assms(1)], of a env rq now s] show ?thesis
  proof (elim disjE exE conjE)
    fix t e assume "serve a env r rq now s = (t, error_response (exn_status e) (exn_message e))" "same_db t s"
    then show ?thesis using assms(3,4) same_money_db by simp
  next
    fix s1 cal
    assume v: "serve a env r rq now s = respond r rq (api_handle a (rte_handler r) cal rq now s1)" and d: "same_db s1 s"
      and c: "case cal of None \<Rightarrow> (rte_verb r, full_path r) \<in> set public_surface
        | Some c \<Rightarrow> live_caller now s c \<and> (\<forall>rs. rte_roles r = Some rs \<longrightarrow>
            cal_role c \<in> set rs \<and> (cal_role c = ADMIN \<longrightarrow> has_totp (cal_id c) s \<noteq> None))"
    let ?h = "rte_handler r"
    have s': "s' = fst (payments_controller gw w ?h cal rq now s1)"
      using assms(2,3) v respond_state by (metis fst_conv)
    have moved: "\<not> same_money s' s1" using assms(4) same_money_trans same_money_db [OF d] by blast
    have "\<not> same_money (fst (payments_controller gw w ?h cal rq now s1)) s1" using moved s' by simp
    from controller_money [OF this] show ?thesis
    proof (elim disjE)
      assume h: "?h \<in> {''Payments.confirmCash'', ''Payments.setOutcome''} \<and> cal \<noteq> None"
      then obtain c' where c': "cal = Some c'" by auto
      have "rte_roles r = Some [ADMIN]" using payments_route_cases [OF assms(1)] h by auto
      then show ?thesis using c c' h by auto
    qed simp
  qed
qed

text \<open>An administrator with a second factor confirms a cash payment.\<close>

definition wire0 :: money_wire where
  "wire0 = \<lparr> wir_headers = (\<lambda>_. []), wir_rawBody = None, wir_note = None, wir_outcome = OutRefunded, wir_query = [], wir_bytes = [],
     wir_invoices = [bill0], wir_payments = [], wir_payment = (\<lambda>_. JNull), wir_qr = (\<lambda>_. JNull), wir_hook = (\<lambda>_. JNull),
     wir_list = (\<lambda>_. JNull) \<rparr>"

definition desk0 :: app where
  "desk0 = empty_app\<lparr>users := [user0\<lparr>usr_role := ADMIN\<rparr>], sessions := [session0], invoices := [bill0],
     totpCredentials := [\<lparr> tc_userId = ''u'', tc_secretEncrypted = [], tc_enabledAt = 0 \<rparr>]\<rparr>"

definition cash_route :: route where
  "cash_route = role_route POST ''payments/:invoiceId/confirm-cash'' ''Payments.confirmCash'' [ADMIN] [''invoiceId''] 200"

definition cash_request :: http_request where
  "cash_request = rq0\<lparr>rqs_params := (\<lambda>_. ''i1'')\<rparr>"

lemma cash_pays:
  assumes "invoices s = [row]" and "payable row" and "payments s = []"
  shows "invoices (fst (confirmCash [row] caller (inv_id row) note bytes now s)) = [row\<lparr>inv_status := PAID\<rparr>]"
  using assms
  by (simp add: confirmCash_def find_invoice_def cash_tx_def update_many_def create_payment_def fresh_uuid_def
      insert_row_def payment_uqs_def unique_on_def List.map_filter_def transaction_def bindE_def cash_row_def)

lemma desk0_guard:
  "jwt_guard (env0 access0) (Some (''Bearer '' @ ''T'')) 2000 desk0
     = (desk0, Inr \<lparr> cal_id = ''u'', cal_role = ADMIN, cal_sessionId = ''sid'', cal_jti = ''j'' \<rparr>)"
  using verify0 [of 2000] claims0_facts
  by (simp add: jwt_guard_def startsWith_def desk0_def empty_app_def Let_def app_get_def store_get_def getEntry_def
      user_admitted_def find_user_def user0_def new_user_def session_admitted_def session0_def)

lemma cash_served:
  "serve (api0\<lparr>api_handle := payments_controller port0 wire0\<rparr>) (env0 access0) cash_route cash_request 2000 desk0 =
     respond cash_route cash_request (payments_controller port0 wire0 ''Payments.confirmCash''
       (Some \<lparr> cal_id = ''u'', cal_role = ADMIN, cal_sessionId = ''sid'', cal_jti = ''j'' \<rparr>) cash_request 2000 desk0)"
proof -
  have b: "bearer (env0 access0) cash_route cash_request 2000 desk0
      = (desk0, Inr (Some \<lparr> cal_id = ''u'', cal_role = ADMIN, cal_sessionId = ''sid'', cal_jti = ''j'' \<rparr>))"
    using desk0_guard by (simp add: bearer_def cash_route_def route_defs cash_request_def rq0_def returnE_def)
  have t: "has_totp ''u'' desk0 \<noteq> None" by (simp add: has_totp_def desk0_def)
  have r: "roles_guard (rte_roles cash_route) (Some \<lparr> cal_id = ''u'', cal_role = ADMIN, cal_sessionId = ''sid'', cal_jti = ''j'' \<rparr>) desk0
      = Inr True" using t by (simp add: roles_guard_def cash_route_def route_defs)
  have "admit (api0\<lparr>api_handle := payments_controller port0 wire0\<rparr>) (env0 access0) cash_route cash_request 2000 desk0
      = (desk0, Inr (Some \<lparr> cal_id = ''u'', cal_role = ADMIN, cal_sessionId = ''sid'', cal_jti = ''j'' \<rparr>))"
    using b r by (simp add: admit_def global_throttle_def api0_def liftE_def returnE_def parseUuid_def)
      (simp add: cash_route_def route_defs parseUuid_def returnE_def bindE_def liftE_def)
  then show ?thesis by (simp add: serve_def) (simp add: cash_route_def route_defs)
qed

theorem money_moves_authenticated_witness:
  "\<exists>c. live_caller 2000 desk0 c \<and> cal_role c = ADMIN \<and> has_totp (cal_id c) desk0 \<noteq> None"
proof -
  let ?a = "api0\<lparr>api_handle := payments_controller port0 wire0\<rparr>"
  obtain s' resp where v: "serve ?a (env0 access0) cash_route cash_request 2000 desk0 = (s', resp)" by fastforce
  have b: "inv_id bill0 = ''i1''" "payable bill0" "inv_status bill0 \<noteq> PAID" by (simp_all add: bill0_def manual_row_def payable_def)
  have d: "invoices desk0 = [bill0]" "payments desk0 = []" by (simp_all add: desk0_def empty_app_def)
  have "s' = fst (confirmCash [bill0] \<lparr> cal_id = ''u'', cal_role = ADMIN, cal_sessionId = ''sid'', cal_jti = ''j'' \<rparr>
      (inv_id bill0) None [] 2000 desk0)"
    using arg_cong [OF trans [OF v [symmetric] cash_served], of fst] b
    by (simp add: respond_state payments_controller_def printed_state wire0_def cash_request_def)
  then have "invoices s' = [bill0\<lparr>inv_status := PAID\<rparr>]" using cash_pays [OF d(1) b(2) d(2)] by simp
  moreover have "bill0\<lparr>inv_status := PAID\<rparr> \<noteq> bill0" using b(3) by (auto dest: arg_cong [where f = inv_status])
  ultimately have m: "\<not> same_money s' desk0" using d by (simp add: same_money_def)
  have "cash_route \<in> set payments_routes" by (simp add: cash_route_def payments_routes_def)
  from money_moves_authenticated [OF this _ v m] show ?thesis by (auto simp: cash_route_def route_defs)
qed

end
