(* ===== verification/Schemas.thy ===== *)
theory Schemas
  imports Database
begin

text \<open>
  The response schemas of \<^verbatim>\<open>src/openapi/schema-kit.ts\<close> and the shared schemas of \<^verbatim>\<open>src/openapi/contract.ts\<close>: what the
  published contract says about the JSON of an answer. A schema keeps its type, format, enumeration, bounds,
  required and declared properties; titles, descriptions and examples are documentation and left out.
\<close>

section \<open>Schemas\<close>

text \<open>
  \<^verbatim>\<open>SchStr\<close> has a format, the nullable flag and the enumeration,
      empty when there is none; \<^verbatim>\<open>SchInt\<close> the nullable flag,
  minimum and maximum; \<^verbatim>\<open>SchObj\<close> the nullable flag,
      the required names and the declared properties; \<^verbatim>\<open>SchMap\<close> is an
  object given by \<^verbatim>\<open>additionalProperties\<close>.
\<close>

datatype schema =
    SchRef string
  | SchOneOf "schema list"
  | SchStr "string option" bool "string list"
  | SchPattern string bool
  | SchInt bool "int option" "int option"
  | SchNum bool
  | SchBool
  | SchArr schema
  | SchObj bool "string list" "(string \<times> schema) list"
  | SchMap schema

section \<open>The builders of the schema kit\<close>

definition envelopeOf :: "schema \<Rightarrow> schema" where
  "envelopeOf data = SchObj False [''code'', ''message'', ''data'']
     [(''code'', SchInt False None None), (''message'', SchStr None False []), (''data'', data)]"

definition envelopeError :: schema where
  "envelopeError = SchObj False [''code'', ''message'', ''data'']
     [(''code'', SchInt False None None), (''message'', SchStr None False []), (''data'', SchStr None True [])]"

definition paginated :: "schema \<Rightarrow> schema" where
  "paginated items = SchObj False [''items'', ''total'', ''page'', ''limit'']
     [(''items'', SchArr items), (''total'', SchInt False None None), (''page'', SchInt False None None),
      (''limit'', SchInt False None None)]"

definition kit_str :: schema where
  "kit_str = SchStr None False []"

definition kit_int :: schema where
  "kit_int = SchInt False None None"

definition kit_bool :: schema where
  "kit_bool = SchBool"

definition nullableStr :: schema where
  "nullableStr = SchStr None True []"

definition dateStr :: schema where
  "dateStr = SchStr (Some ''date'') False []"

definition dateTimeStr :: schema where
  "dateTimeStr = SchStr (Some ''date-time'') False []"

definition nullableDateTime :: schema where
  "nullableDateTime = SchStr (Some ''date-time'') True []"

definition nullableInt :: schema where
  "nullableInt = SchInt True None None"

definition enumOf :: "string list \<Rightarrow> schema" where
  "enumOf values = SchStr None False values"

definition vnd :: schema where
  "vnd = kit_int"

lemmas kit_builders = kit_str_def kit_int_def kit_bool_def nullableStr_def dateStr_def dateTimeStr_def nullableDateTime_def
  nullableInt_def enumOf_def vnd_def

section \<open>The component schemas\<close>

definition StudentSchema :: schema where
  "StudentSchema = SchObj False [''id'', ''fullName'', ''dob'', ''gender'', ''status'', ''joinedAt'']
     [(''id'', kit_str), (''fullName'', kit_str), (''dob'', dateStr), (''gender'', (enumOf [''MALE'', ''FEMALE'', ''OTHER''])),
      (''currentBeltRankId'', nullableInt), (''status'', (enumOf [''PENDING'', ''ACTIVE'', ''PAUSED'', ''LEFT''])),
      (''joinedAt'', dateTimeStr), (''phone'', nullableStr), (''address'', nullableStr), (''emergencyContactName'', nullableStr),
      (''emergencyContactPhone'', nullableStr), (''medicalNotes'', nullableStr), (''hasLinkedAccount'', kit_bool),
      (''inviteCode'', kit_str)]"

definition ScheduleSchema :: schema where
  "ScheduleSchema = SchObj False [''id'', ''weekday'', ''startTime'', ''endTime'', ''effectiveFrom'']
     [(''id'', kit_str), (''weekday'', kit_int), (''startTime'', kit_str), (''endTime'', kit_str), (''effectiveFrom'', dateStr),
      (''effectiveTo'', dateStr)]"

definition ClassSchema :: schema where
  "ClassSchema = SchObj False [''id'', ''name'', ''instructorId'', ''status'', ''createdAt'', ''updatedAt'', ''schedules'']
     [(''id'', kit_str), (''name'', kit_str), (''instructorId'', kit_str), (''location'', nullableStr),
      (''capacity'', nullableInt), (''status'', (enumOf [''ACTIVE'', ''PAUSED'', ''ARCHIVED''])), (''createdAt'', dateTimeStr),
      (''updatedAt'', dateTimeStr), (''schedules'', (SchArr (SchRef ''ClassScheduleResponse''))),
      (''activeEnrollmentCount'', kit_int)]"

definition EnrollmentSchema :: schema where
  "EnrollmentSchema = SchObj False [''id'', ''student'', ''classId'', ''className'', ''classStatus'', ''enrolledAt'']
     [(''id'', kit_str), (''student'', (SchRef ''StudentProfileResponse'')), (''classId'', kit_str), (''className'', kit_str),
      (''classStatus'', (enumOf [''ACTIVE'', ''PAUSED'', ''ARCHIVED''])), (''enrolledAt'', dateTimeStr),
      (''leftAt'', nullableDateTime)]"

definition AttendanceSessionSchema :: schema where
  "AttendanceSessionSchema = SchObj False [''id'', ''classId'', ''sessionDate'', ''instructorId'']
     [(''id'', kit_str), (''classId'', kit_str), (''sessionDate'', dateStr), (''instructorId'', kit_str),
      (''topic'', nullableStr)]"

definition AttendanceRecordSchema :: schema where
  "AttendanceRecordSchema = SchObj False [''id'', ''studentId'', ''status'']
     [(''id'', kit_str), (''studentId'', kit_str), (''fullName'', nullableStr),
      (''status'', (enumOf [''PRESENT'', ''LATE'', ''ABSENT'', ''EXCUSED''])), (''note'', nullableStr)]"

definition BeltRankSchema :: schema where
  "BeltRankSchema = SchObj False [''id'', ''code'', ''name'', ''rankGroup'', ''orderIndex'', ''isActive'']
     [(''id'', kit_int), (''code'', kit_str), (''name'', kit_str),
      (''rankGroup'', (enumOf [''LAM'', ''VANG'', ''DO'', ''HUYEN''])), (''orderIndex'', kit_int), (''isActive'', kit_bool)]"

definition BeltExamSchema :: schema where
  "BeltExamSchema = SchObj False [''id'', ''code'', ''title'', ''examDate'', ''targetRank'', ''feeAmount'', ''registrationDeadline'',
      ''status'']
     [(''id'', kit_str), (''code'', kit_str), (''title'', kit_str), (''examDate'', dateStr), (''location'', nullableStr),
      (''targetRank'', (SchObj False [''code'', ''name''] [(''code'', kit_str), (''name'', kit_str)])), (''feeAmount'', vnd),
      (''capacity'', kit_int), (''registrationDeadline'', dateTimeStr),
      (''status'', (enumOf [''DRAFT'', ''OPEN'', ''CLOSED'', ''COMPLETED'', ''CANCELLED''])), (''registeredCount'', kit_int)]"

definition InvoiceItemSchema :: schema where
  "InvoiceItemSchema = SchObj False [''id'', ''description'', ''quantity'', ''unitAmount'', ''amount'']
     [(''id'', kit_str), (''description'', kit_str), (''quantity'', kit_int), (''unitAmount'', vnd), (''amount'', vnd)]"

definition InvoiceSchema :: schema where
  "InvoiceSchema = SchObj False [''id'', ''invoiceNo'', ''studentId'', ''type'', ''subtotal'', ''discount'', ''total'', ''status'',
      ''dueDate'', ''issuedAt'']
     [(''id'', kit_str), (''invoiceNo'', kit_str), (''studentId'', kit_str),
      (''type'', (enumOf [''TUITION'', ''EXAM_FEE'', ''UNIFORM'', ''OTHER''])), (''periodMonth'', kit_int),
      (''periodYear'', kit_int), (''subtotal'', vnd), (''discount'', vnd), (''total'', vnd),
      (''status'', (enumOf [''UNPAID'', ''PAID'', ''OVERDUE'', ''CANCELLED'', ''REFUNDED''])), (''dueDate'', dateTimeStr),
      (''issuedAt'', dateTimeStr), (''note'', nullableStr), (''items'', (SchArr (SchRef ''InvoiceItemResponse'')))]"

definition PaymentSchema :: schema where
  "PaymentSchema = SchObj False [''id'', ''invoiceId'', ''orderRef'', ''gateway'', ''amount'', ''status'']
     [(''id'', kit_str), (''invoiceId'', kit_str), (''orderRef'', kit_str),
      (''gateway'', (enumOf [''BANK_TRANSFER'', ''PAYOS'', ''SEPAY'', ''CASH''])), (''amount'', vnd),
      (''status'', (enumOf [''PENDING'', ''SUCCESS'', ''FAILED'', ''DISPUTED'', ''REFUNDED''])), (''paidAt'', dateTimeStr),
      (''expiresAt'', dateTimeStr), (''note'', nullableStr)]"

definition DiscountCodeSchema :: schema where
  "DiscountCodeSchema = SchObj False [''id'', ''code'', ''validFrom'', ''validUntil'', ''isActive'']
     [(''id'', kit_str), (''code'', kit_str), (''description'', nullableStr), (''percentOff'', kit_int), (''amountOff'', vnd),
      (''validFrom'', dateTimeStr), (''validUntil'', dateTimeStr), (''isActive'', kit_bool)]"

definition NotificationSchema :: schema where
  "NotificationSchema = SchObj False [''id'', ''channel'', ''templateCode'', ''status'', ''createdAt'']
     [(''id'', kit_str), (''channel'', (enumOf [''IN_APP'', ''EMAIL''])), (''templateCode'', kit_str),
      (''payload'', (SchObj False [] [(''message'', kit_str)])), (''status'', (enumOf [''PENDING'', ''SENT''])),
      (''readAt'', nullableDateTime), (''sentAt'', dateTimeStr), (''createdAt'', dateTimeStr)]"

definition ConsentSchema :: schema where
  "ConsentSchema = SchObj False [''id'', ''purpose'', ''consentedAt'', ''active'']
     [(''id'', kit_str), (''purpose'', (enumOf [''DATA_PROCESSING'', ''MEDIA_USAGE'', ''MARKETING_NOTICE''])),
      (''consentedByUserId'', nullableStr), (''consentedAt'', dateTimeStr), (''revokedAt'', nullableDateTime),
      (''active'', kit_bool), (''alreadyActive'', kit_bool)]"

definition AnnouncementSchema :: schema where
  "AnnouncementSchema = SchObj False [''id'', ''title'', ''body'', ''audience'', ''publishedAt'', ''createdAt'', ''updatedAt'']
     [(''id'', kit_str), (''title'', kit_str), (''body'', kit_str), (''audience'', (enumOf [''ALL'', ''CLASS''])),
      (''classId'', nullableStr), (''className'', nullableStr), (''publishedAt'', dateTimeStr), (''createdAt'', dateTimeStr),
      (''updatedAt'', dateTimeStr)]"

definition LeaveRequestSchema :: schema where
  "LeaveRequestSchema = SchObj False [''id'', ''studentId'', ''studentName'', ''classId'', ''className'', ''sessionDate'', ''reason'',
      ''status'', ''createdAt'']
     [(''id'', kit_str), (''studentId'', kit_str), (''studentName'', kit_str), (''classId'', kit_str), (''className'', kit_str),
      (''sessionDate'', dateStr), (''reason'', kit_str),
      (''status'', (enumOf [''PENDING'', ''APPROVED'', ''REJECTED'', ''CANCELLED''])), (''reviewNote'', nullableStr),
      (''reviewedAt'', nullableDateTime), (''createdAt'', dateTimeStr)]"

definition PromotionProposalSchema :: schema where
  "PromotionProposalSchema = SchObj False [''id'', ''studentId'', ''studentName'', ''proposedRank'', ''status'', ''createdAt'']
     [(''id'', kit_str), (''studentId'', kit_str), (''studentName'', kit_str),
      (''proposedRank'', (SchObj False [''code'', ''name'', ''orderIndex''] [(''code'', kit_str), (''name'', kit_str),
          (''orderIndex'', kit_int)])),
      (''note'', nullableStr), (''status'', (enumOf [''PENDING'', ''APPROVED'', ''REJECTED''])), (''reviewNote'', nullableStr),
      (''reviewedAt'', nullableDateTime), (''createdAt'', dateTimeStr)]"

definition EvaluationSchema :: schema where
  "EvaluationSchema = SchObj False [''id'', ''studentId'', ''studentName'', ''authorUserId'', ''authorEmail'', ''rating'',
      ''createdAt'']
     [(''id'', kit_str), (''studentId'', kit_str), (''studentName'', kit_str), (''authorUserId'', kit_str),
      (''authorEmail'', kit_str), (''classId'', nullableStr), (''periodMonth'', kit_int), (''periodYear'', kit_int),
      (''rating'', kit_int), (''comment'', nullableStr), (''createdAt'', dateTimeStr)]"

definition UserAccountSchema :: schema where
  "UserAccountSchema = SchObj False [''id'', ''email'', ''role'', ''emailVerified'', ''isActive'', ''createdAt'']
     [(''id'', kit_str), (''email'', kit_str), (''role'', (enumOf [''ADMIN'', ''INSTRUCTOR'', ''STUDENT'', ''PARENT''])),
      (''emailVerified'', kit_bool), (''isActive'', kit_bool), (''deletedAt'', nullableDateTime), (''createdAt'', dateTimeStr)]"

definition AuditEntrySchema :: schema where
  "AuditEntrySchema = SchObj False [''id'', ''event'', ''success'', ''createdAt'']
     [(''id'', kit_str), (''event'', kit_str), (''ip'', nullableStr), (''success'', kit_bool), (''detail'', nullableStr),
      (''createdAt'', dateTimeStr)]"

definition SessionSchema :: schema where
  "SessionSchema = SchObj False [''id'', ''lastActiveAt'', ''createdAt'']
     [(''id'', kit_str), (''ip'', nullableStr), (''userAgent'', nullableStr), (''deviceName'', nullableStr),
      (''lastActiveAt'', dateTimeStr), (''createdAt'', dateTimeStr)]"

definition PublicUserSchema :: schema where
  "PublicUserSchema = SchObj False [''id'', ''email'', ''role'', ''emailVerified'', ''mfaEnabled'', ''createdAt'']
     [(''id'', kit_str), (''email'', kit_str), (''role'', (enumOf [''ADMIN'', ''INSTRUCTOR'', ''STUDENT'', ''PARENT''])),
      (''emailVerified'', kit_bool), (''mfaEnabled'', kit_bool), (''createdAt'', dateTimeStr)]"

definition SessionTokensSchema :: schema where
  "SessionTokensSchema = SchObj False [''accessToken'', ''refreshToken'', ''sessionId'']
     [(''accessToken'', kit_str), (''refreshToken'', kit_str), (''sessionId'', kit_str)]"

definition RESPONSE_COMPONENTS :: "(string \<times> schema) list" where
  "RESPONSE_COMPONENTS = [(''StudentProfileResponse'', StudentSchema), (''ClassScheduleResponse'', ScheduleSchema),
      (''ClassResponse'', ClassSchema),
     (''EnrollmentResponse'', EnrollmentSchema), (''AttendanceSessionResponse'', AttendanceSessionSchema),
     (''AttendanceRecordResponse'', AttendanceRecordSchema), (''BeltRankResponse'', BeltRankSchema),
     (''BeltExamResponse'', BeltExamSchema), (''InvoiceItemResponse'', InvoiceItemSchema), (''InvoiceResponse'', InvoiceSchema),
     (''PaymentResponse'', PaymentSchema), (''DiscountCodeResponse'', DiscountCodeSchema),
     (''NotificationResponse'', NotificationSchema), (''ConsentResponse'', ConsentSchema),
     (''AnnouncementResponse'', AnnouncementSchema), (''LeaveRequestResponse'', LeaveRequestSchema),
     (''PromotionProposalResponse'', PromotionProposalSchema), (''EvaluationResponse'', EvaluationSchema),
     (''UserAccountResponse'', UserAccountSchema), (''AuditEntryResponse'', AuditEntrySchema),
     (''SessionResponse'', SessionSchema), (''PublicUserResponse'', PublicUserSchema),
     (''SessionTokensResponse'', SessionTokensSchema)]"

lemmas component_schemas = StudentSchema_def ScheduleSchema_def ClassSchema_def EnrollmentSchema_def AttendanceSessionSchema_def
  AttendanceRecordSchema_def BeltRankSchema_def BeltExamSchema_def InvoiceItemSchema_def InvoiceSchema_def
  PaymentSchema_def DiscountCodeSchema_def NotificationSchema_def ConsentSchema_def AnnouncementSchema_def
  LeaveRequestSchema_def PromotionProposalSchema_def EvaluationSchema_def UserAccountSchema_def
  AuditEntrySchema_def SessionSchema_def PublicUserSchema_def SessionTokensSchema_def

section \<open>The shared schemas of the contract\<close>

definition ct_ref :: "string \<Rightarrow> schema" where
  "ct_ref name = SchRef name"

definition ct_page :: "schema \<Rightarrow> schema" where
  "ct_page items = SchObj False [''items'', ''total'', ''page'', ''limit'']
     [(''items'', SchArr items), (''total'', SchInt False None None), (''page'', SchInt False None None),
      (''limit'', SchInt False None None)]"

definition ct_s :: schema where
  "ct_s = SchStr None False []"

definition ct_i :: schema where
  "ct_i = SchInt False None None"

definition ct_b :: schema where
  "ct_b = SchBool"

definition ct_ns :: schema where
  "ct_ns = SchStr None True []"

definition ct_en :: "string list \<Rightarrow> schema" where
  "ct_en values = SchStr None False values"

definition ct_dt :: schema where
  "ct_dt = SchStr (Some ''date-time'') False []"

definition ct_d :: schema where
  "ct_d = SchStr (Some ''date'') False []"

definition pageParam :: "string \<Rightarrow> string \<times> bool \<times> schema" where
  "pageParam name = (if name = ''page'' then (''page'', False, SchInt False (Some 1) None)
     else (''limit'', False, SchInt False (Some 1) (Some 100)))"

definition ct_uuid :: schema where
  "ct_uuid = SchStr (Some ''uuid'') False []"

lemmas contract_builders = ct_ref_def ct_page_def ct_s_def ct_i_def ct_b_def ct_ns_def ct_en_def ct_dt_def ct_d_def
  pageParam_def ct_uuid_def

definition ct_PublicUser :: schema where
  "ct_PublicUser = ct_ref ''PublicUserResponse''"

definition ct_Tokens :: schema where
  "ct_Tokens = ct_ref ''SessionTokensResponse''"

definition auditPage :: schema where
  "auditPage = ct_page (ct_ref ''AuditEntryResponse'')"

definition loginData :: schema where
  "loginData = SchOneOf [(SchObj False [''mfaRequired'', ''mfaToken'', ''user''] [(''mfaRequired'', ct_b), (''mfaToken'', ct_s),
      (''user'', ct_PublicUser)]), (SchObj False [''mfaRequired'', ''tokens'', ''user'']
     [(''mfaRequired'', ct_b), (''tokens'', ct_Tokens), (''user'', ct_PublicUser)])]"

definition mfaMethod :: schema where
  "mfaMethod = SchObj False [''type'', ''enabled''] [(''type'', ct_s), (''enabled'', ct_b)]"

definition ct_Student :: schema where
  "ct_Student = ct_ref ''StudentProfileResponse''"

definition ct_Class :: schema where
  "ct_Class = ct_ref ''ClassResponse''"

definition ct_Enrollment :: schema where
  "ct_Enrollment = ct_ref ''EnrollmentResponse''"

definition ct_AttendanceSession :: schema where
  "ct_AttendanceSession = ct_ref ''AttendanceSessionResponse''"

definition ct_AttendanceRecord :: schema where
  "ct_AttendanceRecord = ct_ref ''AttendanceRecordResponse''"

definition ct_BeltRank :: schema where
  "ct_BeltRank = ct_ref ''BeltRankResponse''"

definition ct_BeltExam :: schema where
  "ct_BeltExam = ct_ref ''BeltExamResponse''"

definition ct_Invoice :: schema where
  "ct_Invoice = ct_ref ''InvoiceResponse''"

definition ct_Payment :: schema where
  "ct_Payment = ct_ref ''PaymentResponse''"

definition ct_DiscountCode :: schema where
  "ct_DiscountCode = ct_ref ''DiscountCodeResponse''"

definition ct_Notification :: schema where
  "ct_Notification = ct_ref ''NotificationResponse''"

definition ct_Consent :: schema where
  "ct_Consent = ct_ref ''ConsentResponse''"

definition ct_Announcement :: schema where
  "ct_Announcement = ct_ref ''AnnouncementResponse''"

definition ct_LeaveRequest :: schema where
  "ct_LeaveRequest = ct_ref ''LeaveRequestResponse''"

definition ct_Proposal :: schema where
  "ct_Proposal = ct_ref ''PromotionProposalResponse''"

definition ct_Evaluation :: schema where
  "ct_Evaluation = ct_ref ''EvaluationResponse''"

definition ct_UserAccount :: schema where
  "ct_UserAccount = ct_ref ''UserAccountResponse''"

definition beltDistribution :: schema where
  "beltDistribution = SchObj False [''distribution'', ''unrankedStudents'']
     [(''distribution'', (SchArr (SchObj False [''rankId'', ''code'', ''name'', ''orderIndex'', ''students'']
       [(''rankId'', ct_i), (''code'', ct_s), (''name'', ct_s), (''orderIndex'', ct_i), (''students'', ct_i)]))),
      (''unrankedStudents'', ct_i)]"

definition settingsData :: schema where
  "settingsData = SchObj False [''tuitionRates'', ''bankAccount'']
     [(''tuitionRates'', (SchMap (SchInt False None None))),
      (''bankAccount'', (SchObj True [''bin'', ''number'', ''name'', ''owner_type'']
       [(''bin'', ct_s), (''number'', ct_s), (''name'', ct_s), (''owner_type'', (ct_en [''BUSINESS'']))]))]"

definition revenueData :: schema where
  "revenueData = SchObj False [''from'', ''to'', ''rows'', ''grandTotal'']
     [(''from'', ct_dt), (''to'', ct_dt), (''rows'', (SchArr (SchObj False [''month'', ''gateway'', ''total'', ''count'']
       [(''month'', ct_s), (''gateway'', (ct_en [''BANK_TRANSFER'', ''PAYOS'', ''SEPAY'', ''CASH''])), (''total'', ct_i),
        (''count'', ct_i)]))), (''grandTotal'', ct_i)]"

definition tuitionReportData :: schema where
  "tuitionReportData = SchObj False [''month'', ''year'', ''byStatus'', ''collectedVnd'']
     [(''month'', ct_i), (''year'', ct_i), (''byStatus'', (SchArr (SchObj False [''status'', ''invoices'', ''totalVnd'']
       [(''status'', (ct_en [''UNPAID'', ''PAID'', ''OVERDUE'', ''CANCELLED'', ''REFUNDED''])), (''invoices'', ct_i),
        (''totalVnd'', ct_i)]))), (''collectedVnd'', ct_i)]"

definition generateMonthlyData :: schema where
  "generateMonthlyData = SchObj False [''month'', ''year'', ''created'', ''skippedExisting'', ''classesSkipped'']
     [(''month'', ct_i), (''year'', ct_i), (''created'', ct_i), (''skippedExisting'', ct_i),
      (''classesSkipped'', (SchArr (SchObj False [''classId'', ''reason''] [(''classId'', ct_s), (''reason'', ct_s)]))),
      (''dueDate'', ct_dt)]"

definition attendanceSummaryData :: schema where
  "attendanceSummaryData = SchObj False [''studentId'', ''month'', ''PRESENT'', ''LATE'', ''ABSENT'', ''EXCUSED'', ''total'']
     [(''studentId'', ct_s), (''month'', ct_s), (''PRESENT'', ct_i), (''LATE'', ct_i), (''ABSENT'', ct_i), (''EXCUSED'', ct_i),
      (''total'', ct_i)]"

definition attendanceReportRow :: schema where
  "attendanceReportRow = SchObj False [''classId'', ''className'', ''sessionsHeld'', ''markedRecords'']
     [(''classId'', ct_s), (''className'', ct_s), (''sessionsHeld'', ct_i), (''PRESENT'', ct_i), (''LATE'', ct_i),
      (''ABSENT'', ct_i), (''EXCUSED'', ct_i), (''markedRecords'', ct_i), (''attendanceRate'', (SchNum True))]"

definition attendanceHistoryItem :: schema where
  "attendanceHistoryItem = SchObj False [''sessionId'', ''sessionDate'', ''classId'', ''className'', ''status'']
     [(''sessionId'', ct_s), (''sessionDate'', ct_d), (''classId'', ct_s), (''className'', ct_s),
      (''status'', (ct_en [''PRESENT'', ''LATE'', ''ABSENT'', ''EXCUSED''])), (''note'', ct_ns)]"

definition examRegistrationData :: schema where
  "examRegistrationData = SchObj False [''id'', ''examId'', ''studentId'', ''status'', ''invoice'']
     [(''id'', ct_s), (''examId'', ct_s), (''studentId'', ct_s),
      (''status'', (ct_en [''PENDING'', ''RESULT_PASS'', ''RESULT_FAIL'', ''CANCELLED''])), (''currentRankId'', ct_i),
      (''targetRankId'', ct_i), (''invoice'', (SchObj False [''id'', ''invoiceNo'', ''total'', ''status'']
       [(''id'', ct_s), (''invoiceNo'', ct_s), (''total'', ct_i),
        (''status'', (ct_en [''UNPAID'', ''PAID'', ''OVERDUE'', ''CANCELLED'', ''REFUNDED'']))]))]"

definition examHistoryItem :: schema where
  "examHistoryItem = SchObj False [''id'', ''exam'', ''status'', ''targetRank'']
     [(''id'', ct_s),
      (''exam'', (SchObj False [''id'', ''code'', ''title'', ''examDate''] [(''id'', ct_s), (''code'', ct_s), (''title'', ct_s),
          (''examDate'', ct_d)])),
      (''status'', (ct_en [''PENDING'', ''RESULT_PASS'', ''RESULT_FAIL'', ''CANCELLED''])),
      (''rankAtRegistration'', (SchObj True [''code'', ''name'', ''orderIndex''] [(''code'', ct_s), (''name'', ct_s),
          (''orderIndex'', ct_i)])),
      (''targetRank'', (SchObj False [''code'', ''name'', ''orderIndex''] [(''code'', ct_s), (''name'', ct_s),
          (''orderIndex'', ct_i)])),
      (''resultNote'', ct_ns), (''resultRecordedAt'', ct_dt)]"

lemmas shared_schemas = ct_PublicUser_def ct_Tokens_def auditPage_def loginData_def mfaMethod_def ct_Student_def ct_Class_def
  ct_Enrollment_def ct_AttendanceSession_def ct_AttendanceRecord_def ct_BeltRank_def ct_BeltExam_def
  ct_Invoice_def ct_Payment_def ct_DiscountCode_def ct_Notification_def ct_Consent_def ct_Announcement_def
  ct_LeaveRequest_def ct_Proposal_def ct_Evaluation_def ct_UserAccount_def beltDistribution_def
  settingsData_def revenueData_def tuitionReportData_def generateMonthlyData_def attendanceSummaryData_def
  attendanceReportRow_def attendanceHistoryItem_def examRegistrationData_def examHistoryItem_def

section \<open>References\<close>

text \<open>
  The component names a schema refers to, and the schema with each reference replaced by the named component. A
  reference to an unknown component stays.
\<close>

fun refs :: "schema \<Rightarrow> string list" where
  "refs (SchRef n) = [n]"
| "refs (SchOneOf ss) = concat (map refs ss)"
| "refs (SchArr s) = refs s"
| "refs (SchObj nu req ps) = concat (map (\<lambda>p. refs (snd p)) ps)"
| "refs (SchMap s) = refs s"
| "refs (SchStr f nu vs) = []"
| "refs (SchPattern p nu) = []"
| "refs (SchInt nu a b) = []"
| "refs (SchNum nu) = []"
| "refs SchBool = []"

fun inline :: "(string \<rightharpoonup> schema) \<Rightarrow> schema \<Rightarrow> schema" where
  "inline C (SchRef n) = (case C n of Some s \<Rightarrow> s | None \<Rightarrow> SchRef n)"
| "inline C (SchOneOf ss) = SchOneOf (map (inline C) ss)"
| "inline C (SchArr s) = SchArr (inline C s)"
| "inline C (SchObj nu req ps) = SchObj nu req (map (\<lambda>p. (fst p, inline C (snd p))) ps)"
| "inline C (SchMap s) = SchMap (inline C s)"
| "inline C s = s"

lemma concat_map_concat: "concat (map f (concat xss)) = concat (map (\<lambda>xs. concat (map f xs)) xss)"
  by (induction xss) simp_all

lemma refs_inline:
  "refs (inline C s) = concat (map (\<lambda>n. case C n of Some s' \<Rightarrow> refs s' | None \<Rightarrow> [n]) (refs s))"
proof (induction s rule: refs.induct)
  case (2 ss)
  then show ?case by (simp add: concat_map_concat o_def cong: map_cong)
next
  case (4 nu req ps)
  then show ?case by (simp add: concat_map_concat o_def cong: map_cong)
qed (auto split: option.splits)

text \<open>The components that refer to no other one, and those that refer only to such.\<close>

definition flat_components :: "string list" where
  "flat_components = map fst (filter (\<lambda>c. refs (snd c) = []) RESPONSE_COMPONENTS)"

lemma components_distinct: "distinct (map fst RESPONSE_COMPONENTS)"
  by (simp add: RESPONSE_COMPONENTS_def)

lemma components_two_levels: "list_all (\<lambda>c. set (refs (snd c)) \<subseteq> set flat_components) RESPONSE_COMPONENTS"
  by (simp add: flat_components_def RESPONSE_COMPONENTS_def component_schemas kit_builders)

lemma inline_flat:
  assumes "\<And>n s. (n, s) \<in> set RESPONSE_COMPONENTS \<Longrightarrow> C n = Some s" and "set (refs s) \<subseteq> set flat_components"
  shows "refs (inline C s) = []"
proof -
  have "(case C n of Some s' \<Rightarrow> refs s' | None \<Rightarrow> [n]) = []" if n: "n \<in> set (refs s)" for n
  proof -
    obtain s' where "(n, s') \<in> set RESPONSE_COMPONENTS" "refs s' = []" using n assms(2) unfolding flat_components_def by auto
    then show ?thesis using assms(1) by simp
  qed
  then show ?thesis unfolding refs_inline by simp
qed

lemma inline_component_refs:
  assumes "\<And>n s. (n, s) \<in> set RESPONSE_COMPONENTS \<Longrightarrow> C n = Some s" and "set (refs s) \<subseteq> fst ` set RESPONSE_COMPONENTS"
  shows "set (refs (inline C s)) \<subseteq> set flat_components"
proof -
  have "set (case C n of Some s' \<Rightarrow> refs s' | None \<Rightarrow> [n]) \<subseteq> set flat_components" if n: "n \<in> set (refs s)" for n
  proof -
    obtain s' where "(n, s') \<in> set RESPONSE_COMPONENTS" using n assms(2) by auto
    then show ?thesis using assms(1) components_two_levels by (fastforce simp: list_all_iff)
  qed
  then show ?thesis unfolding refs_inline by auto
qed

text \<open>Two replacements remove every reference to a component.\<close>

lemma inline_twice_closed:
  assumes "\<And>n s. (n, s) \<in> set RESPONSE_COMPONENTS \<Longrightarrow> C n = Some s" and "set (refs s) \<subseteq> fst ` set RESPONSE_COMPONENTS"
  shows "refs (inline C (inline C s)) = []"
  using inline_flat [OF assms(1) inline_component_refs [OF assms]] .

end
