(* ===== verification/Dto.thy ===== *)
theory Dto
  imports Invoices Classes
begin

text \<open>
  The request bodies and queries (\<^verbatim>\<open>*.dto.ts\<close>): each class with its properties and validation decorators, and what
  the global validation pipe of \<^verbatim>\<open>src/bootstrap.ts\<close> (whitelist, forbidNonWhitelisted, transform) lets through. The
  string tests and the conversions of class-validator and class-transformer are parameters.
\<close>

section \<open>Decorators\<close>

text \<open>
  A property has a name, may be optional (\<^verbatim>\<open>@IsOptional\<close>), is converted (\<^verbatim>\<open>@Type\<close>) and has validators. \<^verbatim>\<open>@Length\<close> is a
  minimum and a maximum length, \<^verbatim>\<open>@IsEnum\<close> of string values a membership.
\<close>

datatype conversion = Plain | ToNumber | ToStrings

datatype dto = Dto "field list"
  and field = Field string bool conversion "rule list"
  and rule = IsString | IsInt | IsUUID | IsUUID_each | IsEmail | IsDateString | IsDate | IsBoolean
    | IsIn "string list" | MinV int | MaxV int | MinLength nat | MaxLength nat | Matches "string \<Rightarrow> bool"
    | ArrayMinSize nat | ArrayMaxSize nat | Nested dto

fun fields_of :: "dto \<Rightarrow> field list" where
  "fields_of (Dto fs) = fs"

fun field_name :: "field \<Rightarrow> string" where
  "field_name (Field n _ _ _) = n"

definition year_month :: "string \<Rightarrow> bool" where
  "year_month v \<longleftrightarrow> length v = 7 \<and> list_all is_digit (take 4 v) \<and> v ! 4 = CHR ''-'' \<and>
     (v ! 5 = CHR ''0'' \<and> is_digit (v ! 6) \<and> v ! 6 \<noteq> CHR ''0'' \<or> v ! 5 = CHR ''1'' \<and> v ! 6 \<in> set ''012'')"

section \<open>Classes\<close>

definition CreateAnnouncementDto :: dto where
  "CreateAnnouncementDto = Dto [Field ''title'' False Plain [IsString, MinLength 1, MaxLength 150],
     Field ''body'' False Plain [IsString, MinLength 1, MaxLength 10000],
     Field ''audience'' False Plain [IsIn [''ALL'', ''CLASS'']],
     Field ''classId'' True Plain [IsUUID]]"

definition UpdateAnnouncementDto :: dto where
  "UpdateAnnouncementDto = Dto [Field ''title'' True Plain [IsString, MinLength 1, MaxLength 150],
     Field ''body'' True Plain [IsString, MinLength 1, MaxLength 10000],
     Field ''audience'' True Plain [IsIn [''ALL'', ''CLASS'']],
     Field ''classId'' True Plain [IsUUID]]"

definition PageDto :: dto where
  "PageDto = Dto [Field ''page'' True ToNumber [IsInt, MinV 1],
     Field ''limit'' True ToNumber [IsInt, MinV 1, MaxV 100]]"

definition ListAnnouncementsQueryDto :: dto where
  "ListAnnouncementsQueryDto = Dto (fields_of PageDto)"

definition CreateAttendanceSessionDto :: dto where
  "CreateAttendanceSessionDto = Dto [Field ''classId'' False Plain [IsUUID],
     Field ''sessionDate'' False Plain [IsDateString],
     Field ''topic'' True Plain [IsString, MaxLength 200]]"

definition BulkAttendanceRecordDto :: dto where
  "BulkAttendanceRecordDto = Dto [Field ''studentId'' False Plain [IsUUID],
     Field ''status'' False Plain [IsIn [''PRESENT'', ''LATE'', ''ABSENT'', ''EXCUSED'']],
     Field ''note'' True Plain [IsString, MaxLength 200]]"

definition BulkAttendanceRecordsDto :: dto where
  "BulkAttendanceRecordsDto = Dto [Field ''records'' False Plain [ArrayMinSize 1, ArrayMaxSize 200, Nested BulkAttendanceRecordDto]]"

definition AttendanceHistoryQueryDto :: dto where
  "AttendanceHistoryQueryDto = Dto (fields_of PageDto @ [Field ''from'' True Plain [IsDateString],
     Field ''to'' True Plain [IsDateString]])"

definition AttendanceSummaryQueryDto :: dto where
  "AttendanceSummaryQueryDto = Dto [Field ''studentId'' False Plain [IsUUID],
     Field ''month'' False Plain [Matches year_month]]"

definition AttendanceReportQueryDto :: dto where
  "AttendanceReportQueryDto = Dto [Field ''month'' False Plain [Matches year_month]]"

definition ChangePasswordDto :: dto where
  "ChangePasswordDto = Dto [Field ''currentPassword'' False Plain [IsString, MinLength 1, MaxLength 128],
     Field ''newPassword'' False Plain [IsString, MinLength 8, MaxLength 128],
     Field ''code'' True Plain [IsString, MinLength 6, MaxLength 12]]"

definition ChangeEmailRequestDto :: dto where
  "ChangeEmailRequestDto = Dto [Field ''currentPassword'' False Plain [IsString, MinLength 1, MaxLength 128],
     Field ''newEmail'' False Plain [IsEmail, MinLength 5, MaxLength 200]]"

definition ChangeEmailConfirmDto :: dto where
  "ChangeEmailConfirmDto = Dto [Field ''token'' False Plain [IsString, MinLength 10, MaxLength 500]]"

definition SensitiveOperationDto :: dto where
  "SensitiveOperationDto = Dto [Field ''password'' False Plain [IsString, MinLength 1, MaxLength 128],
     Field ''code'' True Plain [IsString, MinLength 6, MaxLength 12]]"

definition RegisterDto :: dto where
  "RegisterDto = Dto [Field ''email'' False Plain [IsEmail],
     Field ''password'' False Plain [IsString, MinLength 8, MaxLength 128],
     Field ''role'' False Plain [IsIn [''STUDENT'', ''PARENT'']],
     Field ''fullName'' False Plain [IsString, MinLength 2, MaxLength 100],
     Field ''dateOfBirth'' False Plain [IsDateString],
     Field ''phone'' True Plain [IsString, MaxLength 20]]"

definition LoginDto :: dto where
  "LoginDto = Dto [Field ''email'' False Plain [IsEmail],
     Field ''password'' False Plain [IsString, MinLength 1, MaxLength 128]]"

definition RefreshTokenDto :: dto where
  "RefreshTokenDto = Dto [Field ''refreshToken'' False Plain [IsString, MinLength 20, MaxLength 200]]"

definition VerifyEmailDto :: dto where
  "VerifyEmailDto = Dto [Field ''token'' False Plain [IsString, MinLength 10, MaxLength 500]]"

definition EmailOnlyDto :: dto where
  "EmailOnlyDto = Dto [Field ''email'' False Plain [IsEmail]]"

definition ResetPasswordDto :: dto where
  "ResetPasswordDto = Dto [Field ''token'' False Plain [IsString, MinLength 10, MaxLength 500],
     Field ''password'' False Plain [IsString, MinLength 8, MaxLength 128]]"

definition TotpCodeDto :: dto where
  "TotpCodeDto = Dto [Field ''code'' False Plain [IsString, MinLength 6, MaxLength 12]]"

definition TotpDisableDto :: dto where
  "TotpDisableDto = Dto [Field ''code'' False Plain [IsString, MinLength 6, MaxLength 12],
     Field ''password'' False Plain [IsString, MinLength 1, MaxLength 128]]"

definition MfaLoginVerifyDto :: dto where
  "MfaLoginVerifyDto = Dto [Field ''mfaToken'' False Plain [IsString, MinLength 10, MaxLength 1000],
     Field ''code'' False Plain [IsString, MinLength 6, MaxLength 12]]"

definition CreateUserDto :: dto where
  "CreateUserDto = Dto [Field ''email'' False Plain [IsEmail],
     Field ''password'' False Plain [IsString, MinLength 8, MaxLength 72],
     Field ''role'' False Plain [IsIn [''ADMIN'', ''INSTRUCTOR'', ''STUDENT'', ''PARENT'']],
     Field ''fullName'' True Plain [IsString, MaxLength 100]]"

definition UpdateUserDto :: dto where
  "UpdateUserDto = Dto [Field ''role'' True Plain [IsIn [''ADMIN'', ''INSTRUCTOR'', ''STUDENT'', ''PARENT'']],
     Field ''isActive'' True Plain [IsBoolean],
     Field ''newPassword'' True Plain [IsString, MinLength 8, MaxLength 72]]"

definition ListUsersQueryDto :: dto where
  "ListUsersQueryDto = Dto (fields_of PageDto @ [Field ''role'' True Plain [IsIn [''ADMIN'', ''INSTRUCTOR'', ''STUDENT'', ''PARENT'']],
     Field ''search'' True Plain [IsString, MaxLength 100]])"

definition ListAuditLogQueryDto :: dto where
  "ListAuditLogQueryDto = Dto (fields_of PageDto @ [Field ''userId'' True Plain [IsString, MaxLength 64],
     Field ''event'' True Plain [IsString, MaxLength 50]])"

definition CreateBeltRankDto :: dto where
  "CreateBeltRankDto = Dto [Field ''code'' False Plain [IsString, MinLength 2, MaxLength 30],
     Field ''name'' False Plain [IsString, MinLength 2, MaxLength 100],
     Field ''rankGroup'' False Plain [IsIn [''LAM'', ''VANG'', ''DO'', ''HUYEN'']],
     Field ''orderIndex'' False ToNumber [IsInt, MinV 1, MaxV 10000],
     Field ''isActive'' True Plain [IsBoolean]]"

definition UpdateBeltRankDto :: dto where
  "UpdateBeltRankDto = Dto [Field ''code'' True Plain [IsString, MinLength 2, MaxLength 30],
     Field ''name'' True Plain [IsString, MinLength 2, MaxLength 100],
     Field ''rankGroup'' True Plain [IsIn [''LAM'', ''VANG'', ''DO'', ''HUYEN'']],
     Field ''orderIndex'' True ToNumber [IsInt, MinV 1, MaxV 10000],
     Field ''isActive'' True Plain [IsBoolean]]"

definition CreateInvoiceItemDto :: dto where
  "CreateInvoiceItemDto = Dto [Field ''description'' False Plain [IsString, MinLength 1, MaxLength 255],
     Field ''quantity'' False ToNumber [IsInt, MinV 1, MaxV 1000],
     Field ''unitAmount'' False ToNumber [IsInt, MinV 0, MaxV 1000000000]]"

definition CreateInvoiceDto :: dto where
  "CreateInvoiceDto = Dto [Field ''studentId'' False Plain [IsUUID],
     Field ''type'' False Plain [IsIn [''TUITION'', ''EXAM_FEE'', ''UNIFORM'', ''OTHER'']],
     Field ''items'' False Plain [ArrayMinSize 1, ArrayMaxSize 50, Nested CreateInvoiceItemDto],
     Field ''discount'' True ToNumber [IsInt, MinV 0, MaxV 1000000000],
     Field ''dueDate'' True Plain [IsDateString],
     Field ''note'' True Plain [IsString, MaxLength 500],
     Field ''periodMonth'' True ToNumber [IsInt, MinV 1, MaxV 12],
     Field ''periodYear'' True ToNumber [IsInt, MinV 2000, MaxV 2100],
     Field ''discountCode'' True Plain [IsString, MaxLength 40]]"

definition ListInvoicesQueryDto :: dto where
  "ListInvoicesQueryDto = Dto (fields_of PageDto @ [Field ''status'' True Plain [IsIn [''UNPAID'', ''PAID'', ''OVERDUE'', ''CANCELLED'', ''REFUNDED'']],
     Field ''type'' True Plain [IsIn [''TUITION'', ''EXAM_FEE'', ''UNIFORM'', ''OTHER'']],
     Field ''studentId'' True Plain [IsUUID]])"

definition GenerateMonthlyDto :: dto where
  "GenerateMonthlyDto = Dto [Field ''month'' False ToNumber [IsInt, MinV 1, MaxV 12],
     Field ''year'' False ToNumber [IsInt, MinV 2000, MaxV 2100],
     Field ''classIds'' False ToStrings [ArrayMinSize 1, ArrayMaxSize 50, IsUUID_each]]"

definition ConfirmCashDto :: dto where
  "ConfirmCashDto = Dto [Field ''note'' True Plain [IsString, MaxLength 500]]"

definition PaymentOutcomeDto :: dto where
  "PaymentOutcomeDto = Dto [Field ''status'' False Plain [IsIn [''REFUNDED'', ''DISPUTED'']],
     Field ''note'' True Plain [IsString, MaxLength 500]]"

definition ListPaymentsQueryDto :: dto where
  "ListPaymentsQueryDto = Dto [Field ''invoiceId'' False Plain [IsUUID]]"

definition RevenueQueryDto :: dto where
  "RevenueQueryDto = Dto [Field ''from'' False Plain [IsDateString],
     Field ''to'' False Plain [IsDateString]]"

definition BankAccountDto :: dto where
  "BankAccountDto = Dto [Field ''bin'' False Plain [IsString, MaxLength 20],
     Field ''number'' False Plain [IsString, MinLength 6, MaxLength 20],
     Field ''name'' False Plain [IsString, MaxLength 100],
     Field ''ownerType'' False Plain [IsString]]"

definition TuitionRateDto :: dto where
  "TuitionRateDto = Dto [Field ''classId'' False Plain [IsUUID],
     Field ''monthlyAmount'' False ToNumber [IsInt, MinV 0, MaxV 1000000000]]"

definition UpdateTuitionRatesDto :: dto where
  "UpdateTuitionRatesDto = Dto [Field ''rates'' False Plain [ArrayMaxSize 500, Nested TuitionRateDto]]"

definition UpdateBankAccountDto :: dto where
  "UpdateBankAccountDto = Dto [Field ''bankAccount'' False Plain [Nested BankAccountDto]]"

definition TuitionReportQueryDto :: dto where
  "TuitionReportQueryDto = Dto [Field ''month'' False ToNumber [IsInt, MinV 1, MaxV 12],
     Field ''year'' False ToNumber [IsInt, MinV 2000, MaxV 2100]]"

definition CreateDiscountCodeDto :: dto where
  "CreateDiscountCodeDto = Dto [Field ''code'' False Plain [IsString, MaxLength 40],
     Field ''description'' True Plain [IsString, MaxLength 200],
     Field ''percentOff'' True ToNumber [IsInt, MinV 1, MaxV 100],
     Field ''amountOff'' True ToNumber [IsInt, MinV 1000, MaxV 1000000000],
     Field ''validFrom'' False Plain [IsDate],
     Field ''validUntil'' False Plain [IsDate]]"

definition UpdateDiscountCodeDto :: dto where
  "UpdateDiscountCodeDto = Dto [Field ''description'' True Plain [IsString, MaxLength 200],
     Field ''validUntil'' True Plain [IsDate],
     Field ''isActive'' True Plain [IsBoolean]]"

definition CreateClassDto :: dto where
  "CreateClassDto = Dto [Field ''name'' False Plain [IsString, MinLength 2, MaxLength 100],
     Field ''instructorId'' False Plain [IsUUID],
     Field ''location'' True Plain [IsString, MaxLength 255],
     Field ''capacity'' True ToNumber [IsInt, MinV 1, MaxV 500]]"

definition UpdateClassDto :: dto where
  "UpdateClassDto = Dto [Field ''name'' True Plain [IsString, MinLength 2, MaxLength 100],
     Field ''instructorId'' True Plain [IsUUID],
     Field ''location'' True Plain [IsString, MaxLength 255],
     Field ''capacity'' True ToNumber [IsInt, MinV 1, MaxV 500],
     Field ''status'' True Plain [IsIn [''ACTIVE'', ''PAUSED'', ''ARCHIVED'']]]"

definition CreateScheduleDto :: dto where
  "CreateScheduleDto = Dto [Field ''weekday'' False ToNumber [IsInt, MinV 0, MaxV 6],
     Field ''startTime'' False Plain [Matches hh_mm],
     Field ''endTime'' False Plain [Matches hh_mm],
     Field ''effectiveFrom'' False Plain [IsDateString],
     Field ''effectiveTo'' True Plain [IsDateString]]"

definition ListClassesQueryDto :: dto where
  "ListClassesQueryDto = Dto (fields_of PageDto @ [Field ''status'' True Plain [IsIn [''ACTIVE'', ''PAUSED'', ''ARCHIVED'']]])"

definition CreateEnrollmentDto :: dto where
  "CreateEnrollmentDto = Dto [Field ''studentId'' False Plain [IsUUID],
     Field ''classId'' False Plain [IsUUID]]"

definition ListEnrollmentsQueryDto :: dto where
  "ListEnrollmentsQueryDto = Dto (fields_of PageDto @ [Field ''classId'' True Plain [IsUUID],
     Field ''studentId'' True Plain [IsUUID]])"

definition GrantConsentDto :: dto where
  "GrantConsentDto = Dto [Field ''purpose'' False Plain [IsIn [''DATA_PROCESSING'', ''MEDIA_USAGE'', ''MARKETING_NOTICE'']],
     Field ''studentId'' True Plain [IsUUID]]"

definition RevokeConsentDto :: dto where
  "RevokeConsentDto = Dto [Field ''purpose'' False Plain [IsIn [''DATA_PROCESSING'', ''MEDIA_USAGE'', ''MARKETING_NOTICE'']],
     Field ''studentId'' True Plain [IsUUID]]"

definition CreateEvaluationDto :: dto where
  "CreateEvaluationDto = Dto [Field ''studentId'' False Plain [IsUUID],
     Field ''classId'' True Plain [IsUUID],
     Field ''periodMonth'' True ToNumber [IsInt, MinV 1, MaxV 12],
     Field ''periodYear'' True ToNumber [IsInt, MinV 2000, MaxV 2100],
     Field ''rating'' False ToNumber [IsInt, MinV 1, MaxV 10],
     Field ''comment'' True Plain [IsString, MaxLength 1000]]"

definition UpdateEvaluationDto :: dto where
  "UpdateEvaluationDto = Dto [Field ''rating'' True ToNumber [IsInt, MinV 1, MaxV 10],
     Field ''comment'' True Plain [IsString, MaxLength 1000]]"

definition ListEvaluationsQueryDto :: dto where
  "ListEvaluationsQueryDto = Dto (fields_of PageDto @ [Field ''studentId'' False Plain [IsUUID]])"

definition CreateBeltExamDto :: dto where
  "CreateBeltExamDto = Dto [Field ''code'' True Plain [IsString, MinLength 4, MaxLength 30],
     Field ''title'' False Plain [IsString, MinLength 2, MaxLength 150],
     Field ''examDate'' False Plain [IsDateString],
     Field ''location'' True Plain [IsString, MaxLength 255],
     Field ''targetRankId'' False ToNumber [IsInt],
     Field ''feeAmount'' False ToNumber [IsInt, MinV 0, MaxV 1000000000],
     Field ''capacity'' True ToNumber [IsInt, MinV 1, MaxV 1000],
     Field ''registrationDeadline'' False Plain [IsDateString]]"

definition UpdateBeltExamDto :: dto where
  "UpdateBeltExamDto = Dto [Field ''code'' True Plain [IsString, MinLength 4, MaxLength 30],
     Field ''title'' True Plain [IsString, MinLength 2, MaxLength 150],
     Field ''examDate'' True Plain [IsDateString],
     Field ''location'' True Plain [IsString, MaxLength 255],
     Field ''targetRankId'' True ToNumber [IsInt],
     Field ''feeAmount'' True ToNumber [IsInt, MinV 0, MaxV 1000000000],
     Field ''capacity'' True ToNumber [IsInt, MinV 1, MaxV 1000],
     Field ''registrationDeadline'' True Plain [IsDateString],
     Field ''status'' True Plain [IsIn [''DRAFT'', ''OPEN'', ''CLOSED'', ''COMPLETED'', ''CANCELLED'']]]"

definition ListExamsQueryDto :: dto where
  "ListExamsQueryDto = Dto (fields_of PageDto @ [Field ''status'' True Plain [IsIn [''DRAFT'', ''OPEN'', ''CLOSED'', ''COMPLETED'', ''CANCELLED'']]])"

definition RegisterExamDto :: dto where
  "RegisterExamDto = Dto [Field ''studentId'' False Plain [IsUUID]]"

definition ExamResultDto :: dto where
  "ExamResultDto = Dto [Field ''status'' False Plain [IsIn [''RESULT_PASS'', ''RESULT_FAIL'']],
     Field ''resultNote'' True Plain [IsString, MaxLength 500],
     Field ''examinerId'' True Plain [IsUUID]]"

definition ListExamRegistrationsQueryDto :: dto where
  "ListExamRegistrationsQueryDto = Dto (fields_of PageDto @ [Field ''studentId'' False Plain [IsUUID]])"

definition CreateLeaveRequestDto :: dto where
  "CreateLeaveRequestDto = Dto [Field ''studentId'' False Plain [IsUUID],
     Field ''classId'' False Plain [IsUUID],
     Field ''sessionDate'' False Plain [IsDateString],
     Field ''reason'' False Plain [IsString, MaxLength 500]]"

definition ReviewLeaveRequestDto :: dto where
  "ReviewLeaveRequestDto = Dto [Field ''status'' False Plain [IsIn [''APPROVED'', ''REJECTED'']],
     Field ''note'' True Plain [IsString, MaxLength 500]]"

definition ListLeaveRequestsQueryDto :: dto where
  "ListLeaveRequestsQueryDto = Dto (fields_of PageDto @ [Field ''status'' True Plain [IsIn [''PENDING'', ''APPROVED'', ''REJECTED'', ''CANCELLED'']],
     Field ''classId'' True Plain [IsUUID],
     Field ''studentId'' True Plain [IsUUID]])"

definition CreatePromotionProposalDto :: dto where
  "CreatePromotionProposalDto = Dto [Field ''studentId'' False Plain [IsUUID],
     Field ''proposedRankId'' False ToNumber [IsInt, MinV 1],
     Field ''note'' True Plain [IsString, MaxLength 500]]"

definition ReviewProposalDto :: dto where
  "ReviewProposalDto = Dto [Field ''status'' False Plain [IsIn [''APPROVED'', ''REJECTED'']],
     Field ''note'' True Plain [IsString, MaxLength 500]]"

definition UpdateProposalDto :: dto where
  "UpdateProposalDto = Dto [Field ''note'' True Plain [IsString, MaxLength 500]]"

definition ListProposalsQueryDto :: dto where
  "ListProposalsQueryDto = Dto (fields_of PageDto @ [Field ''status'' True Plain [IsString],
     Field ''studentId'' True Plain [IsUUID]])"

definition CreateStudentDto :: dto where
  "CreateStudentDto = Dto [Field ''fullName'' False Plain [IsString, MinLength 2, MaxLength 100],
     Field ''dob'' False Plain [IsDateString],
     Field ''gender'' False Plain [IsIn [''MALE'', ''FEMALE'', ''OTHER'']],
     Field ''phone'' True Plain [IsString, MaxLength 20],
     Field ''address'' True Plain [IsString, MaxLength 255],
     Field ''emergencyContactName'' True Plain [IsString, MinLength 2, MaxLength 100],
     Field ''emergencyContactPhone'' True Plain [IsString, MaxLength 20],
     Field ''medicalNotes'' True Plain [IsString, MaxLength 1000],
     Field ''currentBeltRankId'' True ToNumber [IsInt],
     Field ''linkedUserEmail'' True Plain [IsEmail]]"

definition UpdateStudentDto :: dto where
  "UpdateStudentDto = Dto [Field ''fullName'' True Plain [IsString, MinLength 2, MaxLength 100],
     Field ''dob'' True Plain [IsDateString],
     Field ''gender'' True Plain [IsIn [''MALE'', ''FEMALE'', ''OTHER'']],
     Field ''phone'' True Plain [IsString, MaxLength 20],
     Field ''address'' True Plain [IsString, MaxLength 255],
     Field ''emergencyContactName'' True Plain [IsString, MinLength 2, MaxLength 100],
     Field ''emergencyContactPhone'' True Plain [IsString, MaxLength 20],
     Field ''medicalNotes'' True Plain [IsString, MaxLength 1000],
     Field ''currentBeltRankId'' True ToNumber [IsInt],
     Field ''status'' True Plain [IsIn [''PENDING'', ''ACTIVE'', ''PAUSED'', ''LEFT'']]]"

definition ListStudentsQueryDto :: dto where
  "ListStudentsQueryDto = Dto (fields_of PageDto @ [Field ''status'' True Plain [IsIn [''PENDING'', ''ACTIVE'', ''PAUSED'', ''LEFT'']],
     Field ''search'' True Plain [IsString, MinLength 2],
     Field ''classId'' True Plain [IsUUID]])"

definition LinkChildDto :: dto where
  "LinkChildDto = Dto [Field ''inviteCode'' False Plain [IsString, MinLength 8, MaxLength 8]]"

definition UpdateOwnStudentDto :: dto where
  "UpdateOwnStudentDto = Dto [Field ''phone'' True Plain [IsString, MaxLength 20],
     Field ''address'' True Plain [IsString, MaxLength 255],
     Field ''emergencyContactName'' True Plain [IsString, MaxLength 100],
     Field ''emergencyContactPhone'' True Plain [IsString, MaxLength 20],
     Field ''medicalNotes'' True Plain [IsString, MaxLength 1000]]"

definition all_dtos :: "(string \<times> dto) list" where
  "all_dtos = [
     (''CreateAnnouncementDto'', CreateAnnouncementDto), (''UpdateAnnouncementDto'', UpdateAnnouncementDto), (''PageDto'', PageDto),
     (''ListAnnouncementsQueryDto'', ListAnnouncementsQueryDto), (''CreateAttendanceSessionDto'', CreateAttendanceSessionDto), (''BulkAttendanceRecordDto'', BulkAttendanceRecordDto),
     (''BulkAttendanceRecordsDto'', BulkAttendanceRecordsDto), (''AttendanceHistoryQueryDto'', AttendanceHistoryQueryDto), (''AttendanceSummaryQueryDto'', AttendanceSummaryQueryDto),
     (''AttendanceReportQueryDto'', AttendanceReportQueryDto), (''ChangePasswordDto'', ChangePasswordDto), (''ChangeEmailRequestDto'', ChangeEmailRequestDto),
     (''ChangeEmailConfirmDto'', ChangeEmailConfirmDto), (''SensitiveOperationDto'', SensitiveOperationDto), (''RegisterDto'', RegisterDto),
     (''LoginDto'', LoginDto), (''RefreshTokenDto'', RefreshTokenDto), (''VerifyEmailDto'', VerifyEmailDto),
     (''EmailOnlyDto'', EmailOnlyDto), (''ResetPasswordDto'', ResetPasswordDto), (''TotpCodeDto'', TotpCodeDto),
     (''TotpDisableDto'', TotpDisableDto), (''MfaLoginVerifyDto'', MfaLoginVerifyDto), (''CreateUserDto'', CreateUserDto),
     (''UpdateUserDto'', UpdateUserDto), (''ListUsersQueryDto'', ListUsersQueryDto), (''ListAuditLogQueryDto'', ListAuditLogQueryDto),
     (''CreateBeltRankDto'', CreateBeltRankDto), (''UpdateBeltRankDto'', UpdateBeltRankDto), (''CreateInvoiceItemDto'', CreateInvoiceItemDto),
     (''CreateInvoiceDto'', CreateInvoiceDto), (''ListInvoicesQueryDto'', ListInvoicesQueryDto), (''GenerateMonthlyDto'', GenerateMonthlyDto),
     (''ConfirmCashDto'', ConfirmCashDto), (''PaymentOutcomeDto'', PaymentOutcomeDto), (''ListPaymentsQueryDto'', ListPaymentsQueryDto),
     (''RevenueQueryDto'', RevenueQueryDto), (''BankAccountDto'', BankAccountDto), (''TuitionRateDto'', TuitionRateDto),
     (''UpdateTuitionRatesDto'', UpdateTuitionRatesDto), (''UpdateBankAccountDto'', UpdateBankAccountDto), (''TuitionReportQueryDto'', TuitionReportQueryDto),
     (''CreateDiscountCodeDto'', CreateDiscountCodeDto), (''UpdateDiscountCodeDto'', UpdateDiscountCodeDto), (''CreateClassDto'', CreateClassDto),
     (''UpdateClassDto'', UpdateClassDto), (''CreateScheduleDto'', CreateScheduleDto), (''ListClassesQueryDto'', ListClassesQueryDto),
     (''CreateEnrollmentDto'', CreateEnrollmentDto), (''ListEnrollmentsQueryDto'', ListEnrollmentsQueryDto), (''GrantConsentDto'', GrantConsentDto),
     (''RevokeConsentDto'', RevokeConsentDto), (''CreateEvaluationDto'', CreateEvaluationDto), (''UpdateEvaluationDto'', UpdateEvaluationDto),
     (''ListEvaluationsQueryDto'', ListEvaluationsQueryDto), (''CreateBeltExamDto'', CreateBeltExamDto), (''UpdateBeltExamDto'', UpdateBeltExamDto),
     (''ListExamsQueryDto'', ListExamsQueryDto), (''RegisterExamDto'', RegisterExamDto), (''ExamResultDto'', ExamResultDto),
     (''ListExamRegistrationsQueryDto'', ListExamRegistrationsQueryDto), (''CreateLeaveRequestDto'', CreateLeaveRequestDto), (''ReviewLeaveRequestDto'', ReviewLeaveRequestDto),
     (''ListLeaveRequestsQueryDto'', ListLeaveRequestsQueryDto), (''CreatePromotionProposalDto'', CreatePromotionProposalDto), (''ReviewProposalDto'', ReviewProposalDto),
     (''UpdateProposalDto'', UpdateProposalDto), (''ListProposalsQueryDto'', ListProposalsQueryDto), (''CreateStudentDto'', CreateStudentDto),
     (''UpdateStudentDto'', UpdateStudentDto), (''ListStudentsQueryDto'', ListStudentsQueryDto), (''LinkChildDto'', LinkChildDto),
     (''UpdateOwnStudentDto'', UpdateOwnStudentDto)]"

lemmas dto_defs = CreateAnnouncementDto_def UpdateAnnouncementDto_def PageDto_def ListAnnouncementsQueryDto_def CreateAttendanceSessionDto_def
  BulkAttendanceRecordDto_def BulkAttendanceRecordsDto_def AttendanceHistoryQueryDto_def AttendanceSummaryQueryDto_def AttendanceReportQueryDto_def
  ChangePasswordDto_def ChangeEmailRequestDto_def ChangeEmailConfirmDto_def SensitiveOperationDto_def RegisterDto_def
  LoginDto_def RefreshTokenDto_def VerifyEmailDto_def EmailOnlyDto_def ResetPasswordDto_def
  TotpCodeDto_def TotpDisableDto_def MfaLoginVerifyDto_def CreateUserDto_def UpdateUserDto_def
  ListUsersQueryDto_def ListAuditLogQueryDto_def CreateBeltRankDto_def UpdateBeltRankDto_def CreateInvoiceItemDto_def
  CreateInvoiceDto_def ListInvoicesQueryDto_def GenerateMonthlyDto_def ConfirmCashDto_def PaymentOutcomeDto_def
  ListPaymentsQueryDto_def RevenueQueryDto_def BankAccountDto_def TuitionRateDto_def UpdateTuitionRatesDto_def
  UpdateBankAccountDto_def TuitionReportQueryDto_def CreateDiscountCodeDto_def UpdateDiscountCodeDto_def CreateClassDto_def
  UpdateClassDto_def CreateScheduleDto_def ListClassesQueryDto_def CreateEnrollmentDto_def ListEnrollmentsQueryDto_def
  GrantConsentDto_def RevokeConsentDto_def CreateEvaluationDto_def UpdateEvaluationDto_def ListEvaluationsQueryDto_def
  CreateBeltExamDto_def UpdateBeltExamDto_def ListExamsQueryDto_def RegisterExamDto_def ExamResultDto_def
  ListExamRegistrationsQueryDto_def CreateLeaveRequestDto_def ReviewLeaveRequestDto_def ListLeaveRequestsQueryDto_def CreatePromotionProposalDto_def
  ReviewProposalDto_def UpdateProposalDto_def ListProposalsQueryDto_def CreateStudentDto_def UpdateStudentDto_def
  ListStudentsQueryDto_def LinkChildDto_def UpdateOwnStudentDto_def

section \<open>Validation\<close>

text \<open>
  \<^verbatim>\<open>Number(x)\<close> of a converted property, \<^term>\<open>None\<close> being \<^verbatim>\<open>NaN\<close>; \<^verbatim>\<open>String(x)\<close> of an element; the string tests; and whether
  a value converts to a valid date.
\<close>

record validator_lib =
  vl_number :: "json \<Rightarrow> json option"
  vl_string :: "json \<Rightarrow> string"
  vl_uuid :: "string \<Rightarrow> bool"
  vl_email :: "string \<Rightarrow> bool"
  vl_dateString :: "string \<Rightarrow> bool"
  vl_date :: "json \<Rightarrow> bool"

definition convert :: "validator_lib \<Rightarrow> conversion \<Rightarrow> json \<Rightarrow> json" where
  "convert L c v = (case c of
       Plain \<Rightarrow> v
     | ToNumber \<Rightarrow> if v = JNull then JNull else (case vl_number L v of Some n \<Rightarrow> n | None \<Rightarrow> JStr ''NaN'')
     | ToStrings \<Rightarrow> (case v of JArr xs \<Rightarrow> JArr (map (\<lambda>x. JStr (vl_string L x)) xs) | JNull \<Rightarrow> JNull | _ \<Rightarrow> JStr (vl_string L v)))"

definition str_test :: "(string \<Rightarrow> bool) \<Rightarrow> json \<Rightarrow> bool" where
  "str_test P v = (case v of JStr x \<Rightarrow> P x | _ \<Rightarrow> False)"

definition arr_test :: "(json list \<Rightarrow> bool) \<Rightarrow> json \<Rightarrow> bool" where
  "arr_test P v = (case v of JArr xs \<Rightarrow> P xs | _ \<Rightarrow> False)"

text \<open>
  The validators; a numeric bound reads a fraction by its floor. \<^verbatim>\<open>@ValidateNested\<close> descends into an object and into
  each element of an array, and passes over null. A value conforms when it is an object with no
  property beyond the declared ones, and each declared one is optional and missing or passes.
\<close>

fun holds :: "validator_lib \<Rightarrow> rule \<Rightarrow> json \<Rightarrow> bool"
  and conforms :: "validator_lib \<Rightarrow> dto \<Rightarrow> json \<Rightarrow> bool"
  and passes :: "validator_lib \<Rightarrow> field \<Rightarrow> json option \<Rightarrow> bool" where
  "holds L IsString v = str_test (\<lambda>_. True) v"
| "holds L IsInt v = (case v of JNum _ \<Rightarrow> True | _ \<Rightarrow> False)"
| "holds L IsUUID v = str_test (vl_uuid L) v"
| "holds L IsUUID_each v = arr_test (list_all (str_test (vl_uuid L))) v"
| "holds L IsEmail v = str_test (vl_email L) v"
| "holds L IsDateString v = str_test (vl_dateString L) v"
| "holds L IsDate v = vl_date L v"
| "holds L IsBoolean v = (case v of JBool _ \<Rightarrow> True | _ \<Rightarrow> False)"
| "holds L (IsIn xs) v = str_test (\<lambda>x. x \<in> set xs) v"
| "holds L (MinV k) v = (case v of JNum n \<Rightarrow> k \<le> n | JFrac n _ \<Rightarrow> k \<le> n | _ \<Rightarrow> False)"
| "holds L (MaxV k) v = (case v of JNum n \<Rightarrow> n \<le> k | JFrac n _ \<Rightarrow> n < k | _ \<Rightarrow> False)"
| "holds L (MinLength k) v = str_test (\<lambda>x. k \<le> length x) v"
| "holds L (MaxLength k) v = str_test (\<lambda>x. length x \<le> k) v"
| "holds L (Matches p) v = str_test p v"
| "holds L (ArrayMinSize k) v = arr_test (\<lambda>xs. k \<le> length xs) v"
| "holds L (ArrayMaxSize k) v = arr_test (\<lambda>xs. length xs \<le> k) v"
| "holds L (Nested d) v = (case v of JNull \<Rightarrow> True | JObj kvs \<Rightarrow> conforms L d (JObj kvs)
     | JArr xs \<Rightarrow> list_all (\<lambda>x. conforms L d x) xs | _ \<Rightarrow> False)"
| "conforms L (Dto fs) v = (case v of
       JObj kvs \<Rightarrow> list_all (\<lambda>kv. fst kv \<in> field_name ` set fs) kvs \<and> list_all (\<lambda>f. passes L f (json_get (JObj kvs) (field_name f))) fs
     | _ \<Rightarrow> False)"
| "passes L (Field n opt c rules) x = (case x of
       None \<Rightarrow> opt \<or> list_all (\<lambda>r. case r of Nested _ \<Rightarrow> True | _ \<Rightarrow> False) rules
     | Some v \<Rightarrow> opt \<and> v = JNull \<or> list_all (\<lambda>r. holds L r (convert L c v)) rules)"

lemma conforms_field:
  assumes "conforms L d v" and "f \<in> set (fields_of d)"
  shows "passes L f (json_get v (field_name f))"
  using assms by (cases d; cases v) (simp_all add: list_all_iff)

lemma conforms_required:
  assumes "conforms L d v" and "Field n False c rules \<in> set (fields_of d)" and "\<exists>r \<in> set rules. \<forall>x. r \<noteq> Nested x"
  shows "\<exists>x. json_get v n = Some x \<and> (\<forall>r \<in> set rules. holds L r (convert L c x))"
proof (cases "json_get v n")
  case None
  then show ?thesis using conforms_field [OF assms(1,2)] assms(3) by (auto simp: list_all_iff split: rule.splits)
next
  case (Some x)
  then show ?thesis using conforms_field [OF assms(1,2)] by (simp add: list_all_iff)
qed

lemma conforms_optional:
  assumes "conforms L d v" and "Field n True c rules \<in> set (fields_of d)"
    and "json_get v n = Some x" and "x \<noteq> JNull"
  shows "\<forall>r \<in> set rules. holds L r (convert L c x)"
  using conforms_field [OF assms(1,2)] assms(3,4) by (simp add: list_all_iff)

section \<open>Decoding\<close>

text \<open>What the services read of an accepted body.\<close>

definition num_of :: "json \<Rightarrow> int" where
  "num_of v = (case v of JNum n \<Rightarrow> n | _ \<Rightarrow> 0)"

definition str_of :: "json \<Rightarrow> string" where
  "str_of v = (case v of JStr x \<Rightarrow> x | _ \<Rightarrow> [])"

definition required :: "validator_lib \<Rightarrow> conversion \<Rightarrow> json \<Rightarrow> string \<Rightarrow> json" where
  "required L c v n = (case json_get v n of Some x \<Rightarrow> convert L c x | None \<Rightarrow> JNull)"

definition optional :: "validator_lib \<Rightarrow> conversion \<Rightarrow> json \<Rightarrow> string \<Rightarrow> json supplied" where
  "optional L c v n = (case json_get v n of None \<Rightarrow> Undefined | Some x \<Rightarrow> if x = JNull then Null else Given (convert L c x))"

definition decode_item :: "validator_lib \<Rightarrow> json \<Rightarrow> item_dto" where
  "decode_item L v = \<lparr> itd_description = str_of (required L Plain v ''description''),
     itd_quantity = num_of (required L ToNumber v ''quantity''), itd_unitAmount = num_of (required L ToNumber v ''unitAmount'') \<rparr>"

definition decode_type :: "string \<Rightarrow> invoice_type" where
  "decode_type x = (if x = ''TUITION'' then TUITION else if x = ''EXAM_FEE'' then EXAM_FEE else if x = ''UNIFORM'' then UNIFORM else OTHER)"

definition decode_invoice :: "validator_lib \<Rightarrow> (string \<Rightarrow> instant) \<Rightarrow> json \<Rightarrow> create_invoice_dto" where
  "decode_invoice L date v = \<lparr> civ_studentId = str_of (required L Plain v ''studentId''),
     civ_type = decode_type (str_of (required L Plain v ''type'')),
     civ_items = (case required L Plain v ''items'' of JArr xs \<Rightarrow> map (decode_item L) xs | _ \<Rightarrow> []),
     civ_discount = map_option num_of (column_of (optional L ToNumber v ''discount'')),
     civ_dueDate = map_supplied (\<lambda>x. date (str_of x)) (optional L Plain v ''dueDate''),
     civ_note = map_option str_of (column_of (optional L Plain v ''note'')),
     civ_periodMonth = map_supplied num_of (optional L ToNumber v ''periodMonth''),
     civ_periodYear = map_supplied num_of (optional L ToNumber v ''periodYear''),
     civ_discountCode = map_supplied str_of (optional L Plain v ''discountCode'') \<rparr>"

definition decode_discount :: "validator_lib \<Rightarrow> (json \<Rightarrow> instant) \<Rightarrow> json \<Rightarrow> create_discount_dto" where
  "decode_discount L date v = \<lparr> cdc_code = str_of (required L Plain v ''code''),
     cdc_description = map_option str_of (column_of (optional L Plain v ''description'')),
     cdc_percentOff = map_supplied num_of (optional L ToNumber v ''percentOff''),
     cdc_amountOff = map_supplied num_of (optional L ToNumber v ''amountOff''),
     cdc_validFrom = date (required L Plain v ''validFrom''), cdc_validUntil = date (required L Plain v ''validUntil'') \<rparr>"

text \<open>
  The page and the limit of a list query: the initializers of the class give the defaults, which a property
  that is present replaces, null included.
\<close>

definition initialised :: "'a \<Rightarrow> 'a supplied \<Rightarrow> 'a supplied" where
  "initialised k x = (if x = Undefined then Given k else x)"

definition page_query :: "validator_lib \<Rightarrow> json \<Rightarrow> int supplied \<times> int supplied" where
  "page_query L v = (initialised 1 (map_supplied num_of (optional L ToNumber v ''page'')),
     initialised 20 (map_supplied num_of (optional L ToNumber v ''limit'')))"

section \<open>Accepted values\<close>

lemma column_of_map [simp]: "column_of (map_supplied f x) = map_option f (column_of x)"
  by (cases x) simp_all

text \<open>No declared property is null.\<close>

definition null_free :: "dto \<Rightarrow> json \<Rightarrow> bool" where
  "null_free d v \<longleftrightarrow> list_all (\<lambda>f. json_get v (field_name f) \<noteq> Some JNull) (fields_of d)"

lemma optional_not_null:
  assumes "null_free d v" and "Field n opt c' rules \<in> set (fields_of d)"
  shows "optional L c v n \<noteq> Null"
  using assms by (force simp: null_free_def list_all_iff optional_def split: option.splits)

lemma given_range:
  assumes "case map_option f (column_of x) of None \<Rightarrow> True | Some k \<Rightarrow> P k" and "x \<noteq> Null" and "map_supplied f x \<noteq> Undefined"
  shows "\<exists>k. map_supplied f x = Given k \<and> P k"
  using assms by (cases x) simp_all

lemma optional_int:
  assumes "conforms L d v" and "Field n True ToNumber [IsInt, MinV a, MaxV b] \<in> set (fields_of d)"
  shows "case map_option num_of (column_of (optional L ToNumber v n)) of None \<Rightarrow> True | Some k \<Rightarrow> a \<le> k \<and> k \<le> b"
proof (cases "json_get v n")
  case (Some x)
  show ?thesis
  proof (cases "x = JNull")
    case False
    then have "\<forall>r \<in> set [IsInt, MinV a, MaxV b]. holds L r (convert L ToNumber x)"
      using conforms_optional [OF assms Some] by simp
    then show ?thesis using Some False by (auto simp: optional_def num_of_def split: json.splits)
  qed (simp add: optional_def Some)
qed (simp add: optional_def)

lemma required_int:
  assumes "conforms L d v" and "Field n False ToNumber [IsInt, MinV a, MaxV b] \<in> set (fields_of d)"
  shows "a \<le> num_of (required L ToNumber v n) \<and> num_of (required L ToNumber v n) \<le> b"
proof -
  obtain x where x: "json_get v n = Some x" "\<forall>r \<in> set [IsInt, MinV a, MaxV b]. holds L r (convert L ToNumber x)"
    using conforms_required [OF assms] by auto
  then show ?thesis by (auto simp: required_def num_of_def split: json.splits)
qed

lemma items_accepted:
  assumes "conforms L CreateInvoiceDto v"
  obtains xs where "required L Plain v ''items'' = JArr xs" "1 \<le> length xs" "length xs \<le> 50" "\<forall>x \<in> set xs. conforms L CreateInvoiceItemDto x"
proof -
  have "Field ''items'' False Plain [ArrayMinSize 1, ArrayMaxSize 50, Nested CreateInvoiceItemDto] \<in> set (fields_of CreateInvoiceDto)"
    by (simp add: CreateInvoiceDto_def)
  from conforms_required [OF assms this] obtain x where x: "json_get v ''items'' = Some x"
    "\<forall>r \<in> set [ArrayMinSize 1, ArrayMaxSize 50, Nested CreateInvoiceItemDto]. holds L r (convert L Plain x)" by auto
  obtain xs where xs: "x = JArr xs" using x(2) by (cases x) (auto simp: convert_def arr_test_def)
  then show thesis using x that [of xs] by (simp add: required_def convert_def arr_test_def list_all_iff)
qed

lemma invoice_body_valid:
  assumes "conforms L CreateInvoiceDto v"
  shows "valid_create_invoice_dto (decode_invoice L date v)"
proof -
  obtain xs where xs: "required L Plain v ''items'' = JArr xs" "1 \<le> length xs" "length xs \<le> 50"
    "\<forall>x \<in> set xs. conforms L CreateInvoiceItemDto x" using items_accepted [OF assms] by blast
  have q: "1 \<le> itd_quantity (decode_item L x) \<and> itd_quantity (decode_item L x) \<le> 1000 \<and>
      0 \<le> itd_unitAmount (decode_item L x) \<and> itd_unitAmount (decode_item L x) \<le> 1000000000" if "x \<in> set xs" for x
    using required_int [of L CreateInvoiceItemDto x "''quantity''" 1 1000]
      required_int [of L CreateInvoiceItemDto x "''unitAmount''" 0 1000000000] xs(4) that
    by (simp add: decode_item_def CreateInvoiceItemDto_def)
  note o = optional_int [OF assms]
  have "case civ_discount (decode_invoice L date v) of None \<Rightarrow> True | Some d \<Rightarrow> 0 \<le> d \<and> d \<le> 1000000000"
    "case column_of (civ_periodMonth (decode_invoice L date v)) of None \<Rightarrow> True | Some m \<Rightarrow> 1 \<le> m \<and> m \<le> 12"
    "case column_of (civ_periodYear (decode_invoice L date v)) of None \<Rightarrow> True | Some y \<Rightarrow> 2000 \<le> y \<and> y \<le> 2100"
    using o [of "''discount''" 0 1000000000] o [of "''periodMonth''" 1 12] o [of "''periodYear''" 2000 2100]
    by (simp_all add: decode_invoice_def CreateInvoiceDto_def)
  moreover have "civ_items (decode_invoice L date v) = map (decode_item L) xs" by (simp add: decode_invoice_def xs)
  moreover have "xs \<noteq> []" using xs(2) by auto
  ultimately show ?thesis using xs(3) q unfolding valid_create_invoice_dto_def by (simp add: list_all_iff)
qed

lemma line_amount_safe:
  assumes "valid_create_invoice_dto dto" and "i \<in> set (civ_items dto)"
  shows "is_safe_integer (itd_quantity i * itd_unitAmount i)"
proof -
  have b: "1 \<le> itd_quantity i" "itd_quantity i \<le> 1000" "0 \<le> itd_unitAmount i" "itd_unitAmount i \<le> 1000000000"
    using assms unfolding valid_create_invoice_dto_def by (auto simp: list_all_iff)
  then have "itd_quantity i * itd_unitAmount i \<le> 1000 * 1000000000" "0 \<le> itd_quantity i * itd_unitAmount i"
    using mult_mono [OF b(2) b(4)] by simp_all
  then show ?thesis by (simp add: is_safe_integer_def)
qed

lemma discount_body_valid:
  assumes "conforms L CreateDiscountCodeDto v"
  shows "valid_create_discount_dto (decode_discount L date v)"
proof -
  have "Field ''code'' False Plain [IsString, MaxLength 40] \<in> set (fields_of CreateDiscountCodeDto)" by (simp add: CreateDiscountCodeDto_def)
  from conforms_required [OF assms this] obtain x where x: "json_get v ''code'' = Some x"
    "\<forall>r \<in> set [IsString, MaxLength 40]. holds L r (convert L Plain x)" by auto
  then have "length (str_of (required L Plain v ''code'')) \<le> 40"
    by (auto simp: required_def convert_def str_of_def str_test_def split: json.splits)
  then show ?thesis
    using optional_int [OF assms, of "''percentOff''" 1 100] optional_int [OF assms, of "''amountOff''" 1000 1000000000]
    by (simp add: valid_create_discount_dto_def decode_discount_def CreateDiscountCodeDto_def)
qed

lemma page_valid:
  assumes "conforms L d v" and "set (fields_of PageDto) \<subseteq> set (fields_of d)" and "null_free d v"
  shows "\<exists>page limit. page_query L v = (Given page, Given limit) \<and> 1 \<le> page \<and> 1 \<le> limit \<and> limit \<le> 100"
proof -
  have f: "Field ''page'' True ToNumber [IsInt, MinV 1] \<in> set (fields_of d)"
    "Field ''limit'' True ToNumber [IsInt, MinV 1, MaxV 100] \<in> set (fields_of d)" using assms(2) by (auto simp: PageDto_def)
  have "\<exists>page. fst (page_query L v) = Given page \<and> 1 \<le> page"
  proof (cases "optional L ToNumber v ''page''")
    case Undefined
    then show ?thesis by (simp add: page_query_def initialised_def)
  next
    case Null
    then show ?thesis using optional_not_null [OF assms(3) f(1)] by blast
  next
    case (Given y)
    then obtain x where x: "json_get v ''page'' = Some x" "x \<noteq> JNull" "y = convert L ToNumber x"
      by (auto simp: optional_def split: option.splits if_splits)
    then show ?thesis using conforms_optional [OF assms(1) f(1) x(1,2)] Given
      by (auto simp: page_query_def initialised_def num_of_def split: json.splits)
  qed
  moreover have "\<exists>limit. snd (page_query L v) = Given limit \<and> 1 \<le> limit \<and> limit \<le> 100"
    using optional_int [OF assms(1) f(2)] optional_not_null [OF assms(3) f(2), of L ToNumber]
    by (cases "optional L ToNumber v ''limit''") (simp_all add: page_query_def initialised_def)
  ultimately show ?thesis by (metis prod.collapse)
qed

lemma period_given:
  assumes "conforms L CreateInvoiceDto v" and "null_free CreateInvoiceDto v"
    and "civ_type (decode_invoice L date v) = TUITION" and "check_period (decode_invoice L date v) = Inr ()"
  shows "\<exists>m y. civ_periodMonth (decode_invoice L date v) = Given m \<and> civ_periodYear (decode_invoice L date v) = Given y \<and>
    1 \<le> m \<and> m \<le> 12 \<and> 2000 \<le> y \<and> y \<le> 2100"
proof -
  have f: "Field ''periodMonth'' True ToNumber [IsInt, MinV 1, MaxV 12] \<in> set (fields_of CreateInvoiceDto)"
    "Field ''periodYear'' True ToNumber [IsInt, MinV 2000, MaxV 2100] \<in> set (fields_of CreateInvoiceDto)" by (simp_all add: CreateInvoiceDto_def)
  have "civ_periodMonth (decode_invoice L date v) \<noteq> Undefined" "civ_periodYear (decode_invoice L date v) \<noteq> Undefined"
    using assms(3,4) by (auto simp: check_period_def split: if_splits)
  then have u: "map_supplied num_of (optional L ToNumber v ''periodMonth'') \<noteq> Undefined"
    "map_supplied num_of (optional L ToNumber v ''periodYear'') \<noteq> Undefined" by (simp_all add: decode_invoice_def)
  show ?thesis
    using given_range [OF optional_int [OF assms(1) f(1)] optional_not_null [OF assms(2) f(1)] u(1)]
      given_range [OF optional_int [OF assms(1) f(2)] optional_not_null [OF assms(2) f(2)] u(2)]
    by (auto simp: decode_invoice_def)
qed

lemma due_and_code_given:
  assumes "null_free CreateInvoiceDto v"
  shows "civ_dueDate (decode_invoice L date v) \<noteq> Null" and "civ_discountCode (decode_invoice L date v) \<noteq> Null"
proof -
  have "Field ''dueDate'' True Plain [IsDateString] \<in> set (fields_of CreateInvoiceDto)"
    "Field ''discountCode'' True Plain [IsString, MaxLength 40] \<in> set (fields_of CreateInvoiceDto)" by (simp_all add: CreateInvoiceDto_def)
  note n = this [THEN optional_not_null [OF assms]]
  show "civ_dueDate (decode_invoice L date v) \<noteq> Null" "civ_discountCode (decode_invoice L date v) \<noteq> Null"
    using n(1) [of L Plain] n(2) [of L Plain]
    by (cases "optional L Plain v ''dueDate''"; cases "optional L Plain v ''discountCode''"; simp add: decode_invoice_def)+
qed

lemma reduction_given:
  assumes "conforms L CreateDiscountCodeDto v" and "null_free CreateDiscountCodeDto v"
  shows "cdc_percentOff (decode_discount L moment v) \<noteq> Undefined \<Longrightarrow>
      \<exists>p. cdc_percentOff (decode_discount L moment v) = Given p \<and> 1 \<le> p \<and> p \<le> 100"
    and "cdc_amountOff (decode_discount L moment v) \<noteq> Undefined \<Longrightarrow>
      \<exists>a. cdc_amountOff (decode_discount L moment v) = Given a \<and> 1000 \<le> a \<and> a \<le> 1000000000"
proof -
  have f: "Field ''percentOff'' True ToNumber [IsInt, MinV 1, MaxV 100] \<in> set (fields_of CreateDiscountCodeDto)"
    "Field ''amountOff'' True ToNumber [IsInt, MinV 1000, MaxV 1000000000] \<in> set (fields_of CreateDiscountCodeDto)"
    by (simp_all add: CreateDiscountCodeDto_def)
  show "\<exists>p. cdc_percentOff (decode_discount L moment v) = Given p \<and> 1 \<le> p \<and> p \<le> 100"
    if "cdc_percentOff (decode_discount L moment v) \<noteq> Undefined"
    using given_range [OF optional_int [OF assms(1) f(1)] optional_not_null [OF assms(2) f(1)]] that by (simp add: decode_discount_def)
  show "\<exists>a. cdc_amountOff (decode_discount L moment v) = Given a \<and> 1000 \<le> a \<and> a \<le> 1000000000"
    if "cdc_amountOff (decode_discount L moment v) \<noteq> Undefined"
    using given_range [OF optional_int [OF assms(1) f(2)] optional_not_null [OF assms(2) f(2)]] that by (simp add: decode_discount_def)
qed

section \<open>Sizes\<close>

text \<open>Text that passes one of the format tests.\<close>

definition recognised :: "validator_lib \<Rightarrow> string \<Rightarrow> bool" where
  "recognised L x \<longleftrightarrow> vl_uuid L x \<or> vl_email L x \<or> vl_dateString L x \<or> vl_date L (JStr x) \<or> hh_mm x \<or> year_month x"

fun bounded_rule :: "rule \<Rightarrow> bool" where
  "bounded_rule IsString = False"
| "bounded_rule (IsIn xs) = list_all (\<lambda>x. length x \<le> 10000) xs"
| "bounded_rule (MinV _) = False"
| "bounded_rule (MaxV _) = False"
| "bounded_rule (MinLength _) = False"
| "bounded_rule (MaxLength k) = (k \<le> 10000)"
| "bounded_rule (Matches p) = (p = hh_mm \<or> p = year_month)"
| "bounded_rule _ = True"

fun bounded_field :: "field \<Rightarrow> bool" where
  "bounded_field (Field n opt c rules) = list_ex bounded_rule rules"

definition unbounded_text :: "(string \<times> string) list" where
  "unbounded_text = [(''BankAccountDto'', ''ownerType''), (''ListProposalsQueryDto'', ''status''), (''ListStudentsQueryDto'', ''search'')]"

lemma unbounded_text_exact:
  "concat (map (\<lambda>(n, d). map (\<lambda>f. (n, field_name f)) (filter (\<lambda>f. \<not> bounded_field f) (fields_of d))) all_dtos) = unbounded_text"
  by (simp add: all_dtos_def dto_defs unbounded_text_def)

lemma bounded_rule_text:
  assumes "bounded_rule r" and "holds L r (JStr x)"
  shows "length x \<le> 10000 \<or> recognised L x"
  using assms by (cases r) (auto simp: str_test_def arr_test_def recognised_def list_all_iff)

lemma bounded_text:
  assumes "(n, d) \<in> set all_dtos" and "conforms L d v" and "Field k opt Plain rules \<in> set (fields_of d)"
    and "json_get v k = Some (JStr x)" and "(n, k) \<notin> set unbounded_text"
  shows "length x \<le> 10000 \<or> recognised L x"
proof -
  let ?f = "Field k opt Plain rules"
  have "(n, k) \<in> set unbounded_text" if u: "\<not> bounded_field ?f"
  proof -
    have "?f \<in> set (filter (\<lambda>f. \<not> bounded_field f) (fields_of d))" using assms(3) u by (simp del: bounded_field.simps)
    then have "(n, field_name ?f) \<in> set (map (\<lambda>f. (n, field_name f)) (filter (\<lambda>f. \<not> bounded_field f) (fields_of d)))"
      unfolding set_map by (rule imageI)
    then have "(n, k) \<in> set ((\<lambda>(n, d). map (\<lambda>f. (n, field_name f)) (filter (\<lambda>f. \<not> bounded_field f) (fields_of d))) (n, d))"
      by simp
    then show ?thesis unfolding unbounded_text_exact [symmetric] set_concat set_map using assms(1) by blast
  qed
  then have "bounded_field ?f" using assms(5) by blast
  then obtain r where r: "r \<in> set rules" "bounded_rule r" by (auto simp: list_ex_iff)
  have "passes L ?f (Some (JStr x))" using conforms_field [OF assms(2,3)] assms(4) by simp
  then have "holds L r (JStr x)" using r(1) by (auto simp: list_all_iff convert_def)
  then show ?thesis by (rule bounded_rule_text [OF r(2)])
qed


text \<open>A tuition invoice with two lines.\<close>

definition lib0 :: validator_lib where
  "lib0 = \<lparr> vl_number = Some, vl_string = str_of, vl_uuid = (\<lambda>x. x = ''uuid''), vl_email = (\<lambda>_. False), vl_dateString = (\<lambda>_. True),
     vl_date = (\<lambda>_. True) \<rparr>"

definition body0 :: json where
  "body0 = JObj [(''studentId'', JStr ''uuid''), (''type'', JStr ''TUITION''), (''discount'', JNum 50000),
     (''periodMonth'', JNum 3), (''periodYear'', JNum 2026),
     (''items'', JArr [JObj [(''description'', JStr ''Uniform''), (''quantity'', JNum 2), (''unitAmount'', JNum 300000)],
       JObj [(''description'', JStr ''Belt''), (''quantity'', JNum 1), (''unitAmount'', JNum 50000)]])]"

lemma body0_conforms: "conforms lib0 CreateInvoiceDto body0"
  by (simp add: CreateInvoiceDto_def CreateInvoiceItemDto_def body0_def lib0_def str_test_def arr_test_def convert_def)


text \<open>
  What null does where the service tests for \<^verbatim>\<open>undefined\<close>: a tuition body whose period is null is accepted, passes the
  check of the period and gives an invoice without one; a due date of null is the epoch; and a code of
  null is a \<^verbatim>\<open>TypeError\<close>, which the filter answers with 500.
\<close>

definition null_body :: json where
  "null_body = JObj [(''studentId'', JStr ''uuid''), (''type'', JStr ''TUITION''), (''periodMonth'', JNull), (''periodYear'', JNull),
     (''dueDate'', JNull), (''discountCode'', JNull),
     (''items'', JArr [JObj [(''description'', JStr ''Tuition''), (''quantity'', JNum 1), (''unitAmount'', JNum 300000)]])]"

theorem null_body_accepted:
  "conforms lib0 CreateInvoiceDto null_body \<and> check_period (decode_invoice lib0 date null_body) = Inr () \<and>
   column_of (civ_periodMonth (decode_invoice lib0 date null_body)) = None \<and> due_date (decode_invoice lib0 date null_body) now = 0 \<and>
   discount_of (decode_invoice lib0 date null_body) subtotal now s = Inl (OtherError ''TypeError'')"
proof (intro conjI)
  have d: "civ_type (decode_invoice lib0 date null_body) = TUITION" "civ_periodMonth (decode_invoice lib0 date null_body) = Null"
    "civ_periodYear (decode_invoice lib0 date null_body) = Null" "civ_dueDate (decode_invoice lib0 date null_body) = Null"
    "civ_discountCode (decode_invoice lib0 date null_body) = Null"
    by (simp_all add: decode_invoice_def required_def optional_def null_body_def convert_def str_of_def decode_type_def)
  show "conforms lib0 CreateInvoiceDto null_body"
    by (simp add: CreateInvoiceDto_def CreateInvoiceItemDto_def null_body_def lib0_def str_test_def arr_test_def convert_def)
  show "check_period (decode_invoice lib0 date null_body) = Inr ()" "column_of (civ_periodMonth (decode_invoice lib0 date null_body)) = None"
    "due_date (decode_invoice lib0 date null_body) now = 0" "discount_of (decode_invoice lib0 date null_body) subtotal now s = Inl (OtherError ''TypeError'')"
    by (simp_all add: check_period_def due_date_def discount_of_def d)
qed

text \<open>A settings body without an account is accepted: \<^verbatim>\<open>@ValidateNested\<close> passes over a missing value.\<close>

lemma missing_account_accepted: "conforms L UpdateBankAccountDto (JObj [])"
  by (simp add: UpdateBankAccountDto_def)

text \<open>Any text is accepted as the status of a list of proposals, and any integer as the rank of an exam.\<close>

lemma proposal_status_unchecked: "conforms L ListProposalsQueryDto (JObj [(''status'', JStr x)])"
  by (simp add: ListProposalsQueryDto_def PageDto_def str_test_def convert_def)

text \<open>Null is accepted for an optional property, also where the column of an update does not allow it.\<close>

lemma null_name_accepted: "conforms L UpdateClassDto (JObj [(''name'', JNull)])"
  by (simp add: UpdateClassDto_def)

end
