(* ===== verification/Inputs.thy ===== *)
theory Inputs
  imports Dto
begin

text \<open>
  What the operations take: for every operation the DTO classes of its body and of its query, as the controllers
  declare them.
\<close>

section \<open>The parameters of the controllers\<close>

text \<open>An operation with the class of its \<^verbatim>\<open>@Body()\<close> and of its \<^verbatim>\<open>@Query()\<close> parameter.\<close>

type_synonym op_inputs = "string \<times> dto option \<times> dto option"

definition version_inputs :: "op_inputs list" where
  "version_inputs = [
     (''GET /version'', None, None)]"

definition health_inputs :: "op_inputs list" where
  "health_inputs = [
     (''GET /healthz'', None, None),
     (''GET /readyz'', None, None)]"

definition metrics_inputs :: "op_inputs list" where
  "metrics_inputs = [
     (''GET /metrics'', None, None)]"

definition auth_inputs :: "op_inputs list" where
  "auth_inputs = [
     (''POST /api/v1/auth/register'', Some RegisterDto, None),
     (''POST /api/v1/auth/login'', Some LoginDto, None),
     (''POST /api/v1/auth/refresh-token'', Some RefreshTokenDto, None),
     (''POST /api/v1/auth/verify-email'', Some VerifyEmailDto, None),
     (''POST /api/v1/auth/resend-verification'', Some EmailOnlyDto, None),
     (''POST /api/v1/auth/forgot-password'', Some EmailOnlyDto, None),
     (''POST /api/v1/auth/reset-password'', Some ResetPasswordDto, None),
     (''POST /api/v1/auth/logout'', None, None),
     (''POST /api/v1/auth/logout-all'', None, None),
     (''GET /api/v1/auth/sessions'', None, None),
     (''DELETE /api/v1/auth/sessions/{id}'', None, None),
     (''GET /api/v1/auth/me'', None, None),
     (''GET /api/v1/auth/me/audit-log'', None, Some PageDto),
     (''POST /api/v1/auth/change-password'', Some ChangePasswordDto, None),
     (''POST /api/v1/auth/change-email/request'', Some ChangeEmailRequestDto, None),
     (''POST /api/v1/auth/change-email/confirm'', Some ChangeEmailConfirmDto, None),
     (''POST /api/v1/auth/deactivate'', Some SensitiveOperationDto, None),
     (''DELETE /api/v1/auth/me'', Some SensitiveOperationDto, None),
     (''POST /api/v1/auth/mfa/login-verify'', Some MfaLoginVerifyDto, None),
     (''GET /api/v1/auth/mfa/methods'', None, None),
     (''POST /api/v1/auth/mfa/totp/enable'', None, None),
     (''POST /api/v1/auth/mfa/totp/verify'', Some TotpCodeDto, None),
     (''POST /api/v1/auth/mfa/totp/validate'', Some TotpCodeDto, None),
     (''POST /api/v1/auth/mfa/totp/disable'', Some TotpDisableDto, None),
     (''GET /api/v1/auth/mfa/totp/recovery-codes'', None, None)]"

definition admin_users_inputs :: "op_inputs list" where
  "admin_users_inputs = [
     (''GET /api/v1/users'', None, Some ListUsersQueryDto),
     (''POST /api/v1/users'', Some CreateUserDto, None),
     (''PATCH /api/v1/users/{id}'', Some UpdateUserDto, None),
     (''DELETE /api/v1/users/{id}'', None, None),
     (''GET /api/v1/admin/audit-log'', None, Some ListAuditLogQueryDto)]"

definition students_inputs :: "op_inputs list" where
  "students_inputs = [
     (''GET /api/v1/students/me'', None, None),
     (''PATCH /api/v1/students/me'', Some UpdateOwnStudentDto, None),
     (''GET /api/v1/students'', None, Some ListStudentsQueryDto),
     (''POST /api/v1/students'', Some CreateStudentDto, None),
     (''GET /api/v1/students/{id}'', None, None),
     (''PATCH /api/v1/students/{id}'', Some UpdateStudentDto, None),
     (''DELETE /api/v1/students/{id}'', None, None),
     (''POST /api/v1/students/{id}/invite-code'', None, None)]"

definition parents_inputs :: "op_inputs list" where
  "parents_inputs = [
     (''POST /api/v1/parents/link'', Some LinkChildDto, None),
     (''GET /api/v1/parents/me/children'', None, None),
     (''DELETE /api/v1/parents/links/{studentId}'', None, None)]"

definition classes_inputs :: "op_inputs list" where
  "classes_inputs = [
     (''GET /api/v1/classes'', None, Some ListClassesQueryDto),
     (''GET /api/v1/classes/{id}'', None, None),
     (''POST /api/v1/classes'', Some CreateClassDto, None),
     (''PATCH /api/v1/classes/{id}'', Some UpdateClassDto, None),
     (''POST /api/v1/classes/{id}/schedules'', Some CreateScheduleDto, None),
     (''DELETE /api/v1/classes/{id}/schedules/{scheduleId}'', None, None)]"

definition enrollments_inputs :: "op_inputs list" where
  "enrollments_inputs = [
     (''POST /api/v1/enrollments'', Some CreateEnrollmentDto, None),
     (''GET /api/v1/enrollments'', None, Some ListEnrollmentsQueryDto),
     (''DELETE /api/v1/enrollments/{id}'', None, None)]"

definition attendance_inputs :: "op_inputs list" where
  "attendance_inputs = [
     (''POST /api/v1/attendance-sessions'', Some CreateAttendanceSessionDto, None),
     (''POST /api/v1/attendance-sessions/{id}/records'', Some BulkAttendanceRecordsDto, None),
     (''GET /api/v1/attendance-sessions/{id}/records'', None, None),
     (''GET /api/v1/students/{id}/attendance'', None, Some AttendanceHistoryQueryDto),
     (''GET /api/v1/attendance/summary'', None, Some AttendanceSummaryQueryDto),
     (''GET /api/v1/admin/reports/attendance'', None, Some AttendanceReportQueryDto)]"

definition belts_inputs :: "op_inputs list" where
  "belts_inputs = [
     (''GET /api/v1/belt-ranks'', None, None),
     (''POST /api/v1/belt-ranks'', Some CreateBeltRankDto, None),
     (''PATCH /api/v1/belt-ranks/{id}'', Some UpdateBeltRankDto, None)]"

definition belt_reports_inputs :: "op_inputs list" where
  "belt_reports_inputs = [
     (''GET /api/v1/admin/reports/belts'', None, None)]"

definition exams_inputs :: "op_inputs list" where
  "exams_inputs = [
     (''GET /api/v1/belt-exams'', None, Some ListExamsQueryDto),
     (''GET /api/v1/belt-exams/{id}'', None, None),
     (''POST /api/v1/belt-exams'', Some CreateBeltExamDto, None),
     (''PATCH /api/v1/belt-exams/{id}'', Some UpdateBeltExamDto, None),
     (''POST /api/v1/belt-exams/{id}/register'', Some RegisterExamDto, None),
     (''GET /api/v1/exam-registrations'', None, Some ListExamRegistrationsQueryDto),
     (''POST /api/v1/exam-registrations/{id}/result'', Some ExamResultDto, None)]"

definition billing_inputs :: "op_inputs list" where
  "billing_inputs = [
     (''GET /api/v1/invoices'', None, Some ListInvoicesQueryDto),
     (''GET /api/v1/invoices/{id}'', None, None),
     (''POST /api/v1/invoices'', Some CreateInvoiceDto, None),
     (''POST /api/v1/admin/billing/generate-monthly'', Some GenerateMonthlyDto, None),
     (''GET /api/v1/admin/reports/revenue'', None, Some RevenueQueryDto),
     (''GET /api/v1/admin/reports/tuition'', None, Some TuitionReportQueryDto),
     (''GET /api/v1/admin/billing/settings'', None, None),
     (''PUT /api/v1/admin/billing/settings/tuition-rates'', Some UpdateTuitionRatesDto, None),
     (''PUT /api/v1/admin/billing/settings/bank-account'', Some UpdateBankAccountDto, None),
     (''GET /api/v1/discounts'', None, Some PageDto),
     (''POST /api/v1/discounts'', Some CreateDiscountCodeDto, None),
     (''PATCH /api/v1/discounts/{id}'', Some UpdateDiscountCodeDto, None),
     (''DELETE /api/v1/discounts/{id}'', None, None)]"

definition payments_inputs :: "op_inputs list" where
  "payments_inputs = [
     (''POST /api/v1/payments/qr/{invoiceId}'', None, None),
     (''POST /api/v1/payments/webhook/{provider}'', None, None),
     (''POST /api/v1/payments/{invoiceId}/confirm-cash'', Some ConfirmCashDto, None),
     (''PATCH /api/v1/payments/{id}'', Some PaymentOutcomeDto, None),
     (''GET /api/v1/payments'', None, Some ListPaymentsQueryDto)]"

definition notifications_inputs :: "op_inputs list" where
  "notifications_inputs = [
     (''GET /api/v1/notifications/me'', None, Some PageDto),
     (''POST /api/v1/admin/notifications/flush'', None, None),
     (''PATCH /api/v1/notifications/{id}/read'', None, None)]"

definition consent_inputs :: "op_inputs list" where
  "consent_inputs = [
     (''POST /api/v1/consent'', Some GrantConsentDto, None),
     (''POST /api/v1/consent/revoke'', Some RevokeConsentDto, None),
     (''GET /api/v1/consent/me'', None, None)]"

definition announcements_inputs :: "op_inputs list" where
  "announcements_inputs = [
     (''GET /api/v1/announcements'', None, Some ListAnnouncementsQueryDto),
     (''POST /api/v1/announcements'', Some CreateAnnouncementDto, None),
     (''PATCH /api/v1/announcements/{id}'', Some UpdateAnnouncementDto, None),
     (''DELETE /api/v1/announcements/{id}'', None, None)]"

definition leaves_inputs :: "op_inputs list" where
  "leaves_inputs = [
     (''POST /api/v1/leave-requests'', Some CreateLeaveRequestDto, None),
     (''GET /api/v1/leave-requests'', None, Some ListLeaveRequestsQueryDto),
     (''POST /api/v1/leave-requests/{id}/review'', Some ReviewLeaveRequestDto, None),
     (''POST /api/v1/leave-requests/{id}/cancel'', None, None),
     (''DELETE /api/v1/leave-requests/{id}'', None, None)]"

definition promotions_inputs :: "op_inputs list" where
  "promotions_inputs = [
     (''POST /api/v1/promotion-proposals'', Some CreatePromotionProposalDto, None),
     (''GET /api/v1/promotion-proposals'', None, Some ListProposalsQueryDto),
     (''PATCH /api/v1/promotion-proposals/{id}'', Some UpdateProposalDto, None),
     (''POST /api/v1/promotion-proposals/{id}/review'', Some ReviewProposalDto, None)]"

definition evaluations_inputs :: "op_inputs list" where
  "evaluations_inputs = [
     (''POST /api/v1/evaluations'', Some CreateEvaluationDto, None),
     (''GET /api/v1/evaluations'', None, Some ListEvaluationsQueryDto),
     (''PATCH /api/v1/evaluations/{id}'', Some UpdateEvaluationDto, None),
     (''DELETE /api/v1/evaluations/{id}'', None, None)]"

definition operation_inputs :: "op_inputs list" where
  "operation_inputs = version_inputs @ health_inputs @ metrics_inputs @ auth_inputs @ admin_users_inputs @ students_inputs @ parents_inputs @ classes_inputs @ enrollments_inputs @ attendance_inputs @ belts_inputs @ belt_reports_inputs @ exams_inputs @ billing_inputs @ payments_inputs @ notifications_inputs @ consent_inputs @ announcements_inputs @ leaves_inputs @ promotions_inputs @ evaluations_inputs"

lemmas inputs_tables = operation_inputs_def version_inputs_def health_inputs_def metrics_inputs_def auth_inputs_def admin_users_inputs_def students_inputs_def parents_inputs_def classes_inputs_def enrollments_inputs_def attendance_inputs_def belts_inputs_def belt_reports_inputs_def exams_inputs_def billing_inputs_def payments_inputs_def notifications_inputs_def consent_inputs_def announcements_inputs_def leaves_inputs_def promotions_inputs_def evaluations_inputs_def

end
