(* ===== verification/Contract.thy ===== *)
theory Contract
  imports Routes Schemas Inputs "HOL-Library.AList"
begin

text \<open>
  The committed API contract of \<^verbatim>\<open>src/openapi/contract.ts\<close> and its application to the generated document in
  \<^verbatim>\<open>src/openapi/enrich-openapi.ts\<close>, compared with the route tables. Summaries and descriptions are texts
  that are carried through and left out; in the examples a letter outside ASCII is written as a question mark.
\<close>

section \<open>The contract\<close>

datatype auth_kind = APublic | ABearer | AWebhook | AMetrics

text \<open>
  An entry: authentication class, roles, success status if stated, the schema of the response data, the
  statuses of the error catalogue, the query parameters with required flag and schema, and the request example.
\<close>

record op_contract =
  oc_auth :: auth_kind
  oc_roles :: "user_role list option"
  oc_status :: "int option"
  oc_data :: "schema option"
  oc_errors :: "int list"
  oc_query :: "(string \<times> bool \<times> schema) list"
  oc_example :: "json option"

definition op_meta :: "auth_kind \<Rightarrow> user_role list option \<Rightarrow> int option \<Rightarrow> schema option \<Rightarrow> int list \<Rightarrow>
    (string \<times> bool \<times> schema) list \<Rightarrow> json option \<Rightarrow> op_contract" where
  "op_meta a r st d es q ex = \<lparr> oc_auth = a, oc_roles = r, oc_status = st, oc_data = d, oc_errors = es, oc_query = q, oc_example = ex \<rparr>"

definition contract_1 :: "(string \<times> op_contract) list" where
  "contract_1 = [
     (''GET /version'', op_meta APublic None None
        (Some (SchObj False [''commit''] [(''commit'', (SchPattern ''^[a-fA-F0-9]{40}$'' True))]))
        [429] []
        None),
     (''GET /healthz'', op_meta APublic None None
        (Some (SchObj False [''status''] [(''status'', ct_s)]))
        [] []
        None),
     (''GET /readyz'', op_meta APublic None None
        (Some (SchObj False [''status'', ''database''] [(''status'', ct_s), (''database'', ct_s)]))
        [503] []
        None),
     (''GET /metrics'', op_meta AMetrics None None
        None
        [401, 404] []
        None),
     (''POST /api/v1/auth/register'', op_meta APublic None (Some 201)
        (Some (SchObj False [''email'', ''requiresVerification''] [(''email'', ct_s), (''requiresVerification'', ct_b)]))
        [400, 429] []
        (Some (JObj [(''email'', JStr ''thao.vovan@example.com''), (''password'', JStr ''VoSinh2026!x''), (''role'', JStr ''STUDENT''),
            (''fullName'', JStr ''V? V?n Th?o''), (''dateOfBirth'', JStr ''2008-05-14''), (''phone'', JStr ''+84901234567'')]))),
     (''POST /api/v1/auth/login'', op_meta APublic None None
        (Some loginData)
        [400, 401, 429] []
        (Some (JObj [(''email'', JStr ''thao.vovan@example.com''), (''password'', JStr ''VoSinh2026!x'')]))),
     (''POST /api/v1/auth/refresh-token'', op_meta APublic None None
        (Some ct_Tokens)
        [400, 401, 429] []
        (Some (JObj [(''refreshToken'', JStr ''EXAMPLE_REFRESH_TOKEN_NOT_A_SECRET'')]))),
     (''POST /api/v1/auth/verify-email'', op_meta APublic None None
        (Some (SchObj False [''emailVerified''] [(''emailVerified'', ct_b)]))
        [400, 401, 429] []
        (Some (JObj [(''token'', JStr ''8f1c...a9'')]))),
     (''POST /api/v1/auth/resend-verification'', op_meta APublic None None
        (Some (SchObj False [''sent''] [(''sent'', ct_b)]))
        [400, 429] []
        (Some (JObj [(''email'', JStr ''thao.vovan@example.com'')]))),
     (''POST /api/v1/auth/forgot-password'', op_meta APublic None None
        (Some (SchObj False [''sent''] [(''sent'', ct_b)]))
        [400, 429] []
        (Some (JObj [(''email'', JStr ''thao.vovan@example.com'')])))]"

definition contract_2 :: "(string \<times> op_contract) list" where
  "contract_2 = [
     (''POST /api/v1/auth/reset-password'', op_meta APublic None None
        (Some (SchObj False [''reset''] [(''reset'', ct_b)]))
        [400, 401, 429] []
        (Some (JObj [(''token'', JStr ''3b7e...c1''), (''password'', JStr ''VoSinh2026!y'')]))),
     (''POST /api/v1/auth/logout'', op_meta ABearer None None
        (Some (SchObj False [''loggedOut''] [(''loggedOut'', ct_b)]))
        [401, 429] []
        None),
     (''POST /api/v1/auth/logout-all'', op_meta ABearer None None
        (Some (SchObj False [''loggedOut''] [(''loggedOut'', ct_b)]))
        [401, 429] []
        None),
     (''GET /api/v1/auth/sessions'', op_meta ABearer None None
        (Some (SchArr (ct_ref ''SessionResponse'')))
        [401] []
        None),
     (''DELETE /api/v1/auth/sessions/{id}'', op_meta ABearer None None
        (Some (SchObj False [''revoked''] [(''revoked'', ct_b)]))
        [400, 401, 429] []
        None),
     (''GET /api/v1/auth/me'', op_meta ABearer None None
        (Some ct_PublicUser)
        [401] []
        None),
     (''GET /api/v1/auth/me/audit-log'', op_meta ABearer None None
        (Some auditPage)
        [401] [pageParam ''page'', pageParam ''limit'']
        None),
     (''POST /api/v1/auth/change-password'', op_meta ABearer None None
        (Some (SchObj False [''changed''] [(''changed'', ct_b)]))
        [400, 401, 429] []
        (Some (JObj [(''currentPassword'', JStr ''VoSinh2026!x''), (''newPassword'', JStr ''VoSinh2026!z''),
            (''code'', JStr ''492031'')]))),
     (''POST /api/v1/auth/change-email/request'', op_meta ABearer None None
        (Some (SchObj False [''sent''] [(''sent'', ct_b)]))
        [400, 401, 409, 429] []
        (Some (JObj [(''currentPassword'', JStr ''VoSinh2026!z''), (''newEmail'', JStr ''thao.vovan+new@example.com'')]))),
     (''POST /api/v1/auth/change-email/confirm'', op_meta APublic None None
        (Some (SchObj False [''changed''] [(''changed'', ct_b)]))
        [400, 401, 409, 429] []
        (Some (JObj [(''token'', JStr ''55ac...77'')]))),
     (''POST /api/v1/auth/deactivate'', op_meta ABearer None None
        (Some (SchObj False [''deactivated''] [(''deactivated'', ct_b)]))
        [400, 401, 429] []
        (Some (JObj [(''password'', JStr ''VoSinh2026!z''), (''code'', JStr ''492031'')]))),
     (''DELETE /api/v1/auth/me'', op_meta ABearer None None
        (Some (SchObj False [''deactivated''] [(''deactivated'', ct_b)]))
        [400, 401, 429] []
        (Some (JObj [(''password'', JStr ''VoSinh2026!z'')])))]"

definition contract_3 :: "(string \<times> op_contract) list" where
  "contract_3 = [
     (''POST /api/v1/auth/mfa/login-verify'', op_meta APublic None None
        (Some (SchObj False [''mfaRequired'', ''tokens'', ''user'']
         [(''mfaRequired'', ct_b), (''tokens'', ct_Tokens), (''user'', ct_PublicUser)]))
        [400, 401, 429] []
        (Some (JObj [(''mfaToken'', JStr ''EXAMPLE_MFA_TOKEN_NOT_A_SECRET''), (''code'', JStr ''492031'')]))),
     (''GET /api/v1/auth/mfa/methods'', op_meta ABearer None None
        (Some (SchArr mfaMethod))
        [401] []
        None),
     (''POST /api/v1/auth/mfa/totp/enable'', op_meta ABearer None None
        (Some (SchObj False [''otpauthUrl'', ''qrDataUrl''] [(''otpauthUrl'', ct_s), (''qrDataUrl'', ct_s)]))
        [401] []
        None),
     (''POST /api/v1/auth/mfa/totp/verify'', op_meta ABearer None None
        (Some (SchObj False [''recoveryCodes''] [(''recoveryCodes'', (SchArr (SchStr None False [])))]))
        [400, 401] []
        (Some (JObj [(''code'', JStr ''492031'')]))),
     (''POST /api/v1/auth/mfa/totp/validate'', op_meta ABearer None None
        (Some (SchObj False [''valid''] [(''valid'', ct_b)]))
        [400, 401] []
        (Some (JObj [(''code'', JStr ''492031'')]))),
     (''POST /api/v1/auth/mfa/totp/disable'', op_meta ABearer None None
        (Some (SchObj False [''disabled''] [(''disabled'', ct_b)]))
        [400, 401] []
        (Some (JObj [(''code'', JStr ''492031''), (''password'', JStr ''VoSinh2026!z'')]))),
     (''GET /api/v1/auth/mfa/totp/recovery-codes'', op_meta ABearer None None
        (Some (SchObj False [''remaining''] [(''remaining'', ct_i)]))
        [401] []
        None),
     (''GET /api/v1/users'', op_meta ABearer (Some [ADMIN]) None
        (Some (ct_page ct_UserAccount))
        [401, 403] [pageParam ''page'', pageParam ''limit'', (''role'', False, (ct_en [''ADMIN'', ''INSTRUCTOR'', ''STUDENT'',
            ''PARENT''])), (''search'', False, ct_s)]
        None),
     (''POST /api/v1/users'', op_meta ABearer (Some [ADMIN]) (Some 201)
        (Some ct_UserAccount)
        [400, 401, 403, 409] []
        (Some (JObj [(''email'', JStr ''hlv.hong@example.com''), (''password'', JStr ''VoSinh2026!a''),
            (''role'', JStr ''INSTRUCTOR''), (''fullName'', JStr ''Nguy?n Th? H?ng'')])))]"

definition contract_4 :: "(string \<times> op_contract) list" where
  "contract_4 = [
     (''PATCH /api/v1/users/{id}'', op_meta ABearer (Some [ADMIN]) None
        (Some ct_UserAccount)
        [400, 401, 403, 404] []
        (Some (JObj [(''role'', JStr ''INSTRUCTOR''), (''isActive'', JBool True)]))),
     (''DELETE /api/v1/users/{id}'', op_meta ABearer (Some [ADMIN]) None
        (Some (SchObj False [''id'', ''deactivated''] [(''id'', ct_s), (''deactivated'', ct_b)]))
        [400, 401, 403, 404] []
        None),
     (''GET /api/v1/admin/audit-log'', op_meta ABearer (Some [ADMIN]) None
        (Some auditPage)
        [401, 403] [pageParam ''page'', pageParam ''limit'', (''userId'', False, ct_uuid), (''event'', False, ct_s)]
        None),
     (''GET /api/v1/students/me'', op_meta ABearer (Some [STUDENT]) None
        (Some ct_Student)
        [401, 403, 404] []
        None),
     (''PATCH /api/v1/students/me'', op_meta ABearer (Some [STUDENT]) None
        (Some ct_Student)
        [400, 401, 403, 404] []
        (Some (JObj [(''phone'', JStr ''+84901234567''), (''address'', JStr ''12 Nguy?n Tr?i, Q.1, TP.HCM'')]))),
     (''GET /api/v1/students'', op_meta ABearer (Some [ADMIN, INSTRUCTOR]) None
        (Some (ct_page ct_Student))
        [401, 403] [pageParam ''page'', pageParam ''limit'', (''status'', False, (ct_en [''PENDING'', ''ACTIVE'', ''PAUSED'',
            ''LEFT''])), (''search'', False, ct_s), (''classId'', False, ct_uuid)]
        None),
     (''POST /api/v1/students'', op_meta ABearer (Some [ADMIN]) (Some 201)
        (Some ct_Student)
        [400, 401, 403, 404, 409] []
        (Some (JObj [(''fullName'', JStr ''V? V?n Th?o''), (''dob'', JStr ''2008-05-14''), (''gender'', JStr ''MALE''),
            (''phone'', JStr ''+84901234567''), (''medicalNotes'', JStr ''Mild asthma; inhaler in gym bag'')]))),
     (''GET /api/v1/students/{id}'', op_meta ABearer None None
        (Some ct_Student)
        [400, 401, 404] []
        None),
     (''PATCH /api/v1/students/{id}'', op_meta ABearer (Some [ADMIN]) None
        (Some ct_Student)
        [400, 401, 403, 404] []
        (Some (JObj [(''status'', JStr ''ACTIVE''), (''currentBeltRankId'', JNum 1)]))),
     (''DELETE /api/v1/students/{id}'', op_meta ABearer (Some [ADMIN]) None
        (Some (SchObj False [''deleted''] [(''deleted'', ct_b)]))
        [400, 401, 403, 404] []
        None)]"

definition contract_5 :: "(string \<times> op_contract) list" where
  "contract_5 = [
     (''POST /api/v1/students/{id}/invite-code'', op_meta ABearer (Some [ADMIN]) None
        (Some (SchObj False [''inviteCode''] [(''inviteCode'', ct_s)]))
        [400, 401, 403, 404] []
        None),
     (''POST /api/v1/parents/link'', op_meta ABearer (Some [PARENT]) (Some 201)
        (Some ct_Student)
        [400, 401, 403, 404, 409, 429] []
        (Some (JObj [(''inviteCode'', JStr ''K7M2PQ4X'')]))),
     (''GET /api/v1/parents/me/children'', op_meta ABearer (Some [PARENT]) None
        (Some (SchArr ct_Student))
        [401, 403] []
        None),
     (''DELETE /api/v1/parents/links/{studentId}'', op_meta ABearer (Some [PARENT]) None
        (Some (SchObj False [''unlinked''] [(''unlinked'', ct_b)]))
        [400, 401, 403, 404, 409] []
        None),
     (''GET /api/v1/classes'', op_meta ABearer None None
        (Some (ct_page ct_Class))
        [401] [pageParam ''page'', pageParam ''limit'', (''status'', False, (ct_en [''ACTIVE'', ''PAUSED'', ''ARCHIVED'']))]
        None),
     (''GET /api/v1/classes/{id}'', op_meta ABearer None None
        (Some ct_Class)
        [400, 401, 404] []
        None),
     (''POST /api/v1/classes'', op_meta ABearer (Some [ADMIN]) (Some 201)
        (Some ct_Class)
        [400, 401, 403, 404] []
        (Some (JObj [(''name'', JStr ''C? b?n A1 ? Th? 3/5''), (''instructorId'', JStr ''5f0c9d3a-1b2c-4d5e-8f90-1a2b3c4d5e6f''),
            (''location'', JStr ''S?n A ? CLB Q.1''), (''capacity'', JNum 30)]))),
     (''PATCH /api/v1/classes/{id}'', op_meta ABearer (Some [ADMIN]) None
        (Some ct_Class)
        [400, 401, 403, 404, 409] []
        (Some (JObj [(''capacity'', JNum 35)]))),
     (''POST /api/v1/classes/{id}/schedules'', op_meta ABearer (Some [ADMIN]) (Some 201)
        (Some (SchObj False [''id'', ''classId''] [(''id'', ct_s), (''classId'', ct_s)]))
        [400, 401, 403, 404] []
        (Some (JObj [(''weekday'', JNum 2), (''startTime'', JStr ''18:00''), (''endTime'', JStr ''19:30''),
            (''effectiveFrom'', JStr ''2026-09-01'')]))),
     (''DELETE /api/v1/classes/{id}/schedules/{scheduleId}'', op_meta ABearer (Some [ADMIN]) None
        (Some (SchObj False [''removed''] [(''removed'', ct_b)]))
        [400, 401, 403, 404] []
        None)]"

definition contract_6 :: "(string \<times> op_contract) list" where
  "contract_6 = [
     (''POST /api/v1/enrollments'', op_meta ABearer (Some [ADMIN]) (Some 201)
        (Some ct_Enrollment)
        [400, 401, 403, 404, 409] []
        (Some (JObj [(''studentId'', JStr ''c0a80101-7154-4b6d-8f3d-2f1e0d9c9a01''),
            (''classId'', JStr ''9b1deb4d-3b7d-4bad-9bdd-2b0d7b3dcb6d'')]))),
     (''GET /api/v1/enrollments'', op_meta ABearer (Some [ADMIN]) None
        (Some (ct_page ct_Enrollment))
        [401, 403] [pageParam ''page'', pageParam ''limit'', (''classId'', False, ct_uuid), (''studentId'', False, ct_uuid)]
        None),
     (''DELETE /api/v1/enrollments/{id}'', op_meta ABearer (Some [ADMIN]) None
        (Some (SchObj False [''left''] [(''left'', ct_b)]))
        [400, 401, 403, 404] []
        None),
     (''POST /api/v1/attendance-sessions'', op_meta ABearer (Some [ADMIN, INSTRUCTOR]) (Some 201)
        (Some ct_AttendanceSession)
        [400, 401, 403, 404, 409] []
        (Some (JObj [(''classId'', JStr ''9b1deb4d-3b7d-4bad-9bdd-2b0d7b3dcb6d''), (''sessionDate'', JStr ''2026-09-22''),
            (''topic'', JStr ''??n th? s? 5-6, ph?n ??n'')]))),
     (''POST /api/v1/attendance-sessions/{id}/records'', op_meta ABearer (Some [ADMIN, INSTRUCTOR]) None
        (Some (SchArr ct_AttendanceRecord))
        [400, 401, 403, 404] []
        (Some (JObj [(''records'', JArr [JObj [(''studentId'', JStr ''c0a80101-7154-4b6d-8f3d-2f1e0d9c9a01''),
            (''status'', JStr ''PRESENT'')], JObj [(''studentId'', JStr ''c0a80101-7154-4b6d-8f3d-2f1e0d9c9a02''),
            (''status'', JStr ''LATE''), (''note'', JStr ''Came 10 min late'')]])]))),
     (''GET /api/v1/attendance-sessions/{id}/records'', op_meta ABearer (Some [ADMIN, INSTRUCTOR]) None
        (Some (SchObj False [''items'', ''total'']
         [(''items'', (SchArr ct_AttendanceRecord)), (''total'', (SchInt False None None))]))
        [400, 401, 403, 404] []
        None),
     (''GET /api/v1/students/{id}/attendance'', op_meta ABearer None None
        (Some (ct_page attendanceHistoryItem))
        [400, 401, 404] [pageParam ''page'', pageParam ''limit'', (''from'', False, ct_d), (''to'', False, ct_d)]
        None),
     (''GET /api/v1/attendance/summary'', op_meta ABearer None None
        (Some attendanceSummaryData)
        [400, 401, 404] [(''studentId'', True, ct_uuid), (''month'', True, ct_s)]
        None)]"

definition contract_7 :: "(string \<times> op_contract) list" where
  "contract_7 = [
     (''GET /api/v1/admin/reports/attendance'', op_meta ABearer (Some [ADMIN, INSTRUCTOR]) None
        (Some (SchArr attendanceReportRow))
        [400, 401, 403] [(''month'', True, ct_s)]
        None),
     (''GET /api/v1/belt-ranks'', op_meta ABearer None None
        (Some (SchArr ct_BeltRank))
        [401] []
        None),
     (''POST /api/v1/belt-ranks'', op_meta ABearer (Some [ADMIN]) (Some 201)
        (Some (SchObj False [''id'', ''code'', ''name''] [(''id'', ct_i), (''code'', ct_s), (''name'', ct_s)]))
        [400, 401, 403, 409] []
        (Some (JObj [(''code'', JStr ''VANG_3''), (''name'', JStr ''Vai ?ai v?ng ?? tam''), (''rankGroup'', JStr ''VANG''),
            (''orderIndex'', JNum 6)]))),
     (''PATCH /api/v1/belt-ranks/{id}'', op_meta ABearer (Some [ADMIN]) None
        (Some (SchObj False [''id'', ''code'', ''name''] [(''id'', ct_i), (''code'', ct_s), (''name'', ct_s)]))
        [400, 401, 403, 404, 409] []
        (Some (JObj [(''name'', JStr ''Vai ?ai v?ng ?? tam (hi?u ch?nh)'')]))),
     (''GET /api/v1/admin/reports/belts'', op_meta ABearer (Some [ADMIN, INSTRUCTOR]) None
        (Some beltDistribution)
        [401, 403] []
        None),
     (''GET /api/v1/belt-exams'', op_meta ABearer None None
        (Some (ct_page ct_BeltExam))
        [401] [pageParam ''page'', pageParam ''limit'', (''status'', False, (ct_en [''DRAFT'', ''OPEN'', ''CLOSED'', ''COMPLETED'',
            ''CANCELLED'']))]
        None),
     (''GET /api/v1/belt-exams/{id}'', op_meta ABearer None None
        (Some ct_BeltExam)
        [400, 401, 404] []
        None),
     (''POST /api/v1/belt-exams'', op_meta ABearer (Some [ADMIN]) (Some 201)
        (Some (SchObj False [''id'', ''code'', ''title'', ''status'']
         [(''id'', ct_s), (''code'', ct_s), (''title'', ct_s), (''status'', (ct_en [''DRAFT'']))]))
        [400, 401, 403, 404, 409] []
        (Some (JObj [(''title'', JStr ''K? thi th?ng ?ai v?ng ? th?ng 3''), (''examDate'', JStr ''2026-03-28''),
            (''targetRankId'', JNum 4), (''feeAmount'', JNum 150000), (''registrationDeadline'', JStr ''2026-03-20''),
            (''capacity'', JNum 40)])))]"

definition contract_8 :: "(string \<times> op_contract) list" where
  "contract_8 = [
     (''PATCH /api/v1/belt-exams/{id}'', op_meta ABearer (Some [ADMIN]) None
        (Some (SchObj False [''id'', ''code'', ''status'']
         [(''id'', ct_s), (''code'', ct_s),
          (''status'', (ct_en [''DRAFT'', ''OPEN'', ''CLOSED'', ''COMPLETED'', ''CANCELLED'']))]))
        [400, 401, 403, 404, 409] []
        (Some (JObj [(''status'', JStr ''OPEN'')]))),
     (''POST /api/v1/belt-exams/{id}/register'', op_meta ABearer (Some [STUDENT, PARENT]) (Some 201)
        (Some examRegistrationData)
        [400, 401, 403, 404, 409] []
        (Some (JObj [(''studentId'', JStr ''c0a80101-7154-4b6d-8f3d-2f1e0d9c9a01'')]))),
     (''GET /api/v1/exam-registrations'', op_meta ABearer None None
        (Some (ct_page examHistoryItem))
        [400, 401, 404] [(''studentId'', True, ct_uuid), pageParam ''page'', pageParam ''limit'']
        None),
     (''POST /api/v1/exam-registrations/{id}/result'', op_meta ABearer (Some [ADMIN, INSTRUCTOR]) None
        (Some (SchObj False [''id'', ''examId'', ''studentId'', ''status'', ''examinerId'']
         [(''id'', ct_s), (''examId'', ct_s), (''studentId'', ct_s), (''status'', (ct_en [''RESULT_PASS'', ''RESULT_FAIL''])),
          (''resultNote'', ct_ns), (''examinerId'', ct_s)]))
        [400, 401, 403, 404, 409] []
        (Some (JObj [(''status'', JStr ''RESULT_PASS''), (''resultNote'', JStr ''Good spirit; polish ??n th? 5'')]))),
     (''GET /api/v1/invoices'', op_meta ABearer (Some [ADMIN, STUDENT, PARENT]) None
        (Some (ct_page ct_Invoice))
        [400, 401, 403] [pageParam ''page'', pageParam ''limit'', (''status'', False, (ct_en [''UNPAID'', ''PAID'', ''OVERDUE'',
            ''CANCELLED'', ''REFUNDED''])), (''type'', False, (ct_en [''TUITION'', ''EXAM_FEE'', ''UNIFORM'', ''OTHER''])),
            (''studentId'', False, ct_uuid)]
        None),
     (''GET /api/v1/invoices/{id}'', op_meta ABearer None None
        (Some ct_Invoice)
        [400, 401, 404] []
        None),
     (''POST /api/v1/invoices'', op_meta ABearer (Some [ADMIN]) (Some 201)
        (Some ct_Invoice)
        [400, 401, 403, 404] []
        (Some (JObj [(''studentId'', JStr ''c0a80101-7154-4b6d-8f3d-2f1e0d9c9a01''), (''type'', JStr ''UNIFORM''),
            (''items'', JArr [JObj [(''description'', JStr ''V? ph?c''), (''quantity'', JNum 1), (''unitAmount'', JNum 250000)]]),
            (''note'', JStr ''V? ph?c m?i'')]))),
     (''POST /api/v1/admin/billing/generate-monthly'', op_meta ABearer (Some [ADMIN]) None
        (Some generateMonthlyData)
        [400, 401, 403] []
        (Some (JObj [(''month'', JNum 9), (''year'', JNum 2026), (''classIds'',
            JArr [JStr ''9b1deb4d-3b7d-4bad-9bdd-2b0d7b3dcb6d''])])))]"

definition contract_9 :: "(string \<times> op_contract) list" where
  "contract_9 = [
     (''GET /api/v1/admin/reports/revenue'', op_meta ABearer (Some [ADMIN]) None
        (Some revenueData)
        [400, 401, 403] [(''from'', True, ct_d), (''to'', True, ct_d)]
        None),
     (''GET /api/v1/admin/reports/tuition'', op_meta ABearer (Some [ADMIN]) None
        (Some tuitionReportData)
        [400, 401, 403] [(''month'', True, ct_i), (''year'', True, ct_i)]
        None),
     (''GET /api/v1/admin/billing/settings'', op_meta ABearer (Some [ADMIN]) None
        (Some settingsData)
        [401, 403] []
        None),
     (''PUT /api/v1/admin/billing/settings/tuition-rates'', op_meta ABearer (Some [ADMIN]) None
        (Some settingsData)
        [400, 401, 403] []
        (Some (JObj [(''rates'', JArr [JObj [(''classId'', JStr ''9b1deb4d-3b7d-4bad-9bdd-2b0d7b3dcb6d''),
            (''monthlyAmount'', JNum 400000)]])]))),
     (''PUT /api/v1/admin/billing/settings/bank-account'', op_meta ABearer (Some [ADMIN]) None
        (Some settingsData)
        [400, 401, 403] []
        (Some (JObj [(''bankAccount'', JObj [(''bin'', JStr ''970422''), (''number'', JStr ''9012345678901''),
            (''name'', JStr ''CONG TY TNHH VOVINAM ANH QUAN''), (''ownerType'', JStr ''BUSINESS'')])]))),
     (''GET /api/v1/discounts'', op_meta ABearer (Some [ADMIN]) None
        (Some (ct_page ct_DiscountCode))
        [401, 403] [pageParam ''page'', pageParam ''limit'']
        None),
     (''POST /api/v1/discounts'', op_meta ABearer (Some [ADMIN]) (Some 201)
        (Some ct_DiscountCode)
        [400, 401, 403, 409] []
        (Some (JObj [(''code'', JStr ''TET2026''), (''percentOff'', JNum 10), (''validFrom'', JStr ''2026-01-01T00:00:00.000Z''),
            (''validUntil'', JStr ''2026-02-28T23:59:59.000Z''), (''description'', JStr ''T?t promotion'')]))),
     (''PATCH /api/v1/discounts/{id}'', op_meta ABearer (Some [ADMIN]) None
        (Some ct_DiscountCode)
        [400, 401, 403, 404] []
        (Some (JObj [(''validUntil'', JStr ''2026-03-15T23:59:59.000Z'')]))),
     (''DELETE /api/v1/discounts/{id}'', op_meta ABearer (Some [ADMIN]) None
        (Some (SchObj False [''id'', ''deleted''] [(''id'', ct_s), (''deleted'', ct_b)]))
        [400, 401, 403, 404] []
        None)]"

definition contract_10 :: "(string \<times> op_contract) list" where
  "contract_10 = [
     (''POST /api/v1/payments/qr/{invoiceId}'', op_meta ABearer (Some [ADMIN, STUDENT, PARENT]) (Some 201)
        (Some (SchObj False [''paymentId'', ''orderRef'', ''amount'', ''status'', ''expiresAt'', ''checkoutUrl'']
         [(''paymentId'', ct_s), (''orderRef'', ct_s), (''amount'', ct_i), (''status'', (ct_en [''PENDING''])),
          (''expiresAt'', ct_dt), (''checkoutUrl'', ct_s), (''qrCodeDataUrl'', ct_s)]))
        [400, 401, 403, 404, 409] []
        None),
     (''POST /api/v1/payments/webhook/{provider}'', op_meta AWebhook None None
        (Some (SchObj False [''processed'']
         [(''processed'', ct_b), (''outcome'', (ct_en [''SUCCESS'', ''FAILED''])), (''flagged'', ct_b), (''overpaid'', ct_b),
          (''totalSettled'', ct_i)]))
        [404, 401, 500] []
        None),
     (''POST /api/v1/payments/{invoiceId}/confirm-cash'', op_meta ABearer (Some [ADMIN]) None
        (Some ct_Payment)
        [400, 401, 403, 404, 409] []
        (Some (JObj [(''note'', JStr ''Cash at dojo, receipt #014'')]))),
     (''PATCH /api/v1/payments/{id}'', op_meta ABearer (Some [ADMIN]) None
        (Some ct_Payment)
        [400, 401, 403, 404, 409] []
        (Some (JObj [(''status'', JStr ''REFUNDED''), (''note'', JStr ''Wrong transfer, refunded in person'')]))),
     (''GET /api/v1/payments'', op_meta ABearer (Some [ADMIN, STUDENT, PARENT]) None
        (Some (SchObj False [''items'', ''total''] [(''items'', (SchArr ct_Payment)), (''total'', (SchInt False None None))]))
        [400, 401, 403, 404] [(''invoiceId'', True, ct_uuid)]
        None),
     (''GET /api/v1/notifications/me'', op_meta ABearer None None
        (Some (ct_page ct_Notification))
        [401] [pageParam ''page'', pageParam ''limit'']
        None),
     (''POST /api/v1/admin/notifications/flush'', op_meta ABearer (Some [ADMIN]) None
        (Some (SchObj False [''flushed''] [(''flushed'', ct_b)]))
        [401, 403] []
        None),
     (''PATCH /api/v1/notifications/{id}/read'', op_meta ABearer None None
        (Some (SchObj False [''id'', ''readAt''] [(''id'', ct_s), (''readAt'', ct_dt)]))
        [400, 401, 404] []
        None)]"

definition contract_11 :: "(string \<times> op_contract) list" where
  "contract_11 = [
     (''POST /api/v1/consent'', op_meta ABearer None (Some 201)
        (Some ct_Consent)
        [400, 401, 404] []
        (Some (JObj [(''purpose'', JStr ''MEDIA_USAGE''), (''studentId'', JStr ''c0a80101-7154-4b6d-8f3d-2f1e0d9c9a01'')]))),
     (''POST /api/v1/consent/revoke'', op_meta ABearer None None
        (Some (SchObj False [''purpose'', ''revokedAt'']
         [(''purpose'', (ct_en [''DATA_PROCESSING'', ''MEDIA_USAGE'', ''MARKETING_NOTICE''])), (''revokedAt'', ct_dt)]))
        [400, 401, 404] []
        (Some (JObj [(''purpose'', JStr ''MEDIA_USAGE'')]))),
     (''GET /api/v1/consent/me'', op_meta ABearer None None
        (Some (SchObj False [''items''] [(''items'', (SchArr ct_Consent))]))
        [401] []
        None),
     (''GET /api/v1/announcements'', op_meta ABearer None None
        (Some (ct_page ct_Announcement))
        [401] [pageParam ''page'', pageParam ''limit'']
        None),
     (''POST /api/v1/announcements'', op_meta ABearer (Some [ADMIN, INSTRUCTOR]) (Some 201)
        (Some ct_Announcement)
        [400, 401, 403, 404] []
        (Some (JObj [(''title'', JStr ''Ngh? l? 2/9''), (''body'', JStr ''CLB ngh? c?c ng?y 1-2/9.''), (''audience'', JStr ''CLASS''),
            (''classId'', JStr ''9b1deb4d-3b7d-4bad-9bdd-2b0d7b3dcb6d'')]))),
     (''PATCH /api/v1/announcements/{id}'', op_meta ABearer (Some [ADMIN, INSTRUCTOR]) None
        (Some ct_Announcement)
        [400, 401, 403, 404] []
        (Some (JObj [(''body'', JStr ''H?c b? v?o th? 7 n?y.'')]))),
     (''DELETE /api/v1/announcements/{id}'', op_meta ABearer (Some [ADMIN, INSTRUCTOR]) None
        (Some (SchObj False [''deleted''] [(''deleted'', ct_b)]))
        [400, 401, 403, 404] []
        None),
     (''POST /api/v1/leave-requests'', op_meta ABearer (Some [ADMIN, STUDENT, PARENT]) (Some 201)
        (Some ct_LeaveRequest)
        [400, 401, 403, 404, 409] []
        (Some (JObj [(''studentId'', JStr ''c0a80101-7154-4b6d-8f3d-2f1e0d9c9a01''),
            (''classId'', JStr ''9b1deb4d-3b7d-4bad-9bdd-2b0d7b3dcb6d''), (''sessionDate'', JStr ''2026-09-29''),
            (''reason'', JStr ''School event in the evening'')]))),
     (''GET /api/v1/leave-requests'', op_meta ABearer (Some [ADMIN, INSTRUCTOR, STUDENT, PARENT]) None
        (Some (ct_page ct_LeaveRequest))
        [401, 403] [pageParam ''page'', pageParam ''limit'', (''status'', False, (ct_en [''PENDING'', ''APPROVED'', ''REJECTED'',
            ''CANCELLED''])), (''classId'', False, ct_uuid), (''studentId'', False, ct_uuid)]
        None),
     (''POST /api/v1/leave-requests/{id}/review'', op_meta ABearer (Some [ADMIN, INSTRUCTOR]) None
        (Some ct_LeaveRequest)
        [400, 401, 403, 404, 409] []
        (Some (JObj [(''status'', JStr ''APPROVED''), (''note'', JStr ''Approved ? have fun at the event'')]))),
     (''POST /api/v1/leave-requests/{id}/cancel'', op_meta ABearer (Some [ADMIN, STUDENT, PARENT]) None
        (Some ct_LeaveRequest)
        [400, 401, 403, 404, 409] []
        None)]"

definition contract_12 :: "(string \<times> op_contract) list" where
  "contract_12 = [
     (''DELETE /api/v1/leave-requests/{id}'', op_meta ABearer (Some [ADMIN]) None
        (Some (SchObj False [''id'', ''deleted''] [(''id'', ct_s), (''deleted'', ct_b)]))
        [400, 401, 403, 404] []
        None),
     (''POST /api/v1/promotion-proposals'', op_meta ABearer (Some [ADMIN, INSTRUCTOR]) (Some 201)
        (Some ct_Proposal)
        [400, 401, 403, 404, 409] []
        (Some (JObj [(''studentId'', JStr ''c0a80101-7154-4b6d-8f3d-2f1e0d9c9a01''), (''proposedRankId'', JNum 5),
            (''note'', JStr ''Consistent training, ready for the exam'')]))),
     (''GET /api/v1/promotion-proposals'', op_meta ABearer (Some [ADMIN, INSTRUCTOR, STUDENT, PARENT]) None
        (Some (ct_page ct_Proposal))
        [401, 403] [pageParam ''page'', pageParam ''limit'', (''status'', False, (ct_en [''PENDING'', ''APPROVED'', ''REJECTED''])),
            (''studentId'', False, ct_uuid)]
        None),
     (''PATCH /api/v1/promotion-proposals/{id}'', op_meta ABearer (Some [ADMIN, INSTRUCTOR]) None
        (Some ct_Proposal)
        [400, 401, 403, 404, 409] []
        (Some (JObj [(''note'', JStr ''Also passed the grading test'')]))),
     (''POST /api/v1/promotion-proposals/{id}/review'', op_meta ABearer (Some [ADMIN]) None
        (Some ct_Proposal)
        [400, 401, 403, 404, 409] []
        (Some (JObj [(''status'', JStr ''APPROVED''), (''note'', JStr ''Approved ? schedule the exam'')]))),
     (''POST /api/v1/evaluations'', op_meta ABearer (Some [ADMIN, INSTRUCTOR]) (Some 201)
        (Some ct_Evaluation)
        [400, 401, 403, 404, 409] []
        (Some (JObj [(''studentId'', JStr ''c0a80101-7154-4b6d-8f3d-2f1e0d9c9a01''), (''rating'', JNum 8), (''periodMonth'', JNum 9),
            (''periodYear'', JNum 2026), (''comment'', JStr ''Strong progress on ??n th?'')]))),
     (''GET /api/v1/evaluations'', op_meta ABearer None None
        (Some (ct_page ct_Evaluation))
        [400, 401, 404] [(''studentId'', True, ct_uuid), pageParam ''page'', pageParam ''limit'']
        None),
     (''PATCH /api/v1/evaluations/{id}'', op_meta ABearer (Some [ADMIN, INSTRUCTOR]) None
        (Some ct_Evaluation)
        [400, 401, 403, 404] []
        (Some (JObj [(''rating'', JNum 9), (''comment'', JStr ''Guard improved after drills'')]))),
     (''DELETE /api/v1/evaluations/{id}'', op_meta ABearer (Some [ADMIN, INSTRUCTOR]) None
        (Some (SchObj False [''id'', ''deleted''] [(''id'', ct_s), (''deleted'', ct_b)]))
        [400, 401, 403, 404] []
        None)]"

definition CONTRACT :: "(string \<times> op_contract) list" where
  "CONTRACT = contract_1 @ contract_2 @ contract_3 @ contract_4 @ contract_5 @ contract_6 @ contract_7 @ contract_8 @
     contract_9 @ contract_10 @ contract_11 @ contract_12"

lemmas contract_tables = CONTRACT_def contract_1_def contract_2_def contract_3_def contract_4_def contract_5_def
  contract_6_def contract_7_def contract_8_def contract_9_def contract_10_def contract_11_def contract_12_def

section \<open>Enrichment\<close>

text \<open>
  An operation of the document: its security requirements, its parameters with place, name, required flag and
  schema, whether its request body has JSON content, the example of that content, and its responses by
  status. A response is JSON of a schema, the raw text of the metrics endpoint, or what the generator wrote.
\<close>

datatype place = In_path | In_query | In_header

datatype op_response = Json schema | Raw_text | Generated

record operation =
  op_security :: "string list"
  op_roles :: "user_role list option"
  op_parameters :: "(place \<times> string \<times> bool \<times> schema) list"
  op_jsonBody :: bool
  op_example :: "json option"
  op_responses :: "(int \<times> op_response) list"

type_synonym paths = "(string \<times> (string \<times> operation) list) list"

record document =
  doc_paths :: paths
  doc_schemas :: "string \<rightharpoonup> schema"
  doc_description :: "string list"
  doc_tags :: "(string \<times> string) list"

text \<open>The lines of the description, and the tags.\<close>

definition INFO_DESCRIPTION :: "string list" where
  "INFO_DESCRIPTION = [
     ''Vovinam club management API.'',
     [],
     ''## Response envelope'',
     ''Every JSON response ? success AND error ? uses the uniform envelope'',
     (''`{'' @ [CHR 0x22] @ ''code'' @ [CHR 0x22] @ '': <HTTP status>, '' @ [CHR 0x22] @ ''message'' @ [CHR 0x22] @ '': string, '' @ [CHR 0x22] @ ''data'' @ [CHR 0x22] @ '': <payload>}`.''),
     ''`data` is the operation-specific payload documented per endpoint below and'',
     ''is `null` on errors. `/metrics` is the only exception (raw Prometheus text).'',
     [],
     ''## Authentication'',
     ''- Endpoints marked with the lock icon require `Authorization: Bearer <accessToken>`'',
     ''  (JWT from POST /auth/login).'',
     ''- Role requirements are stated per endpoint; ownership-scoped endpoints answer'',
     ''  the same uniform 404 for foreign and unknown ids (no probing).'',
     ''- Public endpoints (auth flows, /healthz, /readyz, payment webhook) carry no security.'',
     ''  The payment webhook authenticates via HMAC signature over the raw body, not a JWT.'',
     ''  /metrics authenticates with the METRICS_TOKEN bearer token.'',
     [],
     ''## Errors'',
     ''Errors use the same envelope (`data: null`) with `message` describing the'',
     ''failure; per-endpoint error catalogs list the statuses each route can produce.'']"

definition TAG_DESCRIPTIONS :: "(string \<times> string) list" where
  "TAG_DESCRIPTIONS = [
     (''Auth'', ''Registration, login, MFA, sessions and account lifecycle.''),
     (''AdminUsers'', ''ADMIN backoffice over user accounts and the system-wide audit log.''),
     (''Students'', ''Student profiles: directory, self-service, invite codes and soft deletion.''),
     (''Parents'', ''Parent linking via single-use invite codes and child visibility.''),
     (''Classes'', ''Classes and their weekly schedules.''),
     (''Enrollments'', ''Class enrollment management (capacity, duplicate and rejoin rules).''),
     (''Attendance'', ''Attendance sessions, bulk record upserts, history, summaries and reports.''),
     (''Belts'', ''Belt rank catalog and distribution report.''),
     (''Exams'', ''Belt exams: lifecycle, registration with automatic fee invoice, results and promotion.''),
     (''Billing'', ''Invoices, monthly tuition close, revenue/tuition reports, settings and discount codes.''),
     (''Payments'', ''QR payment initiation, the gateway webhook and admin cash/refund operations.''),
     (''Notifications'', ''In-app notification feed and outbox diagnostics.''),
     (''Consent'', ''Purpose-specific consent records with parent proxy for minors.''),
     (''Announcements'', ''Club/class announcements with audience-scoped visibility.''),
     (''Leaves'', ''Absence (leave) requests with instructor review.''),
     (''Promotions'', ''Promotion proposals: advisory only, never moves the belt itself.''),
     (''Evaluations'', ''Instructor evaluations of students (1..10 rating per period).''),
     (''Health'', ''Liveness/readiness probes and Prometheus metrics.'')]"

definition HTTP_METHODS :: "string list" where
  "HTTP_METHODS = [''get'', ''post'', ''put'', ''patch'', ''delete'']"

definition toUpper :: "char \<Rightarrow> char" where
  "toUpper c = (if is_lower c then char_of (of_char c - 32 :: nat) else c)"

definition op_key :: "string \<Rightarrow> string \<Rightarrow> string" where
  "op_key verb path = map toUpper verb @ '' '' @ path"

text \<open>\<^verbatim>\<open>applyContract\<close>: the operation and the problems it adds.\<close>

definition applyContract :: "op_contract \<Rightarrow> string \<Rightarrow> operation \<Rightarrow> operation \<times> string list" where
  "applyContract m key o1 =
     (let status = (case oc_status m of Some n \<Rightarrow> n | None \<Rightarrow> 200);
          o2 = o1\<lparr>op_roles := oc_roles m,
                  op_security := (if oc_auth m = APublic \<or> oc_auth m = AWebhook then [] else [''bearer''])\<rparr>;
          o3 = (if oc_query m \<noteq> []
                then o2\<lparr>op_parameters := filter (\<lambda>p. fst p = In_path) (op_parameters o2) @
                       map (\<lambda>q. (In_query, q)) (oc_query m)\<rparr>
                else o2);
          o4 = (if oc_example m \<noteq> None \<and> op_jsonBody o3 then o3\<lparr>op_example := oc_example m\<rparr> else o3);
          body = (if oc_example m \<noteq> None \<and> \<not> op_jsonBody o3 then [key] else []);
          success = (if oc_auth m = AMetrics then [(status, Raw_text)]
                     else case oc_data m of Some data \<Rightarrow> [(status, Json (envelopeOf data))] | None \<Rightarrow> []);
          undocumented = (if oc_auth m \<noteq> AMetrics \<and> oc_data m = None then [key] else [])
      in (o4\<lparr>op_responses := foldl (\<lambda>rs e. AList.update e (Json (SchRef ''ErrorEnvelope'')) rs) success (oc_errors m)\<rparr>, body @ undocumented))"

definition enrich_op :: "string \<Rightarrow> string \<times> operation \<Rightarrow> (string \<times> operation) \<times> string list \<times> string list" where
  "enrich_op path mo = (case mo of (verb, o1) \<Rightarrow>
     if verb \<notin> set HTTP_METHODS then ((verb, o1), [], [])
     else case map_of CONTRACT (op_key verb path) of
       None \<Rightarrow> ((verb, o1), [], [op_key verb path])
     | Some m \<Rightarrow> (case applyContract m (op_key verb path) o1 of (o2, ps) \<Rightarrow> ((verb, o2), [op_key verb path], ps)))"

text \<open>The enriched document, or the problems: unlisted operations, stale entries, missing bodies and data.\<close>

definition enrichOpenApiDocument :: "document \<Rightarrow> string list + document" where
  "enrichOpenApiDocument doc =
     (let res = map (\<lambda>(path, item). (path, map (enrich_op path) item)) (doc_paths doc);
          seen = concat (map (\<lambda>(path, item). concat (map (\<lambda>(_, sn, _). sn) item)) res);
          problems = concat (map (\<lambda>(path, item). concat (map (\<lambda>(_, _, ps). ps) item)) res) @
                     filter (\<lambda>k. k \<notin> set seen) (map fst CONTRACT)
      in if problems \<noteq> [] then Inl problems
         else Inr (doc\<lparr>doc_paths := map (\<lambda>(path, item). (path, map fst item)) res,
                      doc_schemas := (doc_schemas doc ++ map_of RESPONSE_COMPONENTS)(''ErrorEnvelope'' \<mapsto> envelopeError),
                      doc_description := INFO_DESCRIPTION, doc_tags := TAG_DESCRIPTIONS\<rparr>))"

section \<open>Contract and routes\<close>

definition braces :: "string \<Rightarrow> string" where
  "braces s = js_join ''/'' (map (\<lambda>g. case g of [] \<Rightarrow> [] | c # n \<Rightarrow> if c = CHR '':'' then ''{'' @ n @ ''}'' else g) (split_char CHR ''/'' s))"

definition show_verb :: "verb \<Rightarrow> string" where
  "show_verb v = (case v of GET \<Rightarrow> ''get'' | POST \<Rightarrow> ''post'' | PUT \<Rightarrow> ''put'' | PATCH \<Rightarrow> ''patch'' | DEL \<Rightarrow> ''delete'')"

definition route_key :: "route \<Rightarrow> string" where
  "route_key r = op_key (show_verb (rte_verb r)) (braces (full_path r))"

text \<open>
  When an entry agrees with its route: bearer security exactly on the guarded routes, the same roles, documented
  data, and the status the route answers with, but for the listed handlers, which answer 201.
\<close>

definition created_documented_ok :: "string list" where
  "created_documented_ok = [''Auth.verifyEmail'', ''Auth.resetPassword'', ''Auth.changePassword'', ''Auth.requestChangeEmail'',
     ''Auth.confirmChangeEmail'', ''Auth.totpEnable'', ''Auth.totpVerify'', ''Auth.totpDisable'']"

definition documented_status :: "op_contract \<Rightarrow> int" where
  "documented_status m = (case oc_status m of Some n \<Rightarrow> n | None \<Rightarrow> 200)"

definition same_roles :: "user_role list option \<Rightarrow> user_role list option \<Rightarrow> bool" where
  "same_roles a b = (case (a, b) of (None, None) \<Rightarrow> True | (Some x, Some y) \<Rightarrow> set x = set y | _ \<Rightarrow> False)"

definition agrees :: "route \<Rightarrow> op_contract \<Rightarrow> bool" where
  "agrees r m \<longleftrightarrow>
     oc_auth m = (if rte_jwt r then ABearer else if rte_skip r then AMetrics
       else if rte_handler r = ''Payments.webhook'' then AWebhook else APublic) \<and>
     same_roles (oc_roles m) (rte_roles r) \<and> (oc_data m = None \<longleftrightarrow> oc_auth m = AMetrics) \<and>
     (documented_status m, rte_status r) = (if rte_handler r \<in> set created_documented_ok then (200, 201)
        else (rte_status r, rte_status r))"

lemma op_key_verb: "op_key (show_verb v) p = (case v of GET \<Rightarrow> ''GET '' | POST \<Rightarrow> ''POST '' | PUT \<Rightarrow> ''PUT ''
     | PATCH \<Rightarrow> ''PATCH '' | DEL \<Rightarrow> ''DELETE '') @ p"
proof -
  have "map toUpper (show_verb v) @ '' '' = (case v of GET \<Rightarrow> ''GET '' | POST \<Rightarrow> ''POST '' | PUT \<Rightarrow> ''PUT ''
     | PATCH \<Rightarrow> ''PATCH '' | DEL \<Rightarrow> ''DELETE '')" by (cases v; simp only: verb.case show_verb_def; code_simp)
  then show ?thesis unfolding op_key_def by (metis append_assoc)
qed

lemma route_keys: "map route_key api_routes = [
     ''GET /healthz'',
     ''GET /readyz'',
     ''GET /metrics'',
     ''GET /version'',
     ''POST /api/v1/auth/register'',
     ''POST /api/v1/auth/login'',
     ''POST /api/v1/auth/refresh-token'',
     ''POST /api/v1/auth/verify-email'',
     ''POST /api/v1/auth/resend-verification'',
     ''POST /api/v1/auth/forgot-password'',
     ''POST /api/v1/auth/reset-password'',
     ''POST /api/v1/auth/logout'',
     ''POST /api/v1/auth/logout-all'',
     ''GET /api/v1/auth/sessions'',
     ''DELETE /api/v1/auth/sessions/{id}'',
     ''GET /api/v1/auth/me'',
     ''GET /api/v1/auth/me/audit-log'',
     ''POST /api/v1/auth/change-password'',
     ''POST /api/v1/auth/change-email/request'',
     ''POST /api/v1/auth/change-email/confirm'',
     ''POST /api/v1/auth/deactivate'',
     ''DELETE /api/v1/auth/me'',
     ''POST /api/v1/auth/mfa/login-verify'',
     ''GET /api/v1/auth/mfa/methods'',
     ''POST /api/v1/auth/mfa/totp/enable'',
     ''POST /api/v1/auth/mfa/totp/verify'',
     ''POST /api/v1/auth/mfa/totp/validate'',
     ''POST /api/v1/auth/mfa/totp/disable'',
     ''GET /api/v1/auth/mfa/totp/recovery-codes'',
     ''GET /api/v1/users'',
     ''POST /api/v1/users'',
     ''PATCH /api/v1/users/{id}'',
     ''DELETE /api/v1/users/{id}'',
     ''GET /api/v1/admin/audit-log'',
     ''GET /api/v1/invoices'',
     ''GET /api/v1/invoices/{id}'',
     ''POST /api/v1/invoices'',
     ''POST /api/v1/admin/billing/generate-monthly'',
     ''GET /api/v1/admin/reports/revenue'',
     ''GET /api/v1/admin/reports/tuition'',
     ''GET /api/v1/admin/billing/settings'',
     ''PUT /api/v1/admin/billing/settings/tuition-rates'',
     ''PUT /api/v1/admin/billing/settings/bank-account'',
     ''GET /api/v1/discounts'',
     ''POST /api/v1/discounts'',
     ''PATCH /api/v1/discounts/{id}'',
     ''DELETE /api/v1/discounts/{id}'',
     ''POST /api/v1/payments/qr/{invoiceId}'',
     ''POST /api/v1/payments/webhook/{provider}'',
     ''POST /api/v1/payments/{invoiceId}/confirm-cash'',
     ''PATCH /api/v1/payments/{id}'',
     ''GET /api/v1/payments'',
     ''GET /api/v1/classes'',
     ''GET /api/v1/classes/{id}'',
     ''POST /api/v1/classes'',
     ''PATCH /api/v1/classes/{id}'',
     ''POST /api/v1/classes/{id}/schedules'',
     ''DELETE /api/v1/classes/{id}/schedules/{scheduleId}'',
     ''POST /api/v1/enrollments'',
     ''GET /api/v1/enrollments'',
     ''DELETE /api/v1/enrollments/{id}'',
     ''POST /api/v1/attendance-sessions'',
     ''POST /api/v1/attendance-sessions/{id}/records'',
     ''GET /api/v1/attendance-sessions/{id}/records'',
     ''GET /api/v1/students/{id}/attendance'',
     ''GET /api/v1/attendance/summary'',
     ''GET /api/v1/admin/reports/attendance'',
     ''GET /api/v1/belt-ranks'',
     ''POST /api/v1/belt-ranks'',
     ''PATCH /api/v1/belt-ranks/{id}'',
     ''GET /api/v1/admin/reports/belts'',
     ''GET /api/v1/belt-exams'',
     ''GET /api/v1/belt-exams/{id}'',
     ''POST /api/v1/belt-exams'',
     ''PATCH /api/v1/belt-exams/{id}'',
     ''POST /api/v1/belt-exams/{id}/register'',
     ''GET /api/v1/exam-registrations'',
     ''POST /api/v1/exam-registrations/{id}/result'',
     ''GET /api/v1/students/me'',
     ''PATCH /api/v1/students/me'',
     ''GET /api/v1/students'',
     ''POST /api/v1/students'',
     ''GET /api/v1/students/{id}'',
     ''PATCH /api/v1/students/{id}'',
     ''DELETE /api/v1/students/{id}'',
     ''POST /api/v1/students/{id}/invite-code'',
     ''POST /api/v1/parents/link'',
     ''GET /api/v1/parents/me/children'',
     ''DELETE /api/v1/parents/links/{studentId}'',
     ''GET /api/v1/notifications/me'',
     ''POST /api/v1/admin/notifications/flush'',
     ''PATCH /api/v1/notifications/{id}/read'',
     ''POST /api/v1/consent'',
     ''POST /api/v1/consent/revoke'',
     ''GET /api/v1/consent/me'',
     ''GET /api/v1/announcements'',
     ''POST /api/v1/announcements'',
     ''PATCH /api/v1/announcements/{id}'',
     ''DELETE /api/v1/announcements/{id}'',
     ''POST /api/v1/leave-requests'',
     ''GET /api/v1/leave-requests'',
     ''POST /api/v1/leave-requests/{id}/review'',
     ''POST /api/v1/leave-requests/{id}/cancel'',
     ''DELETE /api/v1/leave-requests/{id}'',
     ''POST /api/v1/promotion-proposals'',
     ''GET /api/v1/promotion-proposals'',
     ''PATCH /api/v1/promotion-proposals/{id}'',
     ''POST /api/v1/promotion-proposals/{id}/review'',
     ''POST /api/v1/evaluations'',
     ''GET /api/v1/evaluations'',
     ''PATCH /api/v1/evaluations/{id}'',
     ''DELETE /api/v1/evaluations/{id}'']"
  by (simp add: api_routes_def route_tables route_defs full_path_def route_key_def op_key_verb braces_def)

text \<open>The columns of the contract that are compared with the routes.\<close>

type_synonym outline = "auth_kind \<times> user_role list option \<times> int option \<times> bool"

definition outline_of :: "op_contract \<Rightarrow> outline" where
  "outline_of m = (oc_auth m, oc_roles m, oc_status m, oc_data m \<noteq> None)"

definition outlines :: "(string \<times> outline) list" where
  "outlines = [
     (''GET /version'', APublic, None, None, True),
     (''GET /healthz'', APublic, None, None, True),
     (''GET /readyz'', APublic, None, None, True),
     (''GET /metrics'', AMetrics, None, None, False),
     (''POST /api/v1/auth/register'', APublic, None, Some 201, True),
     (''POST /api/v1/auth/login'', APublic, None, None, True),
     (''POST /api/v1/auth/refresh-token'', APublic, None, None, True),
     (''POST /api/v1/auth/verify-email'', APublic, None, None, True),
     (''POST /api/v1/auth/resend-verification'', APublic, None, None, True),
     (''POST /api/v1/auth/forgot-password'', APublic, None, None, True),
     (''POST /api/v1/auth/reset-password'', APublic, None, None, True),
     (''POST /api/v1/auth/logout'', ABearer, None, None, True),
     (''POST /api/v1/auth/logout-all'', ABearer, None, None, True),
     (''GET /api/v1/auth/sessions'', ABearer, None, None, True),
     (''DELETE /api/v1/auth/sessions/{id}'', ABearer, None, None, True),
     (''GET /api/v1/auth/me'', ABearer, None, None, True),
     (''GET /api/v1/auth/me/audit-log'', ABearer, None, None, True),
     (''POST /api/v1/auth/change-password'', ABearer, None, None, True),
     (''POST /api/v1/auth/change-email/request'', ABearer, None, None, True),
     (''POST /api/v1/auth/change-email/confirm'', APublic, None, None, True),
     (''POST /api/v1/auth/deactivate'', ABearer, None, None, True),
     (''DELETE /api/v1/auth/me'', ABearer, None, None, True),
     (''POST /api/v1/auth/mfa/login-verify'', APublic, None, None, True),
     (''GET /api/v1/auth/mfa/methods'', ABearer, None, None, True),
     (''POST /api/v1/auth/mfa/totp/enable'', ABearer, None, None, True),
     (''POST /api/v1/auth/mfa/totp/verify'', ABearer, None, None, True),
     (''POST /api/v1/auth/mfa/totp/validate'', ABearer, None, None, True),
     (''POST /api/v1/auth/mfa/totp/disable'', ABearer, None, None, True),
     (''GET /api/v1/auth/mfa/totp/recovery-codes'', ABearer, None, None, True),
     (''GET /api/v1/users'', ABearer, Some [ADMIN], None, True),
     (''POST /api/v1/users'', ABearer, Some [ADMIN], Some 201, True),
     (''PATCH /api/v1/users/{id}'', ABearer, Some [ADMIN], None, True),
     (''DELETE /api/v1/users/{id}'', ABearer, Some [ADMIN], None, True),
     (''GET /api/v1/admin/audit-log'', ABearer, Some [ADMIN], None, True),
     (''GET /api/v1/students/me'', ABearer, Some [STUDENT], None, True),
     (''PATCH /api/v1/students/me'', ABearer, Some [STUDENT], None, True),
     (''GET /api/v1/students'', ABearer, Some [ADMIN, INSTRUCTOR], None, True),
     (''POST /api/v1/students'', ABearer, Some [ADMIN], Some 201, True),
     (''GET /api/v1/students/{id}'', ABearer, None, None, True),
     (''PATCH /api/v1/students/{id}'', ABearer, Some [ADMIN], None, True),
     (''DELETE /api/v1/students/{id}'', ABearer, Some [ADMIN], None, True),
     (''POST /api/v1/students/{id}/invite-code'', ABearer, Some [ADMIN], None, True),
     (''POST /api/v1/parents/link'', ABearer, Some [PARENT], Some 201, True),
     (''GET /api/v1/parents/me/children'', ABearer, Some [PARENT], None, True),
     (''DELETE /api/v1/parents/links/{studentId}'', ABearer, Some [PARENT], None, True),
     (''GET /api/v1/classes'', ABearer, None, None, True),
     (''GET /api/v1/classes/{id}'', ABearer, None, None, True),
     (''POST /api/v1/classes'', ABearer, Some [ADMIN], Some 201, True),
     (''PATCH /api/v1/classes/{id}'', ABearer, Some [ADMIN], None, True),
     (''POST /api/v1/classes/{id}/schedules'', ABearer, Some [ADMIN], Some 201, True),
     (''DELETE /api/v1/classes/{id}/schedules/{scheduleId}'', ABearer, Some [ADMIN], None, True),
     (''POST /api/v1/enrollments'', ABearer, Some [ADMIN], Some 201, True),
     (''GET /api/v1/enrollments'', ABearer, Some [ADMIN], None, True),
     (''DELETE /api/v1/enrollments/{id}'', ABearer, Some [ADMIN], None, True),
     (''POST /api/v1/attendance-sessions'', ABearer, Some [ADMIN, INSTRUCTOR], Some 201, True),
     (''POST /api/v1/attendance-sessions/{id}/records'', ABearer, Some [ADMIN, INSTRUCTOR], None, True),
     (''GET /api/v1/attendance-sessions/{id}/records'', ABearer, Some [ADMIN, INSTRUCTOR], None, True),
     (''GET /api/v1/students/{id}/attendance'', ABearer, None, None, True),
     (''GET /api/v1/attendance/summary'', ABearer, None, None, True),
     (''GET /api/v1/admin/reports/attendance'', ABearer, Some [ADMIN, INSTRUCTOR], None, True),
     (''GET /api/v1/belt-ranks'', ABearer, None, None, True),
     (''POST /api/v1/belt-ranks'', ABearer, Some [ADMIN], Some 201, True),
     (''PATCH /api/v1/belt-ranks/{id}'', ABearer, Some [ADMIN], None, True),
     (''GET /api/v1/admin/reports/belts'', ABearer, Some [ADMIN, INSTRUCTOR], None, True),
     (''GET /api/v1/belt-exams'', ABearer, None, None, True),
     (''GET /api/v1/belt-exams/{id}'', ABearer, None, None, True),
     (''POST /api/v1/belt-exams'', ABearer, Some [ADMIN], Some 201, True),
     (''PATCH /api/v1/belt-exams/{id}'', ABearer, Some [ADMIN], None, True),
     (''POST /api/v1/belt-exams/{id}/register'', ABearer, Some [STUDENT, PARENT], Some 201, True),
     (''GET /api/v1/exam-registrations'', ABearer, None, None, True),
     (''POST /api/v1/exam-registrations/{id}/result'', ABearer, Some [ADMIN, INSTRUCTOR], None, True),
     (''GET /api/v1/invoices'', ABearer, Some [ADMIN, STUDENT, PARENT], None, True),
     (''GET /api/v1/invoices/{id}'', ABearer, None, None, True),
     (''POST /api/v1/invoices'', ABearer, Some [ADMIN], Some 201, True),
     (''POST /api/v1/admin/billing/generate-monthly'', ABearer, Some [ADMIN], None, True),
     (''GET /api/v1/admin/reports/revenue'', ABearer, Some [ADMIN], None, True),
     (''GET /api/v1/admin/reports/tuition'', ABearer, Some [ADMIN], None, True),
     (''GET /api/v1/admin/billing/settings'', ABearer, Some [ADMIN], None, True),
     (''PUT /api/v1/admin/billing/settings/tuition-rates'', ABearer, Some [ADMIN], None, True),
     (''PUT /api/v1/admin/billing/settings/bank-account'', ABearer, Some [ADMIN], None, True),
     (''GET /api/v1/discounts'', ABearer, Some [ADMIN], None, True),
     (''POST /api/v1/discounts'', ABearer, Some [ADMIN], Some 201, True),
     (''PATCH /api/v1/discounts/{id}'', ABearer, Some [ADMIN], None, True),
     (''DELETE /api/v1/discounts/{id}'', ABearer, Some [ADMIN], None, True),
     (''POST /api/v1/payments/qr/{invoiceId}'', ABearer, Some [ADMIN, STUDENT, PARENT], Some 201, True),
     (''POST /api/v1/payments/webhook/{provider}'', AWebhook, None, None, True),
     (''POST /api/v1/payments/{invoiceId}/confirm-cash'', ABearer, Some [ADMIN], None, True),
     (''PATCH /api/v1/payments/{id}'', ABearer, Some [ADMIN], None, True),
     (''GET /api/v1/payments'', ABearer, Some [ADMIN, STUDENT, PARENT], None, True),
     (''GET /api/v1/notifications/me'', ABearer, None, None, True),
     (''POST /api/v1/admin/notifications/flush'', ABearer, Some [ADMIN], None, True),
     (''PATCH /api/v1/notifications/{id}/read'', ABearer, None, None, True),
     (''POST /api/v1/consent'', ABearer, None, Some 201, True),
     (''POST /api/v1/consent/revoke'', ABearer, None, None, True),
     (''GET /api/v1/consent/me'', ABearer, None, None, True),
     (''GET /api/v1/announcements'', ABearer, None, None, True),
     (''POST /api/v1/announcements'', ABearer, Some [ADMIN, INSTRUCTOR], Some 201, True),
     (''PATCH /api/v1/announcements/{id}'', ABearer, Some [ADMIN, INSTRUCTOR], None, True),
     (''DELETE /api/v1/announcements/{id}'', ABearer, Some [ADMIN, INSTRUCTOR], None, True),
     (''POST /api/v1/leave-requests'', ABearer, Some [ADMIN, STUDENT, PARENT], Some 201, True),
     (''GET /api/v1/leave-requests'', ABearer, Some [ADMIN, INSTRUCTOR, STUDENT, PARENT], None, True),
     (''POST /api/v1/leave-requests/{id}/review'', ABearer, Some [ADMIN, INSTRUCTOR], None, True),
     (''POST /api/v1/leave-requests/{id}/cancel'', ABearer, Some [ADMIN, STUDENT, PARENT], None, True),
     (''DELETE /api/v1/leave-requests/{id}'', ABearer, Some [ADMIN], None, True),
     (''POST /api/v1/promotion-proposals'', ABearer, Some [ADMIN, INSTRUCTOR], Some 201, True),
     (''GET /api/v1/promotion-proposals'', ABearer, Some [ADMIN, INSTRUCTOR, STUDENT, PARENT], None, True),
     (''PATCH /api/v1/promotion-proposals/{id}'', ABearer, Some [ADMIN, INSTRUCTOR], None, True),
     (''POST /api/v1/promotion-proposals/{id}/review'', ABearer, Some [ADMIN], None, True),
     (''POST /api/v1/evaluations'', ABearer, Some [ADMIN, INSTRUCTOR], Some 201, True),
     (''GET /api/v1/evaluations'', ABearer, None, None, True),
     (''PATCH /api/v1/evaluations/{id}'', ABearer, Some [ADMIN, INSTRUCTOR], None, True),
     (''DELETE /api/v1/evaluations/{id}'', ABearer, Some [ADMIN, INSTRUCTOR], None, True)]"

lemma contract_outlines: "map (\<lambda>e. (fst e, outline_of (snd e))) CONTRACT = outlines"
  by (simp add: outlines_def contract_tables op_meta_def outline_of_def)

lemma contract_distinct: "distinct (map fst CONTRACT)"
proof -
  have "distinct (map fst outlines)" by (simp add: outlines_def)
  then show ?thesis unfolding contract_outlines [symmetric] by (simp add: o_def)
qed

definition contract_order :: "nat list" where
  "contract_order = [1, 2, 3, 0, 4, 5, 6, 7, 8, 9, 10, 11, 12, 13, 14, 15, 16, 17, 18, 19, 20, 21, 22, 23, 24, 25, 26, 27, 28, 29, 30,
     31, 32, 33, 71, 72, 73, 74, 75, 76, 77, 78, 79, 80, 81, 82, 83, 84, 85, 86, 87, 88, 45, 46, 47, 48, 49, 50, 51,
     52, 53, 54, 55, 56, 57, 58, 59, 60, 61, 62, 63, 64, 65, 66, 67, 68, 69, 70, 34, 35, 36, 37, 38, 39, 40, 41, 42,
     43, 44, 89, 90, 91, 92, 93, 94, 95, 96, 97, 98, 99, 100, 101, 102, 103, 104, 105, 106, 107, 108, 109, 110, 111]"

lemma outline_order_keys: "map (\<lambda>j. fst (outlines ! j)) contract_order = map route_key api_routes"
  unfolding route_keys by (simp add: contract_order_def outlines_def)

definition agrees_outline :: "route \<Rightarrow> outline \<Rightarrow> bool" where
  "agrees_outline r x = (case x of (a, ro, st, dat) \<Rightarrow>
     agrees r \<lparr> oc_auth = a, oc_roles = ro, oc_status = st, oc_data = (if dat then Some SchBool else None), oc_errors = [],
       oc_query = [], oc_example = None \<rparr>)"

lemma agrees_outline_iff: "agrees_outline r (outline_of m) = agrees r m"
  by (auto simp: agrees_outline_def outline_of_def agrees_def documented_status_def)

lemma outline_order_agrees: "list_all2 (\<lambda>r e. agrees_outline r (snd e)) api_routes (map ((!) outlines) contract_order)"
  apply (simp add: contract_order_def outlines_def)
  apply (simp add: api_routes_def route_tables)
  apply (simp add: route_defs agrees_outline_def agrees_def documented_status_def same_roles_def created_documented_ok_def)
  done

lemma contract_order_all: "length CONTRACT = 112" "set contract_order = {..<112}"
proof -
  have "length outlines = 112" by (simp add: outlines_def)
  then show "length CONTRACT = 112" unfolding contract_outlines [symmetric] by simp
  have "sort contract_order = [0..<112]" by code_simp
  then have "set (sort contract_order) = set [0..<112]" by (rule arg_cong)
  then show "set contract_order = {..<112}" by (simp add: atLeast0LessThan)
qed

lemma outlines_nth: "j < 112 \<Longrightarrow> outlines ! j = (fst (CONTRACT ! j), outline_of (snd (CONTRACT ! j)))"
  unfolding contract_outlines [symmetric] using contract_order_all(1) by simp

lemma contract_order_keys: "map (\<lambda>j. fst (CONTRACT ! j)) contract_order = map route_key api_routes"
proof -
  have "map (\<lambda>j. fst (CONTRACT ! j)) contract_order = map (\<lambda>j. fst (outlines ! j)) contract_order"
    by (rule map_cong) (use contract_order_all(2) outlines_nth in auto)
  then show ?thesis using outline_order_keys by simp
qed

lemma contract_lookup:
  assumes "r \<in> set api_routes"
  shows "\<exists>m. map_of CONTRACT (route_key r) = Some m \<and> agrees r m"
proof -
  obtain i where i: "i < length api_routes" "api_routes ! i = r" using assms by (auto simp: in_set_conv_nth)
  have l: "length contract_order = length api_routes"
    using contract_order_keys by (metis length_map)
  define j where "j = contract_order ! i"
  have "j \<in> set contract_order" using i l by (simp add: j_def)
  then have j: "j < 112" using contract_order_all(2) by simp
  then have m: "CONTRACT ! j \<in> set CONTRACT" using contract_order_all(1) by simp
  have k: "fst (CONTRACT ! j) = route_key r"
    using arg_cong [OF contract_order_keys, of "\<lambda>xs. xs ! i"] i l by (simp add: j_def)
  have "agrees_outline r (snd (outlines ! j))"
    using list_all2_nthD [OF outline_order_agrees i(1)] i l by (simp add: j_def)
  then have "agrees r (snd (CONTRACT ! j))" using outlines_nth [OF j] by (simp add: agrees_outline_iff)
  moreover have "map_of CONTRACT (route_key r) = Some (snd (CONTRACT ! j))"
    using map_of_is_SomeI [OF contract_distinct] m k by (metis prod.collapse)
  ultimately show ?thesis by blast
qed

lemma contract_keys: "fst ` set CONTRACT = route_key ` set api_routes"
proof -
  have "fst ` set CONTRACT = (\<lambda>j. fst (CONTRACT ! j)) ` {..<112}"
    using contract_order_all(1) by (auto simp: set_conv_nth image_iff)
  also have "\<dots> = set (map (\<lambda>j. fst (CONTRACT ! j)) contract_order)" by (simp add: contract_order_all)
  also have "\<dots> = route_key ` set api_routes" by (simp add: contract_order_keys)
  finally show ?thesis .
qed

lemma contract_errors: "list_all (\<lambda>e. list_all (\<lambda>n. 400 \<le> n) (oc_errors (snd e))) CONTRACT"
  by (simp add: contract_tables op_meta_def)

lemma errors_keep_success:
  "\<forall>e \<in> set es. e \<noteq> st \<Longrightarrow> map_of (foldl (\<lambda>rs e. AList.update e (Json (SchRef ''ErrorEnvelope'')) rs) rs es) st = map_of rs st"
  by (induction es arbitrary: rs) (auto simp: update_conv)

lemma inputs_keys: "map fst operation_inputs = map fst CONTRACT"
proof -
  have "map fst operation_inputs = map fst outlines" by (simp add: inputs_tables outlines_def)
  then show ?thesis unfolding contract_outlines [symmetric] by (simp add: o_def)
qed

text \<open>A documented example stands at an operation with a body.\<close>

lemma example_has_body:
  assumes "map_of CONTRACT k = Some m" and "oc_example m \<noteq> None"
  shows "\<exists>d q. (k, Some d, q) \<in> set operation_inputs"
proof -
  have all: "list_all2 (\<lambda>i e. oc_example (snd e) \<noteq> None \<longrightarrow> fst (snd i) \<noteq> None) operation_inputs CONTRACT"
    by (simp add: inputs_tables contract_tables) (simp add: op_meta_def)
  obtain i where i: "i < length CONTRACT" "CONTRACT ! i = (k, m)"
    using map_of_SomeD [OF assms(1)] by (auto simp: in_set_conv_nth)
  have l: "length operation_inputs = length CONTRACT" using inputs_keys by (metis length_map)
  obtain k' d q where e: "operation_inputs ! i = (k', d, q)" by (cases "operation_inputs ! i")
  have "k' = k" using arg_cong [OF inputs_keys, of "\<lambda>xs. xs ! i"] i l e by simp
  moreover have "d \<noteq> None" using list_all2_nthD [OF all, of i] i l e assms(2) by simp
  ultimately show ?thesis using e i(1) l nth_mem [of i operation_inputs] by auto
qed

section \<open>Documents\<close>

text \<open>What the generator of \<^verbatim>\<open>@nestjs/swagger\<close> gives: the operations are the routes, and one whose handler has a \<^verbatim>\<open>@Body()\<close> of a class has
  a JSON body.\<close>

definition generated_from_routes :: "document \<Rightarrow> bool" where
  "generated_from_routes doc \<longleftrightarrow>
     (\<forall>(path, item) \<in> set (doc_paths doc). \<forall>(verb, op1) \<in> set item. verb \<in> set HTTP_METHODS \<longrightarrow>
        op_key verb path \<in> route_key ` set api_routes \<and>
        (\<forall>d q. (op_key verb path, Some d, q) \<in> set operation_inputs \<longrightarrow> op_jsonBody op1)) \<and>
     (\<forall>r \<in> set api_routes. \<exists>(path, item) \<in> set (doc_paths doc). \<exists>(verb, op1) \<in> set item.
        verb \<in> set HTTP_METHODS \<and> op_key verb path = route_key r)"

definition documents :: "(string \<rightharpoonup> schema) \<Rightarrow> route \<Rightarrow> operation \<Rightarrow> bool" where
  "documents C r op1 \<longleftrightarrow>
     (op_security op1 \<noteq> [] \<longleftrightarrow> rte_jwt r \<or> rte_skip r) \<and> same_roles (op_roles op1) (rte_roles r) \<and>
     (case map_of (op_responses op1) (if rte_handler r \<in> set created_documented_ok then 200 else rte_status r) of
        Some Raw_text \<Rightarrow> rte_skip r | Some (Json _) \<Rightarrow> \<not> rte_skip r | _ \<Rightarrow> False) \<and>
     (\<forall>(st, resp) \<in> set (op_responses op1). case resp of Json s \<Rightarrow> refs (inline C (inline C s)) = [] | _ \<Rightarrow> True)"

text \<open>Every reference of the contract names a registered component.\<close>

definition entry_refs :: "op_contract \<Rightarrow> string list" where
  "entry_refs m = (case oc_data m of None \<Rightarrow> [] | Some s \<Rightarrow> refs s)"

lemma contract_refs: "list_all (\<lambda>e. list_all (\<lambda>n. n \<in> set (map fst RESPONSE_COMPONENTS)) (entry_refs (snd e))) CONTRACT"
  by (simp add: contract_tables op_meta_def entry_refs_def RESPONSE_COMPONENTS_def shared_schemas contract_builders)

definition published :: "(string \<rightharpoonup> schema) \<Rightarrow> (string \<rightharpoonup> schema)" where
  "published C = (C ++ map_of RESPONSE_COMPONENTS)(''ErrorEnvelope'' \<mapsto> envelopeError)"

lemma published_components: "(n, s) \<in> set RESPONSE_COMPONENTS \<Longrightarrow> published C n = Some s"
proof -
  assume m: "(n, s) \<in> set RESPONSE_COMPONENTS"
  have "list_all (\<lambda>c. fst c \<noteq> ''ErrorEnvelope'') RESPONSE_COMPONENTS" by (simp add: RESPONSE_COMPONENTS_def)
  then have "n \<noteq> ''ErrorEnvelope''" using m by (auto simp: list_all_iff)
  then show ?thesis using map_of_is_SomeI [OF components_distinct m] by (simp add: published_def)
qed

lemma error_schema_closed: "refs (inline (published C) (inline (published C) (SchRef ''ErrorEnvelope''))) = []"
  by (simp add: published_def envelopeError_def)

lemma data_schema_closed:
  assumes "(k, m) \<in> set CONTRACT" and "oc_data m = Some s"
  shows "refs (inline (published C) (inline (published C) (envelopeOf s))) = []"
proof -
  have "set (refs s) \<subseteq> fst ` set RESPONSE_COMPONENTS"
    using contract_refs assms by (fastforce simp: list_all_iff entry_refs_def)
  then have "refs (inline (published C) (inline (published C) s)) = []"
    using inline_twice_closed published_components by blast
  then show ?thesis by (simp add: envelopeOf_def)
qed

lemma route_status: "r \<in> set api_routes \<Longrightarrow> rte_status r < 400 \<and> (rte_jwt r \<longrightarrow> \<not> rte_skip r)"
proof -
  have "list_all (\<lambda>r. rte_status r < 400 \<and> (rte_jwt r \<longrightarrow> \<not> rte_skip r)) api_routes"
    by (simp add: api_routes_def route_tables route_defs)
  then show "r \<in> set api_routes \<Longrightarrow> rte_status r < 400 \<and> (rte_jwt r \<longrightarrow> \<not> rte_skip r)" by (simp add: list_all_iff)
qed

lemma set_error_responses:
  "x \<in> set (foldl (\<lambda>rs e. AList.update e v rs) rs es) \<Longrightarrow> x \<in> set rs \<or> snd x = v"
proof (induction es arbitrary: rs)
  case (Cons e es)
  have "x \<in> set (AList.update e v rs) \<Longrightarrow> x \<in> set rs \<or> snd x = v" by (induction rs) (auto split: if_splits)
  then show ?case using Cons by auto
qed simp

lemma apply_documents:
  assumes "r \<in> set api_routes" and "map_of CONTRACT (route_key r) = Some m" and "agrees r m"
    and "oc_example m \<noteq> None \<longrightarrow> op_jsonBody o1"
  shows "snd (applyContract m k o1) = []" "documents (published C) r (fst (applyContract m k o1))"
proof -
  let ?st = "if rte_handler r \<in> set created_documented_ok then 200 else rte_status r"
  let ?rs = "if oc_auth m = AMetrics then [(?st, Raw_text)]
    else case oc_data m of Some data \<Rightarrow> [(?st, Json (envelopeOf data))] | None \<Rightarrow> []"
  note a = assms(3) [unfolded agrees_def]
  have st: "documented_status m = ?st" "?st < 400" using a route_status [OF assms(1)] by (auto split: if_splits)
  have m: "(route_key r, m) \<in> set CONTRACT" using assms(2) by (rule map_of_SomeD)
  then have e: "\<forall>n \<in> set (oc_errors m). n \<noteq> ?st" using contract_errors st(2) by (fastforce simp: list_all_iff)
  show "snd (applyContract m k o1) = []" using a assms(4) by (auto simp: applyContract_def Let_def split: if_splits)
  have r: "op_responses (fst (applyContract m k o1)) =
      foldl (\<lambda>rs e. AList.update e (Json (SchRef ''ErrorEnvelope'')) rs) ?rs (oc_errors m)"
    using st(1) by (simp add: applyContract_def Let_def documented_status_def)
  have s: "op_security (fst (applyContract m k o1)) \<noteq> [] \<longleftrightarrow> rte_jwt r \<or> rte_skip r"
    "op_roles (fst (applyContract m k o1)) = oc_roles m" using a by (auto simp: applyContract_def Let_def)
  have ok: "case map_of (op_responses (fst (applyContract m k o1))) ?st of
      Some Raw_text \<Rightarrow> rte_skip r | Some (Json _) \<Rightarrow> \<not> rte_skip r | _ \<Rightarrow> False"
  proof (cases "rte_skip r")
    case True
    then have "oc_auth m = AMetrics" using a route_status [OF assms(1)] by simp
    then show ?thesis unfolding r errors_keep_success [OF e] using True by simp
  next
    case False
    then have n: "oc_auth m \<noteq> AMetrics" using a by simp
    then have "oc_data m \<noteq> None" using a by blast
    then obtain data where "oc_data m = Some data" by blast
    then show ?thesis unfolding r errors_keep_success [OF e] using False n by simp
  qed
  have "case x of (st, resp) \<Rightarrow> (case resp of Json s \<Rightarrow> refs (inline (published C) (inline (published C) s)) = [] | _ \<Rightarrow> True)"
    if x: "x \<in> set (op_responses (fst (applyContract m k o1)))" for x
  proof -
    have "x \<in> set ?rs \<or> snd x = Json (SchRef ''ErrorEnvelope'')" using x unfolding r by (rule set_error_responses)
    then show ?thesis
    proof
      assume "x \<in> set ?rs"
      then show ?thesis using data_schema_closed [OF m, of _ C] by (auto split: if_splits option.splits)
    next
      assume "snd x = Json (SchRef ''ErrorEnvelope'')"
      then show ?thesis using error_schema_closed [of C] by (cases x) simp
    qed
  qed
  moreover have "same_roles (op_roles (fst (applyContract m k o1))) (rte_roles r)" unfolding s(2) using a by blast
  ultimately show "documents (published C) r (fst (applyContract m k o1))"
    unfolding documents_def using s(1) ok by blast
qed

lemma enrich_op_routes:
  assumes "generated_from_routes doc" and "(path, item) \<in> set (doc_paths doc)" and "(verb, o1) \<in> set item"
    and "verb \<in> set HTTP_METHODS"
  shows "\<exists>r \<in> set api_routes. \<exists>o2. route_key r = op_key verb path \<and> documents (published C) r o2 \<and>
    enrich_op path (verb, o1) = ((verb, o2), [op_key verb path], [])"
proof -
  have g: "op_key verb path \<in> route_key ` set api_routes"
    "\<forall>d q. (op_key verb path, Some d, q) \<in> set operation_inputs \<longrightarrow> op_jsonBody o1"
    using assms unfolding generated_from_routes_def by fast+
  then obtain r where r: "r \<in> set api_routes" "route_key r = op_key verb path" by auto
  obtain m where m: "map_of CONTRACT (route_key r) = Some m" "agrees r m" using contract_lookup [OF r(1)] by blast
  have e: "oc_example m \<noteq> None \<longrightarrow> op_jsonBody o1" using g(2) example_has_body [OF m(1)] r(2) by metis
  note d = apply_documents(1) [OF r(1) m e] apply_documents(2) [OF r(1) m e, of C]
  have "enrich_op path (verb, o1) = ((verb, fst (applyContract m (op_key verb path) o1)), [op_key verb path], [])"
    using assms(4) m(1) d(1) r(2) by (simp add: enrich_op_def split_beta)
  then show ?thesis using r d(2) by blast
qed

lemma enrich_op_other: "verb \<notin> set HTTP_METHODS \<Longrightarrow> enrich_op path (verb, o1) = ((verb, o1), [], [])"
  by (simp add: enrich_op_def)

lemma enrich_problems:
  assumes "generated_from_routes doc" and "(path, item) \<in> set (doc_paths doc)" and "x \<in> set item"
  shows "snd (snd (enrich_op path x)) = []"
proof (cases "fst x \<in> set HTTP_METHODS")
  case True
  then show ?thesis using enrich_op_routes [OF assms(1,2), of "fst x" "snd x" Map.empty] assms(3) by auto
qed (cases x, simp add: enrich_op_other)

definition enriched :: "document \<Rightarrow> document" where
  "enriched doc = doc\<lparr>doc_paths := map (\<lambda>(path, item). (path, map (fst \<circ> enrich_op path) item)) (doc_paths doc),
     doc_schemas := published (doc_schemas doc), doc_description := INFO_DESCRIPTION, doc_tags := TAG_DESCRIPTIONS\<rparr>"

lemma enrich_complete:
  assumes "generated_from_routes doc"
  shows "enrichOpenApiDocument doc = Inr (enriched doc)"
proof -
  let ?seen = "concat (map (\<lambda>(path, item). concat (map (\<lambda>x. fst (snd (enrich_op path x))) item)) (doc_paths doc))"
  have p: "concat (map (\<lambda>(path, item). concat (map (\<lambda>x. snd (snd (enrich_op path x))) item)) (doc_paths doc)) = []"
    using enrich_problems [OF assms] by fastforce
  have "k \<in> set ?seen" if k: "k \<in> set (map fst CONTRACT)" for k
  proof -
    have "k \<in> route_key ` set api_routes" using k contract_keys by simp
    then obtain r where r: "r \<in> set api_routes" "route_key r = k" by auto
    then obtain path item verb o1 where o: "(path, item) \<in> set (doc_paths doc)" "(verb, o1) \<in> set item"
      "verb \<in> set HTTP_METHODS" "op_key verb path = k" using assms unfolding generated_from_routes_def by fast
    have "k \<in> set (fst (snd (enrich_op path (verb, o1))))" using enrich_op_routes [OF assms o(1-3), of Map.empty] o(4) by auto
    then show ?thesis using o(1,2) by fastforce
  qed
  then have f: "filter (\<lambda>k. k \<notin> set ?seen) (map fst CONTRACT) = []" unfolding filter_empty_conv by blast
  show ?thesis using p f unfolding enrichOpenApiDocument_def Let_def enriched_def published_def
    by (simp only: map_map o_def split_beta fst_conv snd_conv case_prod_beta' prod.case) simp
qed

text \<open>
  C36: The committed contract and the routes agree. A document generated from the routes is enriched without a
  problem, so every route has an entry and no entry is stale; in the result each operation is that of a
  route, asks for a token exactly where the route has a guard or is the scrape, names the roles of the
  route, and documents its success, with the status of the route except for the listed handlers,
  which answer 201 where 200 is documented; and every reference of a documented answer resolves among the
  registered components, which are two levels deep.
\<close>

theorem contract_documents_routes:
  assumes "generated_from_routes doc"
  shows "\<exists>doc'. enrichOpenApiDocument doc = Inr doc' \<and>
    (\<forall>(path, item) \<in> set (doc_paths doc'). \<forall>(verb, o2) \<in> set item. verb \<in> set HTTP_METHODS \<longrightarrow>
       (\<exists>r \<in> set api_routes. route_key r = op_key verb path \<and> documents (doc_schemas doc') r o2))"
proof -
  let ?C = "published (doc_schemas doc)"
  have "\<exists>r \<in> set api_routes. route_key r = op_key verb path \<and> documents ?C r o2"
    if w: "(path, item) \<in> set (doc_paths doc)" "x \<in> set item" "fst (enrich_op path x) = (verb, o2)" "verb \<in> set HTTP_METHODS"
    for path item x verb o2
  proof -
    obtain v o1 where x: "x = (v, o1)" by (cases x) auto
    have v: "v = verb" using w(3) by (auto simp: x enrich_op_def split: if_splits option.splits prod.splits)
    from enrich_op_routes [OF assms w(1), of v o1 "doc_schemas doc"] w show ?thesis by (auto simp: x v)
  qed
  then have "\<forall>(path, item) \<in> set (doc_paths (enriched doc)). \<forall>(verb, o2) \<in> set item. verb \<in> set HTTP_METHODS \<longrightarrow>
       (\<exists>r \<in> set api_routes. route_key r = op_key verb path \<and> documents (doc_schemas (enriched doc)) r o2)"
    unfolding enriched_def by force
  then show ?thesis using enrich_complete [OF assms] by blast
qed

text \<open>The routes grouped by path.\<close>

definition op0 :: operation where
  "op0 = \<lparr> op_security = [], op_roles = None, op_parameters = [(In_path, ''id'', True, SchStr None False [])], op_jsonBody = True,
     op_example = None,
     op_responses = [(200, Generated)] \<rparr>"

definition paths0 :: paths where
  "paths0 = map (\<lambda>p. (p, map (\<lambda>r. (show_verb (rte_verb r), op0)) (filter (\<lambda>r. braces (full_path r) = p) api_routes)))
     (remdups (map (\<lambda>r. braces (full_path r)) api_routes))"

definition doc0 :: document where
  "doc0 = \<lparr> doc_paths = paths0, doc_schemas = Map.empty, doc_description = [], doc_tags = [] \<rparr>"

lemma doc0_generated: "generated_from_routes doc0"
proof -
  have v: "show_verb v \<in> set HTTP_METHODS" for v by (cases v) (simp_all add: show_verb_def HTTP_METHODS_def)
  show ?thesis unfolding generated_from_routes_def doc0_def document.select_convs
  proof (intro conjI)
    show "\<forall>(path, item) \<in> set paths0. \<forall>(verb, op1) \<in> set item. verb \<in> set HTTP_METHODS \<longrightarrow>
        op_key verb path \<in> route_key ` set api_routes \<and>
        (\<forall>d q. (op_key verb path, Some d, q) \<in> set operation_inputs \<longrightarrow> op_jsonBody op1)"
      by (auto simp: paths0_def op0_def route_key_def image_iff) metis
    show "\<forall>r \<in> set api_routes. \<exists>(path, item) \<in> set paths0. \<exists>(verb, op1) \<in> set item.
        verb \<in> set HTTP_METHODS \<and> op_key verb path = route_key r"
      using v by (fastforce simp: paths0_def route_key_def)
  qed
qed

theorem contract_documents_routes_witness:
  "distinct (map fst (doc_paths doc0)) \<and> (\<exists>doc'. enrichOpenApiDocument doc0 = Inr doc')"
  using contract_documents_routes [OF doc0_generated] by (auto simp: doc0_def paths0_def o_def)

text \<open>
  The entry of a route that answers 201 and is documented with 200: the client that follows the contract does not
  expect the answer.
\<close>

lemma reset_password_status_diverges:
  "\<exists>r m. r \<in> set api_routes \<and> rte_handler r = ''Auth.resetPassword'' \<and> map_of CONTRACT (route_key r) = Some m \<and>
     rte_status r = 201 \<and> documented_status m = 200"
proof -
  let ?r = "auth_route POST ''auth/reset-password'' ''Auth.resetPassword'' [] 201"
  have r: "?r \<in> set api_routes" by (simp add: api_routes_def auth_routes_def)
  obtain m where m: "map_of CONTRACT (route_key ?r) = Some m" "agrees ?r m" using contract_lookup [OF r] by blast
  have "documented_status m = 200" "rte_status ?r = 201" "rte_handler ?r = ''Auth.resetPassword''"
    using m(2) by (simp_all add: agrees_def route_defs created_documented_ok_def)
  then show ?thesis using r m(1) by blast
qed

end
