(* ===== verification/Contract_Inputs.thy ===== *)
theory Contract_Inputs
  imports Contract
begin

text \<open>
  The documented inputs against the validators: for every operation the DTO classes of its body and of its query, as
  the controllers declare them, compared with the query parameters and the request examples of the
  contract in \<^verbatim>\<open>src/openapi/contract.ts\<close>.
\<close>

section \<open>Canonical texts\<close>

text \<open>
  What class-validator accepts in any case: identifiers of RFC 4122, plain addresses within the limits of
  \<^verbatim>\<open>isEmail\<close> (64 characters before the at sign, 63 in a label, 254 in all), and dates and instants in ISO
  8601. A number and a text in a body stay as they are.
\<close>

definition uuid_form :: "string \<Rightarrow> bool" where
  "uuid_form x \<longleftrightarrow> UUID_PATTERN x \<and> x ! 14 \<in> set ''12345'' \<and> x ! 19 \<in> set ''89ab''"

definition email_form :: "string \<Rightarrow> bool" where
  "email_form x = (case split_char CHR ''@'' x of
       [local, domain] \<Rightarrow> length x \<le> 254 \<and> local \<noteq> [] \<and> length local \<le> 64 \<and> list_all (\<lambda>g. g \<noteq> [] \<and> list_all (\<lambda>c. is_lower c \<or> c = CHR ''+'') g) (split_char CHR ''.'' local) \<and>
         length (split_char CHR ''.'' domain) = 2 \<and> list_all (\<lambda>g. 2 \<le> length g \<and> length g \<le> 63 \<and> list_all is_lower g) (split_char CHR ''.'' domain)
     | _ \<Rightarrow> False)"

definition day_form :: "string \<Rightarrow> bool" where
  "day_form x \<longleftrightarrow> length x = 10 \<and> year_month (take 7 x) \<and> x ! 7 = CHR ''-'' \<and> list_all is_digit (drop 8 x) \<and>
     drop 8 x \<noteq> ''00'' \<and> (x ! 8 \<in> set ''01'' \<or> x ! 8 = CHR ''2'' \<and> (drop 5 x \<noteq> ''02-29''))"

definition instant_form :: "string \<Rightarrow> bool" where
  "instant_form x \<longleftrightarrow> length x = 24 \<and> day_form (take 10 x) \<and> x ! 10 = CHR ''T'' \<and> hh_mm (take 5 (drop 11 x)) \<and> x ! 16 = CHR '':'' \<and>
     x ! 17 \<in> set ''012345'' \<and> is_digit (x ! 18) \<and> x ! 19 = CHR ''.'' \<and> list_all is_digit (take 3 (drop 20 x)) \<and> x ! 23 = CHR ''Z''"

definition canonical :: "validator_lib \<Rightarrow> bool" where
  "canonical L \<longleftrightarrow> (\<forall>x. uuid_form x \<longrightarrow> vl_uuid L x) \<and> (\<forall>x. email_form x \<longrightarrow> vl_email L x) \<and>
     (\<forall>x. day_form x \<or> instant_form x \<longrightarrow> vl_dateString L x \<and> vl_date L (JStr x)) \<and>
     (\<forall>n. vl_number L (JNum n) = Some (JNum n)) \<and> (\<forall>x. vl_string L (JStr x) = x)"

lemma sample_uuids: "list_all uuid_form [''5f0c9d3a-1b2c-4d5e-8f90-1a2b3c4d5e6f'', ''9b1deb4d-3b7d-4bad-9bdd-2b0d7b3dcb6d'',
    ''c0a80101-7154-4b6d-8f3d-2f1e0d9c9a01'', ''c0a80101-7154-4b6d-8f3d-2f1e0d9c9a02'']"
  by code_simp

lemma sample_emails: "list_all email_form [''hlv.hong@example.com'', ''thao.vovan+new@example.com'', ''thao.vovan@example.com'']"
  by code_simp

lemma sample_days: "list_all day_form [''2008-05-14'', ''2026-03-20'', ''2026-03-28'', ''2026-09-01'', ''2026-09-22'', ''2026-09-29'']"
  by code_simp

lemma sample_instants: "list_all instant_form [''2026-01-01T00:00:00.000Z'', ''2026-02-28T23:59:59.000Z'', ''2026-03-15T23:59:59.000Z'']"
  by code_simp

lemma sample_times: "hh_mm ''18:00''" "hh_mm ''19:30''"
  by code_simp+

lemmas samples = sample_uuids [simplified] sample_emails [simplified] sample_days [simplified] sample_instants [simplified]

lemma canonical_accepts:
  assumes "canonical L"
  shows "uuid_form x \<Longrightarrow> vl_uuid L x" "email_form x \<Longrightarrow> vl_email L x" "day_form x \<Longrightarrow> vl_dateString L x" "day_form x \<Longrightarrow> vl_date L (JStr x)"
    "instant_form x \<Longrightarrow> vl_dateString L x" "instant_form x \<Longrightarrow> vl_date L (JStr x)" "vl_number L (JNum n) = Some (JNum n)"
    "vl_string L (JStr x) = x"
  using assms unfolding canonical_def by blast+

section \<open>Comparison\<close>

definition query_fields :: "dto option \<Rightarrow> field list" where
  "query_fields q = (case q of None \<Rightarrow> [] | Some d \<Rightarrow> fields_of d)"

fun mandatory :: "field \<Rightarrow> bool" where
  "mandatory (Field _ opt _ _) = (\<not> opt)"

text \<open>The parameters are those of the query class, required where the class requires them.\<close>

definition query_ok :: "dto option \<Rightarrow> op_contract \<Rightarrow> bool" where
  "query_ok q m \<longleftrightarrow> set (map (\<lambda>(n, r, s). (n, r)) (oc_query m)) = set (map (\<lambda>f. (field_name f, mandatory f)) (query_fields q))"

text \<open>Each value of a documented enumeration passes.\<close>

definition enum_ok :: "validator_lib \<Rightarrow> dto option \<Rightarrow> op_contract \<Rightarrow> bool" where
  "enum_ok L q m \<longleftrightarrow> list_all (\<lambda>(n, r, s). case s of
       SchStr _ _ vs \<Rightarrow> list_all (\<lambda>v. list_all (\<lambda>f. passes L f (Some (JStr v))) (filter (\<lambda>f. field_name f = n) (query_fields q))) vs
     | _ \<Rightarrow> True) (oc_query m)"

text \<open>An example is documented exactly where there is a body, and conforms except for the listed operations.\<close>

definition refused_examples :: "string list" where
  "refused_examples = [''POST /api/v1/auth/verify-email'', ''POST /api/v1/auth/reset-password'', ''POST /api/v1/auth/change-email/confirm'']"

definition example_ok :: "validator_lib \<Rightarrow> string \<Rightarrow> dto option \<Rightarrow> op_contract \<Rightarrow> bool" where
  "example_ok L k b m = (case (b, oc_example m) of
       (None, None) \<Rightarrow> True
     | (Some d, Some ex) \<Rightarrow> conforms L d ex = (k \<notin> set refused_examples)
     | _ \<Rightarrow> False)"

lemma inputs_query: "list_all2 (\<lambda>i e. query_ok (snd (snd i)) (snd e)) operation_inputs CONTRACT"
  apply (simp add: inputs_tables contract_tables)
  apply (simp add: op_meta_def query_ok_def query_fields_def pageParam_def)
  apply (simp add: dto_defs insert_commute)
  done

lemma inputs_enum: "list_all2 (\<lambda>i e. enum_ok L (snd (snd i)) (snd e)) operation_inputs CONTRACT"
  apply (simp add: inputs_tables contract_tables)
  apply (simp add: op_meta_def enum_ok_def query_fields_def contract_builders)
  apply (simp add: dto_defs str_test_def convert_def)
  done

lemma inputs_example:
  assumes "canonical L"
  shows "list_all2 (\<lambda>i e. example_ok L (fst i) (fst (snd i)) (snd e)) operation_inputs CONTRACT"
  apply (simp add: inputs_tables contract_tables)
  apply (simp add: op_meta_def example_ok_def refused_examples_def)
  apply (simp add: dto_defs str_test_def arr_test_def convert_def canonical_accepts [OF assms] samples sample_times)
  done

lemma input_entry:
  assumes "canonical L" and "(k, b, q) \<in> set operation_inputs"
  shows "\<exists>m. map_of CONTRACT k = Some m \<and> query_ok q m \<and> enum_ok L q m \<and> example_ok L k b m"
proof -
  obtain i where i: "i < length operation_inputs" "operation_inputs ! i = (k, b, q)"
    using assms(2) by (auto simp: in_set_conv_nth)
  have l: "length CONTRACT = length operation_inputs" using inputs_keys by (metis length_map)
  have k: "fst (CONTRACT ! i) = k" using arg_cong [OF inputs_keys, of "\<lambda>xs. xs ! i"] i l by simp
  have "CONTRACT ! i \<in> set CONTRACT" using i l by simp
  then have "map_of CONTRACT k = Some (snd (CONTRACT ! i))"
    using map_of_is_SomeI [OF contract_distinct] k by (metis prod.collapse)
  moreover have "query_ok q (snd (CONTRACT ! i))" "enum_ok L q (snd (CONTRACT ! i))" "example_ok L k b (snd (CONTRACT ! i))"
    using list_all2_nthD [OF inputs_query i(1)] list_all2_nthD [OF inputs_enum i(1), of L]
      list_all2_nthD [OF inputs_example [OF assms(1)] i(1)] i(2) by simp_all
  ultimately show ?thesis by blast
qed

text \<open>
  C39: The documented inputs are those the validators take. Every operation of the contract has the parameter classes of
  its handler; its query parameters are exactly the properties of the query class, required where the
  class requires them, and each value of a documented enumeration passes; a request example is there
  exactly for the operations with a body, and it passes validation, except for the three listed ones,
  which no validator of this shape accepts: their token is shorter than the minimum of ten characters.
\<close>

theorem documented_inputs_validate:
  assumes "canonical L"
  shows "map fst operation_inputs = map fst CONTRACT \<and>
    (\<forall>(k, b, q) \<in> set operation_inputs. \<exists>m. map_of CONTRACT k = Some m \<and>
       set (map (\<lambda>(n, r, s). (n, r)) (oc_query m)) = set (map (\<lambda>f. (field_name f, mandatory f)) (query_fields q)) \<and>
       enum_ok L q m \<and>
       (case (b, oc_example m) of
          (None, None) \<Rightarrow> True
        | (Some d, Some ex) \<Rightarrow> conforms L d ex = (k \<notin> set refused_examples)
        | _ \<Rightarrow> False))"
  using inputs_keys input_entry [OF assms] unfolding query_ok_def example_ok_def by fast

text \<open>A validator that accepts just the canonical forms.\<close>

definition form_lib :: validator_lib where
  "form_lib = \<lparr> vl_number = Some, vl_string = str_of, vl_uuid = uuid_form, vl_email = email_form,
     vl_dateString = (\<lambda>x. day_form x \<or> instant_form x),
     vl_date = (\<lambda>v. case v of JStr x \<Rightarrow> day_form x \<or> instant_form x | _ \<Rightarrow> False) \<rparr>"

lemma form_lib_canonical: "canonical form_lib"
  by (simp add: canonical_def form_lib_def str_of_def)

theorem documented_inputs_validate_witness:
  "canonical form_lib \<and> map fst operation_inputs = map fst CONTRACT \<and> length operation_inputs = 112"
proof -
  have "map fst operation_inputs = map fst CONTRACT" using documented_inputs_validate [OF form_lib_canonical] by blast
  then have "length operation_inputs = length CONTRACT" by (metis length_map)
  then show ?thesis using \<open>map fst operation_inputs = map fst CONTRACT\<close> form_lib_canonical contract_order_all(1) by simp
qed

text \<open>The body documented for the confirmation of an address is answered with 400, whatever the tests of the library are.\<close>

lemma verify_email_example_refused: "\<not> conforms L VerifyEmailDto (JObj [(''token'', JStr ''8f1c...a9'')])"
  by (simp add: VerifyEmailDto_def str_test_def convert_def)

end
