(* ===== verification/Instants.thy ===== *)
theory Instants
  imports Calendar
begin

text \<open>
  The text of an instant: \<^verbatim>\<open>Date.prototype.toISOString\<close>, which \<^verbatim>\<open>JSON.stringify\<close> writes for a date, for the years 0 to 9999
  (outside them the language writes a sign and six digits), and that it is a date-time of RFC 3339.
\<close>

definition pad2 :: "int \<Rightarrow> string" where
  "pad2 n = padStart 2 CHR ''0'' (show_int n)"

definition toISOString :: "instant \<Rightarrow> string" where
  "toISOString t = iso_date t @ ''T'' @ pad2 (t div 3600000 mod 24) @ '':'' @ pad2 (t div 60000 mod 60) @ '':'' @
     pad2 (t div 1000 mod 60) @ ''.'' @ padStart 3 CHR ''0'' (show_int (t mod 1000)) @ ''Z''"

definition four_digit_year :: "instant \<Rightarrow> bool" where
  "four_digit_year t \<longleftrightarrow> 0 \<le> getUTCFullYear t \<and> getUTCFullYear t \<le> 9999"

section \<open>The formats of RFC 3339\<close>

definition numeral_in :: "nat \<Rightarrow> nat \<Rightarrow> string \<Rightarrow> bool" where
  "numeral_in a b x \<longleftrightarrow> list_all is_digit x \<and> a \<le> digits_val x \<and> digits_val x \<le> b"

text \<open>The length of a month, 1 being January.\<close>

definition month_length :: "nat \<Rightarrow> nat \<Rightarrow> nat" where
  "month_length y m = nat (month_start (is_leap (int y)) m - month_start (is_leap (int y)) (m - 1))"

definition full_date :: "string \<Rightarrow> bool" where
  "full_date x \<longleftrightarrow> length x = 10 \<and> x ! 4 = CHR ''-'' \<and> x ! 7 = CHR ''-'' \<and>
     list_all is_digit (take 4 x) \<and> numeral_in 1 12 (take 2 (drop 5 x)) \<and>
     numeral_in 1 (month_length (digits_val (take 4 x)) (digits_val (take 2 (drop 5 x)))) (drop 8 x)"

text \<open>
  A time with an optional fraction, here in UTC; the format also knows numeric offsets and a leap
  second, which a date of the language never has.
\<close>

definition full_time :: "string \<Rightarrow> bool" where
  "full_time x \<longleftrightarrow> 9 \<le> length x \<and> x ! 2 = CHR '':'' \<and> x ! 5 = CHR '':'' \<and> last x = CHR ''Z'' \<and>
     numeral_in 0 23 (take 2 x) \<and> numeral_in 0 59 (take 2 (drop 3 x)) \<and> numeral_in 0 59 (take 2 (drop 6 x)) \<and>
     (let frac = butlast (drop 8 x) in frac = [] \<or> hd frac = CHR ''.'' \<and> tl frac \<noteq> [] \<and> list_all is_digit (tl frac))"

definition date_time :: "string \<Rightarrow> bool" where
  "date_time x \<longleftrightarrow> 11 \<le> length x \<and> x ! 10 = CHR ''T'' \<and> full_date (take 10 x) \<and> full_time (drop 11 x)"

section \<open>Digits\<close>

lemma length_show_nat: "n < 10 ^ Suc w \<Longrightarrow> length (show_nat n) \<le> Suc w"
proof (induction w arbitrary: n)
  case (Suc w)
  then have "n div 10 < 10 ^ Suc w" by (simp add: less_mult_imp_div_less)
  then show ?case using Suc.IH [of "n div 10"] by (simp add: show_nat.simps [of n])
next
  case 0
  then show ?case by (simp add: show_nat.simps [of n])
qed

lemma padded:
  assumes "0 \<le> n" and "n < 10 ^ Suc w"
  shows "length (padStart (Suc w) CHR ''0'' (show_int n)) = Suc w" "list_all is_digit (padStart (Suc w) CHR ''0'' (show_int n))"
    "digits_val (padStart (Suc w) CHR ''0'' (show_int n)) = nat n"
proof -
  have "nat n < 10 ^ Suc w" using assms by (simp add: nat_less_iff)
  then show "length (padStart (Suc w) CHR ''0'' (show_int n)) = Suc w"
    using length_show_nat [of "nat n" w] assms(1) by (simp add: show_int_def padStart_def)
  show "list_all is_digit (padStart (Suc w) CHR ''0'' (show_int n))" "digits_val (padStart (Suc w) CHR ''0'' (show_int n)) = nat n"
    using assms(1) padStart_digits [OF show_nat_digits, of "Suc w" "nat n"] by (simp_all add: show_int_def list_all_iff padStart_def digits_val_zero_pad)
qed

lemmas two = padded [of _ 1, simplified, folded numeral_2_eq_2]

lemma pad2_numeral:
  assumes "0 \<le> n" and "n < 100"
  shows "length (pad2 n) = 2" "numeral_in a b (pad2 n) \<longleftrightarrow> a \<le> nat n \<and> nat n \<le> b" "digits_val (pad2 n) = nat n"
  using two [OF assms] by (simp_all add: pad2_def numeral_in_def)

section \<open>Months and days\<close>

lemma yday_month:
  assumes "0 \<le> n" and "n < (if l then 366 else 365)"
  obtains m where "m < 12" "month_start l m \<le> n" "n < month_start l (Suc m)"
proof -
  have z: "month_start l 0 \<le> n" and p: "n < month_start l 12"
    using assms by (simp_all add: month_start_def month_starts_def split: if_splits)
  have "\<exists>m < 12. month_start l m \<le> n \<and> n < month_start l (Suc m)"
  proof (rule ccontr)
    assume none: "\<not> ?thesis"
    have "k \<le> 12 \<longrightarrow> month_start l k \<le> n" for k
    proof (induction k)
      case (Suc k)
      then show ?case using none by (auto simp: not_less)
    qed (simp add: z)
    from this [of 12] p show False by simp
  qed
  then show thesis using that by blast
qed

lemma month_and_day:
  "getUTCMonth t < 12" "1 \<le> getUTCDate t"
  "getUTCDate t \<le> month_start (is_leap (getUTCFullYear t)) (Suc (getUTCMonth t)) - month_start (is_leap (getUTCFullYear t)) (getUTCMonth t)"
proof -
  let ?l = "is_leap (getUTCFullYear t)" and ?n = "utc_day t - year_start (getUTCFullYear t)"
  have n: "0 \<le> ?n" "?n < (if ?l then 366 else 365)"
    using year_of_day_bounds [of "utc_day t"] by (simp_all add: getUTCFullYear_def year_start_step split: if_splits)
  obtain m where m: "m < 12" "month_start ?l m \<le> ?n" "?n < month_start ?l (Suc m)" using yday_month [OF n] by blast
  have k: "getUTCMonth t = m" using month_of_yday_eq [OF m] by (simp add: getUTCMonth_def Let_def)
  show "getUTCMonth t < 12" using k m(1) by simp
  show "1 \<le> getUTCDate t" "getUTCDate t \<le> month_start ?l (Suc (getUTCMonth t)) - month_start ?l (getUTCMonth t)"
    using m(2,3) by (simp_all add: getUTCDate_def Let_def k)
qed

lemma month_length_le:
  assumes "m < 12"
  shows "month_start l (Suc m) - month_start l m \<le> 31"
proof -
  have "m \<in> {0, 1, 2, 3, 4, 5, 6, 7, 8, 9, 10, 11}" using assms by (rule month_index)
  then show ?thesis by (cases l; elim insertE; simp add: month_start_def month_starts_def numeral_eq_Suc)
qed

section \<open>The text of an instant\<close>

lemma full_date_iso:
  assumes "four_digit_year t"
  shows "full_date (iso_date t) \<and> length (iso_date t) = 10"
proof -
  let ?y = "padStart 4 CHR ''0'' (show_int (getUTCFullYear t))" and ?m = "pad2 (int (getUTCMonth t + 1))" and ?d = "pad2 (getUTCDate t)"
  note md = month_and_day [of t] month_length_le [OF month_and_day(1) [of t], of "is_leap (getUTCFullYear t)"]
  have y: "length ?y = 4" "list_all is_digit ?y" "digits_val ?y = nat (getUTCFullYear t)"
    using padded [of "getUTCFullYear t" 3] assms by (simp_all add: four_digit_year_def numeral_eq_Suc)
  have m: "length ?m = 2" "numeral_in 1 12 ?m" "digits_val ?m = Suc (getUTCMonth t)"
    using pad2_numeral [of "int (getUTCMonth t + 1)"] md(1) nat_int [of "Suc (getUTCMonth t)"] by simp_all
  have d: "length ?d = 2" "numeral_in 1 (month_length (nat (getUTCFullYear t)) (Suc (getUTCMonth t))) ?d"
    using pad2_numeral [of "getUTCDate t"] md(2-4) assms by (simp_all add: month_length_def four_digit_year_def nat_le_eq_zle le_nat_iff)
  have t: "iso_date t = ?y @ CHR ''-'' # ?m @ CHR ''-'' # ?d" by (simp add: iso_date_def pad2_def show_int_def nat_add_distrib)
  show ?thesis unfolding t full_date_def using y m d by (simp add: nth_append)
qed

lemma pair_of:
  assumes "length x = 2"
  obtains a b where "x = [a, b]"
  using assms by (auto simp: numeral_2_eq_2 length_Suc_conv)

lemma full_time_text:
  assumes "length h = 2" "numeral_in 0 23 h" and "length m = 2" "numeral_in 0 59 m" and "length s = 2" "numeral_in 0 59 s"
    and "f \<noteq> []" "list_all is_digit f"
  shows "full_time (h @ CHR '':'' # m @ CHR '':'' # s @ CHR ''.'' # f @ ''Z'')"
proof -
  obtain a b c d p q where "h = [a, b]" "m = [c, d]" "s = [p, q]" using assms(1,3,5) by (metis pair_of)
  then show ?thesis using assms by (simp add: full_time_def numeral_eq_Suc butlast_append)
qed

theorem toISOString_date_time:
  assumes "four_digit_year t"
  shows "date_time (toISOString t)"
proof -
  let ?h = "pad2 (t div 3600000 mod 24)" and ?m = "pad2 (t div 60000 mod 60)" and ?s = "pad2 (t div 1000 mod 60)"
    and ?f = "padStart 3 CHR ''0'' (show_int (t mod 1000))"
  have h: "length ?h = 2" "numeral_in 0 23 ?h" and m: "length ?m = 2" "numeral_in 0 59 ?m" and s: "length ?s = 2" "numeral_in 0 59 ?s"
    using pad2_numeral [of "t div 3600000 mod 24"] pad2_numeral [of "t div 60000 mod 60"] pad2_numeral [of "t div 1000 mod 60"]
    by (simp_all add: nat_le_iff)
  have f: "length ?f = 3" "list_all is_digit ?f" using padded [of "t mod 1000" 2] by (simp_all add: numeral_eq_Suc)
  have "full_time (?h @ CHR '':'' # ?m @ CHR '':'' # ?s @ CHR ''.'' # ?f @ ''Z'')"
    by (rule full_time_text [OF h m s]) (use f in auto)
  moreover have "toISOString t = iso_date t @ CHR ''T'' # ?h @ CHR '':'' # ?m @ CHR '':'' # ?s @ CHR ''.'' # ?f @ ''Z''"
    by (simp add: toISOString_def)
  ultimately show ?thesis using full_date_iso [OF assms] unfolding date_time_def by (simp add: nth_append)
qed

text \<open>The text of an instant has a time, so it is no full-date.\<close>

lemma toISOString_no_full_date:
  assumes "four_digit_year t"
  shows "\<not> full_date (toISOString t)"
  using full_date_iso [OF assms] by (simp add: full_date_def toISOString_def)

theorem toISOString_date_time_witness: "date_time (toISOString 0)"
proof -
  have "getUTCFullYear 0 = 1970" using date_UTC_roundtrip [of 0 1 1970] by (simp add: date_UTC_def is_leap_def month_start_def month_starts_def)
  then show ?thesis using toISOString_date_time [of 0] by (simp add: four_digit_year_def)
qed

end
