(* ===== verification/Payloads.thy ===== *)
theory Payloads
  imports Contract Instants Reports Students Exams Notices
begin

text \<open>
  The answers against the published schemas: the JSON text of what the serializers of \<^verbatim>\<open>src/billing\<close>, \<^verbatim>\<open>src/students\<close>,
  \<^verbatim>\<open>src/exams\<close>, \<^verbatim>\<open>src/notifications\<close> and \<^verbatim>\<open>src/auth/admin-users.service.ts\<close> give, of the success envelope and of the error filter, and whether
  it is an instance of the schema that \<^verbatim>\<open>src/openapi\<close> publishes for it.
\<close>

section \<open>Instances of a schema\<close>

text \<open>
  The tests of the named string formats and of the regular expressions, which a validator brings along. A reference
  has no instance: a schema is expanded first.
\<close>

record schema_lib =
  sl_format :: "string \<Rightarrow> string \<Rightarrow> bool"
  sl_pattern :: "string \<Rightarrow> string \<Rightarrow> bool"

fun valid :: "schema_lib \<Rightarrow> schema \<Rightarrow> json \<Rightarrow> bool" where
  "valid F (SchRef n) v = False"
| "valid F (SchOneOf ss) v = (length (filter (\<lambda>s. valid F s v) ss) = 1)"
| "valid F (SchStr f nu vs) v = (case v of
       JNull \<Rightarrow> nu
     | JStr x \<Rightarrow> (case f of None \<Rightarrow> True | Some k \<Rightarrow> sl_format F k x) \<and> (vs = [] \<or> x \<in> set vs)
     | _ \<Rightarrow> False)"
| "valid F (SchPattern p nu) v = (case v of JNull \<Rightarrow> nu | JStr x \<Rightarrow> sl_pattern F p x | _ \<Rightarrow> False)"
| "valid F (SchInt nu lo hi) v = (case v of
       JNull \<Rightarrow> nu
     | JNum n \<Rightarrow> (case lo of None \<Rightarrow> True | Some a \<Rightarrow> a \<le> n) \<and> (case hi of None \<Rightarrow> True | Some b \<Rightarrow> n \<le> b)
     | _ \<Rightarrow> False)"
| "valid F (SchNum nu) v = (case v of JNull \<Rightarrow> nu | JNum _ \<Rightarrow> True | JFrac _ _ \<Rightarrow> True | _ \<Rightarrow> False)"
| "valid F SchBool v = (case v of JBool _ \<Rightarrow> True | _ \<Rightarrow> False)"
| "valid F (SchArr s) v = (case v of JArr xs \<Rightarrow> list_all (valid F s) xs | _ \<Rightarrow> False)"
| "valid F (SchObj nu req ps) v = (case v of
       JNull \<Rightarrow> nu
     | JObj kvs \<Rightarrow> list_all (\<lambda>k. json_get v k \<noteq> None) req \<and>
         list_all (\<lambda>p. case json_get v (fst p) of None \<Rightarrow> True | Some x \<Rightarrow> valid F (snd p) x) ps
     | _ \<Rightarrow> False)"
| "valid F (SchMap s) v = (case v of JObj kvs \<Rightarrow> list_all (\<lambda>kv. valid F s (snd kv)) kvs | _ \<Rightarrow> False)"

text \<open>The components as published, and the expansion of a schema over them.\<close>

definition expand :: "schema \<Rightarrow> schema" where
  "expand s = inline (published Map.empty) (inline (published Map.empty) s)"

section \<open>JSON of the answers\<close>

definition json_date :: "instant \<Rightarrow> json" where
  "json_date t = JStr (toISOString t)"

definition json_opt :: "('a \<Rightarrow> json) \<Rightarrow> 'a option \<Rightarrow> json" where
  "json_opt f x = (case x of None \<Rightarrow> JNull | Some v \<Rightarrow> f v)"

definition show_invoice_status :: "invoice_status \<Rightarrow> string" where
  "show_invoice_status x = (case x of UNPAID \<Rightarrow> ''UNPAID'' | PAID \<Rightarrow> ''PAID'' | OVERDUE \<Rightarrow> ''OVERDUE'' | CANCELLED \<Rightarrow> ''CANCELLED''
     | INV_REFUNDED \<Rightarrow> ''REFUNDED'')"

definition show_payment_status :: "payment_status \<Rightarrow> string" where
  "show_payment_status x = (case x of PENDING \<Rightarrow> ''PENDING'' | SUCCESS \<Rightarrow> ''SUCCESS'' | FAILED \<Rightarrow> ''FAILED'' | REFUNDED \<Rightarrow> ''REFUNDED''
     | DISPUTED \<Rightarrow> ''DISPUTED'')"

definition show_student_status :: "student_status \<Rightarrow> string" where
  "show_student_status x = (case x of SPending \<Rightarrow> ''PENDING'' | SActive \<Rightarrow> ''ACTIVE'' | SPaused \<Rightarrow> ''PAUSED'' | SLeft \<Rightarrow> ''LEFT'')"

definition show_gender :: "gender \<Rightarrow> string" where
  "show_gender x = (case x of MALE \<Rightarrow> ''MALE'' | FEMALE \<Rightarrow> ''FEMALE'' | GOther \<Rightarrow> ''OTHER'')"

definition item_json :: "uuid \<times> line \<Rightarrow> json" where
  "item_json i = JObj [(''id'', JStr (fst i)), (''description'', JStr (ln_description (snd i))),
     (''quantity'', JNum (ln_quantity (snd i))), (''unitAmount'', JNum (ln_unitAmount (snd i))), (''amount'', JNum (ln_amount (snd i)))]"

definition invoice_json :: "invoice_view \<Rightarrow> json" where
  "invoice_json v = JObj ([(''id'', JStr (ivw_id v)), (''invoiceNo'', JStr (ivw_invoiceNo v)), (''studentId'', JStr (ivw_studentId v)),
     (''type'', JStr (show_type (ivw_type v))), (''periodMonth'', json_opt JNum (ivw_periodMonth v)),
     (''periodYear'', json_opt JNum (ivw_periodYear v)), (''subtotal'', JNum (ivw_subtotal v)), (''discount'', JNum (ivw_discount v)),
     (''total'', JNum (ivw_total v)), (''status'', JStr (show_invoice_status (ivw_status v))), (''dueDate'', json_date (ivw_dueDate v)),
     (''issuedAt'', json_date (ivw_issuedAt v)), (''note'', json_opt JStr (ivw_note v))] @
     (case ivw_items v of None \<Rightarrow> [] | Some xs \<Rightarrow> [(''items'', JArr (map item_json xs))]))"

definition payment_json :: "payment_view \<Rightarrow> json" where
  "payment_json v = JObj [(''id'', JStr (pvw_id v)), (''invoiceId'', JStr (pvw_invoiceId v)), (''orderRef'', JStr (pvw_orderRef v)),
     (''gateway'', JStr (show_gateway (pvw_gateway v))), (''amount'', JNum (pvw_amount v)),
     (''status'', JStr (show_payment_status (pvw_status v))), (''paidAt'', json_opt json_date (pvw_paidAt v)),
     (''expiresAt'', json_opt json_date (pvw_expiresAt v)), (''note'', json_opt JStr (pvw_note v))]"

definition discount_json :: "discount_view \<Rightarrow> json" where
  "discount_json v = JObj [(''id'', JStr (dv_id v)), (''code'', JStr (dv_code v)), (''description'', json_opt JStr (dv_description v)),
     (''percentOff'', json_opt JNum (dv_percentOff v)), (''amountOff'', json_opt JNum (dv_amountOff v)),
     (''validFrom'', json_date (dv_validFrom v)), (''validUntil'', json_date (dv_validUntil v)), (''isActive'', JBool (dv_isActive v))]"

definition user_json :: "user_view \<Rightarrow> json" where
  "user_json v = JObj [(''id'', JStr (uvw_id v)), (''email'', JStr (uvw_email v)), (''role'', JStr (show_role (uvw_role v))),
     (''emailVerified'', JBool (uvw_emailVerified v)), (''isActive'', JBool (uvw_isActive v)),
     (''deletedAt'', json_opt json_date (uvw_deletedAt v)), (''createdAt'', json_date (uvw_createdAt v))]"

definition student_json :: "student_view \<Rightarrow> json" where
  "student_json v = JObj ([(''id'', JStr (stv_id v)), (''fullName'', JStr (stv_fullName v)), (''dob'', json_date (stv_dob v)),
     (''gender'', JStr (show_gender (stv_gender v))), (''currentBeltRankId'', json_opt JNum (stv_currentBeltRankId v)),
     (''status'', JStr (show_student_status (stv_status v))), (''joinedAt'', json_date (stv_joinedAt v))] @
     (case stv_contact v of
        None \<Rightarrow> [(''medicalNotes'', json_opt JStr (stv_medicalNotes v))]
      | Some c \<Rightarrow> [(''phone'', json_opt JStr (ctv_phone c)), (''address'', json_opt JStr (ctv_address c)),
          (''emergencyContactName'', json_opt JStr (ctv_emergencyContactName c)),
          (''emergencyContactPhone'', json_opt JStr (ctv_emergencyContactPhone c)),
          (''medicalNotes'', json_opt JStr (stv_medicalNotes v)), (''hasLinkedAccount'', JBool (ctv_hasLinkedAccount c))]))"

section \<open>Conformance\<close>

text \<open>
  The validator knows the text of an instant as a date-time (RFC 3339), which has four digits for the year. The
  instants of an answer are in those years.
\<close>

definition reads_instants :: "schema_lib \<Rightarrow> bool" where
  "reads_instants F \<longleftrightarrow> (\<forall>t. four_digit_year t \<longrightarrow> sl_format F ''date-time'' (toISOString t))"

definition opt_dated :: "instant option \<Rightarrow> bool" where
  "opt_dated d \<longleftrightarrow> (case d of None \<Rightarrow> True | Some t \<Rightarrow> four_digit_year t)"

lemma opt_dated_simps [simp]: "opt_dated None" "opt_dated (Some t) \<longleftrightarrow> four_digit_year t"
  by (simp_all add: opt_dated_def)

definition dated :: "app \<Rightarrow> bool" where
  "dated s \<longleftrightarrow> list_all (\<lambda>u. four_digit_year (usr_createdAt u) \<and> opt_dated (usr_deletedAt u)) (users s) \<and>
     list_all (\<lambda>i. four_digit_year (inv_dueDate i) \<and> four_digit_year (inv_issuedAt i)) (invoices s) \<and>
     list_all (\<lambda>c. four_digit_year (dc_validFrom c) \<and> four_digit_year (dc_validUntil c)) (discountCodes s)"

lemma reads_instants_test [simp]: "reads_instants F \<Longrightarrow> four_digit_year t \<Longrightarrow> sl_format F ''date-time'' (toISOString t)"
  unfolding reads_instants_def by blast

lemma kit_valid [simp]:
  "valid F kit_str (JStr x)" "valid F kit_int (JNum n)" "valid F vnd (JNum n)" "valid F kit_bool (JBool b)"
  by (simp_all add: kit_builders)

lemma kit_dates [simp]:
  "reads_instants F \<Longrightarrow> four_digit_year t \<Longrightarrow> valid F dateTimeStr (json_date t)" "valid F dateStr (json_date t) \<longleftrightarrow> sl_format F ''date'' (toISOString t)"
  by (simp_all add: kit_builders json_date_def)

lemma kit_optional [simp]:
  "valid F nullableStr (json_opt JStr s)" "valid F nullableInt (json_opt JNum i)"
  "valid F kit_int (json_opt JNum i) \<longleftrightarrow> i \<noteq> None" "valid F vnd (json_opt JNum i) \<longleftrightarrow> i \<noteq> None"
  "reads_instants F \<Longrightarrow> opt_dated d \<Longrightarrow> valid F nullableDateTime (json_opt json_date d)"
  "reads_instants F \<Longrightarrow> opt_dated d \<Longrightarrow> valid F dateTimeStr (json_opt json_date d) \<longleftrightarrow> d \<noteq> None"
  by (cases s; cases i; cases d; simp add: kit_builders json_opt_def json_date_def)+

lemma enum_valid [simp]:
  "valid F (enumOf [''TUITION'', ''EXAM_FEE'', ''UNIFORM'', ''OTHER'']) (JStr (show_type t))"
  "valid F (enumOf [''UNPAID'', ''PAID'', ''OVERDUE'', ''CANCELLED'', ''REFUNDED'']) (JStr (show_invoice_status i))"
  "valid F (enumOf [''PENDING'', ''SUCCESS'', ''FAILED'', ''DISPUTED'', ''REFUNDED'']) (JStr (show_payment_status p))"
  "valid F (enumOf [''BANK_TRANSFER'', ''PAYOS'', ''SEPAY'', ''CASH'']) (JStr (show_gateway g))"
  "valid F (enumOf [''ADMIN'', ''INSTRUCTOR'', ''STUDENT'', ''PARENT'']) (JStr (show_role r))"
  "valid F (enumOf [''MALE'', ''FEMALE'', ''OTHER'']) (JStr (show_gender x))"
  "valid F (enumOf [''PENDING'', ''ACTIVE'', ''PAUSED'', ''LEFT'']) (JStr (show_student_status st))"
proof -
  show "valid F (enumOf [''TUITION'', ''EXAM_FEE'', ''UNIFORM'', ''OTHER'']) (JStr (show_type t))"
    by (cases t) (simp_all add: enumOf_def show_type_def)
  show "valid F (enumOf [''UNPAID'', ''PAID'', ''OVERDUE'', ''CANCELLED'', ''REFUNDED'']) (JStr (show_invoice_status i))"
    by (cases i) (simp_all add: enumOf_def show_invoice_status_def)
  show "valid F (enumOf [''PENDING'', ''SUCCESS'', ''FAILED'', ''DISPUTED'', ''REFUNDED'']) (JStr (show_payment_status p))"
    by (cases p) (simp_all add: enumOf_def show_payment_status_def)
  show "valid F (enumOf [''BANK_TRANSFER'', ''PAYOS'', ''SEPAY'', ''CASH'']) (JStr (show_gateway g))"
    by (cases g) (simp_all add: enumOf_def show_gateway_def)
  show "valid F (enumOf [''ADMIN'', ''INSTRUCTOR'', ''STUDENT'', ''PARENT'']) (JStr (show_role r))"
    by (cases r) (simp_all add: enumOf_def show_role_def)
  show "valid F (enumOf [''MALE'', ''FEMALE'', ''OTHER'']) (JStr (show_gender x))"
    by (cases x) (simp_all add: enumOf_def show_gender_def)
  show "valid F (enumOf [''PENDING'', ''ACTIVE'', ''PAUSED'', ''LEFT'']) (JStr (show_student_status st))"
    by (cases st) (simp_all add: enumOf_def show_student_status_def)
qed

text \<open>The builders hold no reference, so an expansion leaves them; the components that the answers name.\<close>

lemma inline_kit [simp]:
  "inline C kit_str = kit_str" "inline C kit_int = kit_int" "inline C kit_bool = kit_bool" "inline C vnd = vnd"
  "inline C nullableStr = nullableStr" "inline C nullableInt = nullableInt" "inline C dateStr = dateStr"
  "inline C dateTimeStr = dateTimeStr" "inline C nullableDateTime = nullableDateTime" "inline C (enumOf vs) = enumOf vs"
  by (simp_all add: kit_builders)

lemma published_names [simp]:
  "published C ''InvoiceResponse'' = Some InvoiceSchema" "published C ''InvoiceItemResponse'' = Some InvoiceItemSchema"
  "published C ''PaymentResponse'' = Some PaymentSchema" "published C ''DiscountCodeResponse'' = Some DiscountCodeSchema"
  "published C ''UserAccountResponse'' = Some UserAccountSchema" "published C ''StudentProfileResponse'' = Some StudentSchema"
  "published C ''ErrorEnvelope'' = Some envelopeError"
  by (simp_all add: published_def RESPONSE_COMPONENTS_def)

lemma item_valid: "valid F InvoiceItemSchema (item_json i)"
  by (simp add: InvoiceItemSchema_def item_json_def)

lemma inline_item: "inline C InvoiceItemSchema = InvoiceItemSchema"
  by (simp add: InvoiceItemSchema_def)

lemma invoice_valid:
  assumes "reads_instants F" and "four_digit_year (ivw_dueDate v)" and "four_digit_year (ivw_issuedAt v)"
  shows "valid F (expand ct_Invoice) (invoice_json v) \<longleftrightarrow> ivw_periodMonth v \<noteq> None \<and> ivw_periodYear v \<noteq> None"
  using assms by (cases "ivw_items v")
    (simp_all add: expand_def ct_Invoice_def ct_ref_def InvoiceSchema_def invoice_json_def inline_item item_valid list_all_iff)

lemma payment_valid:
  assumes "reads_instants F" and "opt_dated (pvw_paidAt v)" and "opt_dated (pvw_expiresAt v)"
  shows "valid F (expand ct_Payment) (payment_json v) \<longleftrightarrow> pvw_paidAt v \<noteq> None \<and> pvw_expiresAt v \<noteq> None"
  using assms by (simp add: expand_def ct_Payment_def ct_ref_def PaymentSchema_def payment_json_def)

lemma discount_valid:
  assumes "reads_instants F" and "four_digit_year (dv_validFrom v)" and "four_digit_year (dv_validUntil v)"
  shows "valid F (expand ct_DiscountCode) (discount_json v) \<longleftrightarrow> dv_percentOff v \<noteq> None \<and> dv_amountOff v \<noteq> None"
  using assms by (simp add: expand_def ct_DiscountCode_def ct_ref_def DiscountCodeSchema_def discount_json_def)

lemma user_valid:
  "reads_instants F \<Longrightarrow> four_digit_year (uvw_createdAt v) \<Longrightarrow> opt_dated (uvw_deletedAt v) \<Longrightarrow> valid F (expand ct_UserAccount) (user_json v)"
  by (simp add: expand_def ct_UserAccount_def ct_ref_def UserAccountSchema_def user_json_def)

lemma student_valid:
  "reads_instants F \<Longrightarrow> four_digit_year (stv_joinedAt v) \<Longrightarrow>
     valid F (expand ct_Student) (student_json v) \<longleftrightarrow> sl_format F ''date'' (toISOString (stv_dob v))"
  by (cases "stv_contact v") (simp_all add: expand_def ct_Student_def ct_ref_def StudentSchema_def student_json_def)

lemma error_valid:
  "\<exists>b. rsp_body (snd (catch_exception i url x)) = Some b \<and> valid F (expand (ct_ref ''ErrorEnvelope'')) b"
  by (simp add: catch_exception_def split_beta Let_def error_response_def envelope_def expand_def ct_ref_def envelopeError_def)

definition page_json :: "('a \<Rightarrow> json) \<Rightarrow> 'a list \<times> nat \<times> nat \<times> nat \<Rightarrow> json" where
  "page_json f r = (case r of (items, n, page, limit) \<Rightarrow> JObj [(''items'', JArr (map f items)), (''total'', JNum (int n)),
     (''page'', JNum (int page)), (''limit'', JNum (int limit))])"

definition payments_json :: "payment_view list \<times> nat \<Rightarrow> json" where
  "payments_json r = JObj [(''items'', JArr (map payment_json (fst r))), (''total'', JNum (int (snd r)))]"

lemma list_page_valid: "valid F (expand (ct_page s)) (page_json f r) \<longleftrightarrow> list_all (\<lambda>x. valid F (expand s) (f x)) (fst r)"
  by (cases r) (simp add: ct_page_def page_json_def expand_def list_all_iff)

lemma payments_valid:
  "valid F (expand (SchObj False [''items'', ''total''] [(''items'', SchArr s), (''total'', SchInt False None None)])) (payments_json ps) \<longleftrightarrow>
     list_all (\<lambda>v. valid F (expand s) (payment_json v)) (fst ps)"
  by (simp add: payments_json_def expand_def list_all_iff)

text \<open>Whether the body sent for the data of a handler is an instance of the schema the contract has for the operation.\<close>

definition data_of :: "string \<Rightarrow> schema option" where
  "data_of k = (case map_of CONTRACT k of None \<Rightarrow> None | Some m \<Rightarrow> oc_data m)"

definition documented_answer :: "schema_lib \<Rightarrow> string \<Rightarrow> int \<Rightarrow> json \<Rightarrow> bool" where
  "documented_answer F k status d = (case (data_of k, intercept_response False status (Some d)) of
     (Some s, Some b) \<Rightarrow> valid F (expand (envelopeOf s)) b | _ \<Rightarrow> False)"

lemma data_of_entry:
  assumes "map_option oc_data (map_of c k) = Some d" and "set c \<subseteq> set CONTRACT"
  shows "data_of k = d"
proof -
  obtain m where m: "map_of c k = Some m" "oc_data m = d" using assms(1) by blast
  have "(k, m) \<in> set CONTRACT" using map_of_SomeD [OF m(1)] assms(2) by blast
  then show ?thesis using map_of_is_SomeI [OF contract_distinct] m(2) by (simp add: data_of_def)
qed

lemma contract_parts:
  "set contract_3 \<subseteq> set CONTRACT" "set contract_4 \<subseteq> set CONTRACT" "set contract_8 \<subseteq> set CONTRACT" "set contract_9 \<subseteq> set CONTRACT"
  "set contract_10 \<subseteq> set CONTRACT"
  unfolding CONTRACT_def set_append by blast+

lemma documented_data:
  "data_of ''GET /api/v1/users'' = Some (ct_page ct_UserAccount)"
  "data_of ''GET /api/v1/students/{id}'' = Some ct_Student"
  "data_of ''GET /api/v1/invoices'' = Some (ct_page ct_Invoice)"
  "data_of ''GET /api/v1/invoices/{id}'' = Some ct_Invoice"
  "data_of ''GET /api/v1/discounts'' = Some (ct_page ct_DiscountCode)"
  "data_of ''GET /api/v1/payments'' = Some (SchObj False [''items'', ''total''] [(''items'', SchArr ct_Payment), (''total'', SchInt False None None)])"
proof -
  show "data_of ''GET /api/v1/users'' = Some (ct_page ct_UserAccount)"
    by (rule data_of_entry [OF _ contract_parts(1)]) (simp add: contract_3_def op_meta_def)
  show "data_of ''GET /api/v1/students/{id}'' = Some ct_Student"
    by (rule data_of_entry [OF _ contract_parts(2)]) (simp add: contract_4_def op_meta_def)
  show "data_of ''GET /api/v1/invoices'' = Some (ct_page ct_Invoice)"
    by (rule data_of_entry [OF _ contract_parts(3)]) (simp add: contract_8_def op_meta_def)
  show "data_of ''GET /api/v1/invoices/{id}'' = Some ct_Invoice"
    by (rule data_of_entry [OF _ contract_parts(3)]) (simp add: contract_8_def op_meta_def)
  show "data_of ''GET /api/v1/discounts'' = Some (ct_page ct_DiscountCode)"
    by (rule data_of_entry [OF _ contract_parts(4)]) (simp add: contract_9_def op_meta_def)
  show "data_of ''GET /api/v1/payments'' = Some (SchObj False [''items'', ''total''] [(''items'', SchArr ct_Payment), (''total'', SchInt False None None)])"
    by (rule data_of_entry [OF _ contract_parts(5)]) (simp add: contract_10_def op_meta_def)
qed

lemma documented_answer_valid:
  assumes "data_of k = Some s" and "200 \<le> status" and "status < 300"
  shows "documented_answer F k status d \<longleftrightarrow> valid F (expand s) d"
  using assms by (simp add: documented_answer_def intercept_response_def envelope_def envelopeOf_def expand_def)

lemmas answer_validity = documented_data [THEN documented_answer_valid]

lemma page_rows: "x \<in> set (page_of page limit xs) \<Longrightarrow> x \<in> set xs"
  by (auto simp: page_of_def dest!: in_set_takeD in_set_dropD)

lemma listed_users:
  assumes "dated s" and "v \<in> set (fst (listUsers q s))"
  shows "four_digit_year (uvw_createdAt v)" "opt_dated (uvw_deletedAt v)"
  using assms by (auto simp: listUsers_def Let_def dated_def list_all_iff serializeUser_def dest!: page_rows)

lemma listed_invoices:
  assumes "dated s" and "v \<in> set (fst (listInvoices s c q))"
  shows "four_digit_year (ivw_dueDate v)" "four_digit_year (ivw_issuedAt v)"
  using assms by (auto simp: listInvoices_def dated_def list_all_iff serializeInvoice_def dest!: page_rows)

lemma listed_discount:
  assumes "v \<in> set (fst (listDiscountCodes page limit s))"
  obtains row where "row \<in> set (discountCodes s)" "v = serializeDiscountCode row"
  using assms by (auto simp: listDiscountCodes_def Let_def dest!: page_rows)

lemma discounts_documented:
  assumes "reads_instants F" and "dated s" and "discounts_inv s"
  shows "documented_answer F ''GET /api/v1/discounts'' 200 (page_json discount_json (listDiscountCodes page limit s)) \<longleftrightarrow>
    fst (listDiscountCodes page limit s) = []"
proof -
  have "\<not> valid F (expand ct_DiscountCode) (discount_json v)" if v: "v \<in> set (fst (listDiscountCodes page limit s))" for v
  proof -
    obtain row where r: "row \<in> set (discountCodes s)" "v = serializeDiscountCode row" using listed_discount [OF v] .
    have "four_digit_year (dv_validFrom v)" "four_digit_year (dv_validUntil v)" "\<not> (dv_percentOff v \<noteq> None \<and> dv_amountOff v \<noteq> None)"
      using r assms(2,3) by (auto simp: dated_def discounts_inv_def list_all_iff discount_row_ok_def serializeDiscountCode_def)
    then show ?thesis using discount_valid [OF assms(1)] by blast
  qed
  then show ?thesis by (cases "fst (listDiscountCodes page limit s)") (simp_all add: answer_validity list_page_valid)
qed

text \<open>
  C38: The answers against the published contract, for a validator that reads an instant of the years 0 to 9999 as a date-time
  and for rows whose instants are in those years. Every error the
  filter sends is an instance of the error envelope, and every list of accounts of its schema. An invoice is an
  instance exactly when it has a billing period, and a list of invoices when all of them have one; the
  payments of an invoice when each has a payment and an expiry instant; a list of discount codes only when
  it is empty, since a stored code has at most one of the two reductions; a student exactly when the
  full instant of birth counts as a date.
\<close>

theorem answers_documented:
  assumes "reads_instants F" and "discounts_inv s" and "dated s"
    and "four_digit_year (inv_dueDate bill)" and "four_digit_year (inv_issuedAt bill)" and "four_digit_year (stu_joinedAt p)"
    and "\<forall>v \<in> set (fst ps). opt_dated (pvw_paidAt v) \<and> opt_dated (pvw_expiresAt v)"
  shows "(\<exists>b. rsp_body (snd (catch_exception i url x)) = Some b \<and> valid F (expand (ct_ref ''ErrorEnvelope'')) b) \<and>
    documented_answer F ''GET /api/v1/users'' 200 (page_json user_json (listUsers uq s)) \<and>
    (documented_answer F ''GET /api/v1/invoices/{id}'' 200 (invoice_json (serializeInvoice bill items True)) \<longleftrightarrow>
       inv_periodMonth bill \<noteq> None \<and> inv_periodYear bill \<noteq> None) \<and>
    (documented_answer F ''GET /api/v1/invoices'' 200 (page_json invoice_json (listInvoices s c iq)) \<longleftrightarrow>
       (\<forall>v \<in> set (fst (listInvoices s c iq)). ivw_periodMonth v \<noteq> None \<and> ivw_periodYear v \<noteq> None)) \<and>
    (documented_answer F ''GET /api/v1/payments'' 200 (payments_json ps) \<longleftrightarrow>
       (\<forall>v \<in> set (fst ps). pvw_paidAt v \<noteq> None \<and> pvw_expiresAt v \<noteq> None)) \<and>
    (documented_answer F ''GET /api/v1/discounts'' 200 (page_json discount_json (listDiscountCodes page limit s)) \<longleftrightarrow>
       fst (listDiscountCodes page limit s) = []) \<and>
    (documented_answer F ''GET /api/v1/students/{id}'' 200 (student_json (serializeStudent p role)) \<longleftrightarrow>
       sl_format F ''date'' (toISOString (stu_dob p)))"
proof (intro conjI)
  show "\<exists>b. rsp_body (snd (catch_exception i url x)) = Some b \<and> valid F (expand (ct_ref ''ErrorEnvelope'')) b" by (rule error_valid)
  show "documented_answer F ''GET /api/v1/users'' 200 (page_json user_json (listUsers uq s))"
    using user_valid [OF assms(1)] listed_users [OF assms(3)] by (simp add: answer_validity list_page_valid list_all_iff)
  show "documented_answer F ''GET /api/v1/invoices/{id}'' 200 (invoice_json (serializeInvoice bill items True)) \<longleftrightarrow>
      inv_periodMonth bill \<noteq> None \<and> inv_periodYear bill \<noteq> None"
    using assms(4,5) by (simp add: answer_validity invoice_valid [OF assms(1)] serializeInvoice_def)
  show "documented_answer F ''GET /api/v1/invoices'' 200 (page_json invoice_json (listInvoices s c iq)) \<longleftrightarrow>
      (\<forall>v \<in> set (fst (listInvoices s c iq)). ivw_periodMonth v \<noteq> None \<and> ivw_periodYear v \<noteq> None)"
    using invoice_valid [OF assms(1)] listed_invoices [OF assms(3)] by (simp add: answer_validity list_page_valid list_all_iff)
  show "documented_answer F ''GET /api/v1/payments'' 200 (payments_json ps) \<longleftrightarrow>
      (\<forall>v \<in> set (fst ps). pvw_paidAt v \<noteq> None \<and> pvw_expiresAt v \<noteq> None)"
    using payment_valid [OF assms(1)] assms(7) by (simp add: answer_validity payments_valid list_all_iff)
  show "documented_answer F ''GET /api/v1/students/{id}'' 200 (student_json (serializeStudent p role)) \<longleftrightarrow>
      sl_format F ''date'' (toISOString (stu_dob p))"
    using assms(6) by (simp add: answer_validity student_valid [OF assms(1)] serializeStudent_def)
qed (rule discounts_documented [OF assms(1,3,2)])

text \<open>A validator with the date formats of RFC 3339, and a payment in cash, which has no expiry.\<close>

definition rfc_lib :: schema_lib where
  "rfc_lib = \<lparr> sl_format = (\<lambda>k x. if k = ''date-time'' then date_time x else if k = ''date'' then full_date x else True),
     sl_pattern = (\<lambda>_ _. True) \<rparr>"

lemma rfc_lib_reads: "reads_instants rfc_lib"
  by (simp add: reads_instants_def rfc_lib_def toISOString_date_time)

definition cash0 :: payment where
  "cash0 = cash_row \<lparr> cal_id = ''admin'', cal_role = ADMIN, cal_sessionId = ''s'', cal_jti = ''j'' \<rparr> ''inv'' ''ref'' 200000 None 0 ''pay''"

lemma epoch_dated: "four_digit_year 0"
  using date_UTC_roundtrip [of 0 1 1970] by (simp add: four_digit_year_def date_UTC_def is_leap_def month_start_def month_starts_def)

theorem answers_documented_witness:
  "\<not> documented_answer rfc_lib ''GET /api/v1/payments'' 200 (payments_json ([serializePayment cash0], 1)) \<and>
   documented_answer rfc_lib ''GET /api/v1/payments'' 200 (payments_json ([], 0)) \<and>
   \<not> documented_answer rfc_lib ''GET /api/v1/students/{id}'' 200 (student_json (serializeStudent stu0 ADMIN))"
proof -
  have s: "discounts_inv empty_app" "dated empty_app" by (simp_all add: discounts_inv_def dated_def empty_app_def)
  have c: "pvw_paidAt (serializePayment cash0) = Some 0" "pvw_expiresAt (serializePayment cash0) = None"
    by (simp_all add: serializePayment_def cash0_def cash_row_def)
  let ?b = "manual_row (caller0 ADMIN ''admin'') idto0 500000 50000 0 ''INV-1970-0001'' 0 ''inv''"
  have i: "four_digit_year (inv_dueDate ?b)" "four_digit_year (inv_issuedAt ?b)" "four_digit_year (stu_joinedAt stu0)" "four_digit_year (stu_dob stu0)"
    using epoch_dated by (simp_all add: manual_row_def stu0_def as_date_def)
  note w = answers_documented [OF rfc_lib_reads s i(1-3)]
  have "\<not> sl_format rfc_lib ''date'' (toISOString (stu_dob stu0))"
    using toISOString_no_full_date [OF i(4)] by (simp add: rfc_lib_def)
  then show ?thesis using w [of "([serializePayment cash0], 1)"] w [of "([], 0)"] c epoch_dated by simp
qed

text \<open>The text of an instant is no full-date, so such a validator refuses every student.\<close>

lemma students_undocumented:
  assumes "four_digit_year (stv_dob v)" and "four_digit_year (stv_joinedAt v)"
  shows "\<not> documented_answer rfc_lib ''GET /api/v1/students/{id}'' 200 (student_json v)"
  using toISOString_no_full_date [OF assms(1)] assms(2)
  by (simp add: answer_validity student_valid [OF rfc_lib_reads]) (simp add: rfc_lib_def)

section \<open>Answers outside their schema\<close>

definition show_registration_status :: "registration_status \<Rightarrow> string" where
  "show_registration_status x = (case x of PENDING_PAYMENT \<Rightarrow> ''PENDING_PAYMENT'' | REG_PAID \<Rightarrow> ''PAID'' | RESULT_PASS \<Rightarrow> ''RESULT_PASS''
     | RESULT_FAIL \<Rightarrow> ''RESULT_FAIL'' | REG_CANCELLED \<Rightarrow> ''CANCELLED'')"

definition registration_json :: "exam_registration \<Rightarrow> fee_result \<Rightarrow> json" where
  "registration_json r fee = JObj [(''id'', JStr (reg_id r)), (''examId'', JStr (reg_examId r)), (''studentId'', JStr (reg_studentId r)),
     (''status'', JStr (show_registration_status (reg_status r))), (''currentRankId'', json_opt JNum (reg_currentRankId r)),
     (''targetRankId'', JNum (reg_targetRankId r)),
     (''invoice'', JObj [(''id'', JStr (fr_id fee)), (''invoiceNo'', JStr (fr_invoiceNo fee)), (''total'', JNum (fr_total fee)),
       (''status'', JStr (show_invoice_status (fr_status fee)))])]"

lemma registration_data: "data_of ''POST /api/v1/belt-exams/{id}/register'' = Some examRegistrationData"
  by (rule data_of_entry [OF _ contract_parts(3)]) (simp add: contract_8_def op_meta_def)

text \<open>The status of a fresh registration is not among the documented ones, so no registration is answered as documented.\<close>

lemma registration_undocumented:
  assumes "registerExam seen cal xid sid now s = (s', Inr (r, fee))"
  shows "\<not> documented_answer F ''POST /api/v1/belt-exams/{id}/register'' 201 (registration_json r fee)"
proof -
  have "reg_status r = PENDING_PAYMENT"
    using assms by (auto simp: registerExam_def new_reg_def bindE_def transaction_def split: sum.splits prod.splits if_splits
        elim!: register_tx_Inr)
  then show ?thesis
    by (simp add: documented_answer_valid [OF registration_data] expand_def examRegistrationData_def registration_json_def
        contract_builders show_registration_status_def)
qed

definition show_notification_status :: "notification_status \<Rightarrow> string" where
  "show_notification_status x = (case x of QUEUED \<Rightarrow> ''QUEUED'' | SENDING \<Rightarrow> ''SENDING'' | SENT \<Rightarrow> ''SENT'' | NFAILED \<Rightarrow> ''FAILED''
     | SKIPPED \<Rightarrow> ''SKIPPED'')"

definition notification_json :: "notification \<Rightarrow> json" where
  "notification_json n = JObj [(''id'', JStr (ntf_id n)), (''channel'', JStr (show_channel (ntf_channel n))),
     (''templateCode'', JStr (ntf_templateCode n)), (''payload'', ntf_payload n), (''status'', JStr (show_notification_status (ntf_status n))),
     (''readAt'', json_opt json_date (ntf_readAt n)), (''sentAt'', json_opt json_date (ntf_sentAt n)),
     (''createdAt'', json_date (ntf_createdAt n))]"

lemma notifications_data: "data_of ''GET /api/v1/notifications/me'' = Some (ct_page ct_Notification)"
  by (rule data_of_entry [OF _ contract_parts(5)]) (simp add: contract_10_def op_meta_def)

text \<open>A feed is as documented only if it holds nothing but mails that were sent: an entry of the in-app channel is not.\<close>

lemma feed_documented:
  assumes "documented_answer F ''GET /api/v1/notifications/me'' 200 (page_json notification_json r)" and "n \<in> set (fst r)"
  shows "ntf_channel n = EMAIL \<and> ntf_status n = SENT \<and> ntf_sentAt n \<noteq> None"
proof -
  have e: "expand ct_Notification = NotificationSchema"
    by (simp add: expand_def ct_Notification_def ct_ref_def published_def RESPONSE_COMPONENTS_def NotificationSchema_def)
  have "list_all (\<lambda>x. valid F (expand ct_Notification) (notification_json x)) (fst r)"
    using assms(1) by (simp add: documented_answer_valid [OF notifications_data] list_page_valid)
  then have "valid F NotificationSchema (notification_json n)" unfolding e list_all_iff using assms(2) by blast
  then show ?thesis
    by (cases "ntf_channel n"; cases "ntf_status n"; cases "ntf_sentAt n")
      (simp_all add: NotificationSchema_def notification_json_def kit_builders show_channel_def show_notification_status_def json_opt_def)
qed

end
