(* ===== verification/Audit_Drain.thy ===== *)
theory Audit_Drain
  imports Audit_Log
begin

text \<open>
  The loop of \<^verbatim>\<open>drain\<close> in \<^verbatim>\<open>src/auth/audit/audit.service.ts\<close> as a whole, the shutdown hook that waits for it,
  the lines it logs, and the list of event names. While the loop waits for the database, requests go on
  recording, so nothing in the code bounds the number of its rounds: under steady traffic it runs for ever.
  It is a partial function here, and what is shown is when it returns: once requests stop recording, which
  is the situation at shutdown.
\<close>

section \<open>Event names\<close>

definition AUDIT_EVENTS :: "string list" where
  "AUDIT_EVENTS = [''register'', ''register_duplicate'', ''login'', ''login_failed'', ''login_locked'',
     ''login_new_ip'', ''logout'', ''logout_all'', ''session_revoked'', ''token_reuse_detected'',
     ''email_verified'', ''email_verification_resent'', ''password_reset_requested'', ''password_reset'',
     ''password_changed'', ''email_change_requested'', ''email_changed'', ''mfa_enabled'', ''mfa_disabled'',
     ''mfa_code_failed'', ''mfa_recovery_used'', ''account_deactivated'', ''account_locked'',
     ''student_profile_created'', ''student_profile_updated'', ''student_profile_deleted'',
     ''student_invite_regenerated'', ''parent_link_created'', ''parent_link_removed'', ''class_created'',
     ''class_updated'', ''enrollment_created'', ''enrollment_removed'', ''attendance_session_created'',
     ''attendance_recorded'', ''belt_rank_created'', ''belt_rank_updated'', ''belt_exam_created'',
     ''belt_exam_updated'', ''exam_registration_created'', ''exam_result_recorded'', ''invoice_issued'',
     ''invoice_created'', ''tuition_generated'', ''payment_created'', ''payment_succeeded'',
     ''payment_failed'', ''payment_confirmed_cash'', ''payment_flagged'', ''payment_refunded'',
     ''consent_granted'', ''consent_revoked'', ''announcement_created'', ''announcement_updated'',
     ''announcement_deleted'', ''user_created'', ''user_updated'', ''user_deactivated'',
     ''settings_updated'', ''discount_code_created'', ''discount_code_updated'', ''discount_code_deleted'',
     ''discount_code_applied'', ''leave_request_created'', ''leave_request_reviewed'',
     ''leave_request_cancelled'', ''leave_request_deleted'', ''proposal_created'', ''proposal_updated'',
     ''proposal_reviewed'', ''evaluation_recorded'', ''evaluation_updated'', ''evaluation_deleted'',
     ''student_profile_self_updated'']"

text \<open>The names differ and fit the column, so no entry of a batch is refused for its name.\<close>

lemma audit_events_fit: "distinct AUDIT_EVENTS" "\<forall>e \<in> set AUDIT_EVENTS. length e \<le> 50"
  by (simp_all add: AUDIT_EVENTS_def)

section \<open>The loop\<close>

datatype audit_log_line =
    Audit_queue_capacity_exceeded nat
  | Audit_flush_failed nat
  | Audit_shutdown_pending nat

text \<open>The answer of \<^verbatim>\<open>createMany\<close>: the rows are stored, or the call fails with or without having stored them.\<close>

datatype create_many = Stored instant | Rejected bool instant

text \<open>A call of \<^verbatim>\<open>record\<close> with the line it logs when the queue is full.\<close>

definition record_entry :: "audit_entry \<Rightarrow> audit_state \<times> audit_log_line list \<Rightarrow> audit_state \<times> audit_log_line list" where
  "record_entry e al = (audit_push e (fst al),
     if length (aq_queue (fst al)) \<ge> MAX_QUEUE_SIZE
     then snd al @ [Audit_queue_capacity_exceeded (length (aq_queue (fst al)))] else snd al)"

text \<open>
  The rounds of \<^verbatim>\<open>drain\<close> from the moment a batch is handed to the database. Round \<open>i\<close> sees \<open>fst (db i)\<close>, the
  entries recorded during the wait, and then the answer \<open>snd (db i)\<close>. The result has the number of
  calls made to the database.
\<close>

partial_function (option) drain ::
  "(nat \<Rightarrow> audit_entry list \<times> create_many) \<Rightarrow> nat \<Rightarrow> audit_state \<times> audit_log_line list \<Rightarrow>
   (audit_state \<times> audit_log_line list \<times> nat) option" where
  "drain db i al = (case aq_inflight (fst al) of
       None \<Rightarrow> Some (fst al, snd al, i)
     | Some batch \<Rightarrow>
         (let (a, l) = fold record_entry (fst (db i)) al in
          case snd (db i) of
            Stored now \<Rightarrow> drain db (Suc i) (drain_ok now a, l)
          | Rejected committed now \<Rightarrow>
              (let a' = drain_fail committed now a
               in Some (a', l @ [Audit_flush_failed (length (aq_queue a'))], Suc i))))"

declare drain.simps [code]

text \<open>\<^verbatim>\<open>flush\<close> joins the drain under way or starts one and waits for it; \<^verbatim>\<open>onModuleDestroy\<close> reports what is left.\<close>

definition flush_audit :: "(nat \<Rightarrow> audit_entry list \<times> create_many) \<Rightarrow> audit_state \<Rightarrow> (audit_state \<times> audit_log_line list \<times> nat) option" where
  "flush_audit db a = drain db 0 (audit_flush a, [])"

definition audit_onModuleDestroy ::
  "(nat \<Rightarrow> audit_entry list \<times> create_many) \<Rightarrow> audit_state \<Rightarrow> (audit_state \<times> audit_log_line list \<times> nat) option" where
  "audit_onModuleDestroy db a = (case flush_audit db a of
       None \<Rightarrow> None
     | Some (a', l, n) \<Rightarrow> Some (a', if length (aq_queue a') > 0
                                   then l @ [Audit_shutdown_pending (length (aq_queue a'))] else l, n))"

section \<open>Recording during the wait\<close>

lemma push_in_flight: "aq_inflight a = Some b \<Longrightarrow> aq_inflight (audit_push e a) = Some b"
  by (simp add: audit_push_def Let_def)

lemma records_in_flight: "aq_inflight (fst al) = Some b \<Longrightarrow> aq_inflight (fst (fold record_entry es al)) = Some b"
  by (induction es arbitrary: al) (simp_all add: record_entry_def push_in_flight)

lemma records_run: "audit_run (fst al) acc \<Longrightarrow>
   \<exists>more. audit_run (fst (fold record_entry es al)) (acc @ more) \<and> set more \<subseteq> set es"
proof (induction es arbitrary: al acc)
  case Nil
  then show ?case by (intro exI [of _ "[]"]) simp
next
  case (Cons e es)
  have "\<exists>m. audit_run (audit_push e (fst al)) (acc @ m) \<and> set m \<subseteq> {e}"
  proof (cases "length (aq_queue (fst al)) < MAX_QUEUE_SIZE")
    case True
    then show ?thesis using audit_run.push [OF Cons.prems, of e] by (intro exI [of _ "[e]"]) simp
  next
    case False
    then show ?thesis using audit_run.overflow [OF Cons.prems, of e] by (intro exI [of _ "[]"]) simp
  qed
  then obtain m where m: "audit_run (fst (record_entry e al)) (acc @ m)" "set m \<subseteq> {e}" by (auto simp: record_entry_def)
  from Cons.IH [OF m(1)] obtain m' where "audit_run (fst (fold record_entry es (record_entry e al))) (acc @ m @ m')" "set m' \<subseteq> set es"
    by auto
  then show ?case using m(2) by (intro exI [of _ "m @ m'"]) auto
qed

section \<open>The loop returns\<close>

text \<open>The variant: the calls still to be made when nothing more is recorded.\<close>

definition calls_left :: "audit_state \<Rightarrow> nat" where
  "calls_left a = (case aq_inflight a of None \<Rightarrow> 0 | Some b \<Rightarrow> 1 + (length (aq_queue a) + (BATCH_SIZE - 1)) div BATCH_SIZE)"

lemma batches: "0 < n \<Longrightarrow> (n - 50 + 49) div 50 + 1 = (n + 49) div (50 :: nat)"
proof (cases "50 \<le> n")
  case True
  then have "n + 49 = n - 50 + 49 + 50" by simp
  then show ?thesis by (metis Suc_eq_plus1 div_add_self2 zero_neq_numeral)
next
  case False
  moreover assume "0 < n"
  ultimately have "(n + 49) div 50 = 1" by (intro div_nat_eqI) auto
  then show ?thesis using False by simp
qed

lemma calls_left_ok:
  assumes "aq_inflight a \<noteq> None"
  shows "Suc (calls_left (drain_ok now a)) = calls_left a"
proof (cases "aq_queue a = []")
  case True
  then show ?thesis using assms by (auto simp: calls_left_def drain_ok_def take_batch_def BATCH_SIZE_def)
next
  case False
  then have "(length (aq_queue a) - 50 + 49) div 50 + 1 = (length (aq_queue a) + 49) div 50"
    using batches [of "length (aq_queue a)"] by simp
  then show ?thesis using assms False by (auto simp: calls_left_def drain_ok_def take_batch_def BATCH_SIZE_def)
qed

lemma calls_left_bounded: "audit_bounded a \<Longrightarrow> calls_left a \<le> 201"
  by (auto simp: audit_bounded_def calls_left_def BATCH_SIZE_def MAX_QUEUE_SIZE_def split: option.splits)

lemma drain_quiet:
  "\<forall>j \<ge> i. fst (db j) = [] \<Longrightarrow> \<exists>a' l' n. drain db i (a, l) = Some (a', l', n) \<and> n \<le> i + calls_left a"
proof (induction "calls_left a" arbitrary: a l i)
  case 0
  then have "aq_inflight a = None" by (simp add: calls_left_def split: option.splits)
  then show ?case by (subst drain.simps) simp
next
  case (Suc k)
  then obtain b where b: "aq_inflight a = Some b" by (auto simp: calls_left_def split: option.splits)
  have e: "fst (db i) = []" using Suc.prems by simp
  show ?case
  proof (cases "snd (db i)")
    case (Stored now)
    have "Suc (calls_left (drain_ok now a)) = calls_left a" using b by (intro calls_left_ok) simp
    then have k: "k = calls_left (drain_ok now a)" using Suc.hyps(2) by simp
    have "\<forall>j \<ge> Suc i. fst (db j) = []" using Suc.prems by simp
    from Suc.hyps(1) [OF k this, of l] show ?thesis using Stored e b k Suc.hyps(2)
      by (subst drain.simps) auto
  next
    case (Rejected c now)
    then show ?thesis using e b Suc.hyps(2) by (subst drain.simps) (simp add: Let_def)
  qed
qed

lemma drain_returns:
  assumes "audit_run (fst al) acc" and "\<forall>j \<ge> N. fst (db j) = []"
  shows "\<exists>a' l' n. drain db i al = Some (a', l', n) \<and> n \<le> max i N + 201"
  using assms(1)
proof (induction "N - i" arbitrary: i al acc)
  case 0
  then have "\<forall>j \<ge> i. fst (db j) = []" using assms(2) by simp
  then obtain a' l' n where "drain db i (fst al, snd al) = Some (a', l', n)" "n \<le> i + calls_left (fst al)"
    using drain_quiet by metis
  then show ?case using calls_left_bounded [OF audit_run_bounded [OF 0(2)]] by auto
next
  case (Suc k)
  show ?case
  proof (cases "aq_inflight (fst al)")
    case None
    then show ?thesis by (subst drain.simps) (simp add: max_def)
  next
    case (Some b)
    obtain a l where al: "fold record_entry (fst (db i)) al = (a, l)" by (cases "fold record_entry (fst (db i)) al")
    obtain more where r: "audit_run a (acc @ more)" using records_run [OF Suc.prems, of "fst (db i)"] al by auto
    show ?thesis
    proof (cases "snd (db i)")
      case (Stored now)
      have "k = N - Suc i" "max (Suc i) N = max i N" using Suc.hyps(2) by simp_all
      with Suc.hyps(1) [OF this(1), of "(drain_ok now a, l)" "acc @ more"] audit_run.finish [OF r, of now]
      show ?thesis using Some al Stored by (subst drain.simps) simp
    next
      case (Rejected c now)
      then show ?thesis using Some al Suc.hyps(2) by (subst drain.simps) (auto simp: Let_def max_def)
    qed
  qed
qed

section \<open>What it leaves\<close>

lemma drain_induct [consumes 1, case_names idle stored rejected]:
  assumes "drain db i al = Some r"
    and "\<And>db i al. aq_inflight (fst al) = None \<Longrightarrow> P db i al (fst al, snd al, i)"
    and "\<And>db i al b a l now r. aq_inflight (fst al) = Some b \<Longrightarrow> fold record_entry (fst (db i)) al = (a, l) \<Longrightarrow>
          snd (db i) = Stored now \<Longrightarrow> P db (Suc i) (drain_ok now a, l) r \<Longrightarrow> P db i al r"
    and "\<And>db i al b a l c now. aq_inflight (fst al) = Some b \<Longrightarrow> fold record_entry (fst (db i)) al = (a, l) \<Longrightarrow>
          snd (db i) = Rejected c now \<Longrightarrow>
          P db i al (drain_fail c now a, l @ [Audit_flush_failed (length (aq_queue (drain_fail c now a)))], Suc i)"
  shows "P db i al r"
proof (rule drain.raw_induct [OF _ assms(1)])
  fix f db i al r
  assume ih: "\<And>db i al r. f db i al = Some r \<Longrightarrow> P db i al r"
    and body: "(case aq_inflight (fst al) of None \<Rightarrow> Some (fst al, snd al, i)
       | Some batch \<Rightarrow> (let (a, l) = fold record_entry (fst (db i)) al in
          case snd (db i) of Stored now \<Rightarrow> f db (Suc i) (drain_ok now a, l)
          | Rejected committed now \<Rightarrow> (let a' = drain_fail committed now a
               in Some (a', l @ [Audit_flush_failed (length (aq_queue a'))], Suc i)))) = Some r"
  show "P db i al r"
  proof (cases "aq_inflight (fst al)")
    case None
    then show ?thesis using body assms(2) by (cases al) auto
  next
    case (Some b)
    obtain a l where al: "fold record_entry (fst (db i)) al = (a, l)" by (cases "fold record_entry (fst (db i)) al")
    show ?thesis
    proof (cases "snd (db i)")
      case (Stored now)
      then have "P db (Suc i) (drain_ok now a, l) r" using body Some al by (intro ih) simp
      then show ?thesis using Some al Stored by (intro assms(3) [of al b db i a l now])
    next
      case (Rejected c now)
      then show ?thesis using body Some al assms(4) [of al b db i a l c now] by (simp add: Let_def)
    qed
  qed
qed

lemma drain_ok_idle: "aq_inflight a = Some b \<Longrightarrow> aq_inflight (drain_ok now a) = None \<Longrightarrow> aq_queue (drain_ok now a) = []"
  by (auto simp: drain_ok_def take_batch_def split: if_splits)

lemma drain_leaves:
  assumes "drain db i al = Some (a', l', n)" and "audit_run (fst al) acc"
    and "aq_inflight (fst al) = None \<longrightarrow> aq_queue (fst al) = []"
  shows "i \<le> n \<and> aq_inflight a' = None \<and>
    (\<exists>more. audit_run a' (acc @ more) \<and> set more \<subseteq> (\<Union>j \<in> {i..<n}. set (fst (db j)))) \<and>
    (aq_queue a' = [] \<and> (\<forall>j \<in> {i..<n}. \<exists>now. snd (db j) = Stored now) \<or>
     aq_queue a' \<noteq> [] \<and> i < n \<and> (\<exists>c now. snd (db (n - 1)) = Rejected c now) \<and>
       Audit_flush_failed (length (aq_queue a')) \<in> set l')"
  using assms
proof (induction db i al "(a', l', n)" arbitrary: acc rule: drain_induct)
  case (idle db i al)
  then show ?case by (auto intro: exI [of _ "[]"])
next
  case (stored db i al b a l now)
  obtain more where r: "audit_run a (acc @ more)" "set more \<subseteq> set (fst (db i))"
    using records_run [OF stored.prems(1), of "fst (db i)"] stored.hyps(2) by auto
  have b: "aq_inflight a = Some b" using records_in_flight [OF stored.hyps(1), of "fst (db i)"] stored.hyps(2) by simp
  have "audit_run (fst (drain_ok now a, l)) (acc @ more)" using audit_run.finish [OF r(1)] by simp
  note ih = stored.hyps(4) [OF this]
  have ih: "Suc i \<le> n" "aq_inflight a' = None" "\<exists>m. audit_run a' ((acc @ more) @ m) \<and> set m \<subseteq> (\<Union>j \<in> {Suc i..<n}. set (fst (db j)))"
    "aq_queue a' = [] \<and> (\<forall>j \<in> {Suc i..<n}. \<exists>now. snd (db j) = Stored now) \<or>
     aq_queue a' \<noteq> [] \<and> Suc i < n \<and> (\<exists>c now. snd (db (n - 1)) = Rejected c now) \<and>
       Audit_flush_failed (length (aq_queue a')) \<in> set l'"
    using ih drain_ok_idle [OF b] by simp_all
  have j: "{i..<n} = insert i {Suc i..<n}" using ih(1) by auto
  obtain m where m: "audit_run a' (acc @ more @ m)" "set m \<subseteq> (\<Union>j \<in> {Suc i..<n}. set (fst (db j)))" using ih(3) by auto
  have "set (more @ m) \<subseteq> (\<Union>j \<in> {i..<n}. set (fst (db j)))" unfolding j using m(2) r(2) by auto
  then have "\<exists>more. audit_run a' (acc @ more) \<and> set more \<subseteq> (\<Union>j \<in> {i..<n}. set (fst (db j)))" using m(1) by blast
  moreover have "aq_queue a' = [] \<and> (\<forall>j \<in> {i..<n}. \<exists>now. snd (db j) = Stored now) \<or>
     aq_queue a' \<noteq> [] \<and> i < n \<and> (\<exists>c now. snd (db (n - 1)) = Rejected c now) \<and>
       Audit_flush_failed (length (aq_queue a')) \<in> set l'"
    using ih(4) stored.hyps(3) unfolding j by auto
  ultimately show ?case using ih(1,2) by simp
next
  case (rejected db i al b a l c now)
  obtain more where r: "audit_run a (acc @ more)" "set more \<subseteq> set (fst (db i))"
    using records_run [OF rejected.prems(1), of "fst (db i)"] rejected.hyps(2) by auto
  have b: "aq_inflight a = Some b" using records_in_flight [OF rejected.hyps(1), of "fst (db i)"] rejected.hyps(2) by simp
  have "b \<noteq> []" using audit_run_bounded [OF r(1)] b by (simp add: audit_bounded_def)
  then have "aq_queue (drain_fail c now a) \<noteq> []" "aq_inflight (drain_fail c now a) = None" using b by (simp_all add: drain_fail_def)
  then show ?case using audit_run.fail [OF r(1), of c now] r(2) rejected.hyps(3-) by (auto intro!: exI [of _ more])
qed

lemma flush_idle: "aq_inflight (audit_flush a) = None \<longrightarrow> aq_queue (audit_flush a) = []"
  by (auto simp: audit_flush_def take_batch_def split: if_splits)

lemma stored_or_pending:
  assumes "audit_run a acc" and "distinct (map aud_eventId acc)"
  shows "set acc = set (aq_stored a) \<union> set (pending a)"
proof -
  from audit_run_inv [OF assms] obtain m n where i: "m \<le> n" "n \<le> length acc"
      "aq_stored a = take n acc" "pending a = drop m acc"
    by (auto simp: audit_inv_def)
  have "set acc = set (take m acc) \<union> set (drop m acc)" by (metis append_take_drop_id set_append)
  then show ?thesis using set_take_subset_set_take [OF i(1), of acc] set_take_subset [of n acc] i by auto
qed

text \<open>
  C18: Shutdown terminates once recording stops, and loses no audit entry silently. If requests record nothing after
  the first N database calls of the shutdown hook, then whatever they recorded during those calls and whatever the
  database answers, the hook returns after at most N + 201 calls. It leaves nothing in flight, every entry accepted before or during the
  shutdown is stored or still queued, and if any is still queued then the last call failed and the number
  left is logged; if every call succeeds the queue is empty and all entries are stored.
\<close>

theorem audit_shutdown_terminates:
  assumes "audit_run a acc" and "\<forall>i \<ge> N. fst (db i) = []"
  shows "\<exists>a' logs n more. audit_onModuleDestroy db a = Some (a', logs, n) \<and> n \<le> N + 201 \<and>
    aq_inflight a' = None \<and> audit_run a' (acc @ more) \<and> set more \<subseteq> (\<Union>i < n. set (fst (db i))) \<and>
    (distinct (map aud_eventId (acc @ more)) \<longrightarrow> set (acc @ more) = set (aq_stored a') \<union> set (aq_queue a')) \<and>
    (if aq_queue a' = [] then \<forall>i < n. \<exists>now. snd (db i) = Stored now
     else (\<exists>c now. 0 < n \<and> snd (db (n - 1)) = Rejected c now) \<and> last logs = Audit_shutdown_pending (length (aq_queue a')))"
proof -
  have r: "audit_run (fst (audit_flush a, [] :: audit_log_line list)) acc" using audit_run.flush [OF assms(1)] by simp
  obtain a' l n where d: "drain db 0 (audit_flush a, []) = Some (a', l, n)" "n \<le> N + 201"
    using drain_returns [OF r assms(2), of 0] by auto
  note p = drain_leaves [OF d(1) r]
  then obtain more where more: "audit_run a' (acc @ more)" "set more \<subseteq> (\<Union>i < n. set (fst (db i)))"
    using flush_idle by (auto simp: atLeast0LessThan)
  have i: "aq_inflight a' = None" using p flush_idle by simp
  have s: "set (acc @ more) = set (aq_stored a') \<union> set (aq_queue a')" if "distinct (map aud_eventId (acc @ more))"
    using stored_or_pending [OF more(1) that] i by (simp add: pending_def)
  let ?logs = "if length (aq_queue a') > 0 then l @ [Audit_shutdown_pending (length (aq_queue a'))] else l"
  have "audit_onModuleDestroy db a = Some (a', ?logs, n)" by (simp add: audit_onModuleDestroy_def flush_audit_def d(1))
  moreover have "if aq_queue a' = [] then \<forall>i < n. \<exists>now. snd (db i) = Stored now
     else (\<exists>c now. 0 < n \<and> snd (db (n - 1)) = Rejected c now) \<and> last ?logs = Audit_shutdown_pending (length (aq_queue a'))"
    using p flush_idle by auto
  ultimately show ?thesis using d(2) i more s by blast
qed

text \<open>
  Two entries wait, a third is recorded during the first call, and the second call fails after the rows were
  stored: the hook returns after two calls and reports the entry that is queued again.
\<close>

definition entry_n :: "string \<Rightarrow> audit_entry" where
  "entry_n e = entry0\<lparr>aud_eventId := e\<rparr>"

definition waiting0 :: audit_state where
  "waiting0 = audit_push (entry_n ''e2'') (audit_push (entry_n ''e1'') \<lparr>aq_queue = [], aq_inflight = None, aq_rows = []\<rparr>)"

definition db0 :: "nat \<Rightarrow> audit_entry list \<times> create_many" where
  "db0 i = (if i = 0 then ([entry_n ''e3''], Stored 7) else ([], Rejected True 8))"

lemma waiting0_run: "audit_run waiting0 [entry_n ''e1'', entry_n ''e2'']"
proof -
  have "audit_run (audit_push (entry_n ''e1'') \<lparr>aq_queue = [], aq_inflight = None, aq_rows = []\<rparr>) ([] @ [entry_n ''e1''])"
    by (rule audit_run.push [OF audit_run.start]) (simp add: MAX_QUEUE_SIZE_def)
  then have "audit_run waiting0 (([] @ [entry_n ''e1'']) @ [entry_n ''e2''])" unfolding waiting0_def
    by (rule audit_run.push) (simp add: MAX_QUEUE_SIZE_def BATCH_SIZE_def audit_push_def)
  then show ?thesis by simp
qed

theorem audit_shutdown_terminates_witness:
  "(\<exists>a' logs n. audit_onModuleDestroy db0 waiting0 = Some (a', logs, n) \<and> n \<le> 1 + 201) \<and>
   map_option (\<lambda>(a', logs, n). (map aud_eventId (aq_stored a'), map aud_eventId (aq_queue a'), logs, n))
     (audit_onModuleDestroy db0 waiting0)
     = Some ([''e1'', ''e2'', ''e3''], [''e3''], [Audit_flush_failed 1, Audit_shutdown_pending 1], 2)"
proof
  have "\<forall>i \<ge> 1. fst (db0 i) = []" by (simp add: db0_def)
  then show "\<exists>a' logs n. audit_onModuleDestroy db0 waiting0 = Some (a', logs, n) \<and> n \<le> 1 + 201"
    using audit_shutdown_terminates [OF waiting0_run, of 1 db0] by blast
  show "map_option (\<lambda>(a', logs, n). (map aud_eventId (aq_stored a'), map aud_eventId (aq_queue a'), logs, n))
     (audit_onModuleDestroy db0 waiting0)
     = Some ([''e1'', ''e2'', ''e3''], [''e3''], [Audit_flush_failed 1, Audit_shutdown_pending 1], 2)"
    by code_simp
qed

end
