(* ===== verification/Startup.thy ===== *)
theory Startup
  imports Config Gateways Outbox
begin

text \<open>
  Logging (\<^verbatim>\<open>src/logging\<close>), the mail adapters (\<^verbatim>\<open>src/auth/mail\<close>) and the decisions taken when the process starts: which
  mail sender and which payment gateway are built, what the constructors refuse, and how the HTTP server is set
  up (\<^verbatim>\<open>src/bootstrap.ts\<close>, \<^verbatim>\<open>src/main.ts\<close>). The logger pino, the SMTP transport and the file system are parameters: a
  definition here gives what is handed to them.
\<close>

definition and_then :: "'a res \<Rightarrow> ('a \<Rightarrow> 'b res) \<Rightarrow> 'b res" where
  "and_then r f = (case r of Inl e \<Rightarrow> Inl e | Inr v \<Rightarrow> f v)"

lemma and_then_simps [simp]: "and_then (Inl e) f = Inl e" "and_then (Inr v) f = f v"
  by (simp_all add: and_then_def)

definition str_val :: "env_value \<Rightarrow> string" where
  "str_val v = (case v of EStr x \<Rightarrow> x | _ \<Rightarrow> [])"

definition num_val :: "env_value \<Rightarrow> int" where
  "num_val v = (case v of ENum n \<Rightarrow> n | _ \<Rightarrow> 0)"

lemma vals [simp]: "str_val (EStr x) = x" "num_val (ENum n) = n"
  by (simp_all add: str_val_def num_val_def)

section \<open>Logging\<close>

text \<open>A call of the logger: level, merged object, text. An undefined property is not written.\<close>

record log_call =
  lc_level :: string
  lc_object :: "(string \<times> json) list"
  lc_text :: string

definition opt_prop :: "string \<Rightarrow> string option \<Rightarrow> (string \<times> json) list" where
  "opt_prop k v = (case v of None \<Rightarrow> [] | Some x \<Rightarrow> [(k, JStr x)])"

text \<open>What the framework logs: an error, a text, or another value. An error has no enumerable property.\<close>

datatype log_message = ErrorMessage string | TextMessage string | DataMessage json

definition message_json :: "log_message \<Rightarrow> json" where
  "message_json m = (case m of ErrorMessage _ \<Rightarrow> JObj [] | TextMessage x \<Rightarrow> JStr x | DataMessage j \<Rightarrow> j)"

definition logger_write :: "string \<Rightarrow> log_message \<Rightarrow> string option \<Rightarrow> log_call" where
  "logger_write level message context = (case message of
       TextMessage x \<Rightarrow> \<lparr> lc_level = level, lc_object = opt_prop ''context'' context, lc_text = x \<rparr>
     | _ \<Rightarrow> \<lparr> lc_level = level, lc_object = opt_prop ''context'' context @ [(''data'', message_json message)], lc_text = [] \<rparr>)"

definition logger_log :: "log_message \<Rightarrow> string option \<Rightarrow> log_call" where "logger_log = logger_write ''info''"
definition logger_warn :: "log_message \<Rightarrow> string option \<Rightarrow> log_call" where "logger_warn = logger_write ''warn''"
definition logger_debug :: "log_message \<Rightarrow> string option \<Rightarrow> log_call" where "logger_debug = logger_write ''debug''"
definition logger_verbose :: "log_message \<Rightarrow> string option \<Rightarrow> log_call" where "logger_verbose = logger_write ''trace''"
definition logger_fatal :: "log_message \<Rightarrow> string option \<Rightarrow> log_call" where "logger_fatal = logger_write ''fatal''"

definition logger_error :: "(json \<Rightarrow> string) \<Rightarrow> log_message \<Rightarrow> string option \<Rightarrow> string option \<Rightarrow> log_call" where
  "logger_error stringify message trace context =
     \<lparr> lc_level = ''error'', lc_object = opt_prop ''context'' context @ opt_prop ''trace'' trace,
       lc_text = (case message of ErrorMessage x \<Rightarrow> x | TextMessage x \<Rightarrow> x | DataMessage j \<Rightarrow> stringify j) \<rparr>"

definition REDACT_PATHS :: "string list" where
  "REDACT_PATHS = [''password'', ''authorization'', ''token'', ''secret'', ''req.headers.authorization'', ''req.headers.cookie'',
     ''req.body.password'', ''req.body.currentPassword'', ''req.body.newPassword'', ''*.password'', ''*.token'', ''*.secret'']"

record logger_options =
  lo_level :: string
  lo_redact :: "string list"
  lo_censor :: string

definition createAppLogger :: "config \<Rightarrow> logger_options res" where
  "createAppLogger cfg = and_then (isProduction cfg) (\<lambda>production. Inr
     \<lparr> lo_level = (if production then ''info'' else ''debug''), lo_redact = REDACT_PATHS, lo_censor = ''[REDACTED]'' \<rparr>)"

section \<open>Mail\<close>

record smtp_options =
  smo_host :: string
  smo_port :: int
  smo_secure :: bool
  smo_connectionTimeout :: int
  smo_greetingTimeout :: int
  smo_socketTimeout :: int
  smo_auth :: "(string \<times> string) option"

record smtp_mail =
  smm_from :: string
  smm_to :: string
  smm_subject :: string
  smm_text :: string

datatype mail_sender = LoggingMailSender | SmtpMailSender string smtp_options

definition new_SmtpMailSender :: "config \<Rightarrow> mail_sender res" where
  "new_SmtpMailSender cfg =
     and_then (smtpFrom cfg) (\<lambda>from. and_then (smtpHost cfg) (\<lambda>host. and_then (smtpPort cfg) (\<lambda>p.
       Inr (SmtpMailSender (str_val from)
         \<lparr> smo_host = str_val host, smo_port = num_val p, smo_secure = (num_val p = 465),
           smo_connectionTimeout = 10000, smo_greetingTimeout = 10000, smo_socketTimeout = 15000,
           smo_auth = (case (smtpUser cfg, smtpPassword cfg) of
               (Some u, Some w) \<Rightarrow> Some (str_val u, str_val w) | _ \<Rightarrow> None) \<rparr>))))"

definition createMailSender :: "config \<Rightarrow> mail_sender res" where
  "createMailSender cfg = and_then (mailDriver cfg) (\<lambda>d.
     if d = EStr ''smtp'' then new_SmtpMailSender cfg else Inr LoggingMailSender)"

text \<open>The world around the senders: the environment variable, the file system, the transport, JSON.\<close>

record mail_io =
  mio_logFile :: "string option"
  mio_append :: "string \<Rightarrow> string \<Rightarrow> bool"
  mio_transport :: "smtp_options \<Rightarrow> smtp_mail \<Rightarrow> bool"
  mio_stringify :: "mail \<Rightarrow> string"

text \<open>What a call of \<^verbatim>\<open>send\<close> does: the lines logged, the lines written to files, the messages delivered, the result.\<close>

record mail_effect =
  mef_log :: "log_call list"
  mef_file :: "(string \<times> string) list"
  mef_delivered :: "smtp_mail list"
  mef_result :: "unit res"

definition template_line :: "string \<Rightarrow> mail \<Rightarrow> string \<Rightarrow> log_call" where
  "template_line level m text0 =
     \<lparr> lc_level = level, lc_object = [(''template'', JStr (ml_templateCode m))], lc_text = text0 \<rparr>"

definition logging_send :: "mail_io \<Rightarrow> mail \<Rightarrow> mail_effect" where
  "logging_send io m =
     (let line = template_line ''info'' m ''mail_logged_not_sent'';
          text1 = mio_stringify io m @ [CHR 0x0A] in
      case mio_logFile io of
        Some file \<Rightarrow> if file = [] then \<lparr> mef_log = [line], mef_file = [], mef_delivered = [], mef_result = Inr () \<rparr>
          else if mio_append io file text1
            then \<lparr> mef_log = [line], mef_file = [(file, text1)], mef_delivered = [], mef_result = Inr () \<rparr>
            else \<lparr> mef_log = [line], mef_file = [], mef_delivered = [], mef_result = Inl (OtherError ''appendFileSync'') \<rparr>
      | None \<Rightarrow> \<lparr> mef_log = [line], mef_file = [], mef_delivered = [], mef_result = Inr () \<rparr>)"

definition smtp_send :: "mail_io \<Rightarrow> string \<Rightarrow> smtp_options \<Rightarrow> mail \<Rightarrow> mail_effect" where
  "smtp_send io from opts m =
     (let out = \<lparr> smm_from = from, smm_to = ml_to m, smm_subject = ml_subject m, smm_text = ml_body m \<rparr> in
      if mio_transport io opts out
      then \<lparr> mef_log = [template_line ''info'' m ''mail_sent''], mef_file = [], mef_delivered = [out], mef_result = Inr () \<rparr>
      else \<lparr> mef_log = [template_line ''error'' m ''mail_send_failed''], mef_file = [], mef_delivered = [],
             mef_result = Inl (OtherError ''Mail delivery failed'') \<rparr>)"

fun mail_port :: "mail_io \<Rightarrow> mail_sender \<Rightarrow> mail \<Rightarrow> mail_effect" where
  "mail_port io LoggingMailSender m = logging_send io m"
| "mail_port io (SmtpMailSender from opts) m = smtp_send io from opts m"

lemmas mail_defs = logging_send_def smtp_send_def template_line_def Let_def

text \<open>The port as the outbox and the authentication service use it.\<close>

definition outbox_mail_send :: "mail_io \<Rightarrow> mail_sender \<Rightarrow> mail \<Rightarrow> send_result" where
  "outbox_mail_send io sender m = (case mef_result (mail_port io sender m) of Inr _ \<Rightarrow> SendOk | Inl _ \<Rightarrow> SendError)"

text \<open>\<^verbatim>\<open>stub-senders.ts\<close>: the channels without a provider.\<close>

definition stub_send :: "message \<Rightarrow> send_result" where
  "stub_send m = Unconfigured"

definition outbox_senders :: "mail_io \<Rightarrow> mail_sender \<Rightarrow> (json \<Rightarrow> string) \<Rightarrow> senders" where
  "outbox_senders io sender stringify =
     \<lparr> zns_send = stub_send, sms_send = stub_send, mail_send = outbox_mail_send io sender, json_stringify = stringify \<rparr>"

section \<open>Process start\<close>

text \<open>The libraries behind the payment adapters.\<close>

record gateway_lib =
  gwl_hmac :: "string \<Rightarrow> string \<Rightarrow> string"
  gwl_parse :: "string \<Rightarrow> json option"
  gwl_stringify :: "json \<Rightarrow> string"
  gwl_http :: "payos_env \<Rightarrow> string \<Rightarrow> http_response option"

text \<open>The adapter reads its settings at each call; the environment does not change while the process runs.\<close>

definition payos_settings :: "config \<Rightarrow> payos_env" where
  "payos_settings cfg =
     (let read = (\<lambda>g. case g cfg of Inr v \<Rightarrow> str_val v | Inl _ \<Rightarrow> []) in
      \<lparr> pse_checksumKey = read payosChecksumKey, pse_clientId = read payosClientId, pse_apiKey = read payosApiKey,
        pse_returnUrl = read payosReturnUrl, pse_cancelUrl = read payosCancelUrl \<rparr>)"

definition sepay_message :: string where
  "sepay_message = ''No SePay adapter is implemented; the primary QR channel is payOS '' @
     ''(PAYMENTS_GATEWAY=payos) or the simulated adapter for local runs''"

definition createPaymentGateway :: "gateway_lib \<Rightarrow> config \<Rightarrow> gateway_port res" where
  "createPaymentGateway L cfg = and_then (paymentsGateway cfg) (\<lambda>g.
     if g = EStr ''simulated''
     then Inr (SimulatedGateway (gwl_hmac L) (gwl_parse L) (map_option str_val (paymentsWebhookSecret cfg)))
     else if g = EStr ''payos''
     then Inr (PayosGateway (gwl_hmac L) (gwl_parse L) (gwl_stringify L) (gwl_http L) (payos_settings cfg))
     else Inl (OtherError sepay_message))"

definition channels_message :: string where
  "channels_message = ''Zalo OA / eSMS credentials are set but the real ZNS/SMS senders are not '' @
     ''implemented yet; remove the credentials or implement the adapters first''"

definition new_NotificationsModule :: "config \<Rightarrow> unit res" where
  "new_NotificationsModule cfg = (if znsConfigured cfg \<or> smsConfigured cfg then Inl (OtherError channels_message) else Inr ())"

definition seal_message :: string where
  "seal_message = ''APP_ENCRYPTION_KEY must be 64 hex chars when TOTP sealing is used''"

definition new_SealService :: "config \<Rightarrow> string res" where
  "new_SealService cfg = (case appEncryptionKey cfg of
       Some (EStr hex) \<Rightarrow> if length hex \<noteq> 64 then Inl (OtherError seal_message) else Inr hex
     | _ \<Rightarrow> Inl (OtherError seal_message))"

text \<open>The lifetimes of access and second-factor tokens, in seconds.\<close>

definition new_TokenService :: "config \<Rightarrow> (int \<times> int) res" where
  "new_TokenService cfg = and_then (accessTokenTtl cfg) (\<lambda>ttl. and_then (parseDurationSeconds (str_val ttl)) (\<lambda>a.
     and_then (parseDurationSeconds ''5m'') (\<lambda>m. Inr (a, m))))"

text \<open>The lifetime of refresh tokens, in seconds.\<close>

definition new_AuthService :: "config \<Rightarrow> int res" where
  "new_AuthService cfg = and_then (refreshTokenTtl cfg) (\<lambda>ttl. parseDurationSeconds (str_val ttl))"

record throttler_options =
  tho_ttl :: int
  tho_limit :: int

definition throttler_config :: "config \<Rightarrow> throttler_options res" where
  "throttler_config cfg = and_then (rateLimitTtlSeconds cfg) (\<lambda>t. and_then (rateLimitMaxRequests cfg) (\<lambda>n.
     Inr \<lparr> tho_ttl = num_val t * 1000, tho_limit = num_val n \<rparr>))"

definition swaggerCsp :: "(string \<times> string list) list" where
  "swaggerCsp =
     (let own = [CHR 0x27] @ ''self'' @ [CHR 0x27]; inline = [CHR 0x27] @ ''unsafe-inline'' @ [CHR 0x27];
          cdn = [''https://cdn.jsdelivr.net'', ''https://unpkg.com''] in
      [(''defaultSrc'', [own]), (''scriptSrc'', [own, inline] @ cdn), (''styleSrc'', [own, inline] @ cdn),
       (''imgSrc'', [own, ''data:''] @ cdn), (''fontSrc'', [own, ''data:''] @ cdn), (''workerSrc'', [own, ''blob:''])])"

text \<open>
  The settings of the HTTP server: trusted proxies, body limit, content policy (\<^term>\<open>None\<close> is the default of helmet), the
  robots header, cross-origin access (origins, with credentials), prefix and the paths outside it, the switches of
  the validation pipe, and whether the documentation is served.
\<close>

record server_options =
  svo_trustProxy :: int
  svo_bodyLimit :: string
  svo_csp :: "(string \<times> string list) list option"
  svo_robots :: string
  svo_cors :: "(string list \<times> bool) option"
  svo_prefix :: string
  svo_prefixExclude :: "string list"
  svo_whitelist :: bool
  svo_forbidNonWhitelisted :: bool
  svo_transform :: bool
  svo_docs :: bool

definition createApp :: "config \<Rightarrow> server_options res" where
  "createApp cfg =
     and_then (trustProxyHops cfg) (\<lambda>hops. and_then (swaggerEnabled cfg) (\<lambda>docs. and_then (corsOrigins cfg) (\<lambda>cors.
       let origins = (case cors of EList xs \<Rightarrow> xs | _ \<Rightarrow> []) in
       Inr \<lparr> svo_trustProxy = num_val hops, svo_bodyLimit = ''1mb'',
             svo_csp = (if docs = EBool True then Some swaggerCsp else None),
             svo_robots = ''noindex, nofollow'',
             svo_cors = (if length origins > 0 then Some (origins, True) else None),
             svo_prefix = ''api/v1'', svo_prefixExclude = [''healthz'', ''readyz'', ''version'', ''metrics''],
             svo_whitelist = True, svo_forbidNonWhitelisted = True, svo_transform = True,
             svo_docs = (docs = EBool True) \<rparr>)))"

text \<open>
  The host the process starts on: whether the database accepts the connection that \<^verbatim>\<open>PrismaService\<close> opens, whether
  a port is free, and whether the framework generates the documentation from the routes.
\<close>

record host =
  hst_connects :: bool
  hst_listens :: "int \<Rightarrow> bool"
  hst_documents :: bool

text \<open>The process: validated environment, constructed services, HTTP server, listening port.\<close>

record process =
  prc_logger :: logger_options
  prc_throttler :: throttler_options
  prc_mail :: mail_sender
  prc_gateway :: gateway_port
  prc_sealKey :: string
  prc_ttls :: "int \<times> int"
  prc_refreshTtl :: int
  prc_server :: server_options
  prc_port :: int

definition boot :: "joi_lib \<Rightarrow> gateway_lib \<Rightarrow> host \<Rightarrow> (string \<rightharpoonup> string) \<Rightarrow> process res" where
  "boot lib L h raw = and_then (validateEnv lib raw) (\<lambda>cfg.
     and_then (createAppLogger cfg) (\<lambda>lg. and_then (throttler_config cfg) (\<lambda>th.
     and_then (new_TokenService cfg) (\<lambda>ttls. and_then (new_SealService cfg) (\<lambda>key.
     and_then (createMailSender cfg) (\<lambda>sender. and_then (new_AuthService cfg) (\<lambda>rttl. and_then (new_NotificationsModule cfg) (\<lambda>_.
     and_then (createPaymentGateway L cfg) (\<lambda>gw. and_then (createApp cfg) (\<lambda>server. and_then (port cfg) (\<lambda>p.
       if svo_docs server \<and> \<not> hst_documents h then Inl (OtherError ''createDocument'')
       else if \<not> hst_connects h then Inl (OtherError ''connect'')
       else if \<not> hst_listens h (num_val p) then Inl (OtherError ''listen'')
       else Inr \<lparr> prc_logger = lg, prc_throttler = th, prc_mail = sender, prc_gateway = gw, prc_sealKey = key, prc_ttls = ttls,
             prc_refreshTtl = rttl, prc_server = server, prc_port = num_val p \<rparr>)))))))))))"

lemma and_then_Inr: "and_then r f = Inr y \<longleftrightarrow> (\<exists>v. r = Inr v \<and> f v = Inr y)"
  by (cases r) auto

section \<open>What starts\<close>

lemma validated_key_present:
  assumes "validateEnv lib raw = Inr cfg" and "appEncryptionKey cfg = Some v"
  shows "\<exists>hex. v = EStr hex \<and> length hex = 64"
proof -
  have "str_when (in_production raw) is_key64 (raw ''APP_ENCRYPTION_KEY'') = Some (cfg ''APP_ENCRYPTION_KEY'')"
    using validated_key [OF assms(1) schema_keys(10)] by simp
  then show ?thesis using assms(2)
    by (auto simp: appEncryptionKey_def getOptional_def env_rules is_key64_def split: if_splits option.splits)
qed

lemma seal_boots:
  assumes "validateEnv lib raw = Inr cfg"
  shows "(\<exists>k. new_SealService cfg = Inr k) \<longleftrightarrow> appEncryptionKey cfg \<noteq> None"
  using validated_key_present [OF assms] by (auto simp: new_SealService_def split: option.splits env_value.splits)

lemma mail_boots:
  assumes "validateEnv lib raw = Inr cfg"
  shows "\<exists>sender. createMailSender cfg = Inr sender \<and>
    (sender = LoggingMailSender \<longleftrightarrow> ref_value raw ''MAIL_DRIVER'' ''logging'' \<noteq> ''smtp'')"
proof -
  note d = validated_driver [OF assms]
  show ?thesis
  proof (cases "ref_value raw ''MAIL_DRIVER'' ''logging'' = ''smtp''")
    case True
    have m: "mailDriver cfg = Inr (EStr ''smtp'')" using d True by simp
    then obtain h f q where "smtpHost cfg = Inr (EStr h)" "smtpFrom cfg = Inr (EStr f)" "smtpPort cfg = Inr (ENum q)"
      using environment_access(5) [OF assms m] environment_access(2) [OF assms] by (auto simp: gives_str_def gives_num_def)
    then show ?thesis using m True by (simp add: createMailSender_def new_SmtpMailSender_def)
  next
    case False
    then show ?thesis using d by (simp add: createMailSender_def)
  qed
qed

lemma gateway_boots:
  assumes "validateEnv lib raw = Inr cfg"
  shows "createPaymentGateway L cfg = (if gateway_ref raw = ''sepay'' then Inl (OtherError sepay_message)
    else if gateway_ref raw = ''payos''
    then Inr (PayosGateway (gwl_hmac L) (gwl_parse L) (gwl_stringify L) (gwl_http L) (payos_settings cfg))
    else Inr (SimulatedGateway (gwl_hmac L) (gwl_parse L) (map_option str_val (paymentsWebhookSecret cfg))))"
  using validated_gateway [OF assms] by (auto simp: createPaymentGateway_def split: if_splits)

lemma providers:
  "gwp_provider (PayosGateway hmac parse stringify http e) = ''payos''" "gwp_provider (SimulatedGateway hmac parse key) = ''simulated''"
  by (simp_all add: PayosGateway_def SimulatedGateway_def)

lemma server_boots:
  assumes "validateEnv lib raw = Inr cfg"
  shows "\<exists>lg th sv p. createAppLogger cfg = Inr lg \<and> lo_level lg = (if in_production raw then ''info'' else ''debug'') \<and>
    throttler_config cfg = Inr th \<and> 1000 \<le> tho_ttl th \<and> 1 \<le> tho_limit th \<and>
    createApp cfg = Inr sv \<and> 0 \<le> svo_trustProxy sv \<and> svo_trustProxy sv \<le> 5 \<and>
    (\<forall>origins creds. svo_cors sv = Some (origins, creds) \<longrightarrow>
       origins = split_origins (case_option [] id (raw ''CORS_ALLOWED_ORIGINS''))) \<and>
    (svo_docs sv \<longleftrightarrow> svo_csp sv \<noteq> None) \<and> svo_whitelist sv \<and> svo_forbidNonWhitelisted sv \<and>
    port cfg = Inr (ENum p) \<and> is_port p"
proof -
  obtain t n where th: "rateLimitTtlSeconds cfg = Inr (ENum t)" "rateLimitMaxRequests cfg = Inr (ENum n)" "1 \<le> t" "1 \<le> n"
    using environment_ranges(6) [OF assms] by (auto simp: gives_num_def)
  obtain hops where hops: "trustProxyHops cfg = Inr (ENum hops)" "0 \<le> hops" "hops \<le> 5"
    using environment_ranges(4) [OF assms] by (auto simp: gives_num_def)
  obtain p where p: "port cfg = Inr (ENum p)" "is_port p" using environment_ranges(2) [OF assms] by (auto simp: gives_num_def)
  obtain b where b: "swaggerEnabled cfg = Inr (EBool b)" using environment_access(4) [OF assms] by blast
  have c: "corsOrigins cfg = Inr (EList (split_origins (case_option [] id (raw ''CORS_ALLOWED_ORIGINS''))))"
    using validated_origins [OF assms] by (simp add: corsOrigins_def env_get_def)
  show ?thesis using th hops p b c validated_nodeEnv(3) [OF assms]
    by (simp add: createAppLogger_def throttler_config_def createApp_def Let_def)
qed

lemma duration_5m: "parseDurationSeconds ''5m'' = Inr 300"
  by code_simp

lemma token_boots:
  assumes "validateEnv lib raw = Inr cfg"
  shows "(\<exists>t. new_TokenService cfg = Inr t) \<longleftrightarrow> (\<exists>n. parseDurationSeconds (ref_value raw ''ACCESS_TOKEN_TTL'' ''15m'') = Inr n)"
proof -
  have "accessTokenTtl cfg = Inr (EStr (ref_value raw ''ACCESS_TOKEN_TTL'' ''15m''))"
    using validated_default [OF assms schema_keys(8)] by (auto simp: accessTokenTtl_def any_str_def)
  then show ?thesis by (simp add: new_TokenService_def and_then_Inr duration_5m)
qed

lemma refresh_boots:
  assumes "validateEnv lib raw = Inr cfg"
  shows "new_AuthService cfg = parseDurationSeconds (ref_value raw ''REFRESH_TOKEN_TTL'' ''30d'')"
proof -
  have "refreshTokenTtl cfg = Inr (EStr (ref_value raw ''REFRESH_TOKEN_TTL'' ''30d''))"
    using validated_default [OF assms schema_keys(9)] by (auto simp: refreshTokenTtl_def any_str_def)
  then show ?thesis by (simp add: new_AuthService_def)
qed

text \<open>What the host has to provide: the database, the configured port and, where it is served, the documentation.\<close>

definition host_ready :: "host \<Rightarrow> config \<Rightarrow> bool" where
  "host_ready h cfg \<longleftrightarrow> hst_connects h \<and> (\<forall>p. port cfg = Inr (ENum p) \<longrightarrow> hst_listens h p) \<and>
     (swaggerEnabled cfg = Inr (EBool True) \<longrightarrow> hst_documents h)"

lemma docs_served:
  assumes "createApp cfg = Inr sv"
  shows "svo_docs sv \<longleftrightarrow> swaggerEnabled cfg = Inr (EBool True)"
  using assms by (auto simp: createApp_def and_then_Inr Let_def)

lemma boot_iff:
  assumes "validateEnv lib raw = Inr cfg"
  shows "(\<exists>p. boot lib L h raw = Inr p) \<longleftrightarrow>
    ((\<exists>n. parseDurationSeconds (ref_value raw ''ACCESS_TOKEN_TTL'' ''15m'') = Inr n) \<and>
     (\<exists>n. parseDurationSeconds (ref_value raw ''REFRESH_TOKEN_TTL'' ''30d'') = Inr n) \<and> appEncryptionKey cfg \<noteq> None \<and>
     gateway_ref raw \<noteq> ''sepay'' \<and> \<not> znsConfigured cfg \<and> \<not> smsConfigured cfg \<and> host_ready h cfg)"
proof -
  obtain lg th sv q where sv: "createAppLogger cfg = Inr lg" "throttler_config cfg = Inr th" "createApp cfg = Inr sv" "port cfg = Inr (ENum q)"
    using server_boots [OF assms] by auto
  have h: "host_ready h cfg \<longleftrightarrow> hst_connects h \<and> hst_listens h q \<and> (svo_docs sv \<longrightarrow> hst_documents h)"
    using sv(4) by (simp add: host_ready_def docs_served [OF sv(3)])
  obtain sender where m: "createMailSender cfg = Inr sender" using mail_boots [OF assms] by blast
  have n: "(\<exists>u. new_NotificationsModule cfg = Inr u) \<longleftrightarrow> \<not> znsConfigured cfg \<and> \<not> smsConfigured cfg"
    by (simp add: new_NotificationsModule_def)
  have g: "(\<exists>gw. createPaymentGateway L cfg = Inr gw) \<longleftrightarrow> gateway_ref raw \<noteq> ''sepay''"
    by (simp add: gateway_boots [OF assms])
  have "(\<exists>p. boot lib L h raw = Inr p) \<longleftrightarrow> (\<exists>t. new_TokenService cfg = Inr t) \<and> (\<exists>k. new_SealService cfg = Inr k) \<and>
      (\<exists>r. new_AuthService cfg = Inr r) \<and> (\<exists>u. new_NotificationsModule cfg = Inr u) \<and> (\<exists>gw. createPaymentGateway L cfg = Inr gw) \<and>
      host_ready h cfg"
    unfolding h by (simp add: boot_def assms sv m and_then_Inr) blast
  then show ?thesis unfolding token_boots [OF assms] seal_boots [OF assms] refresh_boots [OF assms] n g by blast
qed

lemma booted:
  assumes "boot lib L h raw = Inr p"
  obtains cfg where "validateEnv lib raw = Inr cfg" "createAppLogger cfg = Inr (prc_logger p)" "throttler_config cfg = Inr (prc_throttler p)"
    "new_SealService cfg = Inr (prc_sealKey p)" "createMailSender cfg = Inr (prc_mail p)" "createPaymentGateway L cfg = Inr (prc_gateway p)"
    "createApp cfg = Inr (prc_server p)" "port cfg = Inr (ENum (prc_port p))"
proof -
  obtain cfg where c: "validateEnv lib raw = Inr cfg" using assms by (auto simp: boot_def and_then_Inr)
  obtain q where q: "port cfg = Inr (ENum q)" using server_boots [OF c] by blast
  show thesis by (rule that [OF c]) (use assms c q in \<open>auto simp: boot_def and_then_Inr split: if_splits\<close>)
qed

definition safe_process :: "(string \<rightharpoonup> string) \<Rightarrow> process \<Rightarrow> bool" where
  "safe_process raw p \<longleftrightarrow>
     gwp_provider (prc_gateway p) = gateway_ref raw \<and>
     (in_production raw \<longrightarrow> gwp_provider (prc_gateway p) = ''payos'' \<and> lo_level (prc_logger p) = ''info'') \<and>
     length (prc_sealKey p) = 64 \<and> 1000 \<le> tho_ttl (prc_throttler p) \<and> 1 \<le> tho_limit (prc_throttler p) \<and>
     0 \<le> svo_trustProxy (prc_server p) \<and> svo_trustProxy (prc_server p) \<le> 5 \<and>
     svo_whitelist (prc_server p) \<and> svo_forbidNonWhitelisted (prc_server p) \<and>
     (svo_docs (prc_server p) \<longleftrightarrow> svo_csp (prc_server p) \<noteq> None) \<and>
     (\<forall>origins creds. svo_cors (prc_server p) = Some (origins, creds) \<longrightarrow>
        origins = split_origins (case_option [] id (raw ''CORS_ALLOWED_ORIGINS''))) \<and>
     is_port (prc_port p)"

lemma booted_safe:
  assumes "boot lib L h raw = Inr p"
  shows "safe_process raw p"
proof -
  from booted [OF assms] obtain cfg where c: "validateEnv lib raw = Inr cfg" "createAppLogger cfg = Inr (prc_logger p)"
    "throttler_config cfg = Inr (prc_throttler p)" "new_SealService cfg = Inr (prc_sealKey p)"
    "createPaymentGateway L cfg = Inr (prc_gateway p)" "createApp cfg = Inr (prc_server p)" "port cfg = Inr (ENum (prc_port p))"
    by metis
  have k: "length (prc_sealKey p) = 64" using c(4) by (auto simp: new_SealService_def split: option.splits env_value.splits if_splits)
  have "prc_gateway p = projr (createPaymentGateway L cfg)" "gateway_ref raw \<noteq> ''sepay''"
    using c(5) by (simp, auto simp: gateway_boots [OF c(1)])
  then have g: "gwp_provider (prc_gateway p) = gateway_ref raw" "in_production raw \<longrightarrow> gateway_ref raw = ''payos''"
    using validated_gateway(2) [OF c(1)] by (auto simp: gateway_boots [OF c(1)] providers split: if_splits)
  show ?thesis unfolding safe_process_def using server_boots [OF c(1)] k g c(2,3,6,7) by auto
qed

text \<open>
  C34: The process starts exactly when it should. A rejected environment stops it with the error of the
  validation. An accepted one starts it if and only if the lifetimes of access tokens and of refresh tokens
  are durations, a sealing key is set, the gateway is not the unimplemented SePay, no credentials of an
  unimplemented message channel are set, and the host is ready: the database accepts the connection, the
  configured port is free and, where the documentation is served, it is generated. Otherwise a constructor
  or the start of the server throws. A process that starts runs the configured gateway, in
  production payOS and never the simulated one, seals with a key of 64 digits, limits requests, rejects unknown
  properties, admits only the configured origins, and relaxes its content policy only while it serves
  the documentation.
\<close>

theorem boot_decides:
  "(\<forall>e. validateEnv lib raw = Inl e \<longrightarrow> boot lib L h raw = Inl e) \<and>
   (\<forall>cfg. validateEnv lib raw = Inr cfg \<longrightarrow>
     ((\<exists>p. boot lib L h raw = Inr p) \<longleftrightarrow>
      ((\<exists>n. parseDurationSeconds (ref_value raw ''ACCESS_TOKEN_TTL'' ''15m'') = Inr n) \<and>
       (\<exists>n. parseDurationSeconds (ref_value raw ''REFRESH_TOKEN_TTL'' ''30d'') = Inr n) \<and> appEncryptionKey cfg \<noteq> None \<and>
       gateway_ref raw \<noteq> ''sepay'' \<and> \<not> znsConfigured cfg \<and> \<not> smsConfigured cfg \<and> host_ready h cfg))) \<and>
   (\<forall>p. boot lib L h raw = Inr p \<longrightarrow> safe_process raw p)"
proof -
  have "\<forall>e. validateEnv lib raw = Inl e \<longrightarrow> boot lib L h raw = Inl e" by (simp add: boot_def)
  then show ?thesis using boot_iff [of lib raw _ L h] booted_safe by blast
qed

text \<open>The production environment of the configuration starts on a ready host.\<close>

definition host0 :: host where
  "host0 = \<lparr> hst_connects = True, hst_listens = (\<lambda>p. p = 8080), hst_documents = False \<rparr>"

definition gwl0 :: gateway_lib where
  "gwl0 = \<lparr> gwl_hmac = (@), gwl_parse = (\<lambda>_. None), gwl_stringify = (\<lambda>_. []), gwl_http = (\<lambda>_ _. None) \<rparr>"

lemma production0_cfg:
  assumes "validateEnv joi0 production0 = Inr cfg"
  shows "\<not> znsConfigured cfg" "\<not> smsConfigured cfg" "appEncryptionKey cfg \<noteq> None" "host_ready host0 cfg"
proof -
  have c: "cfg = (parsed_env joi0 production0)(''CORS_ALLOWED_ORIGINS'' := (case parsed_env joi0 production0 ''CORS_ALLOWED_ORIGINS'' of
          Some (EStr x) \<Rightarrow> Some (EList (split_origins x)) | v \<Rightarrow> v))"
    using assms by (simp add: validateEnv_def split: if_splits)
  have "cfg ''ZALO_OA_ACCESS_TOKEN'' = None" "cfg ''ESMS_API_KEY'' = None"
    unfolding c by (simp_all add: parsed_env_def envSchema_def Let_def production0_def str_optional_def)
  then show "\<not> znsConfigured cfg" "\<not> smsConfigured cfg" by (simp_all add: znsConfigured_def smsConfigured_def getOptional_def)
  have "cfg ''PORT'' = Some (ENum 8080)" "cfg ''SWAGGER_ENABLED'' = Some (EBool False)"
    unfolding c by (simp_all add: parsed_env_def envSchema_def Let_def production0_def env_rules joi0_def is_port_def)
  then show "host_ready host0 cfg" by (simp add: host_ready_def host0_def port_def swaggerEnabled_def env_get_def)
  have "isProduction cfg = Inr True"
    using validated_nodeEnv(3) [OF assms] by (simp add: in_production_def production0_def ref_value_def)
  then show "appEncryptionKey cfg \<noteq> None" using environment_ranges(8) [OF assms] by auto
qed

theorem boot_decides_witness:
  "\<exists>p. boot joi0 gwl0 host0 production0 = Inr p \<and> safe_process production0 p \<and> in_production production0"
proof -
  obtain cfg where v: "validateEnv joi0 production0 = Inr cfg" using production0_valid ..
  have d: "parseDurationSeconds (ref_value production0 ''ACCESS_TOKEN_TTL'' ''15m'') = Inr 900" by code_simp
  have d': "parseDurationSeconds (ref_value production0 ''REFRESH_TOKEN_TTL'' ''30d'') = Inr 2592000" by code_simp
  have g: "gateway_ref production0 \<noteq> ''sepay''" "in_production production0"
    by (simp_all add: gateway_ref_def ref_value_def production0_def in_production_def)
  show ?thesis using boot_decides [of joi0 production0 gwl0 host0] v d d' g production0_cfg [OF v] by blast
qed

text \<open>
  C35: Mail content stays out of the logs and, in production, off the disk. Whatever the message and
  whatever the transport or the disk does, a sender writes one log line with the code of the
  template and a fixed text, never the recipient, the subject or the body, and a failed delivery is reported
  without the error of the provider. In production nothing is written to a file. A successful send over SMTP hands over exactly
  the message, once, and a failed one nothing.
\<close>

theorem mail_content_private:
  assumes "boot lib L h raw = Inr p" and "mio_logFile io = raw ''MAIL_LOG_FILE''"
  shows "(\<exists>level txt. mef_log (mail_port io (prc_mail p) m) =
      [\<lparr> lc_level = level, lc_object = [(''template'', JStr (ml_templateCode m))], lc_text = txt \<rparr>] \<and>
      (level, txt) \<in> {(''info'', ''mail_sent''), (''error'', ''mail_send_failed''), (''info'', ''mail_logged_not_sent'')}) \<and>
    (in_production raw \<longrightarrow> mef_file (mail_port io (prc_mail p) m) = []) \<and>
    (ref_value raw ''MAIL_DRIVER'' ''logging'' = ''smtp'' \<longrightarrow>
      (\<exists>from. let out = \<lparr> smm_from = from, smm_to = ml_to m, smm_subject = ml_subject m, smm_text = ml_body m \<rparr>;
              eff = mail_port io (prc_mail p) m in
         mef_file eff = [] \<and> (mef_result eff = Inr () \<and> mef_delivered eff = [out] \<or>
         mef_result eff = Inl (OtherError ''Mail delivery failed'') \<and> mef_delivered eff = [])))"
proof -
  from booted [OF assms(1)] obtain cfg where c: "validateEnv lib raw = Inr cfg" "createMailSender cfg = Inr (prc_mail p)" by metis
  have s: "prc_mail p = LoggingMailSender \<longleftrightarrow> ref_value raw ''MAIL_DRIVER'' ''logging'' \<noteq> ''smtp''"
    using mail_boots [OF c(1)] c(2) by auto
  have f: "raw ''MAIL_LOG_FILE'' = None" if w: "in_production raw"
    using validated_key [OF c(1) schema_keys(23)] w by (auto simp: str_forbidden_def split: option.splits)
  show ?thesis
  proof (cases "prc_mail p")
    case LoggingMailSender
    then show ?thesis using s f assms(2) by (auto simp: mail_defs split: option.splits)
  next
    case (SmtpMailSender sdr opts)
    then show ?thesis using s by (auto simp: mail_defs intro!: exI [of _ sdr])
  qed
qed

definition mio0 :: mail_io where
  "mio0 = \<lparr> mio_logFile = None, mio_append = (\<lambda>_ _. True), mio_transport = (\<lambda>_ m. smm_to m \<noteq> []), mio_stringify = ml_body \<rparr>"

definition mail0 :: mail where
  "mail0 = \<lparr> ml_to = ''a@b.c'', ml_templateCode = ''VERIFY_EMAIL'', ml_subject = ''Verify'', ml_body = ''token'' \<rparr>"

theorem mail_content_private_witness:
  "\<exists>p from. boot joi0 gwl0 host0 production0 = Inr p \<and>
     mef_delivered (mail_port mio0 (prc_mail p) mail0) =
       [\<lparr> smm_from = from, smm_to = ''a@b.c'', smm_subject = ''Verify'', smm_text = ''token'' \<rparr>]"
proof -
  obtain cfg where v: "validateEnv joi0 production0 = Inr cfg" using production0_valid ..
  have d: "parseDurationSeconds (ref_value production0 ''ACCESS_TOKEN_TTL'' ''15m'') = Inr 900" by code_simp
  have d': "parseDurationSeconds (ref_value production0 ''REFRESH_TOKEN_TTL'' ''30d'') = Inr 2592000" by code_simp
  have g: "gateway_ref production0 \<noteq> ''sepay''" "ref_value production0 ''MAIL_DRIVER'' ''logging'' = ''smtp''"
    by (simp_all add: gateway_ref_def ref_value_def production0_def in_production_def)
  obtain p where p: "boot joi0 gwl0 host0 production0 = Inr p" using boot_iff [OF v, of gwl0 host0] d d' g production0_cfg [OF v] by blast
  have f: "mio_logFile mio0 = production0 ''MAIL_LOG_FILE''" by (simp add: mio0_def production0_def)
  obtain sender where s: "prc_mail p = sender" by simp
  have "mef_result (mail_port mio0 (prc_mail p) mail0) = Inr ()"
    by (cases "prc_mail p") (simp_all add: mail_defs mio0_def mail0_def)
  then show ?thesis using mail_content_private [OF p f, of mail0] g p by (auto simp: Let_def mail0_def)
qed

text \<open>The default mail driver is accepted in production, and then no mail leaves the process.\<close>

lemma default_driver_delivers_nothing: "mef_delivered (mail_port io LoggingMailSender m) = []"
  by (simp add: mail_defs split: option.splits)

end
