(* ===== verification/Seed.thy ===== *)
theory Seed
  imports Auth Classes Exams Attendance Requests Notices Reports Settlement
begin

text \<open>
  The bootstrap of the database (\<^verbatim>\<open>prisma/seed.ts\<close>): the belt ranks, the two settings and the administrator, created when
  they are missing, and the demonstration data behind a switch. The script has no transaction of its own, so a step
  that fails leaves what the steps before it wrote. Every \<^verbatim>\<open>new Date()\<close> of a run gives the same instant here; ids of
  ranks come from a sequence, the letters of invite codes are drawn.
\<close>

section \<open>Statements\<close>

text \<open>\<^verbatim>\<open>upsert\<close> with an empty update: the row is created only if the key is not in use.\<close>

definition ensure_in ::
  "('r, 'k) uq list \<Rightarrow> (app \<Rightarrow> 'r list) \<Rightarrow> ('r list \<Rightarrow> app \<Rightarrow> app) \<Rightarrow> ('r \<Rightarrow> bool) \<Rightarrow> (uuid \<Rightarrow> 'r) \<Rightarrow> app \<Rightarrow> app \<times> 'r res" where
  "ensure_in uqs get put w mk s = (case List.find w (get s) of
       Some r \<Rightarrow> (s, Inr r)
     | None \<Rightarrow> create_in uqs get put mk s)"

text \<open>\<^verbatim>\<open>createMany\<close>: all rows or none.\<close>

fun draw_rows :: "(uuid \<Rightarrow> 'r) list \<Rightarrow> app \<Rightarrow> 'r list \<times> app" where
  "draw_rows [] s = ([], s)"
| "draw_rows (mk # mks) s = (let (i, s1) = fresh_uuid s; (rows, s2) = draw_rows mks s1 in (mk i # rows, s2))"

definition create_many_in ::
  "('r, 'k) uq list \<Rightarrow> (app \<Rightarrow> 'r list) \<Rightarrow> ('r list \<Rightarrow> app \<Rightarrow> app) \<Rightarrow> (uuid \<Rightarrow> 'r) list \<Rightarrow> app \<Rightarrow> app \<times> unit res" where
  "create_many_in uqs get put mks s = (let (rows, s1) = draw_rows mks s in
     case check_unique uqs (get s1 @ rows) of
       Inl e \<Rightarrow> (s1, Inl e)
     | Inr t \<Rightarrow> (put t s1, Inr ()))"

abbreviation put_users :: "user list \<Rightarrow> app \<Rightarrow> app" where "put_users t s \<equiv> s\<lparr>users := t\<rparr>"
abbreviation put_settings :: "app_setting list \<Rightarrow> app \<Rightarrow> app" where "put_settings t s \<equiv> s\<lparr>appSettings := t\<rparr>"
abbreviation put_invoices :: "invoice list \<Rightarrow> app \<Rightarrow> app" where "put_invoices t s \<equiv> s\<lparr>invoices := t\<rparr>"
abbreviation put_payments :: "payment list \<Rightarrow> app \<Rightarrow> app" where "put_payments t s \<equiv> s\<lparr>payments := t\<rparr>"
abbreviation put_discounts :: "discount_code list \<Rightarrow> app \<Rightarrow> app" where "put_discounts t s \<equiv> s\<lparr>discountCodes := t\<rparr>"

interpretation user_rows: table users put_users by unfold_locales (simp_all add: same_db_tables)
interpretation setting_rows: table appSettings put_settings by unfold_locales (simp_all add: same_db_tables)
interpretation invoice_rows: table invoices put_invoices by unfold_locales (simp_all add: same_db_tables)
interpretation payment_rows: table payments put_payments by unfold_locales (simp_all add: same_db_tables)
interpretation discount_rows: table discountCodes put_discounts by unfold_locales (simp_all add: same_db_tables)

section \<open>Belt ranks\<close>

record seed_rank =
  sdr_code :: string
  sdr_name :: string
  sdr_rankGroup :: belt_rank_group
  sdr_orderIndex :: int

definition show_group :: "belt_rank_group \<Rightarrow> string" where
  "show_group g = (case g of LAM \<Rightarrow> ''LAM'' | VANG \<Rightarrow> ''VANG'' | DO \<Rightarrow> ''DO'' | HUYEN \<Rightarrow> ''HUYEN'')"

definition seed_groups :: "(belt_rank_group \<times> nat \<times> string) list" where
  "seed_groups = [(LAM, 3, ''Blue Belt''), (VANG, 3, ''Yellow Belt''), (DO, 6, ''Red Belt''), (HUYEN, 3, ''Black Belt'')]"

text \<open>The inner loop over the levels of a group and the outer loop, with the running order index.\<close>

fun group_ranks :: "belt_rank_group \<Rightarrow> string \<Rightarrow> nat list \<Rightarrow> int \<Rightarrow> seed_rank list" where
  "group_ranks g name [] k = []"
| "group_ranks g name (level # ls) k =
     \<lparr> sdr_code = show_group g @ ''_'' @ show_nat level, sdr_name = name @ '' '' @ show_nat level, sdr_rankGroup = g,
       sdr_orderIndex = k \<rparr> # group_ranks g name ls (k + 1)"

fun ranks_from :: "(belt_rank_group \<times> nat \<times> string) list \<Rightarrow> int \<Rightarrow> seed_rank list" where
  "ranks_from [] k = []"
| "ranks_from ((g, levels, name) # gs) k = group_ranks g name [1..<Suc levels] k @ ranks_from gs (k + int levels)"

definition buildBeltRanks :: "seed_rank list" where
  "buildBeltRanks = ranks_from seed_groups 1"

text \<open>\<open>rid\<close> is the value of the id sequence if the rank is created.\<close>

definition seed_row :: "seed_rank \<Rightarrow> int \<Rightarrow> belt_rank" where
  "seed_row r rid = \<lparr> rank_id = rid, rank_code = sdr_code r, rank_name = sdr_name r, rank_rankGroup = sdr_rankGroup r,
     rank_orderIndex = sdr_orderIndex r, rank_isActive = True \<rparr>"

definition ensure_rank :: "seed_rank \<Rightarrow> int \<Rightarrow> app \<Rightarrow> app \<times> unit res" where
  "ensure_rank r rid s = (case List.find (\<lambda>x. rank_code x = sdr_code r) (beltRanks s) of
       Some _ \<Rightarrow> (s, Inr ())
     | None \<Rightarrow> (case insert_row rank_uqs (seed_row r rid) (beltRanks s) of
           Inl e \<Rightarrow> (s, Inl e)
         | Inr t \<Rightarrow> (s\<lparr>beltRanks := t\<rparr>, Inr ())))"

fun seed_ranks :: "(seed_rank \<times> int) list \<Rightarrow> app \<Rightarrow> app \<times> unit res" where
  "seed_ranks [] s = (s, Inr ())"
| "seed_ranks ((r, rid) # rs) s = bindE (ensure_rank r rid) (\<lambda>_. seed_ranks rs) s"

section \<open>Settings and the administrator\<close>

definition setting_uqs :: "(app_setting, string) uq list" where
  "setting_uqs = [([''key''], \<lambda>r. Some (set_key r))]"

definition ensure_setting :: "string \<Rightarrow> json \<Rightarrow> app \<Rightarrow> app \<times> unit res" where
  "ensure_setting k v s = (case List.find (\<lambda>r. set_key r = k) (appSettings s) of
       Some _ \<Rightarrow> (s, Inr ())
     | None \<Rightarrow> (case insert_row setting_uqs \<lparr> set_key = k, set_value = v, set_updatedBy = None \<rparr> (appSettings s) of
           Inl e \<Rightarrow> (s, Inl e)
         | Inr t \<Rightarrow> (s\<lparr>appSettings := t\<rparr>, Inr ())))"

definition empty_account :: json where
  "empty_account = JObj [(''owner_type'', JStr ''BUSINESS''), (''bin'', JStr []), (''number'', JStr []), (''name'', JStr [])]"

definition assertSeedPasswordPolicy :: "string \<Rightarrow> string \<Rightarrow> unit res" where
  "assertSeedPasswordPolicy password email =
     (if length password < 8 \<or> \<not> list_ex is_letter password \<or> \<not> list_ex is_digit password
      then Inl (OtherError ''ADMIN_PASSWORD must be at least 8 characters and contain letters and digits'')
      else let localPart = toLowerCase (local_part email) in
        if length localPart \<ge> 3 \<and> contains_str (toLowerCase password) localPart
        then Inl (OtherError ''ADMIN_PASSWORD must not contain the admin email local part'') else Inr ())"

record seed_env =
  sen_adminEmail :: "string option"
  sen_adminPassword :: "string option"
  sen_demo :: "string option"

definition ensure_user :: "string \<Rightarrow> string \<Rightarrow> user_role \<Rightarrow> instant \<Rightarrow> app \<Rightarrow> app \<times> user res" where
  "ensure_user email hash role now =
     ensure_in user_uqs users put_users (\<lambda>u. usr_email u = email) (new_user email hash role (Some now) now)"

definition seed_admin :: "(string \<Rightarrow> string) \<Rightarrow> seed_env \<Rightarrow> instant \<Rightarrow> app \<Rightarrow> app \<times> unit res" where
  "seed_admin hash env now s = (case (sen_adminEmail env, sen_adminPassword env) of
       (Some email, Some password) \<Rightarrow>
         if email = [] \<or> password = [] then (s, Inr ())
         else (case assertSeedPasswordPolicy password email of
             Inl e \<Rightarrow> (s, Inl e)
           | Inr _ \<Rightarrow> bindE (ensure_user email (hash password) ADMIN now) (\<lambda>_. returnE ()) s)
     | _ \<Rightarrow> (s, Inr ()))"

text \<open>The part of \<^verbatim>\<open>main\<close> before the demonstration data.\<close>

definition seed_base :: "(string \<Rightarrow> string) \<Rightarrow> int list \<Rightarrow> seed_env \<Rightarrow> instant \<Rightarrow> app \<Rightarrow> app \<times> unit res" where
  "seed_base hash rids env now =
     bindE (seed_ranks (zip buildBeltRanks rids)) (\<lambda>_.
     bindE (ensure_setting ''tuition_rates'' (JObj [])) (\<lambda>_.
     bindE (ensure_setting ''bank_account'' empty_account) (\<lambda>_.
     seed_admin hash env now)))"

section \<open>The demonstration data\<close>

definition timeOnly :: "int \<Rightarrow> int \<Rightarrow> instant" where
  "timeOnly hour minute = hour * 3600000 + minute * 60000"

definition daysFromNow :: "int \<Rightarrow> instant \<Rightarrow> instant" where
  "daysFromNow days now = as_date (now + days * day_ms)"

definition demo_user :: "string \<Rightarrow> string \<Rightarrow> user_role \<Rightarrow> instant \<Rightarrow> app \<Rightarrow> app \<times> user res" where
  "demo_user email hash role now = create_in user_uqs users put_users (new_user email hash role (Some now) now)"

definition rank_of_code :: "string \<Rightarrow> app \<Rightarrow> int option" where
  "rank_of_code code s = map_option rank_id (List.find (\<lambda>r. rank_code r = code) (sort_key rank_orderIndex (beltRanks s)))"

definition demo_profile ::
  "uuid option \<Rightarrow> string \<Rightarrow> instant \<Rightarrow> gender \<Rightarrow> string \<Rightarrow> string option \<Rightarrow> (string \<times> string) option \<Rightarrow> string option \<Rightarrow>
     nat list \<Rightarrow> int option \<Rightarrow> instant \<Rightarrow> uuid \<Rightarrow> student_profile" where
  "demo_profile userId fullName dob gender0 phone address contact notes draws rank now i =
     \<lparr> stu_id = i, stu_userId = userId, stu_fullName = fullName, stu_dob = dob, stu_gender = gender0, stu_phone = Some phone,
       stu_address = address, stu_emergencyContactName = map_option fst contact, stu_emergencyContactPhone = map_option snd contact,
       stu_medicalNotes = notes, stu_currentBeltRankId = rank, stu_inviteCode = generateInviteCode draws, stu_joinedAt = now,
       stu_status = SActive, stu_deletedAt = None \<rparr>"

definition demo_link :: "uuid \<Rightarrow> uuid \<Rightarrow> uuid \<Rightarrow> instant \<Rightarrow> uuid \<Rightarrow> parent_link" where
  "demo_link parentId admin studentId now i = (new_link parentId studentId now i)\<lparr>lnk_verifiedByUserId := Some admin\<rparr>"

definition demo_slot :: "instant \<Rightarrow> int \<Rightarrow> int \<times> int \<Rightarrow> int \<times> int \<Rightarrow> uuid \<Rightarrow> uuid \<Rightarrow> class_schedule" where
  "demo_slot now weekday from to cid i = \<lparr> sch_id = i, sch_classId = cid, sch_weekday = weekday, sch_startTime = timeOnly (fst from) (snd from),
     sch_endTime = timeOnly (fst to) (snd to), sch_effectiveFrom = daysFromNow (-30) now, sch_effectiveTo = None \<rparr>"

text \<open>A class with its nested schedules is one statement.\<close>

definition demo_class :: "string \<Rightarrow> uuid \<Rightarrow> int \<Rightarrow> (uuid \<Rightarrow> uuid \<Rightarrow> class_schedule) list \<Rightarrow> app \<Rightarrow> app \<times> class_row res" where
  "demo_class name instructorId capacity slots0 = transaction (
     bindE (create_in class_uqs classes put_classes (new_class name instructorId (Some ''San nha van hoa'') (Some capacity))) (\<lambda>c.
     bindE (create_many_in schedule_uqs schedules put_schedules (map (\<lambda>f. f (cls_id c)) slots0)) (\<lambda>_. returnE c)))"

definition demo_mark :: "attendance_session \<Rightarrow> student_profile \<Rightarrow> attendance_status \<Rightarrow> uuid \<Rightarrow> uuid \<Rightarrow> attendance_record" where
  "demo_mark x p st by i = \<lparr> atr_id = i, atr_sessionId = ats_id x, atr_studentId = stu_id p, atr_status = st, atr_note = None, atr_recordedBy = by \<rparr>"

definition demo_invoice :: "string \<Rightarrow> uuid \<Rightarrow> invoice_status \<Rightarrow> uuid \<Rightarrow> instant \<Rightarrow> uuid \<Rightarrow> invoice" where
  "demo_invoice suffix studentId st admin now i =
     \<lparr> inv_id = i, inv_invoiceNo = ''INV-'' @ show_int (getUTCFullYear now) @ suffix, inv_studentId = studentId, inv_type = TUITION,
       inv_refExamRegistrationId = None, inv_periodMonth = Some (int (getUTCMonth now + 1)), inv_periodYear = Some (getUTCFullYear now),
       inv_subtotal = 400000, inv_discount = 0, inv_total = 400000, inv_status = st, inv_dueDate = daysFromNow 10 now,
       inv_issuedAt = now, inv_note = None, inv_createdBy = admin \<rparr>"

definition demo_payment :: "uuid \<Rightarrow> uuid \<Rightarrow> instant \<Rightarrow> uuid \<Rightarrow> payment" where
  "demo_payment invoiceId admin now i =
     \<lparr> pay_id = i, pay_invoiceId = invoiceId, pay_orderRef = ''VVDEMO001'', pay_gateway = CASH, pay_gatewayTxnId = None, pay_amount = 400000,
       pay_status = SUCCESS, pay_paidAt = Some now, pay_expiresAt = None, pay_recordedBy = Some admin, pay_note = Some ''Demo cash payment'',
       pay_createdAt = now \<rparr>"

definition demo_exam :: "int \<Rightarrow> instant \<Rightarrow> uuid \<Rightarrow> belt_exam" where
  "demo_exam rank now i =
     \<lparr> exm_id = i, exm_code = ''EXAM-'' @ show_int (getUTCFullYear now) @ ''-D1'',
       exm_title = ''Ky thi thang dai dot '' @ show_nat (getUTCMonth now + 1) @ ''/'' @ show_int (getUTCFullYear now),
       exm_examDate = daysFromNow 21 now, exm_location = Some ''San nha van hoa'', exm_targetRankId = rank, exm_feeAmount = 300000,
       exm_capacity = Some 20, exm_registrationDeadline = daysFromNow 14 now, exm_status = EOpen \<rparr>"

definition demo_registration :: "uuid \<Rightarrow> uuid \<Rightarrow> int option \<Rightarrow> int \<Rightarrow> instant \<Rightarrow> uuid \<Rightarrow> exam_registration" where
  "demo_registration examId studentId current target now i =
     \<lparr> reg_id = i, reg_examId = examId, reg_studentId = studentId, reg_currentRankId = current, reg_targetRankId = target,
       reg_status = PENDING_PAYMENT, reg_resultNote = None, reg_examinerId = None, reg_updatedAt = now \<rparr>"

definition demo_evaluation :: "uuid \<Rightarrow> uuid \<Rightarrow> uuid \<Rightarrow> instant \<Rightarrow> uuid \<Rightarrow> student_evaluation" where
  "demo_evaluation studentId author cid now i =
     \<lparr> ev_id = i, ev_studentId = studentId, ev_authorUserId = author, ev_classId = Some cid,
       ev_periodMonth = Some (int (getUTCMonth now + 1)), ev_periodYear = Some (getUTCFullYear now), ev_rating = 8,
       ev_comment = Some ''Tien bo ro rat ve ky thuat don thang; can ren them the luc.'', ev_createdAt = now \<rparr>"

definition demo_leave :: "uuid \<Rightarrow> uuid \<Rightarrow> uuid \<Rightarrow> instant \<Rightarrow> uuid \<Rightarrow> leave_request" where
  "demo_leave studentId cid parentId now i =
     \<lparr> lv_id = i, lv_studentId = studentId, lv_classId = cid, lv_requestedByUserId = Some parentId, lv_sessionDate = daysFromNow 5 now,
       lv_reason = ''Ho dem di kham bac si'', lv_status = LvPending, lv_reviewedByUserId = None, lv_reviewedAt = None, lv_reviewNote = None,
       lv_createdAt = now \<rparr>"

definition demo_notice :: "string \<Rightarrow> string \<Rightarrow> announcement_audience \<Rightarrow> uuid option \<Rightarrow> uuid \<Rightarrow> instant \<Rightarrow> uuid \<Rightarrow> announcement" where
  "demo_notice title body audience cid by now i =
     \<lparr> ann_id = i, ann_title = title, ann_body = body, ann_audience = audience, ann_classId = cid, ann_publishedAt = now, ann_createdBy = by \<rparr>"

definition demo_discount :: "instant \<Rightarrow> uuid \<Rightarrow> discount_code" where
  "demo_discount now i =
     \<lparr> dc_id = i, dc_code = ''CHAOBAN'', dc_description = Some ''Giam 10% cho thang dau'', dc_percentOff = Some 10, dc_amountOff = None,
       dc_validFrom = daysFromNow (-1) now, dc_validUntil = daysFromNow 60 now, dc_isActive = True, dc_createdAt = now \<rparr>"

definition demo_account :: json where
  "demo_account = JObj [(''owner_type'', JStr ''BUSINESS''), (''bin'', JStr ''970422''), (''number'', JStr ''9012345678901''),
     (''name'', JStr ''VOVINAM DEMO CLUB'')]"

text \<open>The block from the marker to the end, in the order of the script: accounts, profiles, classes, lessons, settings and money, the rest.\<close>

definition MARKER :: string where "MARKER = ''demo-instructor@example.com''"

definition demo_accounts :: "string \<Rightarrow> instant \<Rightarrow> app \<Rightarrow> app \<times> (user \<times> user \<times> user \<times> user) res" where
  "demo_accounts hash now =
     bindE (ensure_user ''demo-admin@example.com'' hash ADMIN now) (\<lambda>admin.
     bindE (demo_user MARKER hash INSTRUCTOR now) (\<lambda>instructor.
     bindE (demo_user ''demo-parent@example.com'' hash PARENT now) (\<lambda>parent.
     bindE (demo_user ''demo-student@example.com'' hash STUDENT now) (\<lambda>student.
     returnE (admin, instructor, parent, student)))))"

definition demo_profiles ::
  "user \<times> user \<times> user \<times> user \<Rightarrow> nat list \<Rightarrow> nat list \<Rightarrow> nat list \<Rightarrow> instant \<Rightarrow> app \<Rightarrow>
     app \<times> (student_profile \<times> student_profile \<times> student_profile) res" where
  "demo_profiles people d1 d2 d3 now s = (case people of (admin, instructor, parent, student) \<Rightarrow>
     bindE (create_in student_uqs students put_students (demo_profile (Some (usr_id student)) ''Le Van Tuan'' (date_UTC 2006 2 12) MALE
        ''0901110001'' (Some ''12 Nguyen Trai, Q1'') None (Some ''None'') d1 (rank_of_code ''LAM_2'' s) now)) (\<lambda>adult.
     bindE (create_in student_uqs students put_students (demo_profile None ''Nguyen Thi Bong'' (date_UTC 2014 6 20) FEMALE
        ''0902220002'' None (Some (''Nguyen Van Ba'', ''0902220003'')) (Some ''Allergic to peanuts'') d2 (rank_of_code ''LAM_1'' s) now)) (\<lambda>minorB.
     bindE (create_in student_uqs students put_students (demo_profile None ''Tran Van Cuong'' (date_UTC 2012 10 5) MALE
        ''0903330003'' None (Some (''Tran Thi D'', ''0903330004'')) None d3 None now)) (\<lambda>minorC.
     bindE (create_many_in link_uqs parentLinks put_links [demo_link (usr_id parent) (usr_id admin) (stu_id minorB) now,
        demo_link (usr_id parent) (usr_id admin) (stu_id minorC) now]) (\<lambda>_.
     returnE (adult, minorB, minorC))))) s)"

definition demo_classes ::
  "user \<Rightarrow> student_profile \<times> student_profile \<times> student_profile \<Rightarrow> instant \<Rightarrow> app \<Rightarrow> app \<times> (class_row \<times> class_row) res" where
  "demo_classes instructor kids now = (case kids of (adult, minorB, minorC) \<Rightarrow>
     bindE (demo_class ''Lop Co ban (Co ban - nang cao 1)'' (usr_id instructor) 30
        (map (\<lambda>d. demo_slot now d (18, 0) (19, 30)) [1, 3, 5])) (\<lambda>basic.
     bindE (demo_class ''Lop Nang cao'' (usr_id instructor) 20 (map (\<lambda>d. demo_slot now d (19, 0) (20, 30)) [2, 4])) (\<lambda>advanced.
     bindE (create_many_in enrollment_uqs enrollments put_enrollments [new_enrollment (stu_id adult) (cls_id basic) now,
        new_enrollment (stu_id minorB) (cls_id basic) now, new_enrollment (stu_id minorC) (cls_id advanced) now]) (\<lambda>_.
     returnE (basic, advanced)))))"

definition demo_lessons :: "user \<Rightarrow> student_profile \<Rightarrow> student_profile \<Rightarrow> class_row \<Rightarrow> instant \<Rightarrow> app \<Rightarrow> app \<times> unit res" where
  "demo_lessons instructor adult minorB basic now =
     bindE (create_in lesson_uqs attendanceSessions put_asessions
        (new_session (cls_id basic) (daysFromNow (-7) now) (usr_id instructor) (Some ''Don son, tan the don thang''))) (\<lambda>s1.
     bindE (create_in lesson_uqs attendanceSessions put_asessions
        (new_session (cls_id basic) (daysFromNow (-3) now) (usr_id instructor) (Some ''Dam thang, quet chan''))) (\<lambda>s2.
     create_many_in record_uqs attendanceRecords put_records
        [demo_mark s1 adult PRESENT (usr_id instructor), demo_mark s1 minorB PRESENT (usr_id instructor),
         demo_mark s2 adult LATE (usr_id instructor), demo_mark s2 minorB ABSENT (usr_id instructor)]))"

definition write_setting :: "string \<Rightarrow> json \<Rightarrow> uuid \<Rightarrow> app \<Rightarrow> app \<times> unit res" where
  "write_setting k v by s = (upsert_setting k v by s, Inr ())"

definition demo_money :: "user \<Rightarrow> student_profile \<Rightarrow> student_profile \<Rightarrow> class_row \<Rightarrow> class_row \<Rightarrow> instant \<Rightarrow> app \<Rightarrow> app \<times> unit res" where
  "demo_money admin adult minorB basic advanced now =
     bindE (write_setting ''tuition_rates'' (JObj [(cls_id basic, JNum 400000), (cls_id advanced, JNum 500000)]) (usr_id admin)) (\<lambda>_.
     bindE (write_setting ''bank_account'' demo_account (usr_id admin)) (\<lambda>_.
     bindE (create_many_in invoice_uqs invoices put_invoices [demo_invoice ''-D001'' (stu_id adult) UNPAID (usr_id admin) now,
        demo_invoice ''-D002'' (stu_id minorB) PAID (usr_id admin) now]) (\<lambda>_ s.
     case List.find (\<lambda>i. inv_invoiceNo i = ''INV-'' @ show_int (getUTCFullYear now) @ ''-D002'') (invoices s) of
       None \<Rightarrow> (s, Inl P2025)
     | Some paid \<Rightarrow> bindE (create_in payment_uqs payments put_payments (demo_payment (inv_id paid) (usr_id admin) now)) (\<lambda>_. returnE ()) s)))"

definition demo_rest ::
  "user \<times> user \<times> user \<times> user \<Rightarrow> student_profile \<Rightarrow> student_profile \<Rightarrow> class_row \<Rightarrow> int option \<Rightarrow> int \<Rightarrow> instant \<Rightarrow> app \<Rightarrow> app \<times> unit res" where
  "demo_rest people adult minorB basic lam2 target now = (case people of (admin, instructor, parent, student) \<Rightarrow>
     bindE (create_in exam_uqs beltExams put_exams (demo_exam target now)) (\<lambda>exam.
     bindE (create_in reg_uqs examRegistrations put_regs (demo_registration (exm_id exam) (stu_id adult) lam2 target now)) (\<lambda>_.
     bindE (create_in evaluation_uqs evaluations put_evaluations
        (demo_evaluation (stu_id adult) (usr_id instructor) (cls_id basic) now)) (\<lambda>_.
     bindE (create_in leave_uqs leaveRequests put_leaves (demo_leave (stu_id minorB) (cls_id basic) (usr_id parent) now)) (\<lambda>_.
     bindE (create_many_in announcement_uqs announcements put_announcements
        [demo_notice ''Thong bao: lich thi thang dai dot nay''
           ''Ky thi se dien ra vao chu nhat gan nhat tai san nha van hoa. Vui long co mat dung gio.'' AudAll None (usr_id admin) now,
         demo_notice ''Lop co ban: doi dong phuc tap luyen'' ''Buoi sau lop co ban tap luyen voi dong phuc. Don quen di hoc.'' AudClass
           (Some (cls_id basic)) (usr_id instructor) now]) (\<lambda>_.
     bindE (create_in discount_uqs discountCodes put_discounts (demo_discount now)) (\<lambda>_. returnE ())))))))"

definition demo_dataset :: "user \<times> user \<times> user \<times> user \<Rightarrow> nat list \<Rightarrow> nat list \<Rightarrow> nat list \<Rightarrow> instant \<Rightarrow> app \<Rightarrow> app \<times> unit res" where
  "demo_dataset people d1 d2 d3 now s =
     (let lam2 = rank_of_code ''LAM_2'' s; target = case_option 1 id (rank_of_code ''VANG_1'' s) in
      bindE (demo_profiles people d1 d2 d3 now) (\<lambda>(adult, minorB, minorC).
      bindE (demo_classes (fst (snd people)) (adult, minorB, minorC) now) (\<lambda>(basic, advanced).
      bindE (demo_lessons (fst (snd people)) adult minorB basic now) (\<lambda>_.
      bindE (demo_money (fst people) adult minorB basic advanced now) (\<lambda>_.
      demo_rest people adult minorB basic lam2 target now)))) s)"

definition seedDemoDataset :: "(string \<Rightarrow> string) \<Rightarrow> nat list \<Rightarrow> nat list \<Rightarrow> nat list \<Rightarrow> instant \<Rightarrow> app \<Rightarrow> app \<times> unit res" where
  "seedDemoDataset hash d1 d2 d3 now s =
     (if find_email MARKER (users s) \<noteq> None then (s, Inr ())
      else bindE (demo_accounts (hash ''Demo#2026'') now) (\<lambda>people. demo_dataset people d1 d2 d3 now) s)"

definition seed_main :: "(string \<Rightarrow> string) \<Rightarrow> int list \<Rightarrow> seed_env \<Rightarrow> nat list \<Rightarrow> nat list \<Rightarrow> nat list \<Rightarrow> instant \<Rightarrow> app \<Rightarrow> app \<times> unit res" where
  "seed_main hash rids env d1 d2 d3 now =
     bindE (seed_base hash rids env now) (\<lambda>_ s.
       if sen_demo env \<noteq> Some ''true'' then (s, Inr ()) else seedDemoDataset hash d1 d2 d3 now s)"

section \<open>The bootstrap only adds\<close>

definition only_adds :: "app \<Rightarrow> app \<Rightarrow> bool" where
  "only_adds s s' \<longleftrightarrow> (\<exists>us st rs n. s' = s\<lparr>users := users s @ us, appSettings := appSettings s @ st, beltRanks := beltRanks s @ rs, uuid_ctr := n\<rparr>)"

lemma only_addsI: "s' = s\<lparr>users := users s @ us, appSettings := appSettings s @ st, beltRanks := beltRanks s @ rs, uuid_ctr := n\<rparr> \<Longrightarrow> only_adds s s'"
  unfolding only_adds_def by blast

lemma only_adds_refl: "only_adds s s"
  by (rule only_addsI [where us = "[]" and st = "[]" and rs = "[]" and n = "uuid_ctr s"]) simp

lemma only_adds_trans: "only_adds s t \<Longrightarrow> only_adds t u \<Longrightarrow> only_adds s u"
  unfolding only_adds_def by (elim exE) (rule only_addsI [unfolded only_adds_def], simp)

lemma only_adds_bind:
  "(\<And>s. only_adds s (fst (m s))) \<Longrightarrow> (\<And>a s. only_adds s (fst (f a s))) \<Longrightarrow> only_adds s (fst (bindE m f s))"
  using only_adds_trans by (cases "m s"; cases "snd (m s)") (fastforce simp: bindE_def)+

lemma ensure_rank_adds: "only_adds s (fst (ensure_rank r rid s))"
proof (cases "insert_row rank_uqs (seed_row r rid) (beltRanks s)")
  case (Inl e)
  then show ?thesis by (simp add: ensure_rank_def only_adds_refl split: option.splits)
next
  case (Inr t)
  have "only_adds s (s\<lparr>beltRanks := t\<rparr>)"
    by (rule only_addsI [where us = "[]" and st = "[]" and rs = "[seed_row r rid]" and n = "uuid_ctr s"])
       (simp add: insert_row_Inr [OF Inr])
  then show ?thesis using Inr by (simp add: ensure_rank_def only_adds_refl split: option.splits)
qed

lemma seed_ranks_adds: "only_adds s (fst (seed_ranks rs s))"
proof (induction rs arbitrary: s)
  case (Cons r rs)
  obtain x rid where r: "r = (x, rid)" by fastforce
  show ?case unfolding r seed_ranks.simps by (rule only_adds_bind) (rule ensure_rank_adds, rule Cons.IH)
qed (simp add: only_adds_refl)

lemma ensure_setting_adds: "only_adds s (fst (ensure_setting k v s))"
proof (cases "insert_row setting_uqs \<lparr> set_key = k, set_value = v, set_updatedBy = None \<rparr> (appSettings s)")
  case (Inl e)
  then show ?thesis by (simp add: ensure_setting_def only_adds_refl split: option.splits)
next
  case (Inr t)
  have "only_adds s (s\<lparr>appSettings := t\<rparr>)"
    by (rule only_addsI [where us = "[]" and rs = "[]" and n = "uuid_ctr s"]) (simp add: insert_row_Inr [OF Inr])
  then show ?thesis using Inr by (simp add: ensure_setting_def only_adds_refl split: option.splits)
qed

lemma ensure_user_adds: "only_adds s (fst (ensure_user email h role now s))"
proof (cases "List.find (\<lambda>u. usr_email u = email) (users s)")
  case None
  let ?mk = "new_user email h role (Some now) now"
  have "only_adds s (fst (create_in user_uqs users put_users ?mk s))"
  proof (cases "insert_row user_uqs (?mk (uuid_src s (uuid_ctr s))) (users s)")
    case (Inl e)
    then show ?thesis
      by (auto simp: create_in_def fresh_uuid_def intro!: only_addsI [where us = "[]" and st = "[]" and rs = "[]" and n = "Suc (uuid_ctr s)"])
  next
    case (Inr t)
    have "only_adds s (s\<lparr>uuid_ctr := Suc (uuid_ctr s), users := t\<rparr>)"
      by (rule only_addsI [where us = "[?mk (uuid_src s (uuid_ctr s))]" and st = "[]" and rs = "[]" and n = "Suc (uuid_ctr s)"])
         (simp add: insert_row_Inr [OF Inr])
    then show ?thesis using Inr by (simp add: create_in_def fresh_uuid_def)
  qed
  then show ?thesis using None by (simp add: ensure_user_def ensure_in_def)
qed (simp add: ensure_user_def ensure_in_def only_adds_refl)

lemma seed_admin_adds: "only_adds s (fst (seed_admin h env now s))"
  unfolding seed_admin_def
  by (auto split: option.splits sum.splits simp: only_adds_refl returnE_def intro!: only_adds_bind ensure_user_adds)

lemma seed_base_adds: "only_adds s (fst (seed_base h rids env now s))"
  unfolding seed_base_def
  by (intro only_adds_bind seed_ranks_adds ensure_setting_adds seed_admin_adds)

section \<open>What a complete run leaves\<close>

definition has_code :: "app \<Rightarrow> string \<Rightarrow> bool" where
  "has_code s c \<longleftrightarrow> (\<exists>r \<in> set (beltRanks s). rank_code r = c)"

definition has_setting :: "app \<Rightarrow> string \<Rightarrow> bool" where
  "has_setting s k \<longleftrightarrow> (\<exists>r \<in> set (appSettings s). set_key r = k)"

definition has_email :: "app \<Rightarrow> string \<Rightarrow> bool" where
  "has_email s e \<longleftrightarrow> (\<exists>u \<in> set (users s). usr_email u = e)"

text \<open>The administrator is present where the environment names one.\<close>

definition has_admin :: "seed_env \<Rightarrow> app \<Rightarrow> bool" where
  "has_admin env s = (case (sen_adminEmail env, sen_adminPassword env) of
       (Some email, Some password) \<Rightarrow> email = [] \<or> password = [] \<or> (assertSeedPasswordPolicy password email = Inr () \<and> has_email s email)
     | _ \<Rightarrow> True)"

definition seeded :: "seed_env \<Rightarrow> app \<Rightarrow> bool" where
  "seeded env s \<longleftrightarrow> (\<forall>r \<in> set buildBeltRanks. has_code s (sdr_code r)) \<and> has_setting s ''tuition_rates'' \<and> has_setting s ''bank_account'' \<and>
     has_admin env s"

text \<open>What later steps keep of it.\<close>

definition retains :: "app \<Rightarrow> app \<Rightarrow> bool" where
  "retains s s' \<longleftrightarrow> beltRanks s' = beltRanks s \<and> set_key ` set (appSettings s) \<subseteq> set_key ` set (appSettings s') \<and>
     set (users s) \<subseteq> set (users s')"

lemma retains_has:
  assumes "retains s s'"
  shows "has_code s' c = has_code s c" "has_setting s k \<Longrightarrow> has_setting s' k" "has_email s e \<Longrightarrow> has_email s' e"
    "has_admin env s \<Longrightarrow> has_admin env s'"
proof -
  show "has_code s' c = has_code s c" using assms by (simp add: retains_def has_code_def)
  have k: "has_setting t k \<longleftrightarrow> k \<in> set_key ` set (appSettings t)" for t k by (auto simp: has_setting_def)
  show "has_setting s k \<Longrightarrow> has_setting s' k" using assms unfolding k retains_def by blast
  show e: "has_email s e \<Longrightarrow> has_email s' e" for e using assms unfolding has_email_def retains_def by blast
  show "has_admin env s \<Longrightarrow> has_admin env s'" unfolding has_admin_def using e by (simp split: option.splits) blast
qed

lemma seeded_retains: "retains s s' \<Longrightarrow> seeded env s \<Longrightarrow> seeded env s'"
  unfolding seeded_def using retains_has [of s s'] by simp

lemma only_adds_has: "only_adds s s' \<Longrightarrow> (has_code s c \<longrightarrow> has_code s' c) \<and> (has_setting s k \<longrightarrow> has_setting s' k)"
  by (auto simp: only_adds_def has_code_def has_setting_def)

lemma find_SomeD: "List.find P xs = Some x \<Longrightarrow> x \<in> set xs \<and> P x"
  by (induction xs) (auto split: if_splits)

lemma find_iff: "List.find P xs = None \<longleftrightarrow> \<not> (\<exists>x \<in> set xs. P x)"
  by (auto simp: find_None_iff)

lemma ensure_rank_present: "has_code s (sdr_code r) \<Longrightarrow> ensure_rank r rid s = (s, Inr ())"
  by (auto simp: ensure_rank_def has_code_def find_iff split: option.splits)

lemma ensure_rank_ok: "ensure_rank r rid s = (s', Inr u) \<Longrightarrow> has_code s' (sdr_code r)"
  by (auto simp: ensure_rank_def has_code_def seed_row_def dest!: insert_row_Inr split: option.splits sum.splits dest: find_SomeD)

lemma seed_ranks_ok: "seed_ranks rs s = (s', Inr u) \<Longrightarrow> (r, rid) \<in> set rs \<Longrightarrow> has_code s' (sdr_code r)"
proof (induction rs arbitrary: s)
  case (Cons x rs)
  obtain y i where x: "x = (y, i)" by fastforce
  obtain s1 where s1: "ensure_rank y i s = (s1, Inr ())" "seed_ranks rs s1 = (s', Inr u)"
    using Cons.prems(1) unfolding x seed_ranks.simps by (elim bindE_Inr) auto
  have "only_adds s1 s'" using seed_ranks_adds [of s1 rs] s1(2) by simp
  then show ?case using Cons.IH [OF s1(2)] Cons.prems(2) ensure_rank_ok [OF s1(1)] only_adds_has x by fastforce
qed simp

lemma seed_ranks_present: "(\<forall>(r, rid) \<in> set rs. has_code s (sdr_code r)) \<Longrightarrow> seed_ranks rs s = (s, Inr ())"
  by (induction rs) (auto simp: ensure_rank_present)

lemma ensure_setting_present: "has_setting s k \<Longrightarrow> ensure_setting k v s = (s, Inr ())"
  by (auto simp: ensure_setting_def has_setting_def find_iff split: option.splits)

lemma ensure_setting_ok: "ensure_setting k v s = (s', Inr u) \<Longrightarrow> has_setting s' k"
  by (auto simp: ensure_setting_def has_setting_def dest!: insert_row_Inr split: option.splits sum.splits dest: find_SomeD)

lemma ensure_user_present: "has_email s email \<Longrightarrow> \<exists>u. ensure_user email h role now s = (s, Inr u)"
  by (auto simp: ensure_user_def ensure_in_def has_email_def find_iff split: option.splits)

lemma ensure_user_ok:
  assumes "ensure_user email h role now s = (s', Inr u)"
  shows "has_email s' email"
proof (cases "List.find (\<lambda>u. usr_email u = email) (users s)")
  case None
  then have "create_in user_uqs users put_users (new_user email h role (Some now) now) s = (s', Inr u)"
    using assms by (simp add: ensure_user_def ensure_in_def)
  then show ?thesis using user_rows.create_Inr(1,2) by (fastforce simp: has_email_def new_user_def)
next
  case (Some x)
  then show ?thesis using assms by (auto simp: ensure_user_def ensure_in_def has_email_def dest: find_SomeD)
qed

lemma seed_admin_ok: "seed_admin h env now s = (s', Inr u) \<Longrightarrow> has_admin env s'"
  by (auto simp: seed_admin_def has_admin_def returnE_def split: option.splits sum.splits if_splits elim!: bindE_Inr dest: ensure_user_ok)

lemma seed_admin_present: "has_admin env s \<Longrightarrow> seed_admin h env now s = (s, Inr ())"
  using ensure_user_present [of s "the (sen_adminEmail env)" "h (the (sen_adminPassword env))" ADMIN now]
  by (auto simp: seed_admin_def has_admin_def returnE_def split: option.splits sum.splits)

section \<open>The demonstration data keep the bootstrap\<close>

context db_relation
begin

lemma keeps_create:
  assumes "table get put" and "\<And>s x. R s (put (get s @ [x]) s)"
  shows "keeps (create_in uqs get put mk)"
proof (rule keepsI)
  fix s
  obtain s' r where c: "create_in uqs get put mk s = (s', r)" by fastforce
  show "R s (fst (create_in uqs get put mk s))"
  proof (rule table.create_cases [OF assms(1) c])
    fix e assume "same_db s' s"
    then show ?thesis using c same by simp
  next
    fix i
    let ?t = "s\<lparr>uuid_ctr := Suc (uuid_ctr s)\<rparr>"
    assume "s' = put (get s @ [mk i]) ?t"
    moreover have "get ?t = get s" by (rule table.get_ctr [OF assms(1)])
    ultimately have "R ?t s'" using assms(2) [of ?t "mk i"] by simp
    then show ?thesis using c trans [OF same, of ?t s s'] by simp
  qed
qed

lemma draw_rows_db: "draw_rows mks s = (rows, s') \<Longrightarrow> same_db s' s"
proof (induction mks arbitrary: s rows)
  case (Cons mk mks)
  let ?t = "s\<lparr>uuid_ctr := Suc (uuid_ctr s)\<rparr>"
  obtain rs where "draw_rows mks ?t = (rs, s')" using Cons.prems by (auto simp: fresh_uuid_def split: prod.splits)
  from Cons.IH [OF this] show ?case by (simp add: same_db_def db.truncate_def)
qed simp

lemma keeps_many:
  assumes "table get put" and "\<And>s xs. R s (put (get s @ xs) s)"
  shows "keeps (create_many_in uqs get put mks)"
proof (rule keepsI)
  fix s
  obtain rows t where d: "draw_rows mks s = (rows, t)" by fastforce
  have t: "R s t" using same draw_rows_db [OF d] .
  have "R t (put u t)" if "check_unique uqs (get t @ rows) = Inr u" for u
    using assms(2) [of t rows] check_unique_Inr [OF that] by simp
  then show "R s (fst (create_many_in uqs get put mks s))" using t trans
    by (auto simp: create_many_in_def d split: sum.splits)
qed

end

interpretation kept: db_relation retains
  by unfold_locales (simp add: retains_def same_db_tables, unfold retains_def, elim conjE, intro conjI, simp, (erule (1) subset_trans)+)

lemmas kept_rules = kept.keeps_bindE kept.keeps_transaction kept.keeps_simple

lemma kept_tables:
  "kept.keeps (create_in uqs1 students put_students mk1)" "kept.keeps (create_many_in uqs2 parentLinks put_links mk2)"
  "kept.keeps (create_in uqs3 classes put_classes mk3)" "kept.keeps (create_many_in uqs4 schedules put_schedules mk4)"
  "kept.keeps (create_many_in uqs5 enrollments put_enrollments mk5)" "kept.keeps (create_in uqs6 attendanceSessions put_asessions mk6)"
  "kept.keeps (create_many_in uqs7 attendanceRecords put_records mk7)" "kept.keeps (create_many_in uqs8 invoices put_invoices mk8)"
  "kept.keeps (create_in uqs9 payments put_payments mk9)" "kept.keeps (create_in uqs10 beltExams put_exams mk10)"
  "kept.keeps (create_in uqs11 examRegistrations put_regs mk11)" "kept.keeps (create_in uqs12 evaluations put_evaluations mk12)"
  "kept.keeps (create_in uqs13 leaveRequests put_leaves mk13)" "kept.keeps (create_many_in uqs14 announcements put_announcements mk14)"
  "kept.keeps (create_in uqs15 discountCodes put_discounts mk15)" "kept.keeps (create_in uqs16 users put_users mk16)"
  subgoal by (rule kept.keeps_create [OF profiles.table_axioms]) (simp add: retains_def)
  subgoal by (rule kept.keeps_many [OF links.table_axioms]) (simp add: retains_def)
  subgoal by (rule kept.keeps_create [OF class_rows.table_axioms]) (simp add: retains_def)
  subgoal by (rule kept.keeps_many [OF slots.table_axioms]) (simp add: retains_def)
  subgoal by (rule kept.keeps_many [OF enrolled.table_axioms]) (simp add: retains_def)
  subgoal by (rule kept.keeps_create [OF lessons.table_axioms]) (simp add: retains_def)
  subgoal by (rule kept.keeps_many [OF marks.table_axioms]) (simp add: retains_def)
  subgoal by (rule kept.keeps_many [OF invoice_rows.table_axioms]) (simp add: retains_def)
  subgoal by (rule kept.keeps_create [OF payment_rows.table_axioms]) (simp add: retains_def)
  subgoal by (rule kept.keeps_create [OF exam_rows.table_axioms]) (simp add: retains_def)
  subgoal by (rule kept.keeps_create [OF regs.table_axioms]) (simp add: retains_def)
  subgoal by (rule kept.keeps_create [OF evaluation_rows.table_axioms]) (simp add: retains_def)
  subgoal by (rule kept.keeps_create [OF leave_rows.table_axioms]) (simp add: retains_def)
  subgoal by (rule kept.keeps_many [OF notices.table_axioms]) (simp add: retains_def)
  subgoal by (rule kept.keeps_create [OF discount_rows.table_axioms]) (simp add: retains_def)
  subgoal by (rule kept.keeps_create [OF user_rows.table_axioms]) (auto simp: retains_def)
  done

lemma kept_ensure_user: "kept.keeps (ensure_user email h role now)"
  using kept_tables(16) by (auto simp: kept.keeps_def ensure_user_def ensure_in_def split: option.splits)

lemma kept_write_setting: "kept.keeps (write_setting k v by)"
proof (rule kept.keepsI)
  fix s
  have "set_key ` set (update_rows (\<lambda>r. set_key r = k) (\<lambda>r. r\<lparr>set_value := v, set_updatedBy := Some by\<rparr>) t) = set_key ` set t" for t
    by (induction t) auto
  then show "retains s (fst (write_setting k v by s))" by (auto simp: write_setting_def upsert_setting_def retains_def)
qed

lemma kept_demo_accounts: "kept.keeps (demo_accounts h now)"
  unfolding demo_accounts_def demo_user_def by (intro kept_rules kept_tables kept_ensure_user)

lemma kept_demo_profiles: "kept.keeps (demo_profiles people d1 d2 d3 now)"
proof (rule kept.keepsI)
  fix s
  have k: "kept.keeps (bindE (create_in u1 students put_students m1) (\<lambda>adult. bindE (create_in u2 students put_students m2) (\<lambda>b.
      bindE (create_in u3 students put_students m3) (\<lambda>c. bindE (create_many_in u4 parentLinks put_links (m4 b c)) (\<lambda>_. returnE (adult, b, c))))))"
    for u1 u2 u3 u4 m1 m2 m3 m4 by (intro kept_rules kept_tables)
  show "retains s (fst (demo_profiles people d1 d2 d3 now s))"
    unfolding demo_profiles_def by (cases people) (simp add: kept.keepsD [OF k])
qed

lemma kept_demo_classes: "kept.keeps (demo_classes i kids now)"
  unfolding demo_classes_def demo_class_def by (cases kids) (simp, intro kept_rules kept_tables)

lemma kept_demo_lessons: "kept.keeps (demo_lessons i a b c now)"
  unfolding demo_lessons_def by (intro kept_rules kept_tables)

lemma kept_demo_money: "kept.keeps (demo_money admin a b c d now)"
proof -
  have "kept.keeps (\<lambda>s. case List.find P (invoices s) of None \<Rightarrow> (s, Inl P2025)
      | Some paid \<Rightarrow> bindE (create_in payment_uqs payments put_payments (m paid)) (\<lambda>_. returnE ()) s)" for P m
    by (rule kept.keepsI) (auto split: option.splits intro!: kept.keepsD kept_rules kept_tables)
  then show ?thesis unfolding demo_money_def by (intro kept.keeps_bindE kept_write_setting kept_tables)
qed

lemma kept_demo_rest: "kept.keeps (demo_rest people a b c lam2 target now)"
  unfolding demo_rest_def by (cases people) (simp, intro kept_rules kept_tables)

lemma kept_dataset: "kept.keeps (demo_dataset people d1 d2 d3 now)"
proof -
  have k: "kept.keeps (bindE (demo_profiles people d1 d2 d3 now) (\<lambda>(adult, minorB, minorC).
        bindE (demo_classes (fst (snd people)) (adult, minorB, minorC) now) (\<lambda>(basic, advanced).
        bindE (demo_lessons (fst (snd people)) adult minorB basic now) (\<lambda>_.
        bindE (demo_money (fst people) adult minorB basic advanced now) (\<lambda>_.
        demo_rest people adult minorB basic lam2 target now)))))" for lam2 target
    by (auto intro!: kept.keeps_bindE kept_demo_profiles kept_demo_classes kept_demo_lessons kept_demo_money kept_demo_rest
        split: prod.split)
  show ?thesis by (rule kept.keepsI) (simp add: demo_dataset_def Let_def kept.keepsD [OF k])
qed

lemma kept_demo: "kept.keeps (seedDemoDataset h d1 d2 d3 now)"
proof (rule kept.keepsI)
  fix s
  have "kept.keeps (bindE (demo_accounts (h ''Demo#2026'') now) (\<lambda>people. demo_dataset people d1 d2 d3 now))"
    by (intro kept.keeps_bindE kept_demo_accounts kept_dataset)
  then show "retains s (fst (seedDemoDataset h d1 d2 d3 now s))" by (simp add: seedDemoDataset_def kept.keepsD)
qed

text \<open>What a step establishes and the following steps keep holds at the end.\<close>

lemma bind_first:
  assumes "bindE m f s = (s', Inr v)" and "\<And>t a. m s = (t, Inr a) \<Longrightarrow> has_email t e" and "\<And>a. kept.keeps (f a)"
  shows "has_email s' e"
proof -
  obtain t a where t: "m s = (t, Inr a)" "f a t = (s', Inr v)" using assms(1) by (rule bindE_Inr)
  then have "retains t s'" using kept.keepsD [OF assms(3), of t a] by simp
  then show ?thesis using retains_has(3) assms(2) [OF t(1)] by blast
qed

lemma bind_second:
  assumes "bindE m f s = (s', Inr v)" and "\<And>t a. f a t = (s', Inr v) \<Longrightarrow> Q"
  shows Q
  using assms by (auto elim: bindE_Inr)

section \<open>Running it again\<close>

lemma seed_base_seeded:
  assumes "seed_base h rids env now s = (s', Inr u)" and "length rids = length buildBeltRanks"
  shows "seeded env s'"
proof -
  obtain s1 s2 s3 where st: "seed_ranks (zip buildBeltRanks rids) s = (s1, Inr ())" "ensure_setting ''tuition_rates'' (JObj []) s1 = (s2, Inr ())"
    "ensure_setting ''bank_account'' empty_account s2 = (s3, Inr ())" "seed_admin h env now s3 = (s', Inr u)"
    using assms(1) unfolding seed_base_def by (elim bindE_Inr) auto
  have a: "only_adds s1 s2" "only_adds s2 s3" "only_adds s3 s'"
    using ensure_setting_adds [of s1 "''tuition_rates''" "JObj []"] ensure_setting_adds [of s2 "''bank_account''" empty_account]
      seed_admin_adds [of s3 h env now] st(2-4) by simp_all
  have "has_code s' (sdr_code r)" if r: "r \<in> set buildBeltRanks" for r
  proof -
    obtain rid where "(r, rid) \<in> set (zip buildBeltRanks rids)" using r assms(2) by (metis in_set_impl_in_set_zip1)
    then have "has_code s1 (sdr_code r)" using seed_ranks_ok [OF st(1)] by blast
    then show ?thesis using only_adds_has [OF only_adds_trans [OF a(1) only_adds_trans [OF a(2,3)]]] by blast
  qed
  moreover have "has_setting s' ''tuition_rates''" using ensure_setting_ok [OF st(2)] only_adds_has [OF only_adds_trans [OF a(2,3)]] by blast
  moreover have "has_setting s' ''bank_account''" using ensure_setting_ok [OF st(3)] only_adds_has [OF a(3)] by blast
  ultimately show ?thesis using seed_admin_ok [OF st(4)] by (simp add: seeded_def)
qed

lemma seed_base_again: "seeded env s \<Longrightarrow> seed_base h rids env now s = (s, Inr ())"
proof -
  assume s: "seeded env s"
  then have "seed_ranks (zip buildBeltRanks rids) s = (s, Inr ())"
    by (intro seed_ranks_present) (auto simp: seeded_def dest: set_zip_leftD)
  then show ?thesis using s by (simp add: seed_base_def seeded_def ensure_setting_present seed_admin_present)
qed

lemma demo_user_ok: "demo_user email h role now s = (s', Inr u) \<Longrightarrow> has_email s' email"
  unfolding demo_user_def using user_rows.create_Inr(1,2) [of user_uqs "new_user email h role (Some now) now" s s' u]
  by (simp add: has_email_def new_user_def)

lemma demo_accounts_marker:
  assumes "demo_accounts h now s = (s', Inr u)"
  shows "has_email s' MARKER"
  using assms unfolding demo_accounts_def
proof (rule bind_second)
  fix t admin
  assume "bindE (demo_user MARKER h INSTRUCTOR now) (\<lambda>instructor. bindE (demo_user ''demo-parent@example.com'' h PARENT now) (\<lambda>parent.
     bindE (demo_user ''demo-student@example.com'' h STUDENT now) (\<lambda>student. returnE (admin, instructor, parent, student)))) t = (s', Inr u)"
  then show ?thesis
    by (rule bind_first) (rule demo_user_ok, assumption, unfold demo_user_def, intro kept_rules kept_tables)
qed

lemma demo_marker:
  assumes "seedDemoDataset h d1 d2 d3 now s = (s', Inr u)"
  shows "has_email s' MARKER"
proof (cases "find_email MARKER (users s)")
  case (Some x)
  then have "s' = s" using assms by (simp add: seedDemoDataset_def)
  then show ?thesis using find_SomeD [OF Some [unfolded find_email_def]] by (auto simp: has_email_def)
next
  case None
  then have "bindE (demo_accounts (h ''Demo#2026'') now) (\<lambda>people. demo_dataset people d1 d2 d3 now) s = (s', Inr u)"
    using assms by (simp add: seedDemoDataset_def)
  then show ?thesis by (rule bind_first) (rule demo_accounts_marker, assumption, rule kept_dataset)
qed

lemma demo_again: "has_email s MARKER \<Longrightarrow> seedDemoDataset h d1 d2 d3 now s = (s, Inr ())"
  by (auto simp: seedDemoDataset_def has_email_def find_email_def find_iff)

lemma seed_main_keeps:
  "set (users s) \<subseteq> set (users (fst (seed_main h rids env d1 d2 d3 now s))) \<and>
   set (beltRanks s) \<subseteq> set (beltRanks (fst (seed_main h rids env d1 d2 d3 now s)))"
proof -
  obtain t r where b: "seed_base h rids env now s = (t, r)" by fastforce
  have a: "set (users s) \<subseteq> set (users t)" "set (beltRanks s) \<subseteq> set (beltRanks t)"
    using seed_base_adds [of s h rids env now] b by (auto simp: only_adds_def)
  have "retains t (fst (seedDemoDataset h d1 d2 d3 now t))" using kept.keepsD [OF kept_demo] by (metis prod.collapse)
  then show ?thesis using a b by (auto simp: seed_main_def bindE_def retains_def split: sum.splits)
qed

text \<open>
  C40: Seeding is safe to repeat. Whatever the database holds and whether the run succeeds or fails, the bootstrap
  only appends ranks, settings and accounts and changes no row that was there, so edits of the club survive;
  without the demonstration switch that is all a run does. With it a run also sets both settings, whatever they
  were, and fills other tables, but it keeps every account and rank. After a successful run every rank, both
  settings and the configured administrator are there, and a further run with the same configuration, at any time and
  whatever it draws, changes nothing and succeeds.
\<close>

theorem seed_safe_to_repeat:
  assumes "length rids = length buildBeltRanks"
  shows "only_adds s (fst (seed_base h rids env now s)) \<and>
    (sen_demo env \<noteq> Some ''true'' \<longrightarrow> only_adds s (fst (seed_main h rids env d1 d2 d3 now s))) \<and>
    set (users s) \<subseteq> set (users (fst (seed_main h rids env d1 d2 d3 now s))) \<and>
    set (beltRanks s) \<subseteq> set (beltRanks (fst (seed_main h rids env d1 d2 d3 now s))) \<and>
    (\<forall>s'. seed_main h rids env d1 d2 d3 now s = (s', Inr ()) \<longrightarrow>
       seeded env s' \<and> (\<forall>h' rids' e1 e2 e3 now'. seed_main h' rids' env e1 e2 e3 now' s' = (s', Inr ())))"
proof (intro conjI allI impI)
  show "only_adds s (fst (seed_base h rids env now s))" by (rule seed_base_adds)
  show "only_adds s (fst (seed_main h rids env d1 d2 d3 now s))" if "sen_demo env \<noteq> Some ''true''"
    unfolding seed_main_def using that by (intro only_adds_bind seed_base_adds) (simp add: only_adds_refl)
  show "set (users s) \<subseteq> set (users (fst (seed_main h rids env d1 d2 d3 now s)))"
    "set (beltRanks s) \<subseteq> set (beltRanks (fst (seed_main h rids env d1 d2 d3 now s)))"
    using seed_main_keeps by blast+
next
  fix s'
  assume m: "seed_main h rids env d1 d2 d3 now s = (s', Inr ())"
  then obtain t where t: "seed_base h rids env now s = (t, Inr ())"
    "(if sen_demo env \<noteq> Some ''true'' then (t, Inr ()) else seedDemoDataset h d1 d2 d3 now t) = (s', Inr ())"
    unfolding seed_main_def by (elim bindE_Inr) auto
  have "retains t s'" using t(2) kept.keepsD [OF kept_demo, of t h d1 d2 d3 now] by (auto split: if_splits)
  then show sd: "seeded env s'" using seeded_retains seed_base_seeded [OF t(1) assms] by blast
  have "sen_demo env = Some ''true'' \<Longrightarrow> has_email s' MARKER" using t(2) demo_marker by simp
  then show "seed_main h' rids' env e1 e2 e3 now' s' = (s', Inr ())" for h' rids' e1 e2 e3 now'
    using seed_base_again [OF sd] demo_again by (simp add: seed_main_def bindE_def)
qed

text \<open>A first run on an empty database.\<close>

definition env_base :: seed_env where
  "env_base = \<lparr> sen_adminEmail = Some ''boss@club.vn'', sen_adminPassword = Some ''Secret123'', sen_demo = None \<rparr>"

definition club1 :: app where
  "club1 = fst (seed_main id [1..15] env_base [] [] [] 0 empty_app)"

theorem seed_safe_to_repeat_witness:
  "length (beltRanks club1) = 15 \<and> seed_main rev [21..35] env_base [] [] [] 9 club1 = (club1, Inr ())"
proof -
  have r: "snd (seed_main id [1..15] env_base [] [] [] 0 empty_app) = Inr ()" "length (beltRanks club1) = 15"
    "length [1..15] = length buildBeltRanks" by code_simp+
  then have "seed_main id [1..15] env_base [] [] [] 0 empty_app = (club1, Inr ())" by (simp add: club1_def prod_eq_iff)
  then show ?thesis using seed_safe_to_repeat [OF r(3), of empty_app id env_base 0 "[]" "[]" "[]"] r(2) by blast
qed

text \<open>The seeded ranks have different codes and ascend.\<close>

lemma buildBeltRanks_order:
  "distinct (map sdr_code buildBeltRanks)" "map sdr_orderIndex buildBeltRanks = [1..15]"
  by code_simp+

text \<open>
  The guard of the demonstration data is written before the data. A run that fails after it leaves a part of them, and
  every later run skips the rest: here an account of that name exists already, and there will never be a class.
\<close>

definition half0 :: app where
  "half0 = empty_app\<lparr>users := [new_user ''demo-student@example.com'' ''h'' STUDENT None 0 ''x'']\<rparr>"

lemma demo_left_incomplete:
  "snd (seedDemoDataset id [] [] [] 0 half0) = Inl (P2002 [''email''])"
  "seedDemoDataset h d1 d2 d3 now (fst (seedDemoDataset id [] [] [] 0 half0)) = (fst (seedDemoDataset id [] [] [] 0 half0), Inr ())"
  "classes (fst (seedDemoDataset id [] [] [] 0 half0)) = []"
proof -
  show "snd (seedDemoDataset id [] [] [] 0 half0) = Inl (P2002 [''email''])"
    "classes (fst (seedDemoDataset id [] [] [] 0 half0)) = []" by code_simp+
  have "has_email (fst (seedDemoDataset id [] [] [] 0 half0)) MARKER" by code_simp
  then show "seedDemoDataset h d1 d2 d3 now (fst (seedDemoDataset id [] [] [] 0 half0)) = (fst (seedDemoDataset id [] [] [] 0 half0), Inr ())"
    by (rule demo_again)
qed

text \<open>
  A rank whose code the club has changed is missed by the lookup and its order index is in use, so every later run
  stops at it.
\<close>

lemma renamed_rank_stops_seed:
  assumes "\<not> has_code s ''LAM_1''" and "\<exists>x \<in> set (beltRanks s). rank_orderIndex x = 1" and "rids \<noteq> []"
  shows "\<exists>e. seed_main h rids env d1 d2 d3 now s = (s, Inl e)"
proof -
  let ?r = "\<lparr> sdr_code = ''LAM_1'', sdr_name = ''Blue Belt 1'', sdr_rankGroup = LAM, sdr_orderIndex = 1 \<rparr>"
  obtain i js where i: "rids = i # js" using assms(3) by (cases rids) auto
  obtain rs where b: "buildBeltRanks = ?r # rs" by (simp add: buildBeltRanks_def seed_groups_def show_group_def upt_rec)
  have f: "List.find (\<lambda>x. rank_code x = ''LAM_1'') (beltRanks s) = None" using assms(1) by (auto simp: has_code_def find_iff)
  have "\<not> unique_on (\<lambda>r. Some (show_int (rank_orderIndex r))) (beltRanks s @ [seed_row ?r i])"
    using assms(2) by (auto simp: unique_on_total [OF refl] seed_row_def image_iff)
  then have "\<not> (\<exists>t. insert_row rank_uqs (seed_row ?r i) (beltRanks s) = Inr t)"
    using check_unique_Inr [of rank_uqs "beltRanks s @ [seed_row ?r i]"] by (auto simp: insert_row_def rank_uqs_def)
  then obtain e where "insert_row rank_uqs (seed_row ?r i) (beltRanks s) = Inl e"
    by (cases "insert_row rank_uqs (seed_row ?r i) (beltRanks s)") auto
  then have "ensure_rank ?r i s = (s, Inl e)" using f by (simp add: ensure_rank_def)
  then show ?thesis by (simp add: seed_main_def seed_base_def b i bindE_def)
qed

end
