(* ===== verification/Spec2Isabelle.thy ===== *)
theory Spec2Isabelle
  imports Gateways Auth_Login Attendance Requests Notices Reports Config Money_Api Contract_Inputs Payloads
    Audit_Drain Startup Seed
begin

text \<open>
  A verification of the Vovinam club management API (\<^verbatim>\<open>src/src\<close>, TypeScript on NestJS, Prisma and PostgreSQL).

  \<^bold>\<open>The program.\<close> A request passes the global throttle, the guards of its controller (per-address limit, bearer token,
  roles) and the id pipe, and reaches one service method. The services share the tables of
  \<^verbatim>\<open>prisma/schema.prisma\<close>, an in-memory store with expiry (rate limits, lockouts, denied tokens, second-factor
  state) and an audit queue that is written behind the request. Background jobs age invoices, send
  notifications from an outbox and purge used tokens. Money comes in through QR payments that a gateway
  confirms by a signed webhook, and as cash that an administrator confirms.

  \<^bold>\<open>The model.\<close> The state is the record \<^typ>\<open>app\<close>: one list of rows per table, the store, the audit queue, the
  mails sent, and the source of fresh ids. A handler is a function from the state to the new state and an
  error or a value (\<^typ>\<open>'a res\<close>); each throw of the source is a branch. \<^const>\<open>transaction\<close> rolls the tables back on an
  error and keeps the rest. The clock, random bytes and ids are arguments. Where the source reads a row
  in one statement and writes in another, what was read is an argument of its own (\<open>view\<close>, \<open>seen\<close>, \<open>counted\<close>), so a
  theorem that quantifies over it covers every interleaving of the two. Unique constraints are checked
  at each insertion and update (\<^const>\<open>insert_row\<close>, \<^const>\<open>check_unique\<close>). Integers are unbounded except where the source
  bounds them: amounts are checked against the INTEGER column, and the attendance percentage is computed
  in double precision. jsonwebtoken, bcrypt, SHA-256, AES-GCM, HMAC, JSON, otplib, Joi, class-validator, the
  throttler, the gateway's HTTP, the mail transport and the file system are parameters; what a theorem needs of one is
  among its hypotheses.

  \<^bold>\<open>Foundations.\<close> \<^verbatim>\<open>Prelude\<close> has strings, numbers, exceptions, sequencing and table queries, and the locale
  \<open>claim_guard\<close>, the conditional update by which the services make an operation happen once. \<^verbatim>\<open>Database\<close> has the rows.
  \<^verbatim>\<open>Handlers\<close> has the locale \<open>db_relation\<close>: a relation between states that every step of a handler keeps is kept by
  the handler. \<^verbatim>\<open>Tables\<close> has the locale \<open>table\<close>, create, update and delete on one table, interpreted for twenty.
  \<^verbatim>\<open>Calendar\<close> has the dates of the language, \<^verbatim>\<open>Shared_Store\<close> the store of \<^verbatim>\<open>common/shared-store.ts\<close> with the locale
  \<open>ttl_store\<close>, \<^verbatim>\<open>Audit_Log\<close> the queue of \<^verbatim>\<open>auth/audit\<close> as a step relation, and \<^verbatim>\<open>Audit_Drain\<close> its loop and the shutdown
  hook, which terminate and account for every entry.

  \<^bold>\<open>Billing and payments\<close> (\<^verbatim>\<open>src/billing\<close>). \<^verbatim>\<open>Sequential_Code\<close>, \<^verbatim>\<open>Discounts\<close>, \<^verbatim>\<open>Invoices\<close> and \<^verbatim>\<open>Reports\<close> model
  \<^verbatim>\<open>billing.service.ts\<close> (numbering, discount codes, invoices, the monthly close, ageing, reports, settings);
  \<^verbatim>\<open>Payment_Port\<close>, \<^verbatim>\<open>Payments\<close> and \<^verbatim>\<open>Gateways\<close> model \<^verbatim>\<open>payments.service.ts\<close> and the two adapters behind the locale \<open>signed_port\<close>.
  \<^verbatim>\<open>Settlement\<close> shows the money invariant along every run with stale reads (what is settled on an invoice is
  nothing or its total, and its status says which), that one transfer settles at most once and that receipts never go
  back;
  \<^verbatim>\<open>Webhook\<close> shows each operation branch by branch; \<^verbatim>\<open>Gateways\<close> that forged deliveries are refused;
  \<^verbatim>\<open>Money_Api\<close> serves the payments controller through the guards and shows who can move money.

  \<^bold>\<open>Authentication\<close> (\<^verbatim>\<open>src/auth\<close>). \<^verbatim>\<open>Tokens\<close>, \<^verbatim>\<open>Totp\<close>, \<^verbatim>\<open>Auth\<close> and \<^verbatim>\<open>Guards\<close> model tokens, the second factor, every method of
  \<^verbatim>\<open>auth.service.ts\<close>, the guards and the administration of accounts. \<^verbatim>\<open>Auth_Safety\<close> shows what no operation undoes (locale
  \<open>auth_relation\<close>), \<^verbatim>\<open>Auth_Guarantees\<close> that a change of credentials ends what was issued before, \<^verbatim>\<open>Auth_Flows\<close> that refresh and
  mailed tokens work once, \<^verbatim>\<open>Auth_Login\<close> what login decides and when it locks.

  \<^bold>\<open>The club.\<close> \<^verbatim>\<open>Ownership\<close> models who may see a student and shows that the list and the check agree;
  \<^verbatim>\<open>Students\<close>, \<^verbatim>\<open>Classes\<close>, \<^verbatim>\<open>Exams\<close>, \<^verbatim>\<open>Attendance\<close>, \<^verbatim>\<open>Requests\<close> (absence requests, promotion proposals, evaluations; locale
  \<open>requests\<close>) and \<^verbatim>\<open>Notices\<close> (consent, announcements, feed) model the services of the same names. They show that
  invite codes work once, classes keep within their capacity while their edits count the current enrollments,
  registrations obey the rules of the exam and belts do not fall, marks and reports are exact, decisions are
  final when requests are served in turn and never reopened by stale reads, consent is append-only.
  \<^verbatim>\<open>Outbox\<close> models the notification worker with its failing database calls and its stopping flag: bounded attempts,
  claims exactly while a row is being sent, no row sent twice by one pass, progress.

  \<^bold>\<open>The boundary.\<close> \<^verbatim>\<open>Http\<close> models envelope, exception filter, interceptors and operational endpoints; \<^verbatim>\<open>Routes\<close> the
  route tables of the 21 controllers and the way of a request to its handler; \<^verbatim>\<open>Dto\<close> the request classes with
  their decorators, and what the services may assume of a body that passes the validation pipe; \<^verbatim>\<open>Inputs\<close> the
  parameter classes of each operation; \<^verbatim>\<open>Config\<close> the validation of the environment and its getters. A JSON null
  passes \<^verbatim>\<open>@IsOptional\<close> and is not \<^verbatim>\<open>undefined\<close>: the type \<^typ>\<open>'a supplied\<close> keeps the two apart in the bodies that create
  invoices and discount codes and in the page of a query; the other handlers take an optional property
  as given or left out.

  \<^bold>\<open>The published contract\<close> (\<^verbatim>\<open>src/openapi\<close>). \<^verbatim>\<open>Schemas\<close> has the response schemas, \<^verbatim>\<open>Contract\<close> the table of operations and its
  application to the generated document: it covers the routes exactly and every reference resolves.
  \<^verbatim>\<open>Contract_Inputs\<close> compares the documented parameters and request examples with the request classes, \<^verbatim>\<open>Payloads\<close>
  the JSON of the answers with their schemas, with the text of an instant from \<^verbatim>\<open>Instants\<close>, where it is shown to be a
  date-time of RFC 3339 for the years 0 to 9999. Both also show where contract and code differ.

  \<^bold>\<open>Process start and data.\<close> \<^verbatim>\<open>Startup\<close> models \<^verbatim>\<open>main.ts\<close>, \<^verbatim>\<open>bootstrap.ts\<close> and what the constructors decide, the mail senders
  and the logger: when the process starts on a given host and with what, and that no mail content is logged. \<^verbatim>\<open>Seed\<close>
  models \<^verbatim>\<open>prisma/seed.ts\<close> and shows that its bootstrap only adds and that it can be repeated with the same
  configuration.

  \<^bold>\<open>Bounds.\<close> The recursion is total but for \<^const>\<open>drain\<close>, a partial function whose termination is a theorem. The retry
  loops of the source are bounded there (five attempts for an invoice number, for an invite code) and have the
  same bound here; \<^const>\<open>year_from\<close> has a termination proof. No definition takes fuel.

  \<^bold>\<open>Not modelled.\<close> The handlers take decoded values; the decoding itself is that of class-transformer. Dependency
  injection, the Prisma connection and Prometheus counters belong to the frameworks. Summaries, descriptions and
  titles of the contract are texts. The JSON of the answers is compared with the schemas for errors, accounts, invoices,
  payments, discount codes, students, exam registrations and the notification feed. The load
  script and the build scripts drive the service or the build from outside.
  Requests are interleaved at the statements named above; PostgreSQL's isolation is read committed, and
  a transaction's statements run together except where its body reads a stale row.
\<close>

end
